(* ===== verification/Prelude.thy ===== *)
theory Prelude
  imports Complex_Main "HOL-Library.Multiset"
begin

text \<open>
  Shared vocabulary of the development: results that may be a thrown error, the string and
  array operations of the JavaScript standard library that the sources call, and the
  generic lemmas on them. Strings are lists of Latin-1 code units.
\<close>

named_theorems result_simps \<open>unfolding of the error-passing combinators\<close>
named_theorems js_defs \<open>definitions of the JavaScript library operations\<close>

section \<open>Thrown errors as values\<close>

type_synonym ('e, 'a) result = "'e + 'a"

fun rbind :: "('e, 'a) result \<Rightarrow> ('a \<Rightarrow> ('e, 'b) result) \<Rightarrow> ('e, 'b) result" where
  "rbind (Inl e) f = Inl e"
| "rbind (Inr x) f = f x"

text \<open>\<open>xs.map(f)\<close> where \<open>f\<close> may throw: the first error leaves the loop.\<close>

fun rtraverse :: "('a \<Rightarrow> ('e, 'b) result) \<Rightarrow> 'a list \<Rightarrow> ('e, 'b list) result" where
  "rtraverse f [] = Inr []"
| "rtraverse f (x # xs) = rbind (f x) (\<lambda>y. rbind (rtraverse f xs) (\<lambda>ys. Inr (y # ys)))"

text \<open>A \<open>for\<close> loop over a state whose body may throw.\<close>

fun rfold :: "('s \<Rightarrow> 'a \<Rightarrow> ('e, 's) result) \<Rightarrow> 's \<Rightarrow> 'a list \<Rightarrow> ('e, 's) result" where
  "rfold f s [] = Inr s"
| "rfold f s (x # xs) = rbind (f s x) (\<lambda>s'. rfold f s' xs)"

text \<open>A check that throws when it fails.\<close>

definition ensure :: "bool \<Rightarrow> 'e \<Rightarrow> ('e, unit) result" where
  "ensure b e = (if b then Inr () else Inl e)"

lemma rbind_eq_Inr [result_simps]:
  "rbind r f = Inr y \<longleftrightarrow> (\<exists>x. r = Inr x \<and> f x = Inr y)"
  by (cases r) auto

lemma rbind_eq_Inl [result_simps]:
  "rbind r f = Inl e \<longleftrightarrow> r = Inl e \<or> (\<exists>x. r = Inr x \<and> f x = Inl e)"
  by (cases r) auto

lemma ensure_eq_Inr [result_simps]: "ensure b e = Inr u \<longleftrightarrow> b"
  by (cases u) (simp add: ensure_def)

lemma ensure_eq_Inl [result_simps]: "ensure b e = Inl e' \<longleftrightarrow> \<not> b \<and> e' = e"
  by (auto simp: ensure_def)

lemma ensure_simps [simp]: "ensure True e = Inr ()" "ensure False e = Inl e"
  by (simp_all add: ensure_def)

lemma rbind_cong [fundef_cong]:
  "r = r' \<Longrightarrow> (\<And>x. r' = Inr x \<Longrightarrow> f x = g x) \<Longrightarrow> rbind r f = rbind r' g"
  by (cases r') auto

lemma rtraverse_cong [fundef_cong]:
  "xs = ys \<Longrightarrow> (\<And>x. x \<in> set ys \<Longrightarrow> f x = g x) \<Longrightarrow> rtraverse f xs = rtraverse g ys"
proof (induction ys arbitrary: xs)
  case Nil
  then show ?case by simp
next
  case (Cons y ys)
  then have "rtraverse f ys = rtraverse g ys" by simp
  with Cons show ?case by simp
qed

lemma rtraverse_Inr_iff:
  "rtraverse f xs = Inr ys \<longleftrightarrow> list_all2 (\<lambda>x y. f x = Inr y) xs ys"
  by (induction xs arbitrary: ys) (auto simp: result_simps list_all2_Cons1)

lemma rtraverse_total:
  "(\<And>x. x \<in> set xs \<Longrightarrow> \<exists>y. f x = Inr y) \<Longrightarrow> \<exists>ys. rtraverse f xs = Inr ys"
  by (induction xs) (auto simp: result_simps)

lemma rtraverse_Inl:
  "rtraverse f xs = Inl e \<Longrightarrow> \<exists>x \<in> set xs. f x = Inl e"
  by (induction xs) (auto simp: result_simps)

lemma rtraverse_length: "rtraverse f xs = Inr ys \<Longrightarrow> length ys = length xs"
  by (auto simp: rtraverse_Inr_iff dest: list_all2_lengthD)

lemma rtraverse_in_set:
  "rtraverse f xs = Inr ys \<Longrightarrow> y \<in> set ys \<Longrightarrow> \<exists>x \<in> set xs. f x = Inr y"
proof (induction xs arbitrary: ys)
  case (Cons a xs)
  then show ?case by (auto simp: result_simps)
qed simp

lemma rtraverse_in_arg:
  "rtraverse f xs = Inr ys \<Longrightarrow> x \<in> set xs \<Longrightarrow> \<exists>y \<in> set ys. f x = Inr y"
proof (induction xs arbitrary: ys)
  case (Cons a xs)
  then show ?case by (auto simp: result_simps)
qed simp

lemma rtraverse_append:
  "rtraverse f (xs @ ys) =
     rbind (rtraverse f xs) (\<lambda>us. rbind (rtraverse f ys) (\<lambda>vs. Inr (us @ vs)))"
proof (induction xs)
  case Nil
  show ?case by (cases "rtraverse f ys") auto
next
  case (Cons x xs)
  then show ?case
    by (cases "f x"; cases "rtraverse f xs"; cases "rtraverse f ys") auto
qed

text \<open>An invariant of the loop body is an invariant of the loop.\<close>

lemma rfold_invariant:
  assumes "rfold f s xs = Inr s'" and "P s"
    and "\<And>t x t'. P t \<Longrightarrow> x \<in> set xs \<Longrightarrow> f t x = Inr t' \<Longrightarrow> P t'"
  shows "P s'"
  using assms
proof (induction xs arbitrary: s)
  case Nil
  then show ?case by simp
next
  case (Cons x xs)
  from Cons.prems(1) obtain t where t: "f s x = Inr t" and rest: "rfold f t xs = Inr s'"
    by (auto simp: rbind_eq_Inr)
  have "P t" by (rule Cons.prems(3) [OF Cons.prems(2) _ t]) simp
  show ?case
    by (rule Cons.IH [OF rest \<open>P t\<close>]) (use Cons.prems(3) in auto)
qed

section \<open>JavaScript numbers\<close>

text \<open>
  A finite number is represented by the rational its shortest decimal rendering denotes,
  which is also the value \<open>new Decimal(n)\<close> takes.
\<close>

datatype js_number = JFin rat | JNaN | JInf bool

fun is_finite_number :: "js_number \<Rightarrow> bool" where
  "is_finite_number (JFin _) = True"
| "is_finite_number _ = False"

section \<open>Strings\<close>

text \<open>White space of \<open>String.prototype.trim\<close>, restricted to Latin-1.\<close>

definition is_space :: "char \<Rightarrow> bool" where
  [js_defs]: "is_space c = (of_char c \<in> {9, 10, 11, 12, 13, 32, 160 :: int})"

definition js_trim_start :: "string \<Rightarrow> string" where
  [js_defs]: "js_trim_start s = dropWhile is_space s"

definition js_trim :: "string \<Rightarrow> string" where
  [js_defs]: "js_trim s = rev (dropWhile is_space (rev (dropWhile is_space s)))"

text \<open>\<open>toLowerCase\<close> on Latin-1: A--Z and the accented capitals, the multiplication sign apart.\<close>

definition to_lower_char :: "char \<Rightarrow> char" where
  [js_defs]: "to_lower_char c =
     (let n = (of_char c :: int)
      in if (65 \<le> n \<and> n \<le> 90) \<or> (192 \<le> n \<and> n \<le> 222 \<and> n \<noteq> 215) then char_of (n + 32) else c)"

definition js_to_lower :: "string \<Rightarrow> string" where
  [js_defs]: "js_to_lower s = map to_lower_char s"

text \<open>\<open>s.split(sep)\<close> for a one-character separator.\<close>

fun js_split :: "char \<Rightarrow> string \<Rightarrow> string list" where
  "js_split d [] = [[]]"
| "js_split d (c # cs) =
     (if c = d then [] # js_split d cs
      else (case js_split d cs of [] \<Rightarrow> [[c]] | w # ws \<Rightarrow> (c # w) # ws))"

text \<open>\<open>parts.join(sep)\<close>.\<close>

fun js_join :: "string \<Rightarrow> string list \<Rightarrow> string" where
  "js_join sep [] = []"
| "js_join sep [w] = w"
| "js_join sep (w # ws) = w @ sep @ js_join sep ws"

text \<open>\<open>s.charAt(i)\<close>: the empty string out of range.\<close>

definition char_at :: "string \<Rightarrow> nat \<Rightarrow> char option" where
  [js_defs]: "char_at s i = (if i < length s then Some (s ! i) else None)"

text \<open>\<open>s.indexOf(p)\<close>: the first position at which \<open>p\<close> occurs, \<open>None\<close> for -1.\<close>

definition is_prefix_of :: "string \<Rightarrow> string \<Rightarrow> bool" where
  [js_defs]: "is_prefix_of p s = (take (length p) s = p)"

fun index_of :: "string \<Rightarrow> string \<Rightarrow> nat option" where
  "index_of p [] = (if p = [] then Some 0 else None)"
| "index_of p (c # cs) =
     (if is_prefix_of p (c # cs) then Some 0 else map_option Suc (index_of p cs))"

text \<open>Truthiness of an optional string: \<open>undefined\<close> and the empty string are falsy.\<close>

definition truthy :: "string option \<Rightarrow> bool" where
  [js_defs]: "truthy s = (case s of None \<Rightarrow> False | Some t \<Rightarrow> t \<noteq> [])"

text \<open>\<open>Boolean(s?.trim())\<close>, the check the sources use for a stated value.\<close>

definition stated :: "string option \<Rightarrow> bool" where
  [js_defs]: "stated s = truthy (map_option js_trim s)"

lemma js_trim_Nil [simp]: "js_trim [] = []"
  by (simp add: js_trim_def)

lemma js_trim_no_space:
  "(\<forall>c \<in> set s. \<not> is_space c) \<Longrightarrow> js_trim s = s"
proof -
  assume a: "\<forall>c \<in> set s. \<not> is_space c"
  have d: "dropWhile is_space t = t" if "\<forall>c \<in> set t. \<not> is_space c" for t
    using that by (cases t) auto
  show ?thesis using a by (simp add: js_trim_def d)
qed

lemma set_js_trim: "set (js_trim s) \<subseteq> set s"
proof -
  have d: "set (dropWhile is_space t) \<subseteq> set t" for t by (auto dest: set_dropWhileD)
  have "set (js_trim s) \<subseteq> set (dropWhile is_space s)"
    using d [of "rev (dropWhile is_space s)"] by (simp add: js_trim_def)
  also have "\<dots> \<subseteq> set s" by (rule d)
  finally show ?thesis .
qed

lemma js_trim_hd: "js_trim s = c # cs \<Longrightarrow> \<not> is_space c"
proof -
  assume a: "js_trim s = c # cs"
  let ?d = "dropWhile is_space s"
  have "?d \<noteq> []"
  proof
    assume "?d = []"
    then have "js_trim s = []" by (simp only: js_trim_def) simp
    with a show False by simp
  qed
  then obtain x xs where x: "?d = x # xs" "\<not> is_space x"
    by (cases ?d) (auto dest: hd_dropWhile simp: dropWhile_eq_Cons_conv)
  have "rev (dropWhile is_space (rev (x # xs))) = x # rev (dropWhile is_space (rev xs))"
    using x(2) by (simp add: dropWhile_append)
  with a x show ?thesis by (simp add: js_trim_def)
qed

lemma js_split_not_Nil [simp]: "js_split d s \<noteq> []"
  by (induction s) (auto split: list.splits)

lemma js_split_no_sep: "d \<notin> set s \<Longrightarrow> js_split d s = [s]"
  by (induction s) auto

lemma js_split_append_sep:
  "d \<notin> set w \<Longrightarrow> js_split d (w @ d # s) = w # js_split d s"
  by (induction w) auto

lemma js_split_elems: "w \<in> set (js_split d s) \<Longrightarrow> d \<notin> set w"
  by (induction s arbitrary: w) (auto split: if_splits list.splits)

lemma js_split_join:
  "ws \<noteq> [] \<Longrightarrow> (\<forall>w \<in> set ws. d \<notin> set w) \<Longrightarrow> js_split d (js_join [d] ws) = ws"
proof (induction ws rule: induct_list012)
  case (3 w v ws)
  then show ?case by (simp add: js_split_append_sep)
qed (auto simp: js_split_no_sep)

lemma js_join_split: "js_join [d] (js_split d s) = s"
proof (induction s)
  case (Cons c s)
  obtain w ws where w: "js_split d s = w # ws" by (cases "js_split d s") auto
  have j: "js_join [d] ((c # w) # ws) = c # js_join [d] (w # ws)" by (cases ws) auto
  show ?case using Cons w j by auto
qed simp

lemma js_to_lower_length [simp]: "length (js_to_lower s) = length s"
  by (simp add: js_to_lower_def)

lemma index_of_prefix: "is_prefix_of p s \<Longrightarrow> index_of p s = Some 0"
  by (cases s) (auto simp: is_prefix_of_def)

section \<open>Decimal printing of numbers\<close>

definition digit_char :: "int \<Rightarrow> char" where
  "digit_char n =
     (if n < 5
      then (if n < 2 then (if n < 1 then CHR ''0'' else CHR ''1'')
            else (if n < 3 then CHR ''2'' else (if n < 4 then CHR ''3'' else CHR ''4'')))
      else (if n < 7 then (if n < 6 then CHR ''5'' else CHR ''6'')
            else (if n < 8 then CHR ''7'' else (if n < 9 then CHR ''8'' else CHR ''9''))))"

definition char_digit :: "char \<Rightarrow> int" where
  "char_digit c = of_char c - 48"

definition is_digit :: "char \<Rightarrow> bool" where
  "is_digit c = (48 \<le> (of_char c :: int) \<and> (of_char c :: int) \<le> 57)"

text \<open>The decimal digits of a non-negative integer.\<close>

function show_int :: "int \<Rightarrow> string" where
  "show_int n = (if n < 10 then [digit_char n] else show_int (n div 10) @ [digit_char (n mod 10)])"
  by pat_completeness auto
termination
  by (relation "measure nat") auto

declare show_int.simps [simp del]

definition show_nat :: "nat \<Rightarrow> string" where
  "show_nat n = show_int (int n)"

text \<open>The last \<open>w\<close> digits, padded with zeros on the left.\<close>

fun show_width :: "nat \<Rightarrow> int \<Rightarrow> string" where
  "show_width 0 n = []"
| "show_width (Suc w) n = show_width w (n div 10) @ [digit_char (n mod 10)]"

definition read_int :: "string \<Rightarrow> int" where
  "read_int s = foldl (\<lambda>a c. 10 * a + char_digit c) 0 s"

lemma char_digit_digit_char [simp]: "0 \<le> n \<Longrightarrow> n < 10 \<Longrightarrow> char_digit (digit_char n) = n"
  by (auto simp: char_digit_def digit_char_def)

lemma is_digit_digit_char [simp]: "is_digit (digit_char n)"
  by (simp add: is_digit_def digit_char_def)

lemma show_width_numeral:
  "show_width (numeral k) n = show_width (pred_numeral k) (n div 10) @ [digit_char (n mod 10)]"
  by (metis numeral_eq_Suc show_width.simps(2))

lemma read_int_snoc [simp]: "read_int (s @ [c]) = 10 * read_int s + char_digit c"
  by (simp add: read_int_def)

lemma read_int_Nil [simp]: "read_int [] = 0"
  by (simp add: read_int_def)

lemma read_show_int [simp]: "0 \<le> n \<Longrightarrow> read_int (show_int n) = n"
proof (induction n rule: show_int.induct)
  case (1 n)
  show ?case
  proof (cases "n < 10")
    case True
    with 1 show ?thesis by (simp add: show_int.simps [of n] read_int_def)
  next
    case False
    with 1 have "read_int (show_int (n div 10)) = n div 10" by simp
    with False show ?thesis by (simp add: show_int.simps [of n])
  qed
qed

lemma show_int_digits: "c \<in> set (show_int n) \<Longrightarrow> is_digit c"
proof (induction n rule: show_int.induct)
  case (1 n)
  then show ?case by (cases "n < 10") (auto simp: show_int.simps [of n])
qed

lemma show_int_not_Nil [simp]: "show_int n \<noteq> []"
  by (subst show_int.simps) simp

lemma show_nat_digits: "c \<in> set (show_nat n) \<Longrightarrow> is_digit c"
  by (simp add: show_nat_def show_int_digits)

lemma show_nat_not_Nil [simp]: "show_nat n \<noteq> []"
  by (simp add: show_nat_def)

lemma show_nat_inj: "show_nat m = show_nat n \<Longrightarrow> m = n"
  by (metis show_nat_def read_show_int of_nat_0_le_iff of_nat_eq_iff)

lemma read_show_width [simp]: "read_int (show_width w n) = n mod 10 ^ w"
proof (induction w arbitrary: n)
  case (Suc w)
  have "n mod (10 * 10 ^ w) = 10 * (n div 10 mod 10 ^ w) + n mod 10"
    by (simp add: zmod_zmult2_eq)
  with Suc show ?case by simp
qed simp

lemma show_width_digits: "c \<in> set (show_width w n) \<Longrightarrow> is_digit c"
  by (induction w arbitrary: n) auto

lemma length_show_width [simp]: "length (show_width w n) = w"
  by (induction w arbitrary: n) auto

section \<open>Array.prototype.sort\<close>

text \<open>
  \<open>sort(cmp)\<close> is a stable sort; for a comparator that is a total preorder the result is
  unique, so stable insertion computes it.
\<close>

fun js_insert :: "('a \<Rightarrow> 'a \<Rightarrow> int) \<Rightarrow> 'a \<Rightarrow> 'a list \<Rightarrow> 'a list" where
  "js_insert cmp x [] = [x]"
| "js_insert cmp x (y # ys) = (if cmp x y \<le> 0 then x # y # ys else y # js_insert cmp x ys)"

fun js_sort :: "('a \<Rightarrow> 'a \<Rightarrow> int) \<Rightarrow> 'a list \<Rightarrow> 'a list" where
  "js_sort cmp [] = []"
| "js_sort cmp (x # xs) = js_insert cmp x (js_sort cmp xs)"

text \<open>The contract of a comparator function: the sign of a total preorder.\<close>

locale comparator =
  fixes cmp :: "'a \<Rightarrow> 'a \<Rightarrow> int"
  assumes cmp_total: "cmp x y \<le> 0 \<or> cmp y x \<le> 0"
    and cmp_trans: "cmp x y \<le> 0 \<Longrightarrow> cmp y z \<le> 0 \<Longrightarrow> cmp x z \<le> 0"
begin

lemma sorted_js_insert:
  "sorted_wrt (\<lambda>a b. cmp a b \<le> 0) ys \<Longrightarrow> sorted_wrt (\<lambda>a b. cmp a b \<le> 0) (js_insert cmp x ys)"
proof (induction ys)
  case (Cons y ys)
  have ins: "set (js_insert cmp x zs) = insert x (set zs)" for zs
    by (induction zs) auto
  show ?case
  proof (cases "cmp x y \<le> 0")
    case True
    with Cons.prems show ?thesis by (auto intro: cmp_trans)
  next
    case False
    then have "cmp y x \<le> 0" using cmp_total by blast
    with Cons False show ?thesis by (auto simp: ins)
  qed
qed simp

lemma sorted_js_sort: "sorted_wrt (\<lambda>a b. cmp a b \<le> 0) (js_sort cmp xs)"
  by (induction xs) (auto intro: sorted_js_insert)

end

lemma set_js_insert [simp]: "set (js_insert cmp x ys) = insert x (set ys)"
  by (induction ys) auto

lemma set_js_sort [simp]: "set (js_sort cmp xs) = set xs"
  by (induction xs) auto

lemma length_js_insert [simp]: "length (js_insert cmp x ys) = Suc (length ys)"
  by (induction ys) auto

lemma length_js_sort [simp]: "length (js_sort cmp xs) = length xs"
  by (induction xs) auto

lemma distinct_js_insert:
  "distinct (map f (js_insert cmp x ys)) \<longleftrightarrow> f x \<notin> f ` set ys \<and> distinct (map f ys)"
  by (induction ys) auto

lemma distinct_js_sort [simp]: "distinct (map f (js_sort cmp xs)) \<longleftrightarrow> distinct (map f xs)"
  by (induction xs) (auto simp: distinct_js_insert)

lemma mset_js_insert [simp]: "mset (js_insert cmp x ys) = add_mset x (mset ys)"
  by (induction ys) auto

lemma mset_js_sort [simp]: "mset (js_sort cmp xs) = mset xs"
  by (induction xs) auto

text \<open>Sorting by a key and then by a second comparator, as \<open>a.k - b.k || cmp(a, b)\<close> does.\<close>

definition then_by :: "int \<Rightarrow> int \<Rightarrow> int" where
  [js_defs]: "then_by a b = (if a \<noteq> 0 then a else b)"

lemma comparator_then_by:
  fixes k :: "'a \<Rightarrow> int"
  assumes "comparator c"
  shows "comparator (\<lambda>x y. then_by (k x - k y) (c (g x) (g y)))"
proof -
  have tot: "c a b \<le> 0 \<or> c b a \<le> 0" for a b
    using assms by (rule comparator.cmp_total)
  have tr: "c a b \<le> 0 \<Longrightarrow> c b d \<le> 0 \<Longrightarrow> c a d \<le> 0" for a b d
    using comparator.cmp_trans [OF assms] by blast
  show ?thesis
  proof
    fix x y
    show "then_by (k x - k y) (c (g x) (g y)) \<le> 0 \<or> then_by (k y - k x) (c (g y) (g x)) \<le> 0"
      using tot [of "g x" "g y"] by (auto simp: then_by_def)
  next
    fix x y z
    assume "then_by (k x - k y) (c (g x) (g y)) \<le> 0" "then_by (k y - k z) (c (g y) (g z)) \<le> 0"
    then show "then_by (k x - k z) (c (g x) (g z)) \<le> 0"
      using tr [of "g x" "g y" "g z"] by (auto simp: then_by_def split: if_splits)
  qed
qed

text \<open>Code-unit order, the order of \<open>sort()\<close> without a comparator.\<close>

fun unit_compare :: "string \<Rightarrow> string \<Rightarrow> int" where
  "unit_compare [] [] = 0"
| "unit_compare [] (_ # _) = - 1"
| "unit_compare (_ # _) [] = 1"
| "unit_compare (a # as) (b # bs) =
     (if a = b then unit_compare as bs
      else if (of_char a :: int) < of_char b then - 1 else 1)"

lemma unit_compare_antisym: "unit_compare a b = - unit_compare b a"
  by (induction a b rule: unit_compare.induct) (auto dest: le_neq_implies_less simp: not_less)

lemma unit_compare_trans:
  "unit_compare a b \<le> 0 \<Longrightarrow> unit_compare b c \<le> 0 \<Longrightarrow> unit_compare a c \<le> 0"
proof (induction a b arbitrary: c rule: unit_compare.induct)
  case (2 b bs)
  then show ?case by (cases c) auto
next
  case (4 a as b bs)
  then show ?case by (cases c) (auto split: if_splits)
qed (simp_all)

interpretation unit_order: comparator unit_compare
proof
  show "unit_compare x y \<le> 0 \<or> unit_compare y x \<le> 0" for x y
    using unit_compare_antisym [of x y] by linarith
qed (rule unit_compare_trans)

lemma unit_compare_eq_0: "unit_compare a b = 0 \<longleftrightarrow> a = b"
  by (induction a b rule: unit_compare.induct) auto

section \<open>Generic list facts\<close>

lemma list_all2_filter_map:
  "list_all2 (\<lambda>x y. y = f x) xs ys \<Longrightarrow> ys = map f xs"
  by (induction rule: list_all2_induct) auto

end
