(* ===== verification/Decimal_Lib.thy ===== *)
theory Decimal_Lib
  imports Prelude
begin

text \<open>
  The interface of the decimal.js package, which the sources call and do not contain. Its
  operations are the fields of a record that every definition using them takes as an
  argument; what the sources rely on is the locale \<open>decimal_laws\<close>, in terms of the rational
  value of a finite Decimal: results are exact whenever the exact result has at most 20
  significant digits (the package's default precision), \<open>toFixed\<close> rounds half up, printing
  re-parses. \<open>exact_decimal\<close> is a concrete instance over scaled integers.
\<close>

record 'd decimal_lib =
  dec_of_string :: "string \<Rightarrow> 'd option"
  dec_of_number :: "js_number \<Rightarrow> 'd"
  dec_is_finite :: "'d \<Rightarrow> bool"
  dec_is_zero :: "'d \<Rightarrow> bool"
  dec_is_positive :: "'d \<Rightarrow> bool"
  dec_is_negative :: "'d \<Rightarrow> bool"
  dec_plus :: "'d \<Rightarrow> 'd \<Rightarrow> 'd"
  dec_minus :: "'d \<Rightarrow> 'd \<Rightarrow> 'd"
  dec_times :: "'d \<Rightarrow> 'd \<Rightarrow> 'd"
  dec_div :: "'d \<Rightarrow> 'd \<Rightarrow> 'd"
  dec_abs :: "'d \<Rightarrow> 'd"
  dec_eq :: "'d \<Rightarrow> 'd \<Rightarrow> bool"
  dec_lt :: "'d \<Rightarrow> 'd \<Rightarrow> bool"
  dec_le :: "'d \<Rightarrow> 'd \<Rightarrow> bool"
  dec_to_string :: "'d \<Rightarrow> string"
  dec_to_fixed :: "nat \<Rightarrow> 'd \<Rightarrow> string"

text \<open>\<open>new Decimal(0)\<close> and \<open>new Decimal(1)\<close>.\<close>

abbreviation dec_zero :: "'d decimal_lib \<Rightarrow> 'd" where
  "dec_zero D \<equiv> dec_of_number D (JFin 0)"

abbreviation dec_one :: "'d decimal_lib \<Rightarrow> 'd" where
  "dec_one D \<equiv> dec_of_number D (JFin 1)"

section \<open>Values\<close>

text \<open>Numbers with at most 20 significant decimal digits.\<close>

definition sig20 :: "rat \<Rightarrow> bool" where
  "sig20 q \<longleftrightarrow> (\<exists>(m::int) (e::nat). \<bar>m\<bar> < 10 ^ 20 \<and> (q = of_int m * 10 ^ e \<or> q * 10 ^ e = of_int m))"

text \<open>Rounding half up (away from zero) to \<open>n\<close> decimal places.\<close>

definition round_half_up :: "nat \<Rightarrow> rat \<Rightarrow> rat" where
  "round_half_up n q = sgn q * of_int \<lfloor>\<bar>q\<bar> * 10 ^ n + 1 / 2\<rfloor> / 10 ^ n"

text \<open>Multiples of one ten-thousandth, the scale of every money column.\<close>

definition scale4 :: "rat \<Rightarrow> bool" where
  "scale4 q \<longleftrightarrow> (\<exists>m::int. q * 10 ^ 4 = of_int m)"

lemma scale4_zero [simp]: "scale4 0"
  by (auto simp: scale4_def intro: exI [of _ 0])

lemma scale4_add: "scale4 a \<Longrightarrow> scale4 b \<Longrightarrow> scale4 (a + b)"
proof -
  assume "scale4 a" "scale4 b"
  then obtain m n :: int where "a * 10 ^ 4 = of_int m" "b * 10 ^ 4 = of_int n"
    by (auto simp: scale4_def)
  then have "(a + b) * 10 ^ 4 = of_int (m + n)" by (simp add: algebra_simps)
  then show ?thesis unfolding scale4_def by blast
qed

lemma scale4_neg: "scale4 a \<Longrightarrow> scale4 (- a)"
proof -
  assume "scale4 a"
  then obtain m :: int where "a * 10 ^ 4 = of_int m" by (auto simp: scale4_def)
  then have "(- a) * 10 ^ 4 = of_int (- m)" by simp
  then show ?thesis unfolding scale4_def by blast
qed

lemma scale4_diff: "scale4 a \<Longrightarrow> scale4 b \<Longrightarrow> scale4 (a - b)"
  using scale4_add [of a "- b"] scale4_neg [of b] by simp

lemma scale4_abs: "scale4 a \<Longrightarrow> scale4 \<bar>a\<bar>"
  by (cases "a < 0") (auto simp: scale4_neg)

text \<open>Amounts below \<open>10\<^sup>1\<^sup>6\<close> with four decimal places fit into 20 significant digits.\<close>

lemma scale4_sig20: "scale4 q \<Longrightarrow> \<bar>q\<bar> < 10 ^ 16 \<Longrightarrow> sig20 q"
proof -
  assume s: "scale4 q" and b: "\<bar>q\<bar> < 10 ^ 16"
  from s obtain m :: int where m: "q * 10 ^ 4 = of_int m" by (auto simp: scale4_def)
  have "\<bar>of_int m :: rat\<bar> = \<bar>q\<bar> * 10 ^ 4" by (simp flip: m add: abs_mult)
  also have "\<dots> < 10 ^ 16 * 10 ^ 4" using b by simp
  finally have "\<bar>of_int m :: rat\<bar> < 10 ^ 20" by simp
  then have "of_int \<bar>m\<bar> < (of_int (10 ^ 20) :: rat)" by simp
  then have "\<bar>m\<bar> < 10 ^ 20" by (simp only: of_int_less_iff)
  with m show ?thesis unfolding sig20_def by blast
qed

lemma round_half_up_scale4: "scale4 q \<Longrightarrow> round_half_up 4 q = q"
proof -
  assume "scale4 q"
  then have "scale4 \<bar>q\<bar>" by (rule scale4_abs)
  then obtain m :: int where m: "\<bar>q\<bar> * 10 ^ 4 = of_int m" unfolding scale4_def by blast
  have f: "\<lfloor>of_int m + 1 / 2 :: rat\<rfloor> = m" by linarith
  have "round_half_up 4 q = sgn q * (\<bar>q\<bar> * 10 ^ 4) / 10 ^ 4"
    unfolding round_half_up_def m f ..
  also have "\<dots> = sgn q * \<bar>q\<bar>" by simp
  also have "\<dots> = q" by (simp add: abs_sgn [symmetric] mult_sgn_abs)
  finally show ?thesis .
qed

lemma scale4_round: "scale4 (round_half_up 4 q)"
proof -
  have "round_half_up 4 q * 10 ^ 4 = sgn q * of_int \<lfloor>\<bar>q\<bar> * 10 ^ 4 + 1 / 2\<rfloor>"
    by (simp add: round_half_up_def)
  also have "\<dots> = of_int (sgn \<lfloor>q\<rfloor> * 0 + (if q < 0 then - 1 else if q = 0 then 0 else 1)
                    * \<lfloor>\<bar>q\<bar> * 10 ^ 4 + 1 / 2\<rfloor>)"
    by (simp add: sgn_if)
  finally show ?thesis unfolding scale4_def by blast
qed

text \<open>
  The values of finite JavaScript numbers: the shortest decimal rendering of a double has at
  most 400 decimal places.
\<close>

definition number_decimal :: "rat \<Rightarrow> bool" where
  "number_decimal q \<longleftrightarrow> (\<exists>s \<le> 400. of_int \<lfloor>q * 10 ^ s\<rfloor> = q * 10 ^ s)"

lemma number_decimal_of_int [simp]: "number_decimal (of_int n)"
  unfolding number_decimal_def by (rule exI [of _ 0]) simp

lemma number_decimal_simps [simp]:
  "number_decimal 0" "number_decimal 1" "number_decimal (of_nat n)" "number_decimal (numeral k)"
  using number_decimal_of_int [of 0] number_decimal_of_int [of 1]
    number_decimal_of_int [of "int n"] number_decimal_of_int [of "numeral k"] by simp_all

section \<open>Decimal literals and scaled integers\<close>

text \<open>
  Scaled integers: \<open>(m, s)\<close> is \<open>m / 10\<^sup>s\<close>. They give a plain decimal literal (an optional minus
  sign, digits, an optional point with digits) its value, and carry the concrete instance of
  the interface below, whose addition, subtraction and multiplication are exact, as the laws
  allow.
\<close>

type_synonym sdec = "int \<times> nat"

definition sdec_val :: "sdec \<Rightarrow> rat" where
  "sdec_val d = of_int (fst d) / 10 ^ snd d"

definition sdec_lift :: "(int \<Rightarrow> int \<Rightarrow> int) \<Rightarrow> sdec \<Rightarrow> sdec \<Rightarrow> sdec" where
  "sdec_lift f a b =
     (f (fst a * 10 ^ (max (snd a) (snd b) - snd a)) (fst b * 10 ^ (max (snd a) (snd b) - snd b)),
      max (snd a) (snd b))"

definition sdec_cmp :: "(int \<Rightarrow> int \<Rightarrow> bool) \<Rightarrow> sdec \<Rightarrow> sdec \<Rightarrow> bool" where
  "sdec_cmp f a b = f (fst a * 10 ^ snd b) (fst b * 10 ^ snd a)"

text \<open>Print the sign, the integral digits and, for a positive scale, that many decimals.\<close>

definition sdec_print :: "sdec \<Rightarrow> string" where
  "sdec_print d =
     (let m = \<bar>fst d\<bar>; s = snd d
      in (if fst d < 0 then ''-'' else []) @ show_int (m div 10 ^ s) @
         (if s = 0 then [] else ''.'' @ show_width s (m mod 10 ^ s)))"

definition sdec_parse_unsigned :: "string \<Rightarrow> sdec option" where
  "sdec_parse_unsigned t =
     (let ip = takeWhile is_digit t; r = dropWhile is_digit t
      in if ip = [] then None
         else case r of
           [] \<Rightarrow> Some (read_int ip, 0)
         | c # fp \<Rightarrow>
             if c = CHR ''.'' \<and> fp \<noteq> [] \<and> list_all is_digit fp
             then Some (read_int ip * 10 ^ length fp + read_int fp, length fp)
             else None)"

definition sdec_parse :: "string \<Rightarrow> sdec option" where
  "sdec_parse t =
     (case t of
        c # u \<Rightarrow> if c = CHR ''-'' then map_option (\<lambda>(m, s). (- m, s)) (sdec_parse_unsigned u)
                 else sdec_parse_unsigned t
      | [] \<Rightarrow> None)"

section \<open>What the sources rely on\<close>

locale decimal_laws =
  fixes D :: "'d decimal_lib" and dval :: "'d \<Rightarrow> rat"
  assumes of_number_finite: "dec_is_finite D (dec_of_number D (JFin q))"
    and of_number_val: "number_decimal q \<Longrightarrow> dval (dec_of_number D (JFin q)) = q"
    and of_literal: "sdec_parse s = Some sd \<Longrightarrow>
          \<exists>d. dec_of_string D s = Some d \<and> dec_is_finite D d \<and> dval d = sdec_val sd"
    and to_string_parses: "\<exists>d'. dec_of_string D (dec_to_string D d) = Some d'"
    and to_string_val: "dec_is_finite D d \<Longrightarrow> dec_of_string D (dec_to_string D d) = Some d' \<Longrightarrow>
          dec_is_finite D d' \<and> dval d' = dval d"
    and to_fixed_parses: "\<exists>d'. dec_of_string D (dec_to_fixed D n d) = Some d'"
    and to_fixed_val: "dec_is_finite D d \<Longrightarrow> dec_of_string D (dec_to_fixed D n d) = Some d' \<Longrightarrow>
          dec_is_finite D d' \<and> dval d' = round_half_up n (dval d)"
    and plus_exact: "dec_is_finite D a \<Longrightarrow> dec_is_finite D b \<Longrightarrow> sig20 (dval a + dval b) \<Longrightarrow>
          dec_is_finite D (dec_plus D a b) \<and> dval (dec_plus D a b) = dval a + dval b"
    and minus_exact: "dec_is_finite D a \<Longrightarrow> dec_is_finite D b \<Longrightarrow> sig20 (dval a - dval b) \<Longrightarrow>
          dec_is_finite D (dec_minus D a b) \<and> dval (dec_minus D a b) = dval a - dval b"
    and times_exact: "dec_is_finite D a \<Longrightarrow> dec_is_finite D b \<Longrightarrow> sig20 (dval a * dval b) \<Longrightarrow>
          dec_is_finite D (dec_times D a b) \<and> dval (dec_times D a b) = dval a * dval b"
    and abs_val: "dec_is_finite D a \<Longrightarrow> dec_is_finite D (dec_abs D a) \<and> dval (dec_abs D a) = \<bar>dval a\<bar>"
    and is_zero_val: "dec_is_finite D a \<Longrightarrow> dec_is_zero D a \<longleftrightarrow> dval a = 0"
    and positive_val: "dec_is_finite D a \<Longrightarrow> 0 < dval a \<Longrightarrow> dec_is_positive D a"
    and negative_val: "dec_is_finite D a \<Longrightarrow> dval a < 0 \<Longrightarrow> dec_is_negative D a"
    and sign_dichotomy: "dec_is_finite D a \<Longrightarrow> dec_is_negative D a \<longleftrightarrow> \<not> dec_is_positive D a"
    and eq_val: "dec_is_finite D a \<Longrightarrow> dec_is_finite D b \<Longrightarrow> dec_eq D a b \<longleftrightarrow> dval a = dval b"
    and lt_val: "dec_is_finite D a \<Longrightarrow> dec_is_finite D b \<Longrightarrow> dec_lt D a b \<longleftrightarrow> dval a < dval b"
    and le_val: "dec_is_finite D a \<Longrightarrow> dec_is_finite D b \<Longrightarrow> dec_le D a b \<longleftrightarrow> dval a \<le> dval b"
    and le_trans: "dec_le D a b \<Longrightarrow> dec_le D b c \<Longrightarrow> dec_le D a c"
    and lt_le_trans: "dec_lt D a b \<Longrightarrow> dec_le D b c \<Longrightarrow> dec_lt D a c"
    and le_lt_trans: "dec_le D a b \<Longrightarrow> dec_lt D b c \<Longrightarrow> dec_lt D a c"
    and eq_cong: "dec_eq D a b \<Longrightarrow> dec_eq D c a = dec_eq D c b"
begin

text \<open>A Decimal with a known finite value.\<close>

definition has_value :: "'d \<Rightarrow> rat \<Rightarrow> bool" where
  "has_value d q \<longleftrightarrow> dec_is_finite D d \<and> dval d = q"

lemma literal_value:
  "sdec_parse s = Some sd \<Longrightarrow> \<exists>d. dec_of_string D s = Some d \<and> has_value d (sdec_val sd)"
  using of_literal [of s sd] by (auto simp: has_value_def)

lemma cent_value: "\<exists>d. dec_of_string D ''0.01'' = Some d \<and> has_value d (1 / 100)"
proof -
  have "sdec_parse ''0.01'' = Some (1, 2)"
    by (simp add: sdec_parse_def sdec_parse_unsigned_def Let_def is_digit_def read_int_def char_digit_def)
  from literal_value [OF this] show ?thesis by (simp add: sdec_val_def)
qed

lemma has_value_zero: "has_value (dec_zero D) 0"
  by (simp add: has_value_def of_number_finite of_number_val)

lemma has_value_plus:
  "has_value a p \<Longrightarrow> has_value b q \<Longrightarrow> scale4 p \<Longrightarrow> scale4 q \<Longrightarrow> \<bar>p + q\<bar> < 10 ^ 16 \<Longrightarrow>
   has_value (dec_plus D a b) (p + q)"
  using plus_exact [of a b] scale4_sig20 [OF scale4_add] by (auto simp: has_value_def)

lemma has_value_minus:
  "has_value a p \<Longrightarrow> has_value b q \<Longrightarrow> scale4 p \<Longrightarrow> scale4 q \<Longrightarrow> \<bar>p - q\<bar> < 10 ^ 16 \<Longrightarrow>
   has_value (dec_minus D a b) (p - q)"
  using minus_exact [of a b] scale4_sig20 [OF scale4_diff] by (auto simp: has_value_def)

lemma has_value_abs: "has_value a p \<Longrightarrow> has_value (dec_abs D a) \<bar>p\<bar>"
  using abs_val [of a] by (auto simp: has_value_def)

text \<open>A four-place amount survives being printed with \<open>toFixed(4)\<close> and parsed again.\<close>

lemma to_fixed4_roundtrip:
  assumes "has_value d q" and "scale4 q"
  shows "\<exists>d'. dec_of_string D (dec_to_fixed D 4 d) = Some d' \<and> has_value d' q"
proof -
  obtain d' where d': "dec_of_string D (dec_to_fixed D 4 d) = Some d'"
    using to_fixed_parses by blast
  with assms have "has_value d' q"
    using to_fixed_val [OF _ d'] by (auto simp: has_value_def round_half_up_scale4)
  with d' show ?thesis by blast
qed

text \<open>Exact summation: every partial sum of a loop that adds bounded amounts is exact.\<close>

lemma fold_plus_value:
  assumes "list_all2 has_value ds qs" and "\<forall>q \<in> set qs. scale4 q \<and> \<bar>q\<bar> < 10 ^ 14"
    and "has_value acc a" and "scale4 a" and "\<bar>a\<bar> + of_nat (length qs) * 10 ^ 14 < 10 ^ 16"
  shows "has_value (foldl (dec_plus D) acc ds) (a + sum_list qs)"
  using assms
proof (induction ds qs arbitrary: acc a rule: list_all2_induct)
  case (Cons d ds q qs)
  from Cons.prems(1) have q: "scale4 q" "\<bar>q\<bar> < 10 ^ 14" by auto
  have b: "\<bar>a + q\<bar> + of_nat (length qs) * 10 ^ 14 < 10 ^ 16"
    using Cons.prems(4) q(2) by (simp add: algebra_simps)
  moreover have "0 \<le> rat_of_nat (length qs) * 10 ^ 14" by simp
  ultimately have "\<bar>a + q\<bar> < 10 ^ 16" by linarith
  then have "has_value (dec_plus D acc d) (a + q)"
    using Cons.hyps(1) Cons.prems(2,3) q(1) by (intro has_value_plus)
  then have "has_value (foldl (dec_plus D) (dec_plus D acc d) ds) ((a + q) + sum_list qs)"
    using Cons.prems q b by (intro Cons.IH) (auto intro: scale4_add)
  then show ?case by (simp add: add.assoc)
qed simp

end

section \<open>The instance\<close>

text \<open>Rounding half up to \<open>n\<close> places, keeping exactly \<open>n\<close> of them.\<close>

definition sdec_round :: "nat \<Rightarrow> sdec \<Rightarrow> sdec" where
  "sdec_round n d = (sgn (fst d) * ((2 * \<bar>fst d\<bar> * 10 ^ n + 10 ^ snd d) div (2 * 10 ^ snd d)), n)"

text \<open>The number \<open>q\<close> with as few decimal places as represent it.\<close>

definition sdec_of_rat :: "rat \<Rightarrow> sdec" where
  "sdec_of_rat q =
     (if of_int \<lfloor>q\<rfloor> = q then (\<lfloor>q\<rfloor>, 0)
      else case find (\<lambda>s. of_int \<lfloor>q * 10 ^ s\<rfloor> = q * 10 ^ s) (0 # [1..<401]) of
        Some s \<Rightarrow> (\<lfloor>q * 10 ^ s\<rfloor>, s)
      | None \<Rightarrow> (\<lfloor>q * 10 ^ 400\<rfloor>, 400))"

fun sdec_of_number :: "js_number \<Rightarrow> sdec" where
  "sdec_of_number (JFin q) = sdec_of_rat q"
| "sdec_of_number _ = (0, 0)"

definition exact_decimal :: "sdec decimal_lib" where
  "exact_decimal = \<lparr>
     dec_of_string = sdec_parse,
     dec_of_number = sdec_of_number,
     dec_is_finite = (\<lambda>_. True),
     dec_is_zero = (\<lambda>a. fst a = 0),
     dec_is_positive = (\<lambda>a. 0 \<le> fst a),
     dec_is_negative = (\<lambda>a. fst a < 0),
     dec_plus = sdec_lift (+),
     dec_minus = sdec_lift (-),
     dec_times = (\<lambda>a b. (fst a * fst b, snd a + snd b)),
     dec_div = (\<lambda>a b. ((fst a * 10 ^ (20 + snd b)) div (fst b * 10 ^ snd a), 20)),
     dec_abs = (\<lambda>a. (\<bar>fst a\<bar>, snd a)),
     dec_eq = sdec_cmp (=),
     dec_lt = sdec_cmp (<),
     dec_le = sdec_cmp (\<le>),
     dec_to_string = sdec_print,
     dec_to_fixed = (\<lambda>n d. sdec_print (sdec_round n d)) \<rparr>"

lemma sdec_lift_val:
  assumes "\<And>a b :: int. of_int (f a b) = g (of_int a) (of_int b :: rat)"
    and "\<And>a b c :: rat. g a b / c = g (a / c) (b / c)"
  shows "sdec_val (sdec_lift f a b) = g (sdec_val a) (sdec_val b)"
proof -
  let ?m = "max (snd a) (snd b)"
  have scale: "of_int (fst x * 10 ^ (?m - snd x)) / (10 ^ ?m :: rat) = sdec_val x"
    if "snd x \<le> ?m" for x
  proof -
    have "(10 :: rat) ^ ?m = 10 ^ snd x * 10 ^ (?m - snd x)"
      using that by (simp flip: power_add)
    then show ?thesis by (simp add: sdec_val_def)
  qed
  have "sdec_val (sdec_lift f a b) =
      g (of_int (fst a * 10 ^ (?m - snd a)) / 10 ^ ?m) (of_int (fst b * 10 ^ (?m - snd b)) / 10 ^ ?m)"
    by (simp only: sdec_lift_def sdec_val_def fst_conv snd_conv assms)
  then show ?thesis by (simp only: scale max.cobounded1 max.cobounded2)
qed

lemma sdec_cmp_val:
  "sdec_cmp (=) a b \<longleftrightarrow> sdec_val a = sdec_val b"
  "sdec_cmp (<) a b \<longleftrightarrow> sdec_val a < sdec_val b"
  "sdec_cmp (\<le>) a b \<longleftrightarrow> sdec_val a \<le> sdec_val b"
proof -
  have i: "of_int (fst x * 10 ^ snd y) = (of_int (fst x) * 10 ^ snd y :: rat)" for x y :: sdec
    by simp
  have e: "(m = n) = ((of_int m :: rat) = of_int n)" and l: "(m < n) = ((of_int m :: rat) < of_int n)"
    and le: "(m \<le> n) = ((of_int m :: rat) \<le> of_int n)" for m n :: int
    by simp_all
  show "sdec_cmp (=) a b \<longleftrightarrow> sdec_val a = sdec_val b"
    unfolding sdec_cmp_def e i by (simp add: sdec_val_def frac_eq_eq)
  show "sdec_cmp (<) a b \<longleftrightarrow> sdec_val a < sdec_val b"
    unfolding sdec_cmp_def l i by (simp add: sdec_val_def divide_less_eq less_divide_eq field_simps)
  show "sdec_cmp (\<le>) a b \<longleftrightarrow> sdec_val a \<le> sdec_val b"
    unfolding sdec_cmp_def le i by (simp add: sdec_val_def divide_le_eq le_divide_eq field_simps)
qed

lemma takeWhile_dropWhile_digits:
  "(\<forall>c \<in> set w. is_digit c) \<Longrightarrow> (r = [] \<or> \<not> is_digit (hd r)) \<Longrightarrow>
   takeWhile is_digit (w @ r) = w \<and> dropWhile is_digit (w @ r) = r"
  by (induction w) (cases r; auto)+

lemma not_is_digit_chars [simp]: "\<not> is_digit (CHR ''.'')" "\<not> is_digit (CHR ''-'')"
  by (simp_all add: is_digit_def)

lemma sdec_parse_unsigned_print:
  assumes "0 \<le> m"
  shows "sdec_parse_unsigned (show_int (m div 10 ^ s) @ (if s = 0 then [] else ''.'' @ show_width s (m mod 10 ^ s)))
   = Some (m, s)"
proof -
  let ?w = "show_int (m div 10 ^ s)"
  let ?r = "if s = 0 then [] else ''.'' @ show_width s (m mod 10 ^ s)"
  have tw: "takeWhile is_digit (?w @ ?r) = ?w" "dropWhile is_digit (?w @ ?r) = ?r"
    using takeWhile_dropWhile_digits [of ?w ?r] show_int_digits by auto
  have eq: "m div 10 ^ s * 10 ^ s + m mod 10 ^ s = m" by (rule div_mult_mod_eq)
  have pos: "0 \<le> m div 10 ^ s" using assms by (simp add: pos_imp_zdiv_nonneg_iff)
  have digs: "list_all is_digit (show_width s n)" for n
    by (auto simp: list_all_iff dest: show_width_digits)
  have ne: "s \<noteq> 0 \<Longrightarrow> show_width s n \<noteq> []" for n
    by (cases s) auto
  show ?thesis
    unfolding sdec_parse_unsigned_def Let_def tw
    using eq pos digs ne by (cases "s = 0") auto
qed

lemma sdec_parse_print [simp]: "sdec_parse (sdec_print d) = Some d"
proof (cases "fst d < 0")
  case True
  then show ?thesis
    by (cases d) (auto simp: sdec_parse_def sdec_print_def Let_def sdec_parse_unsigned_print)
next
  case False
  let ?u = "show_int (\<bar>fst d\<bar> div 10 ^ snd d) @
      (if snd d = 0 then [] else ''.'' @ show_width (snd d) (\<bar>fst d\<bar> mod 10 ^ snd d))"
  obtain c cs where c: "show_int (\<bar>fst d\<bar> div 10 ^ snd d) = c # cs"
    by (cases "show_int (\<bar>fst d\<bar> div 10 ^ snd d)") auto
  then have "is_digit c" using show_int_digits by (metis list.set_intros(1))
  then have "c \<noteq> CHR ''-''" by auto
  then have "sdec_parse ?u = sdec_parse_unsigned ?u"
    by (simp add: sdec_parse_def c)
  also have "\<dots> = Some (\<bar>fst d\<bar>, snd d)" by (rule sdec_parse_unsigned_print) simp
  finally have "sdec_parse ?u = Some d" using False by simp
  moreover have "sdec_print d = ?u" using False by (simp add: sdec_print_def Let_def)
  ultimately show ?thesis by simp
qed

lemma sdec_round_val: "sdec_val (sdec_round n d) = round_half_up n (sdec_val d)"
proof -
  let ?m = "fst d" and ?s = "snd d"
  have ten: "(0::rat) < 10 ^ ?s" by simp
  have q: "\<bar>sdec_val d\<bar> * 10 ^ n + 1 / 2 =
      of_int (2 * \<bar>?m\<bar> * 10 ^ n + 10 ^ ?s) / of_int (2 * 10 ^ ?s)"
    by (simp add: sdec_val_def field_simps)
  have fl: "\<lfloor>\<bar>sdec_val d\<bar> * 10 ^ n + 1 / 2\<rfloor> = (2 * \<bar>?m\<bar> * 10 ^ n + 10 ^ ?s) div (2 * 10 ^ ?s)"
    unfolding q by (rule floor_divide_of_int_eq)
  have sg: "sgn (sdec_val d) = of_int (sgn ?m)"
    by (simp add: sdec_val_def sgn_if zero_less_divide_iff divide_eq_0_iff)
  show ?thesis
    unfolding round_half_up_def fl sg by (simp add: sdec_val_def sdec_round_def)
qed

lemma sdec_of_rat_val: "number_decimal q \<Longrightarrow> sdec_val (sdec_of_rat q) = q"
proof (cases "of_int \<lfloor>q\<rfloor> = q")
  case True
  then show ?thesis by (simp add: sdec_of_rat_def sdec_val_def)
next
  case False
  assume "number_decimal q"
  then obtain s where s: "s \<le> 400" "of_int \<lfloor>q * 10 ^ s\<rfloor> = q * 10 ^ s"
    by (auto simp: number_decimal_def)
  then have mem: "s \<in> set (0 # [1..<401])" by auto
  obtain t where t: "find (\<lambda>s. of_int \<lfloor>q * 10 ^ s\<rfloor> = q * 10 ^ s) (0 # [1..<401]) = Some t"
    using s(2) mem find_None_iff [of "\<lambda>s. of_int \<lfloor>q * 10 ^ s\<rfloor> = q * 10 ^ s" "0 # [1..<401]"]
    by (cases "find (\<lambda>s. of_int \<lfloor>q * 10 ^ s\<rfloor> = q * 10 ^ s) (0 # [1..<401])") (simp_all only:, blast+)
  then have "of_int \<lfloor>q * 10 ^ t\<rfloor> = q * 10 ^ t"
    by (auto simp only: find_Some_iff)
  with t False show ?thesis by (simp only: sdec_of_rat_def if_False option.case sdec_val_def fst_conv snd_conv) simp
qed

lemma sdec_val_sign:
  "sdec_val d = 0 \<longleftrightarrow> fst d = 0" "0 < sdec_val d \<longleftrightarrow> 0 < fst d" "sdec_val d < 0 \<longleftrightarrow> fst d < 0"
  by (simp_all add: sdec_val_def zero_less_divide_iff divide_less_0_iff)

lemmas sdec_arith_val =
  sdec_lift_val [where f = "(+)" and g = "(+)", OF of_int_add add_divide_distrib]
  sdec_lift_val [where f = "(-)" and g = "(-)", OF of_int_diff diff_divide_distrib]

interpretation exact: decimal_laws exact_decimal sdec_val
proof (unfold_locales, goal_cases)
  case (10 a b)
  then show ?case by (simp add: exact_decimal_def sdec_val_def power_add)
qed (auto simp: exact_decimal_def sdec_arith_val sdec_cmp_val sdec_round_val sdec_of_rat_val
      sdec_val_sign, simp_all add: sdec_val_def)

end
