(* ===== verification/Rule_Interpreter.thy ===== *)
theory Rule_Interpreter
  imports Decimal_Lib
begin

text \<open>
  The declarative predicate language of \<open>rule-engine/ast.ts\<close> and its interpreter
  \<open>rule-engine/interpreter.ts\<close>. A call of \<open>new Decimal\<close> outside a \<open>try\<close> may throw, so
  evaluation returns a result; everything else the interpreter reports is an evaluated tree.
\<close>

section \<open>The predicate AST\<close>

datatype ast_lit = LNum js_number | LStr string | LBool bool

datatype arith_op = OpAdd | OpSub | OpMul | OpDiv | OpAbs

datatype compare_op = OpEq | OpNe | OpGt | OpGte | OpLt | OpLte | OpApprox

datatype logic_op = OpAnd | OpOr | OpNot

datatype ast_node =
    AstLit ast_lit
  | AstMoney string string
  | AstFact string
  | AstArith arith_op "ast_node list"
  | AstCompare compare_op ast_node ast_node "string option"
  | AstLogic logic_op "ast_node list"
  | AstRequire string ast_node

datatype fact_value =
    FNum js_number
  | FStr string
  | FBool bool
  | FMoney string string
  | FDecimal string

text \<open>A fact bundle; a key that is absent and a key bound to \<open>undefined\<close> read the same.\<close>

type_synonym fact_bundle = "string \<rightharpoonup> fact_value"

section \<open>The interpreter\<close>

datatype eval_value =
    VNumber string
  | VMoney string string
  | VBool bool
  | VString string
  | VUnassessable string

datatype eval_node =
  EvalNode (en_node: ast_node) (en_value: eval_value) (en_children: "eval_node list option")

datatype eval_error = DecimalError string

fun is_unassessable :: "eval_value \<Rightarrow> bool" where
  "is_unassessable (VUnassessable _) = True"
| "is_unassessable _ = False"

definition new_decimal :: "'d decimal_lib \<Rightarrow> string \<Rightarrow> (eval_error, 'd) result" where
  "new_decimal D s = (case dec_of_string D s of None \<Rightarrow> Inl (DecimalError s) | Some d \<Rightarrow> Inr d)"

fun to_decimal :: "'d decimal_lib \<Rightarrow> eval_value \<Rightarrow> (eval_error, 'd option) result" where
  "to_decimal D (VNumber v) = rbind (new_decimal D v) (\<lambda>d. Inr (Some d))"
| "to_decimal D (VMoney a c) = rbind (new_decimal D a) (\<lambda>d. Inr (Some d))"
| "to_decimal D _ = Inr None"

definition safe_decimal_string :: "'d decimal_lib \<Rightarrow> string \<Rightarrow> 'd option" where
  "safe_decimal_string D raw =
     (case dec_of_string D raw of
        None \<Rightarrow> None
      | Some d \<Rightarrow> if dec_is_finite D d then Some d else None)"

definition safe_decimal_number :: "'d decimal_lib \<Rightarrow> js_number \<Rightarrow> 'd option" where
  "safe_decimal_number D raw =
     (if \<not> is_finite_number raw then None
      else (let d = dec_of_number D raw in if dec_is_finite D d then Some d else None))"

definition quoted :: "string \<Rightarrow> string" where
  "quoted k = [CHR 0x27] @ k @ [CHR 0x27]"

fun arith_op_name :: "arith_op \<Rightarrow> string" where
  "arith_op_name OpAdd = ''add''"
| "arith_op_name OpSub = ''sub''"
| "arith_op_name OpMul = ''mul''"
| "arith_op_name OpDiv = ''div''"
| "arith_op_name OpAbs = ''abs''"

fun logic_op_name :: "logic_op \<Rightarrow> string" where
  "logic_op_name OpAnd = ''and''"
| "logic_op_name OpOr = ''or''"
| "logic_op_name OpNot = ''not''"

datatype js_scalar = ScStr string | ScBool bool | ScNull

fun value_scalar :: "eval_value \<Rightarrow> js_scalar" where
  "value_scalar (VString v) = ScStr v"
| "value_scalar (VBool b) = ScBool b"
| "value_scalar (VNumber v) = ScStr v"
| "value_scalar (VMoney a c) = ScStr a"
| "value_scalar (VUnassessable r) = ScNull"

fun eval_lit :: "'d decimal_lib \<Rightarrow> ast_lit \<Rightarrow> eval_value" where
  "eval_lit D (LBool b) = VBool b"
| "eval_lit D (LNum n) =
     (case safe_decimal_number D n of
        None \<Rightarrow> VUnassessable ''non-finite literal''
      | Some d \<Rightarrow> VNumber (dec_to_string D d))"
| "eval_lit D (LStr s) = VString s"

definition eval_money :: "'d decimal_lib \<Rightarrow> string \<Rightarrow> string \<Rightarrow> eval_value" where
  "eval_money D amount currency =
     (case safe_decimal_string D amount of
        None \<Rightarrow> VUnassessable ''non-numeric money amount''
      | Some d \<Rightarrow> VMoney (dec_to_fixed D 4 d) currency)"

text \<open>\<open>undefined\<close> and the empty string count as absent.\<close>

definition fact_absent :: "fact_bundle \<Rightarrow> string \<Rightarrow> bool" where
  "fact_absent facts key = (facts key = None \<or> facts key = Some (FStr []))"

definition eval_fact :: "'d decimal_lib \<Rightarrow> fact_bundle \<Rightarrow> string \<Rightarrow> eval_value" where
  "eval_fact D facts key =
     (if fact_absent facts key then VUnassessable (''fact '' @ quoted key @ '' absent'')
      else case facts key of
        None \<Rightarrow> VUnassessable (''fact '' @ quoted key @ '' absent'')
      | Some (FBool b) \<Rightarrow> VBool b
      | Some (FNum n) \<Rightarrow>
          (case safe_decimal_number D n of
             None \<Rightarrow> VUnassessable (''fact '' @ quoted key @ '' is NaN/Infinity'')
           | Some d \<Rightarrow> VNumber (dec_to_string D d))
      | Some (FDecimal s) \<Rightarrow>
          (case safe_decimal_string D s of
             None \<Rightarrow> VUnassessable (''fact '' @ quoted key @ '' has a non-numeric decimal'')
           | Some d \<Rightarrow> VNumber (dec_to_string D d))
      | Some (FMoney a c) \<Rightarrow>
          (case safe_decimal_string D a of
             None \<Rightarrow> VUnassessable (''fact '' @ quoted key @ '' has a non-numeric money amount'')
           | Some d \<Rightarrow> VMoney (dec_to_fixed D 4 d) c)
      | Some (FStr s) \<Rightarrow> VString s)"

definition min_args :: "arith_op \<Rightarrow> nat" where
  "min_args op = (if op = OpAbs then 1 else 2)"

definition reduce_arith :: "'d decimal_lib \<Rightarrow> arith_op \<Rightarrow> 'd \<Rightarrow> 'd list \<Rightarrow> 'd option" where
  "reduce_arith D op first rest =
     (case op of
        OpAdd \<Rightarrow> Some (foldl (dec_plus D) (dec_zero D) (first # rest))
      | OpSub \<Rightarrow> Some (foldl (dec_minus D) first rest)
      | OpMul \<Rightarrow> Some (foldl (dec_times D) (dec_one D) (first # rest))
      | OpDiv \<Rightarrow> if list_ex (dec_is_zero D) rest then None
                 else Some (foldl (dec_div D) first rest)
      | OpAbs \<Rightarrow> Some (dec_abs D first))"

definition arith_value ::
  "'d decimal_lib \<Rightarrow> arith_op \<Rightarrow> eval_value list \<Rightarrow> (eval_error, eval_value) result" where
  "arith_value D op vs =
     (if list_ex is_unassessable vs then Inr (VUnassessable ''operand unassessable'')
      else rbind (rtraverse (to_decimal D) vs) (\<lambda>decs.
        if list_ex (\<lambda>d. d = None) decs then Inr (VUnassessable ''non-numeric operand'')
        else (let nums = map the decs
              in if length nums < min_args op
                 then Inr (VUnassessable (arith_op_name op @ '': too few operands''))
                 else (case nums of
                         [] \<Rightarrow> Inr (VUnassessable (arith_op_name op @ '': too few operands''))
                       | first # rest \<Rightarrow>
                           (case reduce_arith D op first rest of
                              None \<Rightarrow> Inr (VUnassessable ''division by zero'')
                            | Some r \<Rightarrow> Inr (VNumber (dec_to_string D r)))))))"

fun compare_decimals ::
  "'d decimal_lib \<Rightarrow> compare_op \<Rightarrow> 'd \<Rightarrow> 'd \<Rightarrow> string option \<Rightarrow> (eval_error, bool) result" where
  "compare_decimals D OpEq a b tol = Inr (dec_eq D a b)"
| "compare_decimals D OpNe a b tol = Inr (\<not> dec_eq D a b)"
| "compare_decimals D OpGt a b tol = Inr (dec_lt D b a)"
| "compare_decimals D OpGte a b tol = Inr (dec_le D b a)"
| "compare_decimals D OpLt a b tol = Inr (dec_lt D a b)"
| "compare_decimals D OpLte a b tol = Inr (dec_le D a b)"
| "compare_decimals D OpApprox a b tol =
     rbind (new_decimal D (case tol of None \<Rightarrow> ''0'' | Some t \<Rightarrow> t))
       (\<lambda>t. Inr (dec_le D (dec_abs D (dec_minus D a b)) t))"

definition compare_value ::
  "'d decimal_lib \<Rightarrow> compare_op \<Rightarrow> string option \<Rightarrow> eval_value \<Rightarrow> eval_value \<Rightarrow> (eval_error, eval_value) result" where
  "compare_value D op tol l r =
     (if is_unassessable l \<or> is_unassessable r then Inr (VUnassessable ''comparand unassessable'')
      else rbind (to_decimal D l) (\<lambda>a. rbind (to_decimal D r) (\<lambda>b.
        case (a, b) of
          (Some x, Some y) \<Rightarrow> rbind (compare_decimals D op x y tol) (\<lambda>res. Inr (VBool res))
        | _ \<Rightarrow>
            (let eq = (value_scalar l = value_scalar r)
             in if op = OpEq then Inr (VBool eq)
                else if op = OpNe then Inr (VBool (\<not> eq))
                else Inr (VUnassessable ''non-numeric comparison'')))))"

fun bool_of :: "eval_value \<Rightarrow> bool option" where
  "bool_of (VBool b) = Some b"
| "bool_of _ = None"

definition logic_value :: "logic_op \<Rightarrow> eval_value list \<Rightarrow> eval_value" where
  "logic_value op vs =
     (if op = OpNot then
        (case vs of
           VBool b # _ \<Rightarrow> VBool (\<not> b)
         | _ \<Rightarrow> VUnassessable ''not: non-bool'')
      else (let bools = map bool_of vs
            in if list_ex (\<lambda>b. b = None) bools
               then VUnassessable (logic_op_name op @ '': non-bool operand'')
               else VBool (if op = OpAnd then list_all (\<lambda>b. b = Some True) bools
                           else list_ex (\<lambda>b. b = Some True) bools)))"

fun evaluate :: "'d decimal_lib \<Rightarrow> ast_node \<Rightarrow> fact_bundle \<Rightarrow> (eval_error, eval_node) result" where
  "evaluate D (AstLit v) facts = Inr (EvalNode (AstLit v) (eval_lit D v) None)"
| "evaluate D (AstMoney a c) facts = Inr (EvalNode (AstMoney a c) (eval_money D a c) None)"
| "evaluate D (AstFact key) facts = Inr (EvalNode (AstFact key) (eval_fact D facts key) None)"
| "evaluate D (AstRequire key t) facts =
     (if fact_absent facts key
      then Inr (EvalNode (AstRequire key t)
                  (VUnassessable (''required fact '' @ quoted key @ '' absent'')) None)
      else rbind (evaluate D t facts) (\<lambda>child.
             Inr (EvalNode (AstRequire key t) (en_value child) (Some [child]))))"
| "evaluate D (AstArith op args) facts =
     rbind (rtraverse (\<lambda>a. evaluate D a facts) args) (\<lambda>children.
       rbind (arith_value D op (map en_value children)) (\<lambda>v.
         Inr (EvalNode (AstArith op args) v (Some children))))"
| "evaluate D (AstCompare op l r tol) facts =
     rbind (evaluate D l facts) (\<lambda>lc. rbind (evaluate D r facts) (\<lambda>rc.
       rbind (compare_value D op tol (en_value lc) (en_value rc)) (\<lambda>v.
         Inr (EvalNode (AstCompare op l r tol) v (Some [lc, rc])))))"
| "evaluate D (AstLogic op args) facts =
     rbind (rtraverse (\<lambda>a. evaluate D a facts) args) (\<lambda>children.
       Inr (EvalNode (AstLogic op args) (logic_value op (map en_value children)) (Some children)))"

datatype verdict_t = PASS | FAIL | UNASSESSABLE

definition verdict :: "eval_node \<Rightarrow> verdict_t" where
  "verdict ev = (case en_value ev of VBool b \<Rightarrow> if b then PASS else FAIL | _ \<Rightarrow> UNASSESSABLE)"

section \<open>Shape of the evaluated tree\<close>

text \<open>All nodes of an evaluated tree, the root included.\<close>

fun eval_subtrees :: "eval_node \<Rightarrow> eval_node list" where
  "eval_subtrees (EvalNode n v cs) =
     EvalNode n v cs # (case cs of None \<Rightarrow> [] | Some xs \<Rightarrow> concat (map eval_subtrees xs))"

lemma evaluate_node: "evaluate D a facts = Inr ev \<Longrightarrow> en_node ev = a"
  by (cases a) (auto simp: result_simps split: if_splits)

lemma verdict_simps [simp]:
  "verdict (EvalNode n (VBool b) cs) = (if b then PASS else FAIL)"
  "verdict (EvalNode n (VUnassessable r) cs) = UNASSESSABLE"
  by (simp_all add: verdict_def)

lemma verdict_PASS_iff: "verdict ev = PASS \<longleftrightarrow> en_value ev = VBool True"
  by (auto simp: verdict_def split: eval_value.splits)

lemma verdict_FAIL_iff: "verdict ev = FAIL \<longleftrightarrow> en_value ev = VBool False"
  by (auto simp: verdict_def split: eval_value.splits)

lemma verdict_unassessable: "is_unassessable (en_value ev) \<Longrightarrow> verdict ev = UNASSESSABLE"
  by (cases "en_value ev") (auto simp: verdict_def)

text \<open>Every node of the explanation carries exactly the value its own AST evaluates to.\<close>

lemma evaluate_subtrees:
  assumes "evaluate D a facts = Inr ev" and "t \<in> set (eval_subtrees ev)"
  shows "evaluate D (en_node t) facts = Inr t"
  using assms
proof (induction D a facts arbitrary: ev t rule: evaluate.induct)
  case (4 D key u facts)
  show ?case
  proof (cases "fact_absent facts key")
    case True
    with 4 show ?thesis by auto
  next
    case False
    with 4 obtain c where c: "evaluate D u facts = Inr c"
      "ev = EvalNode (AstRequire key u) (en_value c) (Some [c])"
      by (auto simp: result_simps)
    with 4 False show ?thesis by auto
  qed
next
  case (5 D op args facts)
  then obtain cs v where cs: "rtraverse (\<lambda>a. evaluate D a facts) args = Inr cs"
    "ev = EvalNode (AstArith op args) v (Some cs)" "arith_value D op (map en_value cs) = Inr v"
    by (auto simp: result_simps)
  show ?case
  proof (cases "t = ev")
    case True
    with 5 cs show ?thesis by auto
  next
    case False
    with 5 cs obtain c where c: "c \<in> set cs" "t \<in> set (eval_subtrees c)" by auto
    then obtain a where "a \<in> set args" "evaluate D a facts = Inr c"
      using rtraverse_in_set [OF cs(1)] by blast
    with 5 c show ?thesis by blast
  qed
next
  case (6 D op l r tol facts)
  then show ?case by (auto simp: result_simps)
next
  case (7 D op args facts)
  then obtain cs where cs: "rtraverse (\<lambda>a. evaluate D a facts) args = Inr cs"
    "ev = EvalNode (AstLogic op args) (logic_value op (map en_value cs)) (Some cs)"
    by (auto simp: result_simps)
  show ?case
  proof (cases "t = ev")
    case True
    with 7 cs show ?thesis by auto
  next
    case False
    with 7 cs obtain c where c: "c \<in> set cs" "t \<in> set (eval_subtrees c)" by auto
    then obtain a where "a \<in> set args" "evaluate D a facts = Inr c"
      using rtraverse_in_set [OF cs(1)] by blast
    with 7 c show ?thesis by blast
  qed
qed auto

section \<open>Strictness in absent facts\<close>

text \<open>The facts whose absence an evaluation always sees: \<open>not\<close> looks at its first operand only.\<close>

fun strict_facts :: "ast_node \<Rightarrow> string list" where
  "strict_facts (AstLit v) = []"
| "strict_facts (AstMoney a c) = []"
| "strict_facts (AstFact k) = [k]"
| "strict_facts (AstRequire k t) = k # strict_facts t"
| "strict_facts (AstArith op args) = concat (map strict_facts args)"
| "strict_facts (AstCompare op l r tol) = strict_facts l @ strict_facts r"
| "strict_facts (AstLogic op args) =
     (if op = OpNot then (case args of [] \<Rightarrow> [] | a # _ \<Rightarrow> strict_facts a)
      else concat (map strict_facts args))"

lemma arith_value_strict:
  "arith_value D op vs = Inr v \<Longrightarrow> list_ex is_unassessable vs \<Longrightarrow> is_unassessable v"
  by (auto simp: arith_value_def)

lemma compare_value_strict:
  "compare_value D op tol l r = Inr v \<Longrightarrow> is_unassessable l \<or> is_unassessable r \<Longrightarrow> is_unassessable v"
  by (auto simp: compare_value_def)

lemma is_unassessable_bool_of: "is_unassessable v \<Longrightarrow> bool_of v = None"
  by (cases v) auto

lemma logic_value_strict:
  "op \<noteq> OpNot \<Longrightarrow> list_ex is_unassessable vs \<Longrightarrow> is_unassessable (logic_value op vs)"
  by (force simp: logic_value_def Let_def list_ex_iff dest: is_unassessable_bool_of)

lemma logic_value_not_strict:
  "is_unassessable v \<Longrightarrow> is_unassessable (logic_value OpNot (v # vs))"
  by (cases v) (auto simp: logic_value_def)

lemma eval_fact_absent: "fact_absent facts k \<Longrightarrow> is_unassessable (eval_fact D facts k)"
  by (simp add: eval_fact_def)

lemma children_unassessable:
  assumes "rtraverse f args = Inr cs" and "a \<in> set args"
    and "\<And>c. f a = Inr c \<Longrightarrow> is_unassessable (en_value c)"
  shows "list_ex is_unassessable (map en_value cs)"
  using rtraverse_in_arg [OF assms(1,2)] assms(3) by (auto simp: list_ex_iff)

lemma evaluate_strict:
  assumes "evaluate D a facts = Inr ev" and "k \<in> set (strict_facts a)" and "fact_absent facts k"
  shows "is_unassessable (en_value ev)"
  using assms
proof (induction D a facts arbitrary: ev rule: evaluate.induct)
  case (3 D key facts)
  then show ?case by (auto simp: eval_fact_absent)
next
  case (4 D key t facts)
  then show ?case by (auto simp: result_simps split: if_splits)
next
  case (5 D op args facts)
  then obtain cs v where cs: "rtraverse (\<lambda>a. evaluate D a facts) args = Inr cs"
    "arith_value D op (map en_value cs) = Inr v" "en_value ev = v"
    by (auto simp: result_simps)
  from 5 obtain a where a: "a \<in> set args" "k \<in> set (strict_facts a)" by auto
  have "list_ex is_unassessable (map en_value cs)"
    using children_unassessable [OF cs(1) a(1)] 5 a by blast
  then show ?case using cs arith_value_strict by blast
next
  case (6 D op l r tol facts)
  then obtain lc rc v where c: "evaluate D l facts = Inr lc" "evaluate D r facts = Inr rc"
    "compare_value D op tol (en_value lc) (en_value rc) = Inr v" "en_value ev = v"
    by (auto simp: result_simps)
  with 6 have "is_unassessable (en_value lc) \<or> is_unassessable (en_value rc)" by auto
  then show ?case using c compare_value_strict by blast
next
  case (7 D op args facts)
  then obtain cs where cs: "rtraverse (\<lambda>a. evaluate D a facts) args = Inr cs"
    "en_value ev = logic_value op (map en_value cs)"
    by (auto simp: result_simps)
  show ?case
  proof (cases "op = OpNot")
    case True
    with 7 obtain a as where a: "args = a # as" "k \<in> set (strict_facts a)"
      by (cases args) auto
    with cs obtain c cs' where c: "evaluate D a facts = Inr c" "cs = c # cs'"
      by (auto simp: result_simps)
    have "is_unassessable (en_value c)" using 7 a c by auto
    with cs c True show ?thesis by (simp add: logic_value_not_strict)
  next
    case False
    with 7 obtain a where a: "a \<in> set args" "k \<in> set (strict_facts a)" by auto
    have "list_ex is_unassessable (map en_value cs)"
      using children_unassessable [OF cs(1) a(1)] 7 a by blast
    with cs False show ?thesis by (simp add: logic_value_strict)
  qed
qed auto

section \<open>Evaluation reads the facts its AST names and nothing else\<close>

fun fact_keys :: "ast_node \<Rightarrow> string list" where
  "fact_keys (AstLit v) = []"
| "fact_keys (AstMoney a c) = []"
| "fact_keys (AstFact k) = [k]"
| "fact_keys (AstRequire k t) = k # fact_keys t"
| "fact_keys (AstArith op args) = concat (map fact_keys args)"
| "fact_keys (AstCompare op l r tol) = fact_keys l @ fact_keys r"
| "fact_keys (AstLogic op args) = concat (map fact_keys args)"

lemma evaluate_cong_facts:
  "(\<And>k. k \<in> set (fact_keys a) \<Longrightarrow> f k = g k) \<Longrightarrow> evaluate D a f = evaluate D a g"
proof (induction a)
  case (AstArith op args)
  then have "rtraverse (\<lambda>a. evaluate D a f) args = rtraverse (\<lambda>a. evaluate D a g) args"
    by (intro rtraverse_cong) auto
  then show ?case by simp
next
  case (AstLogic op args)
  then have "rtraverse (\<lambda>a. evaluate D a f) args = rtraverse (\<lambda>a. evaluate D a g) args"
    by (intro rtraverse_cong) auto
  then show ?case by simp
qed (auto simp: eval_fact_def fact_absent_def)

section \<open>Totality\<close>

text \<open>The only strings a rule hands to \<open>new Decimal\<close> unguarded are its \<open>approx\<close> tolerances.\<close>

fun tolerances :: "ast_node \<Rightarrow> string list" where
  "tolerances (AstRequire k t) = tolerances t"
| "tolerances (AstArith op args) = concat (map tolerances args)"
| "tolerances (AstCompare op l r tol) =
     (if op = OpApprox then [case tol of None \<Rightarrow> ''0'' | Some t \<Rightarrow> t] else [])
     @ tolerances l @ tolerances r"
| "tolerances (AstLogic op args) = concat (map tolerances args)"
| "tolerances _ = []"

definition tolerances_parse :: "'d decimal_lib \<Rightarrow> ast_node \<Rightarrow> bool" where
  "tolerances_parse D a = list_all (\<lambda>t. dec_of_string D t \<noteq> None) (tolerances a)"

fun parseable :: "'d decimal_lib \<Rightarrow> eval_value \<Rightarrow> bool" where
  "parseable D (VNumber s) = (dec_of_string D s \<noteq> None)"
| "parseable D (VMoney s c) = (dec_of_string D s \<noteq> None)"
| "parseable D _ = True"

lemma to_decimal_total: "parseable D v \<Longrightarrow> \<exists>d. to_decimal D v = Inr d"
  by (cases v) (auto simp: new_decimal_def)

lemma compare_value_total:
  assumes "parseable D l" and "parseable D r"
    and "op = OpApprox \<longrightarrow> dec_of_string D (case tol of None \<Rightarrow> ''0'' | Some t \<Rightarrow> t) \<noteq> None"
  shows "\<exists>v. compare_value D op tol l r = Inr v \<and> parseable D v"
proof -
  obtain a b where ab: "to_decimal D l = Inr a" "to_decimal D r = Inr b"
    using assms(1,2) to_decimal_total by blast
  have "\<exists>res. compare_decimals D op x y tol = Inr res" for x y
    using assms(3) by (cases op) (auto simp: new_decimal_def split: option.splits)
  then show ?thesis
    using ab by (auto simp: compare_value_def Let_def rbind_eq_Inr split: option.splits)
      (metis parseable.simps(3) rbind.simps(2))+
qed

lemma logic_value_parseable: "parseable D (logic_value op vs)"
  by (auto simp: logic_value_def Let_def split: list.splits eval_value.splits)

context decimal_laws
begin

lemma arith_value_total:
  assumes "\<forall>v \<in> set vs. parseable D v"
  shows "\<exists>v. arith_value D op vs = Inr v \<and> parseable D v"
proof -
  obtain decs where "rtraverse (to_decimal D) vs = Inr decs"
    using rtraverse_total [of vs "to_decimal D"] assms to_decimal_total by blast
  moreover have "dec_of_string D (dec_to_string D d) \<noteq> None" for d
    using to_string_parses [of d] by auto
  ultimately show ?thesis
    by (auto simp: arith_value_def Let_def split: list.splits option.splits)
qed

lemma leaf_parseable:
  "parseable D (eval_lit D v)" "parseable D (eval_money D a c)" "parseable D (eval_fact D facts k)"
  using to_string_parses to_fixed_parses
  by (cases v; auto simp: eval_money_def eval_fact_def split: option.splits fact_value.splits)+

lemma evaluate_total:
  "tolerances_parse D a \<Longrightarrow> \<exists>ev. evaluate D a facts = Inr ev \<and> parseable D (en_value ev)"
proof (induction a)
  case (AstRequire k t)
  then show ?case by (auto simp: tolerances_parse_def)
next
  case (AstArith op args)
  have IH: "\<exists>ev. evaluate D b facts = Inr ev \<and> parseable D (en_value ev)" if "b \<in> set args" for b
    using AstArith that by (auto simp: tolerances_parse_def list_all_iff)
  obtain cs where cs: "rtraverse (\<lambda>b. evaluate D b facts) args = Inr cs"
    using rtraverse_total [of args "\<lambda>b. evaluate D b facts"] IH by blast
  have "\<forall>v \<in> set (map en_value cs). parseable D v"
    using rtraverse_in_set [OF cs] IH by fastforce
  then obtain v where "arith_value D op (map en_value cs) = Inr v" "parseable D v"
    using arith_value_total by blast
  with cs show ?case by simp
next
  case (AstCompare op l r tol)
  then obtain lc rc where c: "evaluate D l facts = Inr lc" "parseable D (en_value lc)"
    "evaluate D r facts = Inr rc" "parseable D (en_value rc)"
    by (auto simp: tolerances_parse_def)
  have "op = OpApprox \<longrightarrow> dec_of_string D (case tol of None \<Rightarrow> ''0'' | Some t \<Rightarrow> t) \<noteq> None"
    using AstCompare.prems by (auto simp: tolerances_parse_def)
  then obtain v where "compare_value D op tol (en_value lc) (en_value rc) = Inr v" "parseable D v"
    using compare_value_total c by blast
  with c show ?case by simp
next
  case (AstLogic op args)
  have IH: "\<exists>ev. evaluate D b facts = Inr ev \<and> parseable D (en_value ev)" if "b \<in> set args" for b
    using AstLogic that by (auto simp: tolerances_parse_def list_all_iff)
  obtain cs where cs: "rtraverse (\<lambda>b. evaluate D b facts) args = Inr cs"
    using rtraverse_total [of args "\<lambda>b. evaluate D b facts"] IH by blast
  then show ?case by (simp add: logic_value_parseable)
qed (auto simp: leaf_parseable)

text \<open>Money facts compare by their exact rational amounts.\<close>

lemma eval_fact_money:
  assumes "facts k = Some (FMoney a c)" and "dec_of_string D a = Some d"
    and "has_value d q" and "scale4 q"
  shows "\<exists>a' d'. eval_fact D facts k = VMoney a' c \<and> dec_of_string D a' = Some d' \<and> has_value d' q"
  using to_fixed4_roundtrip [OF assms(3,4)] assms
  by (auto simp: eval_fact_def fact_absent_def safe_decimal_string_def has_value_def)

lemma compare_approx_value:
  assumes "dec_of_string D a = Some d" "has_value d p" "scale4 p"
    and "dec_of_string D b = Some e" "has_value e q" "scale4 q"
    and "dec_of_string D t = Some tol" "has_value tol r" and "\<bar>p - q\<bar> < 10 ^ 16"
  shows "compare_value D OpApprox (Some t) (VMoney a c) (VMoney b c') = Inr (VBool (\<bar>p - q\<bar> \<le> r))"
proof -
  have "has_value (dec_abs D (dec_minus D d e)) \<bar>p - q\<bar>"
    using assms by (intro has_value_abs has_value_minus)
  with assms(8) have "dec_le D (dec_abs D (dec_minus D d e)) tol \<longleftrightarrow> \<bar>p - q\<bar> \<le> r"
    using le_val by (auto simp: has_value_def)
  with assms show ?thesis by (simp add: compare_value_def new_decimal_def)
qed

lemma evaluate_approx_money:
  assumes "facts k = Some (FMoney a c)" "dec_of_string D a = Some d" "has_value d p" "scale4 p"
    and "facts k' = Some (FMoney b c')" "dec_of_string D b = Some e" "has_value e q" "scale4 q"
    and "dec_of_string D t = Some tol" "has_value tol r" and "\<bar>p - q\<bar> < 10 ^ 16"
  shows "\<exists>ev. evaluate D (AstCompare OpApprox (AstFact k) (AstFact k') (Some t)) facts = Inr ev \<and>
              en_value ev = VBool (\<bar>p - q\<bar> \<le> r)"
proof -
  obtain a' d' where a': "eval_fact D facts k = VMoney a' c" "dec_of_string D a' = Some d'" "has_value d' p"
    using eval_fact_money [of facts k a c d p] assms by blast
  obtain b' e' where b': "eval_fact D facts k' = VMoney b' c'" "dec_of_string D b' = Some e'" "has_value e' q"
    using eval_fact_money [of facts k' b c' e q] assms by blast
  have "compare_value D OpApprox (Some t) (VMoney a' c) (VMoney b' c') = Inr (VBool (\<bar>p - q\<bar> \<le> r))"
    using a' b' assms by (intro compare_approx_value)
  with a' b' show ?thesis by simp
qed

end

section \<open>Properties\<close>

text \<open>
  C23: evaluation is total on rules whose \<open>approx\<close> tolerances parse: it returns an evaluated
  tree for every fact bundle, whatever facts are missing or ill-typed, and never throws.
\<close>

theorem evaluate_never_throws:
  assumes "decimal_laws D dval" and "tolerances_parse D a"
  shows "\<exists>ev. evaluate D a facts = Inr ev"
  using decimal_laws.evaluate_total [OF assms] by blast

theorem evaluate_never_throws_witness:
  "\<exists>ev. evaluate exact_decimal
     (AstCompare OpApprox (AstFact ''billed'') (AstMoney ''10.5'' ''USD'') (Some ''0.01''))
     (\<lambda>_. None) = Inr ev"
proof -
  have "tolerances_parse exact_decimal
     (AstCompare OpApprox (AstFact ''billed'') (AstMoney ''10.5'' ''USD'') (Some ''0.01''))"
    by (code_simp)
  then show ?thesis by (rule evaluate_never_throws [OF exact.decimal_laws_axioms])
qed

text \<open>
  A rule whose \<open>approx\<close> tolerance is not a number makes the interpreter throw on two numeric
  operands, although its header promises a total evaluation.
\<close>

theorem evaluate_throws_on_malformed_tolerance:
  assumes "dec_of_string D t = None"
    and "evaluate D l facts = Inr lc" and "to_decimal D (en_value lc) = Inr (Some x)"
    and "evaluate D r facts = Inr rc" and "to_decimal D (en_value rc) = Inr (Some y)"
  shows "evaluate D (AstCompare OpApprox l r (Some t)) facts = Inl (DecimalError t)"
proof -
  have "\<not> is_unassessable v" if "to_decimal D v = Inr (Some z)" for v z
    using that by (cases v) auto
  with assms show ?thesis by (auto simp: compare_value_def new_decimal_def)
qed

theorem evaluate_throws_on_malformed_tolerance_witness:
  "evaluate exact_decimal
     (AstCompare OpApprox (AstMoney ''10'' ''USD'') (AstMoney ''10'' ''USD'') (Some ''1%'')) (\<lambda>_. None)
   = Inl (DecimalError ''1%'')"
proof -
  let ?ev = "EvalNode (AstMoney ''10'' ''USD'') (VMoney ''10.0000'' ''USD'') None"
  have n: "dec_of_string exact_decimal ''1%'' = None" by code_simp
  have e: "evaluate exact_decimal (AstMoney ''10'' ''USD'') (\<lambda>_. None) = Inr ?ev"
    by code_simp
  have t: "to_decimal exact_decimal (en_value ?ev) = Inr (Some (100000, 4))"
    by code_simp
  show ?thesis by (rule evaluate_throws_on_malformed_tolerance [OF n e t e t])
qed

text \<open>
  The verdict fails closed. If any fact a rule reads (under \<open>not\<close>, its first operand) is
  absent or empty, the verdict is UNASSESSABLE: never a PASS or a FAIL on missing data.
\<close>

theorem absent_fact_unassessable:
  assumes "evaluate D a facts = Inr ev" and "k \<in> set (strict_facts a)" and "fact_absent facts k"
  shows "verdict ev = UNASSESSABLE"
  using evaluate_strict [OF assms] by (rule verdict_unassessable)

theorem absent_fact_unassessable_witness:
  "\<exists>ev. evaluate exact_decimal
          (AstLogic OpOr [AstLit (LBool True), AstCompare OpEq (AstFact ''x'') (AstLit (LBool True)) None])
          (\<lambda>_. None) = Inr ev \<and> verdict ev = UNASSESSABLE"
proof -
  let ?a = "AstLogic OpOr [AstLit (LBool True), AstCompare OpEq (AstFact ''x'') (AstLit (LBool True)) None]"
  obtain ev where ev: "evaluate exact_decimal ?a (\<lambda>_. None) = Inr ev"
    by (simp add: compare_value_def eval_fact_def fact_absent_def)
  have "verdict ev = UNASSESSABLE"
    by (rule absent_fact_unassessable [OF ev, of "''x''"]) (simp_all add: fact_absent_def)
  with ev show ?thesis by blast
qed

text \<open>
  The evaluated tree is a complete explanation. Its root is the rule, and every node of the
  tree is exactly what evaluating that node's own AST yields, so each annotated value can be
  recomputed in isolation.
\<close>

theorem evaluated_tree_explains:
  assumes "evaluate D a facts = Inr ev"
  shows "en_node ev = a \<and> (\<forall>t \<in> set (eval_subtrees ev). evaluate D (en_node t) facts = Inr t)"
  using evaluate_node [OF assms] evaluate_subtrees [OF assms] by blast

theorem evaluated_tree_explains_witness:
  "\<exists>ev. evaluate exact_decimal (AstRequire ''n'' (AstFact ''n'')) [''n'' \<mapsto> FBool True] = Inr ev \<and>
        length (eval_subtrees ev) = 2 \<and>
        (\<forall>t \<in> set (eval_subtrees ev).
           evaluate exact_decimal (en_node t) [''n'' \<mapsto> FBool True] = Inr t)"
proof -
  obtain ev where ev: "evaluate exact_decimal (AstRequire ''n'' (AstFact ''n'')) [''n'' \<mapsto> FBool True] = Inr ev"
    "length (eval_subtrees ev) = 2"
    by (simp add: fact_absent_def)
  show ?thesis using evaluated_tree_explains [OF ev(1)] ev by blast
qed

text \<open>
  Evaluation is a function of the facts the rule names: two bundles that agree on the keys
  occurring in the AST give the same tree, so no other fact can influence a verdict.
\<close>

theorem evaluate_depends_on_named_facts:
  assumes "\<forall>k \<in> set (fact_keys a). f k = g k"
  shows "evaluate D a f = evaluate D a g"
  using assms by (intro evaluate_cong_facts) blast

theorem evaluate_depends_on_named_facts_witness:
  "evaluate exact_decimal (AstFact ''x'') [''x'' \<mapsto> FBool True] =
   evaluate exact_decimal (AstFact ''x'') [''x'' \<mapsto> FBool True, ''y'' \<mapsto> FStr ''z'']"
  by (rule evaluate_depends_on_named_facts) simp

end
