(* ===== verification/Edi_Parser.thy ===== *)
theory Edi_Parser
  imports Decimal_Lib
begin

text \<open>
  The X12 reader and the EDI 210/310 adapters: \<open>ingestion/x12.ts\<close>, \<open>charge-fact.ts\<close>,
  \<open>edi-envelope.ts\<close>, \<open>parse-210.ts\<close>, \<open>parse-310.ts\<close>. The crosswalk that categorizes a charge
  code is the callback \<open>categorize\<close>, as in the code.
\<close>

section \<open>x12.ts\<close>

record x12_segment =
  seg_tag :: string
  seg_elements :: "string list"

record x12_delimiters =
  delim_element :: char
  delim_segment :: char
  delim_component :: char

record x12_interchange =
  ix_delimiters :: x12_delimiters
  ix_segments :: "x12_segment list"

datatype ingest_error =
    X12ParseError string
  | GroupMismatch string string
  | AmountDecimalError string

text \<open>The loop over the ISA segment: count element separators until 16 are seen.\<close>

fun isa_walk :: "char \<Rightarrow> nat \<Rightarrow> nat \<Rightarrow> string \<Rightarrow> nat \<times> nat" where
  "isa_walk e idx seps [] = (idx, seps)"
| "isa_walk e idx seps (c # cs) =
     (if seps < 16 then isa_walk e (Suc idx) (if c = e then Suc seps else seps) cs else (idx, seps))"

definition read_isa_delimiters :: "string \<Rightarrow> (ingest_error, x12_delimiters) result" where
  "read_isa_delimiters raw =
     (case index_of ''ISA'' raw of
        None \<Rightarrow> Inl (X12ParseError ''no ISA segment found'')
      | Some isa_pos \<Rightarrow>
          (case char_at raw (isa_pos + 3) of
             None \<Rightarrow> Inl (X12ParseError ''cannot read element separator from ISA'')
           | Some e \<Rightarrow>
               (let (idx, seps) = isa_walk e isa_pos 0 (drop isa_pos raw)
                in if seps < 16
                   then Inl (X12ParseError ''ISA segment is truncated (fewer than 16 elements)'')
                   else (case (char_at raw idx, char_at raw (idx + 1)) of
                           (Some c, Some s) \<Rightarrow>
                             Inr \<lparr>delim_element = e, delim_segment = s, delim_component = c\<rparr>
                         | _ \<Rightarrow> Inl (X12ParseError ''cannot read ISA16 / segment terminator'')))))"

definition parse_chunk :: "char \<Rightarrow> string \<Rightarrow> x12_segment option" where
  "parse_chunk e chunk =
     (let trimmed = js_trim chunk
      in if trimmed = [] then None
         else (case js_split e trimmed of
                 [] \<Rightarrow> None
               | tag # els \<Rightarrow> if tag = [] then None else Some \<lparr>seg_tag = tag, seg_elements = els\<rparr>))"

definition parse_x12 :: "string \<Rightarrow> (ingest_error, x12_interchange) result" where
  "parse_x12 raw =
     rbind (read_isa_delimiters raw) (\<lambda>ds.
       let segments = List.map_filter (parse_chunk (delim_element ds)) (js_split (delim_segment ds) raw)
       in if segments = [] then Inl (X12ParseError ''no segments parsed'')
          else Inr \<lparr>ix_delimiters = ds, ix_segments = segments\<rparr>)"

definition segments_by_tag :: "x12_interchange \<Rightarrow> string \<Rightarrow> x12_segment list" where
  "segments_by_tag ix t = filter (\<lambda>s. seg_tag s = t) (ix_segments ix)"

definition first_segment :: "x12_interchange \<Rightarrow> string \<Rightarrow> x12_segment option" where
  "first_segment ix t = find (\<lambda>s. seg_tag s = t) (ix_segments ix)"

definition el :: "x12_segment option \<Rightarrow> nat \<Rightarrow> string option" where
  "el s n =
     (case s of
        None \<Rightarrow> None
      | Some seg \<Rightarrow>
          (if 0 < n \<and> n - 1 < length (seg_elements seg)
           then (let v = seg_elements seg ! (n - 1) in if v = [] then None else Some v)
           else None))"

section \<open>charge-fact.ts\<close>

record normalized_charge =
  ch_code :: "string option"
  ch_x12_element :: "string option"
  ch_category :: "string option"
  ch_quarantined :: bool
  ch_amount :: "string option"
  ch_currency :: string
  ch_basis :: "string option"
  ch_rate :: "string option"
  ch_raw_description :: "string option"
  ch_source_loop :: "string option"

datatype transaction_set = TS210 | TS310 | TSPdf

record footing_t =
  declared_total :: "string option"
  line_sum :: string

record parsed_invoice =
  inv_transaction_set :: transaction_set
  inv_parser_version :: string
  inv_invoice_number :: "string option"
  inv_shipment_references :: "string list option"
  inv_carrier_code :: "string option"
  inv_container_numbers :: "string list option"
  inv_vessel_voyage :: "string option"
  inv_port_codes :: "string list option"
  inv_header_currency :: "string option"
  inv_charges :: "normalized_charge list"
  inv_footing :: "footing_t option"
  inv_quarantined_codes :: "string list"

type_synonym categorize = "string option \<Rightarrow> string option"

definition money :: "'d decimal_lib \<Rightarrow> string option \<Rightarrow> string option" where
  "money D raw =
     (case raw of
        None \<Rightarrow> None
      | Some s \<Rightarrow>
          if s = [] then None
          else (case dec_of_string D s of None \<Rightarrow> None | Some d \<Rightarrow> Some (dec_to_fixed D 4 d)))"

definition add_money :: "'d decimal_lib \<Rightarrow> 'd \<Rightarrow> string \<Rightarrow> (ingest_error, 'd) result" where
  "add_money D acc v =
     (case dec_of_string D v of None \<Rightarrow> Inl (AmountDecimalError v) | Some d \<Rightarrow> Inr (dec_plus D acc d))"

definition sum_money :: "'d decimal_lib \<Rightarrow> string option list \<Rightarrow> (ingest_error, string) result" where
  "sum_money D vs =
     rbind (rfold (add_money D) (dec_zero D) (List.map_filter id vs))
       (\<lambda>acc. Inr (dec_to_fixed D 4 acc))"

section \<open>edi-envelope.ts\<close>

definition parse_edi_envelope :: "string \<Rightarrow> string \<Rightarrow> (ingest_error, x12_interchange) result" where
  "parse_edi_envelope raw expected =
     rbind (parse_x12 raw) (\<lambda>ix.
       case el (first_segment ix ''GS'') 1 of
         None \<Rightarrow> Inr ix
       | Some gs01 \<Rightarrow> if gs01 \<noteq> expected then Inl (GroupMismatch expected gs01) else Inr ix)"

definition read_b3_header :: "x12_interchange \<Rightarrow> string option \<times> string option" where
  "read_b3_header ix = (let b3 = first_segment ix ''B3'' in (el b3 2, el b3 7))"

fun normalize_loop :: "string list \<Rightarrow> string option list \<Rightarrow> string list" where
  "normalize_loop seen [] = []"
| "normalize_loop seen (v # vs) =
     (case map_option js_trim v of
        None \<Rightarrow> normalize_loop seen vs
      | Some n \<Rightarrow>
          if n = [] \<or> js_to_lower n \<in> set seen then normalize_loop seen vs
          else n # normalize_loop (js_to_lower n # seen) vs)"

definition normalize_references :: "string option list \<Rightarrow> string list" where
  "normalize_references values = normalize_loop [] values"

definition build_charge ::
  "'d decimal_lib \<Rightarrow> categorize \<Rightarrow> (x12_segment \<Rightarrow> string option) \<Rightarrow> string \<Rightarrow> x12_segment \<Rightarrow> normalized_charge" where
  "build_charge D categorize resolve_currency source_loop l1 =
     (let amount = money D (el (Some l1) 4);
          rate = money D (el (Some l1) 2);
          basis = money D (el (Some l1) 17);
          code = el (Some l1) 8;
          raw_description = el (Some l1) 12;
          category = categorize code;
          quarantined = ((code \<noteq> None \<and> category = None) \<or> amount = None)
      in \<lparr>ch_code = code, ch_x12_element = Some ''L1'', ch_category = category,
          ch_quarantined = quarantined, ch_amount = amount,
          ch_currency = (case resolve_currency l1 of None \<Rightarrow> [] | Some c \<Rightarrow> c),
          ch_basis = basis, ch_rate = rate, ch_raw_description = raw_description,
          ch_source_loop = Some source_loop\<rparr>)"

definition build_charges ::
  "'d decimal_lib \<Rightarrow> x12_interchange \<Rightarrow> categorize \<Rightarrow> (x12_segment \<Rightarrow> string option) \<Rightarrow> string
   \<Rightarrow> normalized_charge list \<times> string list" where
  "build_charges D ix categorize resolve_currency source_loop =
     (let l1s = segments_by_tag ix ''L1''
      in (map (build_charge D categorize resolve_currency source_loop) l1s,
          List.map_filter (\<lambda>l1. let code = el (Some l1) 8
                                in if code \<noteq> None \<and> categorize code = None then code else None) l1s))"

definition build_footing ::
  "'d decimal_lib \<Rightarrow> string option \<Rightarrow> normalized_charge list \<Rightarrow> (ingest_error, footing_t) result" where
  "build_footing D declared charges =
     rbind (sum_money D (map ch_amount charges)) (\<lambda>ls.
       Inr \<lparr>declared_total = (case declared of None \<Rightarrow> None | Some d \<Rightarrow> money D (Some d)), line_sum = ls\<rparr>)"

section \<open>parse-210.ts and parse-310.ts\<close>

definition PARSER_210_VERSION :: string where "PARSER_210_VERSION = ''210-v1''"

definition PARSER_310_VERSION :: string where "PARSER_310_VERSION = ''310-v1''"

definition parse210 :: "'d decimal_lib \<Rightarrow> string \<Rightarrow> categorize \<Rightarrow> (ingest_error, parsed_invoice) result" where
  "parse210 D raw categorize =
     rbind (parse_edi_envelope raw ''IM'') (\<lambda>ix.
       let (invoice_number, declared) = read_b3_header ix;
           b3 = first_segment ix ''B3'';
           header_currency = ''USD'';
           (charges, quarantined_codes) = build_charges D ix categorize (\<lambda>_. Some header_currency) ''L0/L1''
       in rbind (build_footing D declared charges) (\<lambda>footing.
            Inr \<lparr>inv_transaction_set = TS210, inv_parser_version = PARSER_210_VERSION,
                 inv_invoice_number = invoice_number,
                 inv_shipment_references = Some (normalize_references [el b3 3]),
                 inv_carrier_code = el b3 11,
                 inv_container_numbers = None, inv_vessel_voyage = None, inv_port_codes = None,
                 inv_header_currency = Some header_currency,
                 inv_charges = charges, inv_footing = Some footing,
                 inv_quarantined_codes = quarantined_codes\<rparr>))"

text \<open>\<open>a ?? b\<close>.\<close>

fun or_else :: "'a option \<Rightarrow> 'a option \<Rightarrow> 'a option" where
  "or_else (Some x) y = Some x"
| "or_else None y = y"

definition parse310 :: "'d decimal_lib \<Rightarrow> string \<Rightarrow> categorize \<Rightarrow> (ingest_error, parsed_invoice) result" where
  "parse310 D raw categorize =
     rbind (parse_edi_envelope raw ''IO'') (\<lambda>ix.
       let (invoice_number, declared) = read_b3_header ix;
           shipment_references = normalize_references (map (\<lambda>s. el (Some s) 2) (segments_by_tag ix ''N9''));
           container_numbers = normalize_references (map (\<lambda>s.
             case (el (Some s) 1, el (Some s) 2) of
               (Some prefix, Some number) \<Rightarrow> Some (prefix @ number)
             | _ \<Rightarrow> None) (segments_by_tag ix ''N7''));
           vessel = first_segment ix ''V1'';
           vessel_voyage = (case normalize_references
               [or_else (el vessel 4) (or_else (el vessel 2) (el vessel 1))] of
               [] \<Rightarrow> None | v # _ \<Rightarrow> Some v);
           port_codes = normalize_references (map (\<lambda>s. or_else (el (Some s) 2) (el (Some s) 3))
               (segments_by_tag ix ''R4''));
           interchange_currency = el (first_segment ix ''C3'') 1;
           (charges, quarantined_codes) =
             build_charges D ix categorize (\<lambda>l1. or_else (el (Some l1) 20) interchange_currency) ''L1''
       in rbind (build_footing D declared charges) (\<lambda>footing.
            Inr \<lparr>inv_transaction_set = TS310, inv_parser_version = PARSER_310_VERSION,
                 inv_invoice_number = invoice_number,
                 inv_shipment_references = Some shipment_references,
                 inv_carrier_code = None,
                 inv_container_numbers = Some container_numbers,
                 inv_vessel_voyage = vessel_voyage,
                 inv_port_codes = Some port_codes,
                 inv_header_currency = interchange_currency,
                 inv_charges = charges, inv_footing = Some footing,
                 inv_quarantined_codes = quarantined_codes\<rparr>))"

section \<open>The reader inverts X12 rendering\<close>

text \<open>The wire form of an interchange: tag and elements joined, each segment terminated.\<close>

definition render_segment :: "char \<Rightarrow> x12_segment \<Rightarrow> string" where
  "render_segment e s = js_join [e] (seg_tag s # seg_elements s)"

definition render_x12 :: "char \<Rightarrow> char \<Rightarrow> x12_segment list \<Rightarrow> string" where
  "render_x12 e t segs = concat (map (\<lambda>s. render_segment e s @ [t]) segs)"

definition wf_segment :: "char \<Rightarrow> char \<Rightarrow> x12_segment \<Rightarrow> bool" where
  "wf_segment e t s \<longleftrightarrow>
     seg_tag s \<noteq> [] \<and> (\<forall>w \<in> set (seg_tag s # seg_elements s). e \<notin> set w \<and> t \<notin> set w) \<and>
     js_trim (render_segment e s) = render_segment e s"

text \<open>An ISA segment: 16 elements, the last of them the one-character component separator.\<close>

definition isa_segment :: "char \<Rightarrow> x12_segment \<Rightarrow> bool" where
  "isa_segment c s \<longleftrightarrow> seg_tag s = ''ISA'' \<and> length (seg_elements s) = 16 \<and> last (seg_elements s) = [c]"

lemma set_js_join: "set (js_join sep ws) \<subseteq> set sep \<union> (\<Union>w \<in> set ws. set w)"
  by (induction sep ws rule: js_join.induct) auto

lemma render_segment_no_terminator:
  "wf_segment e t s \<Longrightarrow> e \<noteq> t \<Longrightarrow> t \<notin> set (render_segment e s)"
  using set_js_join [of "[e]" "seg_tag s # seg_elements s"]
  by (auto simp: wf_segment_def render_segment_def)

lemma split_render:
  "(\<forall>s \<in> set segs. wf_segment e t s) \<Longrightarrow> e \<noteq> t \<Longrightarrow>
   js_split t (render_x12 e t segs) = map (render_segment e) segs @ [[]]"
  by (induction segs)
     (auto simp: render_x12_def js_split_append_sep render_segment_no_terminator)

lemma render_segment_not_Nil: "wf_segment e t s \<Longrightarrow> render_segment e s \<noteq> []"
  by (cases "seg_elements s") (auto simp: wf_segment_def render_segment_def)

lemma parse_chunk_render: "wf_segment e t s \<Longrightarrow> parse_chunk e (render_segment e s) = Some s"
proof -
  assume wf: "wf_segment e t s"
  then have "js_split e (render_segment e s) = seg_tag s # seg_elements s"
    unfolding render_segment_def by (intro js_split_join) (auto simp: wf_segment_def)
  with wf render_segment_not_Nil [OF wf] show ?thesis
    by (simp add: parse_chunk_def wf_segment_def)
qed

lemma parse_chunks_render:
  "(\<forall>s \<in> set segs. wf_segment e t s) \<Longrightarrow>
   List.map_filter (parse_chunk e) (map (render_segment e) segs @ [[]]) = segs"
proof (induction segs)
  case Nil
  show ?case by (simp add: map_filter_simps parse_chunk_def)
next
  case (Cons s segs)
  then show ?case by (simp add: map_filter_simps parse_chunk_render [of e t])
qed

lemma isa_walk_word:
  "e \<notin> set w \<Longrightarrow> seps < 16 \<Longrightarrow>
   isa_walk e idx seps (w @ cs) = isa_walk e (idx + length w) seps cs"
  by (induction w arbitrary: idx) auto

lemma isa_walk_words:
  assumes "ws \<noteq> []" and "\<forall>w \<in> set ws. e \<notin> set w" and "seps + length ws \<le> 16"
  shows "isa_walk e idx seps (js_join [e] ws @ e # cs) =
         isa_walk e (idx + length (js_join [e] ws) + 1) (seps + length ws) cs"
  using assms
proof (induction ws arbitrary: idx seps rule: induct_list012)
  case (2 w)
  then show ?case by (simp add: isa_walk_word)
next
  case (3 w v ws)
  have "isa_walk e idx seps (js_join [e] (w # v # ws) @ e # cs) =
        isa_walk e (idx + length w) seps (e # js_join [e] (v # ws) @ e # cs)"
    using 3 by (simp add: isa_walk_word)
  also have "\<dots> = isa_walk e (Suc (idx + length w)) (Suc seps) (js_join [e] (v # ws) @ e # cs)"
    using 3 by simp
  also have "\<dots> = isa_walk e (Suc (idx + length w) + length (js_join [e] (v # ws)) + 1)
                    (Suc seps + length (v # ws)) cs"
    using 3 by (intro "3.IH"(2)) auto
  finally show ?case by (simp add: add.assoc)
qed simp

lemma js_join_snoc: "ws \<noteq> [] \<Longrightarrow> js_join sep (ws @ [w]) = js_join sep ws @ sep @ w"
  by (induction sep ws rule: js_join.induct) auto

lemma isa_walk_done [simp]: "isa_walk e idx 16 cs = (idx, 16)"
  by (cases cs) auto

lemma read_isa_delimiters_render:
  assumes isa: "isa_segment c s" and wf: "wf_segment e t s"
  shows "read_isa_delimiters (render_segment e s @ t # rest) =
         Inr \<lparr>delim_element = e, delim_segment = t, delim_component = c\<rparr>"
proof -
  let ?els = "butlast (seg_elements s)"
  have ne: "seg_elements s \<noteq> []" using isa by (auto simp: isa_segment_def)
  have els: "seg_elements s = ?els @ [[c]]"
    using append_butlast_last_id [OF ne] isa by (simp add: isa_segment_def)
  let ?j = "js_join [e] (''ISA'' # ?els)"
  have r: "render_segment e s = ?j @ e # [c]"
  proof -
    have "render_segment e s = js_join [e] ((''ISA'' # ?els) @ [[c]])"
      using isa els by (simp add: render_segment_def isa_segment_def)
    also have "\<dots> = ?j @ [e] @ [c]" by (rule js_join_snoc) simp
    finally show ?thesis by simp
  qed
  have len: "length ?els = 15" using isa by (simp add: isa_segment_def)
  have free: "\<forall>w \<in> set (''ISA'' # ?els). e \<notin> set w"
    using wf isa by (auto simp: wf_segment_def isa_segment_def dest: in_set_butlastD)
  let ?raw = "?j @ e # c # t # rest"
  have walk: "isa_walk e 0 0 ?raw = (length ?j + 1, 16)"
    using isa_walk_words [of "''ISA'' # ?els" e 0 0 "c # t # rest"] free len by simp
  have j: "?j = ''ISA'' @ e # js_join [e] ?els"
    using len by (cases ?els) auto
  have idx: "index_of ''ISA'' ?raw = Some 0"
    by (rule index_of_prefix) (simp add: j is_prefix_of_def)
  have "char_at ?raw 3 = Some e" by (simp add: j char_at_def)
  moreover have "char_at ?raw (length ?j + 1) = Some c" "char_at ?raw (length ?j + 1 + 1) = Some t"
    by (simp_all add: char_at_def nth_append)
  ultimately show ?thesis
    unfolding r read_isa_delimiters_def using idx walk by (simp add: append_assoc)
qed

section \<open>Shape of the adapters' results\<close>

lemma parse210_shape:
  assumes "parse210 D raw cat = Inr iv"
  shows "\<exists>ix f. parse_edi_envelope raw ''IM'' = Inr ix \<and> inv_transaction_set iv = TS210 \<and>
     inv_charges iv = map (build_charge D cat (\<lambda>_. Some ''USD'') ''L0/L1'') (segments_by_tag ix ''L1'') \<and>
     inv_footing iv = Some f \<and> build_footing D (snd (read_b3_header ix)) (inv_charges iv) = Inr f"
proof -
  from assms obtain ix where "parse_edi_envelope raw ''IM'' = Inr ix" by (auto simp: parse210_def rbind_eq_Inr)
  with assms show ?thesis
    by (cases "read_b3_header ix") (auto simp: parse210_def rbind_eq_Inr Let_def build_charges_def)
qed

lemma parse310_shape:
  assumes "parse310 D raw cat = Inr iv"
  shows "\<exists>ix f. parse_edi_envelope raw ''IO'' = Inr ix \<and> inv_transaction_set iv = TS310 \<and>
     inv_charges iv = map (build_charge D cat
       (\<lambda>l1. or_else (el (Some l1) 20) (el (first_segment ix ''C3'') 1)) ''L1'') (segments_by_tag ix ''L1'') \<and>
     inv_footing iv = Some f \<and> build_footing D (snd (read_b3_header ix)) (inv_charges iv) = Inr f"
proof -
  from assms obtain ix where "parse_edi_envelope raw ''IO'' = Inr ix" by (auto simp: parse310_def rbind_eq_Inr)
  with assms show ?thesis
    by (cases "read_b3_header ix") (auto simp: parse310_def rbind_eq_Inr Let_def build_charges_def)
qed

section \<open>Amounts and currencies\<close>

lemma money_SomeD: "money D raw = Some a \<Longrightarrow> \<exists>s d. raw = Some s \<and> dec_of_string D s = Some d \<and> a = dec_to_fixed D 4 d"
  by (auto simp: money_def split: option.splits if_splits)

lemma build_charge_quarantined:
  "ch_quarantined (build_charge D cat rc loop l1) \<longleftrightarrow>
     (ch_code (build_charge D cat rc loop l1) \<noteq> None \<and> ch_category (build_charge D cat rc loop l1) = None)
     \<or> ch_amount (build_charge D cat rc loop l1) = None"
  by (simp add: build_charge_def Let_def)

lemma build_charge_amount: "ch_amount (build_charge D cat rc loop l1) = money D (el (Some l1) 4)"
  by (simp add: build_charge_def Let_def)

lemma build_charge_currency:
  "ch_currency (build_charge D cat rc loop l1) = (case rc l1 of None \<Rightarrow> [] | Some c \<Rightarrow> c)"
  by (simp add: build_charge_def Let_def)

text \<open>The rational value of a charge's amount; zero when it states none.\<close>

definition charge_value :: "'d decimal_lib \<Rightarrow> ('d \<Rightarrow> rat) \<Rightarrow> normalized_charge \<Rightarrow> rat" where
  "charge_value D dval c =
     (case ch_amount c of
        None \<Rightarrow> 0
      | Some a \<Rightarrow> (case dec_of_string D a of None \<Rightarrow> 0 | Some d \<Rightarrow> dval d))"

context decimal_laws
begin

lemma sum_money_total:
  assumes "\<forall>v \<in> set vs. \<forall>a. v = Some a \<longrightarrow> dec_of_string D a \<noteq> None"
  shows "\<exists>s. sum_money D vs = Inr s \<and> dec_of_string D s \<noteq> None"
proof -
  have "\<exists>acc'. rfold (add_money D) acc (List.map_filter id vs) = Inr acc'" for acc
    using assms
  proof (induction vs arbitrary: acc)
    case (Cons v vs)
    then show ?case by (cases v) (auto simp: map_filter_simps add_money_def)
  qed (simp add: map_filter_simps)
  then show ?thesis
    using to_fixed_parses by (fastforce simp: sum_money_def rbind_eq_Inr)
qed

lemma build_footing_total: "\<exists>f. build_footing D declared (map (build_charge D cat rc loop) l1s) = Inr f"
proof -
  have "\<exists>s. sum_money D (map ch_amount (map (build_charge D cat rc loop) l1s)) = Inr s \<and> dec_of_string D s \<noteq> None"
    using to_fixed_parses
    by (intro sum_money_total) (auto simp: build_charge_amount dest!: money_SomeD)
  then show ?thesis by (auto simp: build_footing_def)
qed

text \<open>The line sum of bounded amounts is their exact sum.\<close>

lemma rfold_add_money:
  assumes "list_all2 (\<lambda>v q. \<exists>d. dec_of_string D v = Some d \<and> has_value d q) vs qs"
    and "\<forall>q \<in> set qs. scale4 q \<and> \<bar>q\<bar> < 10 ^ 14" and "has_value acc a" and "scale4 a"
    and "\<bar>a\<bar> + of_nat (length qs) * 10 ^ 14 < 10 ^ 16"
  shows "\<exists>acc'. rfold (add_money D) acc vs = Inr acc' \<and> has_value acc' (a + sum_list qs) \<and> scale4 (a + sum_list qs)"
proof -
  obtain ds where ds: "list_all2 (\<lambda>v d. dec_of_string D v = Some d) vs ds" "list_all2 has_value ds qs"
    using assms(1)
  proof (induction vs qs arbitrary: thesis rule: list_all2_induct)
    case (Cons v vs q qs)
    from Cons.IH obtain ds where "list_all2 (\<lambda>v d. dec_of_string D v = Some d) vs ds" "list_all2 has_value ds qs"
      by blast
    with Cons.hyps(1) Cons.prems [of "_ # ds"] show ?case by auto
  qed simp
  have "rfold (add_money D) acc vs = Inr (foldl (dec_plus D) acc ds)"
    using ds(1) by (induction vs ds arbitrary: acc rule: list_all2_induct) (auto simp: add_money_def)
  moreover have "scale4 (a + sum_list qs)"
    using assms(2,4) by (induction qs arbitrary: a) (auto simp: scale4_add simp flip: add.assoc)
  ultimately show ?thesis using fold_plus_value [OF ds(2) assms(2-5)] by blast
qed

lemma sum_charges_exact:
  assumes "\<forall>c \<in> set cs. \<forall>a. ch_amount c = Some a \<longrightarrow>
      (\<exists>d. dec_of_string D a = Some d \<and> has_value d (dval d) \<and> scale4 (dval d) \<and> \<bar>dval d\<bar> < 10 ^ 14)"
    and "length cs < 100"
  shows "\<exists>s d. sum_money D (map ch_amount cs) = Inr s \<and> dec_of_string D s = Some d \<and>
    has_value d (\<Sum>c\<leftarrow>cs. charge_value D dval c)"
proof -
  let ?vs = "List.map_filter id (map ch_amount cs)"
  let ?qs = "map (charge_value D dval) (filter (\<lambda>c. ch_amount c \<noteq> None) cs)"
  have l: "list_all2 (\<lambda>v q. \<exists>d. dec_of_string D v = Some d \<and> has_value d q) ?vs ?qs"
    and q: "\<forall>q \<in> set ?qs. scale4 q \<and> \<bar>q\<bar> < 10 ^ 14"
    using assms(1) by (induction cs) (auto simp: map_filter_simps charge_value_def)
  have sum: "sum_list ?qs = (\<Sum>c\<leftarrow>cs. charge_value D dval c)"
    by (induction cs) (auto simp: charge_value_def)
  have "length ?qs < 100" using assms(2) le_less_trans [OF length_filter_le] by simp
  then have "rat_of_nat (length ?qs) < 100" by (simp only: of_nat_less_numeral_iff)
  then obtain acc where acc: "rfold (add_money D) (dec_zero D) ?vs = Inr acc" "has_value acc (sum_list ?qs)"
    "scale4 (sum_list ?qs)"
    using rfold_add_money [OF l q has_value_zero scale4_zero] by auto
  with to_fixed4_roundtrip [OF acc(2,3)] show ?thesis unfolding sum by (auto simp: sum_money_def)
qed

end

section \<open>Concrete interchanges\<close>

definition sample_edi :: string where
  "sample_edi = concat (map (\<lambda>s. s @ ''~'')
     [''ISA*00*          *00*          *ZZ*SENDER         *ZZ*RECEIVER       *250101*1200*U*00401*000000001*0*P*>'',
      ''GS*IM*SENDER*RECEIVER*20250101*1200*1*X*004010'', ''ST*210*0001'',
      ''B3**INV1*SHIP1*PP**20250101*150.00****ABCD'',
      ''L1*1*100.00*FR*100.00****400'', ''L1*2*50.00*FR*50.00****405'', ''SE*5*0001'', ''GE*1*1'', ''IEA*1*000000001''])"

definition sample_310 :: string where
  "sample_310 = concat (map (\<lambda>s. s @ ''~'')
     [''ISA*00*          *00*          *ZZ*SENDER         *ZZ*RECEIVER       *250101*1200*U*00401*000000001*0*P*>'',
      ''GS*IO*SENDER*RECEIVER*20250101*1200*1*X*004010'', ''B3**INV1****20250101*150.00'',
      ''L1*1***100.00****400'', ''L1*2***oops****XXX************EUR'', ''IEA*1*000000001''])"

definition sample_crosswalk :: categorize where
  "sample_crosswalk code = (if code = Some ''400'' then Some ''LINEHAUL'' else None)"

lemma scale4_sdec: "scale4 (sdec_val (m, 4))"
  by (auto simp: scale4_def sdec_val_def)

section \<open>Properties\<close>

text \<open>
  C24: the X12 reader inverts X12 rendering for any choice of delimiters. Reading the wire form of
  an interchange whose first segment is an ISA returns exactly the delimiters and the segments,
  whatever characters serve as separators.
\<close>

theorem parse_x12_roundtrip:
  assumes "isa_segment c isa" and "\<forall>s \<in> set (isa # segs). wf_segment e t s" and "e \<noteq> t"
  shows "parse_x12 (render_x12 e t (isa # segs)) =
    Inr \<lparr>ix_delimiters = \<lparr>delim_element = e, delim_segment = t, delim_component = c\<rparr>, ix_segments = isa # segs\<rparr>"
proof -
  have "render_x12 e t (isa # segs) = render_segment e isa @ t # render_x12 e t segs"
    by (simp add: render_x12_def)
  then have d: "read_isa_delimiters (render_x12 e t (isa # segs)) =
      Inr \<lparr>delim_element = e, delim_segment = t, delim_component = c\<rparr>"
    using read_isa_delimiters_render assms by simp
  show ?thesis
    unfolding parse_x12_def d
    using split_render [OF assms(2,3)] parse_chunks_render [OF assms(2)] by simp
qed

theorem parse_x12_roundtrip_witness:
  "parse_x12 (render_x12 CHR ''|'' CHR ''!''
     [\<lparr>seg_tag = ''ISA'', seg_elements = replicate 15 ''x'' @ ['':'']\<rparr>, \<lparr>seg_tag = ''B3'', seg_elements = [[], ''INV1'']\<rparr>])
   = Inr \<lparr>ix_delimiters = \<lparr>delim_element = CHR ''|'', delim_segment = CHR ''!'', delim_component = CHR '':''\<rparr>,
          ix_segments = [\<lparr>seg_tag = ''ISA'', seg_elements = replicate 15 ''x'' @ ['':'']\<rparr>,
                         \<lparr>seg_tag = ''B3'', seg_elements = [[], ''INV1'']\<rparr>]\<rparr>"
proof (rule parse_x12_roundtrip)
  show "isa_segment CHR '':'' \<lparr>seg_tag = ''ISA'', seg_elements = replicate 15 ''x'' @ ['':'']\<rparr>"
    by (simp add: isa_segment_def)
  have "wf_segment CHR ''|'' CHR ''!'' \<lparr>seg_tag = ''ISA'', seg_elements = replicate 15 ''x'' @ ['':'']\<rparr>"
    "wf_segment CHR ''|'' CHR ''!'' \<lparr>seg_tag = ''B3'', seg_elements = [[], ''INV1'']\<rparr>"
    by code_simp+
  then show "\<forall>s \<in> set [\<lparr>seg_tag = ''ISA'', seg_elements = replicate 15 ''x'' @ ['':'']\<rparr>,
      \<lparr>seg_tag = ''B3'', seg_elements = [[], ''INV1'']\<rparr>]. wf_segment CHR ''|'' CHR ''!'' s"
    by simp
qed simp

text \<open>
  The ocean adapter reads every charge and invents nothing. An accepted 310 has one charge per
  L1 segment, in order; its currency is that of the line (L1-20) or of the interchange (C3-01) and
  stays empty when neither is stated; it is quarantined exactly when its code is unknown to the
  crosswalk or its amount does not parse, and the quarantined codes are listed in order.
\<close>

theorem parse310_charges_faithful:
  assumes "parse310 D raw cat = Inr iv"
  shows "\<exists>ix. parse_edi_envelope raw ''IO'' = Inr ix \<and>
    list_all2 (\<lambda>l1 c.
       ch_code c = el (Some l1) 8 \<and> ch_amount c = money D (el (Some l1) 4) \<and>
       ch_currency c = (case or_else (el (Some l1) 20) (el (first_segment ix ''C3'') 1) of None \<Rightarrow> [] | Some x \<Rightarrow> x) \<and>
       (ch_quarantined c \<longleftrightarrow> (ch_code c \<noteq> None \<and> cat (ch_code c) = None) \<or> ch_amount c = None))
      (segments_by_tag ix ''L1'') (inv_charges iv) \<and>
    map Some (inv_quarantined_codes iv) =
      filter (\<lambda>code. code \<noteq> None \<and> cat code = None) (map ch_code (inv_charges iv))"
proof -
  from assms obtain ix where ix: "parse_edi_envelope raw ''IO'' = Inr ix" by (auto simp: parse310_def rbind_eq_Inr)
  have q: "map Some (List.map_filter (\<lambda>l1. let code = el (Some l1) 8
        in if code \<noteq> None \<and> cat code = None then code else None) l1s) =
      filter (\<lambda>code. code \<noteq> None \<and> cat code = None) (map (\<lambda>l1. el (Some l1) 8) l1s)" for l1s
    by (induction l1s) (auto simp: map_filter_simps Let_def split: option.splits)
  have "inv_charges iv = map (build_charge D cat (\<lambda>l1. or_else (el (Some l1) 20) (el (first_segment ix ''C3'') 1)) ''L1'')
      (segments_by_tag ix ''L1'')"
    "inv_quarantined_codes iv = List.map_filter (\<lambda>l1. let code = el (Some l1) 8
        in if code \<noteq> None \<and> cat code = None then code else None) (segments_by_tag ix ''L1'')"
    using assms ix
    by (cases "read_b3_header ix", auto simp: parse310_def rbind_eq_Inr Let_def build_charges_def)+
  with ix q show ?thesis
    by (intro exI [of _ ix])
      (auto simp: list_all2_conv_all_nth build_charge_def Let_def comp_def)
qed

theorem parse310_charges_faithful_witness:
  "\<exists>iv. parse310 exact_decimal sample_310 sample_crosswalk = Inr iv \<and>
     map ch_currency (inv_charges iv) = [[], ''EUR''] \<and> map ch_quarantined (inv_charges iv) = [False, True] \<and>
     map Some (inv_quarantined_codes iv) =
       filter (\<lambda>code. code \<noteq> None \<and> sample_crosswalk code = None) (map ch_code (inv_charges iv))"
proof -
  have "case parse310 exact_decimal sample_310 sample_crosswalk of Inl _ \<Rightarrow> False
    | Inr iv \<Rightarrow> map ch_currency (inv_charges iv) = [[], ''EUR''] \<and> map ch_quarantined (inv_charges iv) = [False, True]"
    by code_simp
  then obtain iv where iv: "parse310 exact_decimal sample_310 sample_crosswalk = Inr iv"
    "map ch_currency (inv_charges iv) = [[], ''EUR'']" "map ch_quarantined (inv_charges iv) = [False, True]"
    by (cases "parse310 exact_decimal sample_310 sample_crosswalk") simp_all
  have "map Some (inv_quarantined_codes iv) =
      filter (\<lambda>code. code \<noteq> None \<and> sample_crosswalk code = None) (map ch_code (inv_charges iv))"
    using parse310_charges_faithful [OF iv(1)] by (elim exE conjE)
  with iv show ?thesis by (intro exI [of _ iv] conjI)
qed

text \<open>
  The footing's line sum is exact. For an invoice of fewer than a hundred charges whose stated
  amounts fit the money columns, the line sum is the exact sum of the stated charge amounts.
\<close>

theorem line_sum_exact:
  assumes "decimal_laws D dval" and "parse210 D raw cat = Inr iv \<or> parse310 D raw cat = Inr iv"
    and "length (inv_charges iv) < 100"
    and "\<forall>c \<in> set (inv_charges iv). \<forall>a d. ch_amount c = Some a \<longrightarrow> dec_of_string D a = Some d \<longrightarrow>
           dec_is_finite D d \<and> scale4 (dval d) \<and> \<bar>dval d\<bar> < 10 ^ 14"
  shows "\<exists>f d. inv_footing iv = Some f \<and> dec_of_string D (line_sum f) = Some d \<and>
    dval d = (\<Sum>c\<leftarrow>inv_charges iv. charge_value D dval c)"
proof -
  obtain declared cat rc loop l1s f where ch: "inv_charges iv = map (build_charge D cat rc loop) l1s"
    and f: "inv_footing iv = Some f" "build_footing D declared (inv_charges iv) = Inr f"
    using assms(2) parse210_shape [of D raw cat iv] parse310_shape [of D raw cat iv] by metis
  have "\<exists>a'. dec_of_string D a = Some a'" if "ch_amount (build_charge D cat rc loop l1) = Some a" for l1 a
    using that decimal_laws.to_fixed_parses [OF assms(1)]
    by (auto simp: build_charge_amount dest!: money_SomeD)
  then have "\<forall>c \<in> set (inv_charges iv). \<forall>a. ch_amount c = Some a \<longrightarrow> (\<exists>d. dec_of_string D a = Some d \<and>
      decimal_laws.has_value D dval d (dval d) \<and> scale4 (dval d) \<and> \<bar>dval d\<bar> < 10 ^ 14)"
    using assms(4) unfolding decimal_laws.has_value_def [OF assms(1)] ch by fastforce
  from decimal_laws.sum_charges_exact [OF assms(1) this assms(3)] f show ?thesis
    by (auto simp: build_footing_def rbind_eq_Inr decimal_laws.has_value_def [OF assms(1)])
qed

theorem line_sum_exact_witness:
  "\<exists>iv f d. parse210 exact_decimal sample_edi (\<lambda>c. Some ''LINEHAUL'') = Inr iv \<and> inv_footing iv = Some f \<and>
     dec_of_string exact_decimal (line_sum f) = Some d \<and>
     sdec_val d = (\<Sum>c\<leftarrow>inv_charges iv. charge_value exact_decimal sdec_val c)"
proof -
  have "case parse210 exact_decimal sample_edi (\<lambda>c. Some ''LINEHAUL'') of Inl _ \<Rightarrow> False
    | Inr iv \<Rightarrow> map ch_amount (inv_charges iv) = [Some ''100.0000'', Some ''50.0000'']"
    by code_simp
  then obtain iv where iv: "parse210 exact_decimal sample_edi (\<lambda>c. Some ''LINEHAUL'') = Inr iv"
    "map ch_amount (inv_charges iv) = [Some ''100.0000'', Some ''50.0000'']"
    by (cases "parse210 exact_decimal sample_edi (\<lambda>c. Some ''LINEHAUL'')") simp_all
  have n: "length (inv_charges iv) < 100" using arg_cong [OF iv(2), of length] by simp
  have p: "dec_of_string exact_decimal ''100.0000'' = Some (1000000, 4)"
    "dec_of_string exact_decimal ''50.0000'' = Some (500000, 4)"
    by code_simp+
  have v: "\<bar>sdec_val (1000000, 4)\<bar> < 10 ^ 14" "\<bar>sdec_val (500000, 4)\<bar> < 10 ^ 14"
    by (simp_all add: sdec_val_def)
  have am: "ch_amount c \<in> {Some ''100.0000'', Some ''50.0000''}" if "c \<in> set (inv_charges iv)" for c
  proof -
    from that have "ch_amount c \<in> set (map ch_amount (inv_charges iv))" by simp
    then show ?thesis unfolding iv(2) by simp
  qed
  have b: "\<forall>c \<in> set (inv_charges iv). \<forall>a d. ch_amount c = Some a \<longrightarrow> dec_of_string exact_decimal a = Some d \<longrightarrow>
      dec_is_finite exact_decimal d \<and> scale4 (sdec_val d) \<and> \<bar>sdec_val d\<bar> < 10 ^ 14"
  proof (intro ballI allI impI)
    fix c a d
    assume c: "c \<in> set (inv_charges iv)" "ch_amount c = Some a" and d: "dec_of_string exact_decimal a = Some d"
    have a: "a = ''100.0000'' \<or> a = ''50.0000''"
      using am [OF c(1)] c(2) by simp
    then have "d = (1000000, 4) \<or> d = (500000, 4)" using d p by auto
    then show "dec_is_finite exact_decimal d \<and> scale4 (sdec_val d) \<and> \<bar>sdec_val d\<bar> < 10 ^ 14"
      using v scale4_sdec by (auto simp: exact_decimal_def)
  qed
  from line_sum_exact [OF exact.decimal_laws_axioms disjI1 [OF iv(1)] n b] iv(1) show ?thesis by blast
qed

end
