(* ===== verification/Canonical_Json.thy ===== *)
theory Canonical_Json
  imports Prelude
begin

text \<open>
  JSON values and the canonical serializations the audit pins are hashed from:
  \<open>audit-ledger/replay-manifest.ts\<close> (\<open>canonicalJson\<close>), \<open>evaluator/snapshot.ts\<close>
  (\<open>stableStringify\<close>, \<open>sortKeys\<close>). The decimal rendering of a finite number and the SHA-256
  digest are parameters, as is the collation of \<open>localeCompare\<close>; \<open>runtime\<close> collects them.
\<close>

section \<open>JSON values\<close>

text \<open>Object members are listed in insertion order.\<close>

datatype json =
    JNull
  | JBool bool
  | JNumber js_number
  | JString string
  | JArray "json list"
  | JObject "(string \<times> json) list"

definition hex_digit :: "nat \<Rightarrow> char" where
  "hex_digit n = (if n < 10 then char_of (48 + n) else char_of (87 + n))"

definition hex_value :: "char \<Rightarrow> nat" where
  "hex_value c = (if (of_char c :: nat) \<le> 57 then of_char c - 48 else of_char c - 87)"

definition json_escape :: "char \<Rightarrow> string" where
  "json_escape c =
     (let n = (of_char c :: nat)
      in if n = 34 then [CHR 0x5C, CHR 0x22]
         else if n = 92 then [CHR 0x5C, CHR 0x5C]
         else if n = 8 then [CHR 0x5C, CHR ''b'']
         else if n = 9 then [CHR 0x5C, CHR ''t'']
         else if n = 10 then [CHR 0x5C, CHR ''n'']
         else if n = 12 then [CHR 0x5C, CHR ''f'']
         else if n = 13 then [CHR 0x5C, CHR ''r'']
         else if n < 32 then [CHR 0x5C, CHR ''u'', CHR ''0'', CHR ''0'', hex_digit (n div 16), hex_digit (n mod 16)]
         else [c])"

definition json_quote :: "string \<Rightarrow> string" where
  "json_quote s = CHR 0x22 # concat (map json_escape s) @ [CHR 0x22]"

text \<open>\<open>JSON.stringify\<close> without indentation; a number that is not finite prints as \<open>null\<close>.\<close>

fun json_stringify :: "(rat \<Rightarrow> string) \<Rightarrow> json \<Rightarrow> string" where
  "json_stringify ns JNull = ''null''"
| "json_stringify ns (JBool b) = (if b then ''true'' else ''false'')"
| "json_stringify ns (JNumber n) = (case n of JFin q \<Rightarrow> ns q | _ \<Rightarrow> ''null'')"
| "json_stringify ns (JString s) = json_quote s"
| "json_stringify ns (JArray xs) = ''['' @ js_join '','' (map (json_stringify ns) xs) @ '']''"
| "json_stringify ns (JObject ms) =
     ''{'' @ js_join '','' (map (\<lambda>(k, v). json_quote k @ '':'' @ json_stringify ns v) ms) @ ''}''"

section \<open>canonicalJson\<close>

abbreviation key_order :: "(string \<times> 'a) \<Rightarrow> (string \<times> 'a) \<Rightarrow> int" where
  "key_order \<equiv> (\<lambda>a b. unit_compare (fst a) (fst b))"

fun canonical_json :: "(rat \<Rightarrow> string) \<Rightarrow> json \<Rightarrow> string" where
  "canonical_json ns (JArray xs) = ''['' @ js_join '','' (map (canonical_json ns) xs) @ '']''"
| "canonical_json ns (JObject ms) =
     ''{'' @ js_join '','' (map (\<lambda>(k, v). json_quote k @ '':'' @ v)
               (js_sort key_order (map (\<lambda>(k, v). (k, canonical_json ns v)) ms))) @ ''}''"
| "canonical_json ns v = json_stringify ns v"

section \<open>sortKeys and stableStringify\<close>

text \<open>
  An object enumerates its array-index keys first, in numeric order, whatever the order of
  insertion; the other keys follow in insertion order.
\<close>

definition is_index_key :: "string \<Rightarrow> bool" where
  "is_index_key k \<longleftrightarrow> k \<noteq> [] \<and> list_all is_digit k \<and> (hd k = CHR ''0'' \<longrightarrow> k = ''0'') \<and> read_int k < 4294967295"

definition own_keys_order :: "(string \<times> 'a) list \<Rightarrow> (string \<times> 'a) list" where
  "own_keys_order ms =
     js_sort (\<lambda>a b. read_int (fst a) - read_int (fst b)) (filter (\<lambda>m. is_index_key (fst m)) ms)
     @ filter (\<lambda>m. \<not> is_index_key (fst m)) ms"

fun sort_keys :: "json \<Rightarrow> json" where
  "sort_keys (JArray xs) = JArray (map sort_keys xs)"
| "sort_keys (JObject ms) =
     JObject (own_keys_order (js_sort key_order (map (\<lambda>(k, v). (k, sort_keys v)) ms)))"
| "sort_keys v = v"

definition stable_stringify :: "(rat \<Rightarrow> string) \<Rightarrow> json \<Rightarrow> string" where
  "stable_stringify ns v = json_stringify ns (sort_keys v)"

text \<open>The library operations a run of the program depends on besides decimal.js.\<close>

record runtime =
  rt_locale_compare :: "string \<Rightarrow> string \<Rightarrow> int"
  rt_sha256_hex :: "string \<Rightarrow> string"
  rt_number_string :: "rat \<Rightarrow> string"

section \<open>Normal form\<close>

text \<open>Recursive sorting of the members by key: two values denote the same document up to member order iff their normal forms agree.\<close>

fun normalize_json :: "json \<Rightarrow> json" where
  "normalize_json (JArray xs) = JArray (map normalize_json xs)"
| "normalize_json (JObject ms) = JObject (js_sort key_order (map (\<lambda>(k, v). (k, normalize_json v)) ms))"
| "normalize_json v = v"

lemma js_insert_map:
  "(\<And>a b. cmp (f a) (f b) = cmp' a b) \<Longrightarrow> js_insert cmp (f x) (map f ys) = map f (js_insert cmp' x ys)"
  by (induction ys) auto

lemma js_sort_map:
  "(\<And>a b. cmp (f a) (f b) = cmp' a b) \<Longrightarrow> js_sort cmp (map f xs) = map f (js_sort cmp' xs)"
  by (induction xs) (auto simp: js_insert_map)

lemma canonical_json_normalize: "canonical_json ns v = json_stringify ns (normalize_json v)"
proof (induction v)
  case (JArray xs)
  then have eq: "map (canonical_json ns) xs = map (json_stringify ns) (map normalize_json xs)" by simp
  show ?case by (simp only: canonical_json.simps json_stringify.simps normalize_json.simps eq)
next
  case (JObject ms)
  have eq: "map (\<lambda>(k, v). (k, canonical_json ns v)) ms =
      map (\<lambda>(k, v). (k, json_stringify ns v)) (map (\<lambda>(k, v). (k, normalize_json v)) ms)"
    using JObject by (auto simp: snds.simps)
  have "js_sort key_order (map (\<lambda>(k, v). (k, canonical_json ns v)) ms) =
      map (\<lambda>(k, v). (k, json_stringify ns v)) (js_sort key_order (map (\<lambda>(k, v). (k, normalize_json v)) ms))"
    unfolding eq by (rule js_sort_map) auto
  then show ?case by (simp add: case_prod_unfold comp_def)
qed auto

text \<open>Sorting by distinct keys forgets the order of insertion.\<close>

lemma sorted_keys_unique:
  assumes "sorted_wrt (\<lambda>a b. key_order a b \<le> 0) xs" "sorted_wrt (\<lambda>a b. key_order a b \<le> 0) ys"
    and "mset xs = mset ys" and "distinct (map fst xs)"
  shows "xs = ys"
  using assms
proof (induction xs arbitrary: ys)
  case (Cons x xs)
  obtain y ys' where ys: "ys = y # ys'" using Cons.prems(3) by (cases ys) auto
  have "x = y"
  proof (rule ccontr)
    assume ne: "x \<noteq> y"
    have "y \<in> set xs" "x \<in> set ys'"
      using Cons.prems(3) ne ys by (metis mset_eq_setD set_ConsD list.set_intros(1))+
    with Cons.prems(1,2) ys have "key_order x y \<le> 0" "key_order y x \<le> 0" by auto
    then have "unit_compare (fst x) (fst y) = 0"
      using unit_compare_antisym [of "fst x" "fst y"] by linarith
    then have "fst x = fst y" by (simp add: unit_compare_eq_0)
    with \<open>y \<in> set xs\<close> Cons.prems(4) show False by (auto simp: image_iff)
  qed
  with Cons ys show ?case by auto
qed simp

interpretation key_sort: comparator "key_order :: string \<times> 'a \<Rightarrow> string \<times> 'a \<Rightarrow> int"
  by unfold_locales (use unit_order.cmp_total unit_order.cmp_trans in blast)+

lemma js_sort_keys_perm:
  assumes "mset xs = mset ys" and "distinct (map fst xs)"
  shows "js_sort key_order xs = js_sort key_order ys"
  using assms by (intro sorted_keys_unique) (auto simp: key_sort.sorted_js_sort)

section \<open>Serialization is injective\<close>

text \<open>Decoding one character of a quoted string.\<close>

fun json_unescape :: "string \<Rightarrow> (char \<times> string) option" where
  "json_unescape (c # cs) =
     (if c = CHR 0x5C then
        (case cs of
           e # r \<Rightarrow>
             (if e = CHR ''u'' then
                (case r of
                   z1 # z2 # h # l # r' \<Rightarrow> Some (char_of (16 * hex_value h + hex_value l), r')
                 | _ \<Rightarrow> None)
              else if e = CHR ''b'' then Some (CHR 8, r)
              else if e = CHR ''t'' then Some (CHR 9, r)
              else if e = CHR ''n'' then Some (CHR 10, r)
              else if e = CHR ''f'' then Some (CHR 12, r)
              else if e = CHR ''r'' then Some (CHR 13, r)
              else Some (e, r))
         | [] \<Rightarrow> None)
      else Some (c, cs))"
| "json_unescape [] = None"

lemma hex_value_digit: "n < 16 \<Longrightarrow> hex_value (hex_digit n) = n"
  by (auto simp: hex_value_def hex_digit_def of_char_of)

lemma char_eq_of_char: "(of_char c :: nat) = n \<Longrightarrow> c = char_of n"
  using char_of_char [of c, where ?'a = nat] by simp

lemma json_unescape_escape: "json_unescape (json_escape c @ r) = Some (c, r)"
proof -
  let ?n = "of_char c :: nat"
  consider "?n \<in> {34, 92, 8, 9, 10, 12, 13}" | "?n < 32" "?n \<notin> {8, 9, 10, 12, 13}"
    | "32 \<le> ?n" "?n \<notin> {34, 92}"
    by force
  then show ?thesis
  proof cases
    case 1
    then have "c \<in> {char_of (34::nat), char_of (92::nat), char_of (8::nat), char_of (9::nat),
        char_of (10::nat), char_of (12::nat), char_of (13::nat)}"
      using char_eq_of_char by blast
    moreover have "char_of (34::nat) = CHR 0x22" "char_of (92::nat) = CHR 0x5C" "char_of (8::nat) = CHR 8"
      "char_of (9::nat) = CHR 9" "char_of (10::nat) = CHR 10" "char_of (12::nat) = CHR 12"
      "char_of (13::nat) = CHR 13"
      by (code_simp)+
    ultimately show ?thesis by (auto simp: json_escape_def Let_def)
  next
    case 2
    have "16 * (?n div 16) + ?n mod 16 = ?n" by simp
    moreover have "?n div 16 < 16" "?n mod 16 < 16" using 2 by auto
    ultimately have "char_of (16 * hex_value (hex_digit (?n div 16)) + hex_value (hex_digit (?n mod 16))) = c"
      by (simp only: hex_value_digit char_of_char)
    with 2 show ?thesis by (simp add: json_escape_def Let_def)
  next
    case 3
    then have "c \<noteq> CHR 0x5C" by auto
    with 3 show ?thesis by (simp add: json_escape_def Let_def)
  qed
qed

lemma json_escape_not_quote: "json_escape c @ r \<noteq> CHR 0x22 # s"
  by (auto simp: json_escape_def Let_def)

lemma json_escape_inj: "json_escape c @ r = json_escape d @ s \<Longrightarrow> c = d \<and> r = s"
  by (metis json_unescape_escape option.inject prod.inject)

lemma json_body_inj:
  "concat (map json_escape s) @ CHR 0x22 # r = concat (map json_escape t) @ CHR 0x22 # u \<Longrightarrow> s = t \<and> r = u"
proof (induction s arbitrary: t)
  case Nil
  note eq = Nil
  show ?case
  proof (cases t)
    case Nil
    with eq show ?thesis by simp
  next
    case (Cons d t')
    with eq have "json_escape d @ (concat (map json_escape t') @ CHR 0x22 # u) = CHR 0x22 # r" by simp
    then show ?thesis by (simp only: json_escape_not_quote)
  qed
next
  case (Cons c s)
  note prems = Cons.prems and IH = Cons.IH
  show ?case
  proof (cases t)
    case Nil
    with prems json_escape_not_quote [of c] show ?thesis by simp
  next
    case (Cons d t')
    with prems have "json_escape c @ (concat (map json_escape s) @ CHR 0x22 # r) =
        json_escape d @ (concat (map json_escape t') @ CHR 0x22 # u)" by simp
    from json_escape_inj [OF this] Cons IH [of t'] show ?thesis by simp
  qed
qed

lemma json_quote_inj: "json_quote s @ r = json_quote t @ u \<Longrightarrow> s = t \<and> r = u"
  by (rule json_body_inj) (simp add: json_quote_def)

text \<open>What delimits a value inside an array or object.\<close>

definition delimited :: "string \<Rightarrow> bool" where
  "delimited r \<longleftrightarrow> r = [] \<or> hd r \<in> {CHR '','', CHR '']'', CHR ''}''}"

definition number_char :: "char \<Rightarrow> bool" where
  "number_char c \<longleftrightarrow> is_digit c \<or> c \<in> {CHR ''-'', CHR ''+'', CHR ''.'', CHR ''e''}"

text \<open>All numbers of the value are finite, so none of them prints as \<open>null\<close>.\<close>

fun printable :: "json \<Rightarrow> bool" where
  "printable (JNumber n) = is_finite_number n"
| "printable (JArray xs) = (\<forall>x \<in> set xs. printable x)"
| "printable (JObject ms) = (\<forall>m \<in> set ms. printable (snd m))"
| "printable _ = True"

text \<open>What \<open>Number.prototype.toString\<close> promises of finite numbers: it is injective, and prints digits, sign, point and exponent only.\<close>

locale number_printer =
  fixes ns :: "rat \<Rightarrow> string"
  assumes ns_inj: "ns p = ns q \<Longrightarrow> p = q"
    and ns_not_Nil: "ns q \<noteq> []"
    and ns_chars: "c \<in> set (ns q) \<Longrightarrow> number_char c"
    and ns_hd: "is_digit (hd (ns q)) \<or> hd (ns q) = CHR ''-''"
begin

lemma number_prefix_inj:
  "ns p @ r = ns q @ s \<Longrightarrow> delimited r \<Longrightarrow> delimited s \<Longrightarrow> p = q \<and> r = s"
proof -
  assume eq: "ns p @ r = ns q @ s" and d: "delimited r" "delimited s"
  have nd: "\<not> number_char c" if "c \<in> {CHR '','', CHR '']'', CHR ''}''}" for c
    using that by (auto simp: number_char_def is_digit_def)
  have tw: "takeWhile number_char (ns q @ r) = ns q" if "delimited r" for q r
    using that ns_chars nd by (cases r) (auto simp: delimited_def takeWhile_append)
  have "ns p = ns q" using tw [OF d(1), of p] tw [OF d(2), of q] eq by simp
  with eq show ?thesis using ns_inj by auto
qed

end

text \<open>A list printed with separators is determined by its elements' codes.\<close>

lemma join_prefix_inj:
  assumes "js_join '','' (map f xs) @ z # r = js_join '','' (map f ys) @ z # s"
    and "\<And>x y r s. x \<in> set xs \<Longrightarrow> y \<in> set ys \<Longrightarrow> f x @ r = f y @ s \<Longrightarrow> delimited r \<Longrightarrow> delimited s \<Longrightarrow> x = y \<and> r = s"
    and "\<And>y. y \<in> set xs \<union> set ys \<Longrightarrow> f y \<noteq> [] \<and> hd (f y) \<noteq> z" and "z \<in> {CHR '']'', CHR ''}''}"
  shows "xs = ys \<and> r = s"
  using assms
proof (induction xs arbitrary: ys)
  case Nil
  show ?case
  proof (cases ys)
    case (Cons y ys')
    have "f y \<noteq> []" "hd (f y) \<noteq> z" using Nil.prems(3) [of y] Cons by auto
    then obtain c cs where "f y = c # cs" "c \<noteq> z" by (cases "f y") auto
    with Nil.prems(1) Cons show ?thesis by (cases ys') auto
  qed (use Nil.prems in simp)
next
  case (Cons x xs)
  note prems = Cons.prems
  show ?case
  proof (cases ys)
    case Nil
    have "f x \<noteq> []" "hd (f x) \<noteq> z" using prems(3) [of x] by auto
    then obtain c cs where "f x = c # cs" "c \<noteq> z" by (cases "f x") auto
    with prems(1) Nil show ?thesis by (cases xs) auto
  next
    case (Cons y ys')
    let ?tl = "\<lambda>zs t. if zs = [] then z # t else '','' @ js_join '','' (map f zs) @ z # t"
    have split: "js_join '','' (map f (a # zs)) @ z # t = f a @ ?tl zs t" for a zs t
      by (cases zs) auto
    have delim: "delimited (?tl zs t)" for zs t
      using prems(4) by (auto simp: delimited_def)
    have eq: "f x @ ?tl xs r = f y @ ?tl ys' s"
      using prems(1) unfolding Cons split .
    have xy: "x = y" "?tl xs r = ?tl ys' s"
      using prems(2) [OF _ _ eq delim delim] Cons by auto
    show ?thesis
    proof (cases "xs = [] \<or> ys' = []")
      case True
      with xy Cons prems(4) show ?thesis by (auto split: if_splits)
    next
      case False
      then have "js_join '','' (map f xs) @ z # r = js_join '','' (map f ys') @ z # s"
        using xy(2) by simp
      then have "xs = ys' \<and> r = s"
        by (rule Cons.IH) (use prems(2-4) Cons in auto)
      with xy Cons show ?thesis by simp
    qed
  qed
qed

context number_printer
begin

lemma json_stringify_hd:
  "printable v \<Longrightarrow> json_stringify ns v \<noteq> [] \<and> hd (json_stringify ns v) \<notin> {CHR '']'', CHR ''}''}"
proof (induction v)
  case (JNumber n)
  then obtain q where "n = JFin q" by (cases n) auto
  then show ?case using ns_hd [of q] ns_not_Nil [of q] by (auto simp: is_digit_def)
qed (auto simp: json_quote_def)

lemma ns_hd_neq:
  "hd (ns q) \<noteq> CHR ''n''" "hd (ns q) \<noteq> CHR ''t''" "hd (ns q) \<noteq> CHR ''f''" "hd (ns q) \<noteq> CHR 0x22"
  "hd (ns q) \<noteq> CHR ''[''" "hd (ns q) \<noteq> CHR ''{''"
  using ns_hd [of q] by (auto simp: is_digit_def)

lemma json_stringify_kind:
  "printable v \<Longrightarrow> hd (json_stringify ns v) =
     (case v of JNull \<Rightarrow> CHR ''n'' | JBool b \<Rightarrow> if b then CHR ''t'' else CHR ''f''
      | JNumber n \<Rightarrow> (case n of JFin q \<Rightarrow> hd (ns q) | _ \<Rightarrow> CHR ''n'')
      | JString s \<Rightarrow> CHR 0x22 | JArray xs \<Rightarrow> CHR ''['' | JObject ms \<Rightarrow> CHR ''{'')"
  by (cases v) (auto simp: json_quote_def split: js_number.splits)

lemma json_stringify_prefix_inj:
  assumes "json_stringify ns a @ r = json_stringify ns b @ s"
    and "printable a" "printable b" "delimited r" "delimited s"
  shows "a = b \<and> r = s"
  using assms
proof (induction a arbitrary: b r s)
  case (JArray xs)
  have h: "hd (json_stringify ns b) = CHR ''[''"
    using JArray.prems json_stringify_hd [of b] by (cases "json_stringify ns b") auto
  then obtain ys where b: "b = JArray ys"
    using json_stringify_kind [OF JArray.prems(3)] ns_hd_neq by (cases b) (auto simp: ns_hd_neq [symmetric] split: js_number.splits if_splits)
  have "xs = ys \<and> r = s"
  proof (rule join_prefix_inj)
    show "js_join '','' (map (json_stringify ns) xs) @ CHR '']'' # r = js_join '','' (map (json_stringify ns) ys) @ CHR '']'' # s"
      using JArray.prems(1) b by simp
    show "x = y \<and> r' = s'" if "x \<in> set xs" "y \<in> set ys" "json_stringify ns x @ r' = json_stringify ns y @ s'"
      "delimited r'" "delimited s'" for x y r' s'
      using JArray.IH [OF that(1,3)] that JArray.prems b by auto
    show "json_stringify ns y \<noteq> [] \<and> hd (json_stringify ns y) \<noteq> CHR '']''" if "y \<in> set xs \<union> set ys" for y
      using that json_stringify_hd [of y] JArray.prems b by auto
  qed simp
  with b show ?case by simp
next
  case (JObject ms)
  let ?f = "\<lambda>(k, v). json_quote k @ '':'' @ json_stringify ns v"
  have h: "hd (json_stringify ns b) = CHR ''{''"
    using JObject.prems json_stringify_hd [of b] by (cases "json_stringify ns b") auto
  then obtain ms' where b: "b = JObject ms'"
    using json_stringify_kind [OF JObject.prems(3)] ns_hd_neq by (cases b) (auto simp: ns_hd_neq [symmetric] split: js_number.splits if_splits)
  have "ms = ms' \<and> r = s"
  proof (rule join_prefix_inj)
    show "js_join '','' (map ?f ms) @ CHR ''}'' # r = js_join '','' (map ?f ms') @ CHR ''}'' # s"
      using JObject.prems(1) b by simp
    show "x = y \<and> r' = s'" if xy: "x \<in> set ms" "y \<in> set ms'" "?f x @ r' = ?f y @ s'"
      "delimited r'" "delimited s'" for x y r' s'
    proof -
      obtain k v k' v' where kv: "x = (k, v)" "y = (k', v')" by (cases x; cases y)
      from xy kv have q: "k = k'" "json_stringify ns v @ r' = json_stringify ns v' @ s'"
        using json_quote_inj [of k "'':'' @ json_stringify ns v @ r'" k' "'':'' @ json_stringify ns v' @ s'"] by auto
      have "v \<in> Basic_BNFs.snds x" using kv by (simp add: prod_set_defs)
      then show ?thesis
        using JObject.IH [OF xy(1) _ q(2)] xy kv q JObject.prems b by fastforce
    qed
    show "?f y \<noteq> [] \<and> hd (?f y) \<noteq> CHR ''}''" if "y \<in> set ms \<union> set ms'" for y
      by (cases y) (auto simp: json_quote_def)
  qed simp
  with b show ?case by simp
next
  case (JNumber n)
  then obtain q where q: "n = JFin q" by (cases n) auto
  have "hd (json_stringify ns b) = hd (ns q)"
  proof -
    have "hd (ns q @ r) = hd (json_stringify ns b @ s)" using JNumber.prems(1) q by simp
    then show ?thesis using json_stringify_hd [OF JNumber.prems(3)] ns_not_Nil [of q] by simp
  qed
  then obtain p where "b = JNumber (JFin p)"
    using json_stringify_kind [OF JNumber.prems(3)] JNumber.prems(3)
    by (cases b) (auto simp: ns_hd_neq ns_hd_neq [symmetric] split: js_number.splits if_splits)
  with JNumber.prems q number_prefix_inj show ?case by auto
next
  case (JString t)
  have "hd (json_stringify ns b) = CHR 0x22"
    using JString.prems json_stringify_hd [of b] by (cases "json_stringify ns b") (auto simp: json_quote_def)
  then obtain u where u: "b = JString u"
    using json_stringify_kind [OF JString.prems(3)] ns_hd_neq by (cases b) (auto simp: ns_hd_neq [symmetric] split: js_number.splits if_splits)
  then have "json_quote t @ r = json_quote u @ s" using JString.prems(1) by simp
  from json_quote_inj [OF this] u show ?case by simp
next
  case JNull
  have "hd (json_stringify ns b) = CHR ''n''"
    using JNull.prems json_stringify_hd [of b] by (cases "json_stringify ns b") auto
  with JNull show ?case
    using json_stringify_kind [OF JNull.prems(3)] ns_hd_neq by (cases b) (auto simp: ns_hd_neq [symmetric] split: js_number.splits if_splits)
next
  case (JBool c)
  have "hd (json_stringify ns b) = (if c then CHR ''t'' else CHR ''f'')"
    using JBool.prems json_stringify_hd [of b] by (cases "json_stringify ns b") (auto split: if_splits)
  with JBool show ?case
    using json_stringify_kind [OF JBool.prems(3)] ns_hd_neq by (cases b) (auto simp: ns_hd_neq [symmetric] split: js_number.splits if_splits)
qed

lemma json_stringify_inj:
  "json_stringify ns a = json_stringify ns b \<Longrightarrow> printable a \<Longrightarrow> printable b \<Longrightarrow> a = b"
  using json_stringify_prefix_inj [of a "[]" b "[]"] by (simp add: delimited_def)

lemma printable_normalize: "printable v \<Longrightarrow> printable (normalize_json v)"
  by (induction v) (auto simp: image_iff snds.simps)

lemma canonical_json_inj:
  "printable a \<Longrightarrow> printable b \<Longrightarrow>
   canonical_json ns a = canonical_json ns b \<longleftrightarrow> normalize_json a = normalize_json b"
  using json_stringify_inj printable_normalize by (auto simp: canonical_json_normalize)

end

section \<open>The two serializers agree\<close>

text \<open>No member name looks like an array index, so enumeration keeps insertion order.\<close>

fun no_index_keys :: "json \<Rightarrow> bool" where
  "no_index_keys (JArray xs) = list_all no_index_keys xs"
| "no_index_keys (JObject ms) = list_all (\<lambda>m. \<not> is_index_key (fst m) \<and> no_index_keys (snd m)) ms"
| "no_index_keys _ = True"

lemma own_keys_order_id: "\<forall>m \<in> set ms. \<not> is_index_key (fst m) \<Longrightarrow> own_keys_order ms = ms"
proof -
  assume a: "\<forall>m \<in> set ms. \<not> is_index_key (fst m)"
  then have "filter (\<lambda>m. is_index_key (fst m)) ms = []" by (simp add: filter_empty_conv)
  moreover have "filter (\<lambda>m. \<not> is_index_key (fst m)) ms = ms" using a by (simp add: filter_id_conv)
  ultimately show ?thesis by (simp add: own_keys_order_def)
qed

lemma sort_keys_normalize: "no_index_keys v \<Longrightarrow> sort_keys v = normalize_json v"
proof (induction v)
  case (JObject ms)
  have eq: "map (\<lambda>(k, v). (k, sort_keys v)) ms = map (\<lambda>(k, v). (k, normalize_json v)) ms"
    using JObject by (auto simp: list_all_iff prod_set_defs)
  have "\<forall>m \<in> set (js_sort key_order (map (\<lambda>(k, v). (k, normalize_json v)) ms)). \<not> is_index_key (fst m)"
    using JObject.prems by (auto simp: list_all_iff)
  then show ?case by (simp only: sort_keys.simps normalize_json.simps eq own_keys_order_id)
qed (auto simp: list_all_iff)

text \<open>A printer that meets the contract: sign, numerator, \<open>e\<close>, denominator.\<close>

definition fraction_string :: "rat \<Rightarrow> string" where
  "fraction_string q =
     (let (a, b) = quotient_of q
      in (if a < 0 then ''-'' else []) @ show_nat (nat \<bar>a\<bar>) @ ''e'' @ show_nat (nat b))"

lemma digits_e_inj:
  assumes "show_nat m @ ''e'' @ show_nat n = show_nat m' @ ''e'' @ show_nat n'"
  shows "m = m' \<and> n = n'"
proof -
  have tw: "takeWhile is_digit (show_nat k @ ''e'' @ r) = show_nat k" for k r
    using show_nat_digits by (subst takeWhile_append2) (auto simp: is_digit_def)
  have "show_nat m = show_nat m'" using arg_cong [OF assms, of "takeWhile is_digit"] by (simp only: tw)
  with assms show ?thesis using show_nat_inj by auto
qed

lemma show_nat_hd: "is_digit (hd (show_nat n @ r))"
  using show_nat_digits [of "hd (show_nat n)" n] by simp

interpretation fraction: number_printer fraction_string
proof
  fix p q
  assume eq: "fraction_string p = fraction_string q"
  obtain a b where ab: "quotient_of p = (a, b)" by (cases "quotient_of p")
  obtain c d where cd: "quotient_of q = (c, d)" by (cases "quotient_of q")
  have pos: "0 < b" "0 < d" using quotient_of_denom_pos ab cd by auto
  have nd: "CHR ''-'' # s \<noteq> show_nat n @ r" for s n r
  proof
    assume "CHR ''-'' # s = show_nat n @ r"
    then have "hd (show_nat n @ r) = CHR ''-''" by (metis list.sel(1))
    with show_nat_hd [of n r] show False by (simp add: is_digit_def)
  qed
  have neg: "a < 0 \<longleftrightarrow> c < 0"
    using eq nd nd [symmetric] by (auto simp: fraction_string_def ab cd split: if_splits)
  then have "show_nat (nat \<bar>a\<bar>) @ ''e'' @ show_nat (nat b) = show_nat (nat \<bar>c\<bar>) @ ''e'' @ show_nat (nat d)"
    using eq by (simp add: fraction_string_def ab cd split: if_splits)
  from digits_e_inj [OF this] have "nat \<bar>a\<bar> = nat \<bar>c\<bar>" "nat b = nat d" by auto
  with neg pos have "a = c" "b = d" by (auto simp: abs_if split: if_splits)
  with ab cd show "p = q" by (metis quotient_of_div)
next
  fix q
  show "fraction_string q \<noteq> []" by (simp add: fraction_string_def split: prod.split)
next
  fix c q
  assume "c \<in> set (fraction_string q)"
  then show "number_char c"
    using show_nat_digits by (auto simp: fraction_string_def number_char_def split: prod.splits if_splits)
next
  fix q
  show "is_digit (hd (fraction_string q)) \<or> hd (fraction_string q) = CHR ''-''"
    using show_nat_hd by (auto simp: fraction_string_def split: prod.split)
qed

section \<open>Properties\<close>

text \<open>
  The canonical form identifies the document. On values without NaN or infinities, and with a
  number printer that is injective and emits only number characters, two values have the same
  \<open>canonicalJson\<close> exactly when they are equal up to the order of object members, at every depth.
\<close>

theorem canonical_json_identifies:
  assumes "number_printer ns" and "printable a" and "printable b"
  shows "canonical_json ns a = canonical_json ns b \<longleftrightarrow> normalize_json a = normalize_json b"
  using number_printer.canonical_json_inj [OF assms] .

theorem canonical_json_identifies_witness:
  "canonical_json fraction_string (JObject [(''b'', JNull), (''a'', JNumber (JFin 1))]) =
   canonical_json fraction_string (JObject [(''a'', JNumber (JFin 1)), (''b'', JNull)]) \<and>
   canonical_json fraction_string (JObject [(''a'', JString ''1'')]) \<noteq>
   canonical_json fraction_string (JObject [(''a'', JNumber (JFin 1))])"
proof
  show "canonical_json fraction_string (JObject [(''b'', JNull), (''a'', JNumber (JFin 1))]) =
    canonical_json fraction_string (JObject [(''a'', JNumber (JFin 1)), (''b'', JNull)])"
    by (subst canonical_json_identifies [OF fraction.number_printer_axioms]) simp_all
  show "canonical_json fraction_string (JObject [(''a'', JString ''1'')]) \<noteq>
    canonical_json fraction_string (JObject [(''a'', JNumber (JFin 1))])"
    by (subst canonical_json_identifies [OF fraction.number_printer_axioms]) simp_all
qed

text \<open>
  The order in which an object's members were inserted does not reach the canonical form, so
  a manifest that round-trips through a store without member order keeps its hash.
\<close>

theorem canonical_json_member_order:
  assumes "distinct (map fst ms)" and "mset ms = mset ms'"
  shows "canonical_json ns (JObject ms) = canonical_json ns (JObject ms')"
proof -
  let ?f = "\<lambda>(k, v). (k, canonical_json ns v)"
  have "js_sort key_order (map ?f ms) = js_sort key_order (map ?f ms')"
    using assms by (intro js_sort_keys_perm) (auto simp: comp_def case_prod_unfold)
  then show ?thesis by simp
qed

theorem canonical_json_member_order_witness:
  "canonical_json fraction_string (JObject [(''b'', JNull), (''a'', JBool True)]) =
   canonical_json fraction_string (JObject [(''a'', JBool True), (''b'', JNull)])"
  by (rule canonical_json_member_order) simp_all

text \<open>
  The two serializers of the code base agree: on values without array-index member names the
  rubric hash's \<open>stableStringify\<close> prints what the manifest's \<open>canonicalJson\<close> prints.
\<close>

theorem stable_stringify_canonical:
  assumes "no_index_keys v"
  shows "stable_stringify ns v = canonical_json ns v"
  using sort_keys_normalize [OF assms] by (simp add: stable_stringify_def canonical_json_normalize)

theorem stable_stringify_canonical_witness:
  "stable_stringify fraction_string (JObject [(''b'', JNull), (''a'', JArray [JBool True])]) =
   canonical_json fraction_string (JObject [(''b'', JNull), (''a'', JArray [JBool True])])"
  by (rule stable_stringify_canonical) (simp add: is_index_key_def is_digit_def)

end
