(* ===== verification/Audit_Evaluator.thy ===== *)
theory Audit_Evaluator
  imports Rule_Interpreter Edi_Parser Canonical_Json
begin

text \<open>
  The deterministic gate-then-score evaluator: \<open>evaluator/fact-bundle.ts\<close>,
  \<open>rubric-resolver/standard-rubric.ts\<close>, \<open>rubric-resolver/contract-rubric.ts\<close>,
  \<open>evaluator/snapshot.ts\<close> and \<open>evaluator/evaluate-invoice.ts\<close>. Characters of string literals
  outside Latin-1 are written as their UTF-8 bytes.
\<close>

section \<open>fact-bundle.ts\<close>

record contract_rate =
  rate_amount :: string
  rate_currency :: string
  rate_clause_id :: "string option"

datatype unavailable_reason =
  SOURCE_NOT_CONFIGURED | VALUE_NOT_PUBLISHED | LICENSE_REQUIRED | INVALID_REQUEST

fun unavailable_reason_name :: "unavailable_reason \<Rightarrow> string" where
  "unavailable_reason_name SOURCE_NOT_CONFIGURED = ''SOURCE_NOT_CONFIGURED''"
| "unavailable_reason_name VALUE_NOT_PUBLISHED = ''VALUE_NOT_PUBLISHED''"
| "unavailable_reason_name LICENSE_REQUIRED = ''LICENSE_REQUIRED''"
| "unavailable_reason_name INVALID_REQUEST = ''INVALID_REQUEST''"

text \<open>A resolution carries its value, the id of the pinned external value and the resolver version.\<close>

datatype external_value_resolution =
    ExtFound string string string
  | ExtUnavailable unavailable_reason string

text \<open>\<open>linehaulRate\<close> may be absent (outer \<open>None\<close>) or \<open>null\<close> (inner \<open>None\<close>).\<close>

record contract_facts =
  cf_linehaul_rate :: "contract_rate option option"
  cf_duplicate_invoice :: "bool option"
  cf_shipment_reference_match :: "bool option"
  cf_external_resolutions :: "(string \<times> external_value_resolution) list"

datatype coverage_code = INCOMPLETE_RATE_BASIS | FUEL_WITHOUT_RATE_BASIS | MISSING_CHARGE_IDENTITY

record coverage_marker =
  cm_charge_index :: nat
  cm_code :: coverage_code
  cm_missing_fields :: "string list"

definition charge_markers :: "nat \<times> normalized_charge \<Rightarrow> coverage_marker list" where
  "charge_markers ic =
     (let i = fst ic; c = snd ic; has_rate = (ch_rate c \<noteq> None); has_basis = (ch_basis c \<noteq> None)
      in (if has_rate \<noteq> has_basis
          then [\<lparr>cm_charge_index = i, cm_code = INCOMPLETE_RATE_BASIS,
                 cm_missing_fields = [if has_rate then ''basis'' else ''rate'']\<rparr>]
          else if ch_category c = Some ''FUEL'' \<and> \<not> has_rate \<and> \<not> has_basis
          then [\<lparr>cm_charge_index = i, cm_code = FUEL_WITHOUT_RATE_BASIS,
                 cm_missing_fields = [''rate'', ''basis'']\<rparr>]
          else [])
         @ (if \<not> stated (ch_code c) \<and> \<not> stated (ch_raw_description c)
            then [\<lparr>cm_charge_index = i, cm_code = MISSING_CHARGE_IDENTITY,
                   cm_missing_fields = [''code'', ''rawDescription'']\<rparr>]
            else []))"

definition find_coverage_markers :: "parsed_invoice \<Rightarrow> coverage_marker list" where
  "find_coverage_markers iv = concat (map charge_markers (List.enumerate 0 (inv_charges iv)))"

text \<open>The key of an external value: lower case, runs of other characters collapsed to one underscore, none at the ends.\<close>

definition is_key_char :: "char \<Rightarrow> bool" where
  "is_key_char c = (let n = (of_char c :: int) in (97 \<le> n \<and> n \<le> 122) \<or> (48 \<le> n \<and> n \<le> 57))"

fun collapse_runs :: "bool \<Rightarrow> string \<Rightarrow> string" where
  "collapse_runs in_run [] = []"
| "collapse_runs in_run (c # cs) =
     (if is_key_char c then c # collapse_runs False cs
      else if in_run then collapse_runs True cs
      else CHR ''_'' # collapse_runs True cs)"

definition strip_underscores :: "string \<Rightarrow> string" where
  "strip_underscores s =
     rev (dropWhile (\<lambda>c. c = CHR ''_'') (rev (dropWhile (\<lambda>c. c = CHR ''_'') s)))"

definition external_value_fact_key :: "string \<Rightarrow> string" where
  "external_value_fact_key source_code =
     ''external_'' @ strip_underscores (collapse_runs False (js_to_lower (js_trim source_code)))"

text \<open>\<open>every\<close> with a predicate that may throw stops at the first \<open>false\<close>.\<close>

fun revery :: "('a \<Rightarrow> ('e, bool) result) \<Rightarrow> 'a list \<Rightarrow> ('e, bool) result" where
  "revery f [] = Inr True"
| "revery f (x # xs) = rbind (f x) (\<lambda>b. if b then revery f xs else Inr False)"

definition rate_basis_charge_ok :: "'d decimal_lib \<Rightarrow> normalized_charge \<Rightarrow> (eval_error, bool) result" where
  "rate_basis_charge_ok D c =
     (case (ch_rate c, ch_basis c, ch_amount c) of
        (Some r, Some b, Some a) \<Rightarrow>
          rbind (new_decimal D r) (\<lambda>r'. rbind (new_decimal D b) (\<lambda>b'. rbind (new_decimal D a) (\<lambda>a'.
            rbind (new_decimal D ''0.01'') (\<lambda>t.
              Inr (dec_le D (dec_abs D (dec_minus D (dec_times D r' b') a')) t)))))
      | _ \<Rightarrow> Inr False)"

definition rate_basis_arithmetic_matches ::
  "'d decimal_lib \<Rightarrow> parsed_invoice \<Rightarrow> (eval_error, bool option) result" where
  "rate_basis_arithmetic_matches D iv =
     (let cs = filter (\<lambda>c. ch_rate c \<noteq> None \<or> ch_basis c \<noteq> None) (inv_charges iv)
      in if cs = [] \<or> list_ex (\<lambda>c. ch_rate c = None \<or> ch_basis c = None \<or> ch_amount c = None) cs
         then Inr None
         else rbind (revery (rate_basis_charge_ok D) cs) (\<lambda>b. Inr (Some b)))"

definition nonempty :: "'a list option \<Rightarrow> bool" where
  "nonempty xs = (case xs of None \<Rightarrow> False | Some ys \<Rightarrow> ys \<noteq> [])"

definition is_currency_code :: "string \<Rightarrow> bool" where
  "is_currency_code s =
     (length s = 3 \<and> list_all (\<lambda>c. 65 \<le> (of_char c :: int) \<and> (of_char c :: int) \<le> 90) s)"

definition default_empty :: "string option \<Rightarrow> string" where
  "default_empty s = (case s of None \<Rightarrow> [] | Some t \<Rightarrow> t)"

type_synonym bundle_entries = "(string \<times> fact_value option) list"

definition invoice_facts ::
  "parsed_invoice \<Rightarrow> contract_facts option \<Rightarrow> string \<Rightarrow> bool option \<Rightarrow> bundle_entries" where
  "invoice_facts iv contract line_sum_fixed rate_basis =
     (let charges = inv_charges iv;
          ts = inv_transaction_set iv;
          hc = default_empty (inv_header_currency iv);
          declared = (case inv_footing iv of None \<Rightarrow> None | Some f \<Rightarrow> declared_total f);
          currencies = map ch_currency charges
      in [(''declared_total'', map_option (\<lambda>d. FMoney d hc) declared),
          (''line_sum'', Some (FMoney line_sum_fixed hc)),
          (''all_currencies_stated'', Some (FBool (list_all (\<lambda>c. ch_currency c \<noteq> []) charges))),
          (''all_amounts_stated'', Some (FBool (list_all (\<lambda>c. ch_amount c \<noteq> None) charges))),
          (''charge_count'', Some (FNum (JFin (of_nat (length charges))))),
          (''quarantined_count'', Some (FNum (JFin (of_nat (length (filter ch_quarantined charges)))))),
          (''has_fuel_category'', Some (FBool (list_ex (\<lambda>c. ch_category c = Some ''FUEL'') charges))),
          (''duplicate_invoice'', (case contract of None \<Rightarrow> None | Some c \<Rightarrow> map_option FBool (cf_duplicate_invoice c))),
          (''shipment_reference_match'',
             (case contract of None \<Rightarrow> None | Some c \<Rightarrow> map_option FBool (cf_shipment_reference_match c))),
          (''rate_basis_arithmetic_matches'', map_option FBool rate_basis),
          (''required_210_invoice_number'', Some (FBool (ts \<noteq> TS210 \<or> stated (inv_invoice_number iv)))),
          (''required_210_shipment_id'', Some (FBool (ts \<noteq> TS210 \<or> nonempty (inv_shipment_references iv)))),
          (''required_210_scac'', Some (FBool (ts \<noteq> TS210 \<or> stated (inv_carrier_code iv)))),
          (''required_310_invoice_number'', Some (FBool (ts \<noteq> TS310 \<or> stated (inv_invoice_number iv)))),
          (''required_310_reference'', Some (FBool (ts \<noteq> TS310 \<or> nonempty (inv_shipment_references iv)))),
          (''required_310_container'', Some (FBool (ts \<noteq> TS310 \<or> nonempty (inv_container_numbers iv)))),
          (''required_310_vessel_voyage'', Some (FBool (ts \<noteq> TS310 \<or> stated (inv_vessel_voyage iv)))),
          (''required_310_ports'', Some (FBool (ts \<noteq> TS310 \<or>
             2 \<le> (case inv_port_codes iv of None \<Rightarrow> 0 | Some ps \<Rightarrow> length ps)))),
          (''required_310_charge_identity'', Some (FBool (ts \<noteq> TS310 \<or>
             list_all (\<lambda>c. stated (ch_code c) \<or> stated (ch_raw_description c)) charges))),
          (''valid_310_currency_codes'', Some (FBool (ts \<noteq> TS310 \<or> list_all is_currency_code currencies))),
          (''consistent_310_charge_currencies'',
             (if ts \<noteq> TS310 then None
              else Some (FBool (currencies = [] \<or> list_all (\<lambda>c. c = hd currencies) currencies)))),
          (''suspicious_missing_data_count'', Some (FNum (JFin (of_nat (length (find_coverage_markers iv))))))])"

definition bundle_of :: "bundle_entries \<Rightarrow> fact_bundle" where
  "bundle_of es = (\<lambda>k. case map_of es k of None \<Rightarrow> None | Some v \<Rightarrow> v)"

definition add_external :: "fact_bundle \<Rightarrow> string \<times> external_value_resolution \<Rightarrow> fact_bundle" where
  "add_external b sr =
     (let key = external_value_fact_key (fst sr)
      in case snd sr of
           ExtFound v pin_id version \<Rightarrow>
             b(key \<mapsto> FDecimal v, key @ ''_resolver_version'' \<mapsto> FStr version,
               key @ ''_external_value_id'' \<mapsto> FStr pin_id)
         | ExtUnavailable reason version \<Rightarrow>
             b(key @ ''_unavailable_reason'' \<mapsto> FStr (unavailable_reason_name reason),
               key @ ''_resolver_version'' \<mapsto> FStr version))"

definition linehaul_charges :: "parsed_invoice \<Rightarrow> normalized_charge list" where
  "linehaul_charges iv =
     filter (\<lambda>c. ch_category c = Some ''LINEHAUL'' \<and> \<not> ch_quarantined c \<and> ch_amount c \<noteq> None) (inv_charges iv)"

definition billed_currency :: "parsed_invoice \<Rightarrow> string option" where
  "billed_currency iv =
     (case linehaul_charges iv of
        [] \<Rightarrow> None
      | c # cs \<Rightarrow> if list_all (\<lambda>d. ch_currency d = ch_currency c) (c # cs) then Some (ch_currency c) else None)"

definition add_decimal_string :: "'d decimal_lib \<Rightarrow> 'd \<Rightarrow> string \<Rightarrow> (eval_error, 'd) result" where
  "add_decimal_string D acc s = rbind (new_decimal D s) (\<lambda>d. Inr (dec_plus D acc d))"

definition billed_linehaul :: "'d decimal_lib \<Rightarrow> parsed_invoice \<Rightarrow> (eval_error, 'd option) result" where
  "billed_linehaul D iv =
     (case billed_currency iv of
        None \<Rightarrow> Inr None
      | Some _ \<Rightarrow>
          rbind (rfold (add_decimal_string D) (dec_zero D)
                   (map (\<lambda>c. the (ch_amount c)) (linehaul_charges iv)))
            (\<lambda>d. Inr (Some d)))"

definition currencies_stated_and_equal :: "string option \<Rightarrow> string option \<Rightarrow> bool" where
  "currencies_stated_and_equal b r =
     (case (b, r) of
        (Some x, Some y) \<Rightarrow> x \<noteq> [] \<and> y \<noteq> [] \<and> x = y
      | _ \<Rightarrow> False)"

definition linehaul_facts ::
  "'d decimal_lib \<Rightarrow> parsed_invoice \<Rightarrow> contract_rate option \<Rightarrow> fact_bundle \<Rightarrow> (eval_error, fact_bundle) result" where
  "linehaul_facts D iv rate b =
     rbind (billed_linehaul D iv) (\<lambda>billed.
       let bc = billed_currency iv; rc = map_option rate_currency rate
       in Inr (b(''billed_linehaul'' :=
                   (case (billed, bc) of (Some d, Some c) \<Rightarrow> Some (FMoney (dec_to_fixed D 4 d) c) | _ \<Rightarrow> None),
                 ''contract_linehaul_rate'' :=
                   map_option (\<lambda>r. FMoney (rate_amount r) (rate_currency r)) rate,
                 ''linehaul_currencies_match'' :=
                   (if currencies_stated_and_equal bc rc then Some (FBool True) else None))))"

definition build_fact_bundle ::
  "'d decimal_lib \<Rightarrow> runtime \<Rightarrow> parsed_invoice \<Rightarrow> contract_facts option \<Rightarrow> (eval_error, fact_bundle) result" where
  "build_fact_bundle D rt iv contract =
     (let ls = (case inv_footing iv of None \<Rightarrow> ''0.0000'' | Some f \<Rightarrow> line_sum f)
      in rbind (rate_basis_arithmetic_matches D iv) (\<lambda>rate_basis.
         rbind (new_decimal D ls) (\<lambda>lsd.
           let base = bundle_of (invoice_facts iv contract (dec_to_fixed D 4 lsd) rate_basis);
               exts = (case contract of None \<Rightarrow> [] | Some c \<Rightarrow> cf_external_resolutions c);
               b = foldl add_external base
                     (js_sort (\<lambda>x y. rt_locale_compare rt (fst x) (fst y)) exts)
           in case contract of
                None \<Rightarrow> Inr b
              | Some c \<Rightarrow>
                  (case cf_linehaul_rate c of
                     None \<Rightarrow> Inr b
                   | Some rate \<Rightarrow> linehaul_facts D iv rate b))))"

section \<open>standard-rubric.ts and contract-rubric.ts\<close>

datatype criterion_kind = GATING | SCORING

record criterion =
  cr_key :: string
  cr_kind :: criterion_kind
  cr_description :: string
  cr_eval_order :: int
  cr_ast :: ast_node
  cr_citation :: "string option"

record composed_rubric =
  rub_resolver_version :: string
  rub_criteria :: "criterion list"

definition RESOLVER_VERSION :: string where "RESOLVER_VERSION = ''standard-resolver-v2''"

definition ENGINE_SPEC_VERSION :: string where "ENGINE_SPEC_VERSION = ''engine-v1''"

definition FOOTING_TOLERANCE :: string where "FOOTING_TOLERANCE = ''0.01''"

definition RATE_VARIANCE_TOLERANCE :: string where "RATE_VARIANCE_TOLERANCE = ''0.01''"

definition CONTRACT_RESOLVER_VERSION :: string where "CONTRACT_RESOLVER_VERSION = ''contract-resolver-v1''"

abbreviation utf8_sigma :: string where "utf8_sigma \<equiv> [CHR 0xCE, CHR 0xA3]"

abbreviation utf8_dash :: string where "utf8_dash \<equiv> [CHR 0xE2, CHR 0x80, CHR 0x94]"

abbreviation fact_is :: "string \<Rightarrow> ast_lit \<Rightarrow> ast_node" where
  "fact_is k v \<equiv> AstCompare OpEq (AstFact k) (AstLit v) None"

definition gate :: "string \<Rightarrow> int \<Rightarrow> string \<Rightarrow> string \<Rightarrow> ast_node \<Rightarrow> criterion" where
  "gate key order desc cit a =
     \<lparr>cr_key = key, cr_kind = GATING, cr_description = desc, cr_eval_order = order, cr_ast = a,
      cr_citation = Some cit\<rparr>"

definition score :: "string \<Rightarrow> int \<Rightarrow> string \<Rightarrow> ast_node \<Rightarrow> criterion" where
  "score key order desc a =
     \<lparr>cr_key = key, cr_kind = SCORING, cr_description = desc, cr_eval_order = order, cr_ast = a,
      cr_citation = None\<rparr>"

text \<open>The five criteria the source maps over a table of 310 header fields.\<close>

definition required_310 :: "string \<times> int \<times> string \<times> string \<Rightarrow> criterion" where
  "required_310 row =
     (case row of (key, order, fkey, field) \<Rightarrow>
        gate key order (''EDI 310 states its '' @ field @ ''.'')
          (''Ocean freight invoice must state '' @ field @ ''.'') (fact_is fkey (LBool True)))"

definition STANDARD_RUBRIC :: composed_rubric where
  "STANDARD_RUBRIC = \<lparr>rub_resolver_version = RESOLVER_VERSION, rub_criteria =
   [gate ''STD.FOOTING'' 10
      ''Declared invoice total foots to the sum of line charges within tolerance.''
      (''Invoice total (B3-07) must equal the sum of billed line items ('' @ utf8_sigma @ ''L1-04).'')
      (AstRequire ''declared_total''
         (AstCompare OpApprox (AstFact ''declared_total'') (AstFact ''line_sum'') (Some FOOTING_TOLERANCE))),
    gate ''STD.CURRENCY_STATED'' 20
      (''Every charge states a currency (never defaulted '' @ utf8_dash @ '' critical for ocean/310).'')
      ''Each charge must state its currency (C3 / L1-20); defaulting is not permitted.''
      (fact_is ''all_currencies_stated'' (LBool True)),
    gate ''STD.AMOUNT_STATED'' 25
      (''Every charge has a parseable amount (never guessed '' @ utf8_dash @ '' a malformed L1-04 is a structural defect).'')
      ''Each charge line must state a numeric amount (L1-04); an unparseable value cannot be certified.''
      (fact_is ''all_amounts_stated'' (LBool True)),
    gate ''STD.HAS_CHARGES'' 30
      ''Invoice carries at least one charge line (required segment presence).''
      ''Invoice must contain at least one billable charge line (L1).''
      (AstCompare OpGt (AstFact ''charge_count'') (AstLit (LNum (JFin 0))) None),
    gate ''STD.210.INVOICE_NUMBER_REQUIRED'' 32
      ''EDI 210 states its invoice number in B3-02.''
      ''Motor-carrier invoice must state B3-02 invoice number.''
      (fact_is ''required_210_invoice_number'' (LBool True)),
    gate ''STD.210.SHIPMENT_ID_REQUIRED'' 34
      ''EDI 210 states its shipment identification in B3-03.''
      ''Motor-carrier invoice must state B3-03 shipment identification.''
      (fact_is ''required_210_shipment_id'' (LBool True)),
    gate ''STD.210.SCAC_REQUIRED'' 36
      ''EDI 210 states its carrier SCAC in B3-11.''
      ''Motor-carrier invoice must state B3-11 Standard Carrier Alpha Code.''
      (fact_is ''required_210_scac'' (LBool True))]
   @ map required_310
     [(''STD.310.INVOICE_NUMBER_REQUIRED'', 38, ''required_310_invoice_number'', ''B3-02 invoice number''),
      (''STD.310.REFERENCE_REQUIRED'', 40, ''required_310_reference'', ''N9 shipment reference''),
      (''STD.310.CONTAINER_REQUIRED'', 42, ''required_310_container'', ''N7 container identity''),
      (''STD.310.VESSEL_VOYAGE_REQUIRED'', 44, ''required_310_vessel_voyage'', ''V1 vessel/voyage''),
      (''STD.310.PORTS_REQUIRED'', 46, ''required_310_ports'', ''origin and destination R4 ports'')]
   @ [gate ''STD.310.CHARGE_IDENTITY_REQUIRED'' 48
      ''Every EDI 310 charge has a charge code or source description.''
      ''Each ocean charge must be identifiable from L1-08 or L1-12.''
      (fact_is ''required_310_charge_identity'' (LBool True)),
    gate ''STD.310.CURRENCY_CODE_VALID'' 50
      ''Every EDI 310 charge currency is a normalized three-letter ISO code.''
      ''Ocean charge currencies from C3/L1-20 must be normalized ISO-4217 codes.''
      (fact_is ''valid_310_currency_codes'' (LBool True)),
    score ''STD.NO_QUARANTINED_CODES'' 100
      ''All charge codes resolved to a canonical category via the crosswalk.''
      (fact_is ''quarantined_count'' (LNum (JFin 0))),
    score ''STD.FUEL_PRESENT'' 110
      ''A fuel surcharge is present (categorized FUEL via crosswalk, never by raw code).''
      (fact_is ''has_fuel_category'' (LBool True)),
    score ''STD.DUPLICATE_INVOICE'' 120
      ''Invoice number has not already been billed for this tenant and transaction set.''
      (AstRequire ''duplicate_invoice'' (fact_is ''duplicate_invoice'' (LBool False))),
    score ''STD.SHIPMENT_REFERENCE_MATCH'' 130
      ''At least one stated shipment reference matches a shipment belonging to this tenant.''
      (AstRequire ''shipment_reference_match'' (fact_is ''shipment_reference_match'' (LBool True))),
    score ''STD.RATE_BASIS_ARITHMETIC'' 140
      (''Every charge stating rate/basis has amount equal to rate '' @ [CHR 0xD7] @ '' basis within one cent.'')
      (AstRequire ''rate_basis_arithmetic_matches'' (fact_is ''rate_basis_arithmetic_matches'' (LBool True))),
    score ''STD.310.CURRENCY_CONSISTENCY'' 150
      ''EDI 310 charge currencies are consistent for invoice-level aggregation.''
      (fact_is ''consistent_310_charge_currencies'' (LBool True)),
    score ''STD.SUSPICIOUS_MISSING_DATA'' 160
      ''No otherwise-valid charge carries a suspicious verification-data gap.''
      (fact_is ''suspicious_missing_data_count'' (LNum (JFin 0)))]\<rparr>"

definition RATE_VARIANCE_CRITERION :: criterion where
  "RATE_VARIANCE_CRITERION =
     score ''CONTRACT.RATE_VARIANCE'' 200
       ''Billed linehaul charge matches the contracted rate within tolerance, in the same currency.''
       (AstRequire ''billed_linehaul'' (AstRequire ''contract_linehaul_rate''
          (AstRequire ''linehaul_currencies_match''
             (AstCompare OpApprox (AstFact ''billed_linehaul'') (AstFact ''contract_linehaul_rate'')
                (Some RATE_VARIANCE_TOLERANCE)))))"

definition CONTRACT_RUBRIC :: composed_rubric where
  "CONTRACT_RUBRIC = \<lparr>rub_resolver_version = CONTRACT_RESOLVER_VERSION,
     rub_criteria = rub_criteria STANDARD_RUBRIC @ [RATE_VARIANCE_CRITERION]\<rparr>"

section \<open>snapshot.ts: the rubric content hash\<close>

fun compare_op_name :: "compare_op \<Rightarrow> string" where
  "compare_op_name OpEq = ''eq''"
| "compare_op_name OpNe = ''ne''"
| "compare_op_name OpGt = ''gt''"
| "compare_op_name OpGte = ''gte''"
| "compare_op_name OpLt = ''lt''"
| "compare_op_name OpLte = ''lte''"
| "compare_op_name OpApprox = ''approx''"

fun lit_json :: "ast_lit \<Rightarrow> json" where
  "lit_json (LNum n) = JNumber n"
| "lit_json (LStr s) = JString s"
| "lit_json (LBool b) = JBool b"

fun ast_json :: "ast_node \<Rightarrow> json" where
  "ast_json (AstLit v) = JObject [(''type'', JString ''lit''), (''value'', lit_json v)]"
| "ast_json (AstMoney a c) = JObject [(''type'', JString ''money''), (''amount'', JString a), (''currency'', JString c)]"
| "ast_json (AstFact k) = JObject [(''type'', JString ''fact''), (''key'', JString k)]"
| "ast_json (AstArith op args) =
     JObject [(''type'', JString ''arith''), (''op'', JString (arith_op_name op)), (''args'', JArray (map ast_json args))]"
| "ast_json (AstCompare op l r tol) =
     JObject ([(''type'', JString ''compare''), (''op'', JString (compare_op_name op)),
               (''left'', ast_json l), (''right'', ast_json r)]
              @ (case tol of None \<Rightarrow> [] | Some t \<Rightarrow> [(''tolerance'', JString t)]))"
| "ast_json (AstLogic op args) =
     JObject [(''type'', JString ''logic''), (''op'', JString (logic_op_name op)), (''args'', JArray (map ast_json args))]"
| "ast_json (AstRequire k t) = JObject [(''type'', JString ''require''), (''key'', JString k), (''then'', ast_json t)]"

fun kind_name :: "criterion_kind \<Rightarrow> string" where
  "kind_name GATING = ''GATING''"
| "kind_name SCORING = ''SCORING''"

definition criterion_json :: "criterion \<Rightarrow> json" where
  "criterion_json c =
     JObject ([(''criterionKey'', JString (cr_key c)), (''kind'', JString (kind_name (cr_kind c))),
               (''evalOrder'', JNumber (JFin (of_int (cr_eval_order c)))),
               (''description'', JString (cr_description c)), (''ast'', ast_json (cr_ast c))]
              @ (case cr_citation c of None \<Rightarrow> [] | Some t \<Rightarrow> [(''citation'', JString t)]))"

definition rubric_json :: "composed_rubric \<Rightarrow> json" where
  "rubric_json r =
     JObject [(''resolverVersion'', JString (rub_resolver_version r)),
              (''criteria'', JArray (map criterion_json (rub_criteria r)))]"

definition rubric_content_hash :: "runtime \<Rightarrow> composed_rubric \<Rightarrow> string" where
  "rubric_content_hash rt r = rt_sha256_hex rt (stable_stringify (rt_number_string rt) (rubric_json r))"

section \<open>evaluate-invoice.ts\<close>

datatype outcome = REJECTED_REWORK | SCORED

record gate_failure =
  gf_criterion_key :: string
  gf_defect :: string
  gf_citation :: "string option"
  gf_evaluated_expr :: eval_node

datatype finding_result = CONFORMED | VARIANCE | RESULT_UNASSESSABLE

datatype finding_direction = OVERCHARGE | UNDERCHARGE | INTEGRITY_ONLY

record charge_finding =
  fi_criterion_key :: string
  fi_result :: finding_result
  fi_evaluated_expr :: eval_node
  fi_variance_amount :: "string option"
  fi_currency :: "string option"
  fi_direction :: finding_direction

record scorecard =
  sc_conformed_count :: nat
  sc_variance_count :: nat
  sc_unassessable_count :: nat
  sc_total_overcharge :: string
  sc_total_undercharge :: string

record audit_pins =
  pin_parser_version :: string
  pin_engine_spec_version :: string
  pin_rubric_content_hash :: string

record audit_result =
  ar_outcome :: outcome
  ar_gate_failures :: "gate_failure list"
  ar_findings :: "charge_finding list"
  ar_scorecard :: "scorecard option"
  ar_coverage_markers :: "coverage_marker list"
  ar_pins :: audit_pins

definition criterion_order :: "runtime \<Rightarrow> criterion \<Rightarrow> criterion \<Rightarrow> int" where
  "criterion_order rt a b =
     then_by (cr_eval_order a - cr_eval_order b) (rt_locale_compare rt (cr_key a) (cr_key b))"

definition ordered_criteria :: "runtime \<Rightarrow> composed_rubric \<Rightarrow> criterion_kind \<Rightarrow> criterion list" where
  "ordered_criteria rt r k =
     js_sort (criterion_order rt) (filter (\<lambda>c. cr_kind c = k) (rub_criteria r))"

definition gate_failure_of :: "criterion \<Rightarrow> eval_node \<Rightarrow> gate_failure option" where
  "gate_failure_of c ev =
     (let v = verdict ev
      in if v = FAIL \<or> v = UNASSESSABLE
         then Some \<lparr>gf_criterion_key = cr_key c,
                    gf_defect = (if v = UNASSESSABLE then cr_description c @ '' (unassessable)'' else cr_description c),
                    gf_citation = cr_citation c, gf_evaluated_expr = ev\<rparr>
         else None)"

definition gate_phase ::
  "'d decimal_lib \<Rightarrow> fact_bundle \<Rightarrow> criterion list \<Rightarrow> (eval_error, gate_failure list) result" where
  "gate_phase D facts gating =
     rbind (rtraverse (\<lambda>c. rbind (evaluate D (cr_ast c) facts) (\<lambda>ev. Inr (gate_failure_of c ev))) gating)
       (\<lambda>fs. Inr (List.map_filter id fs))"

fun unwrap_require :: "eval_node \<Rightarrow> eval_node" where
  "unwrap_require (EvalNode (AstRequire k t) v (Some (c # cs))) = unwrap_require c"
| "unwrap_require ev = ev"

definition money_variance_delta ::
  "'d decimal_lib \<Rightarrow> eval_node \<Rightarrow> (eval_error, ('d \<times> string) option) result" where
  "money_variance_delta D ev =
     (case unwrap_require ev of
        EvalNode (AstCompare op a b tol) v (Some (l # r # _)) \<Rightarrow>
          (case (en_value l, en_value r) of
             (VMoney x c, VMoney y c') \<Rightarrow>
               rbind (new_decimal D x) (\<lambda>x'. rbind (new_decimal D y) (\<lambda>y'.
                 Inr (Some (dec_minus D x' y', c))))
           | _ \<Rightarrow> Inr None)
      | _ \<Rightarrow> Inr None)"

record 'd score_state =
  ss_findings :: "charge_finding list"
  ss_conformed :: nat
  ss_variance :: nat
  ss_unassessable :: nat
  ss_overcharge :: 'd
  ss_undercharge :: 'd

definition result_of_verdict :: "verdict_t \<Rightarrow> finding_result" where
  "result_of_verdict v = (case v of PASS \<Rightarrow> CONFORMED | FAIL \<Rightarrow> VARIANCE | UNASSESSABLE \<Rightarrow> RESULT_UNASSESSABLE)"

definition score_step ::
  "'d decimal_lib \<Rightarrow> fact_bundle \<Rightarrow> 'd score_state \<Rightarrow> criterion \<Rightarrow> (eval_error, 'd score_state) result" where
  "score_step D facts s c =
     rbind (evaluate D (cr_ast c) facts) (\<lambda>ev.
     rbind (money_variance_delta D ev) (\<lambda>md.
       let res = result_of_verdict (verdict ev);
           fnd = (\<lambda>amt cur dir. \<lparr>fi_criterion_key = cr_key c, fi_result = res, fi_evaluated_expr = ev,
                    fi_variance_amount = amt, fi_currency = cur, fi_direction = dir\<rparr>)
       in case res of
            CONFORMED \<Rightarrow> Inr (s\<lparr>ss_conformed := ss_conformed s + 1,
                                ss_findings := ss_findings s @ [fnd None None INTEGRITY_ONLY]\<rparr>)
          | VARIANCE \<Rightarrow>
              (case md of
                 None \<Rightarrow> Inr (s\<lparr>ss_variance := ss_variance s + 1,
                               ss_findings := ss_findings s @ [fnd None None INTEGRITY_ONLY]\<rparr>)
               | Some (delta, cur) \<Rightarrow>
                   Inr (s\<lparr>ss_variance := ss_variance s + 1,
                          ss_overcharge := (if dec_is_positive D delta then dec_plus D (ss_overcharge s) delta
                                            else ss_overcharge s),
                          ss_undercharge := (if dec_is_positive D delta then ss_undercharge s
                                             else dec_plus D (ss_undercharge s) (dec_abs D delta)),
                          ss_findings := ss_findings s @
                            [fnd (Some (dec_to_fixed D 4 delta)) (Some cur)
                               (if dec_is_negative D delta then UNDERCHARGE else OVERCHARGE)]\<rparr>))
          | RESULT_UNASSESSABLE \<Rightarrow>
              Inr (s\<lparr>ss_unassessable := ss_unassessable s + 1,
                     ss_findings := ss_findings s @ [fnd None None INTEGRITY_ONLY]\<rparr>)))"

definition score_init :: "'d decimal_lib \<Rightarrow> 'd score_state" where
  "score_init D = \<lparr>ss_findings = [], ss_conformed = 0, ss_variance = 0, ss_unassessable = 0,
     ss_overcharge = dec_zero D, ss_undercharge = dec_zero D\<rparr>"

definition scorecard_of :: "'d decimal_lib \<Rightarrow> 'd score_state \<Rightarrow> scorecard" where
  "scorecard_of D s = \<lparr>sc_conformed_count = ss_conformed s, sc_variance_count = ss_variance s,
     sc_unassessable_count = ss_unassessable s,
     sc_total_overcharge = dec_to_fixed D 4 (ss_overcharge s),
     sc_total_undercharge = dec_to_fixed D 4 (ss_undercharge s)\<rparr>"

definition evaluate_invoice ::
  "'d decimal_lib \<Rightarrow> runtime \<Rightarrow> parsed_invoice \<Rightarrow> composed_rubric \<Rightarrow> contract_facts option
   \<Rightarrow> (eval_error, audit_result) result" where
  "evaluate_invoice D rt iv rubric contract =
     rbind (build_fact_bundle D rt iv contract) (\<lambda>facts.
       let markers = find_coverage_markers iv;
           pins = \<lparr>pin_parser_version = inv_parser_version iv,
                   pin_engine_spec_version = ENGINE_SPEC_VERSION,
                   pin_rubric_content_hash = rubric_content_hash rt rubric\<rparr>
       in rbind (gate_phase D facts (ordered_criteria rt rubric GATING)) (\<lambda>failures.
            if failures \<noteq> []
            then Inr \<lparr>ar_outcome = REJECTED_REWORK, ar_gate_failures = failures, ar_findings = [],
                      ar_scorecard = None, ar_coverage_markers = markers, ar_pins = pins\<rparr>
            else rbind (rfold (score_step D facts) (score_init D) (ordered_criteria rt rubric SCORING)) (\<lambda>s.
                   Inr \<lparr>ar_outcome = SCORED, ar_gate_failures = [], ar_findings = ss_findings s,
                        ar_scorecard = Some (scorecard_of D s), ar_coverage_markers = markers,
                        ar_pins = pins\<rparr>)))"

end
