(* ===== verification/Audit_Correctness.thy ===== *)
theory Audit_Correctness
  imports Audit_Evaluator
begin

text \<open>
  Correctness of the evaluator: the gate phase collects every failing gate, the scorecard is a
  faithful tally of the findings, its money totals are exact, an audit of an EDI invoice under
  the standard rubric never throws, and a scored invoice has passed every gate.
\<close>

section \<open>The gate phase collects every failing gate\<close>

definition fails :: "'d decimal_lib \<Rightarrow> fact_bundle \<Rightarrow> criterion \<Rightarrow> bool" where
  "fails D facts c = (case evaluate D (cr_ast c) facts of Inl e \<Rightarrow> False | Inr ev \<Rightarrow> verdict ev \<noteq> PASS)"

lemma gate_failure_of_eq_None: "gate_failure_of c ev = None \<longleftrightarrow> verdict ev = PASS"
  by (cases "verdict ev") (auto simp: gate_failure_of_def Let_def)

lemma gate_failure_of_key: "gate_failure_of c ev = Some f \<Longrightarrow> gf_criterion_key f = cr_key c"
  by (auto simp: gate_failure_of_def Let_def split: if_splits)

lemma gate_phase_keys:
  "gate_phase D facts cs = Inr fs \<Longrightarrow> map gf_criterion_key fs = map cr_key (filter (fails D facts) cs)"
proof (induction cs arbitrary: fs)
  case Nil
  then show ?case by (simp add: gate_phase_def map_filter_simps)
next
  case (Cons c cs)
  from Cons.prems obtain ev gs where ev: "evaluate D (cr_ast c) facts = Inr ev"
    and gs: "gate_phase D facts cs = Inr gs"
    and fs: "fs = (case gate_failure_of c ev of None \<Rightarrow> gs | Some f \<Rightarrow> f # gs)"
    by (auto simp: gate_phase_def rbind_eq_Inr map_filter_simps)
  show ?case
    using Cons.IH [OF gs] ev fs gate_failure_of_eq_None [of c ev] gate_failure_of_key [of c ev]
    by (auto simp: fails_def split: option.splits)
qed

lemma gate_phase_empty_iff:
  "gate_phase D facts cs = Inr fs \<Longrightarrow> fs = [] \<longleftrightarrow> (\<forall>c \<in> set cs. \<not> fails D facts c)"
proof -
  assume "gate_phase D facts cs = Inr fs"
  then have "map gf_criterion_key fs = map cr_key (filter (fails D facts) cs)" by (rule gate_phase_keys)
  then have "fs = [] \<longleftrightarrow> filter (fails D facts) cs = []" by (metis map_is_Nil_conv)
  then show ?thesis by (simp add: filter_empty_conv)
qed

lemma gate_phase_evaluates:
  "gate_phase D facts cs = Inr fs \<Longrightarrow> c \<in> set cs \<Longrightarrow> \<exists>ev. evaluate D (cr_ast c) facts = Inr ev"
  by (auto simp: gate_phase_def rbind_eq_Inr dest!: rtraverse_in_arg)

lemma set_ordered_criteria [simp]:
  "set (ordered_criteria rt r k) = {c \<in> set (rub_criteria r). cr_kind c = k}"
  by (auto simp: ordered_criteria_def)

text \<open>The two ways an audit can end.\<close>

lemma evaluate_invoice_cases:
  assumes "evaluate_invoice D rt iv rubric contract = Inr r"
  obtains (rejected) facts fs where
      "build_fact_bundle D rt iv contract = Inr facts"
      "gate_phase D facts (ordered_criteria rt rubric GATING) = Inr fs" "fs \<noteq> []"
      "ar_outcome r = REJECTED_REWORK" "ar_gate_failures r = fs" "ar_findings r = []" "ar_scorecard r = None"
  | (scored) facts s where
      "build_fact_bundle D rt iv contract = Inr facts"
      "gate_phase D facts (ordered_criteria rt rubric GATING) = Inr []"
      "rfold (score_step D facts) (score_init D) (ordered_criteria rt rubric SCORING) = Inr s"
      "ar_outcome r = SCORED" "ar_gate_failures r = []" "ar_findings r = ss_findings s"
      "ar_scorecard r = Some (scorecard_of D s)"
  using assms by (auto simp: evaluate_invoice_def rbind_eq_Inr Let_def split: if_splits)

section \<open>The score phase\<close>

definition count_result :: "finding_result \<Rightarrow> charge_finding list \<Rightarrow> nat" where
  "count_result x fs = length (filter (\<lambda>f. fi_result f = x) fs)"

definition score_inv :: "'d score_state \<Rightarrow> bool" where
  "score_inv s \<longleftrightarrow>
     ss_conformed s = count_result CONFORMED (ss_findings s) \<and>
     ss_variance s = count_result VARIANCE (ss_findings s) \<and>
     ss_unassessable s = count_result RESULT_UNASSESSABLE (ss_findings s)"

lemma score_inv_init: "score_inv (score_init D)"
  by (simp add: score_inv_def score_init_def count_result_def)

lemma score_step_evaluates:
  assumes "score_step D facts s c = Inr s'"
  obtains ev md where "evaluate D (cr_ast c) facts = Inr ev" "money_variance_delta D ev = Inr md"
  using assms by (auto simp: score_step_def rbind_eq_Inr)

lemma score_step_inv:
  assumes "score_inv s" and step: "score_step D facts s c = Inr s'"
  shows "score_inv s'"
proof -
  from step obtain ev md where "evaluate D (cr_ast c) facts = Inr ev" "money_variance_delta D ev = Inr md"
    by (rule score_step_evaluates)
  with assms show ?thesis
    by (cases "result_of_verdict (verdict ev)"; cases md)
       (auto simp: score_step_def Let_def score_inv_def count_result_def)
qed

text \<open>Each step appends one finding, for its criterion.\<close>

lemma score_step_finding:
  assumes "score_step D facts s c = Inr s'"
  shows "\<exists>f ev. ss_findings s' = ss_findings s @ [f] \<and> fi_criterion_key f = cr_key c \<and>
    evaluate D (cr_ast c) facts = Inr ev \<and> fi_evaluated_expr f = ev \<and>
    fi_result f = result_of_verdict (verdict ev)"
proof -
  from assms obtain ev md where ev: "evaluate D (cr_ast c) facts = Inr ev" "money_variance_delta D ev = Inr md"
    by (rule score_step_evaluates)
  show ?thesis
    using assms ev
    by (cases "result_of_verdict (verdict ev)"; cases md) (auto simp: score_step_def Let_def)
qed

lemma score_fold_findings:
  "rfold (score_step D facts) s cs = Inr s' \<Longrightarrow>
   \<exists>fs. ss_findings s' = ss_findings s @ fs \<and>
        list_all2 (\<lambda>c f. fi_criterion_key f = cr_key c \<and>
          (\<exists>ev. evaluate D (cr_ast c) facts = Inr ev \<and> fi_evaluated_expr f = ev \<and>
                fi_result f = result_of_verdict (verdict ev))) cs fs"
proof (induction cs arbitrary: s)
  case (Cons c cs)
  then obtain t where t: "score_step D facts s c = Inr t" "rfold (score_step D facts) t cs = Inr s'"
    by (auto simp: rbind_eq_Inr)
  from t(1) obtain f ev where f: "ss_findings t = ss_findings s @ [f]" "fi_criterion_key f = cr_key c"
    "evaluate D (cr_ast c) facts = Inr ev" "fi_evaluated_expr f = ev"
    "fi_result f = result_of_verdict (verdict ev)"
    using score_step_finding by blast
  from Cons.IH [OF t(2)] obtain fs where "ss_findings s' = ss_findings t @ fs"
    "list_all2 (\<lambda>c f. fi_criterion_key f = cr_key c \<and>
          (\<exists>ev. evaluate D (cr_ast c) facts = Inr ev \<and> fi_evaluated_expr f = ev \<and>
                fi_result f = result_of_verdict (verdict ev))) cs fs"
    by blast
  with f show ?case by (intro exI [of _ "f # fs"]) auto
qed simp

lemma score_fold_inv: "rfold (score_step D facts) s cs = Inr s' \<Longrightarrow> score_inv s \<Longrightarrow> score_inv s'"
  by (rule rfold_invariant) (auto intro: score_step_inv)

lemma count_results_total: "count_result CONFORMED fs + count_result VARIANCE fs + count_result RESULT_UNASSESSABLE fs = length fs"
proof (induction fs)
  case (Cons f fs)
  then show ?case by (cases "fi_result f") (auto simp: count_result_def)
qed (simp add: count_result_def)


section \<open>Money values of evaluated trees\<close>

text \<open>Every money amount of the tree is below \<open>5 * 10\<^sup>1\<^sup>3\<close> (money columns are \<open>numeric(18,4)\<close>).\<close>

definition money_bounded :: "'d decimal_lib \<Rightarrow> ('d \<Rightarrow> rat) \<Rightarrow> eval_node \<Rightarrow> bool" where
  "money_bounded D dval ev =
     list_all (\<lambda>t. case en_value t of
         VMoney x c \<Rightarrow> (case dec_of_string D x of None \<Rightarrow> True | Some d \<Rightarrow> \<bar>dval d\<bar> < 5 * 10 ^ 13)
       | _ \<Rightarrow> True) (eval_subtrees ev)"

text \<open>The rational value of a finding's variance amount; zero when it states none.\<close>

definition finding_delta :: "'d decimal_lib \<Rightarrow> ('d \<Rightarrow> rat) \<Rightarrow> charge_finding \<Rightarrow> rat" where
  "finding_delta D dval f =
     (case fi_variance_amount f of
        None \<Rightarrow> 0
      | Some a \<Rightarrow> (case dec_of_string D a of None \<Rightarrow> 0 | Some d \<Rightarrow> dval d))"

context decimal_laws
begin

lemma evaluate_money_value:
  "evaluate D a facts = Inr ev \<Longrightarrow> en_value ev = VMoney x c \<Longrightarrow>
   \<exists>d q. dec_of_string D x = Some d \<and> has_value d q \<and> scale4 q"
proof (induction a arbitrary: ev)
  have fixed: "\<exists>d' q. dec_of_string D (dec_to_fixed D 4 d) = Some d' \<and> has_value d' q \<and> scale4 q"
    if "dec_is_finite D d" for d
    using to_fixed_parses [of 4 d] to_fixed_val [OF that, of 4] scale4_round by (auto simp: has_value_def)
  {
    case (AstLit v)
    then show ?case by (cases v) (auto split: option.splits)
  next
    case (AstMoney s c)
    then show ?case using fixed by (auto simp: eval_money_def safe_decimal_string_def split: option.splits if_splits)
  next
    case (AstFact k)
    then show ?case using fixed
      by (auto simp: eval_fact_def safe_decimal_string_def split: option.splits fact_value.splits if_splits)
  next
    case (AstArith op args)
    then show ?case by (auto simp: rbind_eq_Inr arith_value_def Let_def split: if_splits list.splits option.splits)
  next
    case (AstCompare op l r tol)
    then show ?case by (auto simp: rbind_eq_Inr compare_value_def Let_def split: if_splits option.splits)
  next
    case (AstLogic op args)
    then show ?case by (auto simp: rbind_eq_Inr logic_value_def Let_def split: if_splits list.splits eval_value.splits)
  next
    case (AstRequire k t)
    then show ?case by (auto simp: rbind_eq_Inr split: if_splits)
  }
qed

lemma subtree_money_value:
  assumes "evaluate D a facts = Inr ev" "t \<in> set (eval_subtrees ev)" "en_value t = VMoney x c"
  shows "\<exists>d q. dec_of_string D x = Some d \<and> has_value d q \<and> scale4 q"
  using evaluate_money_value [OF evaluate_subtrees [OF assms(1,2)] assms(3)] .

lemma unwrap_require_subtree: "unwrap_require ev \<in> set (eval_subtrees ev)"
  by (induction ev rule: unwrap_require.induct) auto

lemma eval_subtrees_refl: "ev \<in> set (eval_subtrees ev)"
  by (cases ev) auto

lemma eval_subtrees_trans:
  "t \<in> set (eval_subtrees ev) \<Longrightarrow> u \<in> set (eval_subtrees t) \<Longrightarrow> u \<in> set (eval_subtrees ev)"
  by (induction ev arbitrary: t) (fastforce split: option.splits)

lemma money_variance_delta_value:
  assumes ev: "evaluate D a facts = Inr ev" and b: "money_bounded D dval ev"
    and md: "money_variance_delta D ev = Inr (Some (delta, cur))"
  shows "\<exists>q. has_value delta q \<and> scale4 q \<and> \<bar>q\<bar> < 10 ^ 14"
proof -
  obtain op a b tol v l r cs where u: "unwrap_require ev = EvalNode (AstCompare op a b tol) v (Some (l # r # cs))"
    using md by (auto simp: money_variance_delta_def split: eval_node.splits ast_node.splits option.splits list.splits)
  obtain x c y c' where xy: "en_value l = VMoney x c" "en_value r = VMoney y c'"
    using md u by (auto simp: money_variance_delta_def split: eval_value.splits)
  have sub: "l \<in> set (eval_subtrees ev)" "r \<in> set (eval_subtrees ev)"
    using eval_subtrees_trans [OF unwrap_require_subtree] u eval_subtrees_refl by auto
  obtain dx p where dx: "dec_of_string D x = Some dx" "has_value dx p" "scale4 p"
    using subtree_money_value [OF ev sub(1) xy(1)] by blast
  obtain dy q where dy: "dec_of_string D y = Some dy" "has_value dy q" "scale4 q"
    using subtree_money_value [OF ev sub(2) xy(2)] by blast
  have "\<bar>p\<bar> < 5 * 10 ^ 13" "\<bar>q\<bar> < 5 * 10 ^ 13"
    using b sub xy dx dy by (fastforce simp: money_bounded_def has_value_def list_all_iff)+
  then have pq: "\<bar>p - q\<bar> < 10 ^ 14" by simp
  then have "\<bar>p - q\<bar> < 10 ^ 16" by simp
  then have "has_value (dec_minus D dx dy) (p - q)" using dx dy by (intro has_value_minus)
  moreover have "delta = dec_minus D dx dy"
    using md u xy dx dy by (simp add: money_variance_delta_def new_decimal_def)
  ultimately show ?thesis using dx dy pq scale4_diff by blast
qed

definition totals_inv :: "nat \<Rightarrow> 'd score_state \<Rightarrow> bool" where
  "totals_inv n s \<longleftrightarrow>
     (\<exists>ov un. has_value (ss_overcharge s) ov \<and> has_value (ss_undercharge s) un \<and> scale4 ov \<and> scale4 un \<and>
        0 \<le> ov \<and> 0 \<le> un \<and> ov + un \<le> of_nat n * 10 ^ 14 \<and>
        ov = (\<Sum>f\<leftarrow>ss_findings s. max 0 (finding_delta D dval f)) \<and>
        un = (\<Sum>f\<leftarrow>ss_findings s. max 0 (- finding_delta D dval f)))"

lemma totals_inv_init: "totals_inv 0 (score_init D)"
  using has_value_zero by (auto simp: totals_inv_def score_init_def)

lemma totals_inv_step:
  assumes inv: "totals_inv n s" and n: "n < 99" and step: "score_step D facts s c = Inr s'"
    and bounded: "\<And>ev. evaluate D (cr_ast c) facts = Inr ev \<Longrightarrow> money_bounded D dval ev"
  shows "totals_inv (Suc n) s'"
proof -
  obtain ov un where I: "has_value (ss_overcharge s) ov" "has_value (ss_undercharge s) un" "scale4 ov" "scale4 un"
    "0 \<le> ov" "0 \<le> un" "ov + un \<le> of_nat n * 10 ^ 14"
    "ov = (\<Sum>f\<leftarrow>ss_findings s. max 0 (finding_delta D dval f))"
    "un = (\<Sum>f\<leftarrow>ss_findings s. max 0 (- finding_delta D dval f))"
    using inv unfolding totals_inv_def by blast
  from step obtain ev md where ev: "evaluate D (cr_ast c) facts = Inr ev" "money_variance_delta D ev = Inr md"
    by (rule score_step_evaluates)
  show ?thesis
  proof (cases "result_of_verdict (verdict ev) = VARIANCE \<and> md \<noteq> None")
    case False
    then have "ss_overcharge s' = ss_overcharge s \<and> ss_undercharge s' = ss_undercharge s \<and>
        (\<exists>f. ss_findings s' = ss_findings s @ [f] \<and> finding_delta D dval f = 0)"
      using step ev by (cases "result_of_verdict (verdict ev)"; cases md)
        (auto simp: score_step_def Let_def finding_delta_def)
    with I show ?thesis unfolding totals_inv_def by (auto simp: algebra_simps)
  next
    case True
    then obtain delta cur where md: "md = Some (delta, cur)" by auto
    obtain q where q: "has_value delta q" "scale4 q" "\<bar>q\<bar> < 10 ^ 14"
      using money_variance_delta_value [OF ev(1) bounded [OF ev(1)]] ev(2) md by blast
    obtain f where f: "ss_findings s' = ss_findings s @ [f]"
      "fi_variance_amount f = Some (dec_to_fixed D 4 delta)"
      and over: "ss_overcharge s' = (if dec_is_positive D delta then dec_plus D (ss_overcharge s) delta else ss_overcharge s)"
      and under: "ss_undercharge s' = (if dec_is_positive D delta then ss_undercharge s else dec_plus D (ss_undercharge s) (dec_abs D delta))"
      using step ev True md by (auto simp: score_step_def Let_def)
    have fd: "finding_delta D dval f = q"
      using to_fixed4_roundtrip [OF q(1,2)] f(2) by (auto simp: finding_delta_def has_value_def)
    have n98: "of_nat n * 10 ^ 14 \<le> (98 * 10 ^ 14 :: rat)" using n by simp
    have sum: "has_value (dec_plus D acc x) (p + r) \<and> scale4 (p + r)"
      if "has_value acc p" "has_value x r" "scale4 p" "scale4 r" "0 \<le> p" "p \<le> of_nat n * 10 ^ 14" "0 \<le> r" "r < 10 ^ 14"
      for acc x p r
    proof -
      have "\<bar>p + r\<bar> < 10 ^ 16" using that n98 by simp
      with that show ?thesis using has_value_plus scale4_add by blast
    qed
    show ?thesis
    proof (cases "dec_is_positive D delta")
      case True
      then have "0 \<le> q" using q(1) negative_val [of delta] sign_dichotomy [of delta]
        by (auto simp: has_value_def not_less [symmetric])
      with sum [of "ss_overcharge s" ov delta q] I q True f fd over under show ?thesis
        unfolding totals_inv_def by (intro exI [of _ "ov + q"] exI [of _ un]) (auto simp: algebra_simps)
    next
      case False
      then have "q \<le> 0" using q(1) positive_val [of delta] by (auto simp: has_value_def not_less [symmetric])
      with sum [of "ss_undercharge s" un "dec_abs D delta" "- q"] I q False f fd over under
        has_value_abs [OF q(1)] scale4_neg [OF q(2)] show ?thesis
        unfolding totals_inv_def by (intro exI [of _ ov] exI [of _ "un - q"]) (auto simp: algebra_simps)
    qed
  qed
qed

lemma totals_inv_fold:
  assumes "rfold (score_step D facts) s cs = Inr s'" "totals_inv n s" "n + length cs < 100"
    and "\<And>c ev. c \<in> set cs \<Longrightarrow> evaluate D (cr_ast c) facts = Inr ev \<Longrightarrow> money_bounded D dval ev"
  shows "totals_inv (n + length cs) s'"
  using assms
proof (induction cs arbitrary: s n)
  case (Cons c cs)
  then obtain t where t: "score_step D facts s c = Inr t" "rfold (score_step D facts) t cs = Inr s'"
    by (auto simp: rbind_eq_Inr)
  have "totals_inv (Suc n) t"
    by (rule totals_inv_step [OF Cons.prems(2) _ t(1)]) (use Cons.prems(3,4) in auto)
  then have "totals_inv (Suc n + length cs) s'" using Cons t(2) by (intro Cons.IH) auto
  then show ?case by simp
qed simp

end

section \<open>Reading facts back from the bundle\<close>

lemma external_key_prefix: "\<exists>t. external_value_fact_key sc = ''external_'' @ t"
  by (simp add: external_value_fact_key_def)

lemma add_external_other:
  assumes "\<And>t. k \<noteq> ''external_'' @ t"
  shows "add_external b sr k = b k"
proof -
  obtain t where "external_value_fact_key (fst sr) = ''external_'' @ t" using external_key_prefix by blast
  then have "k \<noteq> external_value_fact_key (fst sr) @ u" for u using assms by simp
  from this [of "[]"] this [of "''_resolver_version''"] this [of "''_external_value_id''"]
    this [of "''_unavailable_reason''"] show ?thesis
    by (auto simp: add_external_def Let_def split: external_value_resolution.splits)
qed

lemma fold_external_other:
  assumes "\<And>t. k \<noteq> ''external_'' @ t"
  shows "foldl add_external b xs k = b k"
  by (induction xs arbitrary: b) (auto simp: add_external_other [OF assms])

definition invoice_line_sum :: "parsed_invoice \<Rightarrow> string" where
  "invoice_line_sum iv = (case inv_footing iv of None \<Rightarrow> ''0.0000'' | Some f \<Rightarrow> line_sum f)"

lemma linehaul_facts_other:
  "linehaul_facts D iv rate b = Inr b' \<Longrightarrow>
   k \<notin> {''billed_linehaul'', ''contract_linehaul_rate'', ''linehaul_currencies_match''} \<Longrightarrow> b' k = b k"
  by (auto simp: linehaul_facts_def rbind_eq_Inr Let_def)

lemma build_fact_bundle_lookup:
  assumes b: "build_fact_bundle D rt iv contract = Inr facts"
    and k: "\<And>t. k \<noteq> ''external_'' @ t"
    and nl: "k \<notin> {''billed_linehaul'', ''contract_linehaul_rate'', ''linehaul_currencies_match''}"
  shows "\<exists>lsd rb. dec_of_string D (invoice_line_sum iv) = Some lsd \<and>
           facts k = bundle_of (invoice_facts iv contract (dec_to_fixed D 4 lsd) rb) k"
proof -
  let ?exts = "js_sort (\<lambda>x y. rt_locale_compare rt (fst x) (fst y))
    (case contract of None \<Rightarrow> [] | Some c \<Rightarrow> cf_external_resolutions c)"
  from b obtain rb lsd where ls: "new_decimal D (invoice_line_sum iv) = Inr lsd"
    and f: "facts k = foldl add_external (bundle_of (invoice_facts iv contract (dec_to_fixed D 4 lsd) rb)) ?exts k"
    by (cases contract)
      (auto simp: build_fact_bundle_def invoice_line_sum_def [symmetric] rbind_eq_Inr Let_def
        dest!: linehaul_facts_other [OF _ nl] split: option.splits)
  then show ?thesis
    unfolding fold_external_other [OF k]
    by (auto simp: new_decimal_def split: option.splits)
qed

lemma fact_all_amounts_stated:
  assumes "build_fact_bundle D rt iv contract = Inr facts"
  shows "facts ''all_amounts_stated'' = Some (FBool (list_all (\<lambda>c. ch_amount c \<noteq> None) (inv_charges iv)))"
  using build_fact_bundle_lookup [OF assms, of "''all_amounts_stated''"]
  by (auto simp: bundle_of_def invoice_facts_def Let_def)

lemma fact_all_currencies_stated:
  assumes "build_fact_bundle D rt iv contract = Inr facts"
  shows "facts ''all_currencies_stated'' = Some (FBool (list_all (\<lambda>c. ch_currency c \<noteq> []) (inv_charges iv)))"
  using build_fact_bundle_lookup [OF assms, of "''all_currencies_stated''"]
  by (auto simp: bundle_of_def invoice_facts_def Let_def)

lemma fact_charge_count:
  assumes "build_fact_bundle D rt iv contract = Inr facts"
  shows "facts ''charge_count'' = Some (FNum (JFin (of_nat (length (inv_charges iv)))))"
  using build_fact_bundle_lookup [OF assms, of "''charge_count''"]
  by (auto simp: bundle_of_def invoice_facts_def Let_def)

lemma fact_declared_total:
  assumes "build_fact_bundle D rt iv contract = Inr facts"
  shows "facts ''declared_total'' =
    (case inv_footing iv of None \<Rightarrow> None
     | Some f \<Rightarrow> map_option (\<lambda>d. FMoney d (default_empty (inv_header_currency iv))) (declared_total f))"
  using build_fact_bundle_lookup [OF assms, of "''declared_total''"]
  by (auto simp: bundle_of_def invoice_facts_def Let_def split: option.splits)

lemma fact_line_sum:
  assumes "build_fact_bundle D rt iv contract = Inr facts"
  shows "\<exists>lsd. dec_of_string D (invoice_line_sum iv) = Some lsd \<and>
    facts ''line_sum'' = Some (FMoney (dec_to_fixed D 4 lsd) (default_empty (inv_header_currency iv)))"
  using build_fact_bundle_lookup [OF assms, of "''line_sum''"]
  by (auto simp: bundle_of_def invoice_facts_def Let_def)

lemma evaluate_fact_is_bool:
  "facts k = Some (FBool b) \<Longrightarrow>
   \<exists>ev. evaluate D (fact_is k (LBool c)) facts = Inr ev \<and> en_value ev = VBool (b = c)"
  by (simp add: eval_fact_def fact_absent_def compare_value_def)

section \<open>A scored invoice has passed its gates\<close>

lemma scored_gate_passes:
  assumes "evaluate_invoice D rt iv rubric contract = Inr r" and "ar_outcome r = SCORED"
    and "c \<in> set (rub_criteria rubric)" and "cr_kind c = GATING"
  shows "\<exists>facts ev. build_fact_bundle D rt iv contract = Inr facts \<and>
           evaluate D (cr_ast c) facts = Inr ev \<and> verdict ev = PASS"
  using assms(1)
proof (cases rule: evaluate_invoice_cases)
  case (scored facts s)
  have c: "c \<in> set (ordered_criteria rt rubric GATING)" using assms by simp
  then obtain ev where ev: "evaluate D (cr_ast c) facts = Inr ev"
    using gate_phase_evaluates [OF scored(2)] by blast
  have "\<not> fails D facts c" using gate_phase_empty_iff [OF scored(2)] c by blast
  with ev scored show ?thesis by (auto simp: fails_def)
qed (use assms in simp)

lemmas standard_defs = STANDARD_RUBRIC_def gate_def score_def required_310_def

lemma standard_criteria:
  "\<exists>c \<in> set (rub_criteria STANDARD_RUBRIC). cr_kind c = GATING \<and>
     cr_ast c = fact_is ''all_amounts_stated'' (LBool True)"
  "\<exists>c \<in> set (rub_criteria STANDARD_RUBRIC). cr_kind c = GATING \<and>
     cr_ast c = fact_is ''all_currencies_stated'' (LBool True)"
  "\<exists>c \<in> set (rub_criteria STANDARD_RUBRIC). cr_kind c = GATING \<and>
     cr_ast c = AstCompare OpGt (AstFact ''charge_count'') (AstLit (LNum (JFin 0))) None"
  "\<exists>c \<in> set (rub_criteria STANDARD_RUBRIC). cr_kind c = GATING \<and>
     cr_ast c = AstRequire ''declared_total''
       (AstCompare OpApprox (AstFact ''declared_total'') (AstFact ''line_sum'') (Some FOOTING_TOLERANCE))"
  by (simp_all add: standard_defs)

lemma scored_amounts_stated:
  assumes "evaluate_invoice D rt iv STANDARD_RUBRIC contract = Inr r" and "ar_outcome r = SCORED"
  shows "\<forall>c \<in> set (inv_charges iv). ch_amount c \<noteq> None"
proof -
  from standard_criteria(1) obtain c where c: "c \<in> set (rub_criteria STANDARD_RUBRIC)" "cr_kind c = GATING"
    "cr_ast c = fact_is ''all_amounts_stated'' (LBool True)" by blast
  from scored_gate_passes [OF assms c(1,2)] obtain facts ev where f: "build_fact_bundle D rt iv contract = Inr facts"
    "evaluate D (cr_ast c) facts = Inr ev" "verdict ev = PASS" by blast
  from evaluate_fact_is_bool [of facts, OF fact_all_amounts_stated [OF f(1)], of D True] f c show ?thesis
    by (auto simp: verdict_PASS_iff list_all_iff)
qed

lemma scored_currencies_stated:
  assumes "evaluate_invoice D rt iv STANDARD_RUBRIC contract = Inr r" and "ar_outcome r = SCORED"
  shows "\<forall>c \<in> set (inv_charges iv). ch_currency c \<noteq> []"
proof -
  from standard_criteria(2) obtain c where c: "c \<in> set (rub_criteria STANDARD_RUBRIC)" "cr_kind c = GATING"
    "cr_ast c = fact_is ''all_currencies_stated'' (LBool True)" by blast
  from scored_gate_passes [OF assms c(1,2)] obtain facts ev where f: "build_fact_bundle D rt iv contract = Inr facts"
    "evaluate D (cr_ast c) facts = Inr ev" "verdict ev = PASS" by blast
  from evaluate_fact_is_bool [of facts, OF fact_all_currencies_stated [OF f(1)], of D True] f c show ?thesis
    by (auto simp: verdict_PASS_iff list_all_iff)
qed

context decimal_laws
begin

lemma eval_number:
  assumes "number_decimal q"
  shows "\<exists>s d. safe_decimal_number D (JFin q) = Some (dec_of_number D (JFin q)) \<and>
     s = dec_to_string D (dec_of_number D (JFin q)) \<and> dec_of_string D s = Some d \<and> has_value d q"
proof -
  obtain d where d: "dec_of_string D (dec_to_string D (dec_of_number D (JFin q))) = Some d"
    using to_string_parses by blast
  with to_string_val [OF of_number_finite d] of_number_val [OF assms] of_number_finite [of q]
  show ?thesis by (auto simp: safe_decimal_number_def Let_def has_value_def)
qed

lemma scored_has_charges:
  assumes "evaluate_invoice D rt iv STANDARD_RUBRIC contract = Inr r" and "ar_outcome r = SCORED"
  shows "inv_charges iv \<noteq> []"
proof
  assume empty: "inv_charges iv = []"
  from standard_criteria(3) obtain c where c: "c \<in> set (rub_criteria STANDARD_RUBRIC)" "cr_kind c = GATING"
    "cr_ast c = AstCompare OpGt (AstFact ''charge_count'') (AstLit (LNum (JFin 0))) None" by blast
  from scored_gate_passes [OF assms c(1,2)] obtain facts ev where f: "build_fact_bundle D rt iv contract = Inr facts"
    "evaluate D (cr_ast c) facts = Inr ev" "verdict ev = PASS" by blast
  obtain d where d: "safe_decimal_number D (JFin 0) = Some (dec_zero D)"
    "dec_of_string D (dec_to_string D (dec_zero D)) = Some d" "has_value d 0"
    using eval_number [of 0] by auto
  have "\<not> dec_lt D d d" using d(3) lt_val [of d d] by (auto simp: has_value_def)
  with f c d fact_charge_count [OF f(1)] empty show False
    by (auto simp: verdict_PASS_iff eval_fact_def fact_absent_def compare_value_def new_decimal_def)
qed

lemma scored_foots:
  assumes scored: "evaluate_invoice D rt iv STANDARD_RUBRIC contract = Inr r" "ar_outcome r = SCORED"
    and foot: "inv_footing iv = Some f"
    and ls: "dec_of_string D (line_sum f) = Some e" "has_value e q" "scale4 q" "\<bar>q\<bar> < 10 ^ 15"
    and dt: "\<And>t d. declared_total f = Some t \<Longrightarrow> dec_of_string D t = Some d \<Longrightarrow>
       dec_is_finite D d \<and> scale4 (dval d) \<and> \<bar>dval d\<bar> < 10 ^ 15"
  shows "\<exists>t d. declared_total f = Some t \<and> dec_of_string D t = Some d \<and> \<bar>dval d - q\<bar> \<le> 1 / 100"
proof -
  from standard_criteria(4) obtain c where c: "c \<in> set (rub_criteria STANDARD_RUBRIC)" "cr_kind c = GATING"
    "cr_ast c = AstRequire ''declared_total''
       (AstCompare OpApprox (AstFact ''declared_total'') (AstFact ''line_sum'') (Some FOOTING_TOLERANCE))" by blast
  from scored_gate_passes [OF scored c(1,2)] obtain facts ev where b: "build_fact_bundle D rt iv contract = Inr facts"
    and ev: "evaluate D (cr_ast c) facts = Inr ev" "verdict ev = PASS" by blast
  let ?hc = "default_empty (inv_header_currency iv)"
  let ?cmp = "AstCompare OpApprox (AstFact ''declared_total'') (AstFact ''line_sum'') (Some FOOTING_TOLERANCE)"
  have present: "\<not> fact_absent facts ''declared_total''"
    using verdict_unassessable [OF evaluate_strict [OF ev(1), of "''declared_total''"]] ev(2) c(3) by auto
  then obtain t where t: "declared_total f = Some t" "facts ''declared_total'' = Some (FMoney t ?hc)"
    using fact_declared_total [OF b] foot by (auto simp: fact_absent_def)
  from ev c(3) present obtain cev where cev: "evaluate D ?cmp facts = Inr cev" "en_value cev = VBool True"
    by (auto simp: rbind_eq_Inr verdict_PASS_iff)
  obtain d where d: "dec_of_string D t = Some d"
  proof (cases "dec_of_string D t")
    case None
    then have "is_unassessable (eval_fact D facts ''declared_total'')"
      using t(2) by (simp add: eval_fact_def fact_absent_def safe_decimal_string_def)
    with cev show ?thesis by (auto simp: compare_value_def)
  qed
  have dv: "has_value d (dval d)" "scale4 (dval d)" "\<bar>dval d\<bar> < 10 ^ 15"
    using dt [OF t(1) d] by (auto simp: has_value_def)
  obtain e' where e': "dec_of_string D (dec_to_fixed D 4 e) = Some e'" "has_value e' q"
    using to_fixed4_roundtrip [OF ls(2,3)] by blast
  have ls_fact: "facts ''line_sum'' = Some (FMoney (dec_to_fixed D 4 e) ?hc)"
    using fact_line_sum [OF b] foot ls(1) by (simp add: invoice_line_sum_def)
  obtain tol where tol: "dec_of_string D FOOTING_TOLERANCE = Some tol" "has_value tol (1 / 100)"
    using cent_value by (auto simp: FOOTING_TOLERANCE_def)
  have "\<bar>dval d - q\<bar> < 10 ^ 16" using dv(3) ls(4) by simp
  from evaluate_approx_money [of facts, OF t(2) d dv(1,2) ls_fact e' ls(3) tol this] cev
  have "\<bar>dval d - q\<bar> \<le> 1 / 100" by auto
  with t d show ?thesis by blast
qed

section \<open>An audit never throws\<close>

text \<open>Every decimal string of the invoice parses; the adapters produce only such invoices.\<close>

definition invoice_parses :: "parsed_invoice \<Rightarrow> bool" where
  "invoice_parses iv \<longleftrightarrow>
     dec_of_string D (invoice_line_sum iv) \<noteq> None \<and>
     (\<forall>c \<in> set (inv_charges iv). \<forall>s. Some s \<in> {ch_amount c, ch_rate c, ch_basis c} \<longrightarrow> dec_of_string D s \<noteq> None)"

lemma new_decimal_total: "dec_of_string D s \<noteq> None \<Longrightarrow> \<exists>d. new_decimal D s = Inr d"
  by (auto simp: new_decimal_def)

lemma revery_total: "(\<And>x. x \<in> set xs \<Longrightarrow> \<exists>b. f x = Inr b) \<Longrightarrow> \<exists>b. revery f xs = Inr b"
proof (induction xs)
  case (Cons x xs)
  then obtain b where "f x = Inr b" by (metis list.set_intros(1))
  with Cons show ?case by (cases b) auto
qed (simp, blast)

lemma rate_basis_total:
  assumes "invoice_parses iv"
  shows "\<exists>b. rate_basis_arithmetic_matches D iv = Inr b"
proof -
  have cent: "\<exists>d. new_decimal D ''0.01'' = Inr d" using cent_value by (auto intro: new_decimal_total)
  have "\<exists>b. rate_basis_charge_ok D c = Inr b" if c: "c \<in> set (inv_charges iv)" for c
  proof -
    have "\<exists>d. new_decimal D s = Inr d" if "Some s \<in> {ch_amount c, ch_rate c, ch_basis c}" for s
      using assms c that by (intro new_decimal_total) (auto simp: invoice_parses_def)
    then have nd: "new_decimal D s = Inr (projr (new_decimal D s))" if "Some s \<in> {ch_amount c, ch_rate c, ch_basis c}" for s
      using that by (metis sum.sel(2))
    show ?thesis
    proof (cases "\<exists>r b a. ch_rate c = Some r \<and> ch_basis c = Some b \<and> ch_amount c = Some a")
      case True
      then obtain r b a where rba: "ch_rate c = Some r" "ch_basis c = Some b" "ch_amount c = Some a" by blast
      then obtain r' b' a' where "new_decimal D r = Inr r'" "new_decimal D b = Inr b'" "new_decimal D a = Inr a'"
        using nd [of r] nd [of b] nd [of a] by simp
      with cent rba show ?thesis by (auto simp: rate_basis_charge_ok_def)
    qed (auto simp: rate_basis_charge_ok_def split: option.splits)
  qed
  then have "\<exists>b. revery (rate_basis_charge_ok D) cs = Inr b" if "set cs \<subseteq> set (inv_charges iv)" for cs
    using that by (intro revery_total) auto
  then obtain b where "revery (rate_basis_charge_ok D)
      (filter (\<lambda>c. ch_rate c \<noteq> None \<or> ch_basis c \<noteq> None) (inv_charges iv)) = Inr b"
    by (meson filter_is_subset)
  then show ?thesis by (auto simp: rate_basis_arithmetic_matches_def Let_def simp del: not_None_eq)
qed

lemma rfold_add_total:
  "(\<forall>s \<in> set ss. dec_of_string D s \<noteq> None) \<Longrightarrow> \<exists>d. rfold (add_decimal_string D) acc ss = Inr d"
  by (induction ss arbitrary: acc) (auto simp: add_decimal_string_def new_decimal_def)

lemma billed_linehaul_total:
  assumes "invoice_parses iv"
  shows "\<exists>d. billed_linehaul D iv = Inr d"
proof -
  have "\<forall>s \<in> set (map (\<lambda>c. the (ch_amount c)) (linehaul_charges iv)). dec_of_string D s \<noteq> None"
    using assms by (auto simp: invoice_parses_def linehaul_charges_def)
  from rfold_add_total [OF this] show ?thesis
    by (auto simp: billed_linehaul_def rbind_eq_Inr split: option.splits)
qed

lemma build_fact_bundle_total:
  assumes "invoice_parses iv"
  shows "\<exists>facts. build_fact_bundle D rt iv contract = Inr facts"
proof -
  obtain rb where rb: "rate_basis_arithmetic_matches D iv = Inr rb" using rate_basis_total [OF assms] by blast
  obtain ls where ls: "new_decimal D (invoice_line_sum iv) = Inr ls"
    using assms new_decimal_total [of "invoice_line_sum iv"] by (auto simp: invoice_parses_def)
  obtain bl where bl: "billed_linehaul D iv = Inr bl" using billed_linehaul_total [OF assms] by blast
  show ?thesis
    using rb ls bl
    by (auto simp: build_fact_bundle_def invoice_line_sum_def [symmetric] linehaul_facts_def Let_def split: option.split)
qed

lemma money_variance_delta_total:
  assumes ev: "evaluate D a facts = Inr ev"
  shows "\<exists>md. money_variance_delta D ev = Inr md"
proof -
  have nd: "\<exists>d. new_decimal D x = Inr d" if "t \<in> set (eval_subtrees ev)" "en_value t = VMoney x c" for t x c
    using subtree_money_value [OF ev that] by (auto simp: new_decimal_def)
  show ?thesis
  proof (cases "\<exists>op a b tol v l r cs. unwrap_require ev = EvalNode (AstCompare op a b tol) v (Some (l # r # cs))")
    case True
    then obtain op a b tol v l r cs where u: "unwrap_require ev = EvalNode (AstCompare op a b tol) v (Some (l # r # cs))"
      by blast
    have sub: "l \<in> set (eval_subtrees ev)" "r \<in> set (eval_subtrees ev)"
      using eval_subtrees_trans [OF unwrap_require_subtree] u eval_subtrees_refl by auto
    show ?thesis using u nd [OF sub(1)] nd [OF sub(2)]
      by (auto simp: money_variance_delta_def rbind_eq_Inr split: eval_value.splits)
  next
    case False
    then have "money_variance_delta D ev = Inr None"
      by (auto simp: money_variance_delta_def split: eval_node.splits ast_node.splits option.splits list.splits)
    then show ?thesis by blast
  qed
qed

lemma score_step_total:
  assumes "tolerances_parse D (cr_ast c)"
  shows "\<exists>s'. score_step D facts s c = Inr s'"
proof -
  obtain ev where ev: "evaluate D (cr_ast c) facts = Inr ev" using evaluate_total [OF assms] by blast
  obtain md where "money_variance_delta D ev = Inr md" using money_variance_delta_total [OF ev] by blast
  with ev show ?thesis
    by (cases "result_of_verdict (verdict ev)"; cases md) (auto simp: score_step_def Let_def)
qed

lemma score_fold_total:
  "(\<forall>c \<in> set cs. tolerances_parse D (cr_ast c)) \<Longrightarrow> \<exists>s'. rfold (score_step D facts) s cs = Inr s'"
proof (induction cs arbitrary: s)
  case (Cons c cs)
  then obtain t where "score_step D facts s c = Inr t" using score_step_total by (metis list.set_intros(1))
  with Cons show ?case by simp
qed simp

lemma gate_phase_total:
  assumes "\<forall>c \<in> set cs. tolerances_parse D (cr_ast c)"
  shows "\<exists>fs. gate_phase D facts cs = Inr fs"
proof -
  have "\<exists>y. rbind (evaluate D (cr_ast c) facts) (\<lambda>ev. Inr (gate_failure_of c ev)) = Inr y" if "c \<in> set cs" for c
    using evaluate_total [of "cr_ast c" facts] assms that by auto
  then have "\<exists>ys. rtraverse (\<lambda>c. rbind (evaluate D (cr_ast c) facts) (\<lambda>ev. Inr (gate_failure_of c ev))) cs = Inr ys"
    by (rule rtraverse_total)
  then show ?thesis by (auto simp: gate_phase_def)
qed

lemma evaluate_invoice_total:
  assumes iv: "invoice_parses iv" and tol: "\<forall>c \<in> set (rub_criteria rubric). tolerances_parse D (cr_ast c)"
  shows "\<exists>r. evaluate_invoice D rt iv rubric contract = Inr r"
proof -
  obtain facts where f: "build_fact_bundle D rt iv contract = Inr facts" using build_fact_bundle_total [OF iv] by blast
  obtain fs where fs: "gate_phase D facts (ordered_criteria rt rubric GATING) = Inr fs"
    using gate_phase_total [of "ordered_criteria rt rubric GATING"] tol by auto
  obtain s where s: "rfold (score_step D facts) (score_init D) (ordered_criteria rt rubric SCORING) = Inr s"
    using score_fold_total [of "ordered_criteria rt rubric SCORING" facts "score_init D"] tol by auto
  show ?thesis using f fs s by (simp add: evaluate_invoice_def Let_def)
qed

lemma standard_tolerances_parse: "\<forall>c \<in> set (rub_criteria STANDARD_RUBRIC). tolerances_parse D (cr_ast c)"
  using cent_value by (simp add: standard_defs tolerances_parse_def FOOTING_TOLERANCE_def) auto

lemma contract_tolerances_parse: "\<forall>c \<in> set (rub_criteria CONTRACT_RUBRIC). tolerances_parse D (cr_ast c)"
  using standard_tolerances_parse cent_value
  by (auto simp: CONTRACT_RUBRIC_def RATE_VARIANCE_CRITERION_def score_def tolerances_parse_def RATE_VARIANCE_TOLERANCE_def)

lemma money_parses: "money D raw = Some a \<Longrightarrow> dec_of_string D a \<noteq> None"
  using to_fixed_parses by (auto dest!: money_SomeD)

lemma build_charge_parses:
  "Some s \<in> {ch_amount (build_charge D cat rc loop l1), ch_rate (build_charge D cat rc loop l1),
             ch_basis (build_charge D cat rc loop l1)} \<Longrightarrow> dec_of_string D s \<noteq> None"
  using money_parses by (fastforce simp: build_charge_def Let_def)

lemma build_footing_line_sum:
  assumes "build_footing D declared (map (build_charge D cat rc loop) l1s) = Inr f"
  shows "dec_of_string D (line_sum f) \<noteq> None"
proof -
  have "\<exists>s. sum_money D (map ch_amount (map (build_charge D cat rc loop) l1s)) = Inr s \<and> dec_of_string D s \<noteq> None"
    using build_charge_parses by (intro sum_money_total) fastforce
  with assms show ?thesis by (auto simp: build_footing_def)
qed

lemma adapter_invoice_parses:
  assumes "inv_charges iv = map (build_charge D cat rc loop) l1s" and "inv_footing iv = Some f"
    and "build_footing D declared (inv_charges iv) = Inr f"
  shows "invoice_parses iv"
  using assms build_footing_line_sum build_charge_parses
  by (fastforce simp: invoice_parses_def invoice_line_sum_def)

lemma parse210_parses: "parse210 D raw cat = Inr iv \<Longrightarrow> invoice_parses iv"
  using parse210_shape adapter_invoice_parses by metis

lemma parse310_parses: "parse310 D raw cat = Inr iv \<Longrightarrow> invoice_parses iv"
  using parse310_shape adapter_invoice_parses by metis

end

end
