(* ===== verification/Audit_Properties.thy ===== *)
theory Audit_Properties
  imports Audit_Correctness
begin

text \<open>
  The properties of an audit run, over the whole of \<open>evaluateInvoice\<close>, and the concrete
  invoices at which they are instantiated.
\<close>

section \<open>Concrete invoices\<close>

definition sample_runtime :: runtime where
  "sample_runtime = \<lparr>rt_locale_compare = unit_compare, rt_sha256_hex = (\<lambda>s. s),
     rt_number_string = fraction_string\<rparr>"

definition sample_charge :: "string \<Rightarrow> string \<Rightarrow> normalized_charge" where
  "sample_charge category amount =
     \<lparr>ch_code = Some ''400'', ch_x12_element = Some ''L1'', ch_category = Some category, ch_quarantined = False,
      ch_amount = Some amount, ch_currency = ''USD'', ch_basis = None, ch_rate = None,
      ch_raw_description = None, ch_source_loop = Some ''L0/L1''\<rparr>"

definition sample_invoice :: parsed_invoice where
  "sample_invoice =
     \<lparr>inv_transaction_set = TS210, inv_parser_version = PARSER_210_VERSION, inv_invoice_number = Some ''INV1'',
      inv_shipment_references = Some [''S1''], inv_carrier_code = Some ''ABCD'', inv_container_numbers = None,
      inv_vessel_voyage = None, inv_port_codes = None, inv_header_currency = Some ''USD'',
      inv_charges = [sample_charge ''LINEHAUL'' ''100.0000''],
      inv_footing = Some \<lparr>declared_total = Some ''100.0000'', line_sum = ''100.0000''\<rparr>,
      inv_quarantined_codes = []\<rparr>"

definition sample_contract :: contract_facts where
  "sample_contract =
     \<lparr>cf_linehaul_rate = Some (Some \<lparr>rate_amount = ''90.0000'', rate_currency = ''USD'', rate_clause_id = None\<rparr>),
      cf_duplicate_invoice = None, cf_shipment_reference_match = None, cf_external_resolutions = []\<rparr>"

definition rate_rubric :: composed_rubric where
  "rate_rubric = \<lparr>rub_resolver_version = ''v'', rub_criteria = [RATE_VARIANCE_CRITERION]\<rparr>"


text \<open>The two audits, evaluated stage by stage: the fact bundle, the gates, the scoring.\<close>

definition sample_facts :: bundle_entries where
  "sample_facts = invoice_facts sample_invoice None ''100.0000'' None"

lemma sample_bundle: "build_fact_bundle exact_decimal sample_runtime sample_invoice None = Inr (bundle_of sample_facts)"
proof -
  have ls: "new_decimal exact_decimal ''100.0000'' = Inr (1000000, 4)" by code_simp
  have rb: "rate_basis_arithmetic_matches exact_decimal sample_invoice = Inr None" by code_simp
  have tf: "dec_to_fixed exact_decimal 4 (1000000, 4) = ''100.0000''" by code_simp
  show ?thesis
    unfolding build_fact_bundle_def rb
    by (simp add: sample_invoice_def [THEN arg_cong, of inv_footing] ls tf sample_facts_def)
qed

lemma sample_gates:
  "gate_phase exact_decimal (bundle_of sample_facts) (ordered_criteria sample_runtime STANDARD_RUBRIC GATING) = Inr []"
  by code_simp

lemma sample_invoice_parses: "decimal_laws.invoice_parses exact_decimal sample_invoice"
  unfolding exact.invoice_parses_def
proof
  show "dec_of_string exact_decimal (invoice_line_sum sample_invoice) \<noteq> None" by code_simp
  have "dec_of_string exact_decimal ''100.0000'' \<noteq> None" by code_simp
  then show "\<forall>c\<in>set (inv_charges sample_invoice). \<forall>s. Some s \<in> {ch_amount c, ch_rate c, ch_basis c} \<longrightarrow>
      dec_of_string exact_decimal s \<noteq> None"
    by (simp add: sample_invoice_def sample_charge_def)
qed

lemma sample_audit: "\<exists>r. evaluate_invoice exact_decimal sample_runtime sample_invoice STANDARD_RUBRIC None = Inr r"
  by (rule exact.evaluate_invoice_total [OF sample_invoice_parses exact.standard_tolerances_parse])

lemma sample_audit_scored:
  "evaluate_invoice exact_decimal sample_runtime sample_invoice STANDARD_RUBRIC None = Inr r \<Longrightarrow> ar_outcome r = SCORED"
  by (auto simp: evaluate_invoice_def sample_bundle sample_gates Let_def rbind_eq_Inr)

lemma rate_audit: "\<exists>r. evaluate_invoice exact_decimal sample_runtime sample_invoice rate_rubric (Some sample_contract) = Inr r"
  by (rule exact.evaluate_invoice_total [OF sample_invoice_parses])
    (use exact.contract_tolerances_parse in \<open>auto simp: rate_rubric_def CONTRACT_RUBRIC_def\<close>)

definition contract_bundle :: fact_bundle where
  "contract_bundle = (bundle_of sample_facts)(''billed_linehaul'' := Some (FMoney ''100.0000'' ''USD''),
     ''contract_linehaul_rate'' := Some (FMoney ''90.0000'' ''USD''),
     ''linehaul_currencies_match'' := Some (FBool True))"

lemma contract_bundle_built:
  "build_fact_bundle exact_decimal sample_runtime sample_invoice (Some sample_contract) = Inr contract_bundle"
proof -
  have ls: "new_decimal exact_decimal ''100.0000'' = Inr (1000000, 4)" by code_simp
  have rb: "rate_basis_arithmetic_matches exact_decimal sample_invoice = Inr None" by code_simp
  have tf: "dec_to_fixed exact_decimal 4 (1000000, 4) = ''100.0000''" by code_simp
  have bl: "billed_linehaul exact_decimal sample_invoice = Inr (Some (1000000, 4))"
    "billed_currency sample_invoice = Some ''USD''" by code_simp+
  have if_same: "invoice_facts sample_invoice (Some sample_contract) t rb = invoice_facts sample_invoice None t rb" for t rb
    by (simp add: invoice_facts_def sample_contract_def)
  show ?thesis
    unfolding build_fact_bundle_def rb if_same
    by (simp add: sample_invoice_def [THEN arg_cong, of inv_footing] ls tf sample_facts_def sample_contract_def
        linehaul_facts_def bl currencies_stated_and_equal_def contract_bundle_def)
qed

lemma contract_gates:
  "gate_phase exact_decimal contract_bundle (ordered_criteria sample_runtime CONTRACT_RUBRIC GATING) = Inr []"
  by code_simp

lemma contract_scores:
  "case rfold (score_step exact_decimal contract_bundle) (score_init exact_decimal)
          (ordered_criteria sample_runtime CONTRACT_RUBRIC SCORING) of
     Inl _ \<Rightarrow> False
   | Inr s \<Rightarrow> list_ex (\<lambda>f. fi_criterion_key f = ''CONTRACT.RATE_VARIANCE'' \<and> fi_result f = VARIANCE) (ss_findings s)"
  by code_simp

lemma contract_audit:
  "\<exists>r f. evaluate_invoice exact_decimal sample_runtime sample_invoice CONTRACT_RUBRIC (Some sample_contract) = Inr r \<and>
     f \<in> set (ar_findings r) \<and> fi_criterion_key f = ''CONTRACT.RATE_VARIANCE'' \<and> fi_result f = VARIANCE"
proof -
  obtain s f where "rfold (score_step exact_decimal contract_bundle) (score_init exact_decimal)
      (ordered_criteria sample_runtime CONTRACT_RUBRIC SCORING) = Inr s"
    "f \<in> set (ss_findings s)" "fi_criterion_key f = ''CONTRACT.RATE_VARIANCE''" "fi_result f = VARIANCE"
    using contract_scores by (auto simp: list_ex_iff split: sum.splits)
  then show ?thesis by (auto simp: evaluate_invoice_def contract_bundle_built contract_gates Let_def)
qed

section \<open>Helper facts\<close>

lemma gates_fail_iff:
  "filter (fails D facts) (ordered_criteria rt rubric GATING) \<noteq> [] \<longleftrightarrow>
   (\<exists>c \<in> set (rub_criteria rubric). cr_kind c = GATING \<and> fails D facts c)"
  by (auto simp: filter_empty_conv)

lemma findings_keys:
  assumes "rfold (score_step D facts) (score_init D) cs = Inr s"
  shows "map fi_criterion_key (ss_findings s) = map cr_key cs"
proof -
  from score_fold_findings [OF assms] obtain fs where "ss_findings s = fs"
    and l: "list_all2 (\<lambda>c f. fi_criterion_key f = cr_key c \<and>
          (\<exists>ev. evaluate D (cr_ast c) facts = Inr ev \<and> fi_evaluated_expr f = ev \<and>
                fi_result f = result_of_verdict (verdict ev))) cs fs"
    by (auto simp: score_init_def)
  have "map fi_criterion_key fs = map cr_key cs" using l by (induction rule: list_all2_induct) auto
  with \<open>ss_findings s = fs\<close> show ?thesis by simp
qed

lemma finding_criterion:
  assumes "rfold (score_step D facts) (score_init D) cs = Inr s" and "f \<in> set (ss_findings s)"
  shows "\<exists>c ev. c \<in> set cs \<and> fi_criterion_key f = cr_key c \<and> evaluate D (cr_ast c) facts = Inr ev \<and>
    fi_evaluated_expr f = ev \<and> fi_result f = result_of_verdict (verdict ev)"
proof -
  from score_fold_findings [OF assms(1)] obtain fs where "ss_findings s = fs"
    and l: "list_all2 (\<lambda>c f. fi_criterion_key f = cr_key c \<and>
          (\<exists>ev. evaluate D (cr_ast c) facts = Inr ev \<and> fi_evaluated_expr f = ev \<and>
                fi_result f = result_of_verdict (verdict ev))) cs fs"
    by (auto simp: score_init_def)
  with assms(2) show ?thesis by (fastforce simp: list_all2_conv_all_nth in_set_conv_nth)
qed

lemma scored_tree_finding:
  assumes "rfold (score_step D facts) (score_init D) cs = Inr s" and "c \<in> set cs"
    and "evaluate D (cr_ast c) facts = Inr ev"
  shows "\<exists>f \<in> set (ss_findings s). fi_evaluated_expr f = ev"
proof -
  from score_fold_findings [OF assms(1)] obtain fs where "ss_findings s = fs"
    and l: "list_all2 (\<lambda>c f. fi_criterion_key f = cr_key c \<and>
          (\<exists>ev. evaluate D (cr_ast c) facts = Inr ev \<and> fi_evaluated_expr f = ev \<and>
                fi_result f = result_of_verdict (verdict ev))) cs fs"
    by (auto simp: score_init_def)
  with assms(2,3) show ?thesis by (fastforce simp: list_all2_conv_all_nth in_set_conv_nth)
qed

lemma linehaul_match_fact:
  assumes "build_fact_bundle D rt iv contract = Inr facts" and "facts ''linehaul_currencies_match'' \<noteq> None"
  shows "\<exists>c rate. contract = Some c \<and> cf_linehaul_rate c = Some (Some rate) \<and>
           currencies_stated_and_equal (billed_currency iv) (Some (rate_currency rate))"
proof -
  have no: "foldl add_external (bundle_of (invoice_facts iv contract t rb)) xs ''linehaul_currencies_match'' = None" for t rb xs
    by (subst fold_external_other) (auto simp: bundle_of_def invoice_facts_def Let_def)
  have lf: "currencies_stated_and_equal (billed_currency iv) (map_option rate_currency rate)"
    if "linehaul_facts D iv rate b = Inr facts" for rate b
    using that assms(2) by (auto simp: linehaul_facts_def rbind_eq_Inr Let_def split: if_splits)
  show ?thesis
  proof (cases contract)
    case None
    with assms no [of _ _ "[]"] show ?thesis by (auto simp: build_fact_bundle_def rbind_eq_Inr Let_def)
  next
    case (Some c)
    show ?thesis
    proof (cases "cf_linehaul_rate c")
      case None
      with Some assms no show ?thesis by (auto simp: build_fact_bundle_def rbind_eq_Inr Let_def)
    next
      case (Some rate)
      with \<open>contract = Some c\<close> assms(1) obtain b where "linehaul_facts D iv rate b = Inr facts"
        by (auto simp: build_fact_bundle_def rbind_eq_Inr Let_def)
      then have "currencies_stated_and_equal (billed_currency iv) (map_option rate_currency rate)" by (rule lf)
      with Some \<open>contract = Some c\<close> show ?thesis
        by (cases rate) (auto simp: currencies_stated_and_equal_def split: option.splits)
    qed
  qed
qed

lemma RATE_VARIANCE_strict: "''linehaul_currencies_match'' \<in> set (strict_facts (cr_ast RATE_VARIANCE_CRITERION))"
  by (simp add: RATE_VARIANCE_CRITERION_def score_def)

lemma contract_rate_variance:
  "c \<in> set (rub_criteria CONTRACT_RUBRIC) \<Longrightarrow> cr_key c = ''CONTRACT.RATE_VARIANCE'' \<Longrightarrow> c = RATE_VARIANCE_CRITERION"
  by (auto simp: CONTRACT_RUBRIC_def standard_defs)

section \<open>Properties\<close>

text \<open>
  C1: the gate phase collects every failing gate. An audit is rejected exactly when some gating
  criterion does not pass; then the defects listed are those of all failing gates, in evaluation
  order, and nothing is scored.
\<close>

theorem audit_rejects_iff_gate_fails:
  assumes "evaluate_invoice D rt iv rubric contract = Inr r"
  shows "\<exists>facts. build_fact_bundle D rt iv contract = Inr facts \<and>
    map gf_criterion_key (ar_gate_failures r) =
      map cr_key (filter (fails D facts) (ordered_criteria rt rubric GATING)) \<and>
    (ar_outcome r = REJECTED_REWORK \<longleftrightarrow>
      (\<exists>c \<in> set (rub_criteria rubric). cr_kind c = GATING \<and> fails D facts c)) \<and>
    (ar_outcome r = REJECTED_REWORK \<longleftrightarrow> ar_scorecard r = None) \<and>
    (ar_outcome r = SCORED \<or> ar_findings r = [])"
  using assms
proof (cases rule: evaluate_invoice_cases)
  case (rejected facts fs)
  then have "filter (fails D facts) (ordered_criteria rt rubric GATING) \<noteq> []"
    using gate_phase_keys [OF rejected(2)] by auto
  with rejected gate_phase_keys [OF rejected(2)] show ?thesis by (simp add: gates_fail_iff)
next
  case (scored facts s)
  then have "filter (fails D facts) (ordered_criteria rt rubric GATING) = []"
    using gate_phase_keys [OF scored(2)] by simp
  with scored gates_fail_iff [of D facts rt rubric] show ?thesis by auto
qed

theorem audit_rejects_iff_gate_fails_witness:
  "\<exists>r. evaluate_invoice exact_decimal sample_runtime sample_invoice STANDARD_RUBRIC None = Inr r \<and>
       ar_outcome r = SCORED \<and> ar_scorecard r \<noteq> None"
proof -
  obtain r where r: "evaluate_invoice exact_decimal sample_runtime sample_invoice STANDARD_RUBRIC None = Inr r"
    using sample_audit by blast
  from audit_rejects_iff_gate_fails [OF r] sample_audit_scored [OF r] r show ?thesis by auto
qed

text \<open>
  The scorecard is a faithful tally. A scored audit has exactly one finding per scoring
  criterion, in evaluation order, and its three counters are the numbers of findings with each
  result, so they add up to the number of scoring criteria.
\<close>

theorem scorecard_tallies_findings:
  assumes "evaluate_invoice D rt iv rubric contract = Inr r" and "ar_scorecard r = Some sc"
  shows "map fi_criterion_key (ar_findings r) = map cr_key (ordered_criteria rt rubric SCORING) \<and>
    sc_conformed_count sc = count_result CONFORMED (ar_findings r) \<and>
    sc_variance_count sc = count_result VARIANCE (ar_findings r) \<and>
    sc_unassessable_count sc = count_result RESULT_UNASSESSABLE (ar_findings r) \<and>
    sc_conformed_count sc + sc_variance_count sc + sc_unassessable_count sc =
      length (ordered_criteria rt rubric SCORING)"
  using assms(1)
proof (cases rule: evaluate_invoice_cases)
  case (scored facts s)
  have "score_inv s" using score_fold_inv [OF scored(3) score_inv_init] .
  moreover have keys: "map fi_criterion_key (ss_findings s) = map cr_key (ordered_criteria rt rubric SCORING)"
    using findings_keys [OF scored(3)] .
  moreover have "length (ss_findings s) = length (ordered_criteria rt rubric SCORING)"
    using arg_cong [OF keys, of length] by simp
  ultimately show ?thesis
    using scored assms(2) count_results_total [of "ss_findings s"] by (auto simp: score_inv_def scorecard_of_def)
qed (use assms(2) in simp)

theorem scorecard_tallies_findings_witness:
  "\<exists>r sc. evaluate_invoice exact_decimal sample_runtime sample_invoice rate_rubric (Some sample_contract) = Inr r \<and>
     ar_scorecard r = Some sc \<and>
     sc_conformed_count sc + sc_variance_count sc + sc_unassessable_count sc = 1"
proof -
  obtain r where r: "evaluate_invoice exact_decimal sample_runtime sample_invoice rate_rubric (Some sample_contract) = Inr r"
    using rate_audit by blast
  have none: "ordered_criteria sample_runtime rate_rubric GATING = []"
    "ordered_criteria sample_runtime rate_rubric SCORING = [RATE_VARIANCE_CRITERION]"
    by (simp_all add: ordered_criteria_def rate_rubric_def RATE_VARIANCE_CRITERION_def score_def)
  obtain sc where sc: "ar_scorecard r = Some sc"
    using r by (cases rule: evaluate_invoice_cases) (auto simp: none gate_phase_def)
  from scorecard_tallies_findings [OF r sc] r sc none show ?thesis by auto
qed

text \<open>
  C3: the money totals of the scorecard are exact. With fewer than a hundred scoring criteria and
  amounts that fit the money columns, the total overcharge is the sum of the positive and the
  total undercharge the sum of the negative variance amounts of the findings, with no rounding.
\<close>

theorem scorecard_totals_exact:
  assumes "decimal_laws D dval" and "evaluate_invoice D rt iv rubric contract = Inr r"
    and "ar_scorecard r = Some sc" and "length (ordered_criteria rt rubric SCORING) < 100"
    and "\<forall>f \<in> set (ar_findings r). money_bounded D dval (fi_evaluated_expr f)"
  shows "\<exists>ov un. dec_of_string D (sc_total_overcharge sc) = Some ov \<and>
    dec_of_string D (sc_total_undercharge sc) = Some un \<and>
    dval ov = (\<Sum>f\<leftarrow>ar_findings r. max 0 (finding_delta D dval f)) \<and>
    dval un = (\<Sum>f\<leftarrow>ar_findings r. max 0 (- finding_delta D dval f))"
  using assms(2)
proof (cases rule: evaluate_invoice_cases)
  case (scored facts s)
  have "money_bounded D dval ev"
    if "c \<in> set (ordered_criteria rt rubric SCORING)" "evaluate D (cr_ast c) facts = Inr ev" for c ev
    using scored_tree_finding [OF scored(3) that] assms(5) scored(6) by auto
  then have "decimal_laws.totals_inv D dval (0 + length (ordered_criteria rt rubric SCORING)) s"
    using decimal_laws.totals_inv_fold [OF assms(1) scored(3) decimal_laws.totals_inv_init [OF assms(1)]] assms(4)
    by simp
  then show ?thesis
    using scored assms(3) decimal_laws.to_fixed4_roundtrip [OF assms(1)]
    unfolding decimal_laws.totals_inv_def [OF assms(1)] decimal_laws.has_value_def [OF assms(1)]
    by (auto simp: scorecard_of_def) metis
qed (use assms(3) in simp)

theorem scorecard_totals_exact_witness:
  "\<exists>r sc ov. evaluate_invoice exact_decimal sample_runtime sample_invoice rate_rubric (Some sample_contract) = Inr r \<and>
     ar_scorecard r = Some sc \<and> dec_of_string exact_decimal (sc_total_overcharge sc) = Some ov \<and>
     sdec_val ov = (\<Sum>f\<leftarrow>ar_findings r. max 0 (finding_delta exact_decimal sdec_val f)) \<and>
     sc_total_overcharge sc = ''10.0000''"
proof -
  have "case evaluate_invoice exact_decimal sample_runtime sample_invoice rate_rubric (Some sample_contract) of
      Inl _ \<Rightarrow> False
    | Inr r \<Rightarrow> map_option sc_total_overcharge (ar_scorecard r) = Some ''10.0000'' \<and>
        list_all (\<lambda>f. money_bounded exact_decimal sdec_val (fi_evaluated_expr f)) (ar_findings r)"
    by code_simp
  then obtain r sc where r: "evaluate_invoice exact_decimal sample_runtime sample_invoice rate_rubric (Some sample_contract) = Inr r"
    and sc: "ar_scorecard r = Some sc" "sc_total_overcharge sc = ''10.0000''"
    and b: "\<forall>f \<in> set (ar_findings r). money_bounded exact_decimal sdec_val (fi_evaluated_expr f)"
    by (auto simp: list_all_iff split: sum.splits)
  have n: "length (ordered_criteria sample_runtime rate_rubric SCORING) < 100"
    by (simp add: ordered_criteria_def rate_rubric_def)
  from scorecard_totals_exact [OF exact.decimal_laws_axioms r sc(1) n b] r sc show ?thesis by blast
qed

text \<open>
  C4: an audit of an EDI invoice never throws. Whatever bytes the 210 and 310 adapters accept,
  evaluating the resulting invoice under the standard or the contract rubric returns a result,
  for any contract facts.
\<close>

theorem edi_audit_never_throws:
  assumes "decimal_laws D dval" and "parse210 D raw cat = Inr iv \<or> parse310 D raw cat = Inr iv"
    and "rubric \<in> {STANDARD_RUBRIC, CONTRACT_RUBRIC}"
  shows "\<exists>r. evaluate_invoice D rt iv rubric contract = Inr r"
proof -
  have "decimal_laws.invoice_parses D iv"
    using assms(2) decimal_laws.parse210_parses [OF assms(1)] decimal_laws.parse310_parses [OF assms(1)] by blast
  moreover have "\<forall>c \<in> set (rub_criteria rubric). tolerances_parse D (cr_ast c)"
    using assms(3) decimal_laws.standard_tolerances_parse [OF assms(1)]
      decimal_laws.contract_tolerances_parse [OF assms(1)] by auto
  ultimately show ?thesis by (rule decimal_laws.evaluate_invoice_total [OF assms(1)])
qed

theorem edi_audit_never_throws_witness:
  "\<exists>iv r. parse210 exact_decimal sample_edi (\<lambda>c. Some ''LINEHAUL'') = Inr iv \<and> length (inv_charges iv) = 2 \<and>
     evaluate_invoice exact_decimal sample_runtime iv CONTRACT_RUBRIC (Some sample_contract) = Inr r"
proof -
  have "case parse210 exact_decimal sample_edi (\<lambda>c. Some ''LINEHAUL'') of
      Inl _ \<Rightarrow> False | Inr iv \<Rightarrow> length (inv_charges iv) = 2"
    by code_simp
  then obtain iv where iv: "parse210 exact_decimal sample_edi (\<lambda>c. Some ''LINEHAUL'') = Inr iv"
    "length (inv_charges iv) = 2"
    by (auto split: sum.splits)
  have "\<exists>r. evaluate_invoice exact_decimal sample_runtime iv CONTRACT_RUBRIC (Some sample_contract) = Inr r"
    by (rule edi_audit_never_throws [OF exact.decimal_laws_axioms disjI1, OF iv(1)]) simp
  with iv show ?thesis by blast
qed

text \<open>
  C2: a scored invoice is certified. When the standard rubric scores an invoice, every charge
  states an amount and a currency, there is at least one charge, and the declared total is stated
  and within one cent of the line sum.
\<close>

theorem scored_invoice_certified:
  assumes "decimal_laws D dval"
    and "evaluate_invoice D rt iv STANDARD_RUBRIC contract = Inr r" and "ar_outcome r = SCORED"
    and "inv_footing iv = Some f" and "dec_of_string D (line_sum f) = Some e"
    and "dec_is_finite D e" and "scale4 (dval e)" and "\<bar>dval e\<bar> < 10 ^ 15"
    and "\<And>t d. declared_total f = Some t \<Longrightarrow> dec_of_string D t = Some d \<Longrightarrow>
       dec_is_finite D d \<and> scale4 (dval d) \<and> \<bar>dval d\<bar> < 10 ^ 15"
  shows "inv_charges iv \<noteq> [] \<and> (\<forall>c \<in> set (inv_charges iv). ch_amount c \<noteq> None \<and> ch_currency c \<noteq> []) \<and>
    (\<exists>t d. declared_total f = Some t \<and> dec_of_string D t = Some d \<and> \<bar>dval d - dval e\<bar> \<le> 1 / 100)"
  using decimal_laws.scored_foots [OF assms(1-5) _ assms(7-9)] assms(6)
    decimal_laws.scored_has_charges [OF assms(1-3)] scored_amounts_stated [OF assms(2,3)]
    scored_currencies_stated [OF assms(2,3)]
  by (auto simp: decimal_laws.has_value_def [OF assms(1)])

theorem scored_invoice_certified_witness:
  "\<exists>r. evaluate_invoice exact_decimal sample_runtime sample_invoice STANDARD_RUBRIC None = Inr r \<and>
     inv_charges sample_invoice \<noteq> [] \<and>
     (\<exists>t d. declared_total (the (inv_footing sample_invoice)) = Some t \<and>
        dec_of_string exact_decimal t = Some d \<and> \<bar>sdec_val d - 100\<bar> \<le> 1 / 100)"
proof -
  obtain r where r: "evaluate_invoice exact_decimal sample_runtime sample_invoice STANDARD_RUBRIC None = Inr r"
    using sample_audit by blast
  have f: "inv_footing sample_invoice = Some \<lparr>declared_total = Some ''100.0000'', line_sum = ''100.0000''\<rparr>"
    by (simp add: sample_invoice_def)
  have e: "dec_of_string exact_decimal ''100.0000'' = Some (1000000, 4)" by code_simp
  have v: "sdec_val (1000000, 4) = 100" by (simp add: sdec_val_def)
  have s: "scale4 100" unfolding scale4_def by (intro exI [of _ 1000000]) simp
  have d: "dec_is_finite exact_decimal d \<and> scale4 (sdec_val d) \<and> \<bar>sdec_val d\<bar> < 10 ^ 15"
    if "Some ''100.0000'' = Some t" "dec_of_string exact_decimal t = Some d" for t d
    using that e v s by (auto simp: exact_decimal_def)
  from scored_invoice_certified [OF exact.decimal_laws_axioms r sample_audit_scored [OF r] f, of "(1000000, 4)"]
  have "inv_charges sample_invoice \<noteq> [] \<and> (\<exists>d. dec_of_string exact_decimal ''100.0000'' = Some d \<and> \<bar>sdec_val d - 100\<bar> \<le> 1 / 100)"
    using e v s d by (simp add: exact_decimal_def)
  with r f show ?thesis by simp
qed

text \<open>
  Amounts in different currencies are never compared. Under the contract rubric the linehaul
  rate is assessed (conforming or at variance) only when a contract rate is known and its currency
  is stated and equal to the single currency of the billed linehaul charges.
\<close>

theorem rate_variance_same_currency:
  assumes "evaluate_invoice D rt iv CONTRACT_RUBRIC contract = Inr r" and "f \<in> set (ar_findings r)"
    and "fi_criterion_key f = ''CONTRACT.RATE_VARIANCE''" and "fi_result f \<noteq> RESULT_UNASSESSABLE"
  shows "\<exists>c rate. contract = Some c \<and> cf_linehaul_rate c = Some (Some rate) \<and>
           currencies_stated_and_equal (billed_currency iv) (Some (rate_currency rate))"
  using assms(1)
proof (cases rule: evaluate_invoice_cases)
  case (scored facts s)
  have "f \<in> set (ss_findings s)" using assms(2) scored(6) by simp
  from finding_criterion [OF scored(3) this]
  obtain c ev where c: "c \<in> set (ordered_criteria rt CONTRACT_RUBRIC SCORING)" "fi_criterion_key f = cr_key c"
    "evaluate D (cr_ast c) facts = Inr ev" "fi_result f = result_of_verdict (verdict ev)"
    by blast
  then have "c = RATE_VARIANCE_CRITERION" using contract_rate_variance assms(3) by auto
  then have "\<not> fact_absent facts ''linehaul_currencies_match''"
    using verdict_unassessable [OF evaluate_strict [OF c(3)]] RATE_VARIANCE_strict c(4) assms(4)
    by (auto simp: result_of_verdict_def)
  then have "facts ''linehaul_currencies_match'' \<noteq> None" by (auto simp: fact_absent_def)
  from linehaul_match_fact [OF scored(1) this] show ?thesis .
qed (use assms(2) in simp)

theorem rate_variance_same_currency_witness:
  "currencies_stated_and_equal (billed_currency sample_invoice) (Some ''USD'')"
proof -
  from contract_audit obtain r f where
    "evaluate_invoice exact_decimal sample_runtime sample_invoice CONTRACT_RUBRIC (Some sample_contract) = Inr r"
    "f \<in> set (ar_findings r)" "fi_criterion_key f = ''CONTRACT.RATE_VARIANCE''" "fi_result f = VARIANCE"
    by blast
  then have "\<exists>c rate. Some sample_contract = Some c \<and> cf_linehaul_rate c = Some (Some rate) \<and>
      currencies_stated_and_equal (billed_currency sample_invoice) (Some (rate_currency rate))"
    by (intro rate_variance_same_currency) auto
  then show ?thesis by (auto simp: sample_contract_def)
qed

section \<open>The rubric content hash\<close>

lemma normalize_lit: "normalize_json (lit_json v) = lit_json v"
  by (cases v) auto

lemma lit_json_inj: "lit_json v = lit_json w \<longleftrightarrow> v = w"
  by (cases v; cases w) auto

lemma normalize_ast_simps:
  "normalize_json (ast_json (AstLit v)) = JObject [(''type'', JString ''lit''), (''value'', lit_json v)]"
  "normalize_json (ast_json (AstMoney x c)) =
     JObject [(''amount'', JString x), (''currency'', JString c), (''type'', JString ''money'')]"
  "normalize_json (ast_json (AstFact k)) = JObject [(''key'', JString k), (''type'', JString ''fact'')]"
  "normalize_json (ast_json (AstArith aop args)) =
     JObject [(''args'', JArray (map (\<lambda>a. normalize_json (ast_json a)) args)), (''op'', JString (arith_op_name aop)), (''type'', JString ''arith'')]"
  "normalize_json (ast_json (AstCompare cop l r tol)) =
     JObject ([(''left'', normalize_json (ast_json l)), (''op'', JString (compare_op_name cop)), (''right'', normalize_json (ast_json r))]
       @ (case tol of None \<Rightarrow> [] | Some t \<Rightarrow> [(''tolerance'', JString t)]) @ [(''type'', JString ''compare'')])"
  "normalize_json (ast_json (AstLogic lop args)) =
     JObject [(''args'', JArray (map (\<lambda>a. normalize_json (ast_json a)) args)), (''op'', JString (logic_op_name lop)), (''type'', JString ''logic'')]"
  "normalize_json (ast_json (AstRequire k t)) =
     JObject [(''key'', JString k), (''then'', normalize_json (ast_json t)), (''type'', JString ''require'')]"
  by (simp_all add: normalize_lit comp_def split: option.split)

lemma arith_op_name_inj: "arith_op_name x = arith_op_name y \<longleftrightarrow> x = y"
  by (cases x; cases y) simp_all

lemma compare_op_name_inj: "compare_op_name x = compare_op_name y \<longleftrightarrow> x = y"
  by (cases x; cases y) simp_all

lemma logic_op_name_inj: "logic_op_name x = logic_op_name y \<longleftrightarrow> x = y"
  by (cases x; cases y) simp_all

lemma kind_name_inj: "kind_name x = kind_name y \<longleftrightarrow> x = y"
  by (cases x; cases y) simp_all

lemmas op_name_inj = arith_op_name_inj compare_op_name_inj logic_op_name_inj kind_name_inj

lemma normalize_args_inj:
  "(\<And>a b. a \<in> set xs \<Longrightarrow> f a = f b \<Longrightarrow> a = b) \<Longrightarrow> map f xs = map f ys \<Longrightarrow> xs = ys"
  by (induction xs arbitrary: ys) auto

lemma normalize_ast_inj: "normalize_json (ast_json a) = normalize_json (ast_json b) \<Longrightarrow> a = b"
proof (induction a arbitrary: b)
  case (AstLit v)
  then show ?case by (cases b) (auto simp: normalize_ast_simps lit_json_inj simp del: ast_json.simps split: option.splits)
next
  case (AstMoney x c)
  then show ?case by (cases b) (auto simp: normalize_ast_simps simp del: ast_json.simps split: option.splits)
next
  case (AstFact k)
  then show ?case by (cases b) (auto simp: normalize_ast_simps simp del: ast_json.simps split: option.splits)
next
  case (AstArith aop args)
  then show ?case
    by (cases b) (auto simp: normalize_ast_simps op_name_inj simp del: ast_json.simps split: option.splits intro!: normalize_args_inj [where f = "\<lambda>a. normalize_json (ast_json a)"])
next
  case (AstCompare cop l r tol)
  then show ?case
    by (cases b) (auto simp: normalize_ast_simps op_name_inj simp del: ast_json.simps split: option.splits)
next
  case (AstLogic lop args)
  then show ?case
    by (cases b) (auto simp: normalize_ast_simps op_name_inj simp del: ast_json.simps split: option.splits intro!: normalize_args_inj [where f = "\<lambda>a. normalize_json (ast_json a)"])
next
  case (AstRequire k t)
  then show ?case
    by (cases b) (auto simp: normalize_ast_simps simp del: ast_json.simps split: option.splits)
qed

lemma normalize_criterion:
  "normalize_json (criterion_json c) =
     JObject ([(''ast'', normalize_json (ast_json (cr_ast c)))]
       @ (case cr_citation c of None \<Rightarrow> [] | Some t \<Rightarrow> [(''citation'', JString t)])
       @ [(''criterionKey'', JString (cr_key c)), (''description'', JString (cr_description c)),
          (''evalOrder'', JNumber (JFin (of_int (cr_eval_order c)))), (''kind'', JString (kind_name (cr_kind c)))])"
  by (simp add: criterion_json_def split: option.split)

lemma normalize_criterion_inj: "normalize_json (criterion_json c) = normalize_json (criterion_json d) \<Longrightarrow> c = d"
  unfolding normalize_criterion
  by (cases c; cases d) (auto simp: op_name_inj dest: normalize_ast_inj split: option.splits)

lemma normalize_rubric_inj: "normalize_json (rubric_json r) = normalize_json (rubric_json s) \<Longrightarrow> r = s"
  by (cases r; cases s) (auto simp: rubric_json_def dest!: normalize_args_inj [rotated] intro: normalize_criterion_inj)

lemma no_index_lit: "no_index_keys (lit_json v)"
  by (cases v) auto

lemma no_index_ast: "no_index_keys (ast_json a)"
  by (induction a) (auto simp: is_index_key_def is_digit_def list_all_iff no_index_lit split: option.split)

lemma no_index_rubric: "no_index_keys (rubric_json r)"
  by (auto simp: rubric_json_def criterion_json_def is_index_key_def is_digit_def list_all_iff no_index_ast split: option.split)

text \<open>Every number literal of the rules is finite, as every number of a stored rule is.\<close>

definition finite_rubric :: "composed_rubric \<Rightarrow> bool" where
  "finite_rubric r = list_all (\<lambda>c. printable (ast_json (cr_ast c))) (rub_criteria r)"

lemma printable_rubric: "finite_rubric r \<Longrightarrow> printable (rubric_json r)"
  by (auto simp: finite_rubric_def rubric_json_def criterion_json_def list_all_iff split: option.split)

lemma rubric_text_inj:
  assumes np: "number_printer ns" and "finite_rubric r" and "finite_rubric s"
    and "stable_stringify ns (rubric_json r) = stable_stringify ns (rubric_json s)"
  shows "r = s"
proof -
  have "json_stringify ns (normalize_json (rubric_json r)) = json_stringify ns (normalize_json (rubric_json s))"
    using assms(4) by (simp add: stable_stringify_def sort_keys_normalize [OF no_index_rubric])
  then have "normalize_json (rubric_json r) = normalize_json (rubric_json s)"
    using number_printer.json_stringify_inj [OF np] number_printer.printable_normalize [OF np]
      printable_rubric assms(2,3) by blast
  then show ?thesis by (rule normalize_rubric_inj)
qed

lemma finite_rubrics: "finite_rubric STANDARD_RUBRIC" "finite_rubric CONTRACT_RUBRIC"
  by code_simp+

lemma rubrics_differ: "STANDARD_RUBRIC \<noteq> CONTRACT_RUBRIC"
proof -
  have "rub_resolver_version STANDARD_RUBRIC \<noteq> rub_resolver_version CONTRACT_RUBRIC"
    by (simp add: STANDARD_RUBRIC_def CONTRACT_RUBRIC_def RESOLVER_VERSION_def CONTRACT_RESOLVER_VERSION_def)
  then show ?thesis by metis
qed

text \<open>
  The rubric hash pinned on an audit run identifies the rubric. If the digest does not collide
  on the two serialized rubrics, equal content hashes mean the same resolver version and the same
  criteria: key, kind, order, description, citation and rule, in the same sequence.
\<close>

theorem rubric_hash_identifies:
  assumes "number_printer (rt_number_string rt)" and "finite_rubric r" and "finite_rubric s"
    and "inj_on (rt_sha256_hex rt) {stable_stringify (rt_number_string rt) (rubric_json r),
           stable_stringify (rt_number_string rt) (rubric_json s)}"
  shows "rubric_content_hash rt r = rubric_content_hash rt s \<longleftrightarrow> r = s"
proof
  let ?st = "\<lambda>r. stable_stringify (rt_number_string rt) (rubric_json r)"
  assume "rubric_content_hash rt r = rubric_content_hash rt s"
  then have "rt_sha256_hex rt (?st r) = rt_sha256_hex rt (?st s)" by (simp only: rubric_content_hash_def)
  then have "?st r = ?st s" by (rule inj_onD [OF assms(4)]) (rule insertI1, rule insertI2, rule insertI1)
  then show "r = s" by (rule rubric_text_inj [OF assms(1-3)])
qed simp

theorem rubric_hash_identifies_witness:
  "rubric_content_hash sample_runtime STANDARD_RUBRIC \<noteq> rubric_content_hash sample_runtime CONTRACT_RUBRIC"
proof -
  have "number_printer (rt_number_string sample_runtime)"
    using fraction.number_printer_axioms by (simp add: sample_runtime_def)
  moreover have "inj_on (rt_sha256_hex sample_runtime) A" for A by (simp add: sample_runtime_def)
  ultimately have "rubric_content_hash sample_runtime STANDARD_RUBRIC = rubric_content_hash sample_runtime CONTRACT_RUBRIC
      \<longleftrightarrow> STANDARD_RUBRIC = CONTRACT_RUBRIC"
    using finite_rubrics by (intro rubric_hash_identifies)
  then show ?thesis using rubrics_differ by simp
qed

end
