(* ===== verification/Sql_Tables.thy ===== *)
theory Sql_Tables
  imports Prelude
begin

text \<open>
  Tables as lists of rows, and the fragments of SQL the sources use on them: \<open>ORDER BY\<close> with
  \<open>LIMIT 1\<close>, \<open>DISTINCT ON\<close>, \<open>INSERT ... ON CONFLICT DO NOTHING\<close>, three-valued equality and
  the place of NULL in a descending order. Identifiers are uuids in lower-case text form, whose
  byte order is the code-unit order; dates are day numbers and timestamps are instants.
\<close>

type_synonym uuid = string
type_synonym day = int
type_synonym instant = int

section \<open>Orderings\<close>

definition by_int :: "('a \<Rightarrow> int) \<Rightarrow> 'a \<Rightarrow> 'a \<Rightarrow> int" where
  "by_int k a b = (if k a < k b then - 1 else if k a = k b then 0 else 1)"

definition by_text :: "('a \<Rightarrow> string) \<Rightarrow> 'a \<Rightarrow> 'a \<Rightarrow> int" where
  "by_text k a b = unit_compare (k a) (k b)"

definition descending :: "('a \<Rightarrow> 'a \<Rightarrow> int) \<Rightarrow> 'a \<Rightarrow> 'a \<Rightarrow> int" where
  "descending c a b = c b a"

definition lex :: "('a \<Rightarrow> 'a \<Rightarrow> int) \<Rightarrow> ('a \<Rightarrow> 'a \<Rightarrow> int) \<Rightarrow> 'a \<Rightarrow> 'a \<Rightarrow> int" where
  "lex c d a b = then_by (c a b) (d a b)"

text \<open>An antisymmetric comparator, as every \<open>ORDER BY\<close> is: equal rank in both directions or opposite signs.\<close>

locale ordering_by = comparator +
  assumes cmp_anti: "0 < cmp x y \<longleftrightarrow> cmp y x < 0"
begin

lemma cmp_zero_sym: "cmp x y = 0 \<longleftrightarrow> cmp y x = 0"
  using cmp_anti [of x y] cmp_anti [of y x] by linarith

end

lemma ordering_by_int: "ordering_by (by_int k)"
  by unfold_locales (auto simp: by_int_def split: if_splits)

lemma ordering_by_text: "ordering_by (by_text k)"
proof
  show "by_text k x y \<le> 0 \<or> by_text k y x \<le> 0" for x y
    using unit_order.cmp_total by (simp add: by_text_def)
  show "by_text k x z \<le> 0" if "by_text k x y \<le> 0" "by_text k y z \<le> 0" for x y z
    using that unit_order.cmp_trans unfolding by_text_def by blast
  show "0 < by_text k x y \<longleftrightarrow> by_text k y x < 0" for x y
    using unit_compare_antisym [of "k x" "k y"] by (simp add: by_text_def)
qed

lemma ordering_descending: "ordering_by c \<Longrightarrow> ordering_by (descending c)"
proof -
  assume interpret_c: "ordering_by c"
  show ?thesis
  proof
    show "descending c x y \<le> 0 \<or> descending c y x \<le> 0" for x y
      using comparator.cmp_total [OF ordering_by.axioms(1) [OF interpret_c]] by (simp add: descending_def)
    show "descending c x z \<le> 0" if "descending c x y \<le> 0" "descending c y z \<le> 0" for x y z
      using that comparator.cmp_trans [OF ordering_by.axioms(1) [OF interpret_c]]
      unfolding descending_def by blast
    show "0 < descending c x y \<longleftrightarrow> descending c y x < 0" for x y
      using ordering_by.cmp_anti [OF interpret_c] by (simp add: descending_def)
  qed
qed

lemma ordering_lex:
  assumes c: "ordering_by c" and d: "ordering_by d"
  shows "ordering_by (lex c d)"
proof -
  note ct = comparator.cmp_total [OF ordering_by.axioms(1) [OF c]]
  note ctr = comparator.cmp_trans [OF ordering_by.axioms(1) [OF c]]
  note dt = comparator.cmp_total [OF ordering_by.axioms(1) [OF d]]
  note dtr = comparator.cmp_trans [OF ordering_by.axioms(1) [OF d]]
  note ca = ordering_by.cmp_anti [OF c]
  note cz = ordering_by.cmp_zero_sym [OF c]
  note da = ordering_by.cmp_anti [OF d]
  show ?thesis
  proof
    show "lex c d x y \<le> 0 \<or> lex c d y x \<le> 0" for x y
      using ct [of x y] dt [of x y] ca [of x y] ca [of y x] by (auto simp: lex_def then_by_def)
  next
    fix x y z
    assume xy: "lex c d x y \<le> 0" and yz: "lex c d y z \<le> 0"
    have cxy: "c x y \<le> 0" and cyz: "c y z \<le> 0" using xy yz by (auto simp: lex_def then_by_def split: if_splits)
    then have cxz: "c x z \<le> 0" by (rule ctr)
    show "lex c d x z \<le> 0"
    proof (cases "c x z = 0")
      case True
      then have "c z x \<le> 0" using cz [of x z] by simp
      then have "c y x \<le> 0" "c z y \<le> 0" using ctr [OF cyz] ctr [OF _ cxy] by auto
      then have "c x y = 0" "c y z = 0" using ca [of x y] ca [of y x] ca [of y z] ca [of z y] cxy cyz by linarith+
      then have "d x y \<le> 0" "d y z \<le> 0" using xy yz by (auto simp: lex_def then_by_def)
      then show ?thesis using dtr True by (auto simp: lex_def then_by_def)
    qed (use cxz in \<open>simp add: lex_def then_by_def\<close>)
  next
    show "0 < lex c d x y \<longleftrightarrow> lex c d y x < 0" for x y
      using ca [of x y] ca [of y x] cz [of x y] da [of x y] by (auto simp: lex_def then_by_def)
  qed
qed

lemmas ordering_intros = ordering_by_int ordering_by_text ordering_descending ordering_lex

lemma by_int_zero [simp]: "by_int k a b = 0 \<longleftrightarrow> k a = k b"
  by (simp add: by_int_def)

lemma by_text_zero [simp]: "by_text k a b = 0 \<longleftrightarrow> k a = k b"
  by (simp add: by_text_def unit_compare_eq_0)

lemma descending_zero [simp]: "ordering_by c \<Longrightarrow> descending c a b = 0 \<longleftrightarrow> c a b = 0"
  by (simp add: descending_def ordering_by.cmp_zero_sym [of c b a])

lemma lex_zero [simp]: "lex c d a b = 0 \<longleftrightarrow> c a b = 0 \<and> d a b = 0"
  by (simp add: lex_def then_by_def)

section \<open>The first row\<close>

text \<open>\<open>SELECT ... WHERE p ORDER BY cmp LIMIT 1\<close>.\<close>

definition first_row :: "('a \<Rightarrow> 'a \<Rightarrow> int) \<Rightarrow> ('a \<Rightarrow> bool) \<Rightarrow> 'a list \<Rightarrow> 'a option" where
  "first_row cmp p rows = (case js_sort cmp (filter p rows) of [] \<Rightarrow> None | r # _ \<Rightarrow> Some r)"

lemma first_row_None: "first_row cmp p rows = None \<longleftrightarrow> (\<forall>r \<in> set rows. \<not> p r)"
proof -
  have "js_sort cmp (filter p rows) = [] \<longleftrightarrow> filter p rows = []"
    by (metis length_0_conv length_js_sort)
  then show ?thesis by (auto simp: first_row_def filter_empty_conv split: list.split)
qed

lemma first_row_in: "first_row cmp p rows = Some r \<Longrightarrow> r \<in> set rows \<and> p r"
proof -
  assume "first_row cmp p rows = Some r"
  then obtain rs where "js_sort cmp (filter p rows) = r # rs" by (auto simp: first_row_def split: list.splits)
  then have "r \<in> set (js_sort cmp (filter p rows))" by (simp del: set_js_sort)
  then show ?thesis by simp
qed

text \<open>Rows the condition excludes have no influence.\<close>

lemma first_row_append: "\<forall>r \<in> set new. \<not> p r \<Longrightarrow> first_row cmp p (rows @ new) = first_row cmp p rows"
  by (simp add: first_row_def)

context comparator
begin

lemma first_row_least: "first_row cmp p rows = Some r \<Longrightarrow> x \<in> set rows \<Longrightarrow> p x \<Longrightarrow> x = r \<or> cmp r x \<le> 0"
proof -
  assume f: "first_row cmp p rows = Some r" and x: "x \<in> set rows" "p x"
  then obtain rs where rs: "js_sort cmp (filter p rows) = r # rs" by (auto simp: first_row_def split: list.splits)
  have "x \<in> set (r # rs)" using x by (simp flip: rs)
  with sorted_js_sort [of "filter p rows"] rs show ?thesis by auto
qed

text \<open>A strict ordering sorts a multiset of rows in one way only.\<close>

lemma sorted_unique:
  assumes "sorted_wrt (\<lambda>a b. cmp a b \<le> 0) xs" "sorted_wrt (\<lambda>a b. cmp a b \<le> 0) ys" and "mset xs = mset ys"
    and "\<And>x y. x \<in> set xs \<Longrightarrow> y \<in> set xs \<Longrightarrow> cmp x y \<le> 0 \<Longrightarrow> cmp y x \<le> 0 \<Longrightarrow> x = y"
  shows "xs = ys"
  using assms
proof (induction xs arbitrary: ys)
  case (Cons x xs)
  obtain y ys' where ys: "ys = y # ys'" using Cons.prems(3) by (cases ys) auto
  have "x = y"
  proof (rule ccontr)
    assume ne: "x \<noteq> y"
    have "y \<in> set xs" "x \<in> set ys'"
      using Cons.prems(3) ne ys by (metis mset_eq_setD set_ConsD list.set_intros(1))+
    with Cons.prems(1,2) ys have "cmp x y \<le> 0" "cmp y x \<le> 0" by auto
    with \<open>y \<in> set xs\<close> Cons.prems(4) ne show False by auto
  qed
  with Cons.prems(3) ys have "mset xs = mset ys'" by simp
  then have "xs = ys'"
    using Cons.prems(1,2,4) ys by (intro Cons.IH) auto
  with \<open>x = y\<close> ys show ?case by simp
qed simp

lemma js_sort_perm:
  assumes "mset xs = mset ys"
    and "\<And>x y. x \<in> set xs \<Longrightarrow> y \<in> set xs \<Longrightarrow> cmp x y \<le> 0 \<Longrightarrow> cmp y x \<le> 0 \<Longrightarrow> x = y"
  shows "js_sort cmp xs = js_sort cmp ys"
  using assms by (intro sorted_unique) (auto simp: sorted_js_sort)

text \<open>The result is determined by the set of rows when the ordering is strict on them.\<close>

lemma first_row_unique:
  assumes "first_row cmp p rows = Some r" and "s \<in> set rows" "p s"
    and "\<And>x. x \<in> set rows \<Longrightarrow> p x \<Longrightarrow> cmp s x \<le> 0"
    and "\<And>x y. x \<in> set rows \<Longrightarrow> y \<in> set rows \<Longrightarrow> p x \<Longrightarrow> p y \<Longrightarrow> cmp x y \<le> 0 \<Longrightarrow> cmp y x \<le> 0 \<Longrightarrow> x = y"
  shows "r = s"
proof -
  have r: "r \<in> set rows" "p r" using first_row_in [OF assms(1)] by auto
  with assms(2-4) first_row_least [OF assms(1)] show ?thesis by (metis assms(5))
qed

end

section \<open>Inserting\<close>

text \<open>
  \<open>INSERT ... ON CONFLICT (key) DO NOTHING\<close>: a row that agrees with a present one on the unique
  key is dropped. \<open>same\<close> is the equality of the unique index.
\<close>

definition insert_row :: "('a \<Rightarrow> 'a \<Rightarrow> bool) \<Rightarrow> 'a \<Rightarrow> 'a list \<Rightarrow> 'a list \<times> bool" where
  "insert_row same r rows = (if list_ex (same r) rows then (rows, False) else (rows @ [r], True))"

text \<open>Equality of nullable columns in a unique index: NULL differs from everything, itself included.\<close>

definition sql_eq :: "'a option \<Rightarrow> 'a option \<Rightarrow> bool" where
  "sql_eq a b = (a \<noteq> None \<and> a = b)"

lemma insert_row_keeps: "r \<in> set rows \<Longrightarrow> r \<in> set (fst (insert_row same x rows))"
  by (simp add: insert_row_def)

lemma insert_row_unique:
  assumes "\<And>a b. same a b \<longleftrightarrow> key a = key b" and "distinct (map key rows)"
  shows "distinct (map key (fst (insert_row same r rows)))"
  using assms(2) by (auto simp: insert_row_def assms(1) list_ex_iff)

lemma insert_row_twice:
  assumes "same r r"
  shows "insert_row same r (fst (insert_row same r rows)) = (fst (insert_row same r rows), False)"
  using assms by (auto simp: insert_row_def)

end
