(* ===== verification/Rubric_Resolver.thy ===== *)
theory Rubric_Resolver
  imports Audit_Properties Sql_Tables
begin

text \<open>
  The rubric resolver (src/modules/rubric-resolver): folding the selected rubric layers into a
  cascade per criterion, the verbs INHERIT, ADD, REPLACE and EXEMPT, the prover for TIGHTEN, and
  the bitemporal selectors over the rubric, rule and override tables.
\<close>

text \<open>
  The checks of the zod package the request schemas call: uuid and integer formats, and the ISO
  date and timestamp formats together with the value PostgreSQL casts them to.
\<close>

record zod_lib =
  zod_uuid :: "string \<Rightarrow> bool"
  zod_int :: "int \<Rightarrow> bool"
  zod_date :: "string \<Rightarrow> day option"
  zod_datetime :: "string \<Rightarrow> instant option"

section \<open>fold-rubric-tiers.ts\<close>

datatype rubric_tier = STANDARD | CLIENT | CONTRACT

datatype override_verb = INHERIT | ADD | REPLACE | TIGHTEN | EXEMPT

record membership =
  ms_criterion_key :: string
  ms_criterion_version_id :: "uuid option"
  ms_override_verb :: override_verb
  ms_override_payload :: "json option"
  ms_eval_order :: int

record rubric_layer =
  ly_tier :: rubric_tier
  ly_rubric_id :: uuid
  ly_rubric_version_id :: uuid
  ly_memberships :: "membership list"

record operation = membership +
  op_tier :: rubric_tier
  op_rubric_version_id :: uuid

type_synonym folded_criterion = "string \<times> operation list"

datatype resolve_error =
    RubricFoldInputError string
  | InheritAddResolutionError string string
  | ReplaceResolutionError string string
  | ExemptResolutionError string string
  | HardStandardGateExemptionError string string

fun verb_name :: "override_verb \<Rightarrow> string" where
  "verb_name INHERIT = ''INHERIT''"
| "verb_name ADD = ''ADD''"
| "verb_name REPLACE = ''REPLACE''"
| "verb_name TIGHTEN = ''TIGHTEN''"
| "verb_name EXEMPT = ''EXEMPT''"

fun tier_index :: "rubric_tier \<Rightarrow> int" where
  "tier_index STANDARD = 0"
| "tier_index CLIENT = 1"
| "tier_index CONTRACT = 2"

text \<open>The schema of a layer; a parsed membership has its key trimmed.\<close>

definition parse_membership :: "zod_lib \<Rightarrow> membership \<Rightarrow> membership option" where
  "parse_membership Z m =
     (let k = js_trim (ms_criterion_key m)
      in if k \<noteq> [] \<and> (case ms_criterion_version_id m of None \<Rightarrow> True | Some v \<Rightarrow> zod_uuid Z v)
            \<and> zod_int Z (ms_eval_order m)
         then Some (m\<lparr>ms_criterion_key := k\<rparr>) else None)"

definition parse_layer :: "zod_lib \<Rightarrow> rubric_layer \<Rightarrow> rubric_layer option" where
  "parse_layer Z l =
     (let ms = map (parse_membership Z) (ly_memberships l)
      in if zod_uuid Z (ly_rubric_id l) \<and> zod_uuid Z (ly_rubric_version_id l) \<and> None \<notin> set ms
         then Some (l\<lparr>ly_memberships := map the ms\<rparr>) else None)"

definition operation_of :: "rubric_layer \<Rightarrow> membership \<Rightarrow> operation" where
  "operation_of l m =
     \<lparr>ms_criterion_key = ms_criterion_key m, ms_criterion_version_id = ms_criterion_version_id m,
      ms_override_verb = ms_override_verb m, ms_override_payload = ms_override_payload m,
      ms_eval_order = ms_eval_order m, op_tier = ly_tier l, op_rubric_version_id = ly_rubric_version_id l\<rparr>"

fun group_push :: "string \<Rightarrow> 'a \<Rightarrow> (string \<times> 'a list) list \<Rightarrow> (string \<times> 'a list) list" where
  "group_push k x [] = [(k, [x])]"
| "group_push k x ((k', xs) # r) = (if k' = k then (k', xs @ [x]) # r else (k', xs) # group_push k x r)"

definition layer_operations :: "runtime \<Rightarrow> rubric_layer \<Rightarrow> operation list" where
  "layer_operations rt l =
     map (operation_of l)
       (js_sort (\<lambda>a b. then_by (ms_eval_order a - ms_eval_order b)
                         (rt_locale_compare rt (ms_criterion_key a) (ms_criterion_key b)))
          (ly_memberships l))"

definition group_operations :: "operation list \<Rightarrow> folded_criterion list" where
  "group_operations ops = foldl (\<lambda>g p. group_push (ms_criterion_key p) p g) [] ops"

definition min_eval_order :: "operation list \<Rightarrow> int" where
  "min_eval_order ops = (case map ms_eval_order ops of [] \<Rightarrow> 0 | n # ns \<Rightarrow> foldl min n ns)"

definition fold_rubric_tiers ::
  "runtime \<Rightarrow> zod_lib \<Rightarrow> rubric_layer list \<Rightarrow> (resolve_error, folded_criterion list) result" where
  "fold_rubric_tiers rt Z untrusted_layers =
     (let parsed = map (parse_layer Z) untrusted_layers
      in if None \<in> set parsed then Inl (RubricFoldInputError ''Invalid rubric tier fold input'')
         else (let layers = js_sort (\<lambda>a b. tier_index (ly_tier a) - tier_index (ly_tier b)) (map the parsed)
               in if \<not> distinct (map ly_tier layers)
                  then Inl (RubricFoldInputError ''Multiple selected rubric versions for one tier'')
                  else Inr (js_sort (\<lambda>a b. then_by (min_eval_order (snd a) - min_eval_order (snd b))
                                        (rt_locale_compare rt (fst a) (fst b)))
                         (group_operations (concat (map (layer_operations rt) layers))))))"

section \<open>apply-inherit-add.ts, apply-replace.ts\<close>

record resolved_member =
  rm_criterion_version_id :: uuid
  rm_introduced_by :: rubric_tier
  rm_rubric_version_id :: uuid
  rm_source_verb :: override_verb

type_synonym resolved_criterion = "string \<times> resolved_member list"

definition member_of :: "operation \<Rightarrow> uuid \<Rightarrow> override_verb \<Rightarrow> resolved_member" where
  "member_of p v verb =
     \<lparr>rm_criterion_version_id = v, rm_introduced_by = op_tier p,
      rm_rubric_version_id = op_rubric_version_id p, rm_source_verb = verb\<rparr>"

text \<open>The loop body; its state is the member list and the set of pinned versions.\<close>

definition inherit_add_step ::
  "string \<Rightarrow> resolved_member list \<times> uuid list \<Rightarrow> operation
   \<Rightarrow> (resolve_error, resolved_member list \<times> uuid list) result" where
  "inherit_add_step key st p =
     (let (members, pinned) = st; verb = ms_override_verb p
      in if verb \<noteq> INHERIT \<and> verb \<noteq> ADD
         then Inl (InheritAddResolutionError key (''unsupported verb '' @ verb_name verb))
         else if verb = INHERIT \<and> members \<noteq> [] then Inr (members, pinned)
         else case ms_criterion_version_id p of
                None \<Rightarrow> Inl (InheritAddResolutionError key (verb_name verb @ '' requires a criterion version pin''))
              | Some v \<Rightarrow>
                  if v \<in> set pinned then Inr (members, pinned)
                  else Inr (members @ [member_of p v verb], v # pinned))"

definition apply_inherit_add_one :: "folded_criterion \<Rightarrow> (resolve_error, resolved_criterion) result" where
  "apply_inherit_add_one c =
     rbind (rfold (inherit_add_step (fst c)) ([], []) (snd c)) (\<lambda>st.
       if fst st = [] then Inl (InheritAddResolutionError (fst c) ''no inherited or added criterion version'')
       else Inr (fst c, fst st))"

definition apply_inherit_add :: "folded_criterion list \<Rightarrow> (resolve_error, resolved_criterion list) result" where
  "apply_inherit_add folded = rtraverse apply_inherit_add_one folded"

definition replace_step ::
  "string \<Rightarrow> resolved_member list \<Rightarrow> operation \<Rightarrow> (resolve_error, resolved_member list) result" where
  "replace_step key members p =
     (let verb = ms_override_verb p
      in if verb \<notin> {INHERIT, ADD, REPLACE}
         then Inl (ReplaceResolutionError key (''unsupported verb '' @ verb_name verb))
         else if verb = INHERIT \<and> members \<noteq> [] then Inr members
         else case ms_criterion_version_id p of
                None \<Rightarrow> Inl (ReplaceResolutionError key (verb_name verb @ '' requires a criterion version pin''))
              | Some v \<Rightarrow>
                  if verb = REPLACE
                  then (if members = [] then Inl (ReplaceResolutionError key ''REPLACE requires an upstream criterion'')
                        else Inr [member_of p v REPLACE])
                  else if list_ex (\<lambda>m. rm_criterion_version_id m = v) members then Inr members
                  else Inr (members @ [member_of p v (if verb = INHERIT then INHERIT else ADD)]))"

definition apply_replace_one :: "folded_criterion \<Rightarrow> (resolve_error, resolved_criterion) result" where
  "apply_replace_one c =
     rbind (rfold (replace_step (fst c)) [] (snd c)) (\<lambda>members.
       if members = [] then Inl (ReplaceResolutionError (fst c) ''no resolved criterion version'')
       else Inr (fst c, members))"

definition apply_replace :: "folded_criterion list \<Rightarrow> (resolve_error, resolved_criterion list) result" where
  "apply_replace folded = rtraverse apply_replace_one folded"

section \<open>apply-exempt.ts, exemption-policy.ts\<close>

record exempted_criterion =
  ex_criterion_key :: string
  ex_prior_members :: "resolved_member list"
  ex_reason :: string
  ex_authority :: string
  ex_tier :: rubric_tier
  ex_rubric_version_id :: uuid

text \<open>The payload schema: exactly the members \<open>reason\<close> and \<open>authority\<close>, both texts, trimmed and bounded.\<close>

definition bounded_text :: "nat \<Rightarrow> json option \<Rightarrow> string option" where
  "bounded_text n v =
     (case v of
        Some (JString s) \<Rightarrow> (let t = js_trim s in if t \<noteq> [] \<and> length t \<le> n then Some t else None)
      | _ \<Rightarrow> None)"

definition parse_exempt_payload :: "json option \<Rightarrow> (string \<times> string) option" where
  "parse_exempt_payload payload =
     (case payload of
        Some (JObject ms) \<Rightarrow>
          (if list_all (\<lambda>m. fst m = ''reason'' \<or> fst m = ''authority'') ms
           then (case (bounded_text 1000 (map_of ms ''reason''), bounded_text 255 (map_of ms ''authority'')) of
                   (Some r, Some a) \<Rightarrow> Some (r, a)
                 | _ \<Rightarrow> None)
           else None)
      | _ \<Rightarrow> None)"

definition apply_exempt ::
  "resolved_criterion option \<Rightarrow> operation \<Rightarrow> (resolve_error, exempted_criterion) result" where
  "apply_exempt current p =
     (let key = ms_criterion_key p
      in if ms_override_verb p \<noteq> EXEMPT
         then Inl (ExemptResolutionError key (''expected EXEMPT, received '' @ verb_name (ms_override_verb p)))
         else case current of
                None \<Rightarrow> Inl (ExemptResolutionError key ''no upstream criterion exists'')
              | Some c \<Rightarrow>
                  if snd c = [] then Inl (ExemptResolutionError key ''no upstream criterion exists'')
                  else if op_tier p = STANDARD
                  then Inl (ExemptResolutionError key ''STANDARD cannot exempt its own criterion'')
                  else case parse_exempt_payload (ms_override_payload p) of
                         None \<Rightarrow> Inl (ExemptResolutionError key ''reason and authority are required'')
                       | Some (r, a) \<Rightarrow>
                           Inr \<lparr>ex_criterion_key = key, ex_prior_members = snd c, ex_reason = r,
                                ex_authority = a, ex_tier = op_tier p,
                                ex_rubric_version_id = op_rubric_version_id p\<rparr>)"

datatype rule_hardness = HUMAN_INPUT | AI_CANON | AI_DOCS | FIRM_RULE

record protection_metadata =
  pm_criterion_version_id :: uuid
  pm_kind :: criterion_kind
  pm_hardness :: rule_hardness

text \<open>A \<open>Map\<close> built from entries keeps the last of several with the same key.\<close>

definition protection_of :: "protection_metadata list \<Rightarrow> uuid \<Rightarrow> protection_metadata option" where
  "protection_of metadata v = map_of (rev (map (\<lambda>m. (pm_criterion_version_id m, m)) metadata)) v"

fun check_protection ::
  "string \<Rightarrow> protection_metadata list \<Rightarrow> resolved_member list \<Rightarrow> (resolve_error, unit) result" where
  "check_protection key metadata [] = Inr ()"
| "check_protection key metadata (m # ms) =
     (case protection_of metadata (rm_criterion_version_id m) of
        None \<Rightarrow> Inl (HardStandardGateExemptionError key ''Criterion protection metadata is unavailable'')
      | Some p \<Rightarrow>
          if rm_introduced_by m = STANDARD \<and> pm_kind p = GATING \<and> pm_hardness p = FIRM_RULE
          then Inl (HardStandardGateExemptionError key ''HARD STANDARD gates cannot be exempted'')
          else check_protection key metadata ms)"

definition apply_permitted_exempt ::
  "resolved_criterion \<Rightarrow> operation \<Rightarrow> protection_metadata list \<Rightarrow> (resolve_error, exempted_criterion) result" where
  "apply_permitted_exempt current p metadata =
     rbind (check_protection (fst current) metadata (snd current)) (\<lambda>_. apply_exempt (Some current) p)"

section \<open>monotonic-tighten.ts\<close>

datatype tighten_proof =
    Monotonic string
  | NotMonotonic string

text \<open>\<open>canonical\<close>: like \<open>canonicalJson\<close>, with the members in \<open>localeCompare\<close> order.\<close>

fun locale_sort :: "runtime \<Rightarrow> json \<Rightarrow> json" where
  "locale_sort rt (JArray xs) = JArray (map (locale_sort rt) xs)"
| "locale_sort rt (JObject ms) =
     JObject (js_sort (\<lambda>a b. rt_locale_compare rt (fst a) (fst b)) (map (\<lambda>(k, v). (k, locale_sort rt v)) ms))"
| "locale_sort rt v = v"

definition canonical :: "runtime \<Rightarrow> ast_node \<Rightarrow> string" where
  "canonical rt a = json_stringify (rt_number_string rt) (locale_sort rt (ast_json a))"

definition numeric_literal :: "'d decimal_lib \<Rightarrow> ast_node \<Rightarrow> 'd option" where
  "numeric_literal D n =
     (case n of
        AstLit (LNum x) \<Rightarrow> Some (dec_of_number D x)
      | AstLit (LStr s) \<Rightarrow> dec_of_string D s
      | _ \<Rightarrow> None)"

definition tolerance_or_zero :: "string option \<Rightarrow> string" where
  "tolerance_or_zero t = (case t of None \<Rightarrow> ''0'' | Some s \<Rightarrow> s)"

definition bound_safe :: "'d decimal_lib \<Rightarrow> compare_op \<Rightarrow> 'd \<Rightarrow> 'd \<Rightarrow> bool" where
  "bound_safe D cop before after =
     (if cop = OpLt \<or> cop = OpLte then dec_le D after before
      else if cop = OpGt \<or> cop = OpGte then dec_le D before after
      else dec_eq D after before)"

definition prove_compare ::
  "'d decimal_lib \<Rightarrow> runtime \<Rightarrow> compare_op \<times> ast_node \<times> ast_node \<times> string option
   \<Rightarrow> compare_op \<times> ast_node \<times> ast_node \<times> string option \<Rightarrow> tighten_proof" where
  "prove_compare D rt base tightened =
     (let (bop, bl, br, bt) = base; (nop, nl, nr, nt) = tightened
      in if bop \<noteq> nop \<or> canonical rt bl \<noteq> canonical rt nl then NotMonotonic ''OPERAND_CHANGED''
         else if bop = OpApprox then
           (if canonical rt br \<noteq> canonical rt nr then NotMonotonic ''OPERAND_CHANGED''
            else case (dec_of_string D (tolerance_or_zero bt), dec_of_string D (tolerance_or_zero nt)) of
                   (Some before, Some after) \<Rightarrow>
                     if dec_le D after before
                     then Monotonic (if dec_eq D after before then ''IDENTICAL'' else ''NARROWER_TOLERANCE'')
                     else NotMonotonic ''BOUND_WEAKENED''
                 | _ \<Rightarrow> NotMonotonic ''UNSUPPORTED_SHAPE'')
         else case (numeric_literal D br, numeric_literal D nr) of
                (Some before, Some after) \<Rightarrow>
                  if bound_safe D bop before after
                  then Monotonic (if dec_eq D after before then ''IDENTICAL'' else ''NARROWER_BOUND'')
                  else NotMonotonic ''BOUND_WEAKENED''
              | _ \<Rightarrow> NotMonotonic ''UNSUPPORTED_SHAPE'')"

definition prove_monotonic_tighten ::
  "'d decimal_lib \<Rightarrow> runtime \<Rightarrow> ast_node \<Rightarrow> ast_node \<Rightarrow> tighten_proof" where
  "prove_monotonic_tighten D rt base tightened =
     (if canonical rt base = canonical rt tightened then Monotonic ''IDENTICAL''
      else case (base, tightened) of
             (AstCompare bop bl br bt, AstCompare nop nl nr nt) \<Rightarrow>
               prove_compare D rt (bop, bl, br, bt) (nop, nl, nr, nt)
           | (AstLogic OpAnd bargs, AstLogic OpAnd targs) \<Rightarrow>
               (if list_all (\<lambda>c. canonical rt c \<in> set (map (canonical rt) targs)) bargs
                then Monotonic ''ADDED_CONJUNCTS'' else NotMonotonic ''CLAUSE_REMOVED'')
           | _ \<Rightarrow> NotMonotonic ''UNSUPPORTED_SHAPE'')"

section \<open>select-rubric-version.ts, select-applicable-rubrics.ts\<close>

record rubric_row =
  rb_id :: uuid
  rb_tier :: rubric_tier
  rb_scope_account_id :: "uuid option"
  rb_scope_contract_id :: "uuid option"
  rb_mode_filter :: "string list option"

record rubric_version_row =
  rv_id :: uuid
  rv_rubric_id :: uuid
  rv_valid_from :: day
  rv_valid_to :: "day option"
  rv_recorded_at :: instant

text \<open>Effective on a business date and known at a system-time cutoff.\<close>

definition effective_on :: "day \<Rightarrow> day \<Rightarrow> day option \<Rightarrow> bool" where
  "effective_on d valid_from valid_to =
     (valid_from \<le> d \<and> (case valid_to of None \<Rightarrow> True | Some t \<Rightarrow> d < t))"

definition version_order :: "rubric_version_row \<Rightarrow> rubric_version_row \<Rightarrow> int" where
  "version_order =
     lex (descending (by_int rv_valid_from)) (lex (descending (by_int rv_recorded_at)) (descending (by_text rv_id)))"

record version_request =
  vq_id :: string
  vq_effective_on :: string
  vq_recorded_as_of :: string

definition parse_version_request :: "zod_lib \<Rightarrow> version_request \<Rightarrow> (uuid \<times> day \<times> instant) option" where
  "parse_version_request Z q =
     (case (zod_date Z (vq_effective_on q), zod_datetime Z (vq_recorded_as_of q)) of
        (Some d, Some t) \<Rightarrow> if zod_uuid Z (vq_id q) then Some (vq_id q, d, t) else None
      | _ \<Rightarrow> None)"

datatype request_error = RequestInvalid string

text \<open>\<open>Inr None\<close> is the answer \<open>UNAVAILABLE / NO_VERSION_KNOWN\<close>.\<close>

definition select_rubric_version ::
  "zod_lib \<Rightarrow> rubric_version_row list \<Rightarrow> version_request \<Rightarrow> (request_error, rubric_version_row option) result" where
  "select_rubric_version Z rows q =
     (case parse_version_request Z q of
        None \<Rightarrow> Inl (RequestInvalid ''RUBRIC_VERSION_SELECTION_INVALID'')
      | Some (rid, d, t) \<Rightarrow>
          Inr (first_row version_order
                 (\<lambda>v. rv_rubric_id v = rid \<and> effective_on d (rv_valid_from v) (rv_valid_to v) \<and> rv_recorded_at v \<le> t)
                 rows))"

record applicability_request =
  aq_client_id :: string
  aq_contract_id :: "string option"
  aq_mode :: string
  aq_effective_on :: string
  aq_recorded_as_of :: string

definition TRANSPORT_MODES :: "string list" where
  "TRANSPORT_MODES = [''OCEAN'', ''AIR'', ''MULTIMODAL'', ''ROAD'', ''RAIL'']"

text \<open>The scope conditions; a comparison with a NULL parameter is not true.\<close>

definition in_scope :: "applicability_request \<Rightarrow> rubric_row \<Rightarrow> bool" where
  "in_scope q r =
     ((case rb_scope_account_id r of None \<Rightarrow> True | Some a \<Rightarrow> a = aq_client_id q) \<and>
      (rb_scope_contract_id r = None \<or> sql_eq (rb_scope_contract_id r) (aq_contract_id q)) \<and>
      (case rb_mode_filter r of None \<Rightarrow> True | Some ms \<Rightarrow> aq_mode q \<in> set ms))"

text \<open>\<open>SELECT DISTINCT ON (r.id) ... ORDER BY r.id, ...\<close>: for each rubric in id order, its first version.\<close>

definition select_applicable_rubric_versions ::
  "zod_lib \<Rightarrow> rubric_row list \<Rightarrow> rubric_version_row list \<Rightarrow> applicability_request
   \<Rightarrow> (request_error, (rubric_row \<times> rubric_version_row) list) result" where
  "select_applicable_rubric_versions Z rubrics versions q =
     (case (zod_date Z (aq_effective_on q), zod_datetime Z (aq_recorded_as_of q)) of
        (Some d, Some t) \<Rightarrow>
          if zod_uuid Z (aq_client_id q) \<and> (case aq_contract_id q of None \<Rightarrow> True | Some c \<Rightarrow> zod_uuid Z c)
             \<and> aq_mode q \<in> set TRANSPORT_MODES
          then Inr (List.map_filter (\<lambda>r. map_option (Pair r)
                 (first_row version_order
                    (\<lambda>v. rv_rubric_id v = rb_id r \<and> effective_on d (rv_valid_from v) (rv_valid_to v) \<and> rv_recorded_at v \<le> t)
                    versions))
                 (js_sort (by_text rb_id) (filter (in_scope q) rubrics)))
          else Inl (RequestInvalid ''RUBRIC_APPLICABILITY_INVALID'')
      | _ \<Rightarrow> Inl (RequestInvalid ''RUBRIC_APPLICABILITY_INVALID''))"

section \<open>human-override.ts\<close>

record human_override_row =
  ho_id :: uuid
  ho_account_id :: "uuid option"
  ho_criterion_id :: "uuid option"
  ho_case_fingerprint :: string
  ho_asserted_value :: json
  ho_confirm_count :: int
  ho_reversal_count :: int
  ho_recorded_at :: instant

record override_request =
  oq_client_id :: string
  oq_criterion_id :: string
  oq_case_fingerprint :: string
  oq_recorded_as_of :: string

text \<open>
  The sort key \<open>(account_id = $1) DESC\<close>. On a row whose account is NULL the comparison is NULL,
  and PostgreSQL sorts NULL before every value in a descending order.
\<close>

definition account_match_rank :: "uuid \<Rightarrow> human_override_row \<Rightarrow> int" where
  "account_match_rank client r =
     (case ho_account_id r of None \<Rightarrow> 0 | Some a \<Rightarrow> if a = client then 1 else 2)"

definition override_order :: "uuid \<Rightarrow> human_override_row \<Rightarrow> human_override_row \<Rightarrow> int" where
  "override_order client =
     lex (by_int (account_match_rank client))
       (lex (descending (by_int ho_recorded_at)) (descending (by_text ho_id)))"

definition override_eligible :: "uuid \<Rightarrow> uuid \<Rightarrow> string \<Rightarrow> instant \<Rightarrow> human_override_row \<Rightarrow> bool" where
  "override_eligible client criterion fingerprint t r =
     ((ho_account_id r = None \<or> ho_account_id r = Some client) \<and> ho_criterion_id r = Some criterion \<and>
      ho_case_fingerprint r = fingerprint \<and> ho_recorded_at r \<le> t)"

definition resolve_human_override ::
  "zod_lib \<Rightarrow> human_override_row list \<Rightarrow> override_request \<Rightarrow> (request_error, human_override_row option) result" where
  "resolve_human_override Z rows q =
     (let fp = js_trim (oq_case_fingerprint q)
      in case zod_datetime Z (oq_recorded_as_of q) of
           None \<Rightarrow> Inl (RequestInvalid ''HUMAN_OVERRIDE_REQUEST_INVALID'')
         | Some t \<Rightarrow>
             if zod_uuid Z (oq_client_id q) \<and> zod_uuid Z (oq_criterion_id q) \<and> fp \<noteq> [] \<and> length fp \<le> 1000
             then Inr (first_row (override_order (oq_client_id q))
                         (override_eligible (oq_client_id q) (oq_criterion_id q) fp t) rows)
             else Inl (RequestInvalid ''HUMAN_OVERRIDE_REQUEST_INVALID''))"

definition apply_human_override :: "json \<Rightarrow> human_override_row option \<Rightarrow> json \<times> uuid option" where
  "apply_human_override cascaded resolution =
     (case resolution of
        Some r \<Rightarrow> (ho_asserted_value r, Some (ho_id r))
      | None \<Rightarrow> (cascaded, None))"

end
