(* ===== verification/Rubric_Correctness.thy ===== *)
theory Rubric_Correctness
  imports Rubric_Resolver
begin

text \<open>
  Correctness of the rubric resolver: the cascade is ordered by tier and loses nothing, the
  verbs keep the resolved members well formed, a firm standard gate cannot be exempted, the
  tightening prover is sound on numeric bounds, and the bitemporal selectors are stable.
\<close>

section \<open>The canonical form of a rule\<close>

fun distinct_keys :: "json \<Rightarrow> bool" where
  "distinct_keys (JArray xs) = (\<forall>x \<in> set xs. distinct_keys x)"
| "distinct_keys (JObject ms) = (distinct (map fst ms) \<and> (\<forall>m \<in> set ms. distinct_keys (snd m)))"
| "distinct_keys _ = True"

lemma distinct_keys_lit: "distinct_keys (lit_json v)"
  by (cases v) auto

lemma distinct_keys_ast: "distinct_keys (ast_json a)"
  by (induction a) (auto simp: distinct_keys_lit split: option.split)

lemma normalize_locale_sort: "distinct_keys v \<Longrightarrow> normalize_json (locale_sort rt v) = normalize_json v"
proof (induction v)
  case (JObject ms)
  let ?n = "\<lambda>(k, v). (k, normalize_json v)" and ?f = "\<lambda>(k, v). (k, locale_sort rt v)"
  let ?s = "js_sort (\<lambda>a b. rt_locale_compare rt (fst a) (fst b)) (map ?f ms)"
  have m: "map ?n (map ?f ms) = map ?n ms"
    using JObject by (auto simp: prod_set_defs)
  have "mset (map ?n ?s) = mset (map ?n (map ?f ms))" by (simp only: mset_map mset_js_sort)
  then have "mset (map ?n ?s) = mset (map ?n ms)" by (simp only: m)
  moreover have "distinct (map fst (map ?n ?s))"
    using JObject.prems by (simp add: comp_def case_prod_unfold)
  ultimately show ?case using js_sort_keys_perm [of "map ?n ?s" "map ?n ms"] by simp
qed auto

lemma printable_locale_sort: "printable v \<Longrightarrow> printable (locale_sort rt v)"
  by (induction v) (auto simp: prod_set_defs)

lemma canonical_inj:
  assumes "number_printer (rt_number_string rt)" and "printable (ast_json a)" and "printable (ast_json b)"
    and "canonical rt a = canonical rt b"
  shows "a = b"
proof -
  have "locale_sort rt (ast_json a) = locale_sort rt (ast_json b)"
    using number_printer.json_stringify_inj [OF assms(1)] assms(2-4) printable_locale_sort
    unfolding canonical_def by blast
  then have "normalize_json (ast_json a) = normalize_json (ast_json b)"
    by (metis normalize_locale_sort distinct_keys_ast)
  then show ?thesis by (rule normalize_ast_inj)
qed

section \<open>Soundness of the tightening prover\<close>

definition plain_bounds :: "ast_node \<Rightarrow> bool" where
  "plain_bounds a =
     (case a of
        AstCompare cop l (AstLit v) t \<Rightarrow>
          (case v of LNum (JFin q) \<Rightarrow> number_decimal q | LStr s \<Rightarrow> cop = OpApprox | _ \<Rightarrow> True)
      | _ \<Rightarrow> True)"

context decimal_laws
begin

lemma compare_bound_transfer:
  assumes cop: "cop \<noteq> OpApprox" and x: "number_decimal x" and y: "number_decimal y"
    and safe: "bound_safe D cop (dec_of_number D (JFin x)) (dec_of_number D (JFin y))"
    and pass: "compare_value D cop nt v (eval_lit D (LNum (JFin y))) = Inr (VBool True)"
  shows "compare_value D cop bt v (eval_lit D (LNum (JFin x))) = Inr (VBool True)"
proof -
  have tol: "compare_value D cop bt v w = compare_value D cop nt v w" for w
  proof -
    have "compare_decimals D cop a b bt = compare_decimals D cop a b nt" for a b
      using cop by (cases cop) auto
    then show ?thesis by (simp only: compare_value_def)
  qed
  obtain dx where dx: "safe_decimal_number D (JFin x) = Some (dec_of_number D (JFin x))"
    "dec_of_string D (dec_to_string D (dec_of_number D (JFin x))) = Some dx" "has_value dx x"
    using eval_number [OF x] by blast
  obtain dy where dy: "safe_decimal_number D (JFin y) = Some (dec_of_number D (JFin y))"
    "dec_of_string D (dec_to_string D (dec_of_number D (JFin y))) = Some dy" "has_value dy y"
    using eval_number [OF y] by blast
  note vals = of_number_finite of_number_val [OF x] of_number_val [OF y]
  show ?thesis
  proof (cases "x = y")
    case True
    with pass tol show ?thesis by simp
  next
    case False
    then have ops: "cop \<in> {OpLt, OpLte, OpGt, OpGte}"
      using safe cop vals eq_val by (cases cop) (auto simp: bound_safe_def)
    obtain a where a: "to_decimal D v = Inr (Some a)" "\<not> is_unassessable v"
      using pass ops dy by (auto simp: compare_value_def new_decimal_def rbind_eq_Inr split: if_splits option.splits)
    have "compare_decimals D cop a dx bt = Inr True"
      using ops
    proof (elim insertE emptyE)
      assume op: "cop = OpLt"
      with safe vals have "y \<le> x" using le_val by (simp add: bound_safe_def)
      then have "dec_le D dy dx" using dx dy le_val by (simp add: has_value_def)
      then show ?thesis using pass op a dy lt_le_trans by (auto simp: compare_value_def new_decimal_def)
    next
      assume op: "cop = OpLte"
      with safe vals have "y \<le> x" using le_val by (simp add: bound_safe_def)
      then have "dec_le D dy dx" using dx dy le_val by (simp add: has_value_def)
      then show ?thesis using pass op a dy le_trans by (auto simp: compare_value_def new_decimal_def)
    next
      assume op: "cop = OpGt"
      with safe vals have "x \<le> y" using le_val by (simp add: bound_safe_def)
      then have "dec_le D dx dy" using dx dy le_val by (simp add: has_value_def)
      then show ?thesis using pass op a dy le_lt_trans by (auto simp: compare_value_def new_decimal_def)
    next
      assume op: "cop = OpGte"
      with safe vals have "x \<le> y" using le_val by (simp add: bound_safe_def)
      then have "dec_le D dx dy" using dx dy le_val by (simp add: has_value_def)
      then show ?thesis using pass op a dy le_trans by (auto simp: compare_value_def new_decimal_def)
    qed
    with a dx show ?thesis by (simp add: compare_value_def new_decimal_def)
  qed
qed

lemma compare_tolerance_transfer:
  assumes "dec_of_string D (tolerance_or_zero bt) = Some before"
    and "dec_of_string D (tolerance_or_zero nt) = Some after" and "dec_le D after before"
    and "compare_value D OpApprox nt v w = Inr (VBool True)"
  shows "compare_value D OpApprox bt v w = Inr (VBool True)"
  using assms le_trans
  by (auto simp: compare_value_def new_decimal_def tolerance_or_zero_def rbind_eq_Inr split: if_splits option.splits)

end

lemma conjunction_subset:
  assumes "evaluate D (AstLogic OpAnd ns) facts = Inr ev" and "verdict ev = PASS" and "set bs \<subseteq> set ns"
  shows "\<exists>ev'. evaluate D (AstLogic OpAnd bs) facts = Inr ev' \<and> verdict ev' = PASS"
proof -
  from assms(1,2) obtain cs where cs: "rtraverse (\<lambda>a. evaluate D a facts) ns = Inr cs"
    "\<forall>c \<in> set cs. en_value c = VBool True"
    by (auto simp: rbind_eq_Inr verdict_PASS_iff logic_value_def Let_def list_all_iff split: if_splits)
      (metis bool_of.elims option.distinct(1) option.inject)
  have each: "\<exists>c. evaluate D b facts = Inr c \<and> en_value c = VBool True" if "b \<in> set ns" for b
    using rtraverse_in_arg [OF cs(1) that] cs(2) by blast
  have "\<exists>ds. rtraverse (\<lambda>a. evaluate D a facts) bs = Inr ds \<and> (\<forall>d \<in> set ds. en_value d = VBool True)"
    using assms(3)
  proof (induction bs)
    case (Cons b bs)
    then obtain c ds where "evaluate D b facts = Inr c" "en_value c = VBool True"
      "rtraverse (\<lambda>a. evaluate D a facts) bs = Inr ds" "\<forall>d \<in> set ds. en_value d = VBool True"
      using each [of b] by auto
    then show ?case by (intro exI [of _ "c # ds"]) simp
  qed simp
  then obtain ds where ds: "rtraverse (\<lambda>a. evaluate D a facts) bs = Inr ds" "\<forall>d \<in> set ds. en_value d = VBool True" by blast
  then have "logic_value OpAnd (map en_value ds) = VBool True"
    by (auto simp: logic_value_def Let_def list_ex_iff list_all_iff)
  with ds show ?thesis by (simp add: verdict_PASS_iff)
qed

lemma compare_pass:
  "(\<exists>ev. evaluate D (AstCompare cop l r t) facts = Inr ev \<and> verdict ev = PASS) \<longleftrightarrow>
   (\<exists>lc rc. evaluate D l facts = Inr lc \<and> evaluate D r facts = Inr rc \<and>
      compare_value D cop t (en_value lc) (en_value rc) = Inr (VBool True))"
  by (auto simp: rbind_eq_Inr verdict_PASS_iff)

lemma printable_operands:
  "printable (ast_json (AstCompare cop l r t)) \<Longrightarrow> printable (ast_json l) \<and> printable (ast_json r)"
  "printable (ast_json (AstLogic lop args)) \<Longrightarrow> x \<in> set args \<Longrightarrow> printable (ast_json x)"
  by auto

text \<open>A bound that both prover and interpreter read as a number.\<close>

lemma plain_bound_literal:
  assumes "plain_bounds (AstCompare cop l r t)" and "printable (ast_json r)" and "cop \<noteq> OpApprox"
    and "numeric_literal D r = Some d"
  shows "\<exists>q. r = AstLit (LNum (JFin q)) \<and> number_decimal q \<and> d = dec_of_number D (JFin q)"
  using assms
  by (auto simp: plain_bounds_def numeric_literal_def split: ast_node.splits ast_lit.splits js_number.splits)

lemma prove_compare_sound:
  assumes laws: "decimal_laws D dval" and np: "number_printer (rt_number_string rt)"
    and pb: "printable (ast_json (AstCompare bop bl br bt))" "plain_bounds (AstCompare bop bl br bt)"
    and pn: "printable (ast_json (AstCompare nop nl nr nt))" "plain_bounds (AstCompare nop nl nr nt)"
    and proof_: "prove_compare D rt (bop, bl, br, bt) (nop, nl, nr, nt) = Monotonic p"
    and pass: "evaluate D (AstCompare nop nl nr nt) facts = Inr ev" "verdict ev = PASS"
  shows "\<exists>ev'. evaluate D (AstCompare bop bl br bt) facts = Inr ev' \<and> verdict ev' = PASS"
proof -
  have op: "nop = bop" and "canonical rt bl = canonical rt nl"
    using proof_ by (auto simp: prove_compare_def split: if_splits)
  then have l: "nl = bl" using canonical_inj [OF np] printable_operands(1) pb(1) pn(1) by metis
  from pass obtain lc rc where c: "evaluate D bl facts = Inr lc" "evaluate D nr facts = Inr rc"
    "compare_value D bop nt (en_value lc) (en_value rc) = Inr (VBool True)"
    using compare_pass [of D nop nl nr nt facts] op l by auto
  show ?thesis
  proof (cases "bop = OpApprox")
    case True
    then have "canonical rt br = canonical rt nr" using proof_ by (auto simp: prove_compare_def split: if_splits)
    then have r: "nr = br" using canonical_inj [OF np] printable_operands(1) pb(1) pn(1) by metis
    obtain before after where "dec_of_string D (tolerance_or_zero bt) = Some before"
      "dec_of_string D (tolerance_or_zero nt) = Some after" "dec_le D after before"
      using proof_ True by (auto simp: prove_compare_def split: if_splits option.splits)
    then have "compare_value D OpApprox bt (en_value lc) (en_value rc) = Inr (VBool True)"
      using decimal_laws.compare_tolerance_transfer [OF laws] c(3) True by blast
    with c r True compare_pass [of D bop bl br bt facts] show ?thesis by auto
  next
    case False
    then obtain before after where lits: "numeric_literal D br = Some before" "numeric_literal D nr = Some after"
      and safe: "bound_safe D bop before after"
      using proof_ by (auto simp: prove_compare_def split: if_splits option.splits)
    obtain x where x: "br = AstLit (LNum (JFin x))" "number_decimal x" "before = dec_of_number D (JFin x)"
      using plain_bound_literal [OF pb(2) _ False lits(1)] printable_operands(1) [OF pb(1)] by blast
    obtain y where y: "nr = AstLit (LNum (JFin y))" "number_decimal y" "after = dec_of_number D (JFin y)"
      using plain_bound_literal [OF pn(2) _ _ lits(2)] printable_operands(1) [OF pn(1)] False op by blast
    have "compare_value D bop bt (en_value lc) (eval_lit D (LNum (JFin x))) = Inr (VBool True)"
      using decimal_laws.compare_bound_transfer [OF laws False x(2) y(2)] safe c(2,3) x(3) y(1,3) by auto
    with c x compare_pass [of D bop bl br bt facts] show ?thesis by auto
  qed
qed

section \<open>The cascade\<close>

lemma map_of_group_push:
  "map_of (group_push k x g) k' =
     (if k' = k then Some ((case map_of g k of None \<Rightarrow> [] | Some xs \<Rightarrow> xs) @ [x]) else map_of g k')"
  by (induction k x g rule: group_push.induct) auto

lemma keys_group_push: "fst ` set (group_push k x g) = insert k (fst ` set g)"
  by (induction k x g rule: group_push.induct) auto

lemma distinct_group_push: "distinct (map fst g) \<Longrightarrow> distinct (map fst (group_push k x g))"
proof (induction k x g rule: group_push.induct)
  case (2 k x k' xs r)
  then show ?case using keys_group_push [of k x r] by auto
qed simp

lemma group_operations_snoc:
  "group_operations (ops @ [p]) = group_push (ms_criterion_key p) p (group_operations ops)"
  by (simp add: group_operations_def)

lemma group_operations_distinct: "distinct (map fst (group_operations ops))"
  by (induction ops rule: rev_induct)
    (simp add: group_operations_def, simp add: group_operations_snoc distinct_group_push)

lemma group_operations_lookup:
  "map_of (group_operations ops) k =
     (let xs = filter (\<lambda>p. ms_criterion_key p = k) ops in if xs = [] then None else Some xs)"
proof (induction ops rule: rev_induct)
  case Nil
  then show ?case by (simp add: group_operations_def)
next
  case (snoc p ops)
  then show ?case by (auto simp: group_operations_snoc map_of_group_push Let_def split: if_splits)
qed

lemma group_operations_entry:
  assumes "c \<in> set (group_operations ops)"
  shows "snd c = filter (\<lambda>p. ms_criterion_key p = fst c) ops" and "snd c \<noteq> []"
proof -
  have "map_of (group_operations ops) (fst c) = Some (snd c)"
    using assms group_operations_distinct by simp
  then show "snd c = filter (\<lambda>p. ms_criterion_key p = fst c) ops" "snd c \<noteq> []"
    by (auto simp: group_operations_lookup Let_def split: if_splits)
qed

lemma group_operations_mset: "mset (concat (map snd (group_operations ops))) = mset ops"
proof -
  have push: "mset (concat (map snd (group_push k x g))) = add_mset x (mset (concat (map snd g)))"
    for k and x :: operation and g
    by (induction k x g rule: group_push.induct) auto
  show ?thesis
    by (induction ops rule: rev_induct) (simp_all add: group_operations_def [of "[]"] group_operations_snoc push)
qed

lemma sorted_concat_layers:
  "sorted_wrt (\<lambda>a b. tier_index (ly_tier a) \<le> tier_index (ly_tier b)) ls \<Longrightarrow>
   sorted_wrt (\<lambda>p q. tier_index (op_tier p) \<le> tier_index (op_tier q)) (concat (map (layer_operations rt) ls))"
proof (induction ls)
  case (Cons l ls)
  have tier: "op_tier p = ly_tier m" if "p \<in> set (layer_operations rt m)" for p m
    using that by (auto simp: layer_operations_def operation_of_def)
  have "sorted_wrt (\<lambda>p q. tier_index (op_tier p) \<le> tier_index (op_tier q)) (layer_operations rt l)"
    by (auto simp: sorted_wrt_iff_nth_less tier [OF nth_mem])
  with Cons tier show ?case by (auto simp: sorted_wrt_append)
qed simp

lemma tier_comparator: "comparator (\<lambda>a b. tier_index (ly_tier a) - tier_index (ly_tier b))"
  by unfold_locales auto

lemma sorted_layers:
  "sorted_wrt (\<lambda>a b. tier_index (ly_tier a) \<le> tier_index (ly_tier b))
     (js_sort (\<lambda>a b. tier_index (ly_tier a) - tier_index (ly_tier b)) ls)"
  using comparator.sorted_js_sort [OF tier_comparator] by simp

lemma tier_index_inj: "tier_index a = tier_index b \<longleftrightarrow> a = b"
  by (cases a; cases b) auto

lemma mset_layer_operations:
  "mset (layer_operations rt l) = mset (map (operation_of l) (ly_memberships l))"
  by (simp add: layer_operations_def)

text \<open>What a successful fold returns.\<close>

lemma fold_rubric_tiers_shape:
  assumes "fold_rubric_tiers rt Z untrusted = Inr folded"
  shows "\<exists>layers ops. map Some layers = map (parse_layer Z) untrusted \<and> distinct (map ly_tier layers) \<and>
    ops = concat (map (layer_operations rt)
      (js_sort (\<lambda>a b. tier_index (ly_tier a) - tier_index (ly_tier b)) layers)) \<and>
    mset folded = mset (group_operations ops)"
proof -
  let ?ls = "map the (map (parse_layer Z) untrusted)"
  have none: "None \<notin> set (map (parse_layer Z) untrusted)" and d: "distinct (map ly_tier ?ls)"
    using assms by (auto simp: fold_rubric_tiers_def Let_def split: if_splits)
  have "map Some ?ls = map (parse_layer Z) untrusted"
    using none by (induction untrusted) auto
  with assms none d show ?thesis
    by (intro exI [of _ ?ls] exI) (auto simp: fold_rubric_tiers_def Let_def split: if_splits)
qed

section \<open>The verbs\<close>

lemma replace_step_distinct:
  "replace_step key ms p = Inr ms' \<Longrightarrow> distinct (map rm_criterion_version_id ms) \<Longrightarrow>
   distinct (map rm_criterion_version_id ms')"
  by (auto simp: replace_step_def Let_def list_ex_iff member_of_def split: if_splits option.splits)

lemma replace_fold_distinct:
  "rfold (replace_step key) ms ops = Inr ms' \<Longrightarrow> distinct (map rm_criterion_version_id ms) \<Longrightarrow>
   distinct (map rm_criterion_version_id ms')"
  by (rule rfold_invariant) (auto intro: replace_step_distinct)

text \<open>Where a member comes from.\<close>

definition from_operation :: "operation list \<Rightarrow> resolved_member \<Rightarrow> bool" where
  "from_operation ops m =
     list_ex (\<lambda>p. ms_criterion_version_id p = Some (rm_criterion_version_id m) \<and>
                  rm_introduced_by m = op_tier p \<and> rm_rubric_version_id m = op_rubric_version_id p) ops"

lemma replace_step_from:
  "replace_step key ms p = Inr ms' \<Longrightarrow> m \<in> set ms' \<Longrightarrow>
   (ms_override_verb p \<noteq> REPLACE \<and> m \<in> set ms) \<or> from_operation [p] m"
  by (auto simp: replace_step_def Let_def member_of_def from_operation_def split: if_splits option.splits)

lemma replace_fold_from:
  "rfold (replace_step key) ms ops = Inr ms' \<Longrightarrow> m \<in> set ms' \<Longrightarrow> m \<in> set ms \<or> from_operation ops m"
proof (induction ops arbitrary: ms)
  case (Cons p ops)
  then obtain ms1 where s: "replace_step key ms p = Inr ms1" "rfold (replace_step key) ms1 ops = Inr ms'"
    by (auto simp: rbind_eq_Inr)
  from Cons.IH [OF s(2) Cons.prems(2)] replace_step_from [OF s(1), of m] show ?case
    by (auto simp: from_operation_def)
qed simp

lemma rfold_append: "rfold f s (xs @ ys) = rbind (rfold f s xs) (\<lambda>t. rfold f t ys)"
proof (induction xs arbitrary: s)
  case (Cons x xs)
  then show ?case by (cases "f s x") auto
qed simp

text \<open>One step of the two resolvers, when the operation is not a REPLACE.\<close>

definition same_outcome :: "(resolve_error, 'a) result \<Rightarrow> (resolve_error, 'b) result \<Rightarrow> ('a \<Rightarrow> 'b \<Rightarrow> bool) \<Rightarrow> bool" where
  "same_outcome r s R = (case (r, s) of (Inl _, Inl _) \<Rightarrow> True | (Inr x, Inr y) \<Rightarrow> R x y | _ \<Rightarrow> False)"

definition pins_match :: "resolved_member list \<times> uuid list \<Rightarrow> resolved_member list \<Rightarrow> bool" where
  "pins_match st ms = (fst st = ms \<and> set (snd st) = rm_criterion_version_id ` set ms)"

lemma steps_agree:
  assumes "ms_override_verb p \<noteq> REPLACE" and "pins_match st ms"
  shows "same_outcome (inherit_add_step k st p) (replace_step k' ms p) pins_match"
  using assms
  by (cases "ms_override_verb p"; cases "ms_criterion_version_id p"; cases st)
    (auto simp: same_outcome_def pins_match_def inherit_add_step_def replace_step_def member_of_def list_ex_iff)

lemma folds_agree:
  "\<forall>p \<in> set ops. ms_override_verb p \<noteq> REPLACE \<Longrightarrow> pins_match st ms \<Longrightarrow>
   same_outcome (rfold (inherit_add_step k) st ops) (rfold (replace_step k') ms ops) pins_match"
proof (induction ops arbitrary: st ms)
  case (Cons p ops)
  have "same_outcome (inherit_add_step k st p) (replace_step k' ms p) pins_match"
    using Cons.prems by (intro steps_agree) auto
  then consider (err) e e' where "inherit_add_step k st p = Inl e" "replace_step k' ms p = Inl e'"
    | (ok) st' ms' where "inherit_add_step k st p = Inr st'" "replace_step k' ms p = Inr ms'" "pins_match st' ms'"
    by (auto simp: same_outcome_def split: sum.splits)
  then show ?case
  proof cases
    case ok
    with Cons.IH [of st' ms'] Cons.prems show ?thesis by simp
  qed (simp add: same_outcome_def)
qed (simp add: same_outcome_def)

lemma resolve_one_agrees:
  assumes "\<forall>p \<in> set (snd c). ms_override_verb p \<noteq> REPLACE"
  shows "apply_replace_one c = Inr r \<longleftrightarrow> apply_inherit_add_one c = Inr r"
  using folds_agree [OF assms, of "([], [])" "[]" "fst c" "fst c"]
  by (auto simp: apply_replace_one_def apply_inherit_add_one_def same_outcome_def pins_match_def split: sum.splits)

lemma rtraverse_cong_Inr:
  assumes "\<And>x y. x \<in> set xs \<Longrightarrow> f x = Inr y \<longleftrightarrow> g x = Inr y"
  shows "rtraverse f xs = Inr ys \<longleftrightarrow> rtraverse g xs = Inr ys"
  using assms
proof (induction xs arbitrary: ys)
  case (Cons x xs)
  then show ?case by (auto simp: rbind_eq_Inr)
qed simp

section \<open>Exemption and selection\<close>

lemma check_protection_ok:
  "check_protection key md ms = Inr () \<Longrightarrow> m \<in> set ms \<Longrightarrow>
   \<exists>q. protection_of md (rm_criterion_version_id m) = Some q \<and>
     \<not> (rm_introduced_by m = STANDARD \<and> pm_kind q = GATING \<and> pm_hardness q = FIRM_RULE)"
  by (induction ms) (auto split: option.splits if_splits)

lemma version_order_by: "ordering_by version_order"
  unfolding version_order_def by (intro ordering_intros)

lemma override_order_by: "ordering_by (override_order client)"
  unfolding override_order_def by (intro ordering_intros)

lemma version_order_le:
  "version_order v w \<le> 0 \<Longrightarrow>
   rv_valid_from w < rv_valid_from v \<or>
   rv_valid_from w = rv_valid_from v \<and> rv_recorded_at w \<le> rv_recorded_at v"
  by (auto simp: version_order_def lex_def then_by_def descending_def by_int_def split: if_splits)

end
