(* ===== verification/Rubric_Properties.thy ===== *)
theory Rubric_Properties
  imports Rubric_Correctness
begin

text \<open>
  The properties of the rubric resolver and the concrete layers, versions and overrides at
  which they are instantiated.
\<close>

section \<open>Concrete inputs\<close>

definition sample_zod :: zod_lib where
  "sample_zod = \<lparr>zod_uuid = (\<lambda>s. s \<noteq> []), zod_int = (\<lambda>_. True),
     zod_date = (\<lambda>s. if s = [] then None else Some (read_int s)),
     zod_datetime = (\<lambda>s. if s = [] then None else Some (read_int s))\<rparr>"

definition sample_layer :: "rubric_tier \<Rightarrow> override_verb \<Rightarrow> string \<Rightarrow> rubric_layer" where
  "sample_layer t v ver = \<lparr>ly_tier = t, ly_rubric_id = ''r'', ly_rubric_version_id = ''rv'' @ ver,
     ly_memberships = [\<lparr>ms_criterion_key = ''K'', ms_criterion_version_id = Some ver, ms_override_verb = v,
       ms_override_payload = None, ms_eval_order = 10\<rparr>]\<rparr>"

definition sample_versions :: "rubric_version_row list" where
  "sample_versions =
     [\<lparr>rv_id = ''a'', rv_rubric_id = ''r'', rv_valid_from = 1, rv_valid_to = None, rv_recorded_at = 1\<rparr>,
      \<lparr>rv_id = ''b'', rv_rubric_id = ''r'', rv_valid_from = 5, rv_valid_to = None, rv_recorded_at = 4\<rparr>,
      \<lparr>rv_id = ''c'', rv_rubric_id = ''r'', rv_valid_from = 6, rv_valid_to = None, rv_recorded_at = 9\<rparr>]"

definition sample_request :: version_request where
  "sample_request = \<lparr>vq_id = ''r'', vq_effective_on = ''7'', vq_recorded_as_of = ''5''\<rparr>"

definition sample_applicability :: applicability_request where
  "sample_applicability = \<lparr>aq_client_id = ''acct'', aq_contract_id = None, aq_mode = ''OCEAN'',
     aq_effective_on = ''7'', aq_recorded_as_of = ''5''\<rparr>"

definition sample_rubrics :: "rubric_row list" where
  "sample_rubrics =
     [\<lparr>rb_id = ''r'', rb_tier = STANDARD, rb_scope_account_id = None, rb_scope_contract_id = None, rb_mode_filter = None\<rparr>,
      \<lparr>rb_id = ''s'', rb_tier = CLIENT, rb_scope_account_id = Some ''other'', rb_scope_contract_id = None, rb_mode_filter = None\<rparr>]"

definition sample_override :: "uuid \<Rightarrow> uuid option \<Rightarrow> instant \<Rightarrow> human_override_row" where
  "sample_override i acct t =
     \<lparr>ho_id = i, ho_account_id = acct, ho_criterion_id = Some ''crit'', ho_case_fingerprint = ''fp'',
      ho_asserted_value = JBool True, ho_confirm_count = 0, ho_reversal_count = 1, ho_recorded_at = t\<rparr>"

section \<open>Properties\<close>

text \<open>
  C22: the tightening prover is sound on rules without text bounds. When neither rule is a comparison
  (other than approx) with a text literal and their numbers are finite, whatever the prover declares
  monotonic is: every bundle that passes the tightened rule passes the base rule too. The condition
  is needed, see the text bound below.
\<close>

theorem tighten_sound:
  assumes "decimal_laws D dval" and "number_printer (rt_number_string rt)"
    and "printable (ast_json base)" and "printable (ast_json tightened)"
    and "plain_bounds base" and "plain_bounds tightened"
    and "prove_monotonic_tighten D rt base tightened = Monotonic p"
    and "evaluate D tightened facts = Inr ev" and "verdict ev = PASS"
  shows "\<exists>ev'. evaluate D base facts = Inr ev' \<and> verdict ev' = PASS"
proof (cases "canonical rt base = canonical rt tightened")
  case True
  then have "base = tightened" using canonical_inj [OF assms(2)] assms(3,4) by blast
  with assms show ?thesis by blast
next
  case False
  with assms(7) consider
      (cmp) bop bl br bt nop nl nr nt where "base = AstCompare bop bl br bt" "tightened = AstCompare nop nl nr nt"
        "prove_compare D rt (bop, bl, br, bt) (nop, nl, nr, nt) = Monotonic p"
    | (conj) bs ns where "base = AstLogic OpAnd bs" "tightened = AstLogic OpAnd ns"
        "\<forall>b \<in> set bs. \<exists>n \<in> set ns. canonical rt b = canonical rt n"
    by (auto simp: prove_monotonic_tighten_def list_all_iff split: ast_node.splits logic_op.splits if_splits)
  then show ?thesis
  proof cases
    case cmp
    then show ?thesis using prove_compare_sound [OF assms(1,2)] assms by metis
  next
    case conj
    have "set bs \<subseteq> set ns"
      using conj canonical_inj [OF assms(2)] printable_operands(2) assms(3,4) by (metis subsetI)
    with conj assms conjunction_subset show ?thesis by blast
  qed
qed

theorem tighten_sound_witness:
  "\<exists>ev'. evaluate exact_decimal (AstCompare OpLt (AstFact ''x'') (AstLit (LNum (JFin 10))) None)
           [''x'' \<mapsto> FNum (JFin 3)] = Inr ev' \<and> verdict ev' = PASS"
proof -
  let ?b = "AstCompare OpLt (AstFact ''x'') (AstLit (LNum (JFin 10))) None"
  let ?t = "AstCompare OpLt (AstFact ''x'') (AstLit (LNum (JFin 5))) None"
  have m: "prove_monotonic_tighten exact_decimal sample_runtime ?b ?t = Monotonic ''NARROWER_BOUND''"
    by code_simp
  have "case evaluate exact_decimal ?t [''x'' \<mapsto> FNum (JFin 3)] of Inl _ \<Rightarrow> False | Inr ev \<Rightarrow> verdict ev = PASS"
    by code_simp
  then obtain ev where ev: "evaluate exact_decimal ?t [''x'' \<mapsto> FNum (JFin 3)] = Inr ev" "verdict ev = PASS"
    by (auto split: sum.splits)
  have np: "number_printer (rt_number_string sample_runtime)"
    using fraction.number_printer_axioms by (simp add: sample_runtime_def)
  have pl: "plain_bounds ?b" "plain_bounds ?t" by (simp_all add: plain_bounds_def)
  show ?thesis by (rule tighten_sound [OF exact.decimal_laws_axioms np _ _ pl m ev]) simp_all
qed

text \<open>
  The prover is unsound on text bounds. It reads the literal \<open>"10"\<close> as the number ten, the
  interpreter as a text that no fact is less than: the rule \<open>x < 5\<close> is certified as a tightening
  of \<open>x < "10"\<close>, passes on \<open>x = 3\<close>, and the base rule is unassessable there.
\<close>

theorem tighten_unsound_on_text_bound:
  "prove_monotonic_tighten exact_decimal sample_runtime
     (AstCompare OpLt (AstFact ''x'') (AstLit (LStr ''10'')) None)
     (AstCompare OpLt (AstFact ''x'') (AstLit (LNum (JFin 5))) None) = Monotonic ''NARROWER_BOUND'' \<and>
   map_sum id verdict (evaluate exact_decimal
     (AstCompare OpLt (AstFact ''x'') (AstLit (LNum (JFin 5))) None) [''x'' \<mapsto> FNum (JFin 3)]) = Inr PASS \<and>
   map_sum id verdict (evaluate exact_decimal
     (AstCompare OpLt (AstFact ''x'') (AstLit (LStr ''10'')) None) [''x'' \<mapsto> FNum (JFin 3)]) = Inr UNASSESSABLE"
  by (intro conjI) code_simp+

text \<open>
  C25: folding the selected rubric layers is a faithful cascade. Each criterion key occurs once,
  with a non-empty list of operations, all of that key, in the order STANDARD, CLIENT, CONTRACT;
  no membership of any layer is lost or duplicated.
\<close>

theorem fold_is_tier_cascade:
  assumes "fold_rubric_tiers rt Z untrusted = Inr folded"
  shows "distinct (map fst folded) \<and>
    (\<forall>c \<in> set folded. snd c \<noteq> [] \<and> (\<forall>p \<in> set (snd c). ms_criterion_key p = fst c) \<and>
       sorted_wrt (\<lambda>p q. tier_index (op_tier p) \<le> tier_index (op_tier q)) (snd c)) \<and>
    (\<exists>layers. map Some layers = map (parse_layer Z) untrusted \<and>
       mset (concat (map snd folded)) =
         mset (concat (map (\<lambda>l. map (operation_of l) (ly_memberships l)) layers)))"
proof -
  obtain layers ops where l: "map Some layers = map (parse_layer Z) untrusted"
    and ops: "ops = concat (map (layer_operations rt)
      (js_sort (\<lambda>a b. tier_index (ly_tier a) - tier_index (ly_tier b)) layers))"
    and f: "mset folded = mset (group_operations ops)"
    using fold_rubric_tiers_shape [OF assms] by blast
  have set: "set folded = set (group_operations ops)" using f by (rule mset_eq_setD)
  have d: "distinct (map fst folded)"
    using group_operations_distinct [of ops] f by (metis mset_eq_imp_distinct_iff mset_map)
  have s: "sorted_wrt (\<lambda>p q. tier_index (op_tier p) \<le> tier_index (op_tier q)) ops"
    unfolding ops by (rule sorted_concat_layers [OF sorted_layers])
  have "mset (concat (map snd folded)) = mset (concat (map snd (group_operations ops)))"
    using f by (simp add: mset_concat flip: sum_mset_sum_list)
  also have "\<dots> = mset ops" by (rule group_operations_mset)
  also have "\<dots> = mset (concat (map (layer_operations rt) layers))"
    unfolding ops by (simp add: mset_concat comp_def flip: sum_mset_sum_list)
  also have "\<dots> = mset (concat (map (\<lambda>l. map (operation_of l) (ly_memberships l)) layers))"
    by (simp add: mset_concat comp_def mset_layer_operations)
  finally have m: "mset (concat (map snd folded)) =
      mset (concat (map (\<lambda>l. map (operation_of l) (ly_memberships l)) layers))" .
  have each: "snd c \<noteq> [] \<and> (\<forall>p \<in> set (snd c). ms_criterion_key p = fst c) \<and>
      sorted_wrt (\<lambda>p q. tier_index (op_tier p) \<le> tier_index (op_tier q)) (snd c)" if "c \<in> set folded" for c
    using group_operations_entry [of c ops] that s set by (auto intro: sorted_wrt_filter)
  from d each l m show ?thesis by blast
qed

theorem fold_is_tier_cascade_witness:
  "\<exists>folded. fold_rubric_tiers sample_runtime sample_zod [sample_layer CONTRACT REPLACE ''c'', sample_layer STANDARD INHERIT ''s'']
     = Inr folded \<and> distinct (map fst folded) \<and> map (\<lambda>c. map op_tier (snd c)) folded = [[STANDARD, CONTRACT]]"
proof -
  have "case fold_rubric_tiers sample_runtime sample_zod [sample_layer CONTRACT REPLACE ''c'', sample_layer STANDARD INHERIT ''s''] of
      Inl _ \<Rightarrow> False | Inr folded \<Rightarrow> map (\<lambda>c. map op_tier (snd c)) folded = [[STANDARD, CONTRACT]]"
    by code_simp
  then obtain folded where f: "fold_rubric_tiers sample_runtime sample_zod
      [sample_layer CONTRACT REPLACE ''c'', sample_layer STANDARD INHERIT ''s''] = Inr folded"
    "map (\<lambda>c. map op_tier (snd c)) folded = [[STANDARD, CONTRACT]]"
    by (auto split: sum.splits)
  have "distinct (map fst folded)" using fold_is_tier_cascade [OF f(1)] by (rule conjunct1)
  with f show ?thesis by (intro exI [of _ folded] conjI)
qed

text \<open>
  The order in which the database returns the layers is irrelevant: folding any permutation of
  them gives the same cascade, or the same error.
\<close>

theorem fold_layer_order_irrelevant:
  assumes "mset ls = mset ls'"
  shows "fold_rubric_tiers rt Z ls = fold_rubric_tiers rt Z ls'"
proof -
  let ?cmp = "\<lambda>a b. tier_index (ly_tier a) - tier_index (ly_tier b)"
  let ?P = "\<lambda>ls. map the (map (parse_layer Z) ls)"
  have none: "set (map (parse_layer Z) ls) = set (map (parse_layer Z) ls')"
    by (rule mset_eq_setD) (simp only: mset_map assms)
  have m: "mset (?P ls) = mset (?P ls')" by (simp only: mset_map assms)
  then have d: "distinct (map ly_tier (?P ls)) \<longleftrightarrow> distinct (map ly_tier (?P ls'))"
    by (intro mset_eq_imp_distinct_iff) (simp only: mset_map)
  have "js_sort ?cmp (?P ls) = js_sort ?cmp (?P ls')" if dist: "distinct (map ly_tier (?P ls))"
  proof (rule comparator.js_sort_perm [OF tier_comparator m])
    fix x y
    assume xy: "x \<in> set (?P ls)" "y \<in> set (?P ls)" and le: "?cmp x y \<le> 0" "?cmp y x \<le> 0"
    have "tier_index (ly_tier x) = tier_index (ly_tier y)" using le by linarith
    then have "ly_tier x = ly_tier y" by (simp only: tier_index_inj)
    moreover have "inj_on ly_tier (set (?P ls))" using dist by (simp only: distinct_map)
    ultimately show "x = y" using xy by (simp only: inj_on_eq_iff)
  qed
  with none d show ?thesis by (auto simp: fold_rubric_tiers_def Let_def)
qed

theorem fold_layer_order_irrelevant_witness:
  "fold_rubric_tiers sample_runtime sample_zod [sample_layer CONTRACT REPLACE ''c'', sample_layer STANDARD INHERIT ''s''] =
   fold_rubric_tiers sample_runtime sample_zod [sample_layer STANDARD INHERIT ''s'', sample_layer CONTRACT REPLACE ''c'']"
  by (rule fold_layer_order_irrelevant) simp

text \<open>
  REPLACE discards everything upstream and the result is well formed. When a criterion resolves,
  it has at least one member, no criterion version twice, and every member was introduced by the
  REPLACE operation or one after it.
\<close>

theorem replace_discards_upstream:
  assumes "apply_replace_one (k, pre @ p # post) = Inr (k', ms)" and "ms_override_verb p = REPLACE"
  shows "k' = k \<and> ms \<noteq> [] \<and> distinct (map rm_criterion_version_id ms) \<and>
    list_all (from_operation (p # post)) ms"
proof -
  from assms(1) obtain ms0 ms1 where f: "rfold (replace_step k) [] pre = Inr ms0"
    "replace_step k ms0 p = Inr ms1" "rfold (replace_step k) ms1 post = Inr ms"
    and whole: "rfold (replace_step k) [] (pre @ p # post) = Inr ms" and ne: "ms \<noteq> []" "k' = k"
    by (auto simp: apply_replace_one_def rfold_append rbind_eq_Inr split: if_splits)
  have "distinct (map rm_criterion_version_id ms)"
    using replace_fold_distinct [OF whole] by simp
  moreover have "from_operation (p # post) m" if "m \<in> set ms" for m
    using replace_fold_from [OF f(3) that] replace_step_from [OF f(2), of m] assms(2)
    by (auto simp: from_operation_def)
  ultimately show ?thesis using ne by (simp add: list_all_iff)
qed

theorem replace_discards_upstream_witness:
  "\<exists>ms. apply_replace_one (''K'', map (\<lambda>l. operation_of l (hd (ly_memberships l)))
          [sample_layer STANDARD INHERIT ''s'', sample_layer CLIENT ADD ''a'', sample_layer CONTRACT REPLACE ''c''])
        = Inr (''K'', ms) \<and>
      list_all (from_operation [operation_of (sample_layer CONTRACT REPLACE ''c'') (hd (ly_memberships (sample_layer CONTRACT REPLACE ''c'')))]) ms"
proof -
  let ?op = "\<lambda>l. operation_of l (hd (ly_memberships l))"
  let ?p = "?op (sample_layer CONTRACT REPLACE ''c'')"
  have "case apply_replace_one (''K'', [?op (sample_layer STANDARD INHERIT ''s''), ?op (sample_layer CLIENT ADD ''a'')] @ ?p # []) of
      Inl _ \<Rightarrow> False | Inr r \<Rightarrow> True"
    by code_simp
  then obtain r where r: "apply_replace_one (''K'', [?op (sample_layer STANDARD INHERIT ''s''), ?op (sample_layer CLIENT ADD ''a'')] @ ?p # [])
      = Inr (fst r, snd r)"
    by (auto split: sum.splits)
  have v: "ms_override_verb ?p = REPLACE" by (simp add: operation_of_def sample_layer_def)
  from replace_discards_upstream [OF r v] r show ?thesis by (intro exI [of _ "snd r"]) simp
qed

text \<open>
  The two resolvers agree. On cascades without a REPLACE operation the resolver that knows
  REPLACE returns exactly what the INHERIT/ADD resolver returns.
\<close>

theorem inherit_add_agrees_with_replace:
  assumes "\<forall>c \<in> set folded. \<forall>p \<in> set (snd c). ms_override_verb p \<noteq> REPLACE"
  shows "apply_replace folded = Inr r \<longleftrightarrow> apply_inherit_add folded = Inr r"
  unfolding apply_replace_def apply_inherit_add_def
  using assms by (intro rtraverse_cong_Inr resolve_one_agrees) blast

theorem inherit_add_agrees_with_replace_witness:
  "\<exists>r. apply_inherit_add [(''K'', [operation_of (sample_layer STANDARD INHERIT ''s'') (hd (ly_memberships (sample_layer STANDARD INHERIT ''s'')))])] = Inr r \<and>
       apply_replace [(''K'', [operation_of (sample_layer STANDARD INHERIT ''s'') (hd (ly_memberships (sample_layer STANDARD INHERIT ''s'')))])] = Inr r"
proof -
  let ?f = "[(''K'', [operation_of (sample_layer STANDARD INHERIT ''s'') (hd (ly_memberships (sample_layer STANDARD INHERIT ''s'')))])]"
  have "case apply_inherit_add ?f of Inl _ \<Rightarrow> False | Inr _ \<Rightarrow> True" by code_simp
  then obtain r where r: "apply_inherit_add ?f = Inr r" by (auto split: sum.splits)
  moreover have "apply_replace ?f = Inr r \<longleftrightarrow> apply_inherit_add ?f = Inr r"
    by (rule inherit_add_agrees_with_replace) (simp add: operation_of_def sample_layer_def)
  ultimately show ?thesis by blast
qed

text \<open>
  C26: a firm standard gate is never exempted. If an exemption is granted, every member of the
  criterion has known protection metadata and none is a firm gate introduced by the STANDARD tier;
  the exempting layer is not STANDARD itself, gives a reason and an authority, and the members it
  suspends are recorded.
\<close>

theorem firm_standard_gate_never_exempted:
  assumes "apply_permitted_exempt current p metadata = Inr e"
  shows "op_tier p \<noteq> STANDARD \<and> ex_reason e \<noteq> [] \<and> ex_authority e \<noteq> [] \<and> ex_prior_members e = snd current \<and>
    (\<forall>m \<in> set (snd current). \<exists>q. protection_of metadata (rm_criterion_version_id m) = Some q \<and>
       \<not> (rm_introduced_by m = STANDARD \<and> pm_kind q = GATING \<and> pm_hardness q = FIRM_RULE))"
proof -
  have c: "check_protection (fst current) metadata (snd current) = Inr ()" and e: "apply_exempt (Some current) p = Inr e"
    using assms by (auto simp: apply_permitted_exempt_def rbind_eq_Inr)
  have "op_tier p \<noteq> STANDARD \<and> ex_reason e \<noteq> [] \<and> ex_authority e \<noteq> [] \<and> ex_prior_members e = snd current"
    using e by (auto simp: apply_exempt_def parse_exempt_payload_def bounded_text_def Let_def
        split: if_splits option.splits json.splits)
  with check_protection_ok [OF c] show ?thesis by blast
qed

theorem firm_standard_gate_never_exempted_witness:
  "\<exists>e. apply_permitted_exempt (''K'', [\<lparr>rm_criterion_version_id = ''s'', rm_introduced_by = STANDARD,
           rm_rubric_version_id = ''rv'', rm_source_verb = INHERIT\<rparr>])
         (operation_of ((sample_layer CLIENT EXEMPT ''c''))
            ((hd (ly_memberships (sample_layer CLIENT EXEMPT ''c'')))\<lparr>ms_override_payload :=
              Some (JObject [(''authority'', JString ''CFO''), (''reason'', JString '' waived '')])\<rparr>))
         [\<lparr>pm_criterion_version_id = ''s'', pm_kind = GATING, pm_hardness = AI_DOCS\<rparr>] = Inr e \<and>
       ex_reason e = ''waived'' \<and> ex_authority e \<noteq> []"
proof -
  let ?c = "(''K'', [\<lparr>rm_criterion_version_id = ''s'', rm_introduced_by = STANDARD,
           rm_rubric_version_id = ''rv'', rm_source_verb = INHERIT\<rparr>])"
  let ?p = "operation_of ((sample_layer CLIENT EXEMPT ''c''))
            ((hd (ly_memberships (sample_layer CLIENT EXEMPT ''c'')))\<lparr>ms_override_payload :=
              Some (JObject [(''authority'', JString ''CFO''), (''reason'', JString '' waived '')])\<rparr>)"
  let ?md = "[\<lparr>pm_criterion_version_id = ''s'', pm_kind = GATING, pm_hardness = AI_DOCS\<rparr>]"
  have "case apply_permitted_exempt ?c ?p ?md of Inl _ \<Rightarrow> False | Inr e \<Rightarrow> ex_reason e = ''waived''"
    by code_simp
  then obtain e where e: "apply_permitted_exempt ?c ?p ?md = Inr e" "ex_reason e = ''waived''"
    by (auto split: sum.splits)
  from firm_standard_gate_never_exempted [OF e(1)] e show ?thesis by blast
qed

text \<open>
  The version selector answers with the right version. A selected version belongs to the
  rubric, is effective on the business date and was known at the cutoff; no eligible version
  starts later, or starts the same day and was recorded later; and the answer is that none is
  known exactly when no version is eligible.
\<close>

theorem selected_version_is_latest:
  assumes "parse_version_request Z q = Some (rid, d, t)"
  shows "\<exists>res. select_rubric_version Z rows q = Inr res \<and>
    (case res of
       None \<Rightarrow> \<forall>v \<in> set rows. \<not> (rv_rubric_id v = rid \<and> effective_on d (rv_valid_from v) (rv_valid_to v) \<and> rv_recorded_at v \<le> t)
     | Some v \<Rightarrow> v \<in> set rows \<and> rv_rubric_id v = rid \<and> effective_on d (rv_valid_from v) (rv_valid_to v) \<and> rv_recorded_at v \<le> t \<and>
         (\<forall>w \<in> set rows. rv_rubric_id w = rid \<and> effective_on d (rv_valid_from w) (rv_valid_to w) \<and> rv_recorded_at w \<le> t \<longrightarrow>
            rv_valid_from w < rv_valid_from v \<or> rv_valid_from w = rv_valid_from v \<and> rv_recorded_at w \<le> rv_recorded_at v))"
proof -
  let ?p = "\<lambda>v. rv_rubric_id v = rid \<and> effective_on d (rv_valid_from v) (rv_valid_to v) \<and> rv_recorded_at v \<le> t"
  have sel: "select_rubric_version Z rows q = Inr (first_row version_order ?p rows)"
    using assms by (simp add: select_rubric_version_def)
  show ?thesis
  proof (cases "first_row version_order ?p rows")
    case None
    then have "\<forall>v \<in> set rows. \<not> ?p v" by (simp only: first_row_None not_False_eq_True)
    with sel None show ?thesis by simp
  next
    case (Some v)
    have "x = v \<or> version_order v x \<le> 0" if "x \<in> set rows" "?p x" for x
      using comparator.first_row_least [OF ordering_by.axioms(1) [OF version_order_by] Some that] .
    then have "\<forall>w \<in> set rows. ?p w \<longrightarrow>
        rv_valid_from w < rv_valid_from v \<or> rv_valid_from w = rv_valid_from v \<and> rv_recorded_at w \<le> rv_recorded_at v"
      using version_order_le by blast
    with sel Some first_row_in [OF Some] show ?thesis by simp
  qed
qed

theorem selected_version_is_latest_witness:
  "\<exists>v. select_rubric_version sample_zod sample_versions sample_request = Inr (Some v) \<and> rv_id v = ''b'' \<and>
       rv_recorded_at v \<le> 5"
proof -
  have q: "parse_version_request sample_zod sample_request = Some (''r'', 7, 5)" by code_simp
  have "case select_rubric_version sample_zod sample_versions sample_request of
      Inr (Some v) \<Rightarrow> rv_id v = ''b'' | _ \<Rightarrow> False" by code_simp
  then obtain v where v: "select_rubric_version sample_zod sample_versions sample_request = Inr (Some v)" "rv_id v = ''b''"
    by (auto split: sum.splits option.splits)
  from selected_version_is_latest [OF q, of sample_versions] v show ?thesis by auto
qed

text \<open>
  Selection is replay-stable. Rubric versions recorded after the system-time cutoff of a
  request never change its answer, so an audit replayed later resolves the same rubric version.
\<close>

theorem version_selection_replay_stable:
  assumes "parse_version_request Z q = Some (rid, d, t)" and "\<forall>v \<in> set new. t < rv_recorded_at v"
  shows "select_rubric_version Z (rows @ new) q = select_rubric_version Z rows q"
proof -
  have "\<forall>v \<in> set new. \<not> (rv_rubric_id v = rid \<and> effective_on d (rv_valid_from v) (rv_valid_to v) \<and> rv_recorded_at v \<le> t)"
    using assms(2) by fastforce
  from first_row_append [OF this] assms(1) show ?thesis by (simp add: select_rubric_version_def)
qed

theorem version_selection_replay_stable_witness:
  "select_rubric_version sample_zod (sample_versions @ [\<lparr>rv_id = ''z'', rv_rubric_id = ''r'', rv_valid_from = 7,
       rv_valid_to = None, rv_recorded_at = 6\<rparr>]) sample_request =
   select_rubric_version sample_zod sample_versions sample_request"
proof (rule version_selection_replay_stable)
  show "parse_version_request sample_zod sample_request = Some (''r'', 7, 5)" by code_simp
qed simp

text \<open>
  An applicable rubric is in scope. Every rubric version selected for a request belongs to a
  rubric of the request's account (or of no account), contract and transport mode, is effective and
  was known at the cutoff, and no rubric is selected twice.
\<close>

theorem applicable_rubrics_in_scope:
  assumes "select_applicable_rubric_versions Z rubrics versions q = Inr sel" and "distinct (map rb_id rubrics)"
  shows "distinct (map (\<lambda>rv. rb_id (fst rv)) sel) \<and>
    (\<forall>(r, v) \<in> set sel. r \<in> set rubrics \<and> v \<in> set versions \<and> rv_rubric_id v = rb_id r \<and> in_scope q r \<and>
       (\<exists>d t. zod_date Z (aq_effective_on q) = Some d \<and> zod_datetime Z (aq_recorded_as_of q) = Some t \<and>
          effective_on d (rv_valid_from v) (rv_valid_to v) \<and> rv_recorded_at v \<le> t))"
proof -
  obtain d t where dt: "zod_date Z (aq_effective_on q) = Some d" "zod_datetime Z (aq_recorded_as_of q) = Some t"
    using assms(1) by (auto simp: select_applicable_rubric_versions_def split: option.splits)
  define pick where "pick = (\<lambda>r :: rubric_row. map_option (Pair r) (first_row version_order
      (\<lambda>v. rv_rubric_id v = rb_id r \<and> effective_on d (rv_valid_from v) (rv_valid_to v) \<and> rv_recorded_at v \<le> t) versions))"
  define rs where "rs = js_sort (by_text rb_id) (filter (in_scope q) rubrics)"
  have sel: "sel = List.map_filter pick rs"
    using assms(1) dt by (auto simp: select_applicable_rubric_versions_def pick_def rs_def split: if_splits)
  have fst_pick: "pick r = Some x \<Longrightarrow> fst x = r" for r x by (auto simp: pick_def)
  have "distinct (map rb_id xs) \<Longrightarrow> distinct (map (\<lambda>rv. rb_id (fst rv)) (List.map_filter pick xs)) \<and>
      (\<lambda>rv. rb_id (fst rv)) ` set (List.map_filter pick xs) \<subseteq> rb_id ` set xs" for xs
    by (induction xs) (auto simp: map_filter_simps fst_pick split: option.splits)
  moreover have "distinct (map rb_id rs)" using assms(2) by (simp add: rs_def distinct_map_filter)
  ultimately have "distinct (map (\<lambda>rv. rb_id (fst rv)) sel)" using sel by blast
  moreover have "r \<in> set rubrics \<and> v \<in> set versions \<and> rv_rubric_id v = rb_id r \<and> in_scope q r \<and>
      effective_on d (rv_valid_from v) (rv_valid_to v) \<and> rv_recorded_at v \<le> t" if "(r, v) \<in> set sel" for r v
  proof -
    have "r \<in> set rs \<and> pick r = Some (r, v)"
      using that fst_pick unfolding sel map_filter_def by fastforce
    then show ?thesis by (auto simp: pick_def rs_def dest: first_row_in)
  qed
  ultimately show ?thesis using dt by blast
qed

theorem applicable_rubrics_in_scope_witness:
  "\<exists>sel. select_applicable_rubric_versions sample_zod sample_rubrics sample_versions sample_applicability = Inr sel \<and>
     map (\<lambda>rv. rv_id (snd rv)) sel = [''b''] \<and> distinct (map (\<lambda>rv. rb_id (fst rv)) sel)"
proof -
  have "case select_applicable_rubric_versions sample_zod sample_rubrics sample_versions sample_applicability of
      Inl _ \<Rightarrow> False | Inr sel \<Rightarrow> map (\<lambda>rv. rv_id (snd rv)) sel = [''b'']" by code_simp
  then obtain sel where s: "select_applicable_rubric_versions sample_zod sample_rubrics sample_versions sample_applicability = Inr sel"
    "map (\<lambda>rv. rv_id (snd rv)) sel = [''b'']"
    by (auto split: sum.splits)
  have "distinct (map rb_id sample_rubrics)" by (simp add: sample_rubrics_def)
  then have "distinct (map (\<lambda>rv. rb_id (fst rv)) sel)" using applicable_rubrics_in_scope [OF s(1)] by blast
  with s show ?thesis by (intro exI [of _ sel] conjI)
qed

text \<open>
  A shared override shadows the account's own. PostgreSQL sorts the NULL that
  \<open>account_id = $1\<close> yields on a shared row first in the descending order, so whenever a shared
  override matches, it is returned, whatever override the account itself has recorded.
\<close>

theorem shared_override_shadows_account:
  assumes "resolve_human_override Z rows q = Inr (Some r)"
    and "g \<in> set rows" and "ho_account_id g = None"
    and "\<And>t. zod_datetime Z (oq_recorded_as_of q) = Some t \<Longrightarrow>
       override_eligible (oq_client_id q) (oq_criterion_id q) (js_trim (oq_case_fingerprint q)) t g"
  shows "ho_account_id r = None"
proof -
  obtain t where t: "zod_datetime Z (oq_recorded_as_of q) = Some t"
    and f: "first_row (override_order (oq_client_id q))
      (override_eligible (oq_client_id q) (oq_criterion_id q) (js_trim (oq_case_fingerprint q)) t) rows = Some r"
    using assms(1) by (auto simp: resolve_human_override_def Let_def split: option.splits if_splits)
  have "g = r \<or> override_order (oq_client_id q) r g \<le> 0"
    using comparator.first_row_least [OF ordering_by.axioms(1) [OF override_order_by] f assms(2)] assms(4) [OF t] by blast
  then show ?thesis
    using assms(3)
    by (auto simp: override_order_def lex_def then_by_def by_int_def account_match_rank_def split: if_splits option.splits)
qed

theorem shared_override_shadows_account_witness:
  "\<exists>r. resolve_human_override sample_zod [sample_override ''own'' (Some ''acct'') 4, sample_override ''shared'' None 1]
        \<lparr>oq_client_id = ''acct'', oq_criterion_id = ''crit'', oq_case_fingerprint = ''fp'', oq_recorded_as_of = ''5''\<rparr>
      = Inr (Some r) \<and> ho_account_id r = None"
proof -
  let ?rows = "[sample_override ''own'' (Some ''acct'') 4, sample_override ''shared'' None 1]"
  let ?q = "\<lparr>oq_client_id = ''acct'', oq_criterion_id = ''crit'', oq_case_fingerprint = ''fp'', oq_recorded_as_of = ''5''\<rparr>"
  have "case resolve_human_override sample_zod ?rows ?q of Inr (Some r) \<Rightarrow> True | _ \<Rightarrow> False" by code_simp
  then obtain r where r: "resolve_human_override sample_zod ?rows ?q = Inr (Some r)"
    by (auto split: sum.splits option.splits)
  have t: "zod_datetime sample_zod ''5'' = Some 5" "js_trim ''fp'' = ''fp''" by code_simp+
  have "ho_account_id r = None"
  proof (rule shared_override_shadows_account [OF r, of "sample_override ''shared'' None 1"])
    fix t'
    assume "zod_datetime sample_zod (oq_recorded_as_of ?q) = Some t'"
    then show "override_eligible (oq_client_id ?q) (oq_criterion_id ?q) (js_trim (oq_case_fingerprint ?q)) t' (sample_override ''shared'' None 1)"
      using t by (simp add: override_eligible_def sample_override_def)
  qed (simp_all add: sample_override_def)
  with r show ?thesis by blast
qed

end
