(* ===== verification/Shared.thy ===== *)
theory Shared
  imports Sql_Tables
begin

text \<open>
  The shared helpers (src/shared): request formats and keyset pagination over the ordering
  \<open>(timestamp DESC, id ASC)\<close>.
\<close>

section \<open>request-validation.ts\<close>

definition is_hex_digit :: "char \<Rightarrow> bool" where
  "is_hex_digit c =
     (let n = (of_char c :: int)
      in (48 \<le> n \<and> n \<le> 57) \<or> (97 \<le> n \<and> n \<le> 102) \<or> (65 \<le> n \<and> n \<le> 70))"

text \<open>Groups of 8, 4, 4, 4 and 12 hexadecimal digits separated by hyphens.\<close>

definition isUuid :: "string \<Rightarrow> bool" where
  "isUuid s =
     (let gs = js_split CHR ''-'' s
      in map length gs = [8, 4, 4, 4, 12] \<and> list_all (list_all is_hex_digit) gs)"

definition is_lower_char :: "char \<Rightarrow> bool" where
  "is_lower_char c = (let n = (of_char c :: int) in 97 \<le> n \<and> n \<le> 122)"

definition audit_entity_or_event :: "string \<Rightarrow> bool" where
  "audit_entity_or_event s =
     (case s of
        [] \<Rightarrow> False
      | c # cs \<Rightarrow> is_lower_char c \<and>
          list_all (\<lambda>d. is_lower_char d \<or> is_digit d \<or> d \<in> {CHR ''_'', CHR ''.'', CHR ''-''}) cs)"

definition hex_color :: "string \<Rightarrow> bool" where
  "hex_color s = (case s of [] \<Rightarrow> False | c # cs \<Rightarrow> c = CHR ''#'' \<and> length cs = 6 \<and> list_all is_hex_digit cs)"

section \<open>cursor-pagination.ts\<close>

text \<open>A row of a paginated list, as far as its position is concerned; a cursor names a row by its id.\<close>

record keyset_row =
  kr_ts :: instant
  kr_id :: uuid

definition keyset_order :: "keyset_row \<Rightarrow> keyset_row \<Rightarrow> int" where
  "keyset_order = lex (descending (by_int kr_ts)) (by_text kr_id)"

text \<open>\<open>buildKeysetTieBreak\<close>: strictly after the anchor in \<open>(ts DESC, id ASC)\<close>.\<close>

definition keyset_tie_break :: "keyset_row \<Rightarrow> keyset_row \<Rightarrow> bool" where
  "keyset_tie_break anchor r =
     (kr_ts r < kr_ts anchor \<or> (kr_ts r = kr_ts anchor \<and> 0 < unit_compare (kr_id r) (kr_id anchor)))"

text \<open>
  The list query in cursor mode. \<open>buildKeysetAnchorFrom\<close> joins with the anchor row, re-read by
  its id: a cursor whose row is gone yields no rows. The query asks for \<open>limit + 1\<close> rows.
\<close>

definition keyset_query :: "keyset_row list \<Rightarrow> uuid option \<Rightarrow> nat \<Rightarrow> keyset_row list" where
  "keyset_query rows cursor limit =
     take (limit + 1)
       (js_sort keyset_order
          (case cursor of
             None \<Rightarrow> rows
           | Some i \<Rightarrow>
               (case find (\<lambda>r. kr_id r = i) rows of
                  None \<Rightarrow> []
                | Some anchor \<Rightarrow> filter (keyset_tie_break anchor) rows)))"

definition paginate_keyset :: "keyset_row list \<Rightarrow> nat \<Rightarrow> keyset_row list \<times> uuid option" where
  "paginate_keyset rows limit =
     (if limit < length rows
      then (let page = take limit rows in (page, Some (kr_id (last page))))
      else (rows, None))"

definition next_page :: "keyset_row list \<Rightarrow> nat \<Rightarrow> uuid option \<Rightarrow> keyset_row list \<times> uuid option" where
  "next_page rows limit cursor = paginate_keyset (keyset_query rows cursor limit) limit"

text \<open>A client following the cursors; at most \<open>fuel\<close> requests.\<close>

fun walk_pages :: "nat \<Rightarrow> keyset_row list \<Rightarrow> nat \<Rightarrow> uuid option \<Rightarrow> keyset_row list option" where
  "walk_pages 0 rows limit cursor = None"
| "walk_pages (Suc fuel) rows limit cursor =
     (case next_page rows limit cursor of
        (page, None) \<Rightarrow> Some page
      | (page, Some c) \<Rightarrow> map_option (\<lambda>rest. page @ rest) (walk_pages fuel rows limit (Some c)))"

section \<open>Walking the pages\<close>

lemma keyset_order_by: "ordering_by keyset_order"
  unfolding keyset_order_def by (intro ordering_intros)

lemma keyset_tie_break_iff: "keyset_tie_break a r \<longleftrightarrow> keyset_order a r < 0"
  using unit_compare_antisym [of "kr_id r" "kr_id a"]
  by (auto simp: keyset_tie_break_def keyset_order_def lex_def then_by_def descending_def by_int_def by_text_def)

lemma keyset_order_zero: "keyset_order a b = 0 \<longleftrightarrow> kr_ts a = kr_ts b \<and> kr_id a = kr_id b"
  by (simp add: keyset_order_def ordering_by_int)

text \<open>The rows after the anchor are the sorted rows after it.\<close>

lemma rows_after:
  assumes d: "distinct (map kr_id rows)" and s: "js_sort keyset_order rows = xs @ a # ys"
  shows "js_sort keyset_order (filter (keyset_tie_break a) rows) = ys"
proof -
  note ob = keyset_order_by
  note comp = ordering_by.axioms(1) [OF ob]
  have sorted: "sorted_wrt (\<lambda>a b. keyset_order a b \<le> 0) (xs @ a # ys)"
    using comparator.sorted_js_sort [OF comp, of rows] s by simp
  have dS: "distinct (map kr_id (xs @ a # ys))"
    using d distinct_js_sort [of kr_id keyset_order rows] s by simp
  have "keyset_tie_break a y" if "y \<in> set ys" for y
  proof -
    have "keyset_order a y \<le> 0" using sorted that by (auto simp: sorted_wrt_append)
    moreover have "kr_id y \<noteq> kr_id a" using dS that by (auto simp: image_iff)
    ultimately show ?thesis using keyset_order_zero [of a y] by (auto simp: keyset_tie_break_iff)
  qed
  moreover have "\<not> keyset_tie_break a x" if "x \<in> set xs" for x
  proof -
    have "keyset_order x a \<le> 0" using sorted that by (auto simp: sorted_wrt_append)
    then show ?thesis using ordering_by.cmp_anti [OF ob, of x a] by (simp add: keyset_tie_break_iff)
  qed
  moreover have "\<not> keyset_tie_break a a" using keyset_order_zero [of a a] by (simp add: keyset_tie_break_iff)
  ultimately have f: "filter (keyset_tie_break a) (xs @ a # ys) = ys"
    by (auto simp: filter_empty_conv filter_id_conv)
  show ?thesis
  proof (rule comparator.sorted_unique [OF comp comparator.sorted_js_sort [OF comp]])
    show "sorted_wrt (\<lambda>a b. keyset_order a b \<le> 0) ys" using sorted by (simp add: sorted_wrt_append)
    have "mset (filter (keyset_tie_break a) rows) = mset (filter (keyset_tie_break a) (js_sort keyset_order rows))"
      by (simp add: mset_filter)
    then show "mset (js_sort keyset_order (filter (keyset_tie_break a) rows)) = mset ys" unfolding s f by (simp only: mset_js_sort)
    fix x y
    assume xy: "x \<in> set (js_sort keyset_order (filter (keyset_tie_break a) rows))"
      "y \<in> set (js_sort keyset_order (filter (keyset_tie_break a) rows))"
      and le: "keyset_order x y \<le> 0" "keyset_order y x \<le> 0"
    have "keyset_order x y = 0" using le ordering_by.cmp_anti [OF ob, of y x] by linarith
    then have "kr_id x = kr_id y" by (simp add: keyset_order_zero)
    with xy d show "x = y" by (auto simp: distinct_map inj_on_def)
  qed
qed

lemma keyset_query_after:
  assumes d: "distinct (map kr_id rows)" and s: "js_sort keyset_order rows = xs @ ys"
  shows "keyset_query rows (if xs = [] then None else Some (kr_id (last xs))) limit = take (limit + 1) ys"
proof (cases "xs = []")
  case False
  then have s': "js_sort keyset_order rows = butlast xs @ last xs # ys" using s by simp
  have "last xs \<in> set (js_sort keyset_order rows)" using s' by (simp del: set_js_sort)
  then have mem: "last xs \<in> set rows" by simp
  have "find (\<lambda>r. kr_id r = kr_id (last xs)) rows = Some (last xs)"
    using d mem by (induction rows) auto
  with False rows_after [OF d s'] show ?thesis by (simp add: keyset_query_def)
qed (use s in \<open>simp add: keyset_query_def\<close>)

lemma walk_pages_from:
  assumes d: "distinct (map kr_id rows)" and pos: "0 < limit"
  shows "js_sort keyset_order rows = xs @ ys \<Longrightarrow> length ys < fuel \<Longrightarrow>
    walk_pages fuel rows limit (if xs = [] then None else Some (kr_id (last xs))) = Some ys"
proof (induction fuel arbitrary: xs ys)
  case (Suc fuel)
  note q = keyset_query_after [OF d Suc.prems(1), of limit]
  show ?case
  proof (cases "length ys \<le> limit")
    case True
    then show ?thesis by (simp only: walk_pages.simps next_page_def q) (simp add: paginate_keyset_def)
  next
    case False
    let ?p = "take limit ys"
    have ne: "?p \<noteq> []" using False pos by (cases ys) auto
    have s: "js_sort keyset_order rows = (xs @ ?p) @ drop limit ys" using Suc.prems(1) by simp
    have "walk_pages fuel rows limit (if xs @ ?p = [] then None else Some (kr_id (last (xs @ ?p)))) = Some (drop limit ys)"
      using False pos Suc.prems(2) by (intro Suc.IH [OF s]) simp
    then have rest: "walk_pages fuel rows limit (Some (kr_id (last ?p))) = Some (drop limit ys)"
      using ne by (simp split: if_splits)
    have "next_page rows limit (if xs = [] then None else Some (kr_id (last xs))) = (?p, Some (kr_id (last ?p)))"
      unfolding next_page_def q using False by (simp add: paginate_keyset_def Let_def min_def)
    with rest show ?thesis by simp
  qed
qed simp

section \<open>Properties\<close>

text \<open>
  C27: following the cursors visits every row exactly once, in order, and ends. With a positive
  page size and unique ids, also when many rows share one timestamp, at most one request more than
  there are rows returns the whole list in the order of the query.
\<close>

theorem walk_pages_complete:
  assumes "distinct (map kr_id rows)" and "0 < limit" and "length rows < fuel"
  shows "walk_pages fuel rows limit None = Some (js_sort keyset_order rows)"
  using walk_pages_from [OF assms(1,2), of "[]" "js_sort keyset_order rows" fuel] assms(3) by simp

theorem walk_pages_complete_witness:
  "walk_pages 4 [\<lparr>kr_ts = 5, kr_id = ''b''\<rparr>, \<lparr>kr_ts = 7, kr_id = ''c''\<rparr>, \<lparr>kr_ts = 5, kr_id = ''a''\<rparr>] 1 None =
   Some [\<lparr>kr_ts = 7, kr_id = ''c''\<rparr>, \<lparr>kr_ts = 5, kr_id = ''a''\<rparr>, \<lparr>kr_ts = 5, kr_id = ''b''\<rparr>]"
proof -
  let ?rows = "[\<lparr>kr_ts = 5, kr_id = ''b''\<rparr>, \<lparr>kr_ts = 7, kr_id = ''c''\<rparr>, \<lparr>kr_ts = 5, kr_id = ''a''\<rparr>]"
  have "walk_pages 4 ?rows 1 None = Some (js_sort keyset_order ?rows)"
    by (rule walk_pages_complete) simp_all
  moreover have "js_sort keyset_order ?rows =
      [\<lparr>kr_ts = 7, kr_id = ''c''\<rparr>, \<lparr>kr_ts = 5, kr_id = ''a''\<rparr>, \<lparr>kr_ts = 5, kr_id = ''b''\<rparr>]"
    by code_simp
  ultimately show ?thesis by simp
qed

end
