(* ===== verification/Idempotent_Writes.thy ===== *)
theory Idempotent_Writes
  imports Sql_Tables "HOL-Library.Sublist"
begin

text \<open>
  The contract that the append-only writers of the program share: an
  \<open>INSERT ... ON CONFLICT DO NOTHING\<close> followed by a read of the row that is already there. A
  writer takes the moment of the call (the clock and the ids the database generates), the request
  and the tables, and answers the tables, a receipt and whether a row was created.
\<close>

section \<open>The contract\<close>

text \<open>A sequence of requests, each at its own moment.\<close>

definition run_writes ::
  "('n \<Rightarrow> 'i \<Rightarrow> 's \<Rightarrow> ('e, 's \<times> 'r \<times> bool) result) \<Rightarrow> ('n \<times> 'i) list \<Rightarrow> 's \<Rightarrow> ('e, 's) result" where
  "run_writes put reqs s = rfold (\<lambda>s (n, i). rbind (put n i s) (\<lambda>(s', r, c). Inr s')) s reqs"

lemma run_writes_Nil [simp]: "run_writes put [] s = Inr s"
  by (simp add: run_writes_def)

lemma run_writes_Cons:
  "run_writes put ((n, i) # reqs) s = Inr t \<longleftrightarrow>
     (\<exists>s' r c. put n i s = Inr (s', r, c) \<and> run_writes put reqs s' = Inr t)"
  by (auto simp: run_writes_def result_simps split: prod.splits)

locale idempotent_write =
  fixes put :: "'n \<Rightarrow> 'i \<Rightarrow> 's \<Rightarrow> ('e, 's \<times> 'r \<times> bool) result"
    and extends :: "'s \<Rightarrow> 's \<Rightarrow> bool"
  assumes extends_refl: "extends s s"
    and extends_trans: "extends s s' \<Longrightarrow> extends s' s'' \<Longrightarrow> extends s s''"
    and grows: "put n i s = Inr (s', r, c) \<Longrightarrow> extends s s'"
    and settled: "put n i s = Inr (s', r, c) \<Longrightarrow> extends s' s'' \<Longrightarrow> put n' i s'' = Inr (s'', r, False)"
begin

lemma run_writes_grows: "run_writes put reqs s = Inr t \<Longrightarrow> extends s t"
proof (induction reqs arbitrary: s)
  case Nil
  then show ?case by (simp add: extends_refl)
next
  case (Cons w reqs)
  then show ?case by (cases w) (auto simp: run_writes_Cons intro: extends_trans grows)
qed

lemma request_settled:
  "run_writes put reqs s = Inr t \<Longrightarrow> (n, i) \<in> set reqs \<Longrightarrow> extends t u \<Longrightarrow> \<exists>r. put n' i u = Inr (u, r, False)"
proof (induction reqs arbitrary: s)
  case (Cons w reqs)
  obtain n0 i0 s' r c where w: "w = (n0, i0)" "put n0 i0 s = Inr (s', r, c)" "run_writes put reqs s' = Inr t"
    using Cons.prems(1) by (cases w) (auto simp: run_writes_Cons)
  have "extends s' u" using run_writes_grows [OF w(3)] Cons.prems(3) by (rule extends_trans)
  then show ?case using Cons w settled by auto
qed simp

text \<open>Replaying requests that have all been served leaves the tables as they are.\<close>

lemma replay_is_noop:
  assumes "run_writes put reqs s = Inr t" and "snd ` set again \<subseteq> snd ` set reqs"
  shows "run_writes put again t = Inr t"
  using assms(2)
proof (induction again)
  case (Cons w again)
  obtain n i m where "w = (n, i)" "(m, i) \<in> set reqs" using Cons.prems by (cases w) auto
  moreover obtain r where "put n i t = Inr (t, r, False)"
    using request_settled [OF assms(1) \<open>(m, i) \<in> set reqs\<close> extends_refl] by blast
  ultimately show ?case using Cons by (auto simp: run_writes_Cons)
qed simp

end

section \<open>Tables that only grow\<close>

text \<open>A row found by its key is still the one found after rows are appended.\<close>

lemma find_prefix: "prefix xs ys \<Longrightarrow> find p xs = Some x \<Longrightarrow> find p ys = Some x"
proof (induction xs arbitrary: ys)
  case (Cons a xs)
  then show ?case by (cases ys) (auto split: if_splits)
qed simp

lemma find_append_None: "find p xs = None \<Longrightarrow> find p (xs @ ys) = find p ys"
  by (induction xs) auto

lemma find_Some_in: "find p xs = Some x \<Longrightarrow> x \<in> set xs \<and> p x"
  by (induction xs) (auto split: if_splits)

lemma find_None_all: "find p xs = None \<longleftrightarrow> (\<forall>x \<in> set xs. \<not> p x)"
  by (induction xs) auto

lemma find_by_key: "distinct (map k xs) \<Longrightarrow> x \<in> set xs \<Longrightarrow> find (\<lambda>y. k y = k x) xs = Some x"
  by (induction xs) (auto simp: rev_image_eqI)

lemma prefix_list_ex: "prefix xs ys \<Longrightarrow> list_ex p xs \<Longrightarrow> list_ex p ys"
  by (auto simp: prefix_def)

lemma insert_row_prefix: "prefix rows (fst (insert_row same r rows))"
  by (simp add: insert_row_def)

lemma insert_row_hit: "list_ex (same r) rows \<Longrightarrow> insert_row same r rows = (rows, False)"
  by (simp add: insert_row_def)

lemma insert_row_miss: "\<not> list_ex (same r) rows \<Longrightarrow> insert_row same r rows = (rows @ [r], True)"
  by (simp add: insert_row_def)

end
