(* ===== verification/Audit_Ledger.thy ===== *)
theory Audit_Ledger
  imports Idempotent_Writes Shared Canonical_Json
begin

text \<open>
  The append-only audit ledger (src/modules/audit-ledger): the identifier derived from the parts of
  an event, the schema of an event and its insertion.
\<close>

section \<open>write-audit-event.ts\<close>

text \<open>Members of the detail object; every caller passes an object or nothing.\<close>

record audit_event =
  ae_id :: uuid
  ae_account_id :: "uuid option"
  ae_entity :: string
  ae_entity_id :: "uuid option"
  ae_event :: string
  ae_actor_kind :: string
  ae_actor_user_id :: "uuid option"
  ae_rule_version_id :: "uuid option"
  ae_rubric_snapshot_id :: "uuid option"
  ae_detail :: "(string \<times> json) list option"

record audit_event_row = audit_event +
  ae_recorded_at :: instant

datatype audit_error = AuditEventValidationError | AuditEventConflictError

text \<open>The value of a hexadecimal digit, and the top nibble of \<open>(byte & 0x3f) | 0x80\<close>.\<close>

definition variant_nibble :: "char \<Rightarrow> char" where
  "variant_nibble c =
     (let v = (of_char c :: int); n = (if v \<le> 57 then v - 48 else v - 87)
      in if n mod 4 = 0 then CHR ''8'' else if n mod 4 = 1 then CHR ''9''
         else if n mod 4 = 2 then CHR ''a'' else CHR ''b'')"

text \<open>
  The first sixteen bytes of the digest in hexadecimal, with the bytes 6 and 8 overwritten:
  \<open>0x80\<close> replaces the top nibble of byte 6, and the two top bits of byte 8.
\<close>

definition uuid_of_hex :: "string \<Rightarrow> uuid" where
  "uuid_of_hex h =
     (let b = (take 32 h)[12 := CHR ''8'', 16 := variant_nibble (h ! 16)]
      in js_join ''-'' [take 8 b, take 4 (drop 8 b), take 4 (drop 12 b), take 4 (drop 16 b), drop 20 b])"

definition deterministic_audit_event_id :: "runtime \<Rightarrow> string list \<Rightarrow> uuid" where
  "deterministic_audit_event_id rt parts = uuid_of_hex (rt_sha256_hex rt (js_join [CHR 0x00] parts))"

text \<open>\<open>jsonValue\<close>: every number is finite.\<close>

fun finite_json :: "json \<Rightarrow> bool" where
  "finite_json (JNumber n) = is_finite_number n"
| "finite_json (JArray xs) = list_all finite_json xs"
| "finite_json (JObject ms) = list_all (\<lambda>(k, v). finite_json v) ms"
| "finite_json _ = True"

definition optional_uuid :: "uuid option \<Rightarrow> bool" where
  "optional_uuid u = (case u of None \<Rightarrow> True | Some s \<Rightarrow> isUuid s)"

definition ledger_name :: "string \<Rightarrow> bool" where
  "ledger_name s = (1 \<le> length s \<and> length s \<le> 100 \<and> audit_entity_or_event s)"

definition ACTOR_KINDS :: "string list" where
  "ACTOR_KINDS = [''analyst'', ''ai'', ''system'', ''client'']"

definition parse_audit_event :: "audit_event \<Rightarrow> audit_event option" where
  "parse_audit_event e =
     (let v = e\<lparr>ae_entity := js_trim (ae_entity e), ae_event := js_trim (ae_event e)\<rparr>
      in if isUuid (ae_id v) \<and> optional_uuid (ae_account_id v) \<and> ledger_name (ae_entity v)
            \<and> optional_uuid (ae_entity_id v) \<and> ledger_name (ae_event v) \<and> ae_actor_kind v \<in> set ACTOR_KINDS
            \<and> optional_uuid (ae_actor_user_id v) \<and> optional_uuid (ae_rule_version_id v)
            \<and> optional_uuid (ae_rubric_snapshot_id v)
            \<and> (case ae_detail v of None \<Rightarrow> True | Some ms \<Rightarrow> finite_json (JObject ms))
         then Some v else None)"

text \<open>\<open>jsonb\<close> equality does not depend on the order of members.\<close>

definition same_detail :: "(string \<times> json) list option \<Rightarrow> (string \<times> json) list option \<Rightarrow> bool" where
  "same_detail a b =
     (map_option (\<lambda>ms. normalize_json (JObject ms)) a = map_option (\<lambda>ms. normalize_json (JObject ms)) b)"

definition same_evidence :: "audit_event \<Rightarrow> audit_event_row \<Rightarrow> bool" where
  "same_evidence v r =
     (ae_id r = ae_id v \<and> ae_account_id r = ae_account_id v \<and> ae_entity r = ae_entity v \<and>
      ae_entity_id r = ae_entity_id v \<and> ae_event r = ae_event v \<and> ae_actor_kind r = ae_actor_kind v \<and>
      ae_actor_user_id r = ae_actor_user_id v \<and> ae_rule_version_id r = ae_rule_version_id v \<and>
      ae_rubric_snapshot_id r = ae_rubric_snapshot_id v \<and> same_detail (ae_detail r) (ae_detail v))"

definition ledger_row :: "instant \<Rightarrow> audit_event \<Rightarrow> audit_event_row" where
  "ledger_row now v = audit_event.extend v \<lparr>ae_recorded_at = now\<rparr>"

definition write_audit_event ::
  "instant \<Rightarrow> audit_event \<Rightarrow> audit_event_row list \<Rightarrow> (audit_error, audit_event_row list \<times> uuid \<times> bool) result" where
  "write_audit_event now untrusted rows =
     (case parse_audit_event untrusted of
        None \<Rightarrow> Inl AuditEventValidationError
      | Some v \<Rightarrow>
          (let (rows', created) = insert_row (\<lambda>a b. ae_id b = ae_id a) (ledger_row now v) rows
           in if created then Inr (rows', ae_id v, True)
              else if list_ex (same_evidence v) rows then Inr (rows, ae_id v, False)
              else Inl AuditEventConflictError))"

section \<open>Events of the components\<close>

text \<open>An event written by the system for an account.\<close>

definition system_event ::
  "runtime \<Rightarrow> uuid \<Rightarrow> string \<Rightarrow> uuid \<Rightarrow> string \<Rightarrow> string list \<Rightarrow> (string \<times> json) list \<Rightarrow> audit_event" where
  "system_event rt client entity i event parts detail =
     \<lparr>ae_id = deterministic_audit_event_id rt parts, ae_account_id = Some client, ae_entity = entity,
      ae_entity_id = Some i, ae_event = event, ae_actor_kind = ''system'', ae_actor_user_id = None,
      ae_rule_version_id = None, ae_rubric_snapshot_id = None, ae_detail = Some detail\<rparr>"

text \<open>An event an analyst causes.\<close>

definition analyst_event ::
  "runtime \<Rightarrow> uuid \<Rightarrow> string \<Rightarrow> uuid \<Rightarrow> string \<Rightarrow> string list \<Rightarrow> uuid option \<Rightarrow> (string \<times> json) list \<Rightarrow> audit_event" where
  "analyst_event rt client entity i event parts actor detail =
     \<lparr>ae_id = deterministic_audit_event_id rt parts, ae_account_id = Some client, ae_entity = entity,
      ae_entity_id = Some i, ae_event = event, ae_actor_kind = ''analyst'', ae_actor_user_id = actor,
      ae_rule_version_id = None, ae_rubric_snapshot_id = None, ae_detail = Some detail\<rparr>"

section \<open>The identifier\<close>

text \<open>A digest as \<open>digest('hex')\<close> prints it.\<close>

definition hex_digest :: "string \<Rightarrow> bool" where
  "hex_digest h = (length h = 64 \<and> list_all is_hex_digit h)"

lemma variant_nibble_hex [simp]: "is_hex_digit (variant_nibble c)"
  by (simp add: variant_nibble_def is_hex_digit_def Let_def)

lemma hex_not_dash: "is_hex_digit c \<Longrightarrow> c \<noteq> CHR ''-''"
  by (auto simp: is_hex_digit_def)

lemma uuid_of_hex_is_uuid:
  assumes "hex_digest h"
  shows "isUuid (uuid_of_hex h)"
proof -
  define b where "b = (take 32 h)[12 := CHR ''8'', 16 := variant_nibble (h ! 16)]"
  define gs where "gs = [take 8 b, take 4 (drop 8 b), take 4 (drop 12 b), take 4 (drop 16 b), drop 20 b]"
  have len: "length b = 32" using assms by (simp add: b_def hex_digest_def)
  have "is_hex_digit (CHR ''8'')" by code_simp
  then have "\<forall>c \<in> set b. is_hex_digit c"
    using assms set_take_subset [of 32 h]
    by (auto simp: b_def hex_digest_def list_all_iff dest!: set_update_subset_insert [THEN subsetD])
  then have "list_all is_hex_digit (take n (drop m b))" "list_all is_hex_digit (drop m b)"
    "list_all is_hex_digit (take n b)" for n m
    by (auto simp: list_all_iff dest!: in_set_takeD in_set_dropD)
  then have hex: "\<forall>g \<in> set gs. list_all is_hex_digit g" by (simp add: gs_def)
  then have nodash: "\<forall>g \<in> set gs. CHR ''-'' \<notin> set g" unfolding list_all_iff using hex_not_dash by blast
  have "gs \<noteq> []" by (simp add: gs_def)
  then have "js_split CHR ''-'' (js_join ''-'' gs) = gs"
    using nodash by (intro js_split_join) auto
  then show ?thesis
    using hex len unfolding uuid_of_hex_def Let_def isUuid_def b_def [symmetric] gs_def [symmetric]
    by (simp add: gs_def)
qed

section \<open>The ledger as an idempotent writer\<close>

lemma same_evidence_row [simp]: "same_evidence v (ledger_row now v)"
  by (simp add: same_evidence_def ledger_row_def same_detail_def audit_event.defs)

lemma ledger_row_id [simp]: "ae_id (ledger_row now v) = ae_id v"
  by (simp add: ledger_row_def audit_event.defs)

lemma write_audit_event_Inr:
  "write_audit_event now e rows = Inr (rows', r, c) \<longleftrightarrow>
     (\<exists>v. parse_audit_event e = Some v \<and> r = ae_id v \<and>
        (if list_ex (\<lambda>x. ae_id x = ae_id v) rows
         then list_ex (same_evidence v) rows \<and> rows' = rows \<and> \<not> c
         else rows' = rows @ [ledger_row now v] \<and> c))"
  by (cases "parse_audit_event e") (auto simp: write_audit_event_def insert_row_def)

interpretation ledger: idempotent_write write_audit_event prefix
proof
  show "prefix s s'" if "write_audit_event n i s = Inr (s', r, c)" for n i s s' r c
    using that by (auto simp: write_audit_event_Inr split: if_splits)
  show "write_audit_event n' i s'' = Inr (s'', r, False)"
    if w: "write_audit_event n i s = Inr (s', r, c)" and "prefix s' s''" for n n' i s s' s'' r c
  proof -
    obtain v where v: "parse_audit_event i = Some v" "r = ae_id v" "list_ex (same_evidence v) s'"
      using w by (auto simp: write_audit_event_Inr split: if_splits)
    then have "list_ex (same_evidence v) s''" using \<open>prefix s' s''\<close> by (blast intro: prefix_list_ex)
    then show ?thesis using v by (auto simp: write_audit_event_Inr list_ex_iff same_evidence_def)
  qed
qed auto

lemma write_audit_event_unique:
  "write_audit_event now e rows = Inr (rows', r, c) \<Longrightarrow> distinct (map ae_id rows) \<Longrightarrow> distinct (map ae_id rows')"
  by (fastforce simp: write_audit_event_Inr list_ex_iff split: if_splits)

section \<open>Properties\<close>

definition sample_digest :: "string \<Rightarrow> string" where
  "sample_digest s = take 64 (filter is_hex_digit (drop 37 s) @ replicate 64 CHR ''0'')"

definition ledger_runtime :: runtime where
  "ledger_runtime = \<lparr>rt_locale_compare = unit_compare, rt_sha256_hex = sample_digest, rt_number_string = fraction_string\<rparr>"

lemma sample_digest_hex: "hex_digest (sample_digest s)"
  by (auto simp: hex_digest_def sample_digest_def list_all_iff is_hex_digit_def dest!: in_set_takeD)

definition sample_event :: audit_event where
  "sample_event = \<lparr>ae_id = ''00000000-0000-8000-8000-0000000000a1'', ae_account_id = None, ae_entity = ''rule_version'',
     ae_entity_id = None, ae_event = ''deprecated'', ae_actor_kind = ''analyst'', ae_actor_user_id = None,
     ae_rule_version_id = None, ae_rubric_snapshot_id = None, ae_detail = Some [(''rationale'', JString ''stale'')]\<rparr>"

text \<open>
  The ledger is append-only and its writer is idempotent. After any sequence of successful
  writes the old rows are an unchanged prefix of the ledger, and writing any of the same events
  again, in any order and at any later time, succeeds without changing the ledger.
\<close>

theorem audit_ledger_replay:
  assumes "run_writes write_audit_event reqs rows = Inr rows'"
    and "snd ` set again \<subseteq> snd ` set reqs"
  shows "prefix rows rows' \<and> run_writes write_audit_event again rows' = Inr rows'"
  using ledger.run_writes_grows [OF assms(1)] ledger.replay_is_noop [OF assms] by simp

theorem audit_ledger_replay_witness:
  "\<exists>rows'. run_writes write_audit_event [(1, sample_event)] [] = Inr rows' \<and> length rows' = 1 \<and>
     run_writes write_audit_event [(2, sample_event), (3, sample_event)] rows' = Inr rows'"
proof -
  define rows' where "rows' = [ledger_row 1 sample_event]"
  have w: "run_writes write_audit_event [(1, sample_event)] [] = Inr rows'" unfolding rows'_def by code_simp
  have "run_writes write_audit_event [(2, sample_event), (3, sample_event)] rows' = Inr rows'"
    using audit_ledger_replay [OF w, of "[(2, sample_event), (3, sample_event)]"] by simp
  then show ?thesis using w by (auto simp: rows'_def)
qed

text \<open>
  The derived identifier of an audit event is a uuid the event schema and the uuid column
  accept, whatever the parts are, provided that SHA-256 prints as 64 hexadecimal digits.
\<close>

theorem deterministic_id_is_uuid:
  assumes "\<And>m. hex_digest (rt_sha256_hex rt m)"
  shows "isUuid (deterministic_audit_event_id rt parts)"
  unfolding deterministic_audit_event_id_def using assms by (rule uuid_of_hex_is_uuid)

theorem deterministic_id_is_uuid_witness:
  "(\<forall>m. hex_digest (rt_sha256_hex ledger_runtime m)) \<and>
   isUuid (deterministic_audit_event_id ledger_runtime [''00000000-0000-0000-0000-0000000000a1'', ''replay.executed''])"
proof -
  have d: "hex_digest (rt_sha256_hex ledger_runtime m)" for m
    by (simp add: ledger_runtime_def sample_digest_hex)
  show ?thesis using deterministic_id_is_uuid [of ledger_runtime, OF d] d by blast
qed

end
