(* ===== verification/Job_Queue.thy ===== *)
theory Job_Queue
  imports Audit_Ledger Rubric_Resolver
begin

text \<open>
  The job contracts and the transactional enqueue (src/jobs/contracts.ts, enqueue.ts,
  job-dispatcher.ts). The pg-boss package is a parameter.
\<close>

section \<open>contracts.ts\<close>

datatype job_name =
    PROCESS_INGESTION_V1 | EVALUATE_AUDIT_V1 | REPLAY_AUDIT_V1 | SYNC_REFERENCE_DATA_V1 | ESCALATE_CLAIM_V1
  | FOLLOW_UP_CLAIM_V1 | SCAN_CLAIM_AGING_V1 | DISCOVER_TRIGGERS_V1 | SCAN_WORKFLOW_COMMANDS_V1
  | RUN_WORKFLOW_COMMAND_V1 | SCAN_OUTBOX_MESSAGES_V1 | DELIVER_OUTBOX_MESSAGE_V1 | EXPORT_RECORD_V1

fun job_name_text :: "job_name \<Rightarrow> string" where
  "job_name_text PROCESS_INGESTION_V1 = ''freight.ingestion.process.v1''"
| "job_name_text EVALUATE_AUDIT_V1 = ''freight.audit.evaluate.v1''"
| "job_name_text REPLAY_AUDIT_V1 = ''freight.audit.replay.v1''"
| "job_name_text SYNC_REFERENCE_DATA_V1 = ''freight.reference-data.sync.v1''"
| "job_name_text ESCALATE_CLAIM_V1 = ''freight.claims.escalate.v1''"
| "job_name_text FOLLOW_UP_CLAIM_V1 = ''freight.claims.follow-up.v1''"
| "job_name_text SCAN_CLAIM_AGING_V1 = ''freight.claims.scan-aging.v1''"
| "job_name_text DISCOVER_TRIGGERS_V1 = ''freight.discovery.detect-triggers.v1''"
| "job_name_text SCAN_WORKFLOW_COMMANDS_V1 = ''freight.workflow.scan-commands.v1''"
| "job_name_text RUN_WORKFLOW_COMMAND_V1 = ''freight.workflow.run-command.v1''"
| "job_name_text SCAN_OUTBOX_MESSAGES_V1 = ''freight.workflow.scan-outbox.v1''"
| "job_name_text DELIVER_OUTBOX_MESSAGE_V1 = ''freight.workflow.deliver-outbox-message.v1''"
| "job_name_text EXPORT_RECORD_V1 = ''freight.exports.export-record.v1''"

fun dead_letter_name :: "job_name \<Rightarrow> string" where
  "dead_letter_name PROCESS_INGESTION_V1 = ''freight.ingestion.process.dead-letter.v1''"
| "dead_letter_name EVALUATE_AUDIT_V1 = ''freight.audit.evaluate.dead-letter.v1''"
| "dead_letter_name REPLAY_AUDIT_V1 = ''freight.audit.replay.dead-letter.v1''"
| "dead_letter_name SYNC_REFERENCE_DATA_V1 = ''freight.reference-data.sync.dead-letter.v1''"
| "dead_letter_name ESCALATE_CLAIM_V1 = ''freight.claims.escalate.dead-letter.v1''"
| "dead_letter_name FOLLOW_UP_CLAIM_V1 = ''freight.claims.follow-up.dead-letter.v1''"
| "dead_letter_name SCAN_CLAIM_AGING_V1 = ''freight.claims.scan-aging.dead-letter.v1''"
| "dead_letter_name DISCOVER_TRIGGERS_V1 = ''freight.discovery.detect-triggers.dead-letter.v1''"
| "dead_letter_name SCAN_WORKFLOW_COMMANDS_V1 = ''freight.workflow.scan-commands.dead-letter.v1''"
| "dead_letter_name RUN_WORKFLOW_COMMAND_V1 = ''freight.workflow.run-command.dead-letter.v1''"
| "dead_letter_name SCAN_OUTBOX_MESSAGES_V1 = ''freight.workflow.scan-outbox.dead-letter.v1''"
| "dead_letter_name DELIVER_OUTBOX_MESSAGE_V1 = ''freight.workflow.deliver-outbox-message.dead-letter.v1''"
| "dead_letter_name EXPORT_RECORD_V1 = ''freight.exports.export-record.dead-letter.v1''"

text \<open>The field validators the payload schemas use.\<close>

datatype field_type =
    Literal1 | Uuid_Field | Nullable_Uuid | Trimmed_Text | Offset_Datetime | Source_Enum | Type_Name | Open_Record

definition envelope :: "(string \<times> field_type) list" where
  "envelope =
     [(''schemaVersion'', Literal1), (''clientId'', Uuid_Field), (''idempotencyKey'', Trimmed_Text),
      (''requestedAt'', Offset_Datetime)]"

definition scan_envelope :: "(string \<times> field_type) list" where
  "scan_envelope = [(''schemaVersion'', Literal1), (''requestedAt'', Offset_Datetime)]"

fun job_payload_schema :: "job_name \<Rightarrow> (string \<times> field_type) list" where
  "job_payload_schema PROCESS_INGESTION_V1 = envelope @ [(''sourceObjectId'', Uuid_Field)]"
| "job_payload_schema EVALUATE_AUDIT_V1 = envelope @ [(''auditRunId'', Uuid_Field)]"
| "job_payload_schema REPLAY_AUDIT_V1 = envelope @ [(''auditRunId'', Uuid_Field), (''replayRequestId'', Uuid_Field)]"
| "job_payload_schema SYNC_REFERENCE_DATA_V1 = envelope @ [(''source'', Source_Enum), (''publicationVersion'', Trimmed_Text)]"
| "job_payload_schema ESCALATE_CLAIM_V1 = envelope @ [(''claimId'', Uuid_Field)]"
| "job_payload_schema FOLLOW_UP_CLAIM_V1 = envelope @ [(''claimId'', Uuid_Field)]"
| "job_payload_schema SCAN_CLAIM_AGING_V1 = scan_envelope"
| "job_payload_schema DISCOVER_TRIGGERS_V1 = envelope @ [(''auditRunId'', Uuid_Field)]"
| "job_payload_schema SCAN_WORKFLOW_COMMANDS_V1 = scan_envelope"
| "job_payload_schema RUN_WORKFLOW_COMMAND_V1 =
     envelope @ [(''commandId'', Uuid_Field), (''workflowInstanceId'', Uuid_Field), (''commandType'', Type_Name),
       (''payload'', Open_Record)]"
| "job_payload_schema SCAN_OUTBOX_MESSAGES_V1 = scan_envelope"
| "job_payload_schema DELIVER_OUTBOX_MESSAGE_V1 =
     envelope @ [(''outboxMessageId'', Uuid_Field), (''workflowInstanceId'', Uuid_Field), (''commandId'', Uuid_Field),
       (''messageType'', Type_Name), (''payload'', Open_Record)]"
| "job_payload_schema EXPORT_RECORD_V1 =
     envelope @ [(''claimId'', Nullable_Uuid), (''paymentGateDecisionId'', Nullable_Uuid), (''systemCode'', Trimmed_Text),
       (''payload'', Open_Record)]"

text \<open>The pattern \<open>^[a-z][a-z0-9_]*$\<close>.\<close>

definition is_type_name :: "string \<Rightarrow> bool" where
  "is_type_name s =
     (case s of
        [] \<Rightarrow> False
      | c # cs \<Rightarrow> is_lower_char c \<and> list_all (\<lambda>d. is_lower_char d \<or> is_digit d \<or> d = CHR ''_'') cs)"

text \<open>The parsed value of a field, \<open>None\<close> when the schema rejects it.\<close>

fun parse_field :: "zod_lib \<Rightarrow> field_type \<Rightarrow> json option \<Rightarrow> json option" where
  "parse_field Z Literal1 (Some (JNumber (JFin n))) = (if n = 1 then Some (JNumber (JFin n)) else None)"
| "parse_field Z Uuid_Field (Some (JString s)) = (if zod_uuid Z s then Some (JString s) else None)"
| "parse_field Z Nullable_Uuid None = Some JNull"
| "parse_field Z Nullable_Uuid (Some JNull) = Some JNull"
| "parse_field Z Nullable_Uuid (Some (JString s)) = (if zod_uuid Z s then Some (JString s) else None)"
| "parse_field Z Trimmed_Text (Some (JString s)) =
     (let t = js_trim s in if 1 \<le> length t \<and> length t \<le> 255 then Some (JString t) else None)"
| "parse_field Z Offset_Datetime (Some (JString s)) = (if zod_datetime Z s \<noteq> None then Some (JString s) else None)"
| "parse_field Z Source_Enum (Some (JString s)) =
     (if s \<in> {''eia_diesel'', ''mileage'', ''ocean_tariff'', ''nmfc''} then Some (JString s) else None)"
| "parse_field Z Type_Name (Some (JString s)) = (if is_type_name s then Some (JString s) else None)"
| "parse_field Z Open_Record (Some (JObject ms)) = Some (JObject ms)"
| "parse_field Z _ _ = None"

definition json_member :: "string \<Rightarrow> (string \<times> json) list \<Rightarrow> json option" where
  "json_member k ms = map_of ms k"

text \<open>A strict object: every member is a field of the schema. The result lists the fields in the order of the schema.\<close>

definition parse_strict :: "zod_lib \<Rightarrow> (string \<times> field_type) list \<Rightarrow> json \<Rightarrow> (string \<times> json) list option" where
  "parse_strict Z fds v =
     (case v of
        JObject ms \<Rightarrow>
          (let vs = map (\<lambda>(k, ty). (k, parse_field Z ty (json_member k ms))) fds
           in if list_all (\<lambda>(k, _). k \<in> set (map fst fds)) ms \<and> list_all (\<lambda>(k, f). f \<noteq> None) vs
              then Some (map (\<lambda>(k, f). (k, the f)) vs) else None)
      | _ \<Rightarrow> None)"

datatype job_error =
    JobPayloadValidationError job_name
  | JobTenantMismatchError

definition parse_job_payload :: "zod_lib \<Rightarrow> job_name \<Rightarrow> json \<Rightarrow> (job_error, (string \<times> json) list) result" where
  "parse_job_payload Z name payload =
     (case parse_strict Z (job_payload_schema name) payload of
        None \<Rightarrow> Inl (JobPayloadValidationError name)
      | Some p \<Rightarrow> Inr p)"

section \<open>enqueue.ts\<close>

definition deterministic_job_id :: "runtime \<Rightarrow> job_name \<Rightarrow> uuid \<Rightarrow> string \<Rightarrow> uuid" where
  "deterministic_job_id rt name client key =
     uuid_of_hex (rt_sha256_hex rt (job_name_text name @ [CHR 0x00] @ client @ [CHR 0x00] @ key))"

record boss_job =
  bj_id :: uuid
  bj_name :: job_name
  bj_payload :: "(string \<times> json) list"

text \<open>The operation \<open>send\<close> of pg-boss on its job table: the new table and whether a job was inserted.\<close>

record boss_lib =
  boss_send :: "boss_job \<Rightarrow> boss_job list \<Rightarrow> boss_job list \<times> bool"

definition text_member :: "string \<Rightarrow> (string \<times> json) list \<Rightarrow> string" where
  "text_member k ms = (case json_member k ms of Some (JString s) \<Rightarrow> s | _ \<Rightarrow> [])"

definition enqueue_in_transaction ::
  "runtime \<Rightarrow> zod_lib \<Rightarrow> boss_lib \<Rightarrow> uuid \<Rightarrow> job_name \<Rightarrow> json \<Rightarrow> string option \<Rightarrow> boss_job list
   \<Rightarrow> (job_error, boss_job list \<times> uuid \<times> bool) result" where
  "enqueue_in_transaction rt Z B tenant name untrusted key jobs =
     rbind (parse_job_payload Z name untrusted) (\<lambda>payload.
     rbind (ensure (text_member ''clientId'' payload = tenant) JobTenantMismatchError) (\<lambda>_.
       let job_id = deterministic_job_id rt name (text_member ''clientId'' payload)
                      (case key of Some k \<Rightarrow> k | None \<Rightarrow> text_member ''idempotencyKey'' payload);
           (jobs', inserted) = boss_send B \<lparr>bj_id = job_id, bj_name = name, bj_payload = payload\<rparr> jobs
       in Inr (jobs', job_id, inserted)))"

text \<open>What the sources rely on: \<open>send\<close> with an explicit id does nothing when a job with that id exists.\<close>

definition boss_dedupes :: "boss_lib \<Rightarrow> bool" where
  "boss_dedupes B = (\<forall>j jobs. boss_send B j jobs = insert_row (\<lambda>a b. bj_id a = bj_id b) j jobs)"

end
