(* ===== verification/Workflow.thy ===== *)
theory Workflow
  imports Job_Queue
begin

text \<open>
  The workflow runtime (src/modules/workflow, src/jobs): workflow instances with their transition
  log, resumable commands, the outbox, and the claim, complete and reclaim cycle that both tables
  share. Instants are milliseconds.
\<close>

section \<open>Tables\<close>

record workflow_instance =
  wi_id :: uuid
  wi_account_id :: uuid
  wi_workflow_type :: string
  wi_subject_entity :: string
  wi_subject_entity_id :: uuid
  wi_current_state :: string
  wi_created_at :: instant
  wi_updated_at :: instant

record workflow_transition =
  wt_id :: uuid
  wt_account_id :: uuid
  wt_workflow_instance_id :: uuid
  wt_from_state :: string
  wt_to_state :: string
  wt_recorded_at :: instant

text \<open>
  The columns \<open>workflow_command\<close> and \<open>workflow_outbox_message\<close> have in common. \<open>cr_due\<close> is
  \<open>run_after\<close> in the former and \<open>created_at\<close> in the latter; \<open>Finished\<close> is the status 'done' of a
  command and 'delivered' of a message.
\<close>

datatype claim_status = Pending | Claimed | Finished | Failed

record claim_row =
  cr_id :: uuid
  cr_account_id :: uuid
  cr_workflow_instance_id :: uuid
  cr_due :: instant
  cr_status :: claim_status
  cr_attempts :: int
  cr_claimed_at :: "instant option"

record workflow_command = claim_row +
  wc_command_type :: string
  wc_payload :: "(string \<times> json) list"

record outbox_message = claim_row +
  ob_command_id :: uuid
  ob_dedupe_key :: string
  ob_message_type :: string
  ob_payload :: "(string \<times> json) list"

record workflow_db =
  wd_accounts :: "(uuid \<times> bool) list"
  wd_instances :: "workflow_instance list"
  wd_transitions :: "workflow_transition list"
  wd_commands :: "workflow_command list"
  wd_outbox :: "outbox_message list"
  wd_audit :: "audit_event_row list"
  wd_jobs :: "boss_job list"

datatype workflow_error =
    ZodError
  | UNKNOWN_FROM_STATE
  | ILLEGAL_TRANSITION
  | INSTANCE_NOT_FOUND
  | COMMAND_NOT_FOUND
  | ColumnCheckViolation
  | WorkflowAuditError audit_error
  | WorkflowJobError job_error
  | UnknownHandlerType string
  | HandlerError string

definition write_workflow_event :: "instant \<Rightarrow> audit_event \<Rightarrow> workflow_db \<Rightarrow> (workflow_error, workflow_db) result" where
  "write_workflow_event now e db =
     (case write_audit_event now e (wd_audit db) of
        Inl x \<Rightarrow> Inl (WorkflowAuditError x)
      | Inr (rows, _) \<Rightarrow> Inr (db\<lparr>wd_audit := rows\<rparr>))"

section \<open>create-workflow-instance.ts\<close>

record create_instance_input =
  ci_client_id :: uuid
  ci_workflow_type :: string
  ci_subject_entity :: string
  ci_subject_entity_id :: uuid
  ci_initial_state :: string

definition instance_of_subject :: "create_instance_input \<Rightarrow> workflow_instance \<Rightarrow> bool" where
  "instance_of_subject i w =
     (wi_account_id w = ci_client_id i \<and> wi_workflow_type w = ci_workflow_type i \<and>
      wi_subject_entity w = ci_subject_entity i \<and> wi_subject_entity_id w = ci_subject_entity_id i)"

text \<open>
  One transaction runs at a time here, so the insert after an empty read does not conflict. The
  CHECK constraints of migration 0046 hold for the text columns.
\<close>

definition create_workflow_instance ::
  "runtime \<Rightarrow> uuid \<Rightarrow> instant \<Rightarrow> create_instance_input \<Rightarrow> workflow_db \<Rightarrow> (workflow_error, workflow_db \<times> workflow_instance) result" where
  "create_workflow_instance rt new_id now i db =
     (case find (instance_of_subject i) (wd_instances db) of
        Some w \<Rightarrow> Inr (db, w)
      | None \<Rightarrow>
          rbind (ensure (is_type_name (ci_workflow_type i) \<and> is_type_name (ci_subject_entity i) \<and>
                         is_type_name (ci_initial_state i)) ColumnCheckViolation) (\<lambda>_.
            let w = \<lparr>wi_id = new_id, wi_account_id = ci_client_id i, wi_workflow_type = ci_workflow_type i,
                     wi_subject_entity = ci_subject_entity i, wi_subject_entity_id = ci_subject_entity_id i,
                     wi_current_state = ci_initial_state i, wi_created_at = now, wi_updated_at = now\<rparr>
            in rbind (write_workflow_event now
                 (system_event rt (wi_account_id w) ''workflow_instance'' (wi_id w) ''workflow.created''
                    [wi_account_id w, wi_id w, ''workflow.created'']
                    [(''workflowType'', JString (wi_workflow_type w)), (''subjectEntity'', JString (wi_subject_entity w)),
                     (''subjectEntityId'', JString (wi_subject_entity_id w)), (''initialState'', JString (wi_current_state w))])
                 (db\<lparr>wd_instances := wd_instances db @ [w]\<rparr>)) (\<lambda>db'. Inr (db', w))))"

definition get_workflow_instance :: "uuid \<Rightarrow> workflow_db \<Rightarrow> workflow_instance option" where
  "get_workflow_instance i db = find (\<lambda>w. wi_id w = i) (wd_instances db)"

section \<open>validate-workflow-transition.ts, append-workflow-transition.ts\<close>

type_synonym transition_map = "string \<rightharpoonup> string list"

definition validate_workflow_transition :: "string \<Rightarrow> string \<Rightarrow> transition_map \<Rightarrow> (workflow_error, unit) result" where
  "validate_workflow_transition old new allowed =
     (if old = new then Inr ()
      else case allowed old of
             None \<Rightarrow> Inl UNKNOWN_FROM_STATE
           | Some ts \<Rightarrow> ensure (new \<in> set ts) ILLEGAL_TRANSITION)"

record append_input =
  ap_client_id :: uuid
  ap_workflow_instance_id :: uuid
  ap_to_state :: string

text \<open>The row is locked, so the update and the log entry see the state that was validated.\<close>

definition append_workflow_transition ::
  "runtime \<Rightarrow> zod_lib \<Rightarrow> transition_map \<Rightarrow> uuid \<Rightarrow> instant \<Rightarrow> append_input \<Rightarrow> workflow_db
   \<Rightarrow> (workflow_error, workflow_db) result" where
  "append_workflow_transition rt Z allowed new_id now i db =
     rbind (ensure (zod_uuid Z (ap_client_id i) \<and> zod_uuid Z (ap_workflow_instance_id i) \<and> ap_to_state i \<noteq> []) ZodError) (\<lambda>_.
     case find (\<lambda>w. wi_account_id w = ap_client_id i \<and> wi_id w = ap_workflow_instance_id i) (wd_instances db) of
       None \<Rightarrow> Inl INSTANCE_NOT_FOUND
     | Some w \<Rightarrow>
         rbind (validate_workflow_transition (wi_current_state w) (ap_to_state i) allowed) (\<lambda>_.
         rbind (ensure (is_type_name (ap_to_state i)) ColumnCheckViolation) (\<lambda>_.
           let t = \<lparr>wt_id = new_id, wt_account_id = wi_account_id w, wt_workflow_instance_id = wi_id w,
                    wt_from_state = wi_current_state w, wt_to_state = ap_to_state i, wt_recorded_at = now\<rparr>
           in write_workflow_event now
                (system_event rt (wi_account_id w) ''workflow_instance'' (wi_id w) ''workflow.transitioned''
                   [wi_account_id w, wt_id t, ''workflow.transitioned'']
                   [(''fromState'', JString (wt_from_state t)), (''toState'', JString (ap_to_state i)),
                    (''transitionId'', JString (wt_id t))])
                (db\<lparr>wd_instances := map (\<lambda>x. if wi_id x = wi_id w
                                             then x\<lparr>wi_current_state := ap_to_state i, wi_updated_at := now\<rparr> else x)
                                       (wd_instances db),
                    wd_transitions := wd_transitions db @ [t]\<rparr>))))"

section \<open>claim-due-workflow-commands.ts and the claims of workflow-outbox.ts\<close>

record claim_query =
  cq_client_id :: uuid
  cq_now :: instant
  cq_limit :: int

text \<open>
  \<open>SELECT id ... ORDER BY key LIMIT n FOR UPDATE SKIP LOCKED\<close>: \<open>locked\<close> are the rows other
  transactions hold. Rows with equal keys are taken in table order.
\<close>

definition select_rows ::
  "uuid list \<Rightarrow> ('a claim_row_scheme \<Rightarrow> bool) \<Rightarrow> ('a claim_row_scheme \<Rightarrow> int) \<Rightarrow> int \<Rightarrow> 'a claim_row_scheme list
   \<Rightarrow> 'a claim_row_scheme list" where
  "select_rows locked p key n rows = take (nat n) (js_sort (by_int key) (filter (\<lambda>r. p r \<and> cr_id r \<notin> set locked) rows))"

text \<open>\<open>UPDATE ... WHERE id IN (...) RETURNING ...\<close>: the new table and the updated rows.\<close>

definition update_rows ::
  "('a claim_row_scheme \<Rightarrow> 'a claim_row_scheme) \<Rightarrow> uuid list \<Rightarrow> 'a claim_row_scheme list
   \<Rightarrow> 'a claim_row_scheme list \<times> 'a claim_row_scheme list" where
  "update_rows f ids rows =
     (map (\<lambda>r. if cr_id r \<in> set ids then f r else r) rows, map f (filter (\<lambda>r. cr_id r \<in> set ids) rows))"

definition is_due :: "claim_query \<Rightarrow> 'a claim_row_scheme \<Rightarrow> bool" where
  "is_due q r = (cr_account_id r = cq_client_id q \<and> cr_status r = Pending \<and> cr_due r \<le> cq_now q)"

definition mark_claimed :: "instant \<Rightarrow> 'a claim_row_scheme \<Rightarrow> 'a claim_row_scheme" where
  "mark_claimed now r = r\<lparr>cr_status := Claimed, cr_attempts := cr_attempts r + 1, cr_claimed_at := Some now\<rparr>"

definition claim_limit_ok :: "zod_lib \<Rightarrow> int \<Rightarrow> bool" where
  "claim_limit_ok Z n = (zod_int Z n \<and> 0 < n \<and> n \<le> 100)"

definition claim_due ::
  "zod_lib \<Rightarrow> uuid list \<Rightarrow> claim_query \<Rightarrow> 'a claim_row_scheme list
   \<Rightarrow> (workflow_error, 'a claim_row_scheme list \<times> 'a claim_row_scheme list) result" where
  "claim_due Z locked q rows =
     rbind (ensure (zod_uuid Z (cq_client_id q) \<and> claim_limit_ok Z (cq_limit q)) ZodError) (\<lambda>_.
       Inr (update_rows (mark_claimed (cq_now q))
              (map cr_id (select_rows locked (is_due q) cr_due (cq_limit q) rows)) rows))"

definition claim_due_workflow_commands ::
  "zod_lib \<Rightarrow> uuid list \<Rightarrow> claim_query \<Rightarrow> workflow_db \<Rightarrow> (workflow_error, workflow_db \<times> workflow_command list) result" where
  "claim_due_workflow_commands Z locked q db =
     rbind (claim_due Z locked q (wd_commands db)) (\<lambda>(rows, claimed). Inr (db\<lparr>wd_commands := rows\<rparr>, claimed))"

definition claim_due_outbox_messages ::
  "zod_lib \<Rightarrow> uuid list \<Rightarrow> claim_query \<Rightarrow> workflow_db \<Rightarrow> (workflow_error, workflow_db \<times> outbox_message list) result" where
  "claim_due_outbox_messages Z locked q db =
     rbind (claim_due Z locked q (wd_outbox db)) (\<lambda>(rows, claimed). Inr (db\<lparr>wd_outbox := rows\<rparr>, claimed))"

text \<open>Completing a row that is claimed, or finished already.\<close>

definition complete_claim ::
  "zod_lib \<Rightarrow> uuid \<Rightarrow> uuid \<Rightarrow> 'a claim_row_scheme list \<Rightarrow> (workflow_error, 'a claim_row_scheme list \<times> bool) result" where
  "complete_claim Z client i rows =
     rbind (ensure (zod_uuid Z client \<and> zod_uuid Z i) ZodError) (\<lambda>_.
       let hit = (\<lambda>r. cr_account_id r = client \<and> cr_id r = i \<and> (cr_status r = Claimed \<or> cr_status r = Finished))
       in Inr (map (\<lambda>r. if hit r then r\<lparr>cr_status := Finished\<rparr> else r) rows, list_ex hit rows))"

definition complete_workflow_command ::
  "zod_lib \<Rightarrow> uuid \<Rightarrow> uuid \<Rightarrow> workflow_db \<Rightarrow> (workflow_error, workflow_db \<times> bool) result" where
  "complete_workflow_command Z client i db =
     rbind (complete_claim Z client i (wd_commands db)) (\<lambda>(rows, found). Inr (db\<lparr>wd_commands := rows\<rparr>, found))"

definition complete_outbox_message ::
  "runtime \<Rightarrow> zod_lib \<Rightarrow> instant \<Rightarrow> uuid \<Rightarrow> uuid \<Rightarrow> workflow_db \<Rightarrow> (workflow_error, workflow_db \<times> bool) result" where
  "complete_outbox_message rt Z now client i db =
     rbind (complete_claim Z client i (wd_outbox db)) (\<lambda>(rows, found).
       if found
       then rbind (write_workflow_event now
              (system_event rt client ''workflow_outbox_message'' i ''workflow.outbox_message_delivered''
                 [client, i, ''workflow.outbox_message_delivered''] []) (db\<lparr>wd_outbox := rows\<rparr>)) (\<lambda>db'. Inr (db', True))
       else Inr (db\<lparr>wd_outbox := rows\<rparr>, False))"

section \<open>reclaim-stale-claims.ts\<close>

record reclaim_query =
  rc_client_id :: uuid
  rc_now :: instant
  rc_stale_after_minutes :: int
  rc_max_attempts :: int
  rc_limit :: int

definition default_reclaim :: "uuid \<Rightarrow> instant \<Rightarrow> reclaim_query" where
  "default_reclaim client now =
     \<lparr>rc_client_id = client, rc_now = now, rc_stale_after_minutes = 30, rc_max_attempts = 5, rc_limit = 20\<rparr>"

definition is_stale :: "uuid \<Rightarrow> instant \<Rightarrow> 'a claim_row_scheme \<Rightarrow> bool" where
  "is_stale client cutoff r =
     (cr_account_id r = client \<and> cr_status r = Claimed \<and> (case cr_claimed_at r of None \<Rightarrow> False | Some t \<Rightarrow> t \<le> cutoff))"

definition claimed_instant :: "'a claim_row_scheme \<Rightarrow> int" where
  "claimed_instant r = (case cr_claimed_at r of None \<Rightarrow> 0 | Some t \<Rightarrow> t)"

definition release_claim :: "int \<Rightarrow> 'a claim_row_scheme \<Rightarrow> 'a claim_row_scheme" where
  "release_claim max_attempts r =
     r\<lparr>cr_status := (if cr_attempts r \<ge> max_attempts then Failed else Pending), cr_claimed_at := None\<rparr>"

definition stale_cutoff :: "reclaim_query \<Rightarrow> instant" where
  "stale_cutoff q = rc_now q - rc_stale_after_minutes q * 60000"

definition reclaim_stale_claims ::
  "zod_lib \<Rightarrow> uuid list \<Rightarrow> reclaim_query \<Rightarrow> 'a claim_row_scheme list
   \<Rightarrow> (workflow_error, 'a claim_row_scheme list \<times> 'a claim_row_scheme list) result" where
  "reclaim_stale_claims Z locked q rows =
     rbind (ensure (zod_uuid Z (rc_client_id q) \<and> zod_int Z (rc_stale_after_minutes q) \<and> 0 < rc_stale_after_minutes q \<and>
                    zod_int Z (rc_max_attempts q) \<and> 0 < rc_max_attempts q \<and> claim_limit_ok Z (rc_limit q)) ZodError) (\<lambda>_.
       Inr (update_rows (release_claim (rc_max_attempts q))
              (map cr_id (select_rows locked (is_stale (rc_client_id q) (stale_cutoff q)) claimed_instant (rc_limit q) rows)) rows))"

record reclaim_config =
  rcf_entity :: string
  rcf_reclaimed_event :: string
  rcf_failed_event :: string

definition command_reclaim_config :: reclaim_config where
  "command_reclaim_config = \<lparr>rcf_entity = ''workflow_command'', rcf_reclaimed_event = ''workflow.command_reclaimed'',
     rcf_failed_event = ''workflow.command_failed''\<rparr>"

definition outbox_reclaim_config :: reclaim_config where
  "outbox_reclaim_config = \<lparr>rcf_entity = ''workflow_outbox_message'',
     rcf_reclaimed_event = ''workflow.outbox_message_reclaimed'', rcf_failed_event = ''workflow.outbox_message_failed''\<rparr>"

definition reclaim_event :: "runtime \<Rightarrow> reclaim_config \<Rightarrow> uuid \<Rightarrow> 'a claim_row_scheme \<Rightarrow> audit_event" where
  "reclaim_event rt cfg client r =
     (let event = (if cr_status r = Failed then rcf_failed_event cfg else rcf_reclaimed_event cfg)
      in system_event rt client (rcf_entity cfg) (cr_id r) event
           [client, cr_id r, event, show_int (cr_attempts r)]
           [(''workflowInstanceId'', JString (cr_workflow_instance_id r)), (''attempts'', JNumber (JFin (of_int (cr_attempts r))))])"

text \<open>
  \<open>reclaimStaleClaimsForActiveClients\<close> over the table read and written by \<open>get\<close> and \<open>put\<close>. The
  answer counts the rows made pending again and the rows that failed.
\<close>

definition reclaim_for_active_clients ::
  "runtime \<Rightarrow> zod_lib \<Rightarrow> reclaim_config \<Rightarrow> (workflow_db \<Rightarrow> 'a claim_row_scheme list)
   \<Rightarrow> ('a claim_row_scheme list \<Rightarrow> workflow_db \<Rightarrow> workflow_db) \<Rightarrow> uuid list \<Rightarrow> instant \<Rightarrow> workflow_db
   \<Rightarrow> (workflow_error, workflow_db \<times> nat \<times> nat) result" where
  "reclaim_for_active_clients rt Z cfg get_rows put_rows locked now db =
     rfold (\<lambda>(db, reclaimed, failed) client.
       rbind (reclaim_stale_claims Z locked (default_reclaim client now) (get_rows db)) (\<lambda>(rows, recovered).
       rbind (rfold (\<lambda>d r. write_workflow_event now (reclaim_event rt cfg client r) d) (put_rows rows db) recovered) (\<lambda>db'.
         Inr (db', reclaimed + length (filter (\<lambda>r. cr_status r \<noteq> Failed) recovered),
              failed + length (filter (\<lambda>r. cr_status r = Failed) recovered)))))
       (db, 0, 0) (map fst (filter snd (wd_accounts db)))"

definition reclaim_stale_workflow_commands_for_active_clients ::
  "runtime \<Rightarrow> zod_lib \<Rightarrow> uuid list \<Rightarrow> instant \<Rightarrow> workflow_db \<Rightarrow> (workflow_error, workflow_db \<times> nat \<times> nat) result" where
  "reclaim_stale_workflow_commands_for_active_clients rt Z =
     reclaim_for_active_clients rt Z command_reclaim_config wd_commands (\<lambda>rows db. db\<lparr>wd_commands := rows\<rparr>)"

definition reclaim_stale_outbox_messages_for_active_clients ::
  "runtime \<Rightarrow> zod_lib \<Rightarrow> uuid list \<Rightarrow> instant \<Rightarrow> workflow_db \<Rightarrow> (workflow_error, workflow_db \<times> nat \<times> nat) result" where
  "reclaim_stale_outbox_messages_for_active_clients rt Z =
     reclaim_for_active_clients rt Z outbox_reclaim_config wd_outbox (\<lambda>rows db. db\<lparr>wd_outbox := rows\<rparr>)"

end
