(* ===== verification/Workflow_Jobs.thy ===== *)
theory Workflow_Jobs
  imports Workflow
begin

text \<open>
  Scheduling on top of the claim cycle: recording commands and outbox messages, the scan jobs that
  reclaim and claim due rows and enqueue one job for each, and the dispatcher that runs a claimed
  row's handler and completes it. \<open>isof\<close> stands for \<open>Date.prototype.toISOString\<close>.
\<close>

section \<open>schedule-workflow-command.ts\<close>

record schedule_input =
  sc_client_id :: uuid
  sc_workflow_instance_id :: uuid
  sc_command_type :: string
  sc_payload :: "(string \<times> json) list"
  sc_run_after :: instant

definition same_command :: "workflow_command \<Rightarrow> workflow_command \<Rightarrow> bool" where
  "same_command a b =
     (cr_account_id a = cr_account_id b \<and> cr_workflow_instance_id a = cr_workflow_instance_id b \<and>
      wc_command_type a = wc_command_type b \<and> cr_due a = cr_due b)"

definition new_command :: "uuid \<Rightarrow> schedule_input \<Rightarrow> workflow_command" where
  "new_command new_id i =
     \<lparr>cr_id = new_id, cr_account_id = sc_client_id i, cr_workflow_instance_id = sc_workflow_instance_id i,
      cr_due = sc_run_after i, cr_status = Pending, cr_attempts = 0, cr_claimed_at = None,
      wc_command_type = sc_command_type i, wc_payload = sc_payload i\<rparr>"

definition command_scheduled_event :: "runtime \<Rightarrow> (instant \<Rightarrow> string) \<Rightarrow> uuid \<Rightarrow> schedule_input \<Rightarrow> audit_event" where
  "command_scheduled_event rt isof new_id i =
     system_event rt (sc_client_id i) ''workflow_command'' new_id ''workflow.command_scheduled''
       [sc_client_id i, new_id, ''workflow.command_scheduled'']
       [(''workflowInstanceId'', JString (sc_workflow_instance_id i)), (''commandType'', JString (sc_command_type i)),
        (''runAfter'', JString (isof (sc_run_after i)))]"

definition schedule_workflow_command ::
  "runtime \<Rightarrow> zod_lib \<Rightarrow> (instant \<Rightarrow> string) \<Rightarrow> uuid \<times> instant \<Rightarrow> schedule_input \<Rightarrow> workflow_db
   \<Rightarrow> (workflow_error, workflow_db \<times> uuid \<times> bool) result" where
  "schedule_workflow_command rt Z isof g i db =
     rbind (ensure (zod_uuid Z (sc_client_id i) \<and> zod_uuid Z (sc_workflow_instance_id i) \<and> is_type_name (sc_command_type i)) ZodError) (\<lambda>_.
     rbind (ensure (list_ex (\<lambda>w. wi_account_id w = sc_client_id i \<and> wi_id w = sc_workflow_instance_id i) (wd_instances db))
              INSTANCE_NOT_FOUND) (\<lambda>_.
       case find (same_command (new_command (fst g) i)) (wd_commands db) of
         Some c \<Rightarrow> Inr (db, cr_id c, False)
       | None \<Rightarrow>
           rbind (write_workflow_event (snd g)
             (command_scheduled_event rt isof (fst g) i)
             (db\<lparr>wd_commands := wd_commands db @ [new_command (fst g) i]\<rparr>)) (\<lambda>db'. Inr (db', fst g, True))))"

section \<open>workflow-outbox.ts\<close>

record outbox_input =
  oi_client_id :: uuid
  oi_workflow_instance_id :: uuid
  oi_command_id :: uuid
  oi_dedupe_key :: string
  oi_payload :: "(string \<times> json) list"
  oi_message_type :: "string option"

text \<open>The parsed input: key and type trimmed, the type defaulting to 'unspecified'.\<close>

definition parse_outbox_input :: "zod_lib \<Rightarrow> outbox_input \<Rightarrow> (outbox_input \<times> string) option" where
  "parse_outbox_input Z i =
     (let key = js_trim (oi_dedupe_key i);
          ty = (case oi_message_type i of None \<Rightarrow> ''unspecified'' | Some t \<Rightarrow> js_trim t)
      in if zod_uuid Z (oi_client_id i) \<and> zod_uuid Z (oi_workflow_instance_id i) \<and> zod_uuid Z (oi_command_id i) \<and>
            1 \<le> length key \<and> length key \<le> 255 \<and> is_type_name ty
         then Some (i\<lparr>oi_dedupe_key := key\<rparr>, ty) else None)"

definition same_message :: "outbox_input \<Rightarrow> outbox_message \<Rightarrow> bool" where
  "same_message i m = (cr_account_id m = oi_client_id i \<and> ob_dedupe_key m = oi_dedupe_key i)"

definition new_message :: "uuid \<Rightarrow> instant \<Rightarrow> string \<Rightarrow> outbox_input \<Rightarrow> outbox_message" where
  "new_message new_id now ty i =
     \<lparr>cr_id = new_id, cr_account_id = oi_client_id i, cr_workflow_instance_id = oi_workflow_instance_id i,
      cr_due = now, cr_status = Pending, cr_attempts = 0, cr_claimed_at = None,
      ob_command_id = oi_command_id i, ob_dedupe_key = oi_dedupe_key i, ob_message_type = ty, ob_payload = oi_payload i\<rparr>"

definition record_outbox_message ::
  "runtime \<Rightarrow> zod_lib \<Rightarrow> uuid \<times> instant \<Rightarrow> outbox_input \<Rightarrow> workflow_db \<Rightarrow> (workflow_error, workflow_db \<times> uuid \<times> bool) result" where
  "record_outbox_message rt Z g untrusted db =
     (case parse_outbox_input Z untrusted of
        None \<Rightarrow> Inl ZodError
      | Some (i, ty) \<Rightarrow>
          rbind (ensure (list_ex (\<lambda>c. cr_account_id c = oi_client_id i \<and> cr_id c = oi_command_id i) (wd_commands db))
                   COMMAND_NOT_FOUND) (\<lambda>_.
            case find (same_message i) (wd_outbox db) of
              Some m \<Rightarrow> Inr (db, cr_id m, False)
            | None \<Rightarrow>
                rbind (write_workflow_event (snd g)
                  (system_event rt (oi_client_id i) ''workflow_outbox_message'' (fst g) ''workflow.outbox_message_recorded''
                     [oi_client_id i, fst g, ''workflow.outbox_message_recorded'']
                     [(''workflowInstanceId'', JString (oi_workflow_instance_id i)), (''commandId'', JString (oi_command_id i)),
                      (''dedupeKey'', JString (oi_dedupe_key i))])
                  (db\<lparr>wd_outbox := wd_outbox db @ [new_message (fst g) (snd g) ty i]\<rparr>)) (\<lambda>db'. Inr (db', fst g, True))))"

section \<open>schedule-workflow-command-jobs.ts, schedule-outbox-delivery-jobs.ts\<close>

definition default_claim :: "uuid \<Rightarrow> instant \<Rightarrow> claim_query" where
  "default_claim client now = \<lparr>cq_client_id = client, cq_now = now, cq_limit = 20\<rparr>"

definition run_command_payload :: "(instant \<Rightarrow> string) \<Rightarrow> instant \<Rightarrow> uuid \<Rightarrow> workflow_command \<Rightarrow> json" where
  "run_command_payload isof now client c =
     JObject [(''schemaVersion'', JNumber (JFin 1)), (''clientId'', JString client),
       (''idempotencyKey'', JString (''workflow-command:'' @ cr_id c @ '':'' @ show_int (cr_attempts c))),
       (''requestedAt'', JString (isof now)), (''commandId'', JString (cr_id c)),
       (''workflowInstanceId'', JString (cr_workflow_instance_id c)), (''commandType'', JString (wc_command_type c)),
       (''payload'', JObject (wc_payload c))]"

definition deliver_payload :: "(instant \<Rightarrow> string) \<Rightarrow> instant \<Rightarrow> uuid \<Rightarrow> outbox_message \<Rightarrow> json" where
  "deliver_payload isof now client m =
     JObject [(''schemaVersion'', JNumber (JFin 1)), (''clientId'', JString client),
       (''idempotencyKey'', JString (ob_dedupe_key m)), (''requestedAt'', JString (isof now)),
       (''outboxMessageId'', JString (cr_id m)), (''workflowInstanceId'', JString (cr_workflow_instance_id m)),
       (''commandId'', JString (ob_command_id m)), (''messageType'', JString (ob_message_type m)),
       (''payload'', JObject (ob_payload m))]"

definition delivery_job_key :: "outbox_message \<Rightarrow> string" where
  "delivery_job_key m = ''workflow-outbox-message:'' @ cr_id m @ '':'' @ show_int (cr_attempts m)"

definition enqueue_job ::
  "runtime \<Rightarrow> zod_lib \<Rightarrow> boss_lib \<Rightarrow> uuid \<Rightarrow> job_name \<Rightarrow> json \<Rightarrow> string option \<Rightarrow> workflow_db \<Rightarrow> (workflow_error, workflow_db) result" where
  "enqueue_job rt Z B client name payload key db =
     (case enqueue_in_transaction rt Z B client name payload key (wd_jobs db) of
        Inl e \<Rightarrow> Inl (WorkflowJobError e)
      | Inr (jobs, _, _) \<Rightarrow> Inr (db\<lparr>wd_jobs := jobs\<rparr>))"

definition active_clients :: "workflow_db \<Rightarrow> uuid list" where
  "active_clients db = map fst (filter snd (wd_accounts db))"

definition schedule_workflow_command_jobs ::
  "runtime \<Rightarrow> zod_lib \<Rightarrow> boss_lib \<Rightarrow> (instant \<Rightarrow> string) \<Rightarrow> uuid list \<Rightarrow> instant \<Rightarrow> workflow_db
   \<Rightarrow> (workflow_error, workflow_db \<times> nat) result" where
  "schedule_workflow_command_jobs rt Z B isof locked now db =
     rfold (\<lambda>(db, n) client.
       rbind (claim_due_workflow_commands Z locked (default_claim client now) db) (\<lambda>(db1, due).
       rbind (rfold (\<lambda>d c. enqueue_job rt Z B client RUN_WORKFLOW_COMMAND_V1 (run_command_payload isof now client c) None d) db1 due)
         (\<lambda>db2. Inr (db2, n + length due))))
       (db, 0) (active_clients db)"

definition schedule_outbox_delivery_jobs ::
  "runtime \<Rightarrow> zod_lib \<Rightarrow> boss_lib \<Rightarrow> (instant \<Rightarrow> string) \<Rightarrow> uuid list \<Rightarrow> instant \<Rightarrow> workflow_db
   \<Rightarrow> (workflow_error, workflow_db \<times> nat) result" where
  "schedule_outbox_delivery_jobs rt Z B isof locked now db =
     rfold (\<lambda>(db, n) client.
       rbind (claim_due_outbox_messages Z locked (default_claim client now) db) (\<lambda>(db1, due).
       rbind (rfold (\<lambda>d m. enqueue_job rt Z B client DELIVER_OUTBOX_MESSAGE_V1 (deliver_payload isof now client m)
                             (Some (delivery_job_key m)) d) db1 due)
         (\<lambda>db2. Inr (db2, n + length due))))
       (db, 0) (active_clients db)"

section \<open>make-reclaim-and-scan-job-handler.ts\<close>

text \<open>Reclaim, then scan, in one transaction at the instant the job was requested. The answer counts enqueued, reclaimed and failed.\<close>

definition reclaim_and_scan ::
  "zod_lib \<Rightarrow> job_name \<Rightarrow> (instant \<Rightarrow> workflow_db \<Rightarrow> (workflow_error, workflow_db \<times> nat \<times> nat) result)
   \<Rightarrow> (instant \<Rightarrow> workflow_db \<Rightarrow> (workflow_error, workflow_db \<times> nat) result) \<Rightarrow> json \<Rightarrow> workflow_db
   \<Rightarrow> (workflow_error, workflow_db \<times> nat \<times> nat \<times> nat) result" where
  "reclaim_and_scan Z name reclaim scan untrusted db =
     (case parse_job_payload Z name untrusted of
        Inl e \<Rightarrow> Inl (WorkflowJobError e)
      | Inr p \<Rightarrow>
          (let now = the (zod_datetime Z (text_member ''requestedAt'' p))
           in rbind (reclaim now db) (\<lambda>(db1, reclaimed, failed).
              rbind (scan now db1) (\<lambda>(db2, enqueued). Inr (db2, enqueued, reclaimed, failed)))))"

definition handle_workflow_command_scan_job ::
  "runtime \<Rightarrow> zod_lib \<Rightarrow> boss_lib \<Rightarrow> (instant \<Rightarrow> string) \<Rightarrow> uuid list \<Rightarrow> json \<Rightarrow> workflow_db
   \<Rightarrow> (workflow_error, workflow_db \<times> nat \<times> nat \<times> nat) result" where
  "handle_workflow_command_scan_job rt Z B isof locked =
     reclaim_and_scan Z SCAN_WORKFLOW_COMMANDS_V1
       (reclaim_stale_workflow_commands_for_active_clients rt Z locked) (schedule_workflow_command_jobs rt Z B isof locked)"

definition handle_outbox_message_scan_job ::
  "runtime \<Rightarrow> zod_lib \<Rightarrow> boss_lib \<Rightarrow> (instant \<Rightarrow> string) \<Rightarrow> uuid list \<Rightarrow> json \<Rightarrow> workflow_db
   \<Rightarrow> (workflow_error, workflow_db \<times> nat \<times> nat \<times> nat) result" where
  "handle_outbox_message_scan_job rt Z B isof locked =
     reclaim_and_scan Z SCAN_OUTBOX_MESSAGES_V1
       (reclaim_stale_outbox_messages_for_active_clients rt Z locked) (schedule_outbox_delivery_jobs rt Z B isof locked)"

section \<open>job-dispatcher.ts and its two configurations\<close>

text \<open>
  A handler of the registry is a function of its context, some members of the payload, on the
  tables; an error of any stage rolls the whole attempt back.
\<close>

definition pick :: "string list \<Rightarrow> (string \<times> json) list \<Rightarrow> (string \<times> json) list" where
  "pick ks p = filter (\<lambda>(k, v). k \<in> set ks) p"

type_synonym job_handler = "(string \<times> json) list \<Rightarrow> workflow_db \<Rightarrow> (workflow_error, workflow_db) result"

definition dispatch ::
  "(string \<rightharpoonup> job_handler) \<Rightarrow> string \<Rightarrow> (workflow_db \<Rightarrow> (workflow_error, workflow_db \<times> bool) result)
   \<Rightarrow> instant \<Rightarrow> audit_event \<Rightarrow> (string \<times> json) list \<Rightarrow> workflow_db \<Rightarrow> (workflow_error, workflow_db) result" where
  "dispatch handlers type_key finish now event ctx db =
     (case handlers type_key of
        None \<Rightarrow> Inl (UnknownHandlerType type_key)
      | Some h \<Rightarrow>
          rbind (h ctx db) (\<lambda>db1. rbind (finish db1) (\<lambda>(db2, _). write_workflow_event now event db2)))"

definition handle_run_workflow_command_job ::
  "runtime \<Rightarrow> zod_lib \<Rightarrow> (string \<rightharpoonup> job_handler) \<Rightarrow> instant \<Rightarrow> json \<Rightarrow> workflow_db \<Rightarrow> (workflow_error, workflow_db) result" where
  "handle_run_workflow_command_job rt Z handlers now untrusted db =
     (case parse_job_payload Z RUN_WORKFLOW_COMMAND_V1 untrusted of
        Inl e \<Rightarrow> Inl (WorkflowJobError e)
      | Inr p \<Rightarrow>
          (let client = text_member ''clientId'' p; i = text_member ''commandId'' p
           in dispatch handlers (text_member ''commandType'' p) (complete_workflow_command Z client i) now
                (system_event rt client ''workflow_command'' i ''workflow.command_run'' [client, i, ''workflow.command_run'']
                   [(''workflowInstanceId'', JString (text_member ''workflowInstanceId'' p)),
                    (''commandType'', JString (text_member ''commandType'' p))])
                (pick [''clientId'', ''workflowInstanceId'', ''commandId'', ''commandType'', ''payload''] p) db))"

definition handle_deliver_outbox_message_job ::
  "runtime \<Rightarrow> zod_lib \<Rightarrow> (string \<rightharpoonup> job_handler) \<Rightarrow> instant \<Rightarrow> json \<Rightarrow> workflow_db \<Rightarrow> (workflow_error, workflow_db) result" where
  "handle_deliver_outbox_message_job rt Z senders now untrusted db =
     (case parse_job_payload Z DELIVER_OUTBOX_MESSAGE_V1 untrusted of
        Inl e \<Rightarrow> Inl (WorkflowJobError e)
      | Inr p \<Rightarrow>
          (let client = text_member ''clientId'' p; i = text_member ''outboxMessageId'' p
           in dispatch senders (text_member ''messageType'' p) (complete_outbox_message rt Z now client i) now
                (system_event rt client ''workflow_outbox_message'' i ''workflow.outbox_message_sent''
                   [client, i, ''workflow.outbox_message_sent'']
                   [(''workflowInstanceId'', JString (text_member ''workflowInstanceId'' p)),
                    (''commandId'', JString (text_member ''commandId'' p)),
                    (''messageType'', JString (text_member ''messageType'' p))])
                (pick [''clientId'', ''workflowInstanceId'', ''commandId'', ''outboxMessageId'', ''idempotencyKey'', ''payload''] p) db))"

end
