(* ===== verification/Workflow_Properties.thy ===== *)
theory Workflow_Properties
  imports Workflow_Jobs
begin

text \<open>
  The claim cycle: disjoint claims, bounded attempts, draining of stale claims; the transition log
  as the source of the current state; idempotent scheduling.
\<close>

section \<open>Selecting and updating\<close>

lemma select_rows_sub: "set (select_rows locked p key n rows) \<subseteq> {r \<in> set rows. p r \<and> cr_id r \<notin> set locked}"
  using set_take_subset by (fastforce simp: select_rows_def)

lemma select_rows_length: "length (select_rows locked p key n rows) \<le> nat n"
  by (simp add: select_rows_def)

lemma update_rows_fst: "fst (update_rows f ids rows) = map (\<lambda>r. if cr_id r \<in> set ids then f r else r) rows"
  by (simp add: update_rows_def)

lemma update_rows_ids:
  assumes "\<And>r. cr_id (f r) = cr_id r"
  shows "map cr_id (fst (update_rows f ids rows)) = map cr_id rows"
  using assms by (simp add: update_rows_def)

text \<open>With unique ids, only the selected rows are updated.\<close>

lemma selected_iff:
  assumes "distinct (map cr_id rows)" and "r \<in> set rows"
  shows "cr_id r \<in> cr_id ` set (select_rows locked p key n rows) \<longleftrightarrow> r \<in> set (select_rows locked p key n rows)"
proof
  assume "cr_id r \<in> cr_id ` set (select_rows locked p key n rows)"
  then obtain s where s: "s \<in> set (select_rows locked p key n rows)" "cr_id s = cr_id r" by auto
  then have "s \<in> set rows" using select_rows_sub by blast
  then have "s = r" using assms s(2) by (auto simp: distinct_map dest: inj_onD)
  then show "r \<in> set (select_rows locked p key n rows)" using s by simp
qed auto

lemma mark_claimed_simps [simp]:
  "cr_id (mark_claimed t r) = cr_id r" "cr_account_id (mark_claimed t r) = cr_account_id r"
  "cr_status (mark_claimed t r) = Claimed" "cr_attempts (mark_claimed t r) = cr_attempts r + 1"
  "cr_claimed_at (mark_claimed t r) = Some t" "cr_due (mark_claimed t r) = cr_due r"
  by (simp_all add: mark_claimed_def)

lemma release_claim_simps [simp]:
  "cr_id (release_claim m r) = cr_id r" "cr_account_id (release_claim m r) = cr_account_id r"
  "cr_attempts (release_claim m r) = cr_attempts r" "cr_claimed_at (release_claim m r) = None"
  "cr_status (release_claim m r) = (if m \<le> cr_attempts r then Failed else Pending)"
  by (simp_all add: release_claim_def)

section \<open>The state of a claimable row\<close>

text \<open>The invariant of both tables, for a budget of attempts.\<close>

definition row_ok :: "int \<Rightarrow> 'a claim_row_scheme \<Rightarrow> bool" where
  "row_ok budget r =
     (0 \<le> cr_attempts r \<and> cr_attempts r \<le> budget \<and>
      (case cr_status r of
         Pending \<Rightarrow> cr_claimed_at r = None \<and> cr_attempts r < budget
       | Claimed \<Rightarrow> cr_claimed_at r \<noteq> None \<and> 0 < cr_attempts r
       | Finished \<Rightarrow> cr_claimed_at r \<noteq> None \<and> 0 < cr_attempts r
       | Failed \<Rightarrow> cr_claimed_at r = None \<and> cr_attempts r = budget))"

definition queue_ok :: "int \<Rightarrow> 'a claim_row_scheme list \<Rightarrow> bool" where
  "queue_ok budget rows = (distinct (map cr_id rows) \<and> list_all (row_ok budget) rows)"

text \<open>The operations on one table: a new row, a claim, a completion, a recovery with the default budget.\<close>

inductive queue_step :: "zod_lib \<Rightarrow> 'a claim_row_scheme list \<Rightarrow> 'a claim_row_scheme list \<Rightarrow> bool" for Z :: zod_lib where
  insert: "cr_id r \<notin> cr_id ` set rows \<Longrightarrow> cr_status r = Pending \<Longrightarrow> cr_attempts r = 0 \<Longrightarrow> cr_claimed_at r = None \<Longrightarrow>
    queue_step Z rows (rows @ [r])"
| claim: "claim_due Z locked q rows = Inr (rows', claimed) \<Longrightarrow> queue_step Z rows rows'"
| complete: "complete_claim Z client i rows = Inr (rows', found) \<Longrightarrow> queue_step Z rows rows'"
| reclaim: "reclaim_stale_claims Z locked (default_reclaim client now) rows = Inr (rows', recovered) \<Longrightarrow> queue_step Z rows rows'"

lemma claim_due_Inr:
  "claim_due Z locked q rows = Inr (rows', claimed) \<longleftrightarrow>
     zod_uuid Z (cq_client_id q) \<and> claim_limit_ok Z (cq_limit q) \<and>
     (rows', claimed) = update_rows (mark_claimed (cq_now q))
        (map cr_id (select_rows locked (is_due q) cr_due (cq_limit q) rows)) rows"
  by (auto simp: claim_due_def rbind_eq_Inr ensure_eq_Inr)

lemma reclaim_Inr:
  "reclaim_stale_claims Z locked q rows = Inr (rows', recovered) \<longleftrightarrow>
     zod_uuid Z (rc_client_id q) \<and> zod_int Z (rc_stale_after_minutes q) \<and> 0 < rc_stale_after_minutes q \<and>
     zod_int Z (rc_max_attempts q) \<and> 0 < rc_max_attempts q \<and> claim_limit_ok Z (rc_limit q) \<and>
     (rows', recovered) = update_rows (release_claim (rc_max_attempts q))
        (map cr_id (select_rows locked (is_stale (rc_client_id q) (stale_cutoff q)) claimed_instant (rc_limit q) rows)) rows"
  by (auto simp: reclaim_stale_claims_def rbind_eq_Inr ensure_eq_Inr)

text \<open>An update that keeps the ids keeps the invariant when it keeps it row by row.\<close>

lemma queue_ok_map:
  assumes "queue_ok budget rows" and "\<And>r. cr_id (g r) = cr_id r"
    and "\<And>r. r \<in> set rows \<Longrightarrow> row_ok budget r \<Longrightarrow> row_ok budget (g r)"
  shows "queue_ok budget (map g rows)"
proof -
  have "map cr_id (map g rows) = map cr_id rows" using assms(2) by simp
  then have "distinct (map cr_id (map g rows))" using assms(1) by (simp only: queue_ok_def)
  then show ?thesis using assms(1,3) by (auto simp: queue_ok_def list_all_iff)
qed

lemma update_queue_ok:
  assumes ok: "queue_ok budget rows" and ids: "\<And>r. cr_id (f r) = cr_id r"
    and step: "\<And>r. r \<in> set rows \<Longrightarrow> p r \<Longrightarrow> row_ok budget r \<Longrightarrow> row_ok budget (f r)"
  shows "queue_ok budget (fst (update_rows f (map cr_id (select_rows locked p key n rows)) rows))"
  unfolding update_rows_fst
proof (rule queue_ok_map [OF ok])
  show "cr_id (if cr_id r \<in> set (map cr_id (select_rows locked p key n rows)) then f r else r) = cr_id r" for r
    by (simp add: ids)
  show "row_ok budget (if cr_id r \<in> set (map cr_id (select_rows locked p key n rows)) then f r else r)"
    if "r \<in> set rows" "row_ok budget r" for r
    using that ok step select_rows_sub [of locked p key n rows] selected_iff [of rows r locked p key n]
    by (auto simp: queue_ok_def)
qed

lemma queue_step_ok: "queue_step Z rows rows' \<Longrightarrow> queue_ok 5 rows \<Longrightarrow> queue_ok 5 rows'"
proof (induction rule: queue_step.induct)
  case (insert r rows)
  then show ?case by (auto simp: queue_ok_def row_ok_def)
next
  case (claim locked q rows rows' claimed)
  then have eq: "rows' = fst (update_rows (mark_claimed (cq_now q))
      (map cr_id (select_rows locked (is_due q) cr_due (cq_limit q) rows)) rows)"
    by (metis claim_due_Inr fst_conv)
  show ?case
    unfolding eq using claim.prems by (rule update_queue_ok) (auto simp: row_ok_def is_due_def)
next
  case (complete client i rows rows' found)
  then have "rows' = map (\<lambda>r. if cr_account_id r = client \<and> cr_id r = i \<and> (cr_status r = Claimed \<or> cr_status r = Finished)
      then r\<lparr>cr_status := Finished\<rparr> else r) rows"
    by (auto simp: complete_claim_def rbind_eq_Inr Let_def)
  then show ?case
    using complete.prems by (auto intro!: queue_ok_map simp: row_ok_def)
next
  case (reclaim locked client now rows rows' recovered)
  then have eq: "rows' = fst (update_rows (release_claim 5)
      (map cr_id (select_rows locked (is_stale client (stale_cutoff (default_reclaim client now))) claimed_instant 20 rows)) rows)"
    by (auto simp: reclaim_Inr default_reclaim_def dest: arg_cong [where f = fst])
  show ?case
    unfolding eq using reclaim.prems by (rule update_queue_ok) (auto simp: row_ok_def is_stale_def)
qed

lemma queue_run_ok: "(queue_step Z)\<^sup>*\<^sup>* rows rows' \<Longrightarrow> queue_ok 5 rows \<Longrightarrow> queue_ok 5 rows'"
  by (induction rule: rtranclp_induct) (auto intro: queue_step_ok)

section \<open>Stale claims drain\<close>

text \<open>Recovery ticks for one account at one instant, none of its rows being locked.\<close>

fun reclaim_ticks ::
  "zod_lib \<Rightarrow> uuid \<Rightarrow> instant \<Rightarrow> nat \<Rightarrow> 'a claim_row_scheme list \<Rightarrow> (workflow_error, 'a claim_row_scheme list) result" where
  "reclaim_ticks Z client now 0 rows = Inr rows"
| "reclaim_ticks Z client now (Suc k) rows =
     rbind (reclaim_stale_claims Z [] (default_reclaim client now) rows) (\<lambda>(rows', _). reclaim_ticks Z client now k rows')"

definition stale_rows :: "uuid \<Rightarrow> instant \<Rightarrow> 'a claim_row_scheme list \<Rightarrow> 'a claim_row_scheme list" where
  "stale_rows client now rows = filter (is_stale client (stale_cutoff (default_reclaim client now))) rows"

lemma length_filter_not_in:
  assumes "distinct xs" "distinct ys" "set ys \<subseteq> set xs"
  shows "length (filter (\<lambda>x. x \<notin> set ys) xs) = length xs - length ys"
proof -
  have "length (filter (\<lambda>x. x \<notin> set ys) xs) = card (set xs - set ys)"
    using assms(1) by (metis (mono_tags) distinct_card distinct_filter set_filter set_diff_eq)
  also have "\<dots> = length xs - length ys"
    using assms by (simp add: card_Diff_subset distinct_card)
  finally show ?thesis .
qed

lemma reclaim_tick_stale:
  assumes "distinct (map cr_id rows)" and "reclaim_stale_claims Z [] (default_reclaim client now) rows = Inr (rows', rec)"
  shows "length (stale_rows client now rows') = length (stale_rows client now rows) - 20"
proof -
  define p where "p = (is_stale client (stale_cutoff (default_reclaim client now)) :: 'a claim_row_scheme \<Rightarrow> bool)"
  define sel where "sel = select_rows [] p claimed_instant 20 rows"
  define f where "f r = (if cr_id r \<in> cr_id ` set sel then release_claim 5 r else r)" for r :: "'a claim_row_scheme"
  have rows': "rows' = map f rows"
    using assms(2) unfolding f_def sel_def p_def by (auto simp: reclaim_Inr default_reclaim_def update_rows_def)
  have st: "stale_rows client now = filter p" by (simp add: stale_rows_def fun_eq_iff p_def)
  have released: "\<not> p (release_claim 5 r)" for r by (simp add: is_stale_def p_def)
  have stale': "p (f r) \<longleftrightarrow> p r \<and> r \<notin> set sel" if "r \<in> set rows" for r
    using selected_iff [OF assms(1) that, of "[]" p claimed_instant 20] released unfolding f_def sel_def by auto
  have d: "distinct (filter p rows)" using assms(1) by (simp add: distinct_map)
  have sorted: "sel = take 20 (js_sort (by_int claimed_instant) (filter p rows))"
    by (simp add: select_rows_def sel_def)
  have "distinct (js_sort (by_int claimed_instant) (filter p rows))"
    using d by (metis mset_js_sort mset_eq_imp_distinct_iff)
  then have sel: "distinct sel" "set sel \<subseteq> set (filter p rows)"
    unfolding sorted using set_take_subset [of 20 "js_sort (by_int claimed_instant) (filter p rows)"] by simp_all
  have "length (filter p rows') = length (filter (\<lambda>r. p (f r)) rows)" by (simp add: rows' filter_map o_def)
  also have "filter (\<lambda>r. p (f r)) rows = filter (\<lambda>r. r \<notin> set sel) (filter p rows)"
    unfolding filter_filter by (rule filter_cong) (auto simp: stale')
  also have "length \<dots> = length (filter p rows) - length sel"
    using d sel by (rule length_filter_not_in)
  also have "length sel = min 20 (length (filter p rows))" by (simp add: sorted)
  finally show ?thesis by (simp add: st)
qed

lemma reclaim_default_total:
  assumes "zod_uuid Z client" and "\<And>n. \<bar>n\<bar> \<le> 100 \<Longrightarrow> zod_int Z n"
  obtains rows' rec where "reclaim_stale_claims Z [] (default_reclaim client now) rows = Inr (rows', rec)"
  using assms by (simp add: reclaim_stale_claims_def default_reclaim_def claim_limit_ok_def update_rows_def)

lemma reclaim_ticks_drain:
  assumes "zod_uuid Z client" and "\<And>n. \<bar>n\<bar> \<le> 100 \<Longrightarrow> zod_int Z n"
    and "distinct (map cr_id rows)" and "length (stale_rows client now rows) \<le> 20 * k"
  shows "\<exists>rows'. reclaim_ticks Z client now k rows = Inr rows' \<and> stale_rows client now rows' = [] \<and>
     map cr_id rows' = map cr_id rows"
  using assms(3,4)
proof (induction k arbitrary: rows)
  case (Suc k)
  obtain rows1 rec where r1: "reclaim_stale_claims Z [] (default_reclaim client now) rows = Inr (rows1, rec)"
    using reclaim_default_total [OF assms(1,2)] by blast
  have ids: "map cr_id rows1 = map cr_id rows"
    using r1 by (auto simp: reclaim_Inr update_rows_def)
  have "length (stale_rows client now rows1) \<le> 20 * k"
    using reclaim_tick_stale [OF Suc.prems(1) r1] Suc.prems(2) by simp
  then show ?case using Suc.IH [of rows1] Suc.prems(1) ids r1 by simp
qed simp

section \<open>The transition log\<close>

text \<open>A legal run of a state machine, read off a list of log entries.\<close>

fun runs :: "transition_map \<Rightarrow> string \<Rightarrow> workflow_transition list \<Rightarrow> string \<Rightarrow> bool" where
  "runs allowed s [] s' = (s = s')"
| "runs allowed s (t # ts) s' =
     (wt_from_state t = s \<and> (wt_to_state t = s \<or> (\<exists>ns. allowed s = Some ns \<and> wt_to_state t \<in> set ns)) \<and>
      runs allowed (wt_to_state t) ts s')"

lemma runs_snoc:
  "runs allowed s (ts @ [t]) s'' \<longleftrightarrow>
     (\<exists>s'. runs allowed s ts s' \<and> wt_from_state t = s' \<and>
        (wt_to_state t = s' \<or> (\<exists>ns. allowed s' = Some ns \<and> wt_to_state t \<in> set ns)) \<and> wt_to_state t = s'')"
  by (induction ts arbitrary: s) auto

definition log_of :: "workflow_db \<Rightarrow> uuid \<Rightarrow> workflow_transition list" where
  "log_of db i = filter (\<lambda>t. wt_workflow_instance_id t = i) (wd_transitions db)"

text \<open>\<open>A\<close> gives the transition map of each workflow type.\<close>

definition workflow_ok :: "(string \<Rightarrow> transition_map) \<Rightarrow> workflow_db \<Rightarrow> bool" where
  "workflow_ok A db =
     (distinct (map wi_id (wd_instances db)) \<and>
      (\<forall>t \<in> set (wd_transitions db). wt_workflow_instance_id t \<in> wi_id ` set (wd_instances db)) \<and>
      (\<forall>w \<in> set (wd_instances db). \<exists>s0. runs (A (wi_workflow_type w)) s0 (log_of db (wi_id w)) (wi_current_state w)))"

lemma write_workflow_event_Inr:
  assumes "write_workflow_event now e db = Inr db'"
  obtains rows where "db' = db\<lparr>wd_audit := rows\<rparr>"
  using assms by (auto simp: write_workflow_event_def split: sum.splits)

inductive workflow_step :: "runtime \<Rightarrow> zod_lib \<Rightarrow> (string \<Rightarrow> transition_map) \<Rightarrow> workflow_db \<Rightarrow> workflow_db \<Rightarrow> bool"
  for rt :: runtime and Z :: zod_lib and A :: "string \<Rightarrow> transition_map" where
  created: "new_id \<notin> wi_id ` set (wd_instances db) \<Longrightarrow> create_workflow_instance rt new_id now i db = Inr (db', w) \<Longrightarrow>
    workflow_step rt Z A db db'"
| appended: "find (\<lambda>w. wi_account_id w = ap_client_id i \<and> wi_id w = ap_workflow_instance_id i) (wd_instances db) = Some w \<Longrightarrow>
    append_workflow_transition rt Z (A (wi_workflow_type w)) new_id now i db = Inr db' \<Longrightarrow> workflow_step rt Z A db db'"

lemma create_workflow_ok:
  assumes "new_id \<notin> wi_id ` set (wd_instances db)" and "create_workflow_instance rt new_id now i db = Inr (db', w)"
    and ok: "workflow_ok A db"
  shows "workflow_ok A db'"
proof (cases "find (instance_of_subject i) (wd_instances db)")
  case (Some x)
  then show ?thesis using assms by (simp add: create_workflow_instance_def)
next
  case None
  then obtain rows where db': "db' = db\<lparr>wd_instances := wd_instances db @ [w], wd_audit := rows\<rparr>" and id: "wi_id w = new_id"
    using assms(2) by (auto simp: create_workflow_instance_def rbind_eq_Inr ensure_eq_Inr Let_def
        elim!: write_workflow_event_Inr)
  have "log_of db' new_id = []"
    using ok assms(1) by (auto simp: log_of_def db' workflow_ok_def filter_empty_conv)
  moreover have "log_of db' j = log_of db j" for j by (simp add: log_of_def db')
  ultimately show ?thesis
    using ok assms(1) id by (auto simp: workflow_ok_def db')
qed

lemma append_workflow_Inr:
  assumes w: "find (\<lambda>w. wi_account_id w = ap_client_id i \<and> wi_id w = ap_workflow_instance_id i) (wd_instances db) = Some w"
    and "append_workflow_transition rt Z allowed new_id now i db = Inr db'"
  obtains rows t where "validate_workflow_transition (wi_current_state w) (ap_to_state i) allowed = Inr ()"
    and "wt_from_state t = wi_current_state w" "wt_to_state t = ap_to_state i" "wt_workflow_instance_id t = wi_id w"
    and "db' = db\<lparr>wd_instances := map (\<lambda>x. if wi_id x = wi_id w
            then x\<lparr>wi_current_state := ap_to_state i, wi_updated_at := now\<rparr> else x) (wd_instances db),
          wd_transitions := wd_transitions db @ [t], wd_audit := rows\<rparr>"
proof -
  define t :: workflow_transition where
    "t = \<lparr>wt_id = new_id, wt_account_id = wi_account_id w, wt_workflow_instance_id = wi_id w,
       wt_from_state = wi_current_state w, wt_to_state = ap_to_state i, wt_recorded_at = now\<rparr>"
  define db1 :: workflow_db where
    "db1 = db\<lparr>wd_instances := map (\<lambda>x. if wi_id x = wi_id w
            then x\<lparr>wi_current_state := ap_to_state i, wi_updated_at := now\<rparr> else x) (wd_instances db),
          wd_transitions := wd_transitions db @ [t]\<rparr>"
  obtain e where v: "validate_workflow_transition (wi_current_state w) (ap_to_state i) allowed = Inr ()"
    and wr: "write_workflow_event now e db1 = Inr db'"
    using assms(2) unfolding append_workflow_transition_def w Let_def option.case t_def [symmetric] db1_def [symmetric]
    by (auto simp: rbind_eq_Inr)
  obtain rows where "db' = db1\<lparr>wd_audit := rows\<rparr>" using wr by (rule write_workflow_event_Inr)
  then show ?thesis using that [OF v, of t rows] by (simp add: t_def db1_def)
qed

lemma append_workflow_ok:
  assumes w: "find (\<lambda>w. wi_account_id w = ap_client_id i \<and> wi_id w = ap_workflow_instance_id i) (wd_instances db) = Some w"
    and a: "append_workflow_transition rt Z (A (wi_workflow_type w)) new_id now i db = Inr db'"
    and ok: "workflow_ok A db"
  shows "workflow_ok A db'"
  using w a
proof (rule append_workflow_Inr)
  fix rows t
  assume v: "validate_workflow_transition (wi_current_state w) (ap_to_state i) (A (wi_workflow_type w)) = Inr ()"
    and t: "wt_from_state t = wi_current_state w" "wt_to_state t = ap_to_state i" "wt_workflow_instance_id t = wi_id w"
    and db': "db' = db\<lparr>wd_instances := map (\<lambda>x. if wi_id x = wi_id w
            then x\<lparr>wi_current_state := ap_to_state i, wi_updated_at := now\<rparr> else x) (wd_instances db),
          wd_transitions := wd_transitions db @ [t], wd_audit := rows\<rparr>"
  define g where "g x = (if wi_id x = wi_id w then x\<lparr>wi_current_state := ap_to_state i, wi_updated_at := now\<rparr> else x)" for x :: workflow_instance
  have g: "wi_id (g x) = wi_id x" "wi_workflow_type (g x) = wi_workflow_type x" for x :: workflow_instance by (simp_all add: g_def)
  have inst: "wd_instances db' = map g (wd_instances db)" by (simp add: db' g_def)
  have ids: "map wi_id (map g (wd_instances db)) = map wi_id (wd_instances db)" by (simp add: g)
  have w_in: "w \<in> set (wd_instances db)" using find_Some_in [OF w] by simp
  have same: "x = w" if "x \<in> set (wd_instances db)" "wi_id x = wi_id w" for x
    using that w_in ok by (auto simp: workflow_ok_def distinct_map dest: inj_onD)
  have legal: "ap_to_state i = wi_current_state w \<or>
      (\<exists>ns. A (wi_workflow_type w) (wi_current_state w) = Some ns \<and> ap_to_state i \<in> set ns)"
    using v by (auto simp: validate_workflow_transition_def ensure_eq_Inr split: if_splits option.splits)
  have log: "log_of db' j = log_of db j @ (if j = wi_id w then [t] else [])" for j
    by (simp add: log_of_def db' t)
  have "\<exists>s0. runs (A (wi_workflow_type (g x))) s0 (log_of db' (wi_id (g x))) (wi_current_state (g x))"
    if x: "x \<in> set (wd_instances db)" for x
  proof (cases "wi_id x = wi_id w")
    case True
    then have "x = w" using same x by blast
    moreover obtain s0 where "runs (A (wi_workflow_type w)) s0 (log_of db (wi_id w)) (wi_current_state w)"
      using ok w_in unfolding workflow_ok_def by blast
    ultimately show ?thesis using legal t by (auto simp: g log runs_snoc) (auto simp: g_def)
  next
    case False
    then show ?thesis using ok x by (auto simp: workflow_ok_def g log) (auto simp: g_def)
  qed
  moreover have "distinct (map wi_id (wd_instances db'))" unfolding inst ids using ok by (simp add: workflow_ok_def)
  moreover have "wi_id ` set (wd_instances db') = wi_id ` set (wd_instances db)"
    using ids unfolding inst by (metis set_map)
  ultimately show ?thesis
    using ok w_in t(3) by (auto simp: workflow_ok_def inst) (auto simp: db')
qed

lemma workflow_run_ok: "(workflow_step rt Z A)\<^sup>*\<^sup>* db db' \<Longrightarrow> workflow_ok A db \<Longrightarrow> workflow_ok A db'"
proof (induction rule: rtranclp_induct)
  case (step db1 db2)
  from step.hyps(2) step.IH [OF step.prems] show ?case
    by cases (blast intro: create_workflow_ok append_workflow_ok)+
qed

section \<open>Scheduling is idempotent\<close>

text \<open>The part of a command that its life cycle leaves alone.\<close>

definition command_key :: "workflow_command \<Rightarrow> uuid \<times> uuid \<times> uuid \<times> string \<times> instant" where
  "command_key c = (cr_id c, cr_account_id c, cr_workflow_instance_id c, wc_command_type c, cr_due c)"

definition commands_extend :: "workflow_db \<Rightarrow> workflow_db \<Rightarrow> bool" where
  "commands_extend a b =
     (prefix (map command_key (wd_commands a)) (map command_key (wd_commands b)) \<and>
      (\<lambda>w. (wi_account_id w, wi_id w)) ` set (wd_instances a) \<subseteq> (\<lambda>w. (wi_account_id w, wi_id w)) ` set (wd_instances b))"

lemma commands_extend_trans: "commands_extend a b \<Longrightarrow> commands_extend b c \<Longrightarrow> commands_extend a c"
  unfolding commands_extend_def by (meson prefix_order.trans subset_trans)

definition key_matches :: "schedule_input \<Rightarrow> uuid \<times> uuid \<times> uuid \<times> string \<times> instant \<Rightarrow> bool" where
  "key_matches i k = (case k of (_, a, w, ty, t) \<Rightarrow>
     sc_client_id i = a \<and> sc_workflow_instance_id i = w \<and> sc_command_type i = ty \<and> sc_run_after i = t)"

lemma same_command_key: "same_command (new_command n i) c \<longleftrightarrow> key_matches i (command_key c)"
  by (simp add: same_command_def new_command_def key_matches_def command_key_def)

lemma find_command_key:
  "map_option command_key (find (same_command (new_command n i)) cs) = find (key_matches i) (map command_key cs)"
  by (induction cs) (auto simp: same_command_key)

lemma find_command_extends:
  assumes "find (key_matches i) (map command_key (wd_commands a)) = Some k" and "commands_extend a b"
  shows "\<exists>c. find (same_command (new_command n i)) (wd_commands b) = Some c \<and> cr_id c = fst k"
proof -
  have "find (key_matches i) (map command_key (wd_commands b)) = Some k"
    using assms by (auto simp: commands_extend_def intro: find_prefix)
  then show ?thesis
    unfolding find_command_key [of n, symmetric] by (auto simp: command_key_def)
qed

lemma schedule_Inr:
  assumes "schedule_workflow_command rt Z isof g i db = Inr (db', c, b)"
  shows "commands_extend db db'" and "\<exists>k. find (key_matches i) (map command_key (wd_commands db')) = Some k \<and> fst k = c"
proof -
  have "commands_extend db db' \<and> (\<exists>k. find (key_matches i) (map command_key (wd_commands db')) = Some k \<and> fst k = c)"
  proof (cases "find (same_command (new_command (fst g) i)) (wd_commands db)")
    case (Some x)
    then have "db' = db" "c = cr_id x"
      using assms by (auto simp: schedule_workflow_command_def rbind_eq_Inr)
    moreover have "find (key_matches i) (map command_key (wd_commands db)) = Some (command_key x)"
      using Some find_command_key [of "fst g" i "wd_commands db"] by simp
    ultimately show ?thesis by (simp add: commands_extend_def command_key_def)
  next
    case None
    have wr: "write_workflow_event (snd g) (command_scheduled_event rt isof (fst g) i) (db\<lparr>wd_commands := wd_commands db @ [new_command (fst g) i]\<rparr>) = Inr db'"
      and c: "c = fst g"
      using assms unfolding schedule_workflow_command_def None option.case by (auto simp: rbind_eq_Inr)
    obtain rows where db': "db' = db\<lparr>wd_commands := wd_commands db @ [new_command (fst g) i], wd_audit := rows\<rparr>"
      using wr by (rule write_workflow_event_Inr)
    have "find (key_matches i) (map command_key (wd_commands db)) = None"
      using None find_command_key [of "fst g" i "wd_commands db"] by simp
    then show ?thesis
      by (simp add: db' c commands_extend_def find_append_None)
        (simp add: key_matches_def command_key_def new_command_def)
  qed
  then show "commands_extend db db'" and "\<exists>k. find (key_matches i) (map command_key (wd_commands db')) = Some k \<and> fst k = c"
    by simp_all
qed

interpretation scheduling: idempotent_write "schedule_workflow_command rt Z isof" commands_extend
  for rt :: runtime and Z :: zod_lib and isof :: "instant \<Rightarrow> string"
proof
  show "commands_extend s s" for s by (simp add: commands_extend_def)
  show "commands_extend s s''" if "commands_extend s s'" "commands_extend s' s''" for s s' s''
    using that by (rule commands_extend_trans)
  show "commands_extend s s'" if "schedule_workflow_command rt Z isof n i s = Inr (s', r, c)" for n i s s' r c
    using that by (rule schedule_Inr)
  show "schedule_workflow_command rt Z isof n' i s'' = Inr (s'', r, False)"
    if w: "schedule_workflow_command rt Z isof n i s = Inr (s', r, c)" and e: "commands_extend s' s''" for n n' i s s' s'' r c
  proof -
    obtain x where x: "find (same_command (new_command (fst n') i)) (wd_commands s'') = Some x" "cr_id x = r"
      using schedule_Inr(2) [OF w] find_command_extends [OF _ e] by blast
    have "commands_extend s s''" using schedule_Inr(1) [OF w] e by (rule commands_extend_trans)
    then have "list_ex (\<lambda>w. wi_account_id w = sc_client_id i \<and> wi_id w = sc_workflow_instance_id i) (wd_instances s'')"
      using w by (force simp: schedule_workflow_command_def rbind_eq_Inr ensure_eq_Inr list_ex_iff commands_extend_def)
    then show ?thesis
      using w x by (auto simp: schedule_workflow_command_def rbind_eq_Inr ensure_eq_Inr)
  qed
qed

end
