(* ===== verification/Rule_Lifecycle.thy ===== *)
theory Rule_Lifecycle
  imports Rubric_Resolver Audit_Ledger
begin

text \<open>
  The life cycle of a rule (src/modules/rule-engine, src/server/rule-governance-routes.ts): the
  append-only chain of rule versions, promotion under dual control or corpus evidence, quarantine
  on reversal, the promotion policies, and the resolution of the active version.

  Every statement takes its generated ids and the transaction's clock as an argument; a request
  that throws leaves the tables as they were, since every route runs in one transaction. Foreign
  keys are not modelled.
\<close>

section \<open>Tables\<close>

datatype rule_lifecycle = PROPOSED | SHADOW | ACTIVE | DEPRECATED | QUARANTINED

record rule_version_row =
  rlv_id :: uuid
  rlv_rule_id :: uuid
  rlv_hardness :: rule_hardness
  rlv_lifecycle :: rule_lifecycle
  rlv_ast :: ast_node
  rlv_ast_hash :: string
  rlv_expected_inputs :: json
  rlv_emits :: string
  rlv_provenance :: json
  rlv_clause_id :: "uuid option"
  rlv_valid_from :: day
  rlv_valid_to :: "day option"
  rlv_recorded_at :: instant
  rlv_predecessor :: "uuid option"

record rule_row =
  ru_id :: uuid
  ru_slug :: string
  ru_rule_type :: string

datatype promotion_direction = PROMOTE | DEMOTE

record promotion_event_row =
  pe_rule_version_id :: uuid
  pe_from_hardness :: rule_hardness
  pe_to_hardness :: rule_hardness
  pe_from_lifecycle :: rule_lifecycle
  pe_to_lifecycle :: rule_lifecycle
  pe_direction :: promotion_direction
  pe_rationale :: string
  pe_dual_control_analyst_id :: "uuid option"
  pe_rule_backtest_id :: "uuid option"

record promotion_policy =
  pp_account_id :: "uuid option"
  pp_rule_type :: "string option"
  pp_n1_confirm :: int
  pp_n2_confirm :: int
  pp_max_reversals :: int

record golden_case_result =
  gr_id :: string
  gr_passed :: bool
  gr_input_hash :: string
  gr_expected_hash :: string
  gr_actual_hash :: string
  gr_actual :: json

record golden_result =
  go_corpus_hash :: string
  go_passed :: bool
  go_pass_count :: nat
  go_regression_count :: nat
  go_cases :: "golden_case_result list"

record backtest_row =
  bt_id :: uuid
  bt_account_id :: "uuid option"
  bt_rule_version_id :: uuid
  bt_corpus_hash :: string
  bt_passed :: bool
  bt_pass_count :: nat
  bt_regression_count :: nat

record backtest_case_row =
  bc_account_id :: "uuid option"
  bc_backtest_id :: uuid
  bc_case :: golden_case_result

record rule_db =
  rd_rules :: "rule_row list"
  rd_versions :: "rule_version_row list"
  rd_promotions :: "promotion_event_row list"
  rd_audit :: "audit_event_row list"
  rd_policies :: "promotion_policy list"
  rd_overrides :: "human_override_row list"
  rd_backtests :: "backtest_row list"
  rd_backtest_cases :: "backtest_case_row list"
  rd_accounts :: "uuid list"
  rd_criteria :: "uuid list"

text \<open>The values \<open>gen_random_uuid()\<close> and \<open>now()\<close> take in one transaction.\<close>

record generated =
  ge_version_id :: uuid
  ge_override_id :: uuid
  ge_backtest_id :: uuid
  ge_now :: instant

datatype rule_error =
    RuleVersionNotFound uuid
  | InvalidLifecycleTransitionError rule_lifecycle rule_lifecycle
  | LifecycleRetryUnresolved
  | ActivePromotionRequiresBacktest
  | DualControlRequiredError
  | InvalidPromotionPolicyError
  | IntegerOutOfRange
  | PromotionPolicyNotFound string
  | ReversalRequiresActiveRule uuid
  | InvalidReversalRequestError string
  | RuleAuditError audit_error
  | BacktestEvidenceConflict
  | CorpusCaseIdRequired
  | DuplicateCorpusCase string
  | RuleActivationBacktestRegressionError golden_result
  | RuleEvaluationError eval_error

section \<open>transition-rule-lifecycle.ts\<close>

fun ALLOWED :: "rule_lifecycle \<Rightarrow> rule_lifecycle list" where
  "ALLOWED PROPOSED = [SHADOW, QUARANTINED]"
| "ALLOWED SHADOW = [ACTIVE, QUARANTINED]"
| "ALLOWED ACTIVE = [DEPRECATED, QUARANTINED]"
| "ALLOWED QUARANTINED = [SHADOW]"
| "ALLOWED DEPRECATED = []"

definition assert_lifecycle_transition :: "rule_lifecycle \<Rightarrow> rule_lifecycle \<Rightarrow> (rule_error, unit) result" where
  "assert_lifecycle_transition old new =
     ensure (new \<in> set (ALLOWED old)) (InvalidLifecycleTransitionError old new)"

record transition_input =
  ti_rule_version_id :: uuid
  ti_to :: rule_lifecycle
  ti_rationale :: string
  ti_dual_control_analyst_id :: "uuid option"
  ti_rule_backtest_id :: "uuid option"

definition version_by_id :: "uuid \<Rightarrow> rule_db \<Rightarrow> rule_version_row option" where
  "version_by_id i db = find (\<lambda>v. rlv_id v = i) (rd_versions db)"

text \<open>The partial unique index on \<open>(predecessor_rule_version_id, lifecycle_state)\<close>.\<close>

definition same_successor :: "rule_version_row \<Rightarrow> rule_version_row \<Rightarrow> bool" where
  "same_successor a b = (sql_eq (rlv_predecessor a) (rlv_predecessor b) \<and> rlv_lifecycle a = rlv_lifecycle b)"

definition successor_row :: "generated \<Rightarrow> rule_lifecycle \<Rightarrow> rule_version_row \<Rightarrow> rule_version_row" where
  "successor_row g new v =
     v\<lparr>rlv_id := ge_version_id g, rlv_lifecycle := new, rlv_recorded_at := ge_now g, rlv_predecessor := Some (rlv_id v)\<rparr>"

definition same_promotion :: "promotion_event_row \<Rightarrow> promotion_event_row \<Rightarrow> bool" where
  "same_promotion a b =
     (pe_rule_version_id a = pe_rule_version_id b \<and> pe_from_lifecycle a = pe_from_lifecycle b \<and>
      pe_to_lifecycle a = pe_to_lifecycle b)"

text \<open>
  The CHECK constraint \<open>active_promotion_requires_backtest\<close> of migration 0078. Its third alternative,
  a backtest of a contract proposal, is a column the operations modelled here leave NULL.
\<close>

definition active_promotion_evidence :: "promotion_event_row \<Rightarrow> bool" where
  "active_promotion_evidence e =
     (pe_to_lifecycle e \<noteq> ACTIVE \<or> pe_rule_backtest_id e \<noteq> None \<or> pe_dual_control_analyst_id e \<noteq> None)"

definition promotion_of :: "transition_input \<Rightarrow> rule_lifecycle \<Rightarrow> rule_version_row \<Rightarrow> promotion_event_row" where
  "promotion_of i old v =
     \<lparr>pe_rule_version_id = rlv_id v, pe_from_hardness = rlv_hardness v, pe_to_hardness = rlv_hardness v,
      pe_from_lifecycle = old, pe_to_lifecycle = ti_to i,
      pe_direction = (if ti_to i = DEPRECATED \<or> ti_to i = QUARANTINED then DEMOTE else PROMOTE),
      pe_rationale = ti_rationale i, pe_dual_control_analyst_id = ti_dual_control_analyst_id i,
      pe_rule_backtest_id = ti_rule_backtest_id i\<rparr>"

definition transition_rule_lifecycle ::
  "generated \<Rightarrow> transition_input \<Rightarrow> rule_db \<Rightarrow> (rule_error, rule_db \<times> uuid \<times> bool) result" where
  "transition_rule_lifecycle g i db =
     (case version_by_id (ti_rule_version_id i) db of
        None \<Rightarrow> Inl (RuleVersionNotFound (ti_rule_version_id i))
      | Some cur \<Rightarrow>
          rbind (assert_lifecycle_transition (rlv_lifecycle cur) (ti_to i)) (\<lambda>_.
            let (versions, created) = insert_row same_successor (successor_row g (ti_to i) cur) (rd_versions db)
            in case (if created then Some (successor_row g (ti_to i) cur)
                     else find (\<lambda>v. rlv_predecessor v = Some (ti_rule_version_id i) \<and> rlv_lifecycle v = ti_to i) versions) of
                 None \<Rightarrow> Inl LifecycleRetryUnresolved
               | Some nxt \<Rightarrow>
                   rbind (ensure (active_promotion_evidence (promotion_of i (rlv_lifecycle cur) nxt))
                            ActivePromotionRequiresBacktest) (\<lambda>_.
                     Inr (db\<lparr>rd_versions := versions,
                             rd_promotions := fst (insert_row same_promotion (promotion_of i (rlv_lifecycle cur) nxt)
                                                     (rd_promotions db))\<rparr>,
                          rlv_id nxt, created))))"

section \<open>promote-shadow-rule.ts\<close>

text \<open>\<open>ORDER BY recorded_at DESC, id DESC\<close>.\<close>

definition latest_event :: "audit_event_row \<Rightarrow> audit_event_row \<Rightarrow> int" where
  "latest_event = lex (descending (by_int ae_recorded_at)) (descending (by_text ae_id))"

definition ratification_of :: "uuid \<Rightarrow> rule_db \<Rightarrow> audit_event_row option" where
  "ratification_of i db =
     first_row latest_event
       (\<lambda>e. ae_entity e = ''rule_version'' \<and> ae_rule_version_id e = Some i \<and> ae_event e = ''promoted_to_shadow'')
       (rd_audit db)"

definition promote_shadow_rule ::
  "generated \<Rightarrow> uuid \<Rightarrow> string \<Rightarrow> uuid \<Rightarrow> rule_db \<Rightarrow> (rule_error, rule_db \<times> uuid \<times> bool) result" where
  "promote_shadow_rule g i rationale actor db =
     (case ratification_of i db of
        None \<Rightarrow> Inl DualControlRequiredError
      | Some r \<Rightarrow>
          if ae_actor_user_id r = Some actor then Inl DualControlRequiredError
          else transition_rule_lifecycle g
                 \<lparr>ti_rule_version_id = i, ti_to = ACTIVE, ti_rationale = rationale,
                  ti_dual_control_analyst_id = Some actor, ti_rule_backtest_id = None\<rparr> db)"

section \<open>promotion-policy.ts\<close>

definition RULE_TYPES :: "string list" where
  "RULE_TYPES = [''STRUCTURAL'', ''INTRA_LINE'', ''CROSS_REFERENCE'', ''CONTRACT_CONFORMANCE'',
     ''EXTERNAL_REFERENCE'', ''CROSS_DOCUMENT'', ''POLICY_ELIGIBILITY'']"

record promotion_policy_input =
  pi_client_id :: string
  pi_rule_type :: string
  pi_n1_confirm :: int
  pi_n2_confirm :: int
  pi_max_reversals :: int

definition policy_input_ok :: "zod_lib \<Rightarrow> promotion_policy_input \<Rightarrow> bool" where
  "policy_input_ok Z v =
     (zod_uuid Z (pi_client_id v) \<and> pi_rule_type v \<in> set RULE_TYPES \<and>
      zod_int Z (pi_n1_confirm v) \<and> 0 < pi_n1_confirm v \<and> zod_int Z (pi_n2_confirm v) \<and> 0 < pi_n2_confirm v \<and>
      zod_int Z (pi_max_reversals v) \<and> 0 \<le> pi_max_reversals v \<and> pi_n1_confirm v \<le> pi_n2_confirm v)"

text \<open>The columns are \<open>integer\<close>: a value beyond 32 bits is refused by the database.\<close>

definition int4 :: "int \<Rightarrow> bool" where
  "int4 n = (- (2 ^ 31) \<le> n \<and> n < 2 ^ 31)"

definition policy_row :: "promotion_policy_input \<Rightarrow> promotion_policy" where
  "policy_row v =
     \<lparr>pp_account_id = Some (pi_client_id v), pp_rule_type = Some (pi_rule_type v),
      pp_n1_confirm = pi_n1_confirm v, pp_n2_confirm = pi_n2_confirm v, pp_max_reversals = pi_max_reversals v\<rparr>"

definition same_policy_key :: "promotion_policy \<Rightarrow> promotion_policy \<Rightarrow> bool" where
  "same_policy_key a b = (sql_eq (pp_account_id a) (pp_account_id b) \<and> sql_eq (pp_rule_type a) (pp_rule_type b))"

definition upsert_promotion_policy ::
  "zod_lib \<Rightarrow> promotion_policy_input \<Rightarrow> rule_db \<Rightarrow> (rule_error, rule_db \<times> promotion_policy) result" where
  "upsert_promotion_policy Z v db =
     rbind (ensure (policy_input_ok Z v) InvalidPromotionPolicyError) (\<lambda>_.
     rbind (ensure (int4 (pi_n1_confirm v) \<and> int4 (pi_n2_confirm v) \<and> int4 (pi_max_reversals v)) IntegerOutOfRange) (\<lambda>_.
       let row = policy_row v
       in Inr (db\<lparr>rd_policies := (if list_ex (same_policy_key row) (rd_policies db)
                                 then map (\<lambda>p. if same_policy_key row p then row else p) (rd_policies db)
                                 else rd_policies db @ [row])\<rparr>, row)))"

definition policy_order :: "promotion_policy \<Rightarrow> promotion_policy \<Rightarrow> int" where
  "policy_order =
     lex (descending (by_int (\<lambda>p. if pp_account_id p = None then 0 else 1)))
         (descending (by_int (\<lambda>p. if pp_rule_type p = None then 0 else 1)))"

definition policy_applies :: "uuid \<Rightarrow> string \<Rightarrow> promotion_policy \<Rightarrow> bool" where
  "policy_applies client rule_type p =
     ((pp_account_id p = Some client \<or> pp_account_id p = None) \<and> (pp_rule_type p = Some rule_type \<or> pp_rule_type p = None))"

definition resolve_promotion_policy :: "uuid \<Rightarrow> string \<Rightarrow> rule_db \<Rightarrow> (rule_error, promotion_policy) result" where
  "resolve_promotion_policy client rule_type db =
     (case first_row policy_order (policy_applies client rule_type) (rd_policies db) of
        None \<Rightarrow> Inl (PromotionPolicyNotFound rule_type)
      | Some p \<Rightarrow> Inr p)"

section \<open>quarantine-on-reversal.ts, record-human-override-reversal.ts\<close>

definition reversal_count :: "uuid \<Rightarrow> uuid \<Rightarrow> rule_db \<Rightarrow> int" where
  "reversal_count criterion client db =
     sum_list (map ho_reversal_count
       (filter (\<lambda>h. ho_criterion_id h = Some criterion \<and> (ho_account_id h = Some client \<or> ho_account_id h = None))
          (rd_overrides db)))"

definition quarantine_rationale :: "int \<Rightarrow> int \<Rightarrow> string" where
  "quarantine_rationale reversals limit =
     ''Reversal threshold exceeded: '' @ show_int reversals @ '' > '' @ show_int limit"

definition quarantine_on_reversal ::
  "generated \<Rightarrow> uuid \<Rightarrow> uuid \<Rightarrow> uuid \<Rightarrow> rule_db \<Rightarrow> (rule_error, rule_db \<times> bool \<times> uuid) result" where
  "quarantine_on_reversal g client criterion i db =
     (case version_by_id i db of
        None \<Rightarrow> Inl (RuleVersionNotFound i)
      | Some v \<Rightarrow>
          (case find (\<lambda>r. ru_id r = rlv_rule_id v) (rd_rules db) of
             None \<Rightarrow> Inl (RuleVersionNotFound i)
           | Some r \<Rightarrow>
               rbind (ensure (rlv_lifecycle v = ACTIVE) (ReversalRequiresActiveRule i)) (\<lambda>_.
               rbind (resolve_promotion_policy client (ru_rule_type r) db) (\<lambda>p.
                 let reversals = reversal_count criterion client db
                 in if reversals \<le> pp_max_reversals p then Inr (db, False, i)
                    else rbind (transition_rule_lifecycle g
                           \<lparr>ti_rule_version_id = i, ti_to = QUARANTINED,
                            ti_rationale = quarantine_rationale reversals (pp_max_reversals p),
                            ti_dual_control_analyst_id = None, ti_rule_backtest_id = None\<rparr> db) (\<lambda>(db', j, _).
                         Inr (db', True, j))))))"

record reversal_input =
  ri_client_id :: string
  ri_criterion_id :: string
  ri_rule_version_id :: string
  ri_case_fingerprint :: string
  ri_asserted_value :: json

definition validate_reversal :: "reversal_input \<Rightarrow> rule_db \<Rightarrow> (rule_error, unit) result" where
  "validate_reversal q db =
     rbind (ensure (isUuid (ri_client_id q)) (InvalidReversalRequestError ''INVALID_CLIENT_ID'')) (\<lambda>_.
     rbind (ensure (isUuid (ri_criterion_id q)) (InvalidReversalRequestError ''INVALID_CRITERION_ID'')) (\<lambda>_.
     rbind (ensure (isUuid (ri_rule_version_id q)) (InvalidReversalRequestError ''INVALID_RULE_VERSION_ID'')) (\<lambda>_.
     rbind (ensure (js_trim (ri_case_fingerprint q) \<noteq> []) (InvalidReversalRequestError ''INVALID_CASE_FINGERPRINT'')) (\<lambda>_.
     rbind (ensure (ri_client_id q \<in> set (rd_accounts db)) (InvalidReversalRequestError ''CLIENT_NOT_FOUND'')) (\<lambda>_.
       ensure (ri_criterion_id q \<in> set (rd_criteria db)) (InvalidReversalRequestError ''CRITERION_NOT_FOUND''))))))"

definition reversal_row :: "generated \<Rightarrow> reversal_input \<Rightarrow> human_override_row" where
  "reversal_row g q =
     \<lparr>ho_id = ge_override_id g, ho_account_id = Some (ri_client_id q), ho_criterion_id = Some (ri_criterion_id q),
      ho_case_fingerprint = ri_case_fingerprint q, ho_asserted_value = ri_asserted_value q,
      ho_confirm_count = 0, ho_reversal_count = 1, ho_recorded_at = ge_now g\<rparr>"

text \<open>The answer: the id of the override row, whether the rule was quarantined, and its version.\<close>

definition record_human_override_reversal ::
  "generated \<Rightarrow> reversal_input \<Rightarrow> rule_db \<Rightarrow> (rule_error, rule_db \<times> uuid \<times> bool \<times> uuid) result" where
  "record_human_override_reversal g q db =
     rbind (validate_reversal q db) (\<lambda>_.
     rbind (quarantine_on_reversal g (ri_client_id q) (ri_criterion_id q) (ri_rule_version_id q)
              (db\<lparr>rd_overrides := rd_overrides db @ [reversal_row g q]\<rparr>)) (\<lambda>(db', quarantined, j).
       Inr (db', ge_override_id g, quarantined, j)))"

end
