(* ===== verification/Rule_Governance.thy ===== *)
theory Rule_Governance
  imports Rule_Lifecycle
begin

text \<open>
  Evidence for activating a rule (the golden corpus and its stored backtest), the resolution of the
  active version, and the routes that ratify, activate, deprecate and quarantine a rule version.
\<close>

section \<open>golden-corpus-runner.ts\<close>

record 'i golden_case =
  gc_id :: string
  gc_input :: 'i
  gc_expected :: json

definition hash_json :: "runtime \<Rightarrow> json \<Rightarrow> string" where
  "hash_json rt v = rt_sha256_hex rt (canonical_json (rt_number_string rt) v)"

fun check_case_ids :: "string list \<Rightarrow> string list \<Rightarrow> (rule_error, unit) result" where
  "check_case_ids seen [] = Inr ()"
| "check_case_ids seen (i # r) =
     rbind (ensure (js_trim i \<noteq> []) CorpusCaseIdRequired) (\<lambda>_.
     rbind (ensure (i \<notin> set seen) (DuplicateCorpusCase i)) (\<lambda>_. check_case_ids (i # seen) r))"

definition run_case ::
  "runtime \<Rightarrow> ('i \<Rightarrow> json) \<Rightarrow> ('i \<Rightarrow> (rule_error, json) result) \<Rightarrow> 'i golden_case
   \<Rightarrow> (rule_error, golden_case_result) result" where
  "run_case rt enc eval c =
     rbind (eval (gc_input c)) (\<lambda>actual.
       Inr \<lparr>gr_id = gc_id c, gr_passed = (hash_json rt (gc_expected c) = hash_json rt actual),
            gr_input_hash = hash_json rt (enc (gc_input c)), gr_expected_hash = hash_json rt (gc_expected c),
            gr_actual_hash = hash_json rt actual, gr_actual = actual\<rparr>)"

definition corpus_json :: "runtime \<Rightarrow> ('i \<Rightarrow> json) \<Rightarrow> 'i golden_case list \<Rightarrow> json" where
  "corpus_json rt enc cases =
     JArray (map (\<lambda>c. JObject [(''id'', JString (gc_id c)), (''inputHash'', JString (hash_json rt (enc (gc_input c)))),
                               (''expectedHash'', JString (hash_json rt (gc_expected c)))]) cases)"

definition run_golden_corpus ::
  "runtime \<Rightarrow> ('i \<Rightarrow> json) \<Rightarrow> 'i golden_case list \<Rightarrow> ('i \<Rightarrow> (rule_error, json) result) \<Rightarrow> (rule_error, golden_result) result" where
  "run_golden_corpus rt enc cases eval =
     rbind (check_case_ids [] (map gc_id cases)) (\<lambda>_.
       let ordered = js_sort (\<lambda>a b. rt_locale_compare rt (gc_id a) (gc_id b)) cases
       in rbind (rtraverse (run_case rt enc eval) ordered) (\<lambda>results.
            let regressions = length (filter (\<lambda>r. \<not> gr_passed r) results)
            in Inr \<lparr>go_corpus_hash = hash_json rt (corpus_json rt enc ordered), go_passed = (regressions = 0),
                    go_pass_count = length results - regressions, go_regression_count = regressions, go_cases = results\<rparr>))"

section \<open>persist-backtest.ts\<close>

text \<open>\<open>UNIQUE (account_id, rule_version_id, corpus_hash)\<close>.\<close>

definition same_backtest :: "backtest_row \<Rightarrow> backtest_row \<Rightarrow> bool" where
  "same_backtest a b =
     (sql_eq (bt_account_id a) (bt_account_id b) \<and> bt_rule_version_id a = bt_rule_version_id b \<and>
      bt_corpus_hash a = bt_corpus_hash b)"

definition same_backtest_case :: "backtest_case_row \<Rightarrow> backtest_case_row \<Rightarrow> bool" where
  "same_backtest_case a b = (bc_backtest_id a = bc_backtest_id b \<and> gr_id (bc_case a) = gr_id (bc_case b))"

definition backtest_row_of :: "generated \<Rightarrow> uuid option \<Rightarrow> uuid \<Rightarrow> golden_result \<Rightarrow> backtest_row" where
  "backtest_row_of g client i r =
     \<lparr>bt_id = ge_backtest_id g, bt_account_id = client, bt_rule_version_id = i, bt_corpus_hash = go_corpus_hash r,
      bt_passed = go_passed r, bt_pass_count = go_pass_count r, bt_regression_count = go_regression_count r\<rparr>"

definition insert_cases ::
  "uuid option \<Rightarrow> uuid \<Rightarrow> golden_case_result list \<Rightarrow> backtest_case_row list \<Rightarrow> backtest_case_row list" where
  "insert_cases client b cases rows =
     foldl (\<lambda>t c. fst (insert_row same_backtest_case \<lparr>bc_account_id = client, bc_backtest_id = b, bc_case = c\<rparr> t)) rows cases"

definition persist_backtest ::
  "generated \<Rightarrow> uuid option \<times> uuid \<times> golden_result \<Rightarrow> rule_db \<Rightarrow> (rule_error, rule_db \<times> uuid \<times> bool) result" where
  "persist_backtest g q db =
     (case q of (client, i, r) \<Rightarrow>
        (let row = backtest_row_of g client i r; (backtests, created) = insert_row same_backtest row (rd_backtests db)
         in rbind (if created then Inr (bt_id row)
                   else case find (same_backtest row) backtests of
                          None \<Rightarrow> Inl BacktestEvidenceConflict
                        | Some x \<Rightarrow>
                            if bt_passed x \<noteq> go_passed r \<or> bt_pass_count x \<noteq> go_pass_count r \<or>
                               bt_regression_count x \<noteq> go_regression_count r
                            then Inl BacktestEvidenceConflict else Inr (bt_id x)) (\<lambda>b.
              Inr (db\<lparr>rd_backtests := backtests, rd_backtest_cases := insert_cases client b (go_cases r) (rd_backtest_cases db)\<rparr>,
                   b, created))))"

section \<open>rule-activation-backtest.ts\<close>

record activation_case =
  ac_id :: string
  ac_facts :: "(string \<times> fact_value) list"
  ac_expected_verdict :: verdict_t

fun member :: "string \<Rightarrow> (string \<times> json) list \<Rightarrow> json option" where
  "member k [] = None"
| "member k ((k', v) # r) = (if k' = k then Some v else member k r)"

text \<open>A strict object has exactly the listed members.\<close>

definition only_members :: "string list \<Rightarrow> (string \<times> json) list \<Rightarrow> bool" where
  "only_members ks ms = list_all (\<lambda>(k, v). k \<in> set ks) ms"

definition parse_fact_value :: "json \<Rightarrow> fact_value option" where
  "parse_fact_value v =
     (case v of
        JNumber n \<Rightarrow> if is_finite_number n then Some (FNum n) else None
      | JString s \<Rightarrow> if length s \<le> 4000 then Some (FStr s) else None
      | JBool b \<Rightarrow> Some (FBool b)
      | JObject ms \<Rightarrow>
          (case (member ''amount'' ms, member ''currency'' ms, member ''decimal'' ms) of
             (Some (JString a), Some (JString c), None) \<Rightarrow>
               (let c' = js_trim c
                in if only_members [''amount'', ''currency''] ms \<and> length a \<le> 100 \<and> 1 \<le> length c' \<and> length c' \<le> 10
                   then Some (FMoney a c') else None)
           | (None, None, Some (JString d)) \<Rightarrow>
               if only_members [''decimal''] ms \<and> length d \<le> 100 then Some (FDecimal d) else None
           | _ \<Rightarrow> None)
      | _ \<Rightarrow> None)"

definition parse_facts :: "(string \<times> json) list \<Rightarrow> (string \<times> fact_value) list option" where
  "parse_facts ms =
     (let fs = map (\<lambda>(k, v). (k, parse_fact_value v)) ms
      in if list_all (\<lambda>(k, f). f \<noteq> None) fs then Some (map (\<lambda>(k, f). (k, the f)) fs) else None)"

fun parse_verdict :: "json option \<Rightarrow> verdict_t option" where
  "parse_verdict (Some (JString s)) =
     (if s = ''PASS'' then Some PASS else if s = ''FAIL'' then Some FAIL
      else if s = ''UNASSESSABLE'' then Some UNASSESSABLE else None)"
| "parse_verdict _ = None"

definition parse_activation_case :: "json \<Rightarrow> activation_case option" where
  "parse_activation_case v =
     (case v of
        JObject ms \<Rightarrow>
          (case (member ''id'' ms, member ''facts'' ms, parse_verdict (member ''expectedVerdict'' ms)) of
             (Some (JString i), Some (JObject fs), Some e) \<Rightarrow>
               (case parse_facts fs of
                  None \<Rightarrow> None
                | Some facts \<Rightarrow>
                    (let i' = js_trim i
                     in if 1 \<le> length i' \<and> length i' \<le> 300 \<and> only_members [''id'', ''facts'', ''expectedVerdict''] ms
                        then Some \<lparr>ac_id = i', ac_facts = facts, ac_expected_verdict = e\<rparr> else None))
           | _ \<Rightarrow> None)
      | _ \<Rightarrow> None)"

definition parse_activation_cases :: "json \<Rightarrow> activation_case list option" where
  "parse_activation_cases v =
     (case v of
        JArray xs \<Rightarrow>
          (let cs = map parse_activation_case xs
           in if 1 \<le> length xs \<and> length xs \<le> 10000 \<and> None \<notin> set cs then Some (map the cs) else None)
      | _ \<Rightarrow> None)"

fun fact_json :: "fact_value \<Rightarrow> json" where
  "fact_json (FNum n) = JNumber n"
| "fact_json (FStr s) = JString s"
| "fact_json (FBool b) = JBool b"
| "fact_json (FMoney a c) = JObject [(''amount'', JString a), (''currency'', JString c)]"
| "fact_json (FDecimal d) = JObject [(''decimal'', JString d)]"

definition facts_json :: "(string \<times> fact_value) list \<Rightarrow> json" where
  "facts_json fs = JObject (map (\<lambda>(k, f). (k, fact_json f)) fs)"

fun verdict_json :: "verdict_t \<Rightarrow> json" where
  "verdict_json PASS = JString ''PASS''"
| "verdict_json FAIL = JString ''FAIL''"
| "verdict_json UNASSESSABLE = JString ''UNASSESSABLE''"

definition rule_verdict ::
  "'d decimal_lib \<Rightarrow> ast_node \<Rightarrow> (string \<times> fact_value) list \<Rightarrow> (rule_error, json) result" where
  "rule_verdict D ast facts =
     (case evaluate D ast (map_of facts) of
        Inl e \<Rightarrow> Inl (RuleEvaluationError e)
      | Inr ev \<Rightarrow> Inr (verdict_json (verdict ev)))"

definition golden_cases :: "activation_case list \<Rightarrow> (string \<times> fact_value) list golden_case list" where
  "golden_cases cases =
     map (\<lambda>c. \<lparr>gc_id = ac_id c, gc_input = ac_facts c, gc_expected = verdict_json (ac_expected_verdict c)\<rparr>) cases"

definition run_and_persist_rule_activation_backtest ::
  "'d decimal_lib \<Rightarrow> runtime \<Rightarrow> generated \<Rightarrow> uuid \<Rightarrow> activation_case list \<Rightarrow> rule_db
   \<Rightarrow> (rule_error, rule_db \<times> uuid \<times> golden_result) result" where
  "run_and_persist_rule_activation_backtest D rt g i cases db =
     (case version_by_id i db of
        None \<Rightarrow> Inl (RuleVersionNotFound i)
      | Some v \<Rightarrow>
          rbind (run_golden_corpus rt facts_json (golden_cases cases) (rule_verdict D (rlv_ast v))) (\<lambda>result.
          rbind (ensure (go_passed result) (RuleActivationBacktestRegressionError result)) (\<lambda>_.
          rbind (persist_backtest g (None, i, result) db) (\<lambda>(db', b, _). Inr (db', b, result)))))"

section \<open>resolve-active-rule-version.ts\<close>

fun hardness_rank :: "rule_hardness \<Rightarrow> int" where
  "hardness_rank FIRM_RULE = 4"
| "hardness_rank AI_DOCS = 3"
| "hardness_rank AI_CANON = 2"
| "hardness_rank HUMAN_INPUT = 1"

definition active_order :: "rule_version_row \<Rightarrow> rule_version_row \<Rightarrow> int" where
  "active_order =
     lex (descending (by_int (\<lambda>v. hardness_rank (rlv_hardness v))))
       (lex (descending (by_int rlv_valid_from))
          (lex (descending (by_int rlv_recorded_at)) (descending (by_text rlv_id))))"

text \<open>\<open>Inr None\<close> is the answer \<open>UNAVAILABLE / NO_ACTIVE_VERSION\<close>.\<close>

definition resolve_active_rule_version ::
  "zod_lib \<Rightarrow> version_request \<Rightarrow> rule_db \<Rightarrow> (request_error, rule_version_row option) result" where
  "resolve_active_rule_version Z q db =
     (case parse_version_request Z q of
        None \<Rightarrow> Inl (RequestInvalid ''ACTIVE_RULE_REQUEST_INVALID'')
      | Some (rid, d, t) \<Rightarrow>
          Inr (first_row active_order
                 (\<lambda>v. rlv_rule_id v = rid \<and> rlv_lifecycle v = ACTIVE \<and>
                      effective_on d (rlv_valid_from v) (rlv_valid_to v) \<and> rlv_recorded_at v \<le> t)
                 (rd_versions db)))"

section \<open>list-rules.ts: the current version of a rule\<close>

definition is_current :: "rule_db \<Rightarrow> rule_version_row \<Rightarrow> bool" where
  "is_current db v = (\<not> list_ex (\<lambda>s. rlv_predecessor s = Some (rlv_id v)) (rd_versions db))"

section \<open>rule-governance-routes.ts\<close>

datatype reply =
    Replied nat string
  | Accepted nat "uuid \<times> bool"
  | Regressed nat nat "string list"
  | Thrown rule_error

record route_request =
  rq_id :: string
  rq_rationale :: "json option"
  rq_cases :: "json option"
  rq_actor_user_id :: uuid

text \<open>\<open>typeof body.rationale !== 'string' || !body.rationale.trim()\<close>.\<close>

fun rationale_of :: "json option \<Rightarrow> string option" where
  "rationale_of (Some (JString s)) = (if js_trim s = [] then None else Some s)"
| "rationale_of _ = None"

definition lift_audit :: "(audit_error, 'a) result \<Rightarrow> (rule_error, 'a) result" where
  "lift_audit r = (case r of Inl e \<Rightarrow> Inl (RuleAuditError e) | Inr x \<Rightarrow> Inr x)"

text \<open>The attributed event each route writes beside its transition.\<close>

definition governance_event ::
  "runtime \<Rightarrow> string \<Rightarrow> uuid \<Rightarrow> uuid \<Rightarrow> uuid \<Rightarrow> (string \<times> json) list \<Rightarrow> audit_event" where
  "governance_event rt name i j actor detail =
     \<lparr>ae_id = deterministic_audit_event_id rt [i, j, ''rule_version.'' @ name], ae_account_id = None,
      ae_entity = ''rule_version'', ae_entity_id = Some i, ae_event = name, ae_actor_kind = ''analyst'',
      ae_actor_user_id = Some actor, ae_rule_version_id = Some j, ae_rubric_snapshot_id = None, ae_detail = Some detail\<rparr>"

definition record_governance ::
  "runtime \<Rightarrow> generated \<Rightarrow> string \<Rightarrow> uuid \<Rightarrow> uuid \<Rightarrow> string \<Rightarrow> uuid option \<Rightarrow> rule_db \<times> uuid \<times> bool
   \<Rightarrow> (rule_error, rule_db \<times> uuid \<times> bool) result" where
  "record_governance rt g name i actor rationale backtest t =
     (case t of (db, j, created) \<Rightarrow>
        rbind (lift_audit (write_audit_event (ge_now g)
                 (governance_event rt name i j actor
                    ([(''rationale'', JString rationale), (''fromRuleVersionId'', JString i)] @
                     (case backtest of None \<Rightarrow> [] | Some b \<Rightarrow> [(''ruleBacktestId'', JString b)])))
                 (rd_audit db))) (\<lambda>(rows, _). Inr (db\<lparr>rd_audit := rows\<rparr>, j, created)))"

text \<open>A handler in a transaction: an error rolls the tables back.\<close>

definition commit :: "rule_db \<Rightarrow> (rule_error, rule_db \<times> uuid \<times> bool) result \<Rightarrow> rule_db \<times> reply" where
  "commit db r = (case r of Inl e \<Rightarrow> (db, Thrown e) | Inr (db', answer) \<Rightarrow> (db', Accepted 201 answer))"

text \<open>The routes \<open>/ratify\<close>, \<open>/deprecate\<close> and \<open>/quarantine\<close>, which differ in the target and the event name.\<close>

definition lifecycle_route ::
  "runtime \<Rightarrow> generated \<Rightarrow> rule_lifecycle \<Rightarrow> string \<Rightarrow> route_request \<Rightarrow> rule_db \<Rightarrow> rule_db \<times> reply" where
  "lifecycle_route rt g target name q db =
     (if \<not> isUuid (rq_id q) then (db, Replied 400 ''invalid rule version id'')
      else case rationale_of (rq_rationale q) of
        None \<Rightarrow> (db, Replied 400 ''rationale is required'')
      | Some rationale \<Rightarrow>
          commit db
            (rbind (transition_rule_lifecycle g
                      \<lparr>ti_rule_version_id = rq_id q, ti_to = target, ti_rationale = rationale,
                       ti_dual_control_analyst_id = None, ti_rule_backtest_id = None\<rparr> db)
               (record_governance rt g name (rq_id q) (rq_actor_user_id q) rationale None)))"

definition ratify_route :: "runtime \<Rightarrow> generated \<Rightarrow> route_request \<Rightarrow> rule_db \<Rightarrow> rule_db \<times> reply" where
  "ratify_route rt g q db = lifecycle_route rt g SHADOW ''promoted_to_shadow'' q db"

definition deprecate_route :: "runtime \<Rightarrow> generated \<Rightarrow> route_request \<Rightarrow> rule_db \<Rightarrow> rule_db \<times> reply" where
  "deprecate_route rt g q db = lifecycle_route rt g DEPRECATED ''deprecated'' q db"

definition quarantine_route :: "runtime \<Rightarrow> generated \<Rightarrow> route_request \<Rightarrow> rule_db \<Rightarrow> rule_db \<times> reply" where
  "quarantine_route rt g q db = lifecycle_route rt g QUARANTINED ''quarantined'' q db"

definition activation_reply :: "rule_db \<Rightarrow> rule_db \<times> reply \<Rightarrow> rule_db \<times> reply" where
  "activation_reply db a =
     (case snd a of
        Thrown (RuleActivationBacktestRegressionError r) \<Rightarrow>
          (db, Regressed 422 (go_regression_count r) (map gr_id (filter (\<lambda>c. \<not> gr_passed c) (go_cases r))))
      | Thrown DualControlRequiredError \<Rightarrow> (db, Replied 409 ''DUAL_CONTROL_REQUIRED'')
      | _ \<Rightarrow> a)"

definition activate_route ::
  "'d decimal_lib \<Rightarrow> runtime \<Rightarrow> generated \<Rightarrow> route_request \<Rightarrow> rule_db \<Rightarrow> rule_db \<times> reply" where
  "activate_route D rt g q db =
     (if \<not> isUuid (rq_id q) then (db, Replied 400 ''invalid rule version id'')
      else case rationale_of (rq_rationale q) of
        None \<Rightarrow> (db, Replied 400 ''rationale is required'')
      | Some rationale \<Rightarrow>
          (case rq_cases q of
             Some untrusted \<Rightarrow>
               (case parse_activation_cases untrusted of
                  None \<Rightarrow> (db, Replied 400 ''invalid cases'')
                | Some cases \<Rightarrow>
                    activation_reply db (commit db
                      (rbind (run_and_persist_rule_activation_backtest D rt g (rq_id q) cases db) (\<lambda>(db1, b, _).
                       rbind (transition_rule_lifecycle g
                                \<lparr>ti_rule_version_id = rq_id q, ti_to = ACTIVE, ti_rationale = rationale,
                                 ti_dual_control_analyst_id = None, ti_rule_backtest_id = Some b\<rparr> db1)
                         (record_governance rt g ''promoted_to_active'' (rq_id q) (rq_actor_user_id q) rationale (Some b))))))
           | None \<Rightarrow>
               activation_reply db (commit db
                 (rbind (promote_shadow_rule g (rq_id q) rationale (rq_actor_user_id q) db)
                    (record_governance rt g ''promoted_to_active'' (rq_id q) (rq_actor_user_id q) rationale None)))))"

end
