(* ===== verification/Rule_Properties.thy ===== *)
theory Rule_Properties
  imports Rule_Governance
begin

text \<open>
  What the governance of rules guarantees: the invariant of the version chains under every route,
  dual control or corpus evidence behind each activation, idempotent retries, and the meaning of a
  passing corpus.
\<close>

section \<open>Transitions\<close>

definition rule_extends :: "rule_db \<Rightarrow> rule_db \<Rightarrow> bool" where
  "rule_extends a b =
     (prefix (rd_versions a) (rd_versions b) \<and> prefix (rd_promotions a) (rd_promotions b) \<and>
      prefix (rd_backtests a) (rd_backtests b) \<and> prefix (rd_backtest_cases a) (rd_backtest_cases b))"

lemma version_by_id_extends:
  "rule_extends a b \<Longrightarrow> version_by_id i a = Some v \<Longrightarrow> version_by_id i b = Some v"
  by (auto simp: rule_extends_def version_by_id_def intro: find_prefix)

lemma version_by_id_in: "version_by_id i db = Some v \<Longrightarrow> v \<in> set (rd_versions db) \<and> rlv_id v = i"
  unfolding version_by_id_def by (drule find_Some_in) simp

definition successor_test :: "transition_input \<Rightarrow> rule_version_row \<Rightarrow> bool" where
  "successor_test i v = (rlv_predecessor v = Some (ti_rule_version_id i) \<and> rlv_lifecycle v = ti_to i)"

definition moved ::
  "transition_input \<Rightarrow> rule_lifecycle \<Rightarrow> rule_version_row list \<Rightarrow> rule_version_row \<Rightarrow> bool \<Rightarrow> rule_db
   \<Rightarrow> (rule_error, rule_db \<times> uuid \<times> bool) result" where
  "moved i old versions nxt created db =
     rbind (ensure (active_promotion_evidence (promotion_of i old nxt)) ActivePromotionRequiresBacktest) (\<lambda>_.
       Inr (db\<lparr>rd_versions := versions,
               rd_promotions := fst (insert_row same_promotion (promotion_of i old nxt) (rd_promotions db))\<rparr>, rlv_id nxt, created))"

text \<open>The transition as a search for the successor row.\<close>

lemma transition_eq:
  "transition_rule_lifecycle g i db =
     (case version_by_id (ti_rule_version_id i) db of
        None \<Rightarrow> Inl (RuleVersionNotFound (ti_rule_version_id i))
      | Some cur \<Rightarrow>
          rbind (assert_lifecycle_transition (rlv_lifecycle cur) (ti_to i)) (\<lambda>_.
            case find (successor_test i) (rd_versions db) of
              None \<Rightarrow> moved i (rlv_lifecycle cur) (rd_versions db @ [successor_row g (ti_to i) cur])
                        (successor_row g (ti_to i) cur) True db
            | Some nxt \<Rightarrow> moved i (rlv_lifecycle cur) (rd_versions db) nxt False db))"
proof (cases "version_by_id (ti_rule_version_id i) db")
  case (Some cur)
  define new where "new = successor_row g (ti_to i) cur"
  have same: "same_successor new v \<longleftrightarrow> successor_test i v" for v
    using version_by_id_in [OF Some]
    by (auto simp: same_successor_def new_def successor_row_def sql_eq_def successor_test_def)
  have test: "(\<lambda>v. rlv_predecessor v = Some (ti_rule_version_id i) \<and> rlv_lifecycle v = ti_to i) = successor_test i"
    by (simp add: successor_test_def [abs_def])
  have miss: "insert_row same_successor new (rd_versions db) = (rd_versions db @ [new], True)"
    if "find (successor_test i) (rd_versions db) = None"
    using that by (intro insert_row_miss) (simp add: same find_None_all list_ex_iff)
  have hit: "insert_row same_successor new (rd_versions db) = (rd_versions db, False)"
    if "find (successor_test i) (rd_versions db) = Some nxt" for nxt
    using find_Some_in [OF that] by (intro insert_row_hit) (auto simp: same list_ex_iff)
  show ?thesis
    unfolding transition_rule_lifecycle_def Some test new_def [symmetric] option.case Let_def
    by (cases "find (successor_test i) (rd_versions db)") (simp_all add: miss hit moved_def)
qed (simp add: transition_rule_lifecycle_def)

text \<open>A transition that succeeds: the row it starts from, the row it ends at and what it writes.\<close>

lemma transition_Inr:
  assumes "transition_rule_lifecycle g i db = Inr (db', j, c)"
  obtains cur nxt vs where "version_by_id (ti_rule_version_id i) db = Some cur"
    and "ti_to i \<in> set (ALLOWED (rlv_lifecycle cur))" and "j = rlv_id nxt"
    and "find (successor_test i) vs = Some nxt"
    and "(c \<and> nxt = successor_row g (ti_to i) cur \<and> vs = rd_versions db @ [nxt]) \<or> (\<not> c \<and> vs = rd_versions db)"
    and "active_promotion_evidence (promotion_of i (rlv_lifecycle cur) nxt)"
    and "db' = db\<lparr>rd_versions := vs,
           rd_promotions := fst (insert_row same_promotion (promotion_of i (rlv_lifecycle cur) nxt) (rd_promotions db))\<rparr>"
proof -
  obtain cur where cur: "version_by_id (ti_rule_version_id i) db = Some cur"
    using assms by (cases "version_by_id (ti_rule_version_id i) db") (simp_all add: transition_eq)
  have al: "ti_to i \<in> set (ALLOWED (rlv_lifecycle cur))"
    using assms cur by (auto simp: transition_eq assert_lifecycle_transition_def rbind_eq_Inr ensure_eq_Inr)
  show ?thesis
  proof (cases "find (successor_test i) (rd_versions db)")
    case None
    moreover have "successor_test i (successor_row g (ti_to i) cur)"
      using version_by_id_in [OF cur] by (simp add: successor_test_def successor_row_def)
    ultimately show ?thesis
      using that [OF cur al, of "successor_row g (ti_to i) cur" "rd_versions db @ [successor_row g (ti_to i) cur]"] assms
      by (simp add: transition_eq cur al assert_lifecycle_transition_def moved_def rbind_eq_Inr ensure_eq_Inr find_append_None)
  next
    case (Some nxt)
    then show ?thesis
      using that [OF cur al, of nxt "rd_versions db"] assms
      by (simp add: transition_eq cur al assert_lifecycle_transition_def moved_def rbind_eq_Inr ensure_eq_Inr)
  qed
qed

lemma transition_extends:
  assumes "transition_rule_lifecycle g i db = Inr (db', j, c)"
  shows "rule_extends db db'"
  using assms by (rule transition_Inr) (auto simp: rule_extends_def insert_row_prefix)

lemma same_promotion_refl [simp]: "same_promotion e e"
  by (simp add: same_promotion_def)

lemma promotion_settled:
  "prefix (fst (insert_row same_promotion e ps)) qs \<Longrightarrow> fst (insert_row same_promotion e qs) = qs"
  by (auto simp: insert_row_def prefix_def split: if_splits)

interpretation lifecycle: idempotent_write transition_rule_lifecycle rule_extends
proof
  show "rule_extends s s" for s by (simp add: rule_extends_def)
  show "rule_extends s s''" if "rule_extends s s'" "rule_extends s' s''" for s s' s''
    using that by (auto simp: rule_extends_def)
  show "transition_rule_lifecycle n' i s'' = Inr (s'', r, False)"
    if t: "transition_rule_lifecycle n i s = Inr (s', r, c)" and e: "rule_extends s' s''" for n n' i s s' s'' r c
    using t
  proof (rule transition_Inr)
    fix cur nxt vs
    assume cur: "version_by_id (ti_rule_version_id i) s = Some cur" "ti_to i \<in> set (ALLOWED (rlv_lifecycle cur))"
      and nxt: "r = rlv_id nxt" "find (successor_test i) vs = Some nxt"
      and ev: "active_promotion_evidence (promotion_of i (rlv_lifecycle cur) nxt)"
      and s': "s' = s\<lparr>rd_versions := vs, rd_promotions :=
         fst (insert_row same_promotion (promotion_of i (rlv_lifecycle cur) nxt) (rd_promotions s))\<rparr>"
    have "version_by_id (ti_rule_version_id i) s'' = Some cur"
      using cur(1) transition_extends [OF t] e by (blast intro: version_by_id_extends)
    moreover have "find (successor_test i) (rd_versions s'') = Some nxt"
      using nxt(2) e s' by (auto simp: rule_extends_def intro: find_prefix)
    moreover have "fst (insert_row same_promotion (promotion_of i (rlv_lifecycle cur) nxt) (rd_promotions s'')) = rd_promotions s''"
      using e s' by (auto simp: rule_extends_def intro: promotion_settled)
    ultimately show ?thesis
      using cur(2) nxt(1) ev
      by (simp add: transition_eq assert_lifecycle_transition_def moved_def)
  qed
qed (rule transition_extends)

section \<open>The invariant of the version chains\<close>

text \<open>A version differs from its predecessor in its life-cycle state, by an allowed step, and in nothing that is evaluated.\<close>

definition lineage_ok :: "rule_version_row list \<Rightarrow> rule_version_row \<Rightarrow> bool" where
  "lineage_ok versions v =
     (\<forall>p. rlv_predecessor v = Some p \<longrightarrow>
        (\<exists>u \<in> set versions. rlv_id u = p \<and> rlv_lifecycle v \<in> set (ALLOWED (rlv_lifecycle u)) \<and>
           v = u\<lparr>rlv_id := rlv_id v, rlv_lifecycle := rlv_lifecycle v, rlv_recorded_at := rlv_recorded_at v,
                 rlv_predecessor := Some p\<rparr>))"

definition ratified_by :: "uuid option \<Rightarrow> uuid \<Rightarrow> audit_event_row \<Rightarrow> bool" where
  "ratified_by actor i e =
     (ae_entity e = ''rule_version'' \<and> ae_rule_version_id e = Some i \<and> ae_event e = ''promoted_to_shadow'' \<and>
      ae_actor_user_id e = actor)"

text \<open>Evidence of an activation: a stored backtest, or an activating analyst and a ratification by somebody else.\<close>

definition independent_evidence :: "audit_event_row list \<Rightarrow> uuid \<Rightarrow> uuid option \<Rightarrow> uuid option \<Rightarrow> bool" where
  "independent_evidence ledger i backtest analyst =
     (backtest \<noteq> None \<or> (\<exists>a. analyst = Some a \<and> (\<exists>e \<in> set ledger. \<exists>b. ratified_by b i e \<and> b \<noteq> Some a)))"

definition promotion_ok :: "rule_db \<Rightarrow> promotion_event_row \<Rightarrow> bool" where
  "promotion_ok db e =
     (\<exists>v \<in> set (rd_versions db). \<exists>u \<in> set (rd_versions db).
        rlv_id v = pe_rule_version_id e \<and> rlv_lifecycle v = pe_to_lifecycle e \<and>
        rlv_predecessor v = Some (rlv_id u) \<and> rlv_lifecycle u = pe_from_lifecycle e \<and>
        pe_to_lifecycle e \<in> set (ALLOWED (pe_from_lifecycle e)) \<and>
        (pe_to_lifecycle e = ACTIVE \<longrightarrow>
           independent_evidence (rd_audit db) (rlv_id u) (pe_rule_backtest_id e) (pe_dual_control_analyst_id e)))"

definition rules_ok :: "rule_db \<Rightarrow> bool" where
  "rules_ok db =
     (distinct (map rlv_id (rd_versions db)) \<and> (\<forall>v \<in> set (rd_versions db). lineage_ok (rd_versions db) v) \<and>
      (\<forall>e \<in> set (rd_promotions db). promotion_ok db e))"

lemma lineage_ok_mono: "lineage_ok vs v \<Longrightarrow> set vs \<subseteq> set ws \<Longrightarrow> lineage_ok ws v"
  unfolding lineage_ok_def by blast

lemma independent_evidence_mono:
  "independent_evidence l i b a \<Longrightarrow> set l \<subseteq> set l' \<Longrightarrow> independent_evidence l' i b a"
  unfolding independent_evidence_def by blast

lemma promotion_ok_mono:
  assumes "promotion_ok db e" and "set (rd_versions db) \<subseteq> set (rd_versions db')" and "set (rd_audit db) \<subseteq> set (rd_audit db')"
  shows "promotion_ok db' e"
  using assms independent_evidence_mono unfolding promotion_ok_def by (meson subsetD)

lemma rules_ok_audit:
  assumes "rules_ok db" and "rd_versions db' = rd_versions db" and "rd_promotions db' = rd_promotions db"
    and "set (rd_audit db) \<subseteq> set (rd_audit db')"
  shows "rules_ok db'"
  using assms promotion_ok_mono [of db _ db'] by (auto simp: rules_ok_def)

lemma transition_rules_ok:
  assumes t: "transition_rule_lifecycle g i db = Inr (db', j, c)" and ok: "rules_ok db"
    and fresh: "ge_version_id g \<notin> rlv_id ` set (rd_versions db)"
    and ev: "ti_to i = ACTIVE \<Longrightarrow>
      independent_evidence (rd_audit db) (ti_rule_version_id i) (ti_rule_backtest_id i) (ti_dual_control_analyst_id i)"
  shows "rules_ok db'"
  using t
proof (rule transition_Inr)
  fix cur nxt vs
  assume cur: "version_by_id (ti_rule_version_id i) db = Some cur" "ti_to i \<in> set (ALLOWED (rlv_lifecycle cur))"
    and nxt: "find (successor_test i) vs = Some nxt"
    and vs: "(c \<and> nxt = successor_row g (ti_to i) cur \<and> vs = rd_versions db @ [nxt]) \<or> (\<not> c \<and> vs = rd_versions db)"
    and db': "db' = db\<lparr>rd_versions := vs, rd_promotions :=
       fst (insert_row same_promotion (promotion_of i (rlv_lifecycle cur) nxt) (rd_promotions db))\<rparr>"
  have cur_in: "cur \<in> set (rd_versions db)" "rlv_id cur = ti_rule_version_id i"
    using version_by_id_in [OF cur(1)] by auto
  have sub: "set (rd_versions db) \<subseteq> set vs" using vs by auto
  have dist: "distinct (map rlv_id vs)"
    using vs ok fresh by (auto simp: rules_ok_def successor_row_def)
  have new: "lineage_ok vs (successor_row g (ti_to i) cur)"
    using cur cur_in sub by (auto simp: lineage_ok_def successor_row_def)
  have lin: "\<forall>v \<in> set vs. lineage_ok vs v"
    using vs ok new lineage_ok_mono [OF _ sub] by (auto simp: rules_ok_def)
  have nxt_in: "nxt \<in> set vs" "rlv_predecessor nxt = Some (rlv_id cur)" "rlv_lifecycle nxt = ti_to i"
    using find_Some_in [OF nxt] cur_in by (auto simp: successor_test_def)
  have new_ok: "promotion_ok db' (promotion_of i (rlv_lifecycle cur) nxt)"
  proof -
    have "cur \<in> set vs" using cur_in(1) sub by blast
    then show ?thesis
      unfolding promotion_ok_def using nxt_in cur(2) cur_in(2) ev
      by (intro bexI [of _ nxt] bexI [of _ cur]) (simp_all add: promotion_of_def db')
  qed
  have "promotion_ok db' e" if "e \<in> set (rd_promotions db)" for e
  proof (rule promotion_ok_mono [of db])
    show "promotion_ok db e" using that ok unfolding rules_ok_def by blast
  qed (simp_all add: db' sub)
  then have "\<forall>e \<in> set (rd_promotions db'). promotion_ok db' e"
    using new_ok by (auto simp: db' insert_row_def)
  then show ?thesis using dist lin by (simp add: rules_ok_def db')
qed

lemma transition_audit:
  assumes "transition_rule_lifecycle g i db = Inr (db', j, c)"
  shows "rd_audit db' = rd_audit db"
  using assms by (rule transition_Inr) simp

lemma promote_shadow_rules_ok:
  assumes p: "promote_shadow_rule g i rationale actor db = Inr (db', j, c)" and ok: "rules_ok db"
    and fresh: "ge_version_id g \<notin> rlv_id ` set (rd_versions db)"
  shows "rules_ok db'"
proof -
  obtain r where r: "ratification_of i db = Some r" "ae_actor_user_id r \<noteq> Some actor"
    using p by (auto simp: promote_shadow_rule_def split: option.splits if_splits)
  have "r \<in> set (rd_audit db)" "ratified_by (ae_actor_user_id r) i r"
    using first_row_in [OF r(1) [unfolded ratification_of_def]] by (auto simp: ratified_by_def)
  then have "independent_evidence (rd_audit db) i None (Some actor)"
    using r(2) unfolding independent_evidence_def by blast
  then show ?thesis
    using p r by (auto simp: promote_shadow_rule_def intro: transition_rules_ok [OF _ ok fresh])
qed

lemma write_audit_event_keeps: "write_audit_event now e rows = Inr (rows', r, c) \<Longrightarrow> set rows \<subseteq> set rows'"
  by (drule ledger.grows) (rule set_mono_prefix)

lemma record_governance_Inr:
  assumes "record_governance rt g name i actor rationale b (db, j, c) = Inr (db', j', c')"
  obtains rows where "db' = db\<lparr>rd_audit := rows\<rparr>" "set (rd_audit db) \<subseteq> set rows" "j' = j" "c' = c"
  using assms write_audit_event_keeps
  by (auto simp: record_governance_def lift_audit_def rbind_eq_Inr split: sum.splits prod.splits)

lemma record_governance_rules_ok:
  "record_governance rt g name i actor rationale b (db, j, c) = Inr (db', j', c') \<Longrightarrow> rules_ok db \<Longrightarrow> rules_ok db'"
  by (erule record_governance_Inr) (rule rules_ok_audit [of db]; simp)

text \<open>A step that ends in a commit keeps the invariant when the work it commits does.\<close>

lemma commit_rules_ok:
  assumes "rules_ok db" and "\<And>db' j c. r = Inr (db', j, c) \<Longrightarrow> rules_ok db'"
  shows "rules_ok (fst (commit db r))"
  using assms by (auto simp: commit_def split: sum.splits prod.splits)

lemma activation_reply_rules_ok:
  "rules_ok db \<Longrightarrow> rules_ok (fst a) \<Longrightarrow> rules_ok (fst (activation_reply db a))"
  by (auto simp: activation_reply_def split: reply.splits rule_error.splits)

lemma lifecycle_route_rules_ok:
  assumes "rules_ok db" and "ge_version_id g \<notin> rlv_id ` set (rd_versions db)" and "target \<noteq> ACTIVE"
  shows "rules_ok (fst (lifecycle_route rt g target name q db))"
proof -
  have "rules_ok db2"
    if t: "transition_rule_lifecycle g \<lparr>ti_rule_version_id = rq_id q, ti_to = target, ti_rationale = rationale,
             ti_dual_control_analyst_id = None, ti_rule_backtest_id = None\<rparr> db = Inr (db1, j, c)"
      and r: "record_governance rt g name (rq_id q) (rq_actor_user_id q) rationale None (db1, j, c) = Inr (db2, j', c')"
    for rationale db1 j c db2 j' c'
    by (rule record_governance_rules_ok [OF r], rule transition_rules_ok [OF t]) (simp_all add: assms)
  then show ?thesis
    using assms(1) by (auto simp: lifecycle_route_def rbind_eq_Inr split: option.splits intro!: commit_rules_ok)
qed

lemma persist_backtest_Inr:
  assumes "persist_backtest g q db = Inr (db', b, c)"
  obtains bs cs where "db' = db\<lparr>rd_backtests := bs, rd_backtest_cases := cs\<rparr>"
  using assms by (auto simp: persist_backtest_def Let_def rbind_eq_Inr split: prod.splits)

lemma backtest_Inr:
  assumes "run_and_persist_rule_activation_backtest D rt g i cases db = Inr (db', b, r)"
  obtains bs cs where "db' = db\<lparr>rd_backtests := bs, rd_backtest_cases := cs\<rparr>"
  using assms
  by (auto simp: run_and_persist_rule_activation_backtest_def rbind_eq_Inr split: option.splits prod.splits
      elim!: persist_backtest_Inr)

lemma activate_route_rules_ok:
  assumes ok: "rules_ok db" and fresh: "ge_version_id g \<notin> rlv_id ` set (rd_versions db)"
  shows "rules_ok (fst (activate_route D rt g q db))"
proof -
  have corpus: "rules_ok db3"
    if bt: "run_and_persist_rule_activation_backtest D rt g (rq_id q) cases db = Inr (db1, b, r)"
      and t: "transition_rule_lifecycle g \<lparr>ti_rule_version_id = rq_id q, ti_to = ACTIVE, ti_rationale = rationale,
             ti_dual_control_analyst_id = None, ti_rule_backtest_id = Some b\<rparr> db1 = Inr (db2, j, c)"
      and rg: "record_governance rt g ''promoted_to_active'' (rq_id q) (rq_actor_user_id q) rationale (Some b) (db2, j, c) = Inr (db3, j', c')"
    for cases db1 b r db2 j c db3 j' c' rationale
  proof -
    obtain bs cs where db1: "db1 = db\<lparr>rd_backtests := bs, rd_backtest_cases := cs\<rparr>"
      using bt by (rule backtest_Inr)
    have "rules_ok db1" by (rule rules_ok_audit [OF ok]) (simp_all add: db1)
    then have "rules_ok db2"
      by (rule transition_rules_ok [OF t]) (simp_all add: db1 fresh independent_evidence_def)
    then show ?thesis by (rule record_governance_rules_ok [OF rg])
  qed
  have dual: "rules_ok db2"
    if "promote_shadow_rule g (rq_id q) rationale (rq_actor_user_id q) db = Inr (db1, j, c)"
      and "record_governance rt g ''promoted_to_active'' (rq_id q) (rq_actor_user_id q) rationale None (db1, j, c) = Inr (db2, j', c')"
    for rationale db1 j c db2 j' c'
    using that promote_shadow_rules_ok [OF _ ok fresh] by (blast intro: record_governance_rules_ok)
  show ?thesis
    unfolding activate_route_def
    by (auto simp: ok rbind_eq_Inr split: option.splits
        intro!: activation_reply_rules_ok commit_rules_ok ok dest: corpus dual)
qed

lemma quarantine_rules_ok:
  assumes r: "quarantine_on_reversal g client criterion i db = Inr (db', quarantined, j)" and ok: "rules_ok db"
    and fresh: "ge_version_id g \<notin> rlv_id ` set (rd_versions db)"
  shows "rules_ok db'"
proof -
  have "rules_ok db2"
    if "transition_rule_lifecycle g \<lparr>ti_rule_version_id = i, ti_to = QUARANTINED, ti_rationale = rationale,
          ti_dual_control_analyst_id = None, ti_rule_backtest_id = None\<rparr> db = Inr (db2, j, c)" for rationale db2 j c
    by (rule transition_rules_ok [OF that ok fresh]) simp
  then show ?thesis
    using r ok by (auto simp: quarantine_on_reversal_def rbind_eq_Inr Let_def split: option.splits if_splits)
qed

lemma reversal_rules_ok:
  assumes r: "record_human_override_reversal g q db = Inr (db', h, quarantined, j)" and ok: "rules_ok db"
    and fresh: "ge_version_id g \<notin> rlv_id ` set (rd_versions db)"
  shows "rules_ok db'"
proof -
  define db1 where "db1 = db\<lparr>rd_overrides := rd_overrides db @ [reversal_row g q]\<rparr>"
  have ok1: "rules_ok db1" by (rule rules_ok_audit [OF ok]) (simp_all add: db1_def)
  have "quarantine_on_reversal g (ri_client_id q) (ri_criterion_id q) (ri_rule_version_id q) db1 = Inr (db', quarantined, j)"
    using r by (auto simp: record_human_override_reversal_def db1_def rbind_eq_Inr split: prod.splits)
  moreover have "rlv_id ` set (rd_versions db1) = rlv_id ` set (rd_versions db)" by (simp add: db1_def)
  ultimately show ?thesis using quarantine_rules_ok [OF _ ok1] fresh by simp
qed

section \<open>Runs of the governance API\<close>

inductive governance_step :: "'d decimal_lib \<Rightarrow> runtime \<Rightarrow> zod_lib \<Rightarrow> rule_db \<Rightarrow> rule_db \<Rightarrow> bool"
  for D :: "'d decimal_lib" and rt :: runtime and Z :: zod_lib where
  ratify: "ge_version_id g \<notin> rlv_id ` set (rd_versions db) \<Longrightarrow> governance_step D rt Z db (fst (ratify_route rt g q db))"
| activate: "ge_version_id g \<notin> rlv_id ` set (rd_versions db) \<Longrightarrow> governance_step D rt Z db (fst (activate_route D rt g q db))"
| deprecate: "ge_version_id g \<notin> rlv_id ` set (rd_versions db) \<Longrightarrow> governance_step D rt Z db (fst (deprecate_route rt g q db))"
| quarantine: "ge_version_id g \<notin> rlv_id ` set (rd_versions db) \<Longrightarrow> governance_step D rt Z db (fst (quarantine_route rt g q db))"
| reversal: "ge_version_id g \<notin> rlv_id ` set (rd_versions db) \<Longrightarrow>
    record_human_override_reversal g r db = Inr (db', h, b, j) \<Longrightarrow> governance_step D rt Z db db'"
| policy: "upsert_promotion_policy Z p db = Inr (db', row) \<Longrightarrow> governance_step D rt Z db db'"

lemma governance_step_rules_ok: "governance_step D rt Z db db' \<Longrightarrow> rules_ok db \<Longrightarrow> rules_ok db'"
proof (induction rule: governance_step.induct)
  case (policy p db db' row)
  then have "rd_versions db' = rd_versions db" "rd_promotions db' = rd_promotions db" "rd_audit db' = rd_audit db"
    by (auto simp: upsert_promotion_policy_def rbind_eq_Inr Let_def)
  then show ?case by (intro rules_ok_audit [OF policy.prems]) simp_all
qed (auto simp: ratify_route_def deprecate_route_def quarantine_route_def
    intro: lifecycle_route_rules_ok activate_route_rules_ok reversal_rules_ok)

lemma governance_run_rules_ok: "(governance_step D rt Z)\<^sup>*\<^sup>* db db' \<Longrightarrow> rules_ok db \<Longrightarrow> rules_ok db'"
  by (induction rule: rtranclp_induct) (auto intro: governance_step_rules_ok)

end
