(* ===== verification/Rule_Evidence.thy ===== *)
theory Rule_Evidence
  imports Rule_Properties
begin

text \<open>
  What stands behind an activation with corpus evidence: a stored backtest of the version that was
  promoted, whose corpus the version's AST passes. Every governance operation keeps it, and no
  other operation writes a promotion that names a backtest.
\<close>

section \<open>Stored corpus evidence\<close>

text \<open>
  The stored row \<open>t\<close> is the outcome of a non-empty corpus run against the AST of version \<open>u\<close>, every
  case of which gave the expected verdict.
\<close>

definition corpus_evidence :: "'d decimal_lib \<Rightarrow> runtime \<Rightarrow> rule_version_row \<Rightarrow> backtest_row \<Rightarrow> bool" where
  "corpus_evidence D rt u t \<longleftrightarrow>
     bt_rule_version_id t = rlv_id u \<and> bt_passed t \<and> bt_regression_count t = 0 \<and>
     (\<exists>cases r. cases \<noteq> [] \<and> run_golden_corpus rt facts_json (golden_cases cases) (rule_verdict D (rlv_ast u)) = Inr r \<and>
        go_passed r \<and> bt_corpus_hash t = go_corpus_hash r \<and> bt_pass_count t = length cases)"

text \<open>A promotion to ACTIVE that names a backtest has it in the table, for the version it starts from.\<close>

definition corpus_backed :: "'d decimal_lib \<Rightarrow> runtime \<Rightarrow> rule_db \<Rightarrow> promotion_event_row \<Rightarrow> bool" where
  "corpus_backed D rt db e \<longleftrightarrow>
     (\<forall>b. pe_to_lifecycle e = ACTIVE \<and> pe_rule_backtest_id e = Some b \<longrightarrow>
        (\<exists>v \<in> set (rd_versions db). \<exists>u \<in> set (rd_versions db). \<exists>t \<in> set (rd_backtests db).
           rlv_id v = pe_rule_version_id e \<and> rlv_predecessor v = Some (rlv_id u) \<and> bt_id t = b \<and> corpus_evidence D rt u t))"

text \<open>Every promotion is one of the set \<open>P\<close> the run started with, or backed.\<close>

definition all_corpus_backed :: "'d decimal_lib \<Rightarrow> runtime \<Rightarrow> promotion_event_row set \<Rightarrow> rule_db \<Rightarrow> bool" where
  "all_corpus_backed D rt P db \<longleftrightarrow> (\<forall>e \<in> set (rd_promotions db). e \<in> P \<or> corpus_backed D rt db e)"

lemma corpus_backed_mono:
  "corpus_backed D rt db e \<Longrightarrow> set (rd_versions db) \<subseteq> set (rd_versions db') \<Longrightarrow> set (rd_backtests db) \<subseteq> set (rd_backtests db') \<Longrightarrow>
   corpus_backed D rt db' e"
  unfolding corpus_backed_def by (meson subsetD)

lemma all_backed_mono:
  assumes "all_corpus_backed D rt P db" and "rd_promotions db' = rd_promotions db"
    and "set (rd_versions db) \<subseteq> set (rd_versions db')" and "set (rd_backtests db) \<subseteq> set (rd_backtests db')"
  shows "all_corpus_backed D rt P db'"
  using assms corpus_backed_mono unfolding all_corpus_backed_def by metis

section \<open>The steps\<close>

lemma transition_backed:
  assumes t: "transition_rule_lifecycle g i db = Inr (db', j, c)" and ok: "all_corpus_backed D rt P db"
    and ev: "\<And>b cur. ti_rule_backtest_id i = Some b \<Longrightarrow> version_by_id (ti_rule_version_id i) db = Some cur \<Longrightarrow>
      \<exists>x \<in> set (rd_backtests db). bt_id x = b \<and> corpus_evidence D rt cur x"
  shows "all_corpus_backed D rt P db'"
  using t
proof (rule transition_Inr)
  fix cur nxt vs
  assume cur: "version_by_id (ti_rule_version_id i) db = Some cur" and nxt: "find (successor_test i) vs = Some nxt"
    and vs: "(c \<and> nxt = successor_row g (ti_to i) cur \<and> vs = rd_versions db @ [nxt]) \<or> (\<not> c \<and> vs = rd_versions db)"
    and db': "db' = db\<lparr>rd_versions := vs, rd_promotions :=
       fst (insert_row same_promotion (promotion_of i (rlv_lifecycle cur) nxt) (rd_promotions db))\<rparr>"
  have sub: "set (rd_versions db) \<subseteq> set vs" using vs by auto
  have cur_in: "cur \<in> set vs" "rlv_id cur = ti_rule_version_id i" using version_by_id_in [OF cur] sub by auto
  have nxt_in: "nxt \<in> set vs" "rlv_predecessor nxt = Some (rlv_id cur)"
    using find_Some_in [OF nxt] cur_in by (auto simp: successor_test_def)
  have "corpus_backed D rt db' (promotion_of i (rlv_lifecycle cur) nxt)"
    unfolding corpus_backed_def
  proof (intro allI impI)
    fix b assume "pe_to_lifecycle (promotion_of i (rlv_lifecycle cur) nxt) = ACTIVE \<and>
      pe_rule_backtest_id (promotion_of i (rlv_lifecycle cur) nxt) = Some b"
    then obtain x where "x \<in> set (rd_backtests db)" "bt_id x = b" "corpus_evidence D rt cur x"
      using ev [OF _ cur] by (auto simp: promotion_of_def)
    then show "\<exists>v \<in> set (rd_versions db'). \<exists>u \<in> set (rd_versions db'). \<exists>t \<in> set (rd_backtests db').
        rlv_id v = pe_rule_version_id (promotion_of i (rlv_lifecycle cur) nxt) \<and> rlv_predecessor v = Some (rlv_id u) \<and>
        bt_id t = b \<and> corpus_evidence D rt u t"
      using nxt_in cur_in(1) by (intro bexI [of _ nxt] bexI [of _ cur] bexI [of _ x]) (simp_all add: promotion_of_def db')
  qed
  moreover have "e \<in> P \<or> corpus_backed D rt db' e" if "e \<in> set (rd_promotions db)" for e
    using ok that sub corpus_backed_mono [of D rt db e db'] by (auto simp: all_corpus_backed_def db')
  moreover have "set (rd_promotions db') \<subseteq> insert (promotion_of i (rlv_lifecycle cur) nxt) (set (rd_promotions db))"
    by (auto simp: db' insert_row_def)
  ultimately show ?thesis unfolding all_corpus_backed_def by blast
qed

lemma transition_tables:
  "transition_rule_lifecycle g i db = Inr (db', j, c) \<Longrightarrow> rd_backtests db' = rd_backtests db"
  by (erule transition_Inr) simp

lemma record_governance_backed:
  "record_governance rt g name i actor rationale b (db, j, c) = Inr (db', j', c') \<Longrightarrow> all_corpus_backed D rt P db \<Longrightarrow> all_corpus_backed D rt P db'"
  by (erule record_governance_Inr) (rule all_backed_mono [of D rt P db]; simp)

lemma promote_shadow_backed:
  "promote_shadow_rule g i rationale actor db = Inr (db', j, c) \<Longrightarrow> all_corpus_backed D rt P db \<Longrightarrow> all_corpus_backed D rt P db'"
  by (auto simp: promote_shadow_rule_def intro: transition_backed split: option.splits if_splits)

lemma commit_backed:
  assumes "all_corpus_backed D rt P db" and "\<And>db' j c. r = Inr (db', j, c) \<Longrightarrow> all_corpus_backed D rt P db'"
  shows "all_corpus_backed D rt P (fst (commit db r))"
  using assms by (auto simp: commit_def split: sum.splits prod.splits)

lemma activation_reply_backed:
  "all_corpus_backed D rt P db \<Longrightarrow> all_corpus_backed D rt P (fst a) \<Longrightarrow> all_corpus_backed D rt P (fst (activation_reply db a))"
  by (auto simp: activation_reply_def split: reply.splits rule_error.splits)

lemma lifecycle_route_backed:
  assumes "all_corpus_backed D rt P db"
  shows "all_corpus_backed D rt P (fst (lifecycle_route rt g target name q db))"
proof -
  have "all_corpus_backed D rt P db2"
    if t: "transition_rule_lifecycle g \<lparr>ti_rule_version_id = rq_id q, ti_to = target, ti_rationale = rationale,
             ti_dual_control_analyst_id = None, ti_rule_backtest_id = None\<rparr> db = Inr (db1, j, c)"
      and r: "record_governance rt g name (rq_id q) (rq_actor_user_id q) rationale None (db1, j, c) = Inr (db2, j', c')"
    for rationale db1 j c db2 j' c'
    by (rule record_governance_backed [OF r], rule transition_backed [OF t assms]) simp
  then show ?thesis
    using assms by (auto simp: lifecycle_route_def rbind_eq_Inr split: option.splits intro!: commit_backed)
qed

text \<open>The backtest of an activation stores exactly one row, which is the evidence.\<close>

lemma backtest_evidence:
  assumes b: "run_and_persist_rule_activation_backtest D rt g i cases db = Inr (db', b, r)" and ne: "cases \<noteq> []"
    and cur: "version_by_id i db = Some cur"
  obtains t cs where "db' = db\<lparr>rd_backtests := rd_backtests db @ [t], rd_backtest_cases := cs\<rparr>" "bt_id t = b" "corpus_evidence D rt cur t"
proof -
  have run: "run_golden_corpus rt facts_json (golden_cases cases) (rule_verdict D (rlv_ast cur)) = Inr r" "go_passed r"
    and p: "\<exists>c. persist_backtest g (None, i, r) db = Inr (db', b, c)"
    using b by (auto simp: run_and_persist_rule_activation_backtest_def cur rbind_eq_Inr ensure_eq_Inr split: prod.splits)
  let ?t = "backtest_row_of g None i r"
  have "insert_row same_backtest ?t (rd_backtests db) = (rd_backtests db @ [?t], True)"
    by (rule insert_row_miss) (simp add: list_ex_iff same_backtest_def backtest_row_of_def sql_eq_def)
  then have db': "db' = db\<lparr>rd_backtests := rd_backtests db @ [?t],
      rd_backtest_cases := insert_cases None b (go_cases r) (rd_backtest_cases db)\<rparr>" and bid: "bt_id ?t = b"
    using p by (auto simp: persist_backtest_def backtest_row_of_def)
  have "go_regression_count r = 0" "go_pass_count r = length cases"
    using run rtraverse_length
    by (fastforce simp: run_golden_corpus_def golden_cases_def rbind_eq_Inr Let_def)+
  then have "corpus_evidence D rt cur ?t"
    using run ne version_by_id_in [OF cur] by (auto simp: corpus_evidence_def backtest_row_of_def)
  then show thesis using that [OF db' bid] by simp
qed

lemma parsed_cases_nonempty: "parse_activation_cases v = Some cs \<Longrightarrow> cs \<noteq> []"
  by (cases v) (auto simp: parse_activation_cases_def Let_def split: if_splits)

lemma activate_route_backed:
  assumes ok: "all_corpus_backed D rt P db"
  shows "all_corpus_backed D rt P (fst (activate_route D rt g q db))"
proof -
  have corpus: "all_corpus_backed D rt P db3"
    if ne: "parse_activation_cases v = Some cases"
      and bt: "run_and_persist_rule_activation_backtest D rt g (rq_id q) cases db = Inr (db1, b, r)"
      and t: "transition_rule_lifecycle g \<lparr>ti_rule_version_id = rq_id q, ti_to = ACTIVE, ti_rationale = rationale,
             ti_dual_control_analyst_id = None, ti_rule_backtest_id = Some b\<rparr> db1 = Inr (db2, j, c)"
      and rg: "record_governance rt g ''promoted_to_active'' (rq_id q) (rq_actor_user_id q) rationale (Some b) (db2, j, c) = Inr (db3, j', c')"
    for v cases db1 b r db2 j c db3 j' c' rationale
  proof -
    obtain cur where cur: "version_by_id (rq_id q) db = Some cur"
      using bt by (cases "version_by_id (rq_id q) db") (simp_all add: run_and_persist_rule_activation_backtest_def)
    obtain x cs where db1: "db1 = db\<lparr>rd_backtests := rd_backtests db @ [x], rd_backtest_cases := cs\<rparr>"
      and x: "bt_id x = b" "corpus_evidence D rt cur x"
      by (rule backtest_evidence [OF bt parsed_cases_nonempty [OF ne] cur])
    have ok1: "all_corpus_backed D rt P db1" by (rule all_backed_mono [OF ok]) (auto simp: db1)
    have same: "version_by_id (rq_id q) db1 = Some cur" using cur by (simp add: db1 version_by_id_def)
    have "all_corpus_backed D rt P db2" by (rule transition_backed [OF t ok1]) (use x same in \<open>auto simp: db1\<close>)
    then show ?thesis by (rule record_governance_backed [OF rg])
  qed
  have dual: "all_corpus_backed D rt P db2"
    if "promote_shadow_rule g (rq_id q) rationale (rq_actor_user_id q) db = Inr (db1, j, c)"
      and "record_governance rt g ''promoted_to_active'' (rq_id q) (rq_actor_user_id q) rationale None (db1, j, c) = Inr (db2, j', c')"
    for rationale db1 j c db2 j' c'
    using that promote_shadow_backed [OF _ ok] by (blast intro: record_governance_backed)
  show ?thesis
    unfolding activate_route_def
    by (auto simp: ok rbind_eq_Inr split: option.splits
        intro!: activation_reply_backed commit_backed ok dest: corpus dual)
qed

lemma quarantine_backed:
  assumes r: "quarantine_on_reversal g client criterion i db = Inr (db', quarantined, j)" and ok: "all_corpus_backed D rt P db"
  shows "all_corpus_backed D rt P db'"
proof -
  have "all_corpus_backed D rt P db2"
    if "transition_rule_lifecycle g \<lparr>ti_rule_version_id = i, ti_to = QUARANTINED, ti_rationale = rationale,
          ti_dual_control_analyst_id = None, ti_rule_backtest_id = None\<rparr> db = Inr (db2, j, c)" for rationale db2 j c
    by (rule transition_backed [OF that ok]) simp
  then show ?thesis
    using r ok by (auto simp: quarantine_on_reversal_def rbind_eq_Inr Let_def split: option.splits if_splits)
qed

lemma governance_step_backed: "governance_step D rt Z db db' \<Longrightarrow> all_corpus_backed D rt P db \<Longrightarrow> all_corpus_backed D rt P db'"
proof (induction rule: governance_step.induct)
  case (policy p db db' row)
  then show ?case
    by (intro all_backed_mono [OF policy.prems]) (auto simp: upsert_promotion_policy_def rbind_eq_Inr Let_def)
next
  case (reversal g db r db' h b j)
  have "all_corpus_backed D rt P (db\<lparr>rd_overrides := rd_overrides db @ [reversal_row g r]\<rparr>)"
    by (rule all_backed_mono [OF reversal.prems]) simp_all
  then show ?case
    using reversal.hyps by (auto simp: record_human_override_reversal_def rbind_eq_Inr split: prod.splits intro: quarantine_backed)
qed (auto simp: ratify_route_def deprecate_route_def quarantine_route_def intro: lifecycle_route_backed activate_route_backed)

lemma governance_run_backed: "(governance_step D rt Z)\<^sup>*\<^sup>* db db' \<Longrightarrow> all_corpus_backed D rt P db \<Longrightarrow> all_corpus_backed D rt P db'"
  by (induction rule: rtranclp_induct) (auto intro: governance_step_backed)

end
