(* ===== verification/Rule_Theorems.thy ===== *)
theory Rule_Theorems
  imports Rule_Evidence Audit_Properties
begin

text \<open>
  The properties of rule governance, with a concrete rule that is ratified by one analyst,
  activated by another and then quarantined.
\<close>

section \<open>A concrete rule\<close>

definition u_rule :: uuid where "u_rule = ''00000000-0000-0000-0000-0000000000c1''"
definition u_proposed :: uuid where "u_proposed = ''00000000-0000-0000-0000-0000000000d1''"
definition u_shadow :: uuid where "u_shadow = ''00000000-0000-0000-0000-0000000000d2''"
definition u_active :: uuid where "u_active = ''00000000-0000-0000-0000-0000000000d3''"
definition u_alice :: uuid where "u_alice = ''00000000-0000-0000-0000-0000000000e1''"
definition u_bob :: uuid where "u_bob = ''00000000-0000-0000-0000-0000000000e2''"

definition sample_version :: "uuid \<Rightarrow> rule_lifecycle \<Rightarrow> uuid option \<Rightarrow> instant \<Rightarrow> rule_version_row" where
  "sample_version i l p t =
     \<lparr>rlv_id = i, rlv_rule_id = u_rule, rlv_hardness = AI_DOCS, rlv_lifecycle = l,
      rlv_ast = AstLit (LBool True), rlv_ast_hash = ''h'', rlv_expected_inputs = JArray [], rlv_emits = ''BOOLEAN'',
      rlv_provenance = JObject [], rlv_clause_id = None, rlv_valid_from = 0, rlv_valid_to = None,
      rlv_recorded_at = t, rlv_predecessor = p\<rparr>"

definition sample_rules :: "rule_version_row list \<Rightarrow> rule_db" where
  "sample_rules vs =
     \<lparr>rd_rules = [\<lparr>ru_id = u_rule, ru_slug = ''footing'', ru_rule_type = ''STRUCTURAL''\<rparr>], rd_versions = vs,
      rd_promotions = [], rd_audit = [], rd_policies = [], rd_overrides = [], rd_backtests = [],
      rd_backtest_cases = [], rd_accounts = [], rd_criteria = []\<rparr>"

definition proposed_rules :: rule_db where
  "proposed_rules = sample_rules [sample_version u_proposed PROPOSED None 1]"

definition gen_ids :: "uuid \<Rightarrow> instant \<Rightarrow> generated" where
  "gen_ids i t = \<lparr>ge_version_id = i, ge_override_id = i, ge_backtest_id = i, ge_now = t\<rparr>"

definition governance_request :: "uuid \<Rightarrow> uuid \<Rightarrow> route_request" where
  "governance_request i actor =
     \<lparr>rq_id = i, rq_rationale = Some (JString ''checked''), rq_cases = None, rq_actor_user_id = actor\<rparr>"

definition sample_detail :: "uuid \<Rightarrow> (string \<times> json) list" where
  "sample_detail i = [(''rationale'', JString ''checked''), (''fromRuleVersionId'', JString i)]"

definition ratified_event :: audit_event where
  "ratified_event = governance_event ledger_runtime ''promoted_to_shadow'' u_proposed u_shadow u_alice (sample_detail u_proposed)"

definition activated_event :: audit_event where
  "activated_event = governance_event ledger_runtime ''promoted_to_active'' u_shadow u_active u_bob (sample_detail u_shadow)"

definition sample_promotion :: "uuid \<Rightarrow> rule_lifecycle \<Rightarrow> rule_lifecycle \<Rightarrow> uuid option \<Rightarrow> promotion_event_row" where
  "sample_promotion i old new analyst =
     \<lparr>pe_rule_version_id = i, pe_from_hardness = AI_DOCS, pe_to_hardness = AI_DOCS, pe_from_lifecycle = old,
      pe_to_lifecycle = new, pe_direction = PROMOTE, pe_rationale = ''checked'', pe_dual_control_analyst_id = analyst,
      pe_rule_backtest_id = None\<rparr>"

definition shadow_rules :: rule_db where
  "shadow_rules = proposed_rules\<lparr>rd_versions :=
       [sample_version u_proposed PROPOSED None 1, sample_version u_shadow SHADOW (Some u_proposed) 2],
     rd_promotions := [sample_promotion u_shadow PROPOSED SHADOW None]\<rparr>"

definition ratified_rules :: rule_db where
  "ratified_rules = shadow_rules\<lparr>rd_audit := [ledger_row 2 ratified_event]\<rparr>"

definition active_rules :: rule_db where
  "active_rules = ratified_rules\<lparr>rd_versions :=
       [sample_version u_proposed PROPOSED None 1, sample_version u_shadow SHADOW (Some u_proposed) 2,
        sample_version u_active ACTIVE (Some u_shadow) 3],
     rd_promotions := [sample_promotion u_shadow PROPOSED SHADOW None, sample_promotion u_active SHADOW ACTIVE (Some u_bob)]\<rparr>"

definition activated_rules :: rule_db where
  "activated_rules = active_rules\<lparr>rd_audit := [ledger_row 2 ratified_event, ledger_row 3 activated_event]\<rparr>"

lemma sample_ids: "isUuid u_proposed" "isUuid u_shadow" "rationale_of (Some (JString ''checked'')) = Some ''checked''"
  by code_simp+

lemma ratified:
  "ratify_route ledger_runtime (gen_ids u_shadow 2) (governance_request u_proposed u_alice) proposed_rules =
     (ratified_rules, Accepted 201 (u_shadow, True))"
proof -
  have t: "transition_rule_lifecycle (gen_ids u_shadow 2) \<lparr>ti_rule_version_id = u_proposed, ti_to = SHADOW,
      ti_rationale = ''checked'', ti_dual_control_analyst_id = None, ti_rule_backtest_id = None\<rparr> proposed_rules =
      Inr (shadow_rules, u_shadow, True)" by code_simp
  have w: "write_audit_event 2 ratified_event [] = Inr ([ledger_row 2 ratified_event], ae_id ratified_event, True)" by code_simp
  have a: "rd_audit shadow_rules = []" by (simp add: shadow_rules_def proposed_rules_def sample_rules_def)
  have n: "ge_now (gen_ids u_shadow 2) = 2" by (simp add: gen_ids_def)
  show ?thesis
    unfolding ratify_route_def lifecycle_route_def governance_request_def route_request.simps sample_ids
    by (simp add: sample_ids t record_governance_def a n w [unfolded ratified_event_def sample_detail_def]
        lift_audit_def commit_def ratified_rules_def ratified_event_def sample_detail_def)
qed

lemma activated:
  "activate_route exact_decimal ledger_runtime (gen_ids u_active 3) (governance_request u_shadow u_bob) ratified_rules =
     (activated_rules, Accepted 201 (u_active, True))"
proof -
  have t: "promote_shadow_rule (gen_ids u_active 3) u_shadow ''checked'' u_bob ratified_rules = Inr (active_rules, u_active, True)"
    by code_simp
  have w: "write_audit_event 3 activated_event [ledger_row 2 ratified_event] =
      Inr ([ledger_row 2 ratified_event, ledger_row 3 activated_event], ae_id activated_event, True)" by code_simp
  have a: "rd_audit active_rules = [ledger_row 2 ratified_event]" by (simp add: active_rules_def ratified_rules_def)
  have n: "ge_now (gen_ids u_active 3) = 3" by (simp add: gen_ids_def)
  show ?thesis
    unfolding activate_route_def governance_request_def route_request.simps sample_ids
    by (simp add: sample_ids t record_governance_def a n w [unfolded activated_event_def sample_detail_def]
        lift_audit_def commit_def activation_reply_def activated_rules_def activated_event_def sample_detail_def)
qed

lemma proposed_rules_ok: "rules_ok proposed_rules"
  by (simp add: rules_ok_def proposed_rules_def sample_rules_def lineage_ok_def sample_version_def)

lemma activated_run: "(governance_step exact_decimal ledger_runtime Z)\<^sup>*\<^sup>* proposed_rules activated_rules"
proof -
  have f1: "u_shadow \<notin> rlv_id ` set (rd_versions proposed_rules)"
    by (simp add: proposed_rules_def sample_rules_def sample_version_def u_shadow_def u_proposed_def)
  have f2: "u_active \<notin> rlv_id ` set (rd_versions ratified_rules)"
    by (simp add: ratified_rules_def shadow_rules_def sample_version_def u_active_def u_shadow_def u_proposed_def)
  have "governance_step exact_decimal ledger_runtime Z proposed_rules
      (fst (ratify_route ledger_runtime (gen_ids u_shadow 2) (governance_request u_proposed u_alice) proposed_rules))"
    by (rule ratify) (simp add: gen_ids_def f1)
  moreover have "governance_step exact_decimal ledger_runtime Z ratified_rules
      (fst (activate_route exact_decimal ledger_runtime (gen_ids u_active 3) (governance_request u_shadow u_bob) ratified_rules))"
    by (rule activate) (simp add: gen_ids_def f2)
  ultimately show ?thesis unfolding ratified activated fst_conv by simp
qed

section \<open>Properties\<close>

lemma policy_comparator: "comparator policy_order"
  unfolding policy_order_def by (rule ordering_by.axioms(1)) (intro ordering_intros)

text \<open>
  C35: every sequence of the governance routes, reversal recordings and policy changes keeps the
  rule tables well formed: version ids are unique, each version with a predecessor is that
  predecessor with its life-cycle state moved along an allowed transition and its rule, AST,
  hardness, provenance and validity untouched, and each promotion event describes such a step.
\<close>

theorem rule_history_invariant:
  assumes "(governance_step D rt Z)\<^sup>*\<^sup>* db db'" and "rules_ok db"
  shows "rules_ok db'"
  using assms by (rule governance_run_rules_ok)

theorem rule_history_invariant_witness:
  "rules_ok proposed_rules \<and> rules_ok activated_rules \<and> length (rd_versions activated_rules) = 3"
proof -
  have "length (rd_versions activated_rules) = 3" by (simp add: activated_rules_def active_rules_def)
  then show ?thesis
    using proposed_rules_ok rule_history_invariant [OF activated_run [of undefined] proposed_rules_ok] by simp
qed

text \<open>
  C34: no rule becomes active on one person's word. Every promotion to ACTIVE recorded during a run of
  the governance operations starts from a SHADOW version, and behind it is one of two things: the
  backtest it names is stored, belongs to that SHADOW version and passed, being the outcome of a
  non-empty corpus on which the version's AST gave the expected verdict in every case; or the
  activating analyst is not the author of a ratification event recorded for the SHADOW version.
\<close>

theorem activation_needs_independent_evidence:
  assumes "(governance_step D rt Z)\<^sup>*\<^sup>* db db'" and "rules_ok db"
    and "e \<in> set (rd_promotions db')" and "e \<notin> set (rd_promotions db)" and "pe_to_lifecycle e = ACTIVE"
  shows "\<exists>v \<in> set (rd_versions db'). \<exists>u \<in> set (rd_versions db').
     rlv_id v = pe_rule_version_id e \<and> rlv_lifecycle v = ACTIVE \<and> rlv_predecessor v = Some (rlv_id u) \<and>
     rlv_lifecycle u = SHADOW \<and>
     ((\<exists>t \<in> set (rd_backtests db'). \<exists>cases r. pe_rule_backtest_id e = Some (bt_id t) \<and> bt_rule_version_id t = rlv_id u \<and>
         bt_passed t \<and> bt_regression_count t = 0 \<and> bt_pass_count t = length cases \<and> cases \<noteq> [] \<and>
         run_golden_corpus rt facts_json (golden_cases cases) (rule_verdict D (rlv_ast u)) = Inr r \<and>
         go_passed r \<and> bt_corpus_hash t = go_corpus_hash r) \<or>
      (\<exists>a r. pe_dual_control_analyst_id e = Some a \<and> r \<in> set (rd_audit db') \<and> ae_event r = ''promoted_to_shadow'' \<and>
         ae_rule_version_id r = Some (rlv_id u) \<and> ae_actor_user_id r \<noteq> Some a))"
proof -
  have ok: "promotion_ok db' e" and dist: "distinct (map rlv_id (rd_versions db'))"
    using governance_run_rules_ok [OF assms(1,2)] assms(3) unfolding rules_ok_def by blast+
  obtain v u where vu: "v \<in> set (rd_versions db')" "u \<in> set (rd_versions db')" "rlv_id v = pe_rule_version_id e"
      "rlv_lifecycle v = ACTIVE" "rlv_predecessor v = Some (rlv_id u)" "ACTIVE \<in> set (ALLOWED (rlv_lifecycle u))"
      and ev: "independent_evidence (rd_audit db') (rlv_id u) (pe_rule_backtest_id e) (pe_dual_control_analyst_id e)"
    using ok assms(5) unfolding promotion_ok_def by auto
  have "rlv_lifecycle u = SHADOW" using vu(6) by (cases "rlv_lifecycle u") auto
  moreover have "\<exists>t \<in> set (rd_backtests db'). pe_rule_backtest_id e = Some (bt_id t) \<and> corpus_evidence D rt u t"
    if b: "pe_rule_backtest_id e \<noteq> None"
  proof -
    have "all_corpus_backed D rt (set (rd_promotions db)) db'"
      by (rule governance_run_backed [OF assms(1)]) (simp add: all_corpus_backed_def)
    then have "corpus_backed D rt db' e" using assms(3,4) by (auto simp: all_corpus_backed_def)
    then obtain v' u' t where "v' \<in> set (rd_versions db')" "u' \<in> set (rd_versions db')" "t \<in> set (rd_backtests db')"
        "rlv_id v' = rlv_id v" "rlv_predecessor v' = Some (rlv_id u')" "pe_rule_backtest_id e = Some (bt_id t)" "corpus_evidence D rt u' t"
      using b assms(5) vu(3) unfolding corpus_backed_def by fastforce
    moreover have same: "x = y" if "rlv_id x = rlv_id y" "x \<in> set (rd_versions db')" "y \<in> set (rd_versions db')" for x y
      using dist that by (simp add: distinct_map inj_on_def)
    ultimately have "v' = v" using vu(1) by blast
    then have "rlv_id u' = rlv_id u" using \<open>rlv_predecessor v' = Some (rlv_id u')\<close> vu(5) by simp
    then have "u' = u" using same \<open>u' \<in> set (rd_versions db')\<close> vu(2) by blast
    then show ?thesis
      using \<open>t \<in> set (rd_backtests db')\<close> \<open>pe_rule_backtest_id e = Some (bt_id t)\<close> \<open>corpus_evidence D rt u' t\<close> by blast
  qed
  ultimately show ?thesis
    using vu ev unfolding independent_evidence_def ratified_by_def corpus_evidence_def by blast
qed

definition date_lib :: zod_lib where
  "date_lib = \<lparr>zod_uuid = isUuid, zod_int = (\<lambda>_. True), zod_date = (\<lambda>s. Some (int (length s))),
     zod_datetime = (\<lambda>s. Some (int (length s)))\<rparr>"

definition corpus_document :: json where
  "corpus_document =
     JArray [JObject [(''id'', JString ''c1''), (''facts'', JObject [(''x'', JBool True)]), (''expectedVerdict'', JString ''PASS'')]]"

definition shadow_only :: rule_db where
  "shadow_only = sample_rules [sample_version u_shadow SHADOW None 1]"

definition sample_case :: activation_case where
  "sample_case = \<lparr>ac_id = ''c1'', ac_facts = [(''x'', FBool True)], ac_expected_verdict = PASS\<rparr>"

definition corpus_event :: audit_event where
  "corpus_event = governance_event ledger_runtime ''promoted_to_active'' u_shadow u_active u_bob
     (sample_detail u_shadow @ [(''ruleBacktestId'', JString u_active)])"

lemma corpus_parts:
  "parse_activation_cases corpus_document = Some [sample_case]"
  "case run_golden_corpus ledger_runtime facts_json (golden_cases [sample_case]) (rule_verdict exact_decimal (AstLit (LBool True))) of
     Inl _ \<Rightarrow> False | Inr r \<Rightarrow> go_passed r"
  "write_audit_event 3 corpus_event [] = Inr ([ledger_row 3 corpus_event], ae_id corpus_event, True)"
  by code_simp+

lemma corpus_activated:
  obtains db' where "activate_route exact_decimal ledger_runtime (gen_ids u_active 3)
      ((governance_request u_shadow u_bob)\<lparr>rq_cases := Some corpus_document\<rparr>) shadow_only = (db', Accepted 201 (u_active, True))"
    "\<exists>e. rd_promotions db' = [e] \<and> pe_to_lifecycle e = ACTIVE \<and> pe_dual_control_analyst_id e = None"
proof -
  obtain r where r: "run_golden_corpus ledger_runtime facts_json (golden_cases [sample_case]) (rule_verdict exact_decimal (AstLit (LBool True))) = Inr r"
      "go_passed r"
    using corpus_parts(2) by (auto split: sum.splits)
  have v: "version_by_id u_shadow shadow_only = Some (sample_version u_shadow SHADOW None 1)" by code_simp
  let ?g = "gen_ids u_active 3"
  let ?db1 = "shadow_only\<lparr>rd_backtests := [backtest_row_of ?g None u_shadow r], rd_backtest_cases := insert_cases None u_active (go_cases r) []\<rparr>"
  have b: "run_and_persist_rule_activation_backtest exact_decimal ledger_runtime ?g u_shadow [sample_case] shadow_only = Inr (?db1, u_active, r)"
  proof -
    have "rlv_ast (sample_version u_shadow SHADOW None 1) = AstLit (LBool True)" "rd_backtests shadow_only = []"
      "rd_backtest_cases shadow_only = []" "ge_backtest_id ?g = u_active" "bt_id (backtest_row_of ?g None u_shadow r) = u_active"
      by (simp_all add: sample_version_def shadow_only_def sample_rules_def gen_ids_def backtest_row_of_def)
    then show ?thesis using r v by (simp add: run_and_persist_rule_activation_backtest_def persist_backtest_def insert_row_def)
  qed
  let ?i = "\<lparr>ti_rule_version_id = u_shadow, ti_to = ACTIVE, ti_rationale = ''checked'', ti_dual_control_analyst_id = None,
    ti_rule_backtest_id = Some u_active\<rparr>"
  let ?nxt = "successor_row ?g ACTIVE (sample_version u_shadow SHADOW None 1)"
  let ?e = "promotion_of ?i SHADOW ?nxt"
  have t: "transition_rule_lifecycle ?g ?i ?db1 =
      Inr (?db1\<lparr>rd_versions := [sample_version u_shadow SHADOW None 1, ?nxt], rd_promotions := [?e]\<rparr>, u_active, True)"
    by (simp add: transition_eq version_by_id_def shadow_only_def sample_rules_def sample_version_def assert_lifecycle_transition_def
        successor_test_def moved_def active_promotion_evidence_def promotion_of_def insert_row_def successor_row_def gen_ids_def)
  have a: "rd_audit shadow_only = []" "ge_now ?g = 3" by (simp_all add: shadow_only_def sample_rules_def gen_ids_def)
  show thesis
    by (rule that [of "?db1\<lparr>rd_versions := [sample_version u_shadow SHADOW None 1, ?nxt], rd_promotions := [?e],
          rd_audit := [ledger_row 3 corpus_event]\<rparr>"], unfold activate_route_def governance_request_def)
      (use sample_ids in \<open>simp_all add: corpus_parts(1) b t record_governance_def a lift_audit_def commit_def activation_reply_def
        corpus_parts(3) [unfolded corpus_event_def sample_detail_def append.simps] corpus_event_def sample_detail_def promotion_of_def\<close>)
qed

theorem activation_needs_independent_evidence_witness:
  "\<exists>db' e t. (governance_step exact_decimal ledger_runtime date_lib)\<^sup>*\<^sup>* shadow_only db' \<and> e \<in> set (rd_promotions db') \<and>
     pe_to_lifecycle e = ACTIVE \<and> t \<in> set (rd_backtests db') \<and> pe_rule_backtest_id e = Some (bt_id t) \<and> bt_passed t"
proof -
  obtain db' e where act: "activate_route exact_decimal ledger_runtime (gen_ids u_active 3)
      ((governance_request u_shadow u_bob)\<lparr>rq_cases := Some corpus_document\<rparr>) shadow_only = (db', Accepted 201 (u_active, True))"
    and e: "rd_promotions db' = [e]" "pe_to_lifecycle e = ACTIVE" "pe_dual_control_analyst_id e = None"
    using corpus_activated by metis
  have "u_active \<notin> rlv_id ` set (rd_versions shadow_only)"
    by (simp add: shadow_only_def sample_rules_def sample_version_def u_active_def u_shadow_def)
  then have "governance_step exact_decimal ledger_runtime date_lib shadow_only db'"
    using activate [of "gen_ids u_active 3" shadow_only exact_decimal ledger_runtime date_lib
        "(governance_request u_shadow u_bob)\<lparr>rq_cases := Some corpus_document\<rparr>"] unfolding act by (simp add: gen_ids_def)
  then have run: "(governance_step exact_decimal ledger_runtime date_lib)\<^sup>*\<^sup>* shadow_only db'" by blast
  have ok: "rules_ok shadow_only"
    by (simp add: rules_ok_def shadow_only_def sample_rules_def lineage_ok_def sample_version_def)
  have n: "e \<in> set (rd_promotions db')" "e \<notin> set (rd_promotions shadow_only)" using e by (simp_all add: shadow_only_def sample_rules_def)
  obtain t where "t \<in> set (rd_backtests db')" "pe_rule_backtest_id e = Some (bt_id t)" "bt_passed t"
    using activation_needs_independent_evidence [OF run ok n e(2)] e(3) by auto
  then show ?thesis using run n(1) e(2) by blast
qed

text \<open>
  A demotion does not reach the resolver. A successful transition to DEPRECATED, QUARANTINED
  or any other state than ACTIVE leaves the answer of the active-version query as it was, for
  every rule, date and cutoff: the old ACTIVE row stays in the table and the query has no
  condition on successors.
\<close>

theorem demotion_keeps_active_resolution:
  assumes "transition_rule_lifecycle g i db = Inr (db', j, c)" and "ti_to i \<noteq> ACTIVE"
  shows "resolve_active_rule_version Z q db' = resolve_active_rule_version Z q db"
  using assms(1)
proof (rule transition_Inr)
  fix cur nxt vs
  assume nxt: "find (successor_test i) vs = Some nxt"
    and vs: "(c \<and> nxt = successor_row g (ti_to i) cur \<and> vs = rd_versions db @ [nxt]) \<or> (\<not> c \<and> vs = rd_versions db)"
    and db': "db' = db\<lparr>rd_versions := vs, rd_promotions :=
       fst (insert_row same_promotion (promotion_of i (rlv_lifecycle cur) nxt) (rd_promotions db))\<rparr>"
  have "rlv_lifecycle nxt \<noteq> ACTIVE" using find_Some_in [OF nxt] assms(2) by (simp add: successor_test_def)
  then have same: "first_row active_order (\<lambda>v. rlv_rule_id v = rid \<and> rlv_lifecycle v = ACTIVE \<and> p v) vs =
      first_row active_order (\<lambda>v. rlv_rule_id v = rid \<and> rlv_lifecycle v = ACTIVE \<and> p v) (rd_versions db)" for rid p
    using vs by (auto simp: first_row_append)
  show ?thesis unfolding resolve_active_rule_version_def by (auto simp: db' same split: option.splits)
qed

definition quarantine_input :: transition_input where
  "quarantine_input = \<lparr>ti_rule_version_id = u_active, ti_to = QUARANTINED, ti_rationale = ''r'',
     ti_dual_control_analyst_id = None, ti_rule_backtest_id = None\<rparr>"

definition active_only :: rule_db where
  "active_only = sample_rules [sample_version u_active ACTIVE None 1]"

definition active_request :: version_request where
  "active_request = \<lparr>vq_id = u_rule, vq_effective_on = ''2026-01-01'', vq_recorded_as_of = ''2026-01-01T00''\<rparr>"

theorem demotion_keeps_active_resolution_witness:
  "\<exists>db'. transition_rule_lifecycle (gen_ids u_shadow 2) quarantine_input active_only = Inr (db', u_shadow, True) \<and>
     resolve_active_rule_version date_lib active_request db' = Inr (Some (sample_version u_active ACTIVE None 1))"
proof -
  have "(case transition_rule_lifecycle (gen_ids u_shadow 2) quarantine_input active_only of
           Inl _ \<Rightarrow> False | Inr (db', j, c) \<Rightarrow> j = u_shadow \<and> c)" by code_simp
  then obtain db' where t: "transition_rule_lifecycle (gen_ids u_shadow 2) quarantine_input active_only = Inr (db', u_shadow, True)"
    by (cases "transition_rule_lifecycle (gen_ids u_shadow 2) quarantine_input active_only") auto
  have "resolve_active_rule_version date_lib active_request active_only = Inr (Some (sample_version u_active ACTIVE None 1))"
    by code_simp
  then show ?thesis
    using demotion_keeps_active_resolution [OF t, of date_lib active_request] t by (simp add: quarantine_input_def)
qed

text \<open>
  Writing a promotion policy and resolving it for the same account and rule type gives back
  the policy written, whatever defaults and other accounts' policies are stored, and its
  thresholds satisfy the constraints of the schema.
\<close>

theorem promotion_policy_roundtrip:
  assumes "upsert_promotion_policy Z v db = Inr (db', row)"
  shows "resolve_promotion_policy (pi_client_id v) (pi_rule_type v) db' = Inr row \<and>
     pp_n1_confirm row = pi_n1_confirm v \<and> pp_n2_confirm row = pi_n2_confirm v \<and>
     pp_max_reversals row = pi_max_reversals v \<and>
     0 < pp_n1_confirm row \<and> pp_n1_confirm row \<le> pp_n2_confirm row \<and> pp_n2_confirm row < 2 ^ 31 \<and> 0 \<le> pp_max_reversals row"
proof -
  have v: "policy_input_ok Z v" "int4 (pi_n2_confirm v)" and row: "row = policy_row v"
    using assms by (auto simp: upsert_promotion_policy_def rbind_eq_Inr ensure_eq_Inr Let_def)
  have key: "same_policy_key row p \<longleftrightarrow> pp_account_id p = Some (pi_client_id v) \<and> pp_rule_type p = Some (pi_rule_type v)" for p
    by (auto simp: same_policy_key_def sql_eq_def row policy_row_def)
  have only: "p = row" if "p \<in> set (rd_policies db')" "same_policy_key row p" for p
    using assms that by (auto simp: upsert_promotion_policy_def rbind_eq_Inr Let_def list_ex_iff row split: if_splits)
  have row_in: "row \<in> set (rd_policies db')"
    using assms by (auto simp: upsert_promotion_policy_def rbind_eq_Inr Let_def list_ex_iff row image_iff split: if_splits)
  have applies: "policy_applies (pi_client_id v) (pi_rule_type v) row" by (simp add: policy_applies_def row policy_row_def)
  obtain r where r: "first_row policy_order (policy_applies (pi_client_id v) (pi_rule_type v)) (rd_policies db') = Some r"
    using row_in applies first_row_None [of policy_order _ "rd_policies db'"] by (metis not_None_eq)
  have "row = r \<or> policy_order r row \<le> 0"
    by (rule comparator.first_row_least [OF policy_comparator r row_in applies])
  moreover have "r = row" if "policy_order r row \<le> 0"
  proof (rule only)
    show "r \<in> set (rd_policies db')" using first_row_in [OF r] by simp
    show "same_policy_key row r"
      unfolding key using that first_row_in [OF r]
      by (auto simp: policy_order_def lex_def then_by_def descending_def by_int_def row policy_row_def policy_applies_def
          split: if_splits)
  qed
  ultimately have "resolve_promotion_policy (pi_client_id v) (pi_rule_type v) db' = Inr row"
    using r by (auto simp: resolve_promotion_policy_def)
  then show ?thesis using v by (auto simp: row policy_row_def policy_input_ok_def int4_def)
qed

definition sample_policy :: promotion_policy_input where
  "sample_policy = \<lparr>pi_client_id = u_alice, pi_rule_type = ''STRUCTURAL'', pi_n1_confirm = 3, pi_n2_confirm = 5, pi_max_reversals = 1\<rparr>"

theorem promotion_policy_roundtrip_witness:
  "\<exists>db' row. upsert_promotion_policy date_lib sample_policy proposed_rules = Inr (db', row) \<and>
     resolve_promotion_policy u_alice ''STRUCTURAL'' db' = Inr row"
proof -
  have "(case upsert_promotion_policy date_lib sample_policy proposed_rules of Inl _ \<Rightarrow> False | Inr _ \<Rightarrow> True)" by code_simp
  then obtain db' row where t: "upsert_promotion_policy date_lib sample_policy proposed_rules = Inr (db', row)"
    by (cases "upsert_promotion_policy date_lib sample_policy proposed_rules") auto
  show ?thesis using promotion_policy_roundtrip [OF t] t by (auto simp: sample_policy_def)
qed

section \<open>Corpus evidence\<close>

lemma check_case_ids_Inr:
  "check_case_ids seen ids = Inr () \<longleftrightarrow> (\<forall>i \<in> set ids. js_trim i \<noteq> []) \<and> distinct ids \<and> set ids \<inter> set seen = {}"
  by (induction ids arbitrary: seen) (auto simp: rbind_eq_Inr ensure_eq_Inr)

definition separates_verdicts :: "runtime \<Rightarrow> bool" where
  "separates_verdicts rt = (\<forall>a b. hash_json rt (verdict_json a) = hash_json rt (verdict_json b) \<longrightarrow> a = b)"

definition verdict_matches :: "'d decimal_lib \<Rightarrow> ast_node \<Rightarrow> activation_case \<Rightarrow> bool" where
  "verdict_matches D ast c =
     (case evaluate D ast (map_of (ac_facts c)) of Inl _ \<Rightarrow> False | Inr ev \<Rightarrow> verdict ev = ac_expected_verdict c)"

definition golden_case_of :: "activation_case \<Rightarrow> (string \<times> fact_value) list golden_case" where
  "golden_case_of c = \<lparr>gc_id = ac_id c, gc_input = ac_facts c, gc_expected = verdict_json (ac_expected_verdict c)\<rparr>"

lemma golden_cases_map: "golden_cases cases = map golden_case_of cases"
  by (simp add: golden_cases_def golden_case_of_def)

lemma run_case_passes:
  assumes "separates_verdicts rt"
  shows "(\<exists>r. run_case rt facts_json (rule_verdict D ast) (golden_case_of c) = Inr r \<and> gr_passed r) \<longleftrightarrow> verdict_matches D ast c"
  using assms
  by (auto simp: run_case_def rule_verdict_def golden_case_of_def verdict_matches_def separates_verdicts_def
      split: sum.splits)

lemma corpus_passes:
  assumes sep: "separates_verdicts rt"
    and ids: "distinct (map ac_id cases)" "\<And>c. c \<in> set cases \<Longrightarrow> js_trim (ac_id c) \<noteq> []"
  shows "(\<exists>r. run_golden_corpus rt facts_json (golden_cases cases) (rule_verdict D ast) = Inr r \<and> go_passed r)
     \<longleftrightarrow> (\<forall>c \<in> set cases. verdict_matches D ast c)"
proof -
  let ?run = "run_case rt facts_json (rule_verdict D ast)"
  let ?ordered = "js_sort (\<lambda>a b. rt_locale_compare rt (gc_id a) (gc_id b)) (map golden_case_of cases)"
  have "map gc_id (map golden_case_of cases) = map ac_id cases" by (simp add: golden_case_of_def)
  then have "check_case_ids [] (map gc_id (map golden_case_of cases)) = Inr ()"
    using ids by (simp only: check_case_ids_Inr) auto
  then have "(\<exists>r. run_golden_corpus rt facts_json (golden_cases cases) (rule_verdict D ast) = Inr r \<and> go_passed r)
      \<longleftrightarrow> (\<exists>rs. rtraverse ?run ?ordered = Inr rs \<and> (\<forall>r \<in> set rs. gr_passed r))"
    by (auto simp: run_golden_corpus_def golden_cases_map rbind_eq_Inr Let_def filter_empty_conv simp del: map_map)
  also have "\<dots> \<longleftrightarrow> (\<forall>x \<in> set ?ordered. \<exists>r. ?run x = Inr r \<and> gr_passed r)"
  proof
    assume "\<exists>rs. rtraverse ?run ?ordered = Inr rs \<and> (\<forall>r \<in> set rs. gr_passed r)"
    then show "\<forall>x \<in> set ?ordered. \<exists>r. ?run x = Inr r \<and> gr_passed r" by (meson rtraverse_in_arg)
  next
    assume all: "\<forall>x \<in> set ?ordered. \<exists>r. ?run x = Inr r \<and> gr_passed r"
    then obtain rs where rs: "rtraverse ?run ?ordered = Inr rs" using rtraverse_total by meson
    have "gr_passed r" if r: "r \<in> set rs" for r
      using rtraverse_in_set [OF rs r] all by (metis Inr_inject)
    then show "\<exists>rs. rtraverse ?run ?ordered = Inr rs \<and> (\<forall>r \<in> set rs. gr_passed r)" using rs by blast
  qed
  also have "\<dots> \<longleftrightarrow> (\<forall>c \<in> set cases. verdict_matches D ast c)"
    by (simp add: run_case_passes [OF sep])
  finally show ?thesis .
qed

lemma persist_global: "\<exists>db'. persist_backtest g (None, i, r) db = Inr (db', ge_backtest_id g, True)"
proof -
  have "insert_row same_backtest (backtest_row_of g None i r) (rd_backtests db) =
      (rd_backtests db @ [backtest_row_of g None i r], True)"
    by (rule insert_row_miss) (simp add: list_ex_iff same_backtest_def backtest_row_of_def sql_eq_def)
  then show ?thesis by (simp add: persist_backtest_def) (simp add: backtest_row_of_def)
qed

text \<open>
  C36: corpus evidence means what it says. For a corpus with distinct non-blank case ids, the
  activation backtest of a rule version succeeds, and stores its evidence, exactly when the
  version's AST evaluates without an error to the expected verdict on every case. The only
  assumption on SHA-256 is that it tells the three verdict texts apart.
\<close>

theorem corpus_backtest_iff:
  assumes v: "version_by_id i db = Some v" and sep: "separates_verdicts rt"
    and ids: "distinct (map ac_id cases)" "\<And>c. c \<in> set cases \<Longrightarrow> js_trim (ac_id c) \<noteq> []"
  shows "(\<exists>db' b r. run_and_persist_rule_activation_backtest D rt g i cases db = Inr (db', b, r)) \<longleftrightarrow>
     (\<forall>c \<in> set cases. \<exists>ev. evaluate D (rlv_ast v) (map_of (ac_facts c)) = Inr ev \<and> verdict ev = ac_expected_verdict c)"
proof -
  let ?run = "run_golden_corpus rt facts_json (golden_cases cases) (rule_verdict D (rlv_ast v))"
  have "(\<exists>db' b r. run_and_persist_rule_activation_backtest D rt g i cases db = Inr (db', b, r)) \<longleftrightarrow>
      (\<exists>r. ?run = Inr r \<and> go_passed r)"
    using persist_global [of g i _ db]
    by (auto simp: run_and_persist_rule_activation_backtest_def v rbind_eq_Inr ensure_eq_Inr) blast
  also have "\<dots> \<longleftrightarrow> (\<forall>c \<in> set cases. verdict_matches D (rlv_ast v) c)"
    using corpus_passes [OF sep ids] .
  finally have run: "(\<exists>db' b r. run_and_persist_rule_activation_backtest D rt g i cases db = Inr (db', b, r)) \<longleftrightarrow>
      (\<forall>c \<in> set cases. verdict_matches D (rlv_ast v) c)" .
  have "verdict_matches D (rlv_ast v) c \<longleftrightarrow>
      (\<exists>ev. evaluate D (rlv_ast v) (map_of (ac_facts c)) = Inr ev \<and> verdict ev = ac_expected_verdict c)" for c
    by (cases "evaluate D (rlv_ast v) (map_of (ac_facts c))") (simp_all add: verdict_matches_def)
  then show ?thesis unfolding run by simp
qed

theorem corpus_backtest_iff_witness:
  "\<exists>db' b r. run_and_persist_rule_activation_backtest exact_decimal sample_runtime (gen_ids u_bob 5) u_active [sample_case] active_only
     = Inr (db', b, r)"
proof -
  have v: "version_by_id u_active active_only = Some (sample_version u_active ACTIVE None 1)" by code_simp
  have sep: "separates_verdicts sample_runtime"
  proof -
    have "hash_json sample_runtime (verdict_json PASS) \<noteq> hash_json sample_runtime (verdict_json FAIL)"
      "hash_json sample_runtime (verdict_json PASS) \<noteq> hash_json sample_runtime (verdict_json UNASSESSABLE)"
      "hash_json sample_runtime (verdict_json FAIL) \<noteq> hash_json sample_runtime (verdict_json UNASSESSABLE)"
      by code_simp+
    then have "hash_json sample_runtime (verdict_json a) = hash_json sample_runtime (verdict_json b) \<longrightarrow> a = b" for a b
      by (cases a; cases b) metis+
    then show ?thesis unfolding separates_verdicts_def by blast
  qed
  have blank: "js_trim (ac_id sample_case) \<noteq> []" by code_simp
  have ids: "distinct (map ac_id [sample_case])" "\<And>c. c \<in> set [sample_case] \<Longrightarrow> js_trim (ac_id c) \<noteq> []"
    by (simp_all add: blank)
  have "\<exists>ev. evaluate exact_decimal (AstLit (LBool True)) (map_of (ac_facts sample_case)) = Inr ev \<and> verdict ev = PASS"
    by (simp add: verdict_def)
  then have "\<forall>c \<in> set [sample_case]. \<exists>ev. evaluate exact_decimal (rlv_ast (sample_version u_active ACTIVE None 1))
      (map_of (ac_facts c)) = Inr ev \<and> verdict ev = ac_expected_verdict c"
    by (simp add: sample_version_def sample_case_def)
  with corpus_backtest_iff [OF v sep ids, where D = exact_decimal and g = "gen_ids u_bob 5"] show ?thesis by (simp only:)
qed

end
