(* ===== verification/Workflow_Theorems.thy ===== *)
theory Workflow_Theorems
  imports Workflow_Properties Rule_Theorems
begin

text \<open>The properties of the workflow runtime, with a concrete instance and a concrete command.\<close>

section \<open>Concrete tables\<close>

definition u_account :: uuid where "u_account = ''00000000-0000-0000-0000-0000000000a1''"
definition u_instance :: uuid where "u_instance = ''00000000-0000-0000-0000-0000000000b1''"
definition u_command :: uuid where "u_command = ''00000000-0000-0000-0000-0000000000b2''"

definition sample_command :: "claim_status \<Rightarrow> int \<Rightarrow> instant option \<Rightarrow> workflow_command" where
  "sample_command st n t =
     \<lparr>cr_id = u_command, cr_account_id = u_account, cr_workflow_instance_id = u_instance, cr_due = 1000,
      cr_status = st, cr_attempts = n, cr_claimed_at = t, wc_command_type = ''remind'', wc_payload = []\<rparr>"

definition sample_claim :: claim_query where
  "sample_claim = \<lparr>cq_client_id = u_account, cq_now = 2000, cq_limit = 20\<rparr>"

definition empty_workflow :: workflow_db where
  "empty_workflow = \<lparr>wd_accounts = [(u_account, True)], wd_instances = [], wd_transitions = [], wd_commands = [],
     wd_outbox = [], wd_audit = [], wd_jobs = []\<rparr>"

definition sample_create :: create_instance_input where
  "sample_create = \<lparr>ci_client_id = u_account, ci_workflow_type = ''claim'', ci_subject_entity = ''claim'',
     ci_subject_entity_id = u_command, ci_initial_state = ''open''\<rparr>"

definition sample_map :: "string \<Rightarrow> transition_map" where
  "sample_map ty = map_of [(''open'', [''closed''])]"

definition sample_append :: append_input where
  "sample_append = \<lparr>ap_client_id = u_account, ap_workflow_instance_id = u_instance, ap_to_state = ''closed''\<rparr>"

definition sample_instance :: "string \<Rightarrow> instant \<Rightarrow> workflow_instance" where
  "sample_instance st t = \<lparr>wi_id = u_instance, wi_account_id = u_account, wi_workflow_type = ''claim'',
     wi_subject_entity = ''claim'', wi_subject_entity_id = u_command, wi_current_state = st, wi_created_at = 10, wi_updated_at = t\<rparr>"

definition created_event :: audit_event where
  "created_event = system_event ledger_runtime u_account ''workflow_instance'' u_instance ''workflow.created''
     [u_account, u_instance, ''workflow.created'']
     [(''workflowType'', JString ''claim''), (''subjectEntity'', JString ''claim''),
      (''subjectEntityId'', JString u_command), (''initialState'', JString ''open'')]"

definition created_workflow :: workflow_db where
  "created_workflow = empty_workflow\<lparr>wd_instances := [sample_instance ''open'' 10], wd_audit := [ledger_row 10 created_event]\<rparr>"

definition transitioned_event :: audit_event where
  "transitioned_event = system_event ledger_runtime u_account ''workflow_instance'' u_instance ''workflow.transitioned''
     [u_account, u_command, ''workflow.transitioned'']
     [(''fromState'', JString ''open''), (''toState'', JString ''closed''), (''transitionId'', JString u_command)]"

definition closed_workflow :: workflow_db where
  "closed_workflow = created_workflow\<lparr>wd_instances := [sample_instance ''closed'' 20],
     wd_transitions := [\<lparr>wt_id = u_command, wt_account_id = u_account, wt_workflow_instance_id = u_instance,
       wt_from_state = ''open'', wt_to_state = ''closed'', wt_recorded_at = 20\<rparr>],
     wd_audit := [ledger_row 10 created_event, ledger_row 20 transitioned_event]\<rparr>"

lemma sample_names: "is_type_name ''claim''" "is_type_name ''open''" "is_type_name ''closed''" "isUuid u_account" "isUuid u_instance"
  by code_simp+

lemma workflow_created:
  "create_workflow_instance ledger_runtime u_instance 10 sample_create empty_workflow = Inr (created_workflow, sample_instance ''open'' 10)"
proof -
  have w: "write_audit_event 10 created_event [] = Inr ([ledger_row 10 created_event], ae_id created_event, True)" by code_simp
  have "write_workflow_event 10 created_event (empty_workflow\<lparr>wd_instances := [sample_instance ''open'' 10]\<rparr>) = Inr created_workflow"
    by (simp add: write_workflow_event_def created_workflow_def empty_workflow_def w)
  then show ?thesis
    by (simp add: create_workflow_instance_def sample_create_def sample_names empty_workflow_def Let_def
        created_event_def sample_instance_def)
qed

lemma workflow_closed:
  "append_workflow_transition ledger_runtime date_lib (sample_map ''claim'') u_command 20 sample_append created_workflow = Inr closed_workflow"
proof -
  define db1 :: workflow_db where "db1 = created_workflow\<lparr>wd_instances := [sample_instance ''closed'' 20],
     wd_transitions := [\<lparr>wt_id = u_command, wt_account_id = u_account, wt_workflow_instance_id = u_instance,
       wt_from_state = ''open'', wt_to_state = ''closed'', wt_recorded_at = 20\<rparr>]\<rparr>"
  have w: "write_audit_event 20 transitioned_event [ledger_row 10 created_event] =
      Inr ([ledger_row 10 created_event, ledger_row 20 transitioned_event], ae_id transitioned_event, True)" by code_simp
  have wr: "write_workflow_event 20 transitioned_event db1 = Inr closed_workflow"
    by (simp add: write_workflow_event_def closed_workflow_def created_workflow_def db1_def w)
  have v: "validate_workflow_transition ''open'' ''closed'' (sample_map ''claim'') = Inr ()" by code_simp
  have db1: "created_workflow\<lparr>wd_instances := [\<lparr>wi_id = u_instance, wi_account_id = u_account, wi_workflow_type = ''claim'',
     wi_subject_entity = ''claim'', wi_subject_entity_id = u_command, wi_current_state = ''closed'', wi_created_at = 10, wi_updated_at = 20\<rparr>],
     wd_transitions := [\<lparr>wt_id = u_command, wt_account_id = u_account, wt_workflow_instance_id = u_instance,
       wt_from_state = ''open'', wt_to_state = ''closed'', wt_recorded_at = 20\<rparr>]\<rparr> = db1"
    by (simp add: db1_def sample_instance_def)
  have i: "wd_instances created_workflow = [sample_instance ''open'' 10]" "wd_transitions created_workflow = []"
    by (simp_all add: created_workflow_def empty_workflow_def)
  have z: "zod_uuid date_lib u_account" "zod_uuid date_lib u_instance" using sample_names by (simp_all add: date_lib_def)
  show ?thesis
    unfolding append_workflow_transition_def
    by (simp add: sample_append_def z i sample_instance_def v sample_names Let_def db1 wr flip: transitioned_event_def)
qed

section \<open>Properties\<close>

text \<open>
  C38: two workers never claim the same row. The rows a second claim returns are disjoint from
  those of the first, both when it runs while the first transaction still holds its row locks
  (it sees the old rows and skips the locked ones) and when it runs after the first has committed.
\<close>

theorem concurrent_claims_disjoint:
  assumes "claim_due Z locked1 q1 rows = Inr (rows1, claimed1)"
    and "claim_due Z locked2 q2 snapshot = Inr (rows2, claimed2)"
    and "(snapshot = rows \<and> cr_id ` set claimed1 \<subseteq> set locked2) \<or> snapshot = rows1"
  shows "cr_id ` set claimed1 \<inter> cr_id ` set claimed2 = {}"
proof -
  let ?ids1 = "cr_id ` set (select_rows locked1 (is_due q1) cr_due (cq_limit q1) rows)"
  let ?ids2 = "cr_id ` set (select_rows locked2 (is_due q2) cr_due (cq_limit q2) snapshot)"
  have 1: "rows1 = map (\<lambda>r. if cr_id r \<in> ?ids1 then mark_claimed (cq_now q1) r else r) rows"
    and c1: "cr_id ` set claimed1 \<subseteq> ?ids1"
    using assms(1) by (auto simp: claim_due_Inr update_rows_def)
  have c2: "cr_id ` set claimed2 \<subseteq> ?ids2"
    using assms(2) by (auto simp: claim_due_Inr update_rows_def)
  have sel2: "\<exists>r \<in> set snapshot. cr_id r = i \<and> cr_status r = Pending \<and> i \<notin> set locked2" if "i \<in> ?ids2" for i
    using that select_rows_sub [of locked2 "is_due q2" cr_due "cq_limit q2" snapshot] by (force simp: is_due_def)
  show ?thesis
  proof (rule ccontr)
    assume "cr_id ` set claimed1 \<inter> cr_id ` set claimed2 \<noteq> {}"
    then obtain i where i: "i \<in> cr_id ` set claimed1" "i \<in> ?ids2" using c2 by blast
    then obtain r where r: "r \<in> set snapshot" "cr_id r = i" "cr_status r = Pending" "i \<notin> set locked2" using sel2 by blast
    then have "snapshot = rows1" using assms(3) i(1) by blast
    moreover have "i \<in> ?ids1" using i(1) c1 by blast
    ultimately have "cr_status r = Claimed" using r(1,2) unfolding 1 by auto
    then show False using r(3) by simp
  qed
qed

theorem concurrent_claims_disjoint_witness:
  "\<exists>rows1 c1 rows2 c2. claim_due date_lib [] sample_claim [sample_command Pending 0 None] = Inr (rows1, c1) \<and> length c1 = 1 \<and>
     claim_due date_lib [] sample_claim rows1 = Inr (rows2, c2) \<and> cr_id ` set c1 \<inter> cr_id ` set c2 = {}"
proof -
  have a: "claim_due date_lib [] sample_claim [sample_command Pending 0 None] =
      Inr ([sample_command Claimed 1 (Some 2000)], [sample_command Claimed 1 (Some 2000)])" by code_simp
  have b: "claim_due date_lib [] sample_claim [sample_command Claimed 1 (Some 2000)] =
      Inr ([sample_command Claimed 1 (Some 2000)], [])" by code_simp
  show ?thesis
    using concurrent_claims_disjoint [OF a b] a b by (intro exI conjI) (assumption | simp)+
qed

text \<open>
  C39: no command and no outbox message is attempted more than five times. Through every sequence
  of insertions, claims, completions and recoveries, the number of attempts stays between 0 and 5,
  a pending row has attempts left, a failed row has used all of them, and a row carries a claim
  time exactly while it is claimed or finished.
\<close>

theorem claim_attempts_bounded:
  assumes "(queue_step Z)\<^sup>*\<^sup>* rows rows'" and "queue_ok 5 rows" and "r \<in> set rows'"
  shows "0 \<le> cr_attempts r \<and> cr_attempts r \<le> 5 \<and> (cr_status r = Pending \<longrightarrow> cr_attempts r < 5) \<and>
     (cr_status r = Failed \<longrightarrow> cr_attempts r = 5) \<and>
     (cr_claimed_at r \<noteq> None \<longleftrightarrow> cr_status r = Claimed \<or> cr_status r = Finished)"
proof -
  have "row_ok 5 r" using queue_run_ok [OF assms(1,2)] assms(3) by (simp add: queue_ok_def list_all_iff)
  then show ?thesis by (cases "cr_status r") (simp_all add: row_ok_def)
qed

theorem claim_attempts_bounded_witness:
  "\<exists>rows'. (queue_step date_lib)\<^sup>*\<^sup>* [] rows' \<and> sample_command Claimed 1 (Some 2000) \<in> set rows' \<and>
     cr_attempts (sample_command Claimed 1 (Some 2000)) \<le> 5"
proof -
  have "queue_step date_lib [] ([] @ [sample_command Pending 0 None])"
    by (rule queue_step.insert) (simp_all add: sample_command_def)
  moreover have "queue_step date_lib [sample_command Pending 0 None] [sample_command Claimed 1 (Some 2000)]"
    by (rule queue_step.claim [of _ "[]" sample_claim _ _ "[sample_command Claimed 1 (Some 2000)]"]) code_simp
  ultimately have run: "(queue_step date_lib)\<^sup>*\<^sup>* [] [sample_command Claimed 1 (Some 2000)]" by simp
  have "queue_ok 5 ([] :: workflow_command list)" by (simp add: queue_ok_def)
  from claim_attempts_bounded [OF run this] run show ?thesis by (intro exI conjI) (assumption | simp)+
qed

text \<open>
  C40: stranded claims are recovered. When a worker crashes, \<open>k\<close> ticks of the recovery with its
  default limit of 20 rows leave no stale claim of the account, provided it had at most \<open>20 * k\<close>
  of them; the ticks neither fail nor lose a row.
\<close>

theorem stale_claims_drain:
  assumes "zod_uuid Z client" and "\<And>n. \<bar>n\<bar> \<le> 100 \<Longrightarrow> zod_int Z n"
    and "distinct (map cr_id rows)" and "length (stale_rows client now rows) \<le> 20 * k"
  shows "\<exists>rows'. reclaim_ticks Z client now k rows = Inr rows' \<and> stale_rows client now rows' = [] \<and>
     map cr_id rows' = map cr_id rows"
  using assms by (rule reclaim_ticks_drain)

theorem stale_claims_drain_witness:
  "\<exists>rows'. reclaim_ticks date_lib u_account 9000000 1 [sample_command Claimed 1 (Some 2000)] = Inr rows' \<and>
     stale_rows u_account 9000000 rows' = [] \<and> length (stale_rows u_account 9000000 [sample_command Claimed 1 (Some 2000)]) = 1"
proof -
  have n: "length (stale_rows u_account 9000000 [sample_command Claimed 1 (Some 2000)]) = 1" by code_simp
  have u: "zod_uuid date_lib u_account" by code_simp
  have z: "zod_int date_lib m" for m by (simp add: date_lib_def)
  have "\<exists>rows'. reclaim_ticks date_lib u_account 9000000 1 [sample_command Claimed 1 (Some 2000)] = Inr rows' \<and>
      stale_rows u_account 9000000 rows' = [] \<and> map cr_id rows' = map cr_id [sample_command Claimed 1 (Some 2000)]"
    by (rule stale_claims_drain [OF u z]) (simp_all add: n)
  then show ?thesis using n by blast
qed

text \<open>
  C37: the mutable state of a workflow instance refines its append-only log. Through any sequence of
  creations and transitions, the current state of every instance is the end of the run that its
  logged transitions spell out, in which each entry starts where the previous one ended and is a
  step the transition map of the workflow type allows, or stays in place.
\<close>

theorem workflow_state_is_replay_of_log:
  assumes "(workflow_step rt Z A)\<^sup>*\<^sup>* db db'" and "workflow_ok A db" and "w \<in> set (wd_instances db')"
  shows "\<exists>s0. runs (A (wi_workflow_type w)) s0
     (filter (\<lambda>t. wt_workflow_instance_id t = wi_id w) (wd_transitions db')) (wi_current_state w)"
  using workflow_run_ok [OF assms(1,2)] assms(3) unfolding workflow_ok_def log_of_def by blast

theorem workflow_state_is_replay_of_log_witness:
  "\<exists>w \<in> set (wd_instances closed_workflow). wi_current_state w = ''closed'' \<and>
     (\<exists>s0. runs (sample_map (wi_workflow_type w)) s0
        (filter (\<lambda>t. wt_workflow_instance_id t = wi_id w) (wd_transitions closed_workflow)) (wi_current_state w))"
proof -
  have 1: "workflow_step ledger_runtime date_lib sample_map empty_workflow created_workflow"
    by (rule workflow_step.created [OF _ workflow_created]) (simp add: empty_workflow_def)
  have x: "find (\<lambda>w. wi_account_id w = ap_client_id sample_append \<and> wi_id w = ap_workflow_instance_id sample_append)
      (wd_instances created_workflow) = Some (sample_instance ''open'' 10)"
    by (simp add: created_workflow_def sample_append_def sample_instance_def)
  have "wi_workflow_type (sample_instance ''open'' 10) = ''claim''" by (simp add: sample_instance_def)
  then have 2: "workflow_step ledger_runtime date_lib sample_map created_workflow closed_workflow"
    using workflow_step.appended [OF x, of ledger_runtime date_lib sample_map u_command 20 closed_workflow] workflow_closed by (simp only:)
  have ok: "workflow_ok sample_map empty_workflow" by (simp add: workflow_ok_def empty_workflow_def)
  have run: "(workflow_step ledger_runtime date_lib sample_map)\<^sup>*\<^sup>* empty_workflow closed_workflow"
    using 1 2 by simp
  have w: "sample_instance ''closed'' 20 \<in> set (wd_instances closed_workflow)" "wi_current_state (sample_instance ''closed'' 20) = ''closed''"
    by (simp_all add: closed_workflow_def sample_instance_def)
  show ?thesis using workflow_state_is_replay_of_log [OF run ok w(1)] w by (intro bexI conjI)
qed

text \<open>
  Scheduling is idempotent per instance, command type and deadline, for good. Once a command
  has been scheduled, scheduling it again returns the same command id and changes nothing, however
  the stored commands have been claimed, completed or recovered in between and whatever other
  commands were added.
\<close>

theorem scheduling_is_idempotent:
  assumes "schedule_workflow_command rt Z isof g i db = Inr (db1, c, created)" and "commands_extend db1 db2"
  shows "schedule_workflow_command rt Z isof g' i db2 = Inr (db2, c, False)"
  using assms by (rule scheduling.settled)

definition sample_schedule :: schedule_input where
  "sample_schedule = \<lparr>sc_client_id = u_account, sc_workflow_instance_id = u_instance, sc_command_type = ''remind'',
     sc_payload = [], sc_run_after = 1000\<rparr>"

theorem scheduling_is_idempotent_witness:
  "\<exists>db1 db2. schedule_workflow_command ledger_runtime date_lib (\<lambda>_. ''t'') (u_command, 5) sample_schedule created_workflow =
       Inr (db1, u_command, True) \<and>
     db2 = db1\<lparr>wd_commands := map (mark_claimed 7) (wd_commands db1)\<rparr> \<and>
     schedule_workflow_command ledger_runtime date_lib (\<lambda>_. ''t'') (u_alice, 9) sample_schedule db2 = Inr (db2, u_command, False)"
proof -
  define e where "e = command_scheduled_event ledger_runtime (\<lambda>_. ''t'') u_command sample_schedule"
  define db1 :: workflow_db where
    "db1 = created_workflow\<lparr>wd_commands := [new_command u_command sample_schedule], wd_audit := [ledger_row 10 created_event, ledger_row 5 e]\<rparr>"
  have w: "write_audit_event 5 e [ledger_row 10 created_event] = Inr ([ledger_row 10 created_event, ledger_row 5 e], ae_id e, True)"
    unfolding e_def by code_simp
  have wr: "write_workflow_event 5 e (created_workflow\<lparr>wd_commands := [new_command u_command sample_schedule]\<rparr>) = Inr db1"
    by (simp add: write_workflow_event_def created_workflow_def db1_def w)
  have z: "zod_uuid date_lib u_account" "zod_uuid date_lib u_instance" "is_type_name ''remind''"
    using sample_names by (simp_all add: date_lib_def) code_simp
  have i: "wd_instances created_workflow = [sample_instance ''open'' 10]" "wd_commands created_workflow = []"
    by (simp_all add: created_workflow_def empty_workflow_def)
  have s: "schedule_workflow_command ledger_runtime date_lib (\<lambda>_. ''t'') (u_command, 5) sample_schedule created_workflow =
       Inr (db1, u_command, True)"
    unfolding schedule_workflow_command_def
    by (simp add: i z sample_instance_def wr flip: e_def) (simp add: sample_schedule_def z)
  have "command_key (mark_claimed t c) = command_key c" for t c by (simp add: command_key_def mark_claimed_def)
  then have "commands_extend db1 (db1\<lparr>wd_commands := map (mark_claimed 7) (wd_commands db1)\<rparr>)"
    by (simp add: commands_extend_def o_def)
  from scheduling_is_idempotent [OF s this] s show ?thesis by blast
qed

end
