(* ===== verification/Money_Columns.thy ===== *)
theory Money_Columns
  imports Decimal_Lib Sql_Tables
begin

text \<open>
  The money columns of the database, \<open>numeric(18,4)\<close>: a column holds an integer number of
  ten-thousandths; the driver reads it as text with four decimals and writes text into it, which
  PostgreSQL rounds to four places and refuses beyond fourteen integral digits. The laws of decimal
  arithmetic on such texts are proved once here, for any decimal package.
\<close>

section \<open>Columns and texts\<close>

definition numeric_text :: "int \<Rightarrow> string" where
  "numeric_text n = sdec_print (n, 4)"

text \<open>\<open>COALESCE(SUM(column), 0)::text\<close>\<close>

definition sum_text :: "int list \<Rightarrow> string" where
  "sum_text ns = (if ns = [] then ''0'' else numeric_text (sum_list ns))"

definition store_numeric :: "string \<Rightarrow> int option" where
  "store_numeric s =
     (case sdec_parse s of
        None \<Rightarrow> None
      | Some d \<Rightarrow> (let n = fst (sdec_round 4 d) in if \<bar>n\<bar> < 10 ^ 18 then Some n else None))"

text \<open>The CHECK constraint \<open>currency ~ '^[A-Z]{3}$'\<close> of migration 0074.\<close>

definition currency_format :: "string \<Rightarrow> bool" where
  "currency_format c \<longleftrightarrow> length c = 3 \<and> list_all (\<lambda>x. let n = (of_char x :: int) in 65 \<le> n \<and> n \<le> 90) c"

text \<open>The pattern \<open>^\d+(\.\d{1,4})?$\<close> of the request schemas.\<close>

definition is_amount_literal :: "string \<Rightarrow> bool" where
  "is_amount_literal s =
     (let ip = takeWhile is_digit s; r = dropWhile is_digit s
      in ip \<noteq> [] \<and>
         (case r of
            [] \<Rightarrow> True
          | c # fp \<Rightarrow> c = CHR ''.'' \<and> 1 \<le> length fp \<and> length fp \<le> 4 \<and> list_all is_digit fp))"

text \<open>\<open>new Decimal(text)\<close>, which throws when the text is not a number.\<close>

definition read_decimal :: "'e \<Rightarrow> 'd decimal_lib \<Rightarrow> string \<Rightarrow> ('e, 'd) result" where
  "read_decimal e D s = (case dec_of_string D s of None \<Rightarrow> Inl e | Some d \<Rightarrow> Inr d)"

section \<open>The amount a column stands for\<close>

definition column_value :: "int \<Rightarrow> rat" where
  "column_value n = of_int n / 10 ^ 4"

lemma money_simps [simp]:
  "column_value 0 = 0" "column_value (m + n) = column_value m + column_value n" "column_value (m - n) = column_value m - column_value n"
  "column_value m = column_value n \<longleftrightarrow> m = n" "column_value m < column_value n \<longleftrightarrow> m < n" "column_value m \<le> column_value n \<longleftrightarrow> m \<le> n"
  by (simp_all add: column_value_def add_divide_distrib diff_divide_distrib divide_less_cancel divide_le_cancel)

lemma money_scale4 [simp]: "scale4 (column_value n)"
  unfolding scale4_def column_value_def by (rule exI [of _ n]) simp

lemma money_bound: "\<bar>n\<bar> < 10 ^ 20 \<Longrightarrow> \<bar>column_value n\<bar> < 10 ^ 16"
proof -
  assume "\<bar>n\<bar> < 10 ^ 20"
  then have "of_int \<bar>n\<bar> < (of_int (10 ^ 20) :: rat)" by (simp only: of_int_less_iff)
  then show ?thesis by (simp add: column_value_def)
qed

lemma sdec_val_money: "sdec_val (n, 4) = column_value n"
  by (simp add: sdec_val_def column_value_def)

lemma numeric_text_parse [simp]: "sdec_parse (numeric_text n) = Some (n, 4)"
  by (simp add: numeric_text_def)

lemma sdec_round_4: "sdec_round 4 (n, 4) = (n, 4)"
proof -
  have "(2 * \<bar>n\<bar> * 10 ^ 4 + 10 ^ 4) div (2 * 10 ^ 4) = \<bar>n\<bar>" by simp
  then show ?thesis by (simp add: sdec_round_def sgn_mult_abs)
qed

lemma store_numeric_text: "\<bar>n\<bar> < 10 ^ 18 \<Longrightarrow> store_numeric (numeric_text n) = Some n"
  by (simp add: store_numeric_def sdec_round_4)

lemma store_numeric_bound: "store_numeric s = Some n \<Longrightarrow> \<bar>n\<bar> < 10 ^ 18"
  by (auto simp: store_numeric_def Let_def split: option.splits if_splits)

lemma read_int_nonneg: "list_all is_digit s \<Longrightarrow> 0 \<le> read_int s"
proof (induction s rule: rev_induct)
  case (snoc c s)
  then have "0 \<le> char_digit c" by (simp add: is_digit_def char_digit_def)
  then show ?case using snoc by simp
qed simp

lemma amount_literal_parse:
  assumes "is_amount_literal s"
  shows "\<exists>m k. sdec_parse s = Some (m, k) \<and> k \<le> 4 \<and> 0 \<le> m"
proof -
  define ip where "ip = takeWhile is_digit s"
  have d: "list_all is_digit ip" by (auto simp: ip_def list_all_iff dest: set_takeWhileD)
  obtain c cs where s: "s = c # cs" using assms by (cases s) (auto simp: is_amount_literal_def)
  have "is_digit c" using assms by (auto simp: is_amount_literal_def Let_def s split: if_splits)
  then have "c \<noteq> CHR ''-''" by auto
  then have "sdec_parse s = sdec_parse_unsigned s" by (simp add: sdec_parse_def s)
  moreover have "\<exists>m k. sdec_parse_unsigned s = Some (m, k) \<and> k \<le> 4 \<and> 0 \<le> m"
  proof (cases "dropWhile is_digit s")
    case Nil
    moreover have "ip \<noteq> []" using assms by (simp add: is_amount_literal_def Let_def ip_def)
    ultimately show ?thesis using read_int_nonneg [OF d]
      by (simp add: sdec_parse_unsigned_def Let_def del: dropWhile_eq_Nil_conv flip: ip_def)
  next
    case (Cons p fp)
    then have "p = CHR ''.''" "fp \<noteq> []" "length fp \<le> 4" "list_all is_digit fp" "ip \<noteq> []"
      using assms by (auto simp: is_amount_literal_def Let_def ip_def)
    then show ?thesis using read_int_nonneg [OF d] read_int_nonneg [of fp]
      by (simp add: sdec_parse_unsigned_def Let_def Cons flip: ip_def)
  qed
  ultimately show ?thesis by simp
qed

text \<open>An amount literal is stored without rounding.\<close>

lemma amount_literal_store:
  assumes "is_amount_literal s" and "store_numeric s = Some n"
  shows "\<exists>sd. sdec_parse s = Some sd \<and> sdec_val sd = column_value n"
proof -
  obtain m k where p: "sdec_parse s = Some (m, k)" "k \<le> 4" using amount_literal_parse [OF assms(1)] by blast
  have n: "sdec_round 4 (m, k) = (n, 4)"
    using assms(2) by (auto simp: store_numeric_def p Let_def sdec_round_def split: if_splits)
  have t: "(10 :: rat) ^ 4 = 10 ^ k * 10 ^ (4 - k)" using p(2) by (simp flip: power_add)
  have "sdec_val (m, k) * 10 ^ 4 = of_int (m * 10 ^ (4 - k))" unfolding t by (simp add: sdec_val_def)
  then have "scale4 (sdec_val (m, k))" unfolding scale4_def by blast
  then have "sdec_val (m, k) = sdec_val (sdec_round 4 (m, k))" by (simp add: sdec_round_val round_half_up_scale4)
  then show ?thesis using p(1) n by (simp add: sdec_val_money)
qed

section \<open>Decimal arithmetic on columns\<close>

text \<open>\<open>holds d n\<close>: the Decimal \<open>d\<close> is exactly the amount \<open>n\<close> of a column.\<close>

context decimal_laws
begin

abbreviation holds :: "'d \<Rightarrow> int \<Rightarrow> bool" where
  "holds d n \<equiv> has_value d (column_value n)"

lemma read_numeric: "\<exists>d. read_decimal e D (numeric_text n) = Inr d \<and> holds d n"
  using literal_value [OF numeric_text_parse [of n]] by (auto simp: read_decimal_def sdec_val_money)

lemma read_sum: "\<exists>d. read_decimal e D (sum_text ns) = Inr d \<and> holds d (sum_list ns)"
proof (cases ns)
  case Nil
  have "sdec_parse ''0'' = Some (0, 0)" by code_simp
  from literal_value [OF this] show ?thesis by (auto simp: Nil sum_text_def read_decimal_def sdec_val_def)
qed (use read_numeric [of e "sum_list ns"] in \<open>simp add: sum_text_def\<close>)

lemma read_amount:
  assumes "is_amount_literal s" and "store_numeric s = Some n"
  shows "\<exists>d. read_decimal e D s = Inr d \<and> holds d n"
  using amount_literal_store [OF assms] literal_value [of s] by (auto simp: read_decimal_def)

lemma holds_zero [simp]: "holds (dec_zero D) 0"
  using has_value_zero by simp

lemma holds_plus: "holds a m \<Longrightarrow> holds b n \<Longrightarrow> \<bar>m + n\<bar> < 10 ^ 20 \<Longrightarrow> holds (dec_plus D a b) (m + n)"
  using has_value_plus [of a "column_value m" b "column_value n"] money_bound [of "m + n"] by simp

lemma holds_minus: "holds a m \<Longrightarrow> holds b n \<Longrightarrow> \<bar>m - n\<bar> < 10 ^ 20 \<Longrightarrow> holds (dec_minus D a b) (m - n)"
  using has_value_minus [of a "column_value m" b "column_value n"] money_bound [of "m - n"] by simp

lemma holds_compare:
  assumes "holds a m" and "holds b n"
  shows "dec_le D a b \<longleftrightarrow> m \<le> n" "dec_lt D a b \<longleftrightarrow> m < n" "dec_eq D a b \<longleftrightarrow> m = n"
  using assms by (simp_all add: has_value_def le_val lt_val eq_val)

lemma holds_sum:
  assumes "list_all2 holds ds ns" and "holds acc a" and "\<forall>n \<in> set ns. 0 \<le> n" and "0 \<le> a" and "a + sum_list ns < 10 ^ 20"
  shows "holds (foldl (dec_plus D) acc ds) (a + sum_list ns)"
  using assms
proof (induction ds ns arbitrary: acc a rule: list_all2_induct)
  case (Cons d ds n ns)
  have s: "0 \<le> sum_list ns" using Cons.prems(2) by (intro sum_list_nonneg) auto
  then have "holds (dec_plus D acc d) (a + n)" using Cons by (intro holds_plus) auto
  then have "holds (foldl (dec_plus D) (dec_plus D acc d) ds) ((a + n) + sum_list ns)"
    using Cons.prems by (intro Cons.IH) auto
  then show ?case by (simp add: add.assoc)
qed simp

end

end
