(* ===== verification/Audit_Tables.thy ===== *)
theory Audit_Tables
  imports Audit_Evaluator Audit_Ledger Money_Columns
begin

text \<open>
  The tables an audit run is stored in (migrations 0007, 0008, 0021, 0052, 0058) and their common
  state: invoices, billed charges, runs, gate failures, observations, findings, scorecards, coverage
  markers, replay manifests, payment decisions and policies, and the audit ledger. Every table of
  runs and decisions is append-only for the application (migration 0010). Amounts are columns of
  ten-thousandths; \<open>recorded_at\<close> is kept where a query reads it.
\<close>

record invoice_row =
  iv_id :: uuid
  iv_account_id :: uuid
  iv_shipment_id :: "uuid option"
  iv_carrier_id :: "uuid option"
  iv_transaction_set :: transaction_set
  iv_invoice_number :: "string option"
  iv_currency :: "string option"
  iv_parser_version :: string

record charge_fact_row =
  cf_id :: uuid
  cf_account_id :: uuid
  cf_invoice_id :: uuid
  cf_code :: "string option"
  cf_x12_element :: "string option"
  cf_category :: "string option"
  cf_amount :: int
  cf_currency :: string
  cf_basis :: "int option"
  cf_rate :: "int option"
  cf_raw_description :: "string option"
  cf_source_loop :: "string option"

record audit_run_row =
  run_id :: uuid
  run_account_id :: uuid
  run_invoice_id :: uuid
  run_rubric_snapshot_id :: "uuid option"
  run_engine_spec_version :: string
  run_outcome :: outcome

record coverage_marker_row =
  mk_id :: uuid
  mk_account_id :: uuid
  mk_audit_run_id :: uuid
  mk_charge_index :: nat
  mk_code :: string
  mk_missing_fields :: "string list"

text \<open>The reference columns every finding carries.\<close>

record citation_row =
  ct_criterion_id :: uuid
  ct_rule_version_id :: uuid
  ct_clause_id :: "uuid option"
  ct_source_document_id :: "uuid option"
  ct_transport_document_id :: "uuid option"

record gate_failure_row =
  gfr_id :: uuid
  gfr_account_id :: uuid
  gfr_audit_run_id :: uuid
  gfr_refs :: citation_row
  gfr_defect :: string
  gfr_citation :: "string option"
  gfr_evaluated_expr :: json

record charge_finding_row =
  cg_id :: uuid
  cg_account_id :: uuid
  cg_audit_run_id :: uuid
  cg_refs :: citation_row
  cg_result :: finding_result
  cg_evaluated_expr :: json

record finding_row =
  fr_id :: uuid
  fr_account_id :: uuid
  fr_audit_run_id :: uuid
  fr_refs :: citation_row
  fr_charge_fact_id :: "uuid option"
  fr_direction :: "finding_direction option"
  fr_materiality :: "int option"
  fr_variance_amount :: "int option"
  fr_currency :: "string option"
  fr_classification :: string
  fr_evaluated_expr :: json
  fr_status :: string

record scorecard_row =
  sr_id :: uuid
  sr_account_id :: uuid
  sr_audit_run_id :: uuid
  sr_counts :: "nat \<times> nat \<times> nat"
  sr_total_overcharge :: int
  sr_total_undercharge :: int
  sr_currency :: "string option"

text \<open>The replay manifest (replay-manifest.ts); a pin is an identifier with an optional content hash.\<close>

record replay_manifest =
  mn_audit_run_id :: uuid
  mn_client_id :: uuid
  mn_engine_spec_version :: string
  mn_parser :: "string \<times> string"
  mn_source_documents :: "(uuid \<times> string) list"
  mn_rubric :: "uuid option \<times> string option \<times> string option"
  mn_rule_versions :: "(uuid \<times> string option) list"
  mn_contract_versions :: "(uuid \<times> string option) list"
  mn_resolved_inputs :: json
  mn_invoice :: json
  mn_result :: json

record manifest_row =
  mf_account_id :: uuid
  mf_audit_run_id :: uuid
  mf_content_hash :: string
  mf_manifest :: replay_manifest

record source_document_row =
  sd_id :: uuid
  sd_account_id :: "uuid option"
  sd_sha256 :: string
  sd_content_type :: "string option"
  sd_byte_size :: nat
  sd_storage_uri :: string

datatype payment_action = Approve | Hold | Short_Pay | Do_Not_Pay

record payment_gate_decision =
  pg_id :: uuid
  pg_account_id :: uuid
  pg_invoice_id :: uuid
  pg_audit_run_id :: uuid
  pg_action :: payment_action
  pg_amount :: "int option"
  pg_currency :: "string option"
  pg_actor_kind :: string
  pg_rationale :: "string option"
  pg_recorded_at :: instant

record payment_policy_row =
  pp_account_id :: uuid
  pp_hold_then_approve :: bool
  pp_short_pay_enabled :: bool
  pp_approval_expiry_hours :: int
  pp_configured_by :: uuid
  pp_updated_at :: instant

record audit_db =
  ad_documents :: "source_document_row list"
  ad_invoices :: "invoice_row list"
  ad_charge_facts :: "charge_fact_row list"
  ad_runs :: "audit_run_row list"
  ad_markers :: "coverage_marker_row list"
  ad_gate_failures :: "gate_failure_row list"
  ad_charge_findings :: "charge_finding_row list"
  ad_findings :: "finding_row list"
  ad_scorecards :: "scorecard_row list"
  ad_manifests :: "manifest_row list"
  ad_decisions :: "payment_gate_decision list"
  ad_policies :: "payment_policy_row list"
  ad_events :: "audit_event_row list"

section \<open>Amounts printed into columns\<close>

text \<open>
  \<open>toFixed\<close> prints a finite Decimal in plain notation; with that the amount a column receives is the
  rounded value of the Decimal.
\<close>

locale fixed_notation = decimal_laws +
  assumes to_fixed_literal: "dec_is_finite D d \<Longrightarrow> \<exists>sd. sdec_parse (dec_to_fixed D n d) = Some sd"
begin

lemma store_fixed_value:
  assumes "holds d n"
  shows "store_numeric (dec_to_fixed D 4 d) = (if \<bar>n\<bar> < 10 ^ 18 then Some n else None)"
proof -
  obtain sd where sd: "sdec_parse (dec_to_fixed D 4 d) = Some sd"
    using to_fixed_literal [of d 4] assms unfolding has_value_def by blast
  obtain d' where d': "dec_of_string D (dec_to_fixed D 4 d) = Some d'" "has_value d' (column_value n)"
    using to_fixed4_roundtrip [OF assms] by auto
  then have "sdec_val sd = column_value n"
    using of_literal [OF sd] by (auto simp: has_value_def)
  then have "sdec_val (sdec_round 4 sd) = column_value n" by (simp add: sdec_round_val round_half_up_scale4)
  moreover have "sdec_round 4 sd = (fst (sdec_round 4 sd), 4)" by (simp add: sdec_round_def)
  ultimately have "fst (sdec_round 4 sd) = n" by (metis sdec_val_money money_simps(4))
  then show ?thesis using sd by (simp add: store_numeric_def)
qed

lemma store_fixed: "holds d n \<Longrightarrow> \<bar>n\<bar> < 10 ^ 18 \<Longrightarrow> store_numeric (dec_to_fixed D 4 d) = Some n"
  by (simp add: store_fixed_value)

end

interpretation exact_fixed: fixed_notation exact_decimal sdec_val
  by unfold_locales (simp add: exact_decimal_def)

end
