(* ===== verification/Payments.thy ===== *)
theory Payments
  imports Audit_Tables Job_Queue
begin

text \<open>
  The payment gate (src/modules/payments, src/server/payment-routes.ts): the default hold, the
  short-pay and do-not-pay decisions of an audit run, the analyst's authorization, the escalation of
  an old hold, the approval queue and the payment policy of an account. Generated identifiers, the
  clock and the decisions other transactions commit between a read and the insert (\<open>others\<close>) are
  arguments.
\<close>

datatype payment_code =
    EMPTY_SET | MIXED_CURRENCY | MISSING_AMOUNT | WITHHELD_EXCEEDS_TOTAL
  | AUDIT_RUN_NOT_SCORED | AUDIT_RUN_NOT_GATE_FAILED | DECISION_CONFLICT | AUDIT_RUN_NOT_FOUND
  | NO_HOLD_DECISION | ALREADY_APPROVED | GRACE_PERIOD_NOT_ELAPSED

text \<open>
  \<open>UniqueViolation\<close>, \<open>PaymentNumericOverflow\<close> and \<open>PaymentCurrencyCheck\<close> are raised by the
  database, \<open>PaymentDecimalError\<close> by the Decimal constructor.
\<close>

datatype payment_error =
    PaymentZodError
  | ShortPayDecisionError payment_code
  | DoNotPayDecisionError
  | GenerateHoldDecisionError payment_code
  | GenerateShortPayError payment_code
  | GenerateDoNotPayError payment_code
  | AuthorizePaymentError payment_code
  | GeneratePaymentEscalationError payment_code
  | PaymentPolicyValidationError
  | PaymentDecimalError
  | PaymentNumericOverflow
  | PaymentCurrencyCheck
  | UniqueViolation
  | PaymentAuditError audit_error

fun action_text :: "payment_action \<Rightarrow> string" where
  "action_text Approve = ''approve''"
| "action_text Hold = ''hold''"
| "action_text Short_Pay = ''short_pay''"
| "action_text Do_Not_Pay = ''do_not_pay''"

section \<open>The decision table\<close>

text \<open>The unique key of migration 0052.\<close>

definition same_decision :: "payment_gate_decision \<Rightarrow> payment_gate_decision \<Rightarrow> bool" where
  "same_decision a b \<longleftrightarrow>
     pg_account_id b = pg_account_id a \<and> pg_audit_run_id b = pg_audit_run_id a \<and> pg_action b = pg_action a"

definition decision_of :: "uuid \<Rightarrow> uuid \<Rightarrow> payment_action \<Rightarrow> audit_db \<Rightarrow> payment_gate_decision option" where
  "decision_of client run action db =
     find (\<lambda>d. pg_account_id d = client \<and> pg_audit_run_id d = run \<and> pg_action d = action) (ad_decisions db)"

definition insert_decision :: "payment_gate_decision \<Rightarrow> audit_db \<Rightarrow> (payment_error, audit_db) result" where
  "insert_decision d db =
     (let (rows, created) = insert_row same_decision d (ad_decisions db)
      in rbind (ensure created UniqueViolation) (\<lambda>_. Inr (db\<lparr>ad_decisions := rows\<rparr>)))"

definition commit_others :: "payment_gate_decision list \<Rightarrow> audit_db \<Rightarrow> audit_db" where
  "commit_others others db = db\<lparr>ad_decisions := ad_decisions db @ others\<rparr>"

definition write_db_event :: "instant \<Rightarrow> audit_event \<Rightarrow> audit_db \<Rightarrow> (payment_error, audit_db \<times> bool) result" where
  "write_db_event now e db =
     (case write_audit_event now e (ad_events db) of
        Inl x \<Rightarrow> Inl (PaymentAuditError x)
      | Inr (rows, _, created) \<Rightarrow> Inr (db\<lparr>ad_events := rows\<rparr>, created))"

text \<open>The insert of a decision and the event that records it.\<close>

definition record_decision ::
  "instant \<Rightarrow> payment_gate_decision list \<Rightarrow> payment_gate_decision \<Rightarrow> audit_event \<Rightarrow> audit_db \<Rightarrow> (payment_error, audit_db) result" where
  "record_decision now others d e db =
     rbind (insert_decision d (commit_others others db)) (\<lambda>db1. rbind (write_db_event now e db1) (\<lambda>(db2, _). Inr db2))"

text \<open>The run of an account; the generators also fix its outcome.\<close>

definition find_run :: "uuid \<Rightarrow> uuid \<Rightarrow> outcome option \<Rightarrow> audit_db \<Rightarrow> audit_run_row option" where
  "find_run client run outc db =
     find (\<lambda>r. run_account_id r = client \<and> run_id r = run \<and> (case outc of None \<Rightarrow> True | Some x \<Rightarrow> run_outcome r = x)) (ad_runs db)"

definition system_decision ::
  "uuid \<Rightarrow> instant \<Rightarrow> uuid \<Rightarrow> uuid \<Rightarrow> uuid \<Rightarrow> payment_action \<Rightarrow> string \<Rightarrow> payment_gate_decision" where
  "system_decision new_id now client invoice run action rationale =
     \<lparr>pg_id = new_id, pg_account_id = client, pg_invoice_id = invoice, pg_audit_run_id = run, pg_action = action,
      pg_amount = None, pg_currency = None, pg_actor_kind = ''system'', pg_rationale = Some rationale, pg_recorded_at = now\<rparr>"

section \<open>compose-short-pay-decision.ts\<close>

record charge_view =
  sv_amount :: string
  sv_currency :: "string option"

record overcharge_view =
  ov_id :: uuid
  ov_currency :: "string option"
  ov_variance_amount :: "string option"

record short_pay_decision =
  sp_amount_to_pay :: string
  sp_withheld_amount :: string
  sp_currency :: string
  sp_finding_ids :: "uuid list"

definition sum_amounts :: "'d decimal_lib \<Rightarrow> string list \<Rightarrow> (payment_error, 'd) result" where
  "sum_amounts D ss =
     rfold (\<lambda>acc s. rbind (read_decimal PaymentDecimalError D s) (\<lambda>d. Inr (dec_plus D acc d))) (dec_zero D) ss"

definition compose_short_pay_decision ::
  "'d decimal_lib \<Rightarrow> runtime \<Rightarrow> charge_view list \<Rightarrow> overcharge_view list \<Rightarrow> (payment_error, short_pay_decision) result" where
  "compose_short_pay_decision D rt charges fs =
     rbind (ensure (fs \<noteq> []) (ShortPayDecisionError EMPTY_SET)) (\<lambda>_.
     rbind (ensure (list_all (\<lambda>f. ov_currency f \<noteq> None \<and> ov_variance_amount f \<noteq> None) fs) (ShortPayDecisionError MISSING_AMOUNT)) (\<lambda>_.
     rbind (ensure (list_all (\<lambda>c. sv_currency c \<noteq> None) charges) (ShortPayDecisionError MISSING_AMOUNT)) (\<lambda>_.
     case remdups (List.map_filter id (map sv_currency charges @ map ov_currency fs)) of
       [currency] \<Rightarrow>
         rbind (sum_amounts D (map sv_amount charges)) (\<lambda>total.
         let sorted = js_sort (\<lambda>a b. rt_locale_compare rt (ov_id a) (ov_id b)) fs
         in rbind (sum_amounts D (List.map_filter ov_variance_amount sorted)) (\<lambda>withheld.
            rbind (ensure (\<not> dec_le D total withheld) (ShortPayDecisionError WITHHELD_EXCEEDS_TOTAL)) (\<lambda>_.
            Inr \<lparr>sp_amount_to_pay = dec_to_fixed D 4 (dec_minus D total withheld),
                 sp_withheld_amount = dec_to_fixed D 4 withheld,
                 sp_currency = currency, sp_finding_ids = map ov_id sorted\<rparr>)))
     | _ \<Rightarrow> Inl (ShortPayDecisionError MIXED_CURRENCY))))"

section \<open>compose-do-not-pay-decision.ts\<close>

record gate_failure_view =
  gv_id :: uuid
  gv_defect :: string
  gv_citation :: "string option"

text \<open>The rationale and the identifiers of the failures; an empty citation is falsy.\<close>

definition failure_text :: "gate_failure_view \<Rightarrow> string" where
  "failure_text g = (case gv_citation g of
     None \<Rightarrow> gv_defect g
   | Some c \<Rightarrow> if c = [] then gv_defect g else gv_defect g @ '' ('' @ c @ '')'')"

definition compose_do_not_pay_decision ::
  "runtime \<Rightarrow> gate_failure_view list \<Rightarrow> (payment_error, string \<times> uuid list) result" where
  "compose_do_not_pay_decision rt rows =
     rbind (ensure (rows \<noteq> []) DoNotPayDecisionError) (\<lambda>_.
     let sorted = js_sort (\<lambda>a b. rt_locale_compare rt (gv_id a) (gv_id b)) rows
     in Inr (js_join ''; '' (map failure_text sorted), map gv_id sorted))"

section \<open>generate-hold-decision.ts\<close>

definition hold_rationale :: string where
  "hold_rationale = ''Held by default pending analyst payment authorization (hold-then-approve).''"

definition hold_event :: "runtime \<Rightarrow> uuid \<Rightarrow> uuid \<Rightarrow> uuid \<Rightarrow> audit_event" where
  "hold_event rt client run decision_id =
     system_event rt client ''payment_gate_decision'' decision_id ''hold_generated'' [client, run, ''hold-decision'']
       [(''auditRunId'', JString run)]"

definition generate_hold_decision ::
  "runtime \<Rightarrow> zod_lib \<Rightarrow> uuid \<Rightarrow> instant \<Rightarrow> payment_gate_decision list \<Rightarrow> uuid \<Rightarrow> uuid \<Rightarrow> bool option \<Rightarrow> audit_db
   \<Rightarrow> (payment_error, audit_db \<times> uuid option \<times> bool) result" where
  "generate_hold_decision rt Z new_id now others client run hold_then_approve db =
     rbind (ensure (zod_uuid Z client \<and> zod_uuid Z run) PaymentZodError) (\<lambda>_.
     if hold_then_approve = Some False then Inr (db, None, False)
     else case find_run client run (Some SCORED) db of
       None \<Rightarrow> Inl (GenerateHoldDecisionError AUDIT_RUN_NOT_SCORED)
     | Some r \<Rightarrow>
         (case decision_of client run Hold db of
            Some d \<Rightarrow> Inr (db, Some (pg_id d), False)
          | None \<Rightarrow>
              rbind (record_decision now others (system_decision new_id now client (run_invoice_id r) run Hold hold_rationale)
                       (hold_event rt client run new_id) db) (\<lambda>db'. Inr (db', Some new_id, True))))"

section \<open>generate-short-pay-decision.ts\<close>

record short_pay_result =
  sq_decision_id :: "uuid option"
  sq_amount_to_pay :: "string option"
  sq_currency :: "string option"
  sq_finding_ids :: "uuid list"
  sq_created :: bool

definition charges_of :: "uuid \<Rightarrow> uuid \<Rightarrow> audit_db \<Rightarrow> charge_fact_row list" where
  "charges_of client invoice db = filter (\<lambda>c. cf_account_id c = client \<and> cf_invoice_id c = invoice) (ad_charge_facts db)"

definition accepted_overcharges :: "uuid \<Rightarrow> uuid \<Rightarrow> audit_db \<Rightarrow> finding_row list" where
  "accepted_overcharges client run db =
     filter (\<lambda>f. fr_account_id f = client \<and> fr_audit_run_id f = run \<and> fr_direction f = Some OVERCHARGE \<and> fr_status f = ''accepted'')
       (ad_findings db)"

definition charge_view_of :: "charge_fact_row \<Rightarrow> charge_view" where
  "charge_view_of c = \<lparr>sv_amount = numeric_text (cf_amount c), sv_currency = Some (cf_currency c)\<rparr>"

definition overcharge_view_of :: "finding_row \<Rightarrow> overcharge_view" where
  "overcharge_view_of f =
     \<lparr>ov_id = fr_id f, ov_currency = fr_currency f, ov_variance_amount = map_option numeric_text (fr_variance_amount f)\<rparr>"

definition short_pay_row ::
  "uuid \<Rightarrow> instant \<Rightarrow> uuid \<Rightarrow> uuid \<Rightarrow> uuid \<Rightarrow> int \<Rightarrow> short_pay_decision \<Rightarrow> payment_gate_decision" where
  "short_pay_row new_id now client invoice run n s =
     \<lparr>pg_id = new_id, pg_account_id = client, pg_invoice_id = invoice, pg_audit_run_id = run, pg_action = Short_Pay,
      pg_amount = Some n, pg_currency = Some (sp_currency s), pg_actor_kind = ''system'',
      pg_rationale = Some (''Short-paid: withheld '' @ sp_withheld_amount s @ '' '' @ sp_currency s @
        '' for accepted overcharge findings.''), pg_recorded_at = now\<rparr>"

definition short_pay_event :: "runtime \<Rightarrow> uuid \<Rightarrow> uuid \<Rightarrow> uuid \<Rightarrow> short_pay_decision \<Rightarrow> audit_event" where
  "short_pay_event rt client run decision_id s =
     system_event rt client ''payment_gate_decision'' decision_id ''short_pay_generated'' [client, run, ''short-pay-decision'']
       [(''auditRunId'', JString run), (''amountToPay'', JString (sp_amount_to_pay s)),
        (''withheldAmount'', JString (sp_withheld_amount s)), (''findingIds'', JArray (map JString (sp_finding_ids s)))]"

definition generate_short_pay_decision ::
  "'d decimal_lib \<Rightarrow> runtime \<Rightarrow> zod_lib \<Rightarrow> uuid \<Rightarrow> instant \<Rightarrow> payment_gate_decision list \<Rightarrow> uuid \<Rightarrow> uuid \<Rightarrow> bool option \<Rightarrow> audit_db
   \<Rightarrow> (payment_error, audit_db \<times> short_pay_result) result" where
  "generate_short_pay_decision D rt Z new_id now others client run enabled db =
     rbind (ensure (zod_uuid Z client \<and> zod_uuid Z run) PaymentZodError) (\<lambda>_.
     if enabled \<noteq> Some True
     then Inr (db, \<lparr>sq_decision_id = None, sq_amount_to_pay = None, sq_currency = None, sq_finding_ids = [], sq_created = False\<rparr>)
     else case find_run client run (Some SCORED) db of
       None \<Rightarrow> Inl (GenerateShortPayError AUDIT_RUN_NOT_SCORED)
     | Some r \<Rightarrow>
         (case decision_of client run Short_Pay db of
            Some d \<Rightarrow> Inr (db, \<lparr>sq_decision_id = Some (pg_id d), sq_amount_to_pay = map_option numeric_text (pg_amount d),
                              sq_currency = pg_currency d, sq_finding_ids = [], sq_created = False\<rparr>)
          | None \<Rightarrow>
              rbind (compose_short_pay_decision D rt (map charge_view_of (charges_of client (run_invoice_id r) db))
                       (map overcharge_view_of (accepted_overcharges client run db))) (\<lambda>s.
              case store_numeric (sp_amount_to_pay s) of
                None \<Rightarrow> Inl PaymentNumericOverflow
              | Some n \<Rightarrow>
                  rbind (ensure (currency_format (sp_currency s)) PaymentCurrencyCheck) (\<lambda>_.
                  rbind (record_decision now others (short_pay_row new_id now client (run_invoice_id r) run n s)
                           (short_pay_event rt client run new_id s) db) (\<lambda>db'.
                  Inr (db', \<lparr>sq_decision_id = Some new_id, sq_amount_to_pay = Some (sp_amount_to_pay s),
                            sq_currency = Some (sp_currency s), sq_finding_ids = sp_finding_ids s, sq_created = True\<rparr>))))))"

section \<open>generate-do-not-pay-decision.ts\<close>

definition gate_failures_of :: "uuid \<Rightarrow> uuid \<Rightarrow> audit_db \<Rightarrow> gate_failure_row list" where
  "gate_failures_of client run db = filter (\<lambda>g. gfr_account_id g = client \<and> gfr_audit_run_id g = run) (ad_gate_failures db)"

definition gate_failure_view_of :: "gate_failure_row \<Rightarrow> gate_failure_view" where
  "gate_failure_view_of g = \<lparr>gv_id = gfr_id g, gv_defect = gfr_defect g, gv_citation = gfr_citation g\<rparr>"

definition do_not_pay_event :: "runtime \<Rightarrow> uuid \<Rightarrow> uuid \<Rightarrow> uuid \<Rightarrow> string \<times> uuid list \<Rightarrow> audit_event" where
  "do_not_pay_event rt client run decision_id c =
     system_event rt client ''payment_gate_decision'' decision_id ''do_not_pay_generated'' [client, run, ''do-not-pay-decision'']
       [(''auditRunId'', JString run), (''gateFailureIds'', JArray (map JString (snd c))), (''rationale'', JString (fst c))]"

text \<open>\<open>ON CONFLICT DO NOTHING\<close>: a decision that exists is read back.\<close>

definition generate_do_not_pay_decision ::
  "runtime \<Rightarrow> zod_lib \<Rightarrow> uuid \<Rightarrow> instant \<Rightarrow> payment_gate_decision list \<Rightarrow> uuid \<Rightarrow> uuid \<Rightarrow> audit_db
   \<Rightarrow> (payment_error, audit_db \<times> uuid \<times> string \<times> uuid list) result" where
  "generate_do_not_pay_decision rt Z new_id now others client run db0 =
     rbind (ensure (zod_uuid Z client \<and> zod_uuid Z run) PaymentZodError) (\<lambda>_.
     case find_run client run (Some REJECTED_REWORK) db0 of
       None \<Rightarrow> Inl (GenerateDoNotPayError AUDIT_RUN_NOT_GATE_FAILED)
     | Some r \<Rightarrow>
         rbind (compose_do_not_pay_decision rt (map gate_failure_view_of (gate_failures_of client run db0))) (\<lambda>c.
         let db = commit_others others db0;
             (rows, created) = insert_row same_decision
                (system_decision new_id now client (run_invoice_id r) run Do_Not_Pay (fst c)) (ad_decisions db)
         in case (if created then Some new_id else map_option pg_id (decision_of client run Do_Not_Pay db)) of
              None \<Rightarrow> Inl (GenerateDoNotPayError DECISION_CONFLICT)
            | Some i \<Rightarrow>
                rbind (write_db_event now (do_not_pay_event rt client run i c) (db\<lparr>ad_decisions := rows\<rparr>)) (\<lambda>(db', _).
                Inr (db', i, c))))"

section \<open>payment-authorization-action.ts, authorize-payment.ts\<close>

text \<open>
  \<open>value in PAYMENT_AUTHORIZATION_ACTIONS\<close> also holds for the members every object inherits.
\<close>

definition PAYMENT_AUTHORIZATION_ACTIONS :: "(string \<times> payment_action) list" where
  "PAYMENT_AUTHORIZATION_ACTIONS = [(''approve'', Approve), (''hold'', Hold)]"

definition OBJECT_PROTOTYPE_KEYS :: "string list" where
  "OBJECT_PROTOTYPE_KEYS =
     [''constructor'', ''__defineGetter__'', ''__defineSetter__'', ''hasOwnProperty'', ''__lookupGetter__'', ''__lookupSetter__'',
      ''isPrototypeOf'', ''propertyIsEnumerable'', ''toString'', ''valueOf'', ''__proto__'', ''toLocaleString'']"

fun is_payment_authorization_action :: "json option \<Rightarrow> bool" where
  "is_payment_authorization_action (Some (JString s)) \<longleftrightarrow>
     s \<in> set (map fst PAYMENT_AUTHORIZATION_ACTIONS) \<or> s \<in> set OBJECT_PROTOTYPE_KEYS"
| "is_payment_authorization_action _ \<longleftrightarrow> False"

record authorize_input =
  au_client_id :: uuid
  au_audit_run_id :: uuid
  au_action :: string
  au_rationale :: "string option"
  au_actor_user_id :: uuid

text \<open>The parsed action and the trimmed rationale.\<close>

definition parse_authorization :: "zod_lib \<Rightarrow> authorize_input \<Rightarrow> (payment_action \<times> string option) option" where
  "parse_authorization Z i =
     (case map_of PAYMENT_AUTHORIZATION_ACTIONS (au_action i) of
        None \<Rightarrow> None
      | Some a \<Rightarrow>
          (let rationale = map_option js_trim (au_rationale i)
           in if zod_uuid Z (au_client_id i) \<and> zod_uuid Z (au_audit_run_id i) \<and> zod_uuid Z (au_actor_user_id i) \<and>
                 (case rationale of None \<Rightarrow> True | Some s \<Rightarrow> 1 \<le> length s \<and> length s \<le> 2000)
              then Some (a, rationale) else None))"

definition authorization_event ::
  "runtime \<Rightarrow> uuid \<Rightarrow> uuid \<Rightarrow> uuid \<Rightarrow> uuid \<Rightarrow> payment_action \<Rightarrow> string option \<Rightarrow> audit_event" where
  "authorization_event rt client run decision_id actor a rationale =
     analyst_event rt client ''payment_gate_decision'' decision_id ''payment_authorized''
       [client, decision_id, ''payment-authorization''] (Some actor)
       [(''auditRunId'', JString run), (''action'', JString (action_text a)),
        (''rationale'', case rationale of None \<Rightarrow> JNull | Some s \<Rightarrow> JString s)]"

definition analyst_decision ::
  "uuid \<Rightarrow> instant \<Rightarrow> uuid \<Rightarrow> uuid \<Rightarrow> uuid \<Rightarrow> payment_action \<Rightarrow> string option \<Rightarrow> payment_gate_decision" where
  "analyst_decision new_id now client invoice run action rationale =
     \<lparr>pg_id = new_id, pg_account_id = client, pg_invoice_id = invoice, pg_audit_run_id = run, pg_action = action,
      pg_amount = None, pg_currency = None, pg_actor_kind = ''analyst'', pg_rationale = rationale, pg_recorded_at = now\<rparr>"

definition authorize_payment ::
  "runtime \<Rightarrow> zod_lib \<Rightarrow> uuid \<Rightarrow> instant \<Rightarrow> payment_gate_decision list \<Rightarrow> authorize_input \<Rightarrow> audit_db
   \<Rightarrow> (payment_error, audit_db \<times> uuid \<times> bool) result" where
  "authorize_payment rt Z new_id now others i db =
     (case parse_authorization Z i of
        None \<Rightarrow> Inl PaymentZodError
      | Some (action, rationale) \<Rightarrow>
          (case find_run (au_client_id i) (au_audit_run_id i) None db of
             None \<Rightarrow> Inl (AuthorizePaymentError AUDIT_RUN_NOT_FOUND)
           | Some r \<Rightarrow>
               (case decision_of (au_client_id i) (au_audit_run_id i) action db of
                  Some d \<Rightarrow> Inr (db, pg_id d, False)
                | None \<Rightarrow>
                    rbind (record_decision now others
                             (analyst_decision new_id now (au_client_id i) (run_invoice_id r) (au_audit_run_id i) action rationale)
                             (authorization_event rt (au_client_id i) (au_audit_run_id i) new_id (au_actor_user_id i) action rationale) db)
                      (\<lambda>db'. Inr (db', new_id, True)))))"

section \<open>generate-payment-escalation.ts\<close>

definition escalation_deadline :: "instant \<Rightarrow> int \<Rightarrow> instant" where
  "escalation_deadline held_at days = held_at + days * 86400000"

definition payment_escalated_event :: "runtime \<Rightarrow> (instant \<Rightarrow> string) \<Rightarrow> uuid \<Rightarrow> uuid \<Rightarrow> instant \<Rightarrow> int \<Rightarrow> audit_event" where
  "payment_escalated_event rt isof client run held_at days =
     system_event rt client ''payment_gate_decision'' run ''payment_gate.escalated'' [client, run, ''payment_gate.escalated'']
       [(''auditRunId'', JString run), (''holdRecordedAt'', JString (isof held_at)),
        (''gracePeriodDays'', JNumber (JFin (of_int days)))]"

text \<open>\<open>clock\<close> is the time of the transaction, \<open>now\<close> the argument of the call.\<close>

definition generate_payment_escalation ::
  "runtime \<Rightarrow> (instant \<Rightarrow> string) \<Rightarrow> instant \<Rightarrow> instant \<Rightarrow> int \<Rightarrow> uuid \<Rightarrow> uuid \<Rightarrow> audit_db
   \<Rightarrow> (payment_error, audit_db \<times> uuid \<times> bool) result" where
  "generate_payment_escalation rt isof clock now days client run db =
     (case first_row (descending (by_int pg_recorded_at))
             (\<lambda>d. pg_account_id d = client \<and> pg_audit_run_id d = run \<and> pg_action d = Hold) (ad_decisions db) of
        None \<Rightarrow> Inl (GeneratePaymentEscalationError NO_HOLD_DECISION)
      | Some h \<Rightarrow>
          rbind (ensure (decision_of client run Approve db = None) (GeneratePaymentEscalationError ALREADY_APPROVED)) (\<lambda>_.
          rbind (ensure (escalation_deadline (pg_recorded_at h) days \<le> now) (GeneratePaymentEscalationError GRACE_PERIOD_NOT_ELAPSED)) (\<lambda>_.
          rbind (write_db_event clock (payment_escalated_event rt isof client run (pg_recorded_at h) days) db) (\<lambda>(db', created).
          Inr (db', deterministic_audit_event_id rt [client, run, ''payment_gate.escalated''], created)))))"

section \<open>list-pending-payment-authorizations.ts\<close>

record pending_row =
  pa_audit_run_id :: uuid
  pa_invoice_id :: uuid
  pa_invoice_number :: "string option"
  pa_carrier_name :: "string option"
  pa_currency :: "string option"
  pa_held_at :: instant
  pa_rationale :: "string option"

text \<open>\<open>visible\<close> are the accounts row-level security shows; \<open>carriers\<close> maps a carrier to its name.\<close>

definition resolved_run :: "(uuid \<Rightarrow> bool) \<Rightarrow> audit_db \<Rightarrow> uuid \<Rightarrow> bool" where
  "resolved_run visible db run \<longleftrightarrow>
     list_ex (\<lambda>d. visible (pg_account_id d) \<and> pg_audit_run_id d = run \<and> pg_action d \<in> {Approve, Short_Pay, Do_Not_Pay}) (ad_decisions db)"

definition pending_rows :: "(uuid \<Rightarrow> bool) \<Rightarrow> (uuid \<Rightarrow> string option) \<Rightarrow> audit_db \<Rightarrow> payment_gate_decision \<Rightarrow> pending_row list" where
  "pending_rows visible carriers db h =
     [\<lparr>pa_audit_run_id = pg_audit_run_id h, pa_invoice_id = iv_id iv, pa_invoice_number = iv_invoice_number iv,
       pa_carrier_name = (case iv_carrier_id iv of None \<Rightarrow> None | Some c \<Rightarrow> carriers c), pa_currency = iv_currency iv,
       pa_held_at = pg_recorded_at h, pa_rationale = pg_rationale h\<rparr>.
      r \<leftarrow> ad_runs db, visible (run_account_id r) \<and> run_id r = pg_audit_run_id h,
      iv \<leftarrow> ad_invoices db, visible (iv_account_id iv) \<and> iv_id iv = run_invoice_id r]"

definition list_pending_payment_authorizations ::
  "(uuid \<Rightarrow> bool) \<Rightarrow> (uuid \<Rightarrow> string option) \<Rightarrow> nat option \<Rightarrow> nat option \<Rightarrow> audit_db \<Rightarrow> pending_row list" where
  "list_pending_payment_authorizations visible carriers limit offset db =
     (let held = filter (\<lambda>h. visible (pg_account_id h) \<and> pg_action h = Hold \<and> \<not> resolved_run visible db (pg_audit_run_id h)) (ad_decisions db);
          rows = js_sort (lex (by_int pa_held_at) (by_text pa_audit_run_id)) (concat (map (pending_rows visible carriers db) held))
      in take (case limit of None \<Rightarrow> 50 | Some n \<Rightarrow> n) (drop (case offset of None \<Rightarrow> 0 | Some n \<Rightarrow> n) rows))"

section \<open>payment-policy-config.ts, upsert-payment-policy.ts\<close>

record payment_policy =
  po_client_id :: uuid
  po_hold_then_approve :: bool
  po_short_pay_enabled :: bool
  po_approval_expiry_hours :: int
  po_configured_by :: uuid

definition DEFAULT_HOLD_THEN_APPROVE :: bool where "DEFAULT_HOLD_THEN_APPROVE = True"

definition policy_keys :: "string list" where
  "policy_keys = [''clientId'', ''holdThenApprove'', ''shortPayEnabled'', ''approvalExpiryHours'', ''configuredBy'']"

definition parse_payment_policy_config :: "zod_lib \<Rightarrow> json \<Rightarrow> (payment_error, payment_policy) result" where
  "parse_payment_policy_config Z untrusted =
     (case untrusted of
        JObject ms \<Rightarrow>
          (case (json_member ''clientId'' ms, json_member ''holdThenApprove'' ms, json_member ''shortPayEnabled'' ms,
                 json_member ''approvalExpiryHours'' ms, json_member ''configuredBy'' ms) of
             (Some (JString c), Some (JBool h), Some (JBool s), Some (JNumber (JFin q)), Some (JString u)) \<Rightarrow>
               if zod_uuid Z c \<and> zod_uuid Z u \<and> of_int \<lfloor>q\<rfloor> = q \<and> 0 < q \<and> q \<le> 720 \<and> list_all (\<lambda>(k, _). k \<in> set policy_keys) ms
               then Inr \<lparr>po_client_id = c, po_hold_then_approve = h, po_short_pay_enabled = s,
                         po_approval_expiry_hours = \<lfloor>q\<rfloor>, po_configured_by = u\<rparr>
               else Inl PaymentPolicyValidationError
           | _ \<Rightarrow> Inl PaymentPolicyValidationError)
      | _ \<Rightarrow> Inl PaymentPolicyValidationError)"

text \<open>On conflict the row keeps the user who configured the account first.\<close>

definition upsert_payment_policy :: "zod_lib \<Rightarrow> instant \<Rightarrow> json \<Rightarrow> audit_db \<Rightarrow> (payment_error, audit_db \<times> payment_policy) result" where
  "upsert_payment_policy Z now untrusted db =
     rbind (parse_payment_policy_config Z untrusted) (\<lambda>p.
     let row = \<lparr>pp_account_id = po_client_id p, pp_hold_then_approve = po_hold_then_approve p,
                pp_short_pay_enabled = po_short_pay_enabled p, pp_approval_expiry_hours = po_approval_expiry_hours p,
                pp_configured_by = po_configured_by p, pp_updated_at = now\<rparr>
     in Inr (db\<lparr>ad_policies :=
               (if list_ex (\<lambda>x. pp_account_id x = po_client_id p) (ad_policies db)
                then map (\<lambda>x. if pp_account_id x = po_client_id p then row\<lparr>pp_configured_by := pp_configured_by x\<rparr> else x) (ad_policies db)
                else ad_policies db @ [row])\<rparr>, p))"

section \<open>payment-routes.ts\<close>

record authorization_request =
  aq_run_id :: string
  aq_action :: "json option"
  aq_rationale :: "json option"
  aq_actor_user_id :: "uuid option"
  aq_client_ids :: "uuid list"

datatype payment_reply =
    PaymentRefused nat
  | PaymentAuthorized nat uuid
  | PaymentThrown payment_error

definition payment_authorization_route ::
  "runtime \<Rightarrow> zod_lib \<Rightarrow> uuid \<Rightarrow> instant \<Rightarrow> payment_gate_decision list \<Rightarrow> authorization_request \<Rightarrow> audit_db
   \<Rightarrow> audit_db \<times> payment_reply" where
  "payment_authorization_route rt Z new_id now others q db =
     (if \<not> isUuid (aq_run_id q) then (db, PaymentRefused 400)
      else if \<not> is_payment_authorization_action (aq_action q) then (db, PaymentRefused 400)
      else case (aq_action q, aq_rationale q) of
        (Some (JString action), rationale) \<Rightarrow>
          if (case rationale of None \<Rightarrow> False | Some (JString _) \<Rightarrow> False | _ \<Rightarrow> True) then (db, PaymentRefused 400)
          else (case (aq_actor_user_id q, aq_client_ids q) of
                  (None, _) \<Rightarrow> (db, PaymentRefused 401)
                | (Some actor, []) \<Rightarrow> (db, PaymentRefused 401)
                | (Some actor, client # _) \<Rightarrow>
                    if actor = [] \<or> client = [] then (db, PaymentRefused 401)
                    else (case authorize_payment rt Z new_id now others
                            \<lparr>au_client_id = client, au_audit_run_id = aq_run_id q, au_action = action,
                             au_rationale = (case rationale of Some (JString s) \<Rightarrow> Some s | _ \<Rightarrow> None),
                             au_actor_user_id = actor\<rparr> db of
                            Inl (AuthorizePaymentError _) \<Rightarrow> (db, PaymentRefused 404)
                          | Inl e \<Rightarrow> (db, PaymentThrown e)
                          | Inr (db', i, created) \<Rightarrow> (db', PaymentAuthorized (if created then 201 else 200) i)))
      | _ \<Rightarrow> (db, PaymentRefused 400))"

text \<open>\<open>{ ...body, clientId, configuredBy }\<close>: the two server-side members replace those of the body.\<close>

definition spread_policy :: "(string \<times> json) list \<Rightarrow> uuid \<Rightarrow> uuid \<Rightarrow> json" where
  "spread_policy body client actor =
     JObject (filter (\<lambda>(k, _). k \<notin> {''clientId'', ''configuredBy''}) body @ [(''clientId'', JString client), (''configuredBy'', JString actor)])"

datatype policy_reply =
    PolicyRefused nat
  | PolicyStored payment_policy
  | PolicyThrown payment_error

definition payment_policy_route ::
  "zod_lib \<Rightarrow> instant \<Rightarrow> uuid option \<Rightarrow> uuid list \<Rightarrow> (string \<times> json) list \<Rightarrow> audit_db \<Rightarrow> audit_db \<times> policy_reply" where
  "payment_policy_route Z now actor clients body db =
     (case (actor, clients) of
        (Some u, c # _) \<Rightarrow>
          if u = [] \<or> c = [] then (db, PolicyRefused 401)
          else (case upsert_payment_policy Z now (spread_policy body c u) db of
                  Inl PaymentPolicyValidationError \<Rightarrow> (db, PolicyRefused 400)
                | Inl e \<Rightarrow> (db, PolicyThrown e)
                | Inr (db', p) \<Rightarrow> (db', PolicyStored p))
      | _ \<Rightarrow> (db, PolicyRefused 401))"

end
