(* ===== verification/Audit_Json.thy ===== *)
theory Audit_Json
  imports Audit_Evaluator
begin

text \<open>
  The JSON documents an audit run is stored as: \<open>JSON.parse(JSON.stringify(...))\<close> of an invoice, of
  the resolved inputs and of a result, which drops the members that are \<open>undefined\<close>; and the typed
  readings of a stored invoice and stored inputs that the replay uses (the casts of
  replay-audit-run.ts).
\<close>

section \<open>Writing\<close>

text \<open>An optional member.\<close>

definition opt_member :: "string \<Rightarrow> ('a \<Rightarrow> json) \<Rightarrow> 'a option \<Rightarrow> (string \<times> json) list" where
  "opt_member k f v = (case v of None \<Rightarrow> [] | Some x \<Rightarrow> [(k, f x)])"

definition null_or :: "('a \<Rightarrow> json) \<Rightarrow> 'a option \<Rightarrow> json" where
  "null_or f v = (case v of None \<Rightarrow> JNull | Some x \<Rightarrow> f x)"

definition strings_json :: "string list \<Rightarrow> json" where
  "strings_json xs = JArray (map JString xs)"

fun value_json :: "eval_value \<Rightarrow> json" where
  "value_json (VNumber v) = JObject [(''kind'', JString ''number''), (''value'', JString v)]"
| "value_json (VMoney a c) = JObject [(''kind'', JString ''money''), (''amount'', JString a), (''currency'', JString c)]"
| "value_json (VBool b) = JObject [(''kind'', JString ''bool''), (''value'', JBool b)]"
| "value_json (VString v) = JObject [(''kind'', JString ''string''), (''value'', JString v)]"
| "value_json (VUnassessable r) = JObject [(''kind'', JString ''unassessable''), (''reason'', JString r)]"

fun eval_json :: "eval_node \<Rightarrow> json" where
  "eval_json (EvalNode n v None) = JObject [(''node'', ast_json n), (''value'', value_json v)]"
| "eval_json (EvalNode n v (Some cs)) =
     JObject [(''node'', ast_json n), (''value'', value_json v), (''children'', JArray (map eval_json cs))]"

definition gate_failure_json :: "gate_failure \<Rightarrow> json" where
  "gate_failure_json g =
     JObject ([(''criterionKey'', JString (gf_criterion_key g)), (''defect'', JString (gf_defect g))]
              @ opt_member ''citation'' JString (gf_citation g)
              @ [(''evaluatedExpr'', eval_json (gf_evaluated_expr g))])"

fun result_name :: "finding_result \<Rightarrow> string" where
  "result_name CONFORMED = ''CONFORMED''"
| "result_name VARIANCE = ''VARIANCE''"
| "result_name RESULT_UNASSESSABLE = ''UNASSESSABLE''"

fun direction_name :: "finding_direction \<Rightarrow> string" where
  "direction_name OVERCHARGE = ''OVERCHARGE''"
| "direction_name UNDERCHARGE = ''UNDERCHARGE''"
| "direction_name INTEGRITY_ONLY = ''INTEGRITY_ONLY''"

definition finding_json :: "charge_finding \<Rightarrow> json" where
  "finding_json f =
     JObject [(''criterionKey'', JString (fi_criterion_key f)), (''result'', JString (result_name (fi_result f))),
              (''evaluatedExpr'', eval_json (fi_evaluated_expr f)), (''varianceAmount'', null_or JString (fi_variance_amount f)),
              (''currency'', null_or JString (fi_currency f)), (''direction'', JString (direction_name (fi_direction f)))]"

abbreviation count_json :: "nat \<Rightarrow> json" where
  "count_json n \<equiv> JNumber (JFin (of_nat n))"

definition scorecard_json :: "scorecard \<Rightarrow> json" where
  "scorecard_json s =
     JObject [(''conformedCount'', count_json (sc_conformed_count s)), (''varianceCount'', count_json (sc_variance_count s)),
              (''unassessableCount'', count_json (sc_unassessable_count s)),
              (''totalOvercharge'', JString (sc_total_overcharge s)), (''totalUndercharge'', JString (sc_total_undercharge s))]"

fun coverage_name :: "coverage_code \<Rightarrow> string" where
  "coverage_name INCOMPLETE_RATE_BASIS = ''INCOMPLETE_RATE_BASIS''"
| "coverage_name FUEL_WITHOUT_RATE_BASIS = ''FUEL_WITHOUT_RATE_BASIS''"
| "coverage_name MISSING_CHARGE_IDENTITY = ''MISSING_CHARGE_IDENTITY''"

definition marker_json :: "coverage_marker \<Rightarrow> json" where
  "marker_json m =
     JObject [(''code'', JString (coverage_name (cm_code m))), (''chargeIndex'', count_json (cm_charge_index m)),
              (''missingFields'', strings_json (cm_missing_fields m))]"

fun outcome_name :: "outcome \<Rightarrow> string" where
  "outcome_name REJECTED_REWORK = ''REJECTED_REWORK''"
| "outcome_name SCORED = ''SCORED''"

definition pins_json :: "audit_pins \<Rightarrow> json" where
  "pins_json p =
     JObject [(''parserVersion'', JString (pin_parser_version p)), (''engineSpecVersion'', JString (pin_engine_spec_version p)),
              (''rubricContentHash'', JString (pin_rubric_content_hash p))]"

definition result_json :: "audit_result \<Rightarrow> json" where
  "result_json r =
     JObject [(''outcome'', JString (outcome_name (ar_outcome r))),
              (''gateFailures'', JArray (map gate_failure_json (ar_gate_failures r))),
              (''findings'', JArray (map finding_json (ar_findings r))),
              (''scorecard'', null_or scorecard_json (ar_scorecard r)),
              (''coverageMarkers'', JArray (map marker_json (ar_coverage_markers r))),
              (''pins'', pins_json (ar_pins r))]"

fun set_name :: "transaction_set \<Rightarrow> string" where
  "set_name TS210 = ''210''"
| "set_name TS310 = ''310''"
| "set_name TSPdf = ''PDF''"

definition charge_json :: "normalized_charge \<Rightarrow> json" where
  "charge_json c =
     JObject (opt_member ''code'' JString (ch_code c) @ opt_member ''x12Element'' JString (ch_x12_element c)
              @ opt_member ''category'' JString (ch_category c) @ [(''quarantined'', JBool (ch_quarantined c))]
              @ opt_member ''amount'' JString (ch_amount c) @ [(''currency'', JString (ch_currency c))]
              @ opt_member ''basis'' JString (ch_basis c) @ opt_member ''rate'' JString (ch_rate c)
              @ opt_member ''rawDescription'' JString (ch_raw_description c) @ opt_member ''sourceLoop'' JString (ch_source_loop c))"

definition footing_json :: "footing_t \<Rightarrow> json" where
  "footing_json f = JObject (opt_member ''declaredTotal'' JString (declared_total f) @ [(''lineSum'', JString (line_sum f))])"

definition invoice_json :: "parsed_invoice \<Rightarrow> json" where
  "invoice_json iv =
     JObject ([(''transactionSet'', JString (set_name (inv_transaction_set iv))), (''parserVersion'', JString (inv_parser_version iv))]
              @ opt_member ''invoiceNumber'' JString (inv_invoice_number iv)
              @ opt_member ''shipmentReferences'' strings_json (inv_shipment_references iv)
              @ opt_member ''carrierCode'' JString (inv_carrier_code iv)
              @ opt_member ''containerNumbers'' strings_json (inv_container_numbers iv)
              @ opt_member ''vesselVoyage'' JString (inv_vessel_voyage iv)
              @ opt_member ''portCodes'' strings_json (inv_port_codes iv)
              @ opt_member ''headerCurrency'' JString (inv_header_currency iv)
              @ [(''charges'', JArray (map charge_json (inv_charges iv)))]
              @ opt_member ''footing'' footing_json (inv_footing iv)
              @ [(''quarantinedCodes'', strings_json (inv_quarantined_codes iv))])"

definition rate_json :: "contract_rate \<Rightarrow> json" where
  "rate_json r =
     JObject [(''amount'', JString (rate_amount r)), (''currency'', JString (rate_currency r)),
              (''clauseId'', null_or JString (rate_clause_id r))]"

text \<open>The resolved inputs of resolve-and-evaluate.ts, which never carry external resolutions.\<close>

definition inputs_json :: "contract_facts \<Rightarrow> json" where
  "inputs_json f =
     JObject (opt_member ''duplicateInvoice'' JBool (cf_duplicate_invoice f)
              @ opt_member ''shipmentReferenceMatch'' JBool (cf_shipment_reference_match f)
              @ opt_member ''linehaulRate'' (null_or rate_json) (cf_linehaul_rate f))"

section \<open>Reading\<close>

text \<open>The members of an object; \<open>None\<close> where the value is not of the type the cast claims.\<close>

fun members_of :: "json \<Rightarrow> (string \<times> json) list option" where
  "members_of (JObject ms) = Some ms"
| "members_of _ = None"

fun as_string :: "json \<Rightarrow> string option" where
  "as_string (JString s) = Some s"
| "as_string _ = None"

fun as_bool :: "json \<Rightarrow> bool option" where
  "as_bool (JBool b) = Some b"
| "as_bool _ = None"

fun as_list :: "(json \<Rightarrow> 'a option) \<Rightarrow> json \<Rightarrow> 'a list option" where
  "as_list f (JArray xs) = those (map f xs)"
| "as_list f _ = None"

text \<open>A required member, and one that may be missing.\<close>

definition need :: "(json \<Rightarrow> 'a option) \<Rightarrow> string \<Rightarrow> (string \<times> json) list \<Rightarrow> 'a option" where
  "need f k ms = (case map_of ms k of None \<Rightarrow> None | Some v \<Rightarrow> f v)"

definition may :: "(json \<Rightarrow> 'a option) \<Rightarrow> string \<Rightarrow> (string \<times> json) list \<Rightarrow> 'a option option" where
  "may f k ms = (case map_of ms k of None \<Rightarrow> Some None | Some v \<Rightarrow> map_option Some (f v))"

fun nullable :: "(json \<Rightarrow> 'a option) \<Rightarrow> json \<Rightarrow> 'a option option" where
  "nullable f JNull = Some None"
| "nullable f v = map_option Some (f v)"

fun set_of_name :: "json \<Rightarrow> transaction_set option" where
  "set_of_name (JString s) =
     (if s = ''210'' then Some TS210 else if s = ''310'' then Some TS310 else if s = ''PDF'' then Some TSPdf else None)"
| "set_of_name _ = None"

definition charge_of_json :: "json \<Rightarrow> normalized_charge option" where
  "charge_of_json j =
     Option.bind (members_of j) (\<lambda>ms.
     Option.bind (may as_string ''code'' ms) (\<lambda>code.
     Option.bind (may as_string ''x12Element'' ms) (\<lambda>x12.
     Option.bind (may as_string ''category'' ms) (\<lambda>category.
     Option.bind (need as_bool ''quarantined'' ms) (\<lambda>q.
     Option.bind (may as_string ''amount'' ms) (\<lambda>amount.
     Option.bind (need as_string ''currency'' ms) (\<lambda>currency.
     Option.bind (may as_string ''basis'' ms) (\<lambda>basis.
     Option.bind (may as_string ''rate'' ms) (\<lambda>rate.
     Option.bind (may as_string ''rawDescription'' ms) (\<lambda>d.
     Option.bind (may as_string ''sourceLoop'' ms) (\<lambda>l.
       Some \<lparr>ch_code = code, ch_x12_element = x12, ch_category = category, ch_quarantined = q, ch_amount = amount,
             ch_currency = currency, ch_basis = basis, ch_rate = rate, ch_raw_description = d, ch_source_loop = l\<rparr>)))))))))))"

definition footing_of_json :: "json \<Rightarrow> footing_t option" where
  "footing_of_json j =
     Option.bind (members_of j) (\<lambda>ms.
     Option.bind (may as_string ''declaredTotal'' ms) (\<lambda>d.
     Option.bind (need as_string ''lineSum'' ms) (\<lambda>l. Some \<lparr>declared_total = d, line_sum = l\<rparr>)))"

definition invoice_of_json :: "json \<Rightarrow> parsed_invoice option" where
  "invoice_of_json j =
     Option.bind (members_of j) (\<lambda>ms.
     Option.bind (need set_of_name ''transactionSet'' ms) (\<lambda>ts.
     Option.bind (need as_string ''parserVersion'' ms) (\<lambda>pv.
     Option.bind (may as_string ''invoiceNumber'' ms) (\<lambda>n.
     Option.bind (may (as_list as_string) ''shipmentReferences'' ms) (\<lambda>refs.
     Option.bind (may as_string ''carrierCode'' ms) (\<lambda>cc.
     Option.bind (may (as_list as_string) ''containerNumbers'' ms) (\<lambda>cns.
     Option.bind (may as_string ''vesselVoyage'' ms) (\<lambda>vv.
     Option.bind (may (as_list as_string) ''portCodes'' ms) (\<lambda>pcs.
     Option.bind (may as_string ''headerCurrency'' ms) (\<lambda>hc.
     Option.bind (need (as_list charge_of_json) ''charges'' ms) (\<lambda>chs.
     Option.bind (may footing_of_json ''footing'' ms) (\<lambda>ft.
     Option.bind (need (as_list as_string) ''quarantinedCodes'' ms) (\<lambda>qs.
       Some \<lparr>inv_transaction_set = ts, inv_parser_version = pv, inv_invoice_number = n, inv_shipment_references = refs,
             inv_carrier_code = cc, inv_container_numbers = cns, inv_vessel_voyage = vv, inv_port_codes = pcs,
             inv_header_currency = hc, inv_charges = chs, inv_footing = ft, inv_quarantined_codes = qs\<rparr>)))))))))))))"

definition rate_of_json :: "json \<Rightarrow> contract_rate option" where
  "rate_of_json j =
     Option.bind (members_of j) (\<lambda>ms.
     Option.bind (need as_string ''amount'' ms) (\<lambda>a.
     Option.bind (need as_string ''currency'' ms) (\<lambda>c.
     Option.bind (need (nullable as_string) ''clauseId'' ms) (\<lambda>cl.
       Some \<lparr>rate_amount = a, rate_currency = c, rate_clause_id = cl\<rparr>))))"

definition inputs_of_json :: "json \<Rightarrow> contract_facts option" where
  "inputs_of_json j =
     Option.bind (members_of j) (\<lambda>ms.
     Option.bind (may as_bool ''duplicateInvoice'' ms) (\<lambda>d.
     Option.bind (may as_bool ''shipmentReferenceMatch'' ms) (\<lambda>m.
     Option.bind (may (nullable rate_of_json) ''linehaulRate'' ms) (\<lambda>r.
       Some \<lparr>cf_linehaul_rate = r, cf_duplicate_invoice = d, cf_shipment_reference_match = m, cf_external_resolutions = []\<rparr>))))"

section \<open>What is written is read back\<close>

lemma map_of_skip:
  "k' \<noteq> k \<Longrightarrow> map_of (opt_member k f v @ ms) k' = map_of ms k'" "k' \<noteq> k \<Longrightarrow> map_of (opt_member k f v) k' = None"
  by (auto simp: opt_member_def split: option.splits)

lemma map_of_skip_may:
  "k' \<noteq> k \<Longrightarrow> may g k' (opt_member k f v) = Some None" "may g k' [] = Some None"
  by (simp_all add: may_def map_of_skip)

lemma reading_skip:
  "k' \<noteq> k \<Longrightarrow> may g k' (opt_member k f v @ ms) = may g k' ms" "k' \<noteq> k \<Longrightarrow> need g k' (opt_member k f v @ ms) = need g k' ms"
  "k' \<noteq> k \<Longrightarrow> may g k' ((k, x) # ms) = may g k' ms" "k' \<noteq> k \<Longrightarrow> need g k' ((k, x) # ms) = need g k' ms"
  by (auto simp: may_def need_def opt_member_def split: option.splits)

lemma reading_hit:
  assumes "\<And>x. g (f x) = Some x"
  shows "may g k ms = Some None \<Longrightarrow> may g k (opt_member k f v @ ms) = Some v" "may g k (opt_member k f v) = Some v"
  using assms by (auto simp: may_def opt_member_def split: option.splits)

lemma need_hit: "need g k ((k, x) # ms) = g x"
  by (simp add: need_def)

lemma those_map: "(\<And>x. x \<in> set xs \<Longrightarrow> f (g x) = Some x) \<Longrightarrow> those (map f (map g xs)) = Some xs"
  by (induction xs) auto

lemma strings_back [simp]: "as_list as_string (strings_json xs) = Some xs"
  using those_map [of xs as_string JString] by (simp add: strings_json_def)

lemma set_name_back [simp]: "set_of_name (JString (set_name t)) = Some t"
  by (cases t) simp_all

lemmas reading_simps = reading_skip reading_hit need_hit map_of_skip_may

lemma charge_back [simp]: "charge_of_json (charge_json c) = Some c"
  by (simp add: charge_of_json_def charge_json_def reading_simps)

lemma charges_back [simp]: "as_list charge_of_json (JArray (map charge_json cs)) = Some cs"
  using those_map [of cs charge_of_json charge_json] by simp

lemma footing_back [simp]: "footing_of_json (footing_json f) = Some f"
  by (simp add: footing_of_json_def footing_json_def reading_simps)

lemma invoice_back: "invoice_of_json (invoice_json iv) = Some iv"
  by (simp add: invoice_of_json_def invoice_json_def reading_simps del: as_list.simps set_of_name.simps)

lemma rate_back [simp]: "rate_of_json (rate_json r) = Some r"
  by (cases "rate_clause_id r") (simp_all add: rate_of_json_def rate_json_def reading_simps null_or_def)

lemma nullable_back: "nullable rate_of_json (null_or rate_json v) = Some v"
proof (cases v)
  case (Some r)
  have "nullable rate_of_json (rate_json r) = map_option Some (rate_of_json (rate_json r))" by (simp add: rate_json_def)
  then show ?thesis by (simp add: Some null_or_def)
qed (simp add: null_or_def)

lemma inputs_back: "cf_external_resolutions f = [] \<Longrightarrow> inputs_of_json (inputs_json f) = Some f"
  by (simp add: inputs_of_json_def inputs_json_def reading_simps nullable_back)

end
