(* ===== verification/Audit_Persistence.thy ===== *)
theory Audit_Persistence
  imports Payments Audit_Json
begin

text \<open>
  Storing an audit run (src/modules/evaluator/persist.ts with resolve-criterion-ids.ts and
  resolve-transport-evidence.ts, src/modules/audit-ledger/replay-manifest.ts). The seeded reference
  data is read only; the identifiers the database generates are given by table and position
  (\<open>fresh\<close>). An error rolls the transaction back, so a failing call has no state.
\<close>

section \<open>Reference data\<close>

record rule_version_ref =
  rvr_id :: uuid
  rvr_rule_id :: uuid
  rvr_clause_id :: "uuid option"
  rvr_recorded_at :: instant
  rvr_ast_hash :: string

record shipment_row =
  sh_id :: uuid
  sh_account_id :: uuid
  sh_transport_document_id :: "uuid option"
  sh_reference :: "string option"

record contract_rate_row =
  ra_contract_version_id :: uuid
  ra_category :: string
  ra_rate :: int
  ra_currency :: string
  ra_clause_id :: "uuid option"

record crosswalk_row =
  cx_carrier_id :: "uuid option"
  cx_source_code :: "string option"
  cx_source_pattern :: "string option"
  cx_category :: string
  cx_rank :: int
  cx_created_at :: instant

text \<open>
  The rows the tenant's transaction sees. Tables of two columns are lists of pairs, an identifier and
  what it stands for.
\<close>

record reference_db =
  rf_criteria :: "(string \<times> uuid) list"
  rf_rules :: "(uuid \<times> string) list"
  rf_rule_versions :: "rule_version_ref list"
  rf_clauses :: "(uuid \<times> uuid) list"
  rf_contract_versions :: "(uuid \<times> uuid option) list"
  rf_snapshots :: "(uuid \<times> string \<times> string) list"
  rf_shipments :: "shipment_row list"
  rf_rates :: "contract_rate_row list"
  rf_carriers :: "(uuid \<times> string option) list"
  rf_crosswalk :: "crosswalk_row list"

datatype persist_error =
    ShipmentNotFound uuid
  | TransportEvidenceNotFound uuid
  | AmountInvariantViolated
  | FindingReferenceNotFound string
  | PersistNumericOverflow
  | PersistCurrencyCheck
  | PersistDecimalError
  | ManifestZodError
  | ManifestConflict
  | PersistPaymentError payment_error

definition lift_payment :: "(payment_error, 'a) result \<Rightarrow> (persist_error, 'a) result" where
  "lift_payment r = (case r of Inl e \<Rightarrow> Inl (PersistPaymentError e) | Inr x \<Rightarrow> Inr x)"

section \<open>resolve-criterion-ids.ts, resolve-transport-evidence.ts\<close>

definition rule_slug :: "string \<Rightarrow> string" where
  "rule_slug key = map (\<lambda>c. if c = CHR ''.'' then CHR ''-'' else c) (js_to_lower key)"

text \<open>The criterion, the latest version of its rule, the clause and the document of the clause.\<close>

definition resolve_criterion_ids :: "reference_db \<Rightarrow> string \<Rightarrow> (uuid \<times> rule_version_ref \<times> uuid option) option" where
  "resolve_criterion_ids ref key =
     (case map_of (rf_criteria ref) key of
        None \<Rightarrow> None
      | Some cid \<Rightarrow>
          (case first_row (descending (by_int rvr_recorded_at))
                  (\<lambda>v. map_of (rf_rules ref) (rvr_rule_id v) = Some (rule_slug key)) (rf_rule_versions ref) of
             None \<Rightarrow> None
           | Some v \<Rightarrow>
               Some (cid, v,
                     Option.bind (rvr_clause_id v) (\<lambda>c. Option.bind (map_of (rf_clauses ref) c)
                       (\<lambda>cv. Option.bind (map_of (rf_contract_versions ref) cv) id)))))"

definition resolve_transport_evidence :: "reference_db \<Rightarrow> uuid \<Rightarrow> uuid option \<Rightarrow> (persist_error, uuid option) result" where
  "resolve_transport_evidence ref client shipment =
     (case shipment of
        None \<Rightarrow> Inr None
      | Some s \<Rightarrow>
          if s = [] then Inr None
          else (case find (\<lambda>r. sh_id r = s \<and> sh_account_id r = client) (rf_shipments ref) of
                  None \<Rightarrow> Inl (ShipmentNotFound s)
                | Some r \<Rightarrow>
                    (case sh_transport_document_id r of
                       None \<Rightarrow> Inl (TransportEvidenceNotFound s)
                     | Some d \<Rightarrow> Inr (Some d))))"

section \<open>persist.ts: the rows\<close>

record persist_input =
  pi_client_id :: uuid
  pi_carrier_id :: "uuid option"
  pi_shipment_id :: "uuid option"
  pi_invoice :: parsed_invoice
  pi_result :: audit_result
  pi_rubric_snapshot_id :: "uuid option"
  pi_source_documents :: "(uuid \<times> string) list"
  pi_contract_version_ids :: "uuid list"
  pi_resolved_inputs :: json

type_synonym fresh_ids = "string \<Rightarrow> nat \<Rightarrow> uuid"

text \<open>Writing text into a money column, and into one that may be null.\<close>

definition store_amount :: "string \<Rightarrow> (persist_error, int) result" where
  "store_amount s = (case store_numeric s of None \<Rightarrow> Inl PersistNumericOverflow | Some n \<Rightarrow> Inr n)"

definition store_optional :: "string option \<Rightarrow> (persist_error, int option) result" where
  "store_optional v = (case v of None \<Rightarrow> Inr None | Some s \<Rightarrow> rbind (store_amount s) (\<lambda>n. Inr (Some n)))"

definition check_currency :: "string option \<Rightarrow> (persist_error, unit) result" where
  "check_currency c = ensure (case c of None \<Rightarrow> True | Some x \<Rightarrow> currency_format x) PersistCurrencyCheck"

definition charge_row ::
  "fresh_ids \<Rightarrow> uuid \<Rightarrow> uuid \<Rightarrow> nat \<times> normalized_charge \<Rightarrow> (persist_error, charge_fact_row) result" where
  "charge_row fresh client invoice kc =
     (case kc of (k, c) \<Rightarrow>
        (case ch_amount c of
           None \<Rightarrow> Inl AmountInvariantViolated
         | Some a \<Rightarrow>
             rbind (store_amount a) (\<lambda>n.
             rbind (check_currency (Some (ch_currency c))) (\<lambda>_.
             rbind (store_optional (ch_basis c)) (\<lambda>basis.
             rbind (store_optional (ch_rate c)) (\<lambda>rate.
             Inr \<lparr>cf_id = fresh ''charge_fact'' k, cf_account_id = client, cf_invoice_id = invoice, cf_code = ch_code c,
                  cf_x12_element = ch_x12_element c, cf_category = ch_category c, cf_amount = n, cf_currency = ch_currency c,
                  cf_basis = basis, cf_rate = rate, cf_raw_description = ch_raw_description c,
                  cf_source_loop = ch_source_loop c\<rparr>))))))"

definition charge_rows ::
  "fresh_ids \<Rightarrow> uuid \<Rightarrow> uuid \<Rightarrow> audit_result \<Rightarrow> parsed_invoice \<Rightarrow> (persist_error, charge_fact_row list) result" where
  "charge_rows fresh client invoice r iv =
     (if ar_outcome r = SCORED then rtraverse (charge_row fresh client invoice) (enumerate 0 (inv_charges iv)) else Inr [])"

text \<open>The charges of a category that were not quarantined, by their row.\<close>

definition charge_ids_of :: "string \<Rightarrow> parsed_invoice \<Rightarrow> charge_fact_row list \<Rightarrow> uuid list" where
  "charge_ids_of category iv rows =
     map (\<lambda>(c, row). cf_id row)
       (filter (\<lambda>(c, row). ch_category c = Some category \<and> \<not> ch_quarantined c) (zip (inv_charges iv) rows))"

text \<open>The distinct elements in order of first occurrence, as a \<open>Set\<close> lists them.\<close>

definition js_unique :: "'a list \<Rightarrow> 'a list" where
  "js_unique xs = rev (remdups (rev xs))"

definition result_keys :: "audit_result \<Rightarrow> string list" where
  "result_keys r = js_unique (map gf_criterion_key (ar_gate_failures r) @ map fi_criterion_key (ar_findings r))"

definition resolve_keys ::
  "reference_db \<Rightarrow> string list \<Rightarrow> (persist_error, (string \<times> uuid \<times> rule_version_ref \<times> uuid option) list) result" where
  "resolve_keys ref keys =
     rtraverse (\<lambda>k. case resolve_criterion_ids ref k of None \<Rightarrow> Inl (FindingReferenceNotFound k) | Some x \<Rightarrow> Inr (k, x)) keys"

definition citation_of ::
  "(string \<times> uuid \<times> rule_version_ref \<times> uuid option) list \<Rightarrow> uuid option \<Rightarrow> string \<Rightarrow> (persist_error, citation_row) result" where
  "citation_of resolved transport key =
     (case map_of resolved key of
        None \<Rightarrow> Inl (FindingReferenceNotFound key)
      | Some (cid, v, doc) \<Rightarrow>
          Inr \<lparr>ct_criterion_id = cid, ct_rule_version_id = rvr_id v, ct_clause_id = rvr_clause_id v,
               ct_source_document_id = doc, ct_transport_document_id = transport\<rparr>)"

definition marker_row :: "fresh_ids \<Rightarrow> uuid \<Rightarrow> uuid \<Rightarrow> nat \<times> coverage_marker \<Rightarrow> coverage_marker_row" where
  "marker_row fresh client run km =
     (case km of (k, m) \<Rightarrow>
        \<lparr>mk_id = fresh ''coverage_marker'' k, mk_account_id = client, mk_audit_run_id = run, mk_charge_index = cm_charge_index m,
         mk_code = coverage_name (cm_code m), mk_missing_fields = cm_missing_fields m\<rparr>)"

definition gate_failure_row_of ::
  "fresh_ids \<Rightarrow> uuid \<Rightarrow> uuid \<Rightarrow> (string \<Rightarrow> (persist_error, citation_row) result) \<Rightarrow> nat \<times> gate_failure \<Rightarrow> (persist_error, gate_failure_row) result" where
  "gate_failure_row_of fresh client run cite kg =
     (case kg of (k, g) \<Rightarrow>
        rbind (cite (gf_criterion_key g)) (\<lambda>refs.
        Inr \<lparr>gfr_id = fresh ''gate_failure'' k, gfr_account_id = client, gfr_audit_run_id = run, gfr_refs = refs,
             gfr_defect = gf_defect g, gfr_citation = gf_citation g, gfr_evaluated_expr = eval_json (gf_evaluated_expr g)\<rparr>))"

definition charge_finding_row_of ::
  "fresh_ids \<Rightarrow> uuid \<Rightarrow> uuid \<Rightarrow> (string \<Rightarrow> (persist_error, citation_row) result) \<Rightarrow> nat \<times> charge_finding \<Rightarrow> (persist_error, charge_finding_row) result" where
  "charge_finding_row_of fresh client run cite kf =
     (case kf of (k, f) \<Rightarrow>
        rbind (cite (fi_criterion_key f)) (\<lambda>refs.
        Inr \<lparr>cg_id = fresh ''charge_finding'' k, cg_account_id = client, cg_audit_run_id = run, cg_refs = refs,
             cg_result = fi_result f, cg_evaluated_expr = eval_json (fi_evaluated_expr f)\<rparr>))"

text \<open>
  The finding an analyst works on: every observation that is not CONFORMED, attributed to a charge
  when exactly one charge of the category of the criterion contributed.
\<close>

definition attributed_charge :: "charge_finding \<Rightarrow> parsed_invoice \<Rightarrow> charge_fact_row list \<Rightarrow> uuid option" where
  "attributed_charge f iv rows =
     (let ids = (if fi_criterion_key f = ''CONTRACT.RATE_VARIANCE'' then charge_ids_of ''LINEHAUL'' iv rows else [])
      in case ids of [i] \<Rightarrow> Some i | _ \<Rightarrow> None)"

definition materiality_of :: "'d decimal_lib \<Rightarrow> string option \<Rightarrow> (persist_error, int option) result" where
  "materiality_of D v =
     (case v of
        None \<Rightarrow> Inr None
      | Some s \<Rightarrow> rbind (read_decimal PersistDecimalError D s) (\<lambda>d. store_optional (Some (dec_to_fixed D 4 (dec_abs D d)))))"

definition finding_row_of ::
  "'d decimal_lib \<Rightarrow> fresh_ids \<Rightarrow> uuid \<Rightarrow> uuid \<Rightarrow> (string \<Rightarrow> (persist_error, citation_row) result) \<Rightarrow> parsed_invoice
   \<Rightarrow> charge_fact_row list \<Rightarrow> nat \<times> charge_finding \<Rightarrow> (persist_error, finding_row) result" where
  "finding_row_of D fresh client run cite iv charges kf =
     (case kf of (k, f) \<Rightarrow>
        rbind (cite (fi_criterion_key f)) (\<lambda>refs.
        rbind (materiality_of D (fi_variance_amount f)) (\<lambda>m.
        rbind (store_optional (fi_variance_amount f)) (\<lambda>a.
        rbind (check_currency (fi_currency f)) (\<lambda>_.
        Inr \<lparr>fr_id = fresh ''variance_finding'' k, fr_account_id = client, fr_audit_run_id = run, fr_refs = refs,
             fr_charge_fact_id = attributed_charge f iv charges,
             fr_direction = (if fi_direction f = INTEGRITY_ONLY then None else Some (fi_direction f)),
             fr_materiality = m, fr_variance_amount = a, fr_currency = fi_currency f,
             fr_classification = (if fi_result f = RESULT_UNASSESSABLE then ''unassessable'' else ''variance''),
             fr_evaluated_expr = eval_json (fi_evaluated_expr f), fr_status = ''open''\<rparr>)))))"

definition scorecard_row_of ::
  "fresh_ids \<Rightarrow> uuid \<Rightarrow> uuid \<Rightarrow> string option \<Rightarrow> scorecard option \<Rightarrow> (persist_error, scorecard_row list) result" where
  "scorecard_row_of fresh client run currency sc =
     (case sc of
        None \<Rightarrow> Inr []
      | Some s \<Rightarrow>
          rbind (store_amount (sc_total_overcharge s)) (\<lambda>ov.
          rbind (store_amount (sc_total_undercharge s)) (\<lambda>un.
          rbind (check_currency currency) (\<lambda>_.
          Inr [\<lparr>sr_id = fresh ''scorecard'' 0, sr_account_id = client, sr_audit_run_id = run,
                sr_counts = (sc_conformed_count s, sc_variance_count s, sc_unassessable_count s),
                sr_total_overcharge = ov, sr_total_undercharge = un, sr_currency = currency\<rparr>]))))"

section \<open>replay-manifest.ts\<close>

definition is_sha256 :: "string \<Rightarrow> bool" where
  "is_sha256 s \<longleftrightarrow> length s = 64 \<and> list_all (\<lambda>c. is_digit c \<or> (let n = (of_char c :: int) in 97 \<le> n \<and> n \<le> 102)) s"

definition pin_ok :: "uuid \<times> string option \<Rightarrow> bool" where
  "pin_ok p \<longleftrightarrow> isUuid (fst p) \<and> (case snd p of None \<Rightarrow> True | Some h \<Rightarrow> is_sha256 h)"

text \<open>\<open>AuditReplayManifestSchema\<close>; the JSON members hold no number that is not finite.\<close>

definition manifest_ok :: "replay_manifest \<Rightarrow> bool" where
  "manifest_ok m \<longleftrightarrow>
     isUuid (mn_audit_run_id m) \<and> isUuid (mn_client_id m) \<and> mn_engine_spec_version m \<noteq> [] \<and>
     fst (mn_parser m) \<noteq> [] \<and> snd (mn_parser m) \<noteq> [] \<and>
     list_all (\<lambda>(i, h). isUuid i \<and> is_sha256 h) (mn_source_documents m) \<and>
     (case mn_rubric m of (i, h, _) \<Rightarrow>
        (case i of None \<Rightarrow> True | Some s \<Rightarrow> isUuid s) \<and> (case h of None \<Rightarrow> True | Some s \<Rightarrow> is_sha256 s)) \<and>
     list_all pin_ok (mn_rule_versions m) \<and> list_all pin_ok (mn_contract_versions m) \<and>
     finite_json (mn_resolved_inputs m) \<and> finite_json (mn_invoice m) \<and> finite_json (mn_result m)"

definition pin_json :: "uuid \<times> string option \<Rightarrow> json" where
  "pin_json p = JObject ((''id'', JString (fst p)) # opt_member ''contentHash'' JString (snd p))"

definition manifest_json :: "replay_manifest \<Rightarrow> json" where
  "manifest_json m =
     JObject [(''schemaVersion'', JNumber (JFin 1)), (''auditRunId'', JString (mn_audit_run_id m)),
              (''clientId'', JString (mn_client_id m)), (''engineSpecVersion'', JString (mn_engine_spec_version m)),
              (''parser'', JObject [(''transactionSet'', JString (fst (mn_parser m))), (''version'', JString (snd (mn_parser m)))]),
              (''sourceDocuments'', JArray (map (\<lambda>(i, h). JObject [(''id'', JString i), (''sha256'', JString h)]) (mn_source_documents m))),
              (''rubric'', (case mn_rubric m of (i, h, v) \<Rightarrow>
                 JObject [(''snapshotId'', null_or JString i), (''contentHash'', null_or JString h), (''resolverVersion'', null_or JString v)])),
              (''ruleVersions'', JArray (map pin_json (mn_rule_versions m))),
              (''contractVersions'', JArray (map pin_json (mn_contract_versions m))),
              (''externalValues'', JArray []), (''crosswalkRows'', JArray []), (''ai'', JArray []),
              (''resolvedInputs'', mn_resolved_inputs m), (''invoice'', mn_invoice m), (''result'', mn_result m)]"

definition replay_manifest_hash :: "runtime \<Rightarrow> replay_manifest \<Rightarrow> string option" where
  "replay_manifest_hash rt m =
     (if manifest_ok m then Some (rt_sha256_hex rt (canonical_json (rt_number_string rt) (manifest_json m))) else None)"

section \<open>persist.ts: the run\<close>

definition rule_pins :: "reference_db \<Rightarrow> uuid list \<Rightarrow> (uuid \<times> string option) list" where
  "rule_pins ref ids =
     map (\<lambda>v. (rvr_id v, Some (rvr_ast_hash v)))
       (js_sort (by_text rvr_id) (filter (\<lambda>v. rvr_id v \<in> set ids) (rf_rule_versions ref)))"

definition document_hash :: "audit_db \<Rightarrow> uuid \<Rightarrow> string option" where
  "document_hash db i = map_option sd_sha256 (find (\<lambda>d. sd_id d = i) (ad_documents db))"

definition contract_hash :: "audit_db \<Rightarrow> uuid option \<Rightarrow> string option" where
  "contract_hash db doc = Option.bind doc (document_hash db)"

text \<open>An empty hash is falsy and leaves the pin without one.\<close>

definition contract_pins :: "reference_db \<Rightarrow> audit_db \<Rightarrow> uuid list \<Rightarrow> (uuid \<times> string option) list" where
  "contract_pins ref db ids =
     map (\<lambda>(i, doc). (i, case contract_hash db doc of None \<Rightarrow> None | Some h \<Rightarrow> if h = [] then None else Some h))
       (js_sort (by_text fst) (filter (\<lambda>(i, _). i \<in> set ids) (rf_contract_versions ref)))"

definition manifest_of ::
  "reference_db \<Rightarrow> audit_db \<Rightarrow> uuid \<Rightarrow> (string \<times> uuid \<times> rule_version_ref \<times> uuid option) list \<Rightarrow> persist_input \<Rightarrow> replay_manifest" where
  "manifest_of ref db run resolved i =
     \<lparr>mn_audit_run_id = run, mn_client_id = pi_client_id i,
      mn_engine_spec_version = pin_engine_spec_version (ar_pins (pi_result i)),
      mn_parser = (set_name (inv_transaction_set (pi_invoice i)), inv_parser_version (pi_invoice i)),
      mn_source_documents = pi_source_documents i,
      mn_rubric = (pi_rubric_snapshot_id i,
        map_option fst (Option.bind (pi_rubric_snapshot_id i) (map_of (rf_snapshots ref))),
        map_option snd (Option.bind (pi_rubric_snapshot_id i) (map_of (rf_snapshots ref)))),
      mn_rule_versions = rule_pins ref (map (\<lambda>(_, _, v, _). rvr_id v) resolved),
      mn_contract_versions = contract_pins ref db (pi_contract_version_ids i),
      mn_resolved_inputs = pi_resolved_inputs i, mn_invoice = invoice_json (pi_invoice i), mn_result = result_json (pi_result i)\<rparr>"

definition insert_manifest :: "runtime \<Rightarrow> replay_manifest \<Rightarrow> audit_db \<Rightarrow> (persist_error, audit_db \<times> string) result" where
  "insert_manifest rt m db =
     (case replay_manifest_hash rt m of
        None \<Rightarrow> Inl ManifestZodError
      | Some h \<Rightarrow>
          rbind (ensure (\<not> list_ex (\<lambda>r. mf_account_id r = mn_client_id m \<and>
                           (mf_audit_run_id r = mn_audit_run_id m \<or> mf_content_hash r = h)) (ad_manifests db)) ManifestConflict) (\<lambda>_.
          Inr (db\<lparr>ad_manifests := ad_manifests db @
                 [\<lparr>mf_account_id = mn_client_id m, mf_audit_run_id = mn_audit_run_id m, mf_content_hash = h, mf_manifest = m\<rparr>]\<rparr>, h)))"

definition evaluation_event :: "runtime \<Rightarrow> uuid \<Rightarrow> persist_input \<Rightarrow> uuid option \<Rightarrow> string \<Rightarrow> audit_event" where
  "evaluation_event rt run i scorecard_id h =
     (system_event rt (pi_client_id i) ''audit_run'' run ''evaluation.completed'' [pi_client_id i, run, ''evaluation.completed'']
        [(''outcome'', JString (outcome_name (ar_outcome (pi_result i)))),
         (''engineSpecVersion'', JString (pin_engine_spec_version (ar_pins (pi_result i)))),
         (''gateFailureCount'', count_json (length (ar_gate_failures (pi_result i)))),
         (''findingCount'', count_json (length (ar_findings (pi_result i)))),
         (''scorecardId'', null_or JString scorecard_id), (''replayManifestHash'', JString h)])
       \<lparr>ae_rubric_snapshot_id := pi_rubric_snapshot_id i\<rparr>"

text \<open>The default decision of a stored run: hold a scored invoice, refuse a rejected one.\<close>

definition gate_payment ::
  "runtime \<Rightarrow> zod_lib \<Rightarrow> uuid \<Rightarrow> instant \<Rightarrow> uuid \<Rightarrow> uuid \<Rightarrow> outcome \<Rightarrow> audit_db \<Rightarrow> (persist_error, audit_db) result" where
  "gate_payment rt Z new_id now client run outc db =
     (if outc = SCORED then
        lift_payment (rbind (generate_hold_decision rt Z new_id now [] client run
          (Some (case find (\<lambda>p. pp_account_id p = client) (ad_policies db) of
                   None \<Rightarrow> DEFAULT_HOLD_THEN_APPROVE | Some p \<Rightarrow> pp_hold_then_approve p)) db) (\<lambda>(db', _). Inr db'))
      else lift_payment (rbind (generate_do_not_pay_decision rt Z new_id now [] client run db) (\<lambda>(db', _). Inr db')))"

record persisted_run =
  pr_invoice_id :: uuid
  pr_audit_run_id :: uuid
  pr_gate_failure_ids :: "uuid list"
  pr_charge_finding_ids :: "uuid list"
  pr_coverage_marker_ids :: "uuid list"
  pr_scorecard_id :: "uuid option"

text \<open>The invoice, its charges, the run, the coverage markers and the gate failures.\<close>

definition store_run ::
  "fresh_ids \<Rightarrow> persist_input \<Rightarrow> charge_fact_row list \<Rightarrow> gate_failure_row list \<Rightarrow> audit_db \<Rightarrow> audit_db" where
  "store_run fresh i charges failures db =
     (let client = pi_client_id i; iv = pi_invoice i; r = pi_result i in
      db\<lparr>ad_invoices := ad_invoices db @
           [\<lparr>iv_id = fresh ''invoice'' 0, iv_account_id = client, iv_shipment_id = pi_shipment_id i, iv_carrier_id = pi_carrier_id i,
             iv_transaction_set = inv_transaction_set iv, iv_invoice_number = inv_invoice_number iv,
             iv_currency = inv_header_currency iv, iv_parser_version = inv_parser_version iv\<rparr>],
         ad_charge_facts := ad_charge_facts db @ charges,
         ad_runs := ad_runs db @
           [\<lparr>run_id = fresh ''audit_run'' 0, run_account_id = client, run_invoice_id = fresh ''invoice'' 0,
             run_rubric_snapshot_id = pi_rubric_snapshot_id i, run_engine_spec_version = pin_engine_spec_version (ar_pins r),
             run_outcome = ar_outcome r\<rparr>],
         ad_markers := ad_markers db @ map (marker_row fresh client (fresh ''audit_run'' 0)) (enumerate 0 (ar_coverage_markers r)),
         ad_gate_failures := ad_gate_failures db @ failures\<rparr>)"

text \<open>The observations, the findings and the scorecard.\<close>

definition store_findings ::
  "charge_finding_row list \<Rightarrow> finding_row list \<Rightarrow> scorecard_row list \<Rightarrow> audit_db \<Rightarrow> audit_db" where
  "store_findings observations found cards db =
     db\<lparr>ad_charge_findings := ad_charge_findings db @ observations, ad_findings := ad_findings db @ found,
        ad_scorecards := ad_scorecards db @ cards\<rparr>"

definition run_summary :: "fresh_ids \<Rightarrow> persist_input \<Rightarrow> gate_failure_row list \<Rightarrow> charge_finding_row list \<Rightarrow> scorecard_row list \<Rightarrow> persisted_run" where
  "run_summary fresh i failures observations cards =
     \<lparr>pr_invoice_id = fresh ''invoice'' 0, pr_audit_run_id = fresh ''audit_run'' 0, pr_gate_failure_ids = map gfr_id failures,
      pr_charge_finding_ids = map cg_id observations,
      pr_coverage_marker_ids = map (\<lambda>k. fresh ''coverage_marker'' k) [0..<length (ar_coverage_markers (pi_result i))],
      pr_scorecard_id = (case cards of [] \<Rightarrow> None | c # _ \<Rightarrow> Some (sr_id c))\<rparr>"

definition persist_audit_run ::
  "'d decimal_lib \<Rightarrow> runtime \<Rightarrow> zod_lib \<Rightarrow> fresh_ids \<Rightarrow> instant \<Rightarrow> reference_db \<Rightarrow> persist_input \<Rightarrow> audit_db
   \<Rightarrow> (persist_error, audit_db \<times> persisted_run) result" where
  "persist_audit_run D rt Z fresh now ref i db0 =
     (let client = pi_client_id i; iv = pi_invoice i; r = pi_result i; run = fresh ''audit_run'' 0 in
      rbind (resolve_transport_evidence ref client (pi_shipment_id i)) (\<lambda>transport.
      rbind (check_currency (inv_header_currency iv)) (\<lambda>_.
      rbind (charge_rows fresh client (fresh ''invoice'' 0) r iv) (\<lambda>charges.
      rbind (resolve_keys ref (result_keys r)) (\<lambda>resolved.
      let cite = citation_of resolved transport in
      rbind (rtraverse (gate_failure_row_of fresh client run cite) (enumerate 0 (ar_gate_failures r))) (\<lambda>failures.
      rbind (gate_payment rt Z (fresh ''payment_gate_decision'' 0) now client run (ar_outcome r) (store_run fresh i charges failures db0)) (\<lambda>db2.
      rbind (rtraverse (charge_finding_row_of fresh client run cite) (enumerate 0 (ar_findings r))) (\<lambda>observations.
      rbind (rtraverse (finding_row_of D fresh client run cite iv charges)
               (filter (\<lambda>(_, f). fi_result f \<noteq> CONFORMED) (enumerate 0 (ar_findings r)))) (\<lambda>found.
      rbind (scorecard_row_of fresh client run (inv_header_currency iv) (ar_scorecard r)) (\<lambda>cards.
      let db3 = store_findings observations found cards db2; summary = run_summary fresh i failures observations cards in
      rbind (insert_manifest rt (manifest_of ref db3 run resolved i) db3) (\<lambda>(db4, h).
      rbind (lift_payment (write_db_event now (evaluation_event rt run i (pr_scorecard_id summary) h) db4)) (\<lambda>(db5, _).
      Inr (db5, summary)))))))))))))"

end
