(* ===== verification/Invoice_Ingestion.thy ===== *)
theory Invoice_Ingestion
  imports Audit_Persistence
begin

text \<open>
  From raw EDI bytes to a stored audit run (src/modules/ingestion: ingest-invoice.ts,
  resolve-and-evaluate.ts, duplicate-invoice.ts, shipment-reference.ts; src/modules/rate-engine:
  rate-lookup.ts; src/modules/reference-data: crosswalk.ts, source-document.ts), and the replay of a
  stored run (src/modules/audit-ledger/replay-audit-run.ts). The object store, UTF-8 decoding and
  the regular expressions of PostgreSQL are parameters.
\<close>

record ingest_lib =
  il_put :: "string \<Rightarrow> string \<times> string \<times> nat"
  il_utf8 :: "string \<Rightarrow> string"
  il_matches :: "string \<Rightarrow> string \<Rightarrow> bool"

datatype ingest_failure =
    UnparseableEdiError
  | EvaluationThrew eval_error
  | IngestPersistError persist_error
  | SourceDocumentConflict

section \<open>source-document.ts\<close>

definition store_source_document ::
  "ingest_lib \<Rightarrow> uuid \<Rightarrow> uuid \<Rightarrow> string \<Rightarrow> string option \<Rightarrow> audit_db \<Rightarrow> (ingest_failure, audit_db \<times> uuid \<times> string) result" where
  "store_source_document L new_id client bytes content_type db =
     (case il_put L bytes of (sha256, uri, byte_size) \<Rightarrow>
        (let (rows, created) =
               insert_row (\<lambda>a b. sql_eq (sd_account_id b) (sd_account_id a) \<and> sd_sha256 b = sd_sha256 a)
                 \<lparr>sd_id = new_id, sd_account_id = Some client, sd_sha256 = sha256, sd_content_type = content_type,
                  sd_byte_size = byte_size, sd_storage_uri = uri\<rparr> (ad_documents db)
         in if created then Inr (db\<lparr>ad_documents := rows\<rparr>, new_id, sha256)
            else (case find (\<lambda>d. sd_account_id d = Some client \<and> sd_sha256 d = sha256) (ad_documents db) of
                    None \<Rightarrow> Inl SourceDocumentConflict
                  | Some d \<Rightarrow> Inr (db, sd_id d, sha256))))"

section \<open>crosswalk.ts\<close>

definition resolve_charge_code :: "ingest_lib \<Rightarrow> reference_db \<Rightarrow> uuid option \<Rightarrow> string \<Rightarrow> string option" where
  "resolve_charge_code L ref carrier code =
     map_option cx_category
       (first_row (lex (descending (by_int cx_rank)) (descending (by_int cx_created_at)))
          (\<lambda>r. (sql_eq (cx_carrier_id r) carrier \<or> cx_carrier_id r = None) \<and>
               (cx_source_code r = Some code \<or> (case cx_source_pattern r of None \<Rightarrow> False | Some p \<Rightarrow> il_matches L code p)))
          (rf_crosswalk ref))"

section \<open>ingest-invoice.ts: detection and categories\<close>

definition detect_transaction_set :: "string \<Rightarrow> (ingest_failure, transaction_set) result" where
  "detect_transaction_set raw =
     (case parse_x12 raw of
        Inl _ \<Rightarrow> Inl UnparseableEdiError
      | Inr ix \<Rightarrow>
          (let st01 = el (first_segment ix ''ST'') 1
           in if st01 = Some ''210'' then Inr TS210
              else if st01 = Some ''310'' then Inr TS310
              else Inl UnparseableEdiError))"

definition document_carrier :: "reference_db \<Rightarrow> x12_interchange \<Rightarrow> transaction_set \<Rightarrow> uuid option" where
  "document_carrier ref ix ts =
     (case (if ts = TS210 then el (first_segment ix ''B3'') 11 else None) of
        None \<Rightarrow> None
      | Some scac \<Rightarrow> map_option fst (find (\<lambda>(_, s). s = Some (js_trim scac)) (rf_carriers ref)))"

text \<open>The synchronous callback: the codes of the document, resolved beforehand.\<close>

definition resolve_categorizer :: "ingest_lib \<Rightarrow> reference_db \<Rightarrow> string \<Rightarrow> transaction_set \<Rightarrow> (ingest_failure, categorize) result" where
  "resolve_categorizer L ref raw ts =
     (case parse_x12 raw of
        Inl _ \<Rightarrow> Inl UnparseableEdiError
      | Inr ix \<Rightarrow>
          (let carrier = document_carrier ref ix ts;
               codes = js_unique (List.map_filter (\<lambda>l1. el (Some l1) 8) (segments_by_tag ix ''L1''));
               table = map (\<lambda>c. (c, resolve_charge_code L ref carrier c)) codes
           in Inr (\<lambda>code. case code of None \<Rightarrow> None | Some c \<Rightarrow> Option.bind (map_of table c) id)))"

section \<open>duplicate-invoice.ts, shipment-reference.ts, rate-lookup.ts\<close>

text \<open>\<open>btrim\<close> of PostgreSQL removes spaces only.\<close>

definition pg_btrim :: "string \<Rightarrow> string" where
  "pg_btrim s = rev (dropWhile (\<lambda>c. c = CHR '' '') (rev (dropWhile (\<lambda>c. c = CHR '' '') s)))"

definition detect_duplicate_invoice :: "uuid \<Rightarrow> string option \<Rightarrow> transaction_set \<Rightarrow> audit_db \<Rightarrow> bool option" where
  "detect_duplicate_invoice client number ts db =
     (case map_option js_trim number of
        None \<Rightarrow> None
      | Some n \<Rightarrow>
          if n = [] then None
          else Some (list_ex (\<lambda>iv. iv_account_id iv = client \<and> iv_transaction_set iv = ts \<and>
                       (case iv_invoice_number iv of None \<Rightarrow> False | Some m \<Rightarrow> js_to_lower (pg_btrim m) = js_to_lower n)) (ad_invoices db)))"

definition resolve_shipment_reference_match :: "reference_db \<Rightarrow> uuid \<Rightarrow> string list option \<Rightarrow> bool option" where
  "resolve_shipment_reference_match ref client references =
     (let normalized = js_unique (filter (\<lambda>s. s \<noteq> [])
            (map (\<lambda>s. js_to_lower (js_trim s)) (case references of None \<Rightarrow> [] | Some rs \<Rightarrow> rs)))
      in if normalized = [] then None
         else Some (list_ex (\<lambda>s. sh_account_id s = client \<and>
                      (case sh_reference s of None \<Rightarrow> False | Some r \<Rightarrow> js_to_lower (pg_btrim r) \<in> set normalized)) (rf_shipments ref)))"

definition lookup_contract_rate :: "reference_db \<Rightarrow> uuid \<Rightarrow> string \<Rightarrow> contract_rate option" where
  "lookup_contract_rate ref version category =
     map_option (\<lambda>r. \<lparr>rate_amount = numeric_text (ra_rate r), rate_currency = ra_currency r, rate_clause_id = ra_clause_id r\<rparr>)
       (find (\<lambda>r. ra_contract_version_id r = version \<and> ra_category r = category) (rf_rates ref))"

section \<open>resolve-and-evaluate.ts\<close>

definition with_contract :: "uuid option \<Rightarrow> uuid option" where
  "with_contract v = (case v of None \<Rightarrow> None | Some s \<Rightarrow> if s = [] then None else Some s)"

definition resolve_inputs :: "reference_db \<Rightarrow> uuid \<Rightarrow> parsed_invoice \<Rightarrow> uuid option \<Rightarrow> audit_db \<Rightarrow> contract_facts" where
  "resolve_inputs ref client iv version db =
     \<lparr>cf_linehaul_rate = map_option (\<lambda>v. lookup_contract_rate ref v ''LINEHAUL'') (with_contract version),
      cf_duplicate_invoice = detect_duplicate_invoice client (inv_invoice_number iv) (inv_transaction_set iv) db,
      cf_shipment_reference_match = resolve_shipment_reference_match ref client (inv_shipment_references iv),
      cf_external_resolutions = []\<rparr>"

definition resolve_and_evaluate ::
  "'d decimal_lib \<Rightarrow> runtime \<Rightarrow> reference_db \<Rightarrow> uuid \<Rightarrow> parsed_invoice \<Rightarrow> uuid option \<Rightarrow> audit_db
   \<Rightarrow> (ingest_failure, audit_result \<times> json) result" where
  "resolve_and_evaluate D rt ref client iv version db =
     (let inputs = resolve_inputs ref client iv version db
      in case evaluate_invoice D rt iv (if with_contract version = None then STANDARD_RUBRIC else CONTRACT_RUBRIC) (Some inputs) of
           Inl e \<Rightarrow> Inl (EvaluationThrew e)
         | Inr r \<Rightarrow> Inr (r, inputs_json inputs))"

section \<open>ingest-invoice.ts: the pipeline\<close>

record ingest_input =
  ig_client_id :: uuid
  ig_bytes :: string
  ig_content_type :: "string option"
  ig_contract_version_id :: "uuid option"

definition lift_ingest :: "(persist_error, 'a) result \<Rightarrow> (ingest_failure, 'a) result" where
  "lift_ingest r = (case r of Inl e \<Rightarrow> Inl (IngestPersistError e) | Inr x \<Rightarrow> Inr x)"

definition source_stored_event :: "runtime \<Rightarrow> uuid \<Rightarrow> uuid \<Rightarrow> string option \<Rightarrow> string \<Rightarrow> audit_event" where
  "source_stored_event rt client doc content_type sha256 =
     system_event rt client ''source_document'' doc ''ingestion.source_stored'' [client, doc, ''ingestion.source_stored'']
       [(''contentType'', null_or JString content_type), (''sha256'', JString sha256)]"

definition audit_created_event :: "runtime \<Rightarrow> uuid \<Rightarrow> persisted_run \<Rightarrow> outcome \<Rightarrow> transaction_set \<Rightarrow> audit_event" where
  "audit_created_event rt client p outc ts =
     system_event rt client ''audit_run'' (pr_audit_run_id p) ''ingestion.audit_created'' [client, pr_audit_run_id p, ''ingestion.audit_created'']
       [(''invoiceId'', JString (pr_invoice_id p)), (''outcome'', JString (outcome_name outc)), (''transactionSet'', JString (set_name ts))]"

definition parse_invoice :: "'d decimal_lib \<Rightarrow> transaction_set \<Rightarrow> string \<Rightarrow> categorize \<Rightarrow> (ingest_failure, parsed_invoice) result" where
  "parse_invoice D ts raw categorize =
     (case (if ts = TS210 then parse210 D raw categorize else parse310 D raw categorize) of
        Inl _ \<Rightarrow> Inl UnparseableEdiError
      | Inr iv \<Rightarrow> Inr iv)"

definition ingest_persist_input :: "ingest_input \<Rightarrow> parsed_invoice \<Rightarrow> uuid \<times> string \<Rightarrow> audit_result \<times> json \<Rightarrow> persist_input" where
  "ingest_persist_input i iv doc rj =
     \<lparr>pi_client_id = ig_client_id i, pi_carrier_id = None, pi_shipment_id = None, pi_invoice = iv, pi_result = fst rj,
      pi_rubric_snapshot_id = None, pi_source_documents = [doc],
      pi_contract_version_ids = (case with_contract (ig_contract_version_id i) of None \<Rightarrow> [] | Some v \<Rightarrow> [v]),
      pi_resolved_inputs = snd rj\<rparr>"

definition ingest_invoice ::
  "'d decimal_lib \<Rightarrow> runtime \<Rightarrow> zod_lib \<Rightarrow> ingest_lib \<Rightarrow> fresh_ids \<Rightarrow> instant \<Rightarrow> reference_db \<Rightarrow> ingest_input \<Rightarrow> audit_db
   \<Rightarrow> (ingest_failure, audit_db \<times> uuid \<times> uuid \<times> outcome) result" where
  "ingest_invoice D rt Z L fresh now ref i db0 =
     (let raw = il_utf8 L (ig_bytes i); client = ig_client_id i in
      rbind (store_source_document L (fresh ''source_document'' 0) client (ig_bytes i) (ig_content_type i) db0) (\<lambda>(db1, doc, sha256).
      rbind (lift_ingest (lift_payment (write_db_event now (source_stored_event rt client doc (ig_content_type i) sha256) db1))) (\<lambda>(db2, _).
      rbind (detect_transaction_set raw) (\<lambda>ts.
      rbind (resolve_categorizer L ref raw ts) (\<lambda>categorize.
      rbind (parse_invoice D ts raw categorize) (\<lambda>iv.
      rbind (resolve_and_evaluate D rt ref client iv (ig_contract_version_id i) db2) (\<lambda>rj.
      rbind (lift_ingest (persist_audit_run D rt Z fresh now ref (ingest_persist_input i iv (doc, sha256) rj) db2)) (\<lambda>(db3, p).
      rbind (lift_ingest (lift_payment (write_db_event now (audit_created_event rt client p (ar_outcome (fst rj)) ts) db3))) (\<lambda>(db4, _).
      Inr (db4, pr_audit_run_id p, pr_invoice_id p, ar_outcome (fst rj)))))))))))"

section \<open>replay-audit-run.ts\<close>

datatype replay_error =
    ReplayNotFoundError
  | ReplayIntegrityError string
  | ReplayUnavailableError string
  | ReplayThrew eval_error
  | ReplayAuditError payment_error

definition verify_pins :: "reference_db \<Rightarrow> audit_db \<Rightarrow> replay_manifest \<Rightarrow> (replay_error, unit) result" where
  "verify_pins ref db m =
     rbind (ensure (list_all (\<lambda>(i, h). document_hash db i = Some h) (mn_source_documents m))
              (ReplayIntegrityError ''source document pin mismatch'')) (\<lambda>_.
     rbind (ensure (list_all (\<lambda>(i, h). case find (\<lambda>v. rvr_id v = i) (rf_rule_versions ref) of
                       None \<Rightarrow> False | Some v \<Rightarrow> (case h of None \<Rightarrow> True | Some x \<Rightarrow> x = [] \<or> rvr_ast_hash v = x)) (mn_rule_versions m))
              (ReplayIntegrityError ''rule version pin mismatch'')) (\<lambda>_.
     ensure (list_all (\<lambda>(i, h). case h of None \<Rightarrow> True
                       | Some x \<Rightarrow> x = [] \<or> Option.bind (map_of (rf_contract_versions ref) i) (contract_hash db) = Some x) (mn_contract_versions m))
              (ReplayIntegrityError ''contract version pin mismatch'')))"

record replay_result =
  rr_manifest_hash :: string
  rr_original_result_hash :: string
  rr_result_hash :: string
  rr_result :: audit_result

definition replay_event :: "runtime \<Rightarrow> replay_manifest \<Rightarrow> uuid \<Rightarrow> string \<Rightarrow> string \<Rightarrow> string \<Rightarrow> audit_event" where
  "replay_event rt m run manifest_hash original h =
     system_event rt (mn_client_id m) ''audit_run'' run ''replay.executed'' [mn_client_id m, run, h, ''replay.executed'']
       [(''manifestHash'', JString manifest_hash), (''originalResultHash'', JString original), (''resultHash'', JString h),
        (''byteIdentical'', JBool True)]"

text \<open>
  The stored invoice and inputs are read through their casts; a document of another shape is
  outside the model and counted as an integrity failure.
\<close>

definition replay_evaluation :: "'d decimal_lib \<Rightarrow> runtime \<Rightarrow> replay_manifest \<Rightarrow> (replay_error, audit_result) result" where
  "replay_evaluation D rt m =
     (case (invoice_of_json (mn_invoice m), inputs_of_json (mn_resolved_inputs m)) of
        (Some iv, Some inputs) \<Rightarrow>
          (case evaluate_invoice D rt iv (if mn_contract_versions m \<noteq> [] then CONTRACT_RUBRIC else STANDARD_RUBRIC) (Some inputs) of
             Inl e \<Rightarrow> Inl (ReplayThrew e)
           | Inr r \<Rightarrow> Inr r)
      | _ \<Rightarrow> Inl (ReplayIntegrityError ''stored documents have another shape''))"

definition replay_audit_run ::
  "'d decimal_lib \<Rightarrow> runtime \<Rightarrow> instant \<Rightarrow> reference_db \<Rightarrow> uuid \<Rightarrow> audit_db \<Rightarrow> (replay_error, audit_db \<times> replay_result) result" where
  "replay_audit_run D rt now ref run db =
     (case find (\<lambda>r. mf_audit_run_id r = run) (ad_manifests db) of
        None \<Rightarrow> Inl ReplayNotFoundError
      | Some row \<Rightarrow>
          (let m = mf_manifest row; canon = (\<lambda>r. canonical_json (rt_number_string rt) r); sha = rt_sha256_hex rt in
           rbind (ensure (manifest_ok m) (ReplayIntegrityError ''stored replay manifest is invalid'')) (\<lambda>_.
           rbind (ensure (mn_audit_run_id m = run \<and> replay_manifest_hash rt m = Some (mf_content_hash row))
                    (ReplayIntegrityError ''replay manifest hash mismatch'')) (\<lambda>_.
           rbind (verify_pins ref db m) (\<lambda>_.
           rbind (ensure (mn_engine_spec_version m = ENGINE_SPEC_VERSION) (ReplayUnavailableError ''pinned engine version is not installed'')) (\<lambda>_.
           rbind (ensure (fst (mn_rubric m) = None) (ReplayUnavailableError ''custom rubric snapshot replay is not installed'')) (\<lambda>_.
           rbind (replay_evaluation D rt m) (\<lambda>r.
           rbind (ensure (canon (result_json r) = canon (mn_result m))
                    (ReplayIntegrityError ''replay result is not byte-identical to the pinned result'')) (\<lambda>_.
           (case write_db_event now (replay_event rt m run (mf_content_hash row) (sha (canon (mn_result m))) (sha (canon (result_json r)))) db of
              Inl e \<Rightarrow> Inl (ReplayAuditError e)
            | Inr (db', _) \<Rightarrow>
                Inr (db', \<lparr>rr_manifest_hash = mf_content_hash row, rr_original_result_hash = sha (canon (mn_result m)),
                          rr_result_hash = sha (canon (result_json r)), rr_result = r\<rparr>)))))))))))"

end
