(* ===== verification/Payment_Properties.thy ===== *)
theory Payment_Properties
  imports Payments
begin

text \<open>
  What the payment gate guarantees: the arithmetic of a short pay, the uniqueness of decisions under
  concurrency, and the step relation of whole transactions with its invariant.
\<close>

section \<open>The arithmetic of a short pay\<close>

context decimal_laws
begin

lemma read_columns:
  "\<exists>ds. rtraverse (read_decimal e D) (map numeric_text ns) = Inr ds \<and> list_all2 holds ds ns"
proof (induction ns)
  case (Cons n ns)
  then show ?case using read_numeric [of e n] by auto
qed simp

lemma sum_amounts_fold:
  "rtraverse (read_decimal PaymentDecimalError D) ss = Inr ds \<Longrightarrow>
   rfold (\<lambda>acc s. rbind (read_decimal PaymentDecimalError D s) (\<lambda>d. Inr (dec_plus D acc d))) a ss = Inr (foldl (dec_plus D) a ds)"
  by (induction ss arbitrary: a ds) (auto simp: result_simps)

text \<open>Sums of columns of either sign are exact while the sum of their sizes is bounded.\<close>

lemma holds_signed_sum:
  assumes "list_all2 holds ds ns" and "holds acc a" and "\<bar>a\<bar> + (\<Sum>n \<leftarrow> ns. \<bar>n\<bar>) < 10 ^ 20"
  shows "holds (foldl (dec_plus D) acc ds) (a + sum_list ns)"
  using assms
proof (induction ds ns arbitrary: acc a rule: list_all2_induct)
  case (Cons d ds n ns)
  have "0 \<le> (\<Sum>n \<leftarrow> ns. \<bar>n\<bar>)" by (intro sum_list_nonneg) auto
  moreover have b: "\<bar>a + n\<bar> + (\<Sum>n \<leftarrow> ns. \<bar>n\<bar>) < 10 ^ 20" using Cons.prems(2) abs_triangle_ineq [of a n] by simp
  ultimately have "holds (dec_plus D acc d) (a + n)" using Cons by (intro holds_plus) auto
  from Cons.IH [OF this b] show ?case by (simp add: add.assoc)
qed simp

lemma sum_amounts_columns:
  assumes "(\<Sum>n \<leftarrow> ns. \<bar>n\<bar>) < 10 ^ 20"
  shows "\<exists>d. sum_amounts D (map numeric_text ns) = Inr d \<and> holds d (sum_list ns)"
proof -
  obtain ds where ds: "rtraverse (read_decimal PaymentDecimalError D) (map numeric_text ns) = Inr ds" "list_all2 holds ds ns"
    using read_columns [where e = PaymentDecimalError] by blast
  have z: "\<bar>0\<bar> + (\<Sum>n \<leftarrow> ns. \<bar>n\<bar>) < 10 ^ 20" using assms by (simp only: abs_zero add_0)
  have "holds (foldl (dec_plus D) (dec_zero D) ds) (sum_list ns)"
    using holds_signed_sum [OF ds(2) holds_zero z] by (simp only: add_0)
  then show ?thesis unfolding sum_amounts_def using sum_amounts_fold [OF ds(1)] by blast
qed

end

lemma sum_list_js_sort: "sum_list (map f (js_sort cmp xs)) = sum_list (map f xs)" for f :: "'a \<Rightarrow> int"
  by (metis mset_js_sort mset_map sum_mset_sum_list)

text \<open>The amounts of a list of findings that all state one.\<close>

definition stated_amounts :: "finding_row list \<Rightarrow> int list" where
  "stated_amounts fs = List.map_filter fr_variance_amount fs"

lemma stated_amounts_views:
  "List.map_filter ov_variance_amount (map overcharge_view_of fs) = map numeric_text (stated_amounts fs)"
  by (induction fs) (auto simp: stated_amounts_def overcharge_view_of_def map_filter_simps split: option.splits)

lemma remdups_single: "remdups xs = [c] \<longleftrightarrow> set xs = {c}"
proof
  show "remdups xs = [c] \<Longrightarrow> set xs = {c}" by (metis empty_set list.simps(15) set_remdups)
  assume s: "set xs = {c}"
  then have "length (remdups xs) = 1" by (simp add: length_remdups_card_conv)
  then obtain y where "remdups xs = [y]" by (auto simp: length_Suc_conv)
  moreover from this have "set xs = {y}" using set_remdups [of xs] by simp
  ultimately show "remdups xs = [c]" using s by simp
qed

section \<open>What a composed short pay says\<close>

text \<open>
  Short-pay figures of a run: the invoice total, the accepted overcharges and whether all of them
  are stated in one currency.
\<close>

definition invoice_total :: "uuid \<Rightarrow> uuid \<Rightarrow> audit_db \<Rightarrow> int" where
  "invoice_total client invoice db = (\<Sum>c \<leftarrow> charges_of client invoice db. cf_amount c)"

definition withheld_total :: "uuid \<Rightarrow> uuid \<Rightarrow> audit_db \<Rightarrow> int" where
  "withheld_total client run db = sum_list (stated_amounts (accepted_overcharges client run db))"

definition amounts_bounded :: "uuid \<Rightarrow> uuid \<Rightarrow> uuid \<Rightarrow> audit_db \<Rightarrow> bool" where
  "amounts_bounded client invoice run db \<longleftrightarrow>
     (\<Sum>c \<leftarrow> charges_of client invoice db. \<bar>cf_amount c\<bar>) + (\<Sum>n \<leftarrow> stated_amounts (accepted_overcharges client run db). \<bar>n\<bar>) < 10 ^ 18"

lemma compose_short_pay_Inr:
  assumes "compose_short_pay_decision D rt cs fs = Inr s"
  obtains total withheld where "fs \<noteq> []" "list_all (\<lambda>f. ov_currency f \<noteq> None \<and> ov_variance_amount f \<noteq> None) fs"
    "list_all (\<lambda>c. sv_currency c \<noteq> None) cs"
    "set (List.map_filter id (map sv_currency cs @ map ov_currency fs)) = {sp_currency s}"
    "sum_amounts D (map sv_amount cs) = Inr total"
    "sum_amounts D (List.map_filter ov_variance_amount (js_sort (\<lambda>a b. rt_locale_compare rt (ov_id a) (ov_id b)) fs)) = Inr withheld"
    "\<not> dec_le D total withheld"
    "sp_amount_to_pay s = dec_to_fixed D 4 (dec_minus D total withheld)" "sp_withheld_amount s = dec_to_fixed D 4 withheld"
  using assms that
  by (auto simp: compose_short_pay_decision_def result_simps Let_def simp flip: remdups_single split: list.splits)

lemma mset_map_filter: "mset xs = mset ys \<Longrightarrow> mset (List.map_filter f xs) = mset (List.map_filter f ys)"
  by (simp add: List.map_filter_def)

lemma sorted_views:
  "js_sort (\<lambda>a b. rt_locale_compare rt (ov_id a) (ov_id b)) (map overcharge_view_of fs) =
   map overcharge_view_of (js_sort (\<lambda>a b. rt_locale_compare rt (fr_id a) (fr_id b)) fs)"
  by (rule js_sort_map) (simp add: overcharge_view_of_def)

lemma sum_stated_sorted:
  fixes g :: "int \<Rightarrow> int"
  shows "(\<Sum>n \<leftarrow> stated_amounts (js_sort cmp fs). g n) = (\<Sum>n \<leftarrow> stated_amounts fs. g n)"
proof -
  have "mset (stated_amounts (js_sort cmp fs)) = mset (stated_amounts fs)"
    unfolding stated_amounts_def by (rule mset_map_filter) simp
  then show ?thesis by (metis mset_map sum_mset_sum_list)
qed

context fixed_notation
begin

lemma short_pay_figures:
  assumes c: "compose_short_pay_decision D rt (map charge_view_of cs) (map overcharge_view_of fs) = Inr s"
    and b: "(\<Sum>c \<leftarrow> cs. \<bar>cf_amount c\<bar>) + (\<Sum>n \<leftarrow> stated_amounts fs. \<bar>n\<bar>) < 10 ^ 18"
  defines "tot \<equiv> (\<Sum>c \<leftarrow> cs. cf_amount c)" and "wh \<equiv> sum_list (stated_amounts fs)"
  shows "wh < tot" "store_numeric (sp_amount_to_pay s) = Some (tot - wh)"
    "store_numeric (sp_withheld_amount s) = Some wh"
proof -
  let ?sorted = "js_sort (\<lambda>a b. rt_locale_compare rt (fr_id a) (fr_id b)) fs"
  obtain t w where s: "sum_amounts D (map numeric_text (map cf_amount cs)) = Inr t"
      "sum_amounts D (map numeric_text (stated_amounts ?sorted)) = Inr w" "\<not> dec_le D t w"
      "sp_amount_to_pay s = dec_to_fixed D 4 (dec_minus D t w)" "sp_withheld_amount s = dec_to_fixed D 4 w"
    by (rule compose_short_pay_Inr [OF c]) (simp add: sorted_views stated_amounts_views charge_view_of_def comp_def)
  have n: "0 \<le> (\<Sum>c \<leftarrow> cs. \<bar>cf_amount c\<bar>)" "0 \<le> (\<Sum>n \<leftarrow> stated_amounts fs. \<bar>n\<bar>)"
    by (auto intro!: sum_list_nonneg)
  have "(\<Sum>n \<leftarrow> map cf_amount cs. \<bar>n\<bar>) < 10 ^ 20" using b n by (simp add: comp_def)
  from sum_amounts_columns [OF this] have t: "holds t tot" using s(1) unfolding tot_def by auto
  have "(\<Sum>n \<leftarrow> stated_amounts ?sorted. \<bar>n\<bar>) < 10 ^ 20" using b n by (simp add: sum_stated_sorted)
  from sum_amounts_columns [OF this] have w: "holds w wh"
    using s(2) sum_stated_sorted [where g = "\<lambda>n. n"] unfolding wh_def by auto
  show lt: "wh < tot" using holds_compare(1) [OF t w] s(3) by simp
  have bt: "\<bar>tot\<bar> \<le> (\<Sum>c \<leftarrow> cs. \<bar>cf_amount c\<bar>)" "\<bar>wh\<bar> \<le> (\<Sum>n \<leftarrow> stated_amounts fs. \<bar>n\<bar>)"
    using sum_list_abs [of "map cf_amount cs"] sum_list_abs [of "stated_amounts fs"] by (simp_all add: tot_def wh_def comp_def)
  then have "\<bar>tot - wh\<bar> < 10 ^ 18" "\<bar>wh\<bar> < 10 ^ 18" using b n by linarith+
  moreover from this have "holds (dec_minus D t w) (tot - wh)" by (intro holds_minus [OF t w]) simp
  ultimately show "store_numeric (sp_amount_to_pay s) = Some (tot - wh)" "store_numeric (sp_withheld_amount s) = Some wh"
    using w by (simp_all only: s(4,5) store_fixed)
qed

end

section \<open>What the operations write\<close>

lemma insert_decision_Inr [result_simps]:
  "insert_decision d db = Inr db' \<longleftrightarrow>
     \<not> list_ex (same_decision d) (ad_decisions db) \<and> db' = db\<lparr>ad_decisions := ad_decisions db @ [d]\<rparr>"
  by (auto simp: insert_decision_def insert_row_def)

lemma write_db_event_Inr:
  assumes "write_db_event now e db = Inr (db', created)"
  shows "\<exists>v rows. parse_audit_event e = Some v \<and> db' = db\<lparr>ad_events := rows\<rparr> \<and> prefix (ad_events db) rows \<and> list_ex (same_evidence v) rows"
proof -
  obtain rows r where w: "write_audit_event now e (ad_events db) = Inr (rows, r, created)" and db': "db' = db\<lparr>ad_events := rows\<rparr>"
    using assms by (auto simp: write_db_event_def split: sum.splits)
  have "\<exists>v. parse_audit_event e = Some v \<and> prefix (ad_events db) rows \<and> list_ex (same_evidence v) rows"
    using w by (auto simp: write_audit_event_Inr split: if_splits)
  then show ?thesis using db' by blast
qed

text \<open>An operation appends decisions and extends the ledger, and changes nothing else.\<close>

definition appends :: "payment_gate_decision list \<Rightarrow> audit_db \<Rightarrow> audit_db \<Rightarrow> bool" where
  "appends new db db' \<longleftrightarrow>
     db' = db\<lparr>ad_decisions := ad_decisions db @ new, ad_events := ad_events db'\<rparr> \<and> prefix (ad_events db) (ad_events db')"

lemma appends_refl [simp]: "appends [] db db"
  by (simp add: appends_def)

lemma appends_fields:
  assumes "appends new db db'"
  shows "ad_decisions db' = ad_decisions db @ new" "ad_runs db' = ad_runs db" "ad_findings db' = ad_findings db"
    "ad_charge_facts db' = ad_charge_facts db" "prefix (ad_events db) (ad_events db')" "set (ad_events db) \<subseteq> set (ad_events db')"
proof -
  obtain rows where "db' = db\<lparr>ad_decisions := ad_decisions db @ new, ad_events := rows\<rparr>" "prefix (ad_events db) rows"
    using assms unfolding appends_def by blast
  then show "ad_decisions db' = ad_decisions db @ new" "ad_runs db' = ad_runs db" "ad_findings db' = ad_findings db"
    "ad_charge_facts db' = ad_charge_facts db" "prefix (ad_events db) (ad_events db')" "set (ad_events db) \<subseteq> set (ad_events db')"
    using set_mono_prefix by auto
qed

lemma appends_frame:
  assumes "appends new db db'"
  shows "ad_documents db' = ad_documents db" "ad_invoices db' = ad_invoices db" "ad_manifests db' = ad_manifests db"
    "ad_policies db' = ad_policies db" "ad_gate_failures db' = ad_gate_failures db" "ad_scorecards db' = ad_scorecards db"
proof -
  obtain rows where "db' = db\<lparr>ad_decisions := ad_decisions db @ new, ad_events := rows\<rparr>"
    using assms unfolding appends_def by blast
  then show "ad_documents db' = ad_documents db" "ad_invoices db' = ad_invoices db" "ad_manifests db' = ad_manifests db"
    "ad_policies db' = ad_policies db" "ad_gate_failures db' = ad_gate_failures db" "ad_scorecards db' = ad_scorecards db"
    by simp_all
qed

lemma write_db_event_appends: "write_db_event now e db = Inr (db', b) \<Longrightarrow> appends [] db db'"
  by (auto dest!: write_db_event_Inr simp: appends_def)

lemma record_decision_Inr:
  assumes "record_decision now others d e db = Inr db'"
  shows "appends (others @ [d]) db db'" "\<not> list_ex (same_decision d) (ad_decisions db @ others)"
    "\<exists>v. parse_audit_event e = Some v \<and> list_ex (same_evidence v) (ad_events db')"
proof -
  obtain db1 b where i: "insert_decision d (commit_others others db) = Inr db1" and w: "write_db_event now e db1 = Inr (db', b)"
    using assms by (auto simp: record_decision_def rbind_eq_Inr)
  show "appends (others @ [d]) db db'" "\<not> list_ex (same_decision d) (ad_decisions db @ others)"
    "\<exists>v. parse_audit_event e = Some v \<and> list_ex (same_evidence v) (ad_events db')"
    using i write_db_event_Inr [OF w] by (auto simp: result_simps commit_others_def appends_def)
qed

lemma generate_hold_Inr:
  assumes "generate_hold_decision rt Z new_id now others client run h db = Inr (db', i, created)"
  shows "db' = db \<or> (\<exists>r. find_run client run (Some SCORED) db = Some r \<and>
     record_decision now others (system_decision new_id now client (run_invoice_id r) run Hold hold_rationale)
       (hold_event rt client run new_id) db = Inr db')"
  using assms by (auto simp: generate_hold_decision_def rbind_eq_Inr split: if_splits option.splits)

lemma authorize_payment_Inr:
  assumes "authorize_payment rt Z new_id now others i db = Inr (db', j, created)"
  shows "\<exists>action rationale r. parse_authorization Z i = Some (action, rationale) \<and>
    find_run (au_client_id i) (au_audit_run_id i) None db = Some r \<and>
    (if created
     then j = new_id \<and>
          record_decision now others (analyst_decision new_id now (au_client_id i) (run_invoice_id r) (au_audit_run_id i) action rationale)
            (authorization_event rt (au_client_id i) (au_audit_run_id i) new_id (au_actor_user_id i) action rationale) db = Inr db'
     else db' = db \<and> (\<exists>d. decision_of (au_client_id i) (au_audit_run_id i) action db = Some d \<and> j = pg_id d))"
  using assms by (auto simp: authorize_payment_def rbind_eq_Inr split: option.splits)

lemma generate_short_pay_Inr:
  assumes "generate_short_pay_decision D rt Z new_id now others client run h db = Inr (db', q)"
  shows "db' = db \<and> \<not> sq_created q \<or> (\<exists>r s n. find_run client run (Some SCORED) db = Some r \<and>
     compose_short_pay_decision D rt (map charge_view_of (charges_of client (run_invoice_id r) db))
       (map overcharge_view_of (accepted_overcharges client run db)) = Inr s \<and>
     store_numeric (sp_amount_to_pay s) = Some n \<and> currency_format (sp_currency s) \<and> sq_created q \<and>
     record_decision now others (short_pay_row new_id now client (run_invoice_id r) run n s) (short_pay_event rt client run new_id s) db = Inr db')"
  using assms by (auto simp: generate_short_pay_decision_def rbind_eq_Inr ensure_eq_Inr split: if_splits option.splits)

lemma generate_do_not_pay_Inr:
  assumes "generate_do_not_pay_decision rt Z new_id now others client run db = Inr (db', i, c)"
  shows "\<exists>r. find_run client run (Some REJECTED_REWORK) db = Some r \<and>
     compose_do_not_pay_decision rt (map gate_failure_view_of (gate_failures_of client run db)) = Inr c \<and>
     (let d = system_decision new_id now client (run_invoice_id r) run Do_Not_Pay (fst c)
      in if list_ex (same_decision d) (ad_decisions db @ others)
         then appends others db db' \<and> map_option pg_id (decision_of client run Do_Not_Pay (commit_others others db)) = Some i
         else appends (others @ [d]) db db' \<and> i = new_id)"
proof -
  obtain r where r: "find_run client run (Some REJECTED_REWORK) db = Some r"
    and c: "compose_do_not_pay_decision rt (map gate_failure_view_of (gate_failures_of client run db)) = Inr c"
    using assms by (auto simp: generate_do_not_pay_decision_def insert_row_def rbind_eq_Inr ensure_eq_Inr Let_def split: option.splits if_splits)
  let ?d = "system_decision new_id now client (run_invoice_id r) run Do_Not_Pay (fst c)"
  let ?db = "commit_others others db"
  have w: "\<exists>b. (if list_ex (same_decision ?d) (ad_decisions ?db)
        then map_option pg_id (decision_of client run Do_Not_Pay ?db) = Some i \<and>
             write_db_event now (do_not_pay_event rt client run i c) ?db = Inr (db', b)
        else i = new_id \<and>
             write_db_event now (do_not_pay_event rt client run i c) (?db\<lparr>ad_decisions := ad_decisions ?db @ [?d]\<rparr>) = Inr (db', b))"
    using assms by (auto simp: generate_do_not_pay_decision_def r c insert_row_def rbind_eq_Inr ensure_eq_Inr Let_def split: option.splits if_splits)
  have "appends others db db'" if "write_db_event now e ?db = Inr (db', b)" for e b
    using write_db_event_appends [OF that] by (auto simp: appends_def commit_others_def)
  moreover have "appends (others @ [?d]) db db'"
    if "write_db_event now e (?db\<lparr>ad_decisions := ad_decisions ?db @ [?d]\<rparr>) = Inr (db', b)" for e b
    using write_db_event_appends [OF that] by (auto simp: appends_def commit_others_def)
  moreover have "ad_decisions ?db = ad_decisions db @ others" by (simp add: commit_others_def)
  ultimately show ?thesis using r c w by (auto simp: Let_def split: if_splits)
qed

section \<open>The invariant of the payment gate\<close>

definition decision_key :: "payment_gate_decision \<Rightarrow> uuid \<times> uuid \<times> payment_action" where
  "decision_key d = (pg_account_id d, pg_audit_run_id d, pg_action d)"

text \<open>The ledger names the analyst behind a decision.\<close>

definition attributed :: "audit_event_row list \<Rightarrow> payment_gate_decision \<Rightarrow> bool" where
  "attributed rows d \<longleftrightarrow>
     (\<exists>e \<in> set rows. ae_account_id e = Some (pg_account_id d) \<and> ae_entity_id e = Some (pg_id d) \<and>
        ae_event e = ''payment_authorized'' \<and> ae_actor_kind e = ''analyst'' \<and> ae_actor_user_id e \<noteq> None)"

definition run_with :: "audit_run_row list \<Rightarrow> payment_gate_decision \<Rightarrow> outcome \<Rightarrow> bool" where
  "run_with runs d outc \<longleftrightarrow>
     (\<exists>r \<in> set runs. run_account_id r = pg_account_id d \<and> run_id r = pg_audit_run_id d \<and> run_outcome r = outc)"

fun action_ok :: "payment_action \<Rightarrow> audit_run_row list \<Rightarrow> audit_event_row list \<Rightarrow> payment_gate_decision \<Rightarrow> bool" where
  "action_ok Approve runs rows d \<longleftrightarrow> pg_actor_kind d = ''analyst'' \<and> attributed rows d"
| "action_ok Hold runs rows d \<longleftrightarrow> pg_actor_kind d = ''system'' \<longrightarrow> run_with runs d SCORED"
| "action_ok Short_Pay runs rows d \<longleftrightarrow> run_with runs d SCORED"
| "action_ok Do_Not_Pay runs rows d \<longleftrightarrow> run_with runs d REJECTED_REWORK"

definition payments_ok :: "audit_db \<Rightarrow> bool" where
  "payments_ok db \<longleftrightarrow>
     distinct (map run_id (ad_runs db)) \<and> distinct (map decision_key (ad_decisions db)) \<and>
     (\<forall>d \<in> set (ad_decisions db). action_ok (pg_action d) (ad_runs db) (ad_events db) d)"

lemma action_ok_mono:
  assumes "action_ok a runs rows d" and "set runs \<subseteq> set runs'" and "set rows \<subseteq> set rows'"
  shows "action_ok a runs' rows' d"
  using assms by (cases a) (auto simp: attributed_def run_with_def)

lemma payments_ok_frame:
  assumes "payments_ok db" and "ad_decisions db' = ad_decisions db" and "set (ad_runs db) \<subseteq> set (ad_runs db')"
    and "distinct (map run_id (ad_runs db'))" and "prefix (ad_events db) (ad_events db')"
  shows "payments_ok db'"
proof -
  have "set (ad_events db) \<subseteq> set (ad_events db')" using assms(5) by (rule set_mono_prefix)
  then show ?thesis using assms(1-4) action_ok_mono unfolding payments_ok_def by metis
qed

lemma payments_ok_events:
  assumes ok: "payments_ok db" and a: "appends [] db db'"
  shows "payments_ok db'"
proof -
  have "distinct (map run_id (ad_runs db))" using ok by (simp add: payments_ok_def)
  then show ?thesis using appends_fields [OF a] by (intro payments_ok_frame [OF ok]) simp_all
qed

lemma same_decision_key: "same_decision a b \<longleftrightarrow> decision_key b = decision_key a"
  by (auto simp: same_decision_def decision_key_def)

lemma payments_ok_append:
  assumes ok: "payments_ok db" and a: "appends [d] db db'" and new: "\<not> list_ex (same_decision d) (ad_decisions db)"
    and d: "action_ok (pg_action d) (ad_runs db) (ad_events db') d"
  shows "payments_ok db'"
proof -
  note f = appends_fields [OF a]
  have "decision_key d \<notin> decision_key ` set (ad_decisions db)"
    using new by (auto simp: list_ex_iff same_decision_key)
  then show ?thesis
    using ok d f action_ok_mono [OF _ order_refl f(6)] by (auto simp: payments_ok_def)
qed

section \<open>Runs of the payment gate\<close>

text \<open>
  One committed transaction: an operation of the module, or a transaction of the rest of the program,
  which adds runs and events and leaves the decisions alone (the tables of runs and events are
  append-only).
\<close>

inductive payment_step ::
  "'d decimal_lib \<Rightarrow> runtime \<Rightarrow> zod_lib \<Rightarrow> (instant \<Rightarrow> string) \<Rightarrow> audit_db \<Rightarrow> audit_db \<Rightarrow> bool"
  for D rt Z isof where
  held: "generate_hold_decision rt Z i now [] client run h db = Inr (db', r) \<Longrightarrow> payment_step D rt Z isof db db'"
| short_paid: "generate_short_pay_decision D rt Z i now [] client run h db = Inr (db', q) \<Longrightarrow> payment_step D rt Z isof db db'"
| refused: "generate_do_not_pay_decision rt Z i now [] client run db = Inr (db', r) \<Longrightarrow> payment_step D rt Z isof db db'"
| authorized: "authorize_payment rt Z i now [] a db = Inr (db', r) \<Longrightarrow> payment_step D rt Z isof db db'"
| escalated: "generate_payment_escalation rt isof clock now days client run db = Inr (db', r) \<Longrightarrow> payment_step D rt Z isof db db'"
| configured: "upsert_payment_policy Z now j db = Inr (db', p) \<Longrightarrow> payment_step D rt Z isof db db'"
| audited: "ad_decisions db' = ad_decisions db \<Longrightarrow> prefix (ad_runs db) (ad_runs db') \<Longrightarrow> distinct (map run_id (ad_runs db')) \<Longrightarrow>
    prefix (ad_events db) (ad_events db') \<Longrightarrow> payment_step D rt Z isof db db'"

lemma find_run_in:
  "find_run client run outc db = Some r \<Longrightarrow>
   r \<in> set (ad_runs db) \<and> run_account_id r = client \<and> run_id r = run \<and> (case outc of None \<Rightarrow> True | Some x \<Rightarrow> run_outcome r = x)"
  by (auto simp: find_run_def dest!: find_Some_in)

lemma run_with_found:
  "find_run client run (Some outc) db = Some r \<Longrightarrow> pg_account_id d = client \<Longrightarrow> pg_audit_run_id d = run \<Longrightarrow> run_with (ad_runs db) d outc"
  by (auto simp: run_with_def dest!: find_run_in)

lemma record_decision_ok:
  assumes "payments_ok db" and r: "record_decision now [] d e db = Inr db'"
    and "action_ok (pg_action d) (ad_runs db) (ad_events db') d"
  shows "payments_ok db'"
  using payments_ok_append [OF assms(1) _ _ assms(3)] record_decision_Inr(1,2) [OF r] by simp

lemma authorization_attributed:
  assumes r: "record_decision now others (analyst_decision i now client invoice run a rationale) (authorization_event rt client run i actor a rationale) db = Inr db'"
  shows "attributed (ad_events db') (analyst_decision i now client invoice run a rationale)"
proof -
  obtain v where v: "parse_audit_event (authorization_event rt client run i actor a rationale) = Some v"
    and "list_ex (same_evidence v) (ad_events db')" using record_decision_Inr(3) [OF r] by blast
  then obtain row where row: "row \<in> set (ad_events db')" "same_evidence v row" by (auto simp: list_ex_iff)
  have t: "js_trim ''payment_authorized'' = ''payment_authorized''" by code_simp
  have "ae_account_id v = Some client" "ae_entity_id v = Some i" "ae_event v = ''payment_authorized''"
    "ae_actor_kind v = ''analyst''" "ae_actor_user_id v = Some actor"
    using v t by (auto simp: parse_audit_event_def authorization_event_def analyst_event_def Let_def split: if_splits)
  then show ?thesis using row by (auto simp: attributed_def same_evidence_def analyst_decision_def)
qed

lemma parse_authorization_action: "parse_authorization Z i = Some (a, r) \<Longrightarrow> a = Approve \<or> a = Hold"
  by (auto simp: parse_authorization_def PAYMENT_AUTHORIZATION_ACTIONS_def Let_def split: if_splits option.splits)

lemma authorize_payment_ok:
  assumes ok: "payments_ok db" and a: "authorize_payment rt Z i now [] q db = Inr (db', j, created)"
  shows "payments_ok db'"
proof (cases created)
  case True
  obtain act rationale and r :: audit_run_row where p: "parse_authorization Z q = Some (act, rationale)"
    and rec: "record_decision now [] (analyst_decision i now (au_client_id q) (run_invoice_id r) (au_audit_run_id q) act rationale)
            (authorization_event rt (au_client_id q) (au_audit_run_id q) i (au_actor_user_id q) act rationale) db = Inr db'"
    using authorize_payment_Inr [OF a] by (simp only: True if_True) blast
  have "action_ok act (ad_runs db) (ad_events db') (analyst_decision i now (au_client_id q) (run_invoice_id r) (au_audit_run_id q) act rationale)"
    using parse_authorization_action [OF p] authorization_attributed [OF rec] by (auto simp: analyst_decision_def)
  then show ?thesis by (intro record_decision_ok [OF ok rec]) (simp add: analyst_decision_def)
next
  case False
  then show ?thesis using authorize_payment_Inr [OF a] ok by auto
qed

lemma generate_hold_ok:
  assumes ok: "payments_ok db" and g: "generate_hold_decision rt Z i now [] client run h db = Inr (db', r)"
  shows "payments_ok db'"
proof -
  obtain j created where "r = (j, created)" by (cases r)
  with generate_hold_Inr [of rt Z i now "[]" client run h db db' j created] g
  consider "db' = db" | r' where "find_run client run (Some SCORED) db = Some r'"
     "record_decision now [] (system_decision i now client (run_invoice_id r') run Hold hold_rationale) (hold_event rt client run i) db = Inr db'"
    by auto
  then show ?thesis
    by cases (use ok record_decision_ok [OF ok] run_with_found in \<open>auto simp: system_decision_def\<close>)
qed

lemma generate_short_pay_ok:
  assumes ok: "payments_ok db" and g: "generate_short_pay_decision D rt Z i now [] client run h db = Inr (db', q)"
  shows "payments_ok db'"
  using generate_short_pay_Inr [OF g]
proof (elim disjE exE conjE)
  fix r s n
  assume "find_run client run (Some SCORED) db = Some r"
    and rec: "record_decision now [] (short_pay_row i now client (run_invoice_id r) run n s) (short_pay_event rt client run i s) db = Inr db'"
  then show ?thesis by (intro record_decision_ok [OF ok rec]) (auto simp: short_pay_row_def intro: run_with_found)
qed (use ok in simp)

lemma generate_do_not_pay_ok:
  assumes ok: "payments_ok db" and g: "generate_do_not_pay_decision rt Z i now [] client run db = Inr (db', r)"
  shows "payments_ok db'"
proof -
  obtain j c where r: "r = (j, c)" by (cases r)
  obtain run_row where f: "find_run client run (Some REJECTED_REWORK) db = Some run_row"
    and w: "let d = system_decision i now client (run_invoice_id run_row) run Do_Not_Pay (fst c)
       in if list_ex (same_decision d) (ad_decisions db) then appends [] db db' else appends [d] db db'"
    using generate_do_not_pay_Inr [OF g [unfolded r]] by (auto simp: Let_def split: if_splits)
  let ?d = "system_decision i now client (run_invoice_id run_row) run Do_Not_Pay (fst c)"
  have act: "action_ok (pg_action ?d) (ad_runs db) (ad_events db') ?d"
    using run_with_found [OF f] by (simp add: system_decision_def)
  show ?thesis
  proof (cases "list_ex (same_decision ?d) (ad_decisions db)")
    case True
    then have a: "appends [] db db'" using w by (simp add: Let_def)
    show ?thesis by (rule payments_ok_events [OF ok a])
  next
    case False
    then show ?thesis using w by (intro payments_ok_append [OF ok _ False act]) (simp add: Let_def)
  qed
qed

lemma generate_payment_escalation_Inr:
  assumes "generate_payment_escalation rt isof clock now days client run db = Inr (db', r)"
  shows "appends [] db db'"
  using assms write_db_event_appends
  by (fastforce simp: generate_payment_escalation_def rbind_eq_Inr split: option.splits)

lemma upsert_payment_policy_Inr:
  "upsert_payment_policy Z now j db = Inr (db', p) \<Longrightarrow> parse_payment_policy_config Z j = Inr p \<and> (\<exists>ps. db' = db\<lparr>ad_policies := ps\<rparr>)"
  by (auto simp: upsert_payment_policy_def rbind_eq_Inr Let_def)

lemma payment_step_ok:
  assumes "payment_step D rt Z isof db db'" and ok: "payments_ok db"
  shows "payments_ok db'"
  using assms
proof (cases rule: payment_step.cases)
  case (authorized i now a r)
  then show ?thesis using authorize_payment_ok [OF ok] by (cases r) auto
next
  case (escalated clock now days client run r)
  then show ?thesis by (blast intro: payments_ok_events [OF ok] generate_payment_escalation_Inr)
next
  case (configured now j p)
  then obtain ps where "db' = db\<lparr>ad_policies := ps\<rparr>" using upsert_payment_policy_Inr by blast
  then show ?thesis using ok by (simp add: payments_ok_def)
next
  case audited
  then show ?thesis using payments_ok_frame [OF ok] set_mono_prefix by blast
next
  case short_paid
  then show ?thesis by (rule generate_short_pay_ok [OF ok])
next
  case held
  then show ?thesis by (rule generate_hold_ok [OF ok])
next
  case refused
  then show ?thesis by (rule generate_do_not_pay_ok [OF ok])
qed

lemma payment_run_ok:
  assumes "(payment_step D rt Z isof)\<^sup>*\<^sup>* db db'" and "payments_ok db"
  shows "payments_ok db'"
  using assms by (induction rule: rtranclp_induct) (auto intro: payment_step_ok)

end
