(* ===== verification/Ingestion_Properties.thy ===== *)
theory Ingestion_Properties
  imports Invoice_Ingestion Payment_Properties
begin

text \<open>
  The stages of storing and ingesting a run, and what later transactions keep of it.
\<close>

section \<open>Stages\<close>

lemma lift_payment_Inr [result_simps]: "lift_payment r = Inr x \<longleftrightarrow> r = Inr x"
  by (cases r) (simp_all add: lift_payment_def)

lemma lift_ingest_Inr [result_simps]: "lift_ingest r = Inr x \<longleftrightarrow> r = Inr x"
  by (cases r) (simp_all add: lift_ingest_def)

lemma persist_stages:
  assumes "persist_audit_run D rt Z fresh now ref i db0 = Inr (db', p)"
  obtains transport charges resolved failures db2 observations found cards db4 h b where
    "charge_rows fresh (pi_client_id i) (fresh ''invoice'' 0) (pi_result i) (pi_invoice i) = Inr charges"
    "resolve_keys ref (result_keys (pi_result i)) = Inr resolved"
    "rtraverse (gate_failure_row_of fresh (pi_client_id i) (fresh ''audit_run'' 0) (citation_of resolved transport))
       (enumerate 0 (ar_gate_failures (pi_result i))) = Inr failures"
    "gate_payment rt Z (fresh ''payment_gate_decision'' 0) now (pi_client_id i) (fresh ''audit_run'' 0) (ar_outcome (pi_result i))
       (store_run fresh i charges failures db0) = Inr db2"
    "rtraverse (charge_finding_row_of fresh (pi_client_id i) (fresh ''audit_run'' 0) (citation_of resolved transport))
       (enumerate 0 (ar_findings (pi_result i))) = Inr observations"
    "rtraverse (finding_row_of D fresh (pi_client_id i) (fresh ''audit_run'' 0) (citation_of resolved transport) (pi_invoice i) charges)
       (filter (\<lambda>(_, f). fi_result f \<noteq> CONFORMED) (enumerate 0 (ar_findings (pi_result i)))) = Inr found"
    "scorecard_row_of fresh (pi_client_id i) (fresh ''audit_run'' 0) (inv_header_currency (pi_invoice i)) (ar_scorecard (pi_result i)) = Inr cards"
    "insert_manifest rt (manifest_of ref (store_findings observations found cards db2) (fresh ''audit_run'' 0) resolved i)
       (store_findings observations found cards db2) = Inr (db4, h)"
    "write_db_event now (evaluation_event rt (fresh ''audit_run'' 0) i (pr_scorecard_id (run_summary fresh i failures observations cards)) h) db4 = Inr (db', b)"
    "p = run_summary fresh i failures observations cards"
proof -
  from assms show thesis
    unfolding persist_audit_run_def Let_def rbind_eq_Inr lift_payment_Inr split_paired_Ex prod.case Inr_inject prod.inject
    by (elim exE conjE) (rule that, assumption+, simp_all)
qed

lemma ingest_stages:
  assumes "ingest_invoice D rt Z L fresh now ref i db0 = Inr (db', run, invoice_id, outc)"
  obtains db1 doc sha256 db2 b2 ts categorize iv rj db3 p b4 where
    "store_source_document L (fresh ''source_document'' 0) (ig_client_id i) (ig_bytes i) (ig_content_type i) db0 = Inr (db1, doc, sha256)"
    "write_db_event now (source_stored_event rt (ig_client_id i) doc (ig_content_type i) sha256) db1 = Inr (db2, b2)"
    "detect_transaction_set (il_utf8 L (ig_bytes i)) = Inr ts"
    "resolve_categorizer L ref (il_utf8 L (ig_bytes i)) ts = Inr categorize"
    "parse_invoice D ts (il_utf8 L (ig_bytes i)) categorize = Inr iv"
    "resolve_and_evaluate D rt ref (ig_client_id i) iv (ig_contract_version_id i) db2 = Inr rj"
    "persist_audit_run D rt Z fresh now ref (ingest_persist_input i iv (doc, sha256) rj) db2 = Inr (db3, p)"
    "write_db_event now (audit_created_event rt (ig_client_id i) p (ar_outcome (fst rj)) ts) db3 = Inr (db', b4)"
    "run = pr_audit_run_id p" "invoice_id = pr_invoice_id p" "outc = ar_outcome (fst rj)"
proof -
  from assms show thesis
    unfolding ingest_invoice_def Let_def rbind_eq_Inr lift_payment_Inr lift_ingest_Inr split_paired_Ex prod.case Inr_inject prod.inject
    by (elim exE conjE) (rule that, assumption+, simp_all)
qed

section \<open>The payment decision of a stored run\<close>

definition holds_by_default :: "uuid \<Rightarrow> audit_db \<Rightarrow> bool" where
  "holds_by_default client db =
     (case find (\<lambda>p. pp_account_id p = client) (ad_policies db) of None \<Rightarrow> True | Some p \<Rightarrow> pp_hold_then_approve p)"

text \<open>The decision a run receives when it is stored, in terms of its outcome and its gate failures.\<close>

fun default_decision ::
  "runtime \<Rightarrow> outcome \<Rightarrow> bool \<Rightarrow> (payment_action \<Rightarrow> string \<Rightarrow> payment_gate_decision) \<Rightarrow> gate_failure_view list \<Rightarrow> payment_gate_decision list \<Rightarrow> bool" where
  "default_decision rt SCORED h d fs new \<longleftrightarrow> new = (if h then [d Hold hold_rationale] else [])"
| "default_decision rt REJECTED_REWORK h d fs new \<longleftrightarrow> (\<exists>c. compose_do_not_pay_decision rt fs = Inr c \<and> new = [d Do_Not_Pay (fst c)])"

lemma no_decision_yet:
  "\<forall>d \<in> set (ad_decisions db). pg_audit_run_id d \<noteq> run \<Longrightarrow> decision_of client run a db = None"
  by (auto simp: decision_of_def find_None_all)

lemma gate_payment_new:
  assumes g: "gate_payment rt Z new_id now client run outc db = Inr db'"
    and new: "\<forall>d \<in> set (ad_decisions db). pg_audit_run_id d \<noteq> run"
    and inv: "\<And>o' r. find_run client run o' db = Some r \<Longrightarrow> run_invoice_id r = invoice"
  shows "\<exists>ds. appends ds db db' \<and>
     default_decision rt outc (holds_by_default client db) (system_decision new_id now client invoice run)
       (map gate_failure_view_of (gate_failures_of client run db)) ds"
proof (cases outc)
  case SCORED
  let ?h = "holds_by_default client db"
  obtain i created where h: "generate_hold_decision rt Z new_id now [] client run (Some ?h) db = Inr (db', i, created)"
    using g SCORED by (auto simp: gate_payment_def result_simps holds_by_default_def DEFAULT_HOLD_THEN_APPROVE_def split: option.splits)
  show ?thesis
  proof (cases ?h)
    case True
    then obtain r where r: "find_run client run (Some SCORED) db = Some r"
      and rec: "record_decision now [] (system_decision new_id now client (run_invoice_id r) run Hold hold_rationale) (hold_event rt client run new_id) db = Inr db'"
      using h no_decision_yet [OF new] by (auto simp: generate_hold_decision_def rbind_eq_Inr split: option.splits)
    then show ?thesis using record_decision_Inr(1) [OF rec] True SCORED inv [OF r] by auto
  next
    case False
    then have "db' = db" using h by (auto simp: generate_hold_decision_def rbind_eq_Inr)
    then show ?thesis using False SCORED by (intro exI [of _ "[]"]) simp
  qed
next
  case REJECTED_REWORK
  obtain i c where d: "generate_do_not_pay_decision rt Z new_id now [] client run db = Inr (db', i, c)"
    using g REJECTED_REWORK by (auto simp: gate_payment_def result_simps)
  have none: "\<not> list_ex (same_decision (system_decision new_id now client j run Do_Not_Pay s)) (ad_decisions db)" for j s
    using new by (auto simp: list_ex_iff same_decision_def system_decision_def)
  obtain r where r: "find_run client run (Some REJECTED_REWORK) db = Some r"
    and c: "compose_do_not_pay_decision rt (map gate_failure_view_of (gate_failures_of client run db)) = Inr c"
    and a: "appends [system_decision new_id now client (run_invoice_id r) run Do_Not_Pay (fst c)] db db'"
    using generate_do_not_pay_Inr [OF d] none by (auto simp: Let_def)
  show ?thesis using c a REJECTED_REWORK inv [OF r] by auto
qed

section \<open>What storing a run changes\<close>

text \<open>The identifier of the run occurs nowhere yet.\<close>

definition run_is_new :: "uuid \<Rightarrow> audit_db \<Rightarrow> bool" where
  "run_is_new run db \<longleftrightarrow>
     (\<forall>r \<in> set (ad_runs db). run_id r \<noteq> run) \<and> (\<forall>d \<in> set (ad_decisions db). pg_audit_run_id d \<noteq> run) \<and>
     (\<forall>g \<in> set (ad_gate_failures db). gfr_audit_run_id g \<noteq> run) \<and> (\<forall>m \<in> set (ad_manifests db). mf_audit_run_id m \<noteq> run)"

lemma store_run_fields [simp]:
  "ad_decisions (store_run fresh i cs fs db) = ad_decisions db" "ad_documents (store_run fresh i cs fs db) = ad_documents db"
  "ad_policies (store_run fresh i cs fs db) = ad_policies db" "ad_events (store_run fresh i cs fs db) = ad_events db"
  "ad_manifests (store_run fresh i cs fs db) = ad_manifests db" "ad_charge_facts (store_run fresh i cs fs db) = ad_charge_facts db @ cs"
  "ad_gate_failures (store_run fresh i cs fs db) = ad_gate_failures db @ fs" "ad_findings (store_run fresh i cs fs db) = ad_findings db"
  by (simp_all add: store_run_def Let_def)

lemma store_findings_fields [simp]:
  "ad_decisions (store_findings os fs cs db) = ad_decisions db" "ad_documents (store_findings os fs cs db) = ad_documents db"
  "ad_policies (store_findings os fs cs db) = ad_policies db" "ad_events (store_findings os fs cs db) = ad_events db"
  "ad_manifests (store_findings os fs cs db) = ad_manifests db" "ad_runs (store_findings os fs cs db) = ad_runs db"
  "ad_invoices (store_findings os fs cs db) = ad_invoices db" "ad_findings (store_findings os fs cs db) = ad_findings db @ fs"
  by (simp_all add: store_findings_def)

lemma insert_manifest_Inr:
  "insert_manifest rt m db = Inr (db', h) \<longleftrightarrow>
     replay_manifest_hash rt m = Some h \<and>
     \<not> list_ex (\<lambda>r. mf_account_id r = mn_client_id m \<and> (mf_audit_run_id r = mn_audit_run_id m \<or> mf_content_hash r = h)) (ad_manifests db) \<and>
     db' = db\<lparr>ad_manifests := ad_manifests db @
       [\<lparr>mf_account_id = mn_client_id m, mf_audit_run_id = mn_audit_run_id m, mf_content_hash = h, mf_manifest = m\<rparr>]\<rparr>"
  by (auto simp: insert_manifest_def result_simps split: option.splits)

lemma find_run_stored:
  assumes "\<forall>r \<in> set (ad_runs db). run_id r \<noteq> fresh ''audit_run'' 0"
    and "find_run client (fresh ''audit_run'' 0) o' (store_run fresh i cs fs db) = Some r"
  shows "run_invoice_id r = fresh ''invoice'' 0 \<and> run_outcome r = ar_outcome (pi_result i)"
  using find_run_in [OF assms(2)] assms(1) by (auto simp: store_run_def Let_def)

lemma failures_stored:
  assumes "rtraverse (gate_failure_row_of fresh client run cite) (enumerate n gs) = Inr rows"
  shows "map gate_failure_view_of rows =
      map (\<lambda>(k, g). \<lparr>gv_id = fresh ''gate_failure'' k, gv_defect = gf_defect g, gv_citation = gf_citation g\<rparr>) (enumerate n gs)"
    "\<forall>g \<in> set rows. gfr_account_id g = client \<and> gfr_audit_run_id g = run"
  using assms
  by (induction gs arbitrary: n rows) (auto simp: gate_failure_row_of_def gate_failure_view_of_def result_simps)

definition failure_views :: "fresh_ids \<Rightarrow> audit_result \<Rightarrow> gate_failure_view list" where
  "failure_views fresh r =
     map (\<lambda>(k, g). \<lparr>gv_id = fresh ''gate_failure'' k, gv_defect = gf_defect g, gv_citation = gf_citation g\<rparr>)
       (enumerate 0 (ar_gate_failures r))"

lemma manifest_of_documents:
  "ad_documents db = ad_documents db' \<Longrightarrow> manifest_of ref db run resolved i = manifest_of ref db' run resolved i"
  by (simp add: manifest_of_def contract_pins_def contract_hash_def document_hash_def [abs_def])

lemma persist_effect:
  assumes p: "persist_audit_run D rt Z fresh now ref i db = Inr (db', s)" and new: "run_is_new (fresh ''audit_run'' 0) db"
  shows "\<exists>ds. ad_decisions db' = ad_decisions db @ ds \<and>
      default_decision rt (ar_outcome (pi_result i)) (holds_by_default (pi_client_id i) db)
        (system_decision (fresh ''payment_gate_decision'' 0) now (pi_client_id i) (fresh ''invoice'' 0) (fresh ''audit_run'' 0))
        (failure_views fresh (pi_result i)) ds"
    and "\<exists>resolved h. resolve_keys ref (result_keys (pi_result i)) = Inr resolved \<and>
      replay_manifest_hash rt (manifest_of ref db (fresh ''audit_run'' 0) resolved i) = Some h \<and>
      ad_manifests db' = ad_manifests db @
        [\<lparr>mf_account_id = pi_client_id i, mf_audit_run_id = fresh ''audit_run'' 0, mf_content_hash = h,
          mf_manifest = manifest_of ref db (fresh ''audit_run'' 0) resolved i\<rparr>]"
    and "ad_documents db' = ad_documents db" "ad_policies db' = ad_policies db" "prefix (ad_events db) (ad_events db')"
    and "\<exists>cs fs. ad_runs db' = ad_runs (store_run fresh i cs fs db) \<and> ad_invoices db' = ad_invoices (store_run fresh i cs fs db)"
    and "pr_audit_run_id s = fresh ''audit_run'' 0"
proof -
  let ?run = "fresh ''audit_run'' 0" and ?c = "pi_client_id i"
  obtain transport charges resolved failures db2 observations found cards db4 h b where
    res: "resolve_keys ref (result_keys (pi_result i)) = Inr resolved"
    and fs: "rtraverse (gate_failure_row_of fresh ?c ?run (citation_of resolved transport)) (enumerate 0 (ar_gate_failures (pi_result i))) = Inr failures"
    and g: "gate_payment rt Z (fresh ''payment_gate_decision'' 0) now ?c ?run (ar_outcome (pi_result i)) (store_run fresh i charges failures db) = Inr db2"
    and m: "insert_manifest rt (manifest_of ref (store_findings observations found cards db2) ?run resolved i)
       (store_findings observations found cards db2) = Inr (db4, h)"
    and w: "write_db_event now (evaluation_event rt ?run i (pr_scorecard_id (run_summary fresh i failures observations cards)) h) db4 = Inr (db', b)"
    and s: "s = run_summary fresh i failures observations cards"
    by (rule persist_stages [OF p])
  note views = failures_stored [OF fs]
  have nd: "\<forall>d \<in> set (ad_decisions (store_run fresh i charges failures db)). pg_audit_run_id d \<noteq> ?run"
    and nr: "\<forall>r \<in> set (ad_runs db). run_id r \<noteq> ?run" and ng: "\<forall>g \<in> set (ad_gate_failures db). gfr_audit_run_id g \<noteq> ?run"
    using new by (auto simp: run_is_new_def)
  have gf: "gate_failures_of ?c ?run (store_run fresh i charges failures db) = failures"
    using ng views(2) by (auto simp: gate_failures_of_def filter_empty_conv filter_id_conv)
  have hd: "holds_by_default ?c (store_run fresh i charges failures db) = holds_by_default ?c db" by (simp add: holds_by_default_def)
  obtain ds where a: "appends ds (store_run fresh i charges failures db) db2"
    and d: "default_decision rt (ar_outcome (pi_result i)) (holds_by_default ?c db)
        (system_decision (fresh ''payment_gate_decision'' 0) now ?c (fresh ''invoice'' 0) ?run) (failure_views fresh (pi_result i)) ds"
    using gate_payment_new [OF g nd, where invoice = "fresh ''invoice'' 0"] find_run_stored [where fresh = fresh, OF nr] views(1)
    by (auto simp: gf hd failure_views_def)
  note f = appends_fields [OF a] appends_frame [OF a]
  note e = appends_fields [OF write_db_event_appends [OF w]] appends_frame [OF write_db_event_appends [OF w]]
  have docs: "ad_documents (store_findings observations found cards db2) = ad_documents db" using f by simp
  note mf = manifest_of_documents [OF docs, of ref ?run resolved i]
  show "\<exists>ds. ad_decisions db' = ad_decisions db @ ds \<and>
      default_decision rt (ar_outcome (pi_result i)) (holds_by_default ?c db)
        (system_decision (fresh ''payment_gate_decision'' 0) now ?c (fresh ''invoice'' 0) ?run) (failure_views fresh (pi_result i)) ds"
    using d f e m by (intro exI [of _ ds]) (simp add: insert_manifest_Inr)
  show "\<exists>resolved h. resolve_keys ref (result_keys (pi_result i)) = Inr resolved \<and>
      replay_manifest_hash rt (manifest_of ref db ?run resolved i) = Some h \<and>
      ad_manifests db' = ad_manifests db @
        [\<lparr>mf_account_id = ?c, mf_audit_run_id = ?run, mf_content_hash = h, mf_manifest = manifest_of ref db ?run resolved i\<rparr>]"
    using res m e(9) f(9) unfolding mf by (intro exI [of _ resolved] exI [of _ h]) (simp add: insert_manifest_Inr manifest_of_def)
  show "ad_documents db' = ad_documents db" "ad_policies db' = ad_policies db" "prefix (ad_events db) (ad_events db')"
    using f e m by (simp_all add: insert_manifest_Inr)
  show "\<exists>cs fs. ad_runs db' = ad_runs (store_run fresh i cs fs db) \<and> ad_invoices db' = ad_invoices (store_run fresh i cs fs db)"
    using f e m by (intro exI [of _ charges] exI [of _ failures]) (simp add: insert_manifest_Inr)
  show "pr_audit_run_id s = ?run" by (simp add: s run_summary_def)
qed

section \<open>What ingesting an invoice changes\<close>

lemma stored_document_frame:
  assumes "store_source_document L new_id client bytes ct db = Inr (db', doc, sha256)"
  obtains rows where "db' = db\<lparr>ad_documents := rows\<rparr>"
proof -
  obtain sha uri n where "il_put L bytes = (sha, uri, n)" by (cases "il_put L bytes")
  with assms that [of "ad_documents db"] that show thesis
    by (auto simp: store_source_document_def insert_row_def Let_def split: if_splits option.splits)
qed

lemma ingest_persists:
  assumes ing: "ingest_invoice D rt Z L fresh now ref i db = Inr (db', run, invoice_id, outc)"
    and new: "run_is_new (fresh ''audit_run'' 0) db"
  obtains db2 ts categorize iv pin rj db3 p where
    "detect_transaction_set (il_utf8 L (ig_bytes i)) = Inr ts" "parse_invoice D ts (il_utf8 L (ig_bytes i)) categorize = Inr iv"
    "resolve_and_evaluate D rt ref (ig_client_id i) iv (ig_contract_version_id i) db2 = Inr rj"
    "pi_client_id pin = ig_client_id i" "pi_invoice pin = iv" "pi_result pin = fst rj"
    "persist_audit_run D rt Z fresh now ref pin db2 = Inr (db3, p)" "run_is_new (fresh ''audit_run'' 0) db2" "appends [] db3 db'"
    "run = fresh ''audit_run'' 0" "outc = ar_outcome (fst rj)"
    "ad_runs db2 = ad_runs db" "ad_decisions db2 = ad_decisions db" "ad_invoices db2 = ad_invoices db" "ad_policies db2 = ad_policies db"
    "prefix (ad_events db) (ad_events db2)"
proof -
  obtain db1 doc sha256 db2 b2 ts categorize iv rj db3 p b4 where
    s: "store_source_document L (fresh ''source_document'' 0) (ig_client_id i) (ig_bytes i) (ig_content_type i) db = Inr (db1, doc, sha256)"
    and w: "write_db_event now (source_stored_event rt (ig_client_id i) doc (ig_content_type i) sha256) db1 = Inr (db2, b2)"
    and ts: "detect_transaction_set (il_utf8 L (ig_bytes i)) = Inr ts"
    and iv: "parse_invoice D ts (il_utf8 L (ig_bytes i)) categorize = Inr iv"
    and ev: "resolve_and_evaluate D rt ref (ig_client_id i) iv (ig_contract_version_id i) db2 = Inr rj"
    and p: "persist_audit_run D rt Z fresh now ref (ingest_persist_input i iv (doc, sha256) rj) db2 = Inr (db3, p)"
    and w4: "write_db_event now (audit_created_event rt (ig_client_id i) p (ar_outcome (fst rj)) ts) db3 = Inr (db', b4)"
    and out: "run = pr_audit_run_id p" "outc = ar_outcome (fst rj)"
    by (rule ingest_stages [OF ing])
  obtain rows where d: "db1 = db\<lparr>ad_documents := rows\<rparr>" by (rule stored_document_frame [OF s])
  note a = appends_fields [OF write_db_event_appends [OF w]] appends_frame [OF write_db_event_appends [OF w]]
  have n: "run_is_new (fresh ''audit_run'' 0) db2" using new a by (simp add: run_is_new_def d)
  show thesis
    by (rule that [OF ts iv ev _ _ _ p n write_db_event_appends [OF w4]])
      (use a out persist_effect(7) [OF p n] in \<open>simp_all add: d ingest_persist_input_def\<close>)
qed

text \<open>An ingestion keeps the invariant of the payment gate.\<close>

lemma default_decision_ok:
  assumes "default_decision rt outc h (system_decision new_id now client invoice run) fs ds"
    and "run_with runs (system_decision new_id now client invoice run a s) outc"
  shows "\<forall>d \<in> set ds. action_ok (pg_action d) runs rows d" "\<forall>d \<in> set ds. pg_audit_run_id d = run" "distinct (map decision_key ds)"
  using assms by (cases outc; auto simp: system_decision_def run_with_def)+

lemma persist_payments_ok:
  assumes ok: "payments_ok db" and p: "persist_audit_run D rt Z fresh now ref i db = Inr (db', s)" and new: "run_is_new (fresh ''audit_run'' 0) db"
  shows "payments_ok db'"
proof -
  let ?run = "fresh ''audit_run'' 0"
  obtain ds where ds: "ad_decisions db' = ad_decisions db @ ds"
    and def: "default_decision rt (ar_outcome (pi_result i)) (holds_by_default (pi_client_id i) db)
        (system_decision (fresh ''payment_gate_decision'' 0) now (pi_client_id i) (fresh ''invoice'' 0) ?run) (failure_views fresh (pi_result i)) ds"
    using persist_effect(1) [OF p new] by blast
  obtain r where r: "ad_runs db' = ad_runs db @ [r]" "run_id r = ?run" "run_account_id r = pi_client_id i" "run_outcome r = ar_outcome (pi_result i)"
    using persist_effect(6) [OF p new] by (auto simp: store_run_def Let_def)
  have "run_with (ad_runs db') (system_decision x now (pi_client_id i) y ?run a t) (ar_outcome (pi_result i))" for x y a t
    using r by (auto simp: run_with_def system_decision_def)
  note def_ok = default_decision_ok [OF def this]
  have "decision_key ` set (ad_decisions db) \<inter> decision_key ` set ds = {}"
    using new def_ok(2) by (auto simp: run_is_new_def decision_key_def)
  moreover have "set (ad_events db) \<subseteq> set (ad_events db')" using persist_effect(5) [OF p new] by (rule set_mono_prefix)
  then have "\<forall>d \<in> set (ad_decisions db). action_ok (pg_action d) (ad_runs db') (ad_events db') d"
    using ok action_ok_mono [of _ "ad_runs db" "ad_events db" _ "ad_runs db'" "ad_events db'"] r(1) by (simp add: payments_ok_def subset_insertI)
  ultimately show ?thesis
    using ok new def_ok(1,3) ds r(1,2) by (auto simp: payments_ok_def run_is_new_def)
qed

lemma ingest_payments_ok:
  assumes ok: "payments_ok db" and ing: "ingest_invoice D rt Z L fresh now ref i db = Inr (db', run, invoice_id, outc)"
    and new: "run_is_new (fresh ''audit_run'' 0) db"
  shows "payments_ok db'"
proof -
  obtain db2 pin db3 p where s: "persist_audit_run D rt Z fresh now ref pin db2 = Inr (db3, p)" "run_is_new (fresh ''audit_run'' 0) db2"
    and a: "appends [] db3 db'" and f: "ad_runs db2 = ad_runs db" "ad_decisions db2 = ad_decisions db" "prefix (ad_events db) (ad_events db2)"
    by (rule ingest_persists [OF ing new])
  have "distinct (map run_id (ad_runs db))" using ok by (simp add: payments_ok_def)
  then have "payments_ok db2" using f by (intro payments_ok_frame [OF ok]) simp_all
  then show ?thesis using payments_ok_events [OF persist_payments_ok [OF _ s] a] by blast
qed

text \<open>
  The transactions of the audit and payment modules: a step of the payment gate, or the ingestion of an
  invoice under a run identifier that does not occur yet.
\<close>

inductive audit_step ::
  "'d decimal_lib \<Rightarrow> runtime \<Rightarrow> zod_lib \<Rightarrow> ingest_lib \<Rightarrow> (instant \<Rightarrow> string) \<Rightarrow> audit_db \<Rightarrow> audit_db \<Rightarrow> bool"
  for D rt Z L isof where
  gated: "payment_step D rt Z isof db db' \<Longrightarrow> audit_step D rt Z L isof db db'"
| ingested: "ingest_invoice D rt Z L fresh now ref i db = Inr (db', run, invoice_id, outc) \<Longrightarrow> run_is_new (fresh ''audit_run'' 0) db \<Longrightarrow>
    audit_step D rt Z L isof db db'"

lemma audit_run_ok:
  assumes "(audit_step D rt Z L isof)\<^sup>*\<^sup>* db db'" and "payments_ok db"
  shows "payments_ok db'"
  using assms
proof (induction rule: rtranclp_induct)
  case (step y z)
  from step(2) show ?case
    by cases (use step payment_step_ok ingest_payments_ok in blast)+
qed simp

end
