(* ===== verification/Replay_Properties.thy ===== *)
theory Replay_Properties
  imports Ingestion_Properties Audit_Properties
begin

text \<open>
  Why a stored run replays: the pins of the manifest stay valid while the tables only grow, and the
  stored documents read back as the invoice and the inputs that were evaluated.
\<close>

section \<open>Pins\<close>

definition reference_keys_ok :: "reference_db \<Rightarrow> bool" where
  "reference_keys_ok ref \<longleftrightarrow> distinct (map rvr_id (rf_rule_versions ref)) \<and> distinct (map fst (rf_contract_versions ref))"

lemma document_hash_prefix:
  "document_hash db d = Some h \<Longrightarrow> prefix (ad_documents db) (ad_documents db') \<Longrightarrow> document_hash db' d = Some h"
  by (auto simp: document_hash_def dest: find_prefix)

lemma contract_hash_prefix:
  "contract_hash db doc = Some h \<Longrightarrow> prefix (ad_documents db) (ad_documents db') \<Longrightarrow> contract_hash db' doc = Some h"
  by (cases doc) (auto simp: contract_hash_def intro: document_hash_prefix)

text \<open>Rule and contract versions are only added to: the application may insert and read them, nothing else.\<close>

definition reference_grows :: "reference_db \<Rightarrow> reference_db \<Rightarrow> bool" where
  "reference_grows ref ref' \<longleftrightarrow>
     prefix (rf_rule_versions ref) (rf_rule_versions ref') \<and> prefix (rf_contract_versions ref) (rf_contract_versions ref')"

lemma map_of_prefix: "map_of xs k = Some v \<Longrightarrow> prefix xs ys \<Longrightarrow> map_of ys k = Some v"
  by (auto simp: prefix_def)

lemma rule_pins_valid:
  assumes "reference_keys_ok ref" and "(i, h) \<in> set (rule_pins ref ids)" and "reference_grows ref ref'"
  shows "\<exists>v. find (\<lambda>v. rvr_id v = i) (rf_rule_versions ref') = Some v \<and> h = Some (rvr_ast_hash v)"
proof -
  obtain v where v: "v \<in> set (rf_rule_versions ref)" "i = rvr_id v" "h = Some (rvr_ast_hash v)"
    using assms(2) by (auto simp: rule_pins_def)
  then have "find (\<lambda>v. rvr_id v = i) (rf_rule_versions ref) = Some v"
    using find_by_key [of rvr_id "rf_rule_versions ref" v] assms(1) by (auto simp: reference_keys_ok_def)
  then show ?thesis using v(3) assms(3) by (auto simp: reference_grows_def dest: find_prefix)
qed

lemma contract_pins_valid:
  assumes "reference_keys_ok ref" and "(i, Some h) \<in> set (contract_pins ref db ids)" and "prefix (ad_documents db) (ad_documents db')"
    and "reference_grows ref ref'"
  shows "Option.bind (map_of (rf_contract_versions ref') i) (contract_hash db') = Some h"
proof -
  obtain doc where d: "(i, doc) \<in> set (rf_contract_versions ref)" "contract_hash db doc = Some h"
    using assms(2) by (auto simp: contract_pins_def split: option.splits if_splits)
  have "map_of (rf_contract_versions ref) i = Some doc"
    using d(1) assms(1) by (intro map_of_is_SomeI) (simp_all add: reference_keys_ok_def)
  then have "map_of (rf_contract_versions ref') i = Some doc"
    using assms(4) by (auto simp: reference_grows_def intro: map_of_prefix)
  then show ?thesis using contract_hash_prefix [OF d(2) assms(3)] by simp
qed

lemma verify_pins_stored:
  assumes ref: "reference_keys_ok ref" and grow: "reference_grows ref ref'" and pre: "prefix (ad_documents db) (ad_documents db')"
    and src: "\<forall>(d, h) \<in> set (pi_source_documents i). document_hash db d = Some h"
  shows "verify_pins ref' db' (manifest_of ref db run resolved i) = Inr ()"
proof -
  have s: "list_all (\<lambda>(d, h). document_hash db' d = Some h) (pi_source_documents i)"
    using src document_hash_prefix [OF _ pre] by (auto simp: list_all_iff)
  have r: "list_all (\<lambda>(j, h). case find (\<lambda>v. rvr_id v = j) (rf_rule_versions ref') of None \<Rightarrow> False
      | Some v \<Rightarrow> (case h of None \<Rightarrow> True | Some x \<Rightarrow> x = [] \<or> rvr_ast_hash v = x)) (rule_pins ref ids)" for ids
    using rule_pins_valid [OF ref _ grow] by (fastforce simp: list_all_iff)
  have c: "list_all (\<lambda>(j, h). case h of None \<Rightarrow> True
      | Some x \<Rightarrow> x = [] \<or> Option.bind (map_of (rf_contract_versions ref') j) (contract_hash db') = Some x) (contract_pins ref db ids)" for ids
    using contract_pins_valid [OF ref _ pre grow] by (auto simp: list_all_iff split: option.splits)
  show ?thesis using s r c by (simp add: verify_pins_def manifest_of_def)
qed

lemma contract_pins_empty: "contract_pins ref db ids = [] \<longleftrightarrow> (\<forall>v \<in> set ids. v \<notin> fst ` set (rf_contract_versions ref))"
proof -
  have "js_sort (by_text fst) xs = [] \<longleftrightarrow> xs = []" for xs :: "(uuid \<times> uuid option) list" by (metis mset_js_sort mset_zero_iff)
  then show ?thesis by (auto simp: contract_pins_def filter_empty_conv rev_image_eqI)
qed

section \<open>The manifest of an ingested run\<close>

lemma evaluate_invoice_engine:
  "evaluate_invoice D rt iv rubric c = Inr r \<Longrightarrow>
   pin_engine_spec_version (ar_pins r) = ENGINE_SPEC_VERSION \<and> pin_rubric_content_hash (ar_pins r) = rubric_content_hash rt rubric"
  by (auto simp: evaluate_invoice_def rbind_eq_Inr Let_def split: if_splits)

lemma stored_document_hash:
  assumes s: "store_source_document L new_id client bytes ct db = Inr (db', doc, sha256)"
    and d: "distinct (map sd_id (ad_documents db))" and new: "new_id \<notin> sd_id ` set (ad_documents db)"
  shows "document_hash db' doc = Some sha256" "db' = db\<lparr>ad_documents := ad_documents db'\<rparr>" "prefix (ad_documents db) (ad_documents db')"
proof -
  obtain sha uri n where p: "il_put L bytes = (sha, uri, n)" by (cases "il_put L bytes")
  let ?row = "\<lparr>sd_id = new_id, sd_account_id = Some client, sd_sha256 = sha, sd_content_type = ct, sd_byte_size = n, sd_storage_uri = uri\<rparr>"
  have "find (\<lambda>x. sd_id x = new_id) (ad_documents db) = None" using new by (auto simp: find_None_iff)
  then have f: "find (\<lambda>x. sd_id x = new_id) (ad_documents db @ [?row]) = Some ?row" by (simp add: find_append_None)
  have k: "find (\<lambda>x. sd_id x = sd_id r) (ad_documents db) = Some r" if "r \<in> set (ad_documents db)" for r
    using find_by_key [OF d that] .
  show "document_hash db' doc = Some sha256" "db' = db\<lparr>ad_documents := ad_documents db'\<rparr>" "prefix (ad_documents db) (ad_documents db')"
  proof (atomize(full), cases "list_ex (\<lambda>b. sql_eq (sd_account_id b) (Some client) \<and> sd_sha256 b = sha) (ad_documents db)")
    case False
    then have e: "db' = db\<lparr>ad_documents := ad_documents db @ [?row]\<rparr>" "doc = new_id" "sha256 = sha"
      using s by (auto simp: store_source_document_def p insert_row_def)
    show "document_hash db' doc = Some sha256 \<and> db' = db\<lparr>ad_documents := ad_documents db'\<rparr> \<and> prefix (ad_documents db) (ad_documents db')"
      unfolding e using f by (simp add: document_hash_def)
  next
    case True
    then obtain r where e: "find (\<lambda>d. sd_account_id d = Some client \<and> sd_sha256 d = sha) (ad_documents db) = Some r" "db' = db" "doc = sd_id r" "sha256 = sha"
      using s by (simp add: store_source_document_def p insert_row_def split: option.splits)
    show "document_hash db' doc = Some sha256 \<and> db' = db\<lparr>ad_documents := ad_documents db'\<rparr> \<and> prefix (ad_documents db) (ad_documents db')"
      using find_Some_in [OF e(1)] k unfolding e by (simp add: document_hash_def)
  qed
qed

text \<open>The parts of a successful ingestion the replay depends on.\<close>

lemma ingested_manifest:
  assumes ing: "ingest_invoice D rt Z L fresh now ref i db = Inr (db', run, invoice_id, outc)"
    and new: "run_is_new (fresh ''audit_run'' 0) db"
    and docs: "distinct (map sd_id (ad_documents db))" "fresh ''source_document'' 0 \<notin> sd_id ` set (ad_documents db)"
  obtains iv inputs r resolved pin h db2 where
    "evaluate_invoice D rt iv (if with_contract (ig_contract_version_id i) = None then STANDARD_RUBRIC else CONTRACT_RUBRIC) (Some inputs) = Inr r"
    "cf_external_resolutions inputs = []" "outc = ar_outcome r" "run = fresh ''audit_run'' 0"
    "pin = ingest_persist_input i iv (fst (hd (pi_source_documents pin)), snd (hd (pi_source_documents pin))) (r, inputs_json inputs)"
    "\<forall>(d, h) \<in> set (pi_source_documents pin). document_hash db2 d = Some h"
    "replay_manifest_hash rt (manifest_of ref db2 run resolved pin) = Some h"
    "ad_manifests db' = ad_manifests db @ [\<lparr>mf_account_id = ig_client_id i, mf_audit_run_id = run, mf_content_hash = h,
        mf_manifest = manifest_of ref db2 run resolved pin\<rparr>]"
    "ad_documents db' = ad_documents db2"
proof -
  obtain db1 doc sha256 db2 b2 ts categorize iv rj db3 p b4 where
    st: "store_source_document L (fresh ''source_document'' 0) (ig_client_id i) (ig_bytes i) (ig_content_type i) db = Inr (db1, doc, sha256)"
    and w1: "write_db_event now (source_stored_event rt (ig_client_id i) doc (ig_content_type i) sha256) db1 = Inr (db2, b2)"
    and ev: "resolve_and_evaluate D rt ref (ig_client_id i) iv (ig_contract_version_id i) db2 = Inr rj"
    and ps: "persist_audit_run D rt Z fresh now ref (ingest_persist_input i iv (doc, sha256) rj) db2 = Inr (db3, p)"
    and w2: "write_db_event now (audit_created_event rt (ig_client_id i) p (ar_outcome (fst rj)) ts) db3 = Inr (db', b4)"
    and out: "run = pr_audit_run_id p" "outc = ar_outcome (fst rj)"
    by (rule ingest_stages [OF ing])
  note sd = stored_document_hash [OF st docs]
  note a1 = appends_fields [OF write_db_event_appends [OF w1]] appends_frame [OF write_db_event_appends [OF w1]]
  note a2 = appends_fields [OF write_db_event_appends [OF w2]] appends_frame [OF write_db_event_appends [OF w2]]
  have same: "ad_runs db1 = ad_runs db" "ad_decisions db1 = ad_decisions db" "ad_gate_failures db1 = ad_gate_failures db"
    "ad_manifests db1 = ad_manifests db" by (subst sd(2), simp)+
  have new2: "run_is_new (fresh ''audit_run'' 0) db2" using new a1 same by (simp add: run_is_new_def)
  let ?in = "resolve_inputs ref (ig_client_id i) iv (ig_contract_version_id i) db2"
  let ?pin = "ingest_persist_input i iv (doc, sha256) rj"
  have e: "evaluate_invoice D rt iv (if with_contract (ig_contract_version_id i) = None then STANDARD_RUBRIC else CONTRACT_RUBRIC) (Some ?in) = Inr (fst rj)"
    and j: "snd rj = inputs_json ?in"
    using ev by (auto simp: resolve_and_evaluate_def Let_def split: sum.splits if_splits)
  obtain resolved h where m: "replay_manifest_hash rt (manifest_of ref db2 (fresh ''audit_run'' 0) resolved ?pin) = Some h"
      "ad_manifests db3 = ad_manifests db2 @ [\<lparr>mf_account_id = pi_client_id ?pin, mf_audit_run_id = fresh ''audit_run'' 0, mf_content_hash = h,
        mf_manifest = manifest_of ref db2 (fresh ''audit_run'' 0) resolved ?pin\<rparr>]"
    using persist_effect(2) [OF ps new2] by blast
  have run: "run = fresh ''audit_run'' 0" using persist_effect(7) [OF ps new2] out by simp
  have rj: "rj = (fst rj, inputs_json ?in)" using j by (metis prod.collapse)
  have d2: "document_hash db2 doc = Some sha256" using sd(1) a1 by (simp add: document_hash_def)
  show thesis
  proof (rule that [OF e _ out(2) run, of ?pin db2 resolved h])
    show "cf_external_resolutions ?in = []" by (simp add: resolve_inputs_def)
    show "?pin = ingest_persist_input i iv (fst (hd (pi_source_documents ?pin)), snd (hd (pi_source_documents ?pin))) (fst rj, inputs_json ?in)"
      using rj by (simp add: ingest_persist_input_def)
    show "\<forall>(d, h) \<in> set (pi_source_documents ?pin). document_hash db2 d = Some h" using d2 by (simp add: ingest_persist_input_def)
    show "replay_manifest_hash rt (manifest_of ref db2 run resolved ?pin) = Some h" using m run by simp
    show "ad_manifests db' = ad_manifests db @ [\<lparr>mf_account_id = ig_client_id i, mf_audit_run_id = run, mf_content_hash = h,
        mf_manifest = manifest_of ref db2 run resolved ?pin\<rparr>]"
      using m(2) a1 a2 same run by (simp add: ingest_persist_input_def)
    show "ad_documents db' = ad_documents db2" using persist_effect(3) [OF ps new2] a2 by simp
  qed
qed

section \<open>The replay of an ingested run\<close>

text \<open>The contract version of the request is one the tenant can see.\<close>

definition contract_known :: "reference_db \<Rightarrow> uuid option \<Rightarrow> bool" where
  "contract_known ref version \<longleftrightarrow> (case with_contract version of None \<Rightarrow> True | Some v \<Rightarrow> v \<in> fst ` set (rf_contract_versions ref))"

lemma find_manifest:
  assumes "ad_manifests db' = ad_manifests db @ [row]" and "prefix (ad_manifests db') (ad_manifests db'')"
    and "\<forall>m \<in> set (ad_manifests db). mf_audit_run_id m \<noteq> run" and "mf_audit_run_id row = run"
  shows "find (\<lambda>m. mf_audit_run_id m = run) (ad_manifests db'') = Some row"
proof -
  have "find (\<lambda>m. mf_audit_run_id m = run) (ad_manifests db) = None" using assms(3) by (auto simp: find_None_iff)
  then have "find (\<lambda>m. mf_audit_run_id m = run) (ad_manifests db') = Some row" using assms(1,4) by (simp add: find_append_None)
  then show ?thesis using assms(2) by (rule find_prefix [rotated])
qed

lemma write_db_event_new:
  "parse_audit_event e = Some v \<Longrightarrow> ae_id v \<notin> ae_id ` set (ad_events db) \<Longrightarrow>
   write_db_event now e db = Inr (db\<lparr>ad_events := ad_events db @ [ledger_row now v]\<rparr>, True)"
  by (auto simp: write_db_event_def write_audit_event_def insert_row_def list_ex_iff image_iff split: sum.splits)

definition plain_name :: "string \<Rightarrow> bool" where
  "plain_name s \<longleftrightarrow> js_trim s = s \<and> ledger_name s"

lemma system_event_parses:
  assumes "\<forall>x. hex_digest (rt_sha256_hex rt x)" and "isUuid client" and "isUuid i" and "plain_name entity" and "plain_name event"
    and "finite_json (JObject detail)"
  shows "parse_audit_event (system_event rt client entity i event parts detail) = Some (system_event rt client entity i event parts detail)"
proof -
  have "''system'' \<in> set ACTOR_KINDS" by code_simp
  moreover have "isUuid (deterministic_audit_event_id rt parts)"
    unfolding deterministic_audit_event_id_def using assms(1) by (intro uuid_of_hex_is_uuid) simp
  ultimately show ?thesis using assms(2-)
    by (simp add: parse_audit_event_def system_event_def optional_uuid_def plain_name_def)
qed

lemma system_event_written:
  assumes "\<forall>x. hex_digest (rt_sha256_hex rt x)" and "isUuid client" and "isUuid i" and "plain_name entity" and "plain_name event"
    and "finite_json (JObject detail)" and "deterministic_audit_event_id rt parts \<notin> ae_id ` set (ad_events db)"
  shows "write_db_event now (system_event rt client entity i event parts detail) db =
     Inr (db\<lparr>ad_events := ad_events db @ [ledger_row now (system_event rt client entity i event parts detail)]\<rparr>, True)"
  using assms(7) by (intro write_db_event_new [OF system_event_parses [OF assms(1-6)]]) (simp add: system_event_def)

lemma replay_event_parses:
  assumes "isUuid run" and "isUuid (mn_client_id m)" and "\<forall>x. hex_digest (rt_sha256_hex rt x)"
  shows "parse_audit_event (replay_event rt m run mh oh h) = Some (replay_event rt m run mh oh h)"
proof -
  have "plain_name ''audit_run''" "plain_name ''replay.executed''" by code_simp+
  then show ?thesis unfolding replay_event_def using assms by (intro system_event_parses) simp_all
qed

lemma manifest_of_ingest:
  assumes "pin = ingest_persist_input i iv doc (r, j)"
  shows "mn_invoice (manifest_of ref db run resolved pin) = invoice_json iv" "mn_result (manifest_of ref db run resolved pin) = result_json r"
    "mn_resolved_inputs (manifest_of ref db run resolved pin) = j" "fst (mn_rubric (manifest_of ref db run resolved pin)) = None"
    "mn_engine_spec_version (manifest_of ref db run resolved pin) = pin_engine_spec_version (ar_pins r)"
    "mn_audit_run_id (manifest_of ref db run resolved pin) = run" "mn_client_id (manifest_of ref db run resolved pin) = ig_client_id i"
    "mn_contract_versions (manifest_of ref db run resolved pin) =
       contract_pins ref db (case with_contract (ig_contract_version_id i) of None \<Rightarrow> [] | Some v \<Rightarrow> [v])"
  by (simp_all add: assms manifest_of_def ingest_persist_input_def)

text \<open>The event a successful replay of a stored manifest writes, and when another event holds its identifier.\<close>

definition replay_evidence :: "runtime \<Rightarrow> manifest_row \<Rightarrow> audit_event" where
  "replay_evidence rt row =
     (let h = rt_sha256_hex rt (canonical_json (rt_number_string rt) (mn_result (mf_manifest row)))
      in replay_event rt (mf_manifest row) (mf_audit_run_id row) (mf_content_hash row) h h)"

definition replay_id_taken :: "runtime \<Rightarrow> uuid \<Rightarrow> audit_db \<Rightarrow> bool" where
  "replay_id_taken rt run db \<longleftrightarrow>
     (case find (\<lambda>m. mf_audit_run_id m = run) (ad_manifests db) of
        None \<Rightarrow> False
      | Some row \<Rightarrow>
          list_ex (\<lambda>e. ae_id e = ae_id (replay_evidence rt row)) (ad_events db) \<and>
          \<not> list_ex (same_evidence (replay_evidence rt row)) (ad_events db))"

lemma write_db_event_known:
  assumes "parse_audit_event e = Some e"
  shows "write_db_event now e db =
     (if \<not> list_ex (\<lambda>x. ae_id x = ae_id e) (ad_events db) then Inr (db\<lparr>ad_events := ad_events db @ [ledger_row now e]\<rparr>, True)
      else if list_ex (same_evidence e) (ad_events db) then Inr (db, False)
      else Inl (PaymentAuditError AuditEventConflictError))"
  using assms by (simp add: write_db_event_def write_audit_event_def insert_row_def)

text \<open>With the manifest and its pins in place a replay comes down to writing its event.\<close>

lemma replay_writes_event:
  assumes row: "find (\<lambda>m. mf_audit_run_id m = run) (ad_manifests db) = Some row" and hash: "replay_manifest_hash rt (mf_manifest row) = Some (mf_content_hash row)"
    and pins: "verify_pins ref db (mf_manifest row) = Inr ()" and engine: "mn_engine_spec_version (mf_manifest row) = ENGINE_SPEC_VERSION"
    and m: "fst (mn_rubric (mf_manifest row)) = None" "mn_audit_run_id (mf_manifest row) = run" "mn_result (mf_manifest row) = result_json r"
    and rep: "replay_evaluation D rt (mf_manifest row) = Inr r"
  shows "replay_audit_run D rt now ref run db =
     (case write_db_event now (replay_evidence rt row) db of
        Inl e \<Rightarrow> Inl (ReplayAuditError e)
      | Inr (db', _) \<Rightarrow> Inr (db', \<lparr>rr_manifest_hash = mf_content_hash row,
          rr_original_result_hash = rt_sha256_hex rt (canonical_json (rt_number_string rt) (result_json r)),
          rr_result_hash = rt_sha256_hex rt (canonical_json (rt_number_string rt) (result_json r)), rr_result = r\<rparr>))"
proof -
  have "manifest_ok (mf_manifest row)" using hash by (auto simp: replay_manifest_hash_def split: if_splits)
  moreover have "mf_audit_run_id row = run" using find_Some_in [OF row] by simp
  ultimately show ?thesis
    using assms by (simp add: replay_audit_run_def replay_evidence_def Let_def split: sum.split prod.split)
qed

lemma replay_known_contract:
  assumes ing: "ingest_invoice D rt Z L fresh now ref i db = Inr (db', run, invoice_id, outc)"
    and new: "run_is_new (fresh ''audit_run'' 0) db"
    and docs: "distinct (map sd_id (ad_documents db))" "fresh ''source_document'' 0 \<notin> sd_id ` set (ad_documents db)"
    and ref: "reference_keys_ok ref" and known: "contract_known ref (ig_contract_version_id i)"
    and later: "prefix (ad_manifests db') (ad_manifests db'')" "prefix (ad_documents db') (ad_documents db'')" "reference_grows ref ref'"
    and hex: "\<forall>x. hex_digest (rt_sha256_hex rt x)"
  shows "if replay_id_taken rt run db''
     then replay_audit_run D rt now' ref' run db'' = Inl (ReplayAuditError (PaymentAuditError AuditEventConflictError))
     else \<exists>db3 rr. replay_audit_run D rt now' ref' run db'' = Inr (db3, rr) \<and> rr_result_hash rr = rr_original_result_hash rr \<and>
       ar_outcome (rr_result rr) = outc \<and>
       (\<exists>row \<in> set (ad_manifests db'). mf_audit_run_id row = run \<and> mn_result (mf_manifest row) = result_json (rr_result rr)) \<and>
       appends [] db'' db3 \<and> (\<forall>again. replay_audit_run D rt again ref' run db3 = Inr (db3, rr))"
proof -
  obtain iv inputs r resolved pin h db2 where
    ev: "evaluate_invoice D rt iv (if with_contract (ig_contract_version_id i) = None then STANDARD_RUBRIC else CONTRACT_RUBRIC) (Some inputs) = Inr r"
    and ext: "cf_external_resolutions inputs = []" and out: "outc = ar_outcome r" and run: "run = fresh ''audit_run'' 0"
    and pin: "pin = ingest_persist_input i iv (fst (hd (pi_source_documents pin)), snd (hd (pi_source_documents pin))) (r, inputs_json inputs)"
    and src: "\<forall>(d, h) \<in> set (pi_source_documents pin). document_hash db2 d = Some h"
    and hash: "replay_manifest_hash rt (manifest_of ref db2 run resolved pin) = Some h"
    and mans: "ad_manifests db' = ad_manifests db @ [\<lparr>mf_account_id = ig_client_id i, mf_audit_run_id = run, mf_content_hash = h,
        mf_manifest = manifest_of ref db2 run resolved pin\<rparr>]"
    and dd: "ad_documents db' = ad_documents db2"
    by (rule ingested_manifest [OF ing new docs])
  let ?m = "manifest_of ref db2 run resolved pin"
  let ?row = "\<lparr>mf_account_id = ig_client_id i, mf_audit_run_id = run, mf_content_hash = h, mf_manifest = ?m\<rparr>"
  note m = manifest_of_ingest [OF pin, of ref db2 run resolved]
  have ok: "manifest_ok ?m" using hash by (auto simp: replay_manifest_hash_def split: if_splits)
  have row: "find (\<lambda>x. mf_audit_run_id x = run) (ad_manifests db'') = Some ?row"
    using new run by (intro find_manifest [OF mans later(1)]) (auto simp: run_is_new_def)
  have rub: "(if mn_contract_versions ?m \<noteq> [] then CONTRACT_RUBRIC else STANDARD_RUBRIC) =
      (if with_contract (ig_contract_version_id i) = None then STANDARD_RUBRIC else CONTRACT_RUBRIC)"
    using known by (auto simp: m contract_pins_empty contract_known_def split: option.splits)
  have rep: "replay_evaluation D rt ?m = Inr r"
    unfolding replay_evaluation_def rub by (simp add: m invoice_back inputs_back [OF ext] ev)
  let ?canon = "rt_sha256_hex rt (canonical_json (rt_number_string rt) (result_json r))"
  let ?e = "replay_evidence rt ?row"
  let ?rr = "\<lparr>rr_manifest_hash = h, rr_original_result_hash = ?canon, rr_result_hash = ?canon, rr_result = r\<rparr>"
  have replay: "replay_audit_run D rt t ref' run x =
      (case write_db_event t ?e x of Inl e \<Rightarrow> Inl (ReplayAuditError e) | Inr (x', _) \<Rightarrow> Inr (x', ?rr))"
    if same: "ad_manifests x = ad_manifests db''" "ad_documents x = ad_documents db''" for t x
  proof -
    have "verify_pins ref' x ?m = Inr ()"
      using later(2) src by (intro verify_pins_stored [OF ref later(3)]) (simp_all add: dd same(2))
    then show ?thesis
      using replay_writes_event [of run x ?row rt ref' r D t, unfolded manifest_row.simps] row rep hash evaluate_invoice_engine [OF ev]
      by (simp add: same(1) m(2,4-6))
  qed
  have "isUuid run" "isUuid (mn_client_id ?m)" using ok by (simp_all add: manifest_ok_def m)
  then have "parse_audit_event ?e = Some ?e"
    unfolding replay_evidence_def Let_def by (simp add: replay_event_parses [OF _ _ hex])
  note event = write_db_event_known [OF this]
  have stored: "\<exists>row \<in> set (ad_manifests db'). mf_audit_run_id row = run \<and> mn_result (mf_manifest row) = result_json r"
    by (rule bexI [of _ ?row]) (simp_all add: mans m(2))
  show ?thesis
  proof (cases "list_ex (\<lambda>x. ae_id x = ae_id ?e) (ad_events db'')")
    case True
    show ?thesis
    proof (cases "list_ex (same_evidence ?e) (ad_events db'')")
      case False
      then have "replay_id_taken rt run db''" using True row by (simp add: replay_id_taken_def)
      then show ?thesis using replay [of db'' now'] event [of now' db''] True False by simp
    next
      case same: True
      then have "\<not> replay_id_taken rt run db''" using row by (simp add: replay_id_taken_def)
      moreover have "replay_audit_run D rt t ref' run db'' = Inr (db'', ?rr)" for t
        using replay [of db'' t] event [of t db''] True same by simp
      ultimately show ?thesis using out stored by auto
    qed
  next
    case False
    let ?db3 = "db''\<lparr>ad_events := ad_events db'' @ [ledger_row now' ?e]\<rparr>"
    have "\<not> replay_id_taken rt run db''" using False row by (simp add: replay_id_taken_def)
    moreover have "replay_audit_run D rt now' ref' run db'' = Inr (?db3, ?rr)"
      using replay [of db'' now'] event [of now' db''] False by simp
    moreover have "replay_audit_run D rt t ref' run ?db3 = Inr (?db3, ?rr)" for t
      using replay [of ?db3 t] event [of t ?db3] by simp
    moreover have "appends [] db'' ?db3" by (simp add: appends_def)
    ultimately show ?thesis using out stored by auto
  qed
qed

text \<open>A ledger without an event under any identifier of the run's replays does not stand in their way.\<close>

lemma replay_id_free:
  assumes "\<forall>h. deterministic_audit_event_id rt [client, run, h, ''replay.executed''] \<notin> ae_id ` set (ad_events db)"
    and "\<forall>row \<in> set (ad_manifests db). mf_audit_run_id row = run \<longrightarrow> mn_client_id (mf_manifest row) = client"
  shows "\<not> replay_id_taken rt run db"
proof (cases "find (\<lambda>m. mf_audit_run_id m = run) (ad_manifests db)")
  case (Some row)
  then have row: "row \<in> set (ad_manifests db)" "mf_audit_run_id row = run" using find_Some_in [OF Some] by simp_all
  have "\<exists>h. ae_id (replay_evidence rt row) = deterministic_audit_event_id rt [client, run, h, ''replay.executed'']"
    using assms(2) row by (auto simp: replay_evidence_def replay_event_def system_event_def Let_def)
  then have "ae_id (replay_evidence rt row) \<notin> ae_id ` set (ad_events db)" using assms(1) by metis
  then have "\<not> list_ex (\<lambda>e. ae_id e = ae_id (replay_evidence rt row)) (ad_events db)" by (force simp: list_ex_iff)
  then show ?thesis by (simp add: replay_id_taken_def Some)
qed (simp add: replay_id_taken_def)

lemma ingested_client:
  assumes ing: "ingest_invoice D rt Z L fresh now ref i db = Inr (db', run, invoice_id, outc)"
    and new: "run_is_new (fresh ''audit_run'' 0) db"
    and docs: "distinct (map sd_id (ad_documents db))" "fresh ''source_document'' 0 \<notin> sd_id ` set (ad_documents db)"
    and row: "row \<in> set (ad_manifests db')" "mf_audit_run_id row = run"
  shows "mn_client_id (mf_manifest row) = ig_client_id i"
proof -
  obtain iv inputs r resolved pin h db2 where run: "run = fresh ''audit_run'' 0"
    and pin: "pin = ingest_persist_input i iv (fst (hd (pi_source_documents pin)), snd (hd (pi_source_documents pin))) (r, inputs_json inputs)"
    and mans: "ad_manifests db' = ad_manifests db @ [\<lparr>mf_account_id = ig_client_id i, mf_audit_run_id = run, mf_content_hash = h,
        mf_manifest = manifest_of ref db2 run resolved pin\<rparr>]"
    by (rule ingested_manifest [OF ing new docs])
  have "row \<notin> set (ad_manifests db)" using new row(2) run by (auto simp: run_is_new_def)
  then have "mf_manifest row = manifest_of ref db2 run resolved pin" using row(1) mans by auto
  then show ?thesis using manifest_of_ingest(7) [OF pin] by simp
qed

section \<open>A run of an unknown contract version\<close>

lemma finite_json_printable: "finite_json v \<longleftrightarrow> printable v"
  by (induction v) (auto simp: list_all_iff snds.simps case_prod_beta)

lemma printable_value [simp]: "printable (value_json v)"
  by (cases v) auto

lemma printable_eval_json:
  "evaluate D a facts = Inr ev \<Longrightarrow> printable (ast_json a) \<Longrightarrow> printable (eval_json ev)"
proof (induction D a facts arbitrary: ev rule: evaluate.induct)
  case (5 D op args facts)
  then obtain cs v where cs: "rtraverse (\<lambda>a. evaluate D a facts) args = Inr cs" and ev: "ev = EvalNode (AstArith op args) v (Some cs)"
    by (auto simp: result_simps)
  have "printable (eval_json c)" if "c \<in> set cs" for c
    using rtraverse_in_set [OF cs that] 5 by auto
  then show ?case using 5 by (auto simp: ev)
next
  case (7 D op args facts)
  then obtain cs v where cs: "rtraverse (\<lambda>a. evaluate D a facts) args = Inr cs" and ev: "ev = EvalNode (AstLogic op args) v (Some cs)"
    by (auto simp: result_simps)
  have "printable (eval_json c)" if "c \<in> set cs" for c
    using rtraverse_in_set [OF cs that] 7 by auto
  then show ?case using 7 by (auto simp: ev)
qed (auto simp: result_simps split: if_splits)

lemma normalize_member:
  assumes eq: "normalize_json (JObject ms) = normalize_json (JObject ms')" and d: "distinct (map fst ms')"
    and m: "(k, v) \<in> set ms" "(k, v') \<in> set ms'"
  shows "normalize_json v = normalize_json v'"
proof -
  let ?n = "map (\<lambda>(k, v). (k, normalize_json v))"
  have "set (js_sort key_order (?n ms)) = set (js_sort key_order (?n ms'))" using eq by (simp only: normalize_json.simps json.inject)
  then have "set (?n ms) = set (?n ms')" by (simp only: set_js_sort)
  then obtain w where "(k, w) \<in> set ms'" "normalize_json w = normalize_json v" using m(1) by force
  then show ?thesis using d m(2) by (metis eq_key_imp_eq_value)
qed

lemma same_pins:
  assumes "normalize_json (result_json r) = normalize_json (result_json r')"
  shows "pin_rubric_content_hash (ar_pins r) = pin_rubric_content_hash (ar_pins r')"
proof -
  have "normalize_json (pins_json (ar_pins r)) = normalize_json (pins_json (ar_pins r'))"
    using assms unfolding result_json_def by (rule normalize_member [where k = "''pins''"]) simp_all
  then have "normalize_json (JString (pin_rubric_content_hash (ar_pins r))) = normalize_json (JString (pin_rubric_content_hash (ar_pins r')))"
    unfolding pins_json_def by (rule normalize_member [where k = "''rubricContentHash''"]) simp_all
  then show ?thesis by simp
qed

lemma ordered_criteria_in: "c \<in> set (ordered_criteria rt r k) \<Longrightarrow> c \<in> set (rub_criteria r)"
  by (auto simp: ordered_criteria_def)

lemma gate_phase_failures:
  assumes "gate_phase D facts cs = Inr fs" and "g \<in> set fs"
  shows "\<exists>c \<in> set cs. evaluate D (cr_ast c) facts = Inr (gf_evaluated_expr g)"
  using assms by (fastforce simp: gate_phase_def gate_failure_of_def result_simps map_filter_def Let_def
      dest: rtraverse_in_set split: if_splits)

lemma score_findings:
  assumes "rfold (score_step D facts) s cs = Inr s'" and "f \<in> set (ss_findings s')" and "f \<notin> set (ss_findings s)"
  shows "\<exists>c \<in> set cs. evaluate D (cr_ast c) facts = Inr (fi_evaluated_expr f)"
  using assms
proof (induction cs arbitrary: s)
  case (Cons c cs)
  then obtain s1 where s1: "score_step D facts s c = Inr s1" "rfold (score_step D facts) s1 cs = Inr s'" by (auto simp: result_simps)
  show ?case
  proof (cases "f \<in> set (ss_findings s1)")
    case True
    obtain ev where ev: "evaluate D (cr_ast c) facts = Inr ev" using s1(1) by (auto simp: score_step_def result_simps)
    have "fi_evaluated_expr f = ev"
      using s1(1) Cons.prems(3) True
      by (cases "result_of_verdict (verdict ev)") (auto simp: score_step_def result_simps Let_def ev split: option.splits)
    then show ?thesis using ev by simp
  next
    case False
    then show ?thesis using Cons.IH [OF s1(2) Cons.prems(2)] by auto
  qed
qed simp

lemma printable_result:
  assumes e: "evaluate_invoice D rt iv rubric c = Inr r" and f: "finite_rubric rubric"
  shows "printable (result_json r)"
proof -
  obtain facts fs where g: "gate_phase D facts (ordered_criteria rt rubric GATING) = Inr fs"
    and r: "fs \<noteq> [] \<and> ar_gate_failures r = fs \<and> ar_findings r = [] \<or>
      (\<exists>s. ar_gate_failures r = [] \<and> rfold (score_step D facts) (score_init D) (ordered_criteria rt rubric SCORING) = Inr s \<and> ar_findings r = ss_findings s)"
    using e by (auto simp: evaluate_invoice_def rbind_eq_Inr Let_def split: if_splits)
  have "ss_findings (score_init D) = []" by (simp add: score_init_def)
  then have "(\<forall>g \<in> set (ar_gate_failures r). \<exists>k \<in> set (rub_criteria rubric). evaluate D (cr_ast k) facts = Inr (gf_evaluated_expr g)) \<and>
      (\<forall>g \<in> set (ar_findings r). \<exists>k \<in> set (rub_criteria rubric). evaluate D (cr_ast k) facts = Inr (fi_evaluated_expr g))"
    using r gate_phase_failures [OF g] score_findings ordered_criteria_in
    by (metis empty_iff list.set(1))
  then have "\<forall>g \<in> set (ar_gate_failures r). printable (eval_json (gf_evaluated_expr g))"
    "\<forall>g \<in> set (ar_findings r). printable (eval_json (fi_evaluated_expr g))"
    using f printable_eval_json unfolding finite_rubric_def list_all_iff by metis+
  then show ?thesis
    by (auto simp: result_json_def gate_failure_json_def finding_json_def scorecard_json_def marker_json_def strings_json_def pins_json_def
        opt_member_def null_or_def split: option.splits)
qed

lemma replayed_result:
  assumes "replay_audit_run D rt now ref run db = Inr x"
    and "find (\<lambda>r. mf_audit_run_id r = run) (ad_manifests db) = Some row"
  obtains r where "replay_evaluation D rt (mf_manifest row) = Inr r"
    and "canonical_json (rt_number_string rt) (result_json r) = canonical_json (rt_number_string rt) (mn_result (mf_manifest row))"
  using assms unfolding replay_audit_run_def Let_def option.case rbind_eq_Inr ensure_eq_Inr
  by (simp only: option.case rbind_eq_Inr ensure_eq_Inr) blast

lemma replayed_rubric:
  assumes "replay_evaluation D rt m = Inr r"
  obtains iv inputs where
    "evaluate_invoice D rt iv (if mn_contract_versions m \<noteq> [] then CONTRACT_RUBRIC else STANDARD_RUBRIC) (Some inputs) = Inr r"
  using assms unfolding replay_evaluation_def
  by (cases "invoice_of_json (mn_invoice m)"; cases "inputs_of_json (mn_resolved_inputs m)")
    (auto split: sum.splits simp del: if_split if_splits)

lemma replay_unknown_contract:
  assumes ing: "ingest_invoice D rt Z L fresh now ref i db = Inr (db', run, invoice_id, outc)"
    and new: "run_is_new (fresh ''audit_run'' 0) db"
    and docs: "distinct (map sd_id (ad_documents db))" "fresh ''source_document'' 0 \<notin> sd_id ` set (ad_documents db)"
    and unknown: "\<not> contract_known ref (ig_contract_version_id i)"
    and later: "prefix (ad_manifests db') (ad_manifests db'')"
    and np: "number_printer (rt_number_string rt)"
    and differ: "rubric_content_hash rt STANDARD_RUBRIC \<noteq> rubric_content_hash rt CONTRACT_RUBRIC"
  shows "replay_audit_run D rt now' ref' run db'' \<noteq> Inr x"
proof
  assume rep: "replay_audit_run D rt now' ref' run db'' = Inr x"
  obtain iv inputs r resolved pin h db2 where
    ev: "evaluate_invoice D rt iv (if with_contract (ig_contract_version_id i) = None then STANDARD_RUBRIC else CONTRACT_RUBRIC) (Some inputs) = Inr r"
    and run: "run = fresh ''audit_run'' 0"
    and pin: "pin = ingest_persist_input i iv (fst (hd (pi_source_documents pin)), snd (hd (pi_source_documents pin))) (r, inputs_json inputs)"
    and hash: "replay_manifest_hash rt (manifest_of ref db2 run resolved pin) = Some h"
    and mans: "ad_manifests db' = ad_manifests db @ [\<lparr>mf_account_id = ig_client_id i, mf_audit_run_id = run, mf_content_hash = h,
        mf_manifest = manifest_of ref db2 run resolved pin\<rparr>]"
    by (rule ingested_manifest [OF ing new docs])
  let ?m = "manifest_of ref db2 run resolved pin"
  note m = manifest_of_ingest [OF pin, of ref db2 run resolved]
  have row: "find (\<lambda>x. mf_audit_run_id x = run) (ad_manifests db'') =
      Some \<lparr>mf_account_id = ig_client_id i, mf_audit_run_id = run, mf_content_hash = h, mf_manifest = ?m\<rparr>"
    using new run by (intro find_manifest [OF mans later]) (auto simp: run_is_new_def)
  have c: "with_contract (ig_contract_version_id i) \<noteq> None" "mn_contract_versions ?m = []"
    using unknown by (auto simp: contract_known_def m(8) contract_pins_empty split: option.splits)
  obtain r' where e': "replay_evaluation D rt ?m = Inr r'"
    and same: "canonical_json (rt_number_string rt) (result_json r') = canonical_json (rt_number_string rt) (result_json r)"
    by (rule replayed_result [OF rep row]) (simp add: m(2))
  obtain iv' in' where r': "evaluate_invoice D rt iv' STANDARD_RUBRIC (Some in') = Inr r'"
    by (rule replayed_rubric [OF e']) (simp add: c(2))
  have "printable (result_json r)" using hash by (auto simp: replay_manifest_hash_def manifest_ok_def m(2) finite_json_printable split: if_splits)
  then have "normalize_json (result_json r') = normalize_json (result_json r)"
    using same number_printer.canonical_json_inj [OF np] printable_result [OF r' finite_rubrics(1)] by blast
  then have "pin_rubric_content_hash (ar_pins r') = pin_rubric_content_hash (ar_pins r)" by (rule same_pins)
  moreover have "pin_rubric_content_hash (ar_pins r) = rubric_content_hash rt CONTRACT_RUBRIC"
    using evaluate_invoice_engine [OF ev] c(1) by simp
  ultimately show False using evaluate_invoice_engine [OF r'] differ by simp
qed

end
