(* ===== verification/Duplicate_Detection.thy ===== *)
theory Duplicate_Detection
  imports Replay_Properties
begin

text \<open>
  A document that was ingested before is recognized: its invoice number is found among the stored
  invoices, and the criterion on duplicates fails in a scored audit.
\<close>

section \<open>The number of a document\<close>

definition document_number :: "string \<Rightarrow> string option" where
  "document_number raw = (case parse_x12 raw of Inl _ \<Rightarrow> None | Inr ix \<Rightarrow> fst (read_b3_header ix))"

lemma envelope_interchange: "parse_edi_envelope raw g = Inr ix \<Longrightarrow> parse_x12 raw = Inr ix"
  by (auto simp: parse_edi_envelope_def rbind_eq_Inr Let_def split: sum.splits if_splits option.splits)

lemma adapter_number:
  "parse210 D raw categorize = Inr iv \<Longrightarrow> inv_invoice_number iv = document_number raw \<and> inv_transaction_set iv = TS210"
  "parse310 D raw categorize = Inr iv \<Longrightarrow> inv_invoice_number iv = document_number raw \<and> inv_transaction_set iv = TS310"
  by (auto simp: parse210_def parse310_def rbind_eq_Inr Let_def case_prod_unfold document_number_def dest!: envelope_interchange)

lemma parsed_number:
  assumes "parse_invoice D ts raw categorize = Inr iv"
  shows "inv_invoice_number iv = document_number raw" "inv_transaction_set iv = (if ts = TS210 then TS210 else TS310)"
  using assms adapter_number [of D raw categorize iv] by (auto simp: parse_invoice_def split: sum.splits if_splits)

text \<open>A number that is not blank, and whose padding both \<open>trim\<close> and \<open>btrim\<close> remove.\<close>

definition plain_number :: "string option \<Rightarrow> bool" where
  "plain_number n \<longleftrightarrow> (case n of None \<Rightarrow> False | Some s \<Rightarrow> js_trim s \<noteq> [] \<and> pg_btrim s = js_trim s)"

lemma stored_number_detected:
  assumes "plain_number n" and "iv \<in> set (ad_invoices db)" and "iv_account_id iv = client" and "iv_transaction_set iv = ts"
    and "iv_invoice_number iv = n"
  shows "detect_duplicate_invoice client n ts db = Some True"
  using assms by (auto simp: detect_duplicate_invoice_def plain_number_def list_ex_iff split: option.splits)

lemma ingested_invoice:
  assumes ing: "ingest_invoice D rt Z L fresh now ref i db = Inr (db', run, invoice_id, outc)"
    and new: "run_is_new (fresh ''audit_run'' 0) db"
  obtains iv ts where "iv \<in> set (ad_invoices db')" "iv_account_id iv = ig_client_id i"
    "iv_invoice_number iv = document_number (il_utf8 L (ig_bytes i))"
    "detect_transaction_set (il_utf8 L (ig_bytes i)) = Inr ts" "iv_transaction_set iv = (if ts = TS210 then TS210 else TS310)"
proof -
  obtain db2 ts categorize iv pin db3 p where
    ts: "detect_transaction_set (il_utf8 L (ig_bytes i)) = Inr ts"
    and iv: "parse_invoice D ts (il_utf8 L (ig_bytes i)) categorize = Inr iv"
    and pin: "pi_client_id pin = ig_client_id i" "pi_invoice pin = iv"
    and p: "persist_audit_run D rt Z fresh now ref pin db2 = Inr (db3, p)" "run_is_new (fresh ''audit_run'' 0) db2" and a: "appends [] db3 db'"
    by (rule ingest_persists [OF ing new])
  obtain cs fs where "ad_invoices db' = ad_invoices (store_run fresh pin cs fs db2)"
    using persist_effect(6) [OF p] appends_frame(2) [OF a] by auto
  then obtain row where row: "ad_invoices db' = ad_invoices db2 @ [row]" "iv_account_id row = pi_client_id pin"
    "iv_transaction_set row = inv_transaction_set iv" "iv_invoice_number row = inv_invoice_number iv"
    using pin by (auto simp: store_run_def Let_def)
  show thesis by (rule that [of row, OF _ _ _ ts]) (simp_all add: row pin parsed_number [OF iv])
qed

section \<open>The criterion on duplicates\<close>

lemma fact_duplicate:
  assumes "build_fact_bundle D rt iv (Some c) = Inr facts"
  shows "facts ''duplicate_invoice'' = map_option FBool (cf_duplicate_invoice c)"
  using build_fact_bundle_lookup [OF assms, of "''duplicate_invoice''"]
  by (auto simp: bundle_of_def invoice_facts_def Let_def)

lemma duplicate_criterion:
  assumes "rubric = STANDARD_RUBRIC \<or> rubric = CONTRACT_RUBRIC"
  shows "\<exists>c \<in> set (rub_criteria rubric). cr_kind c = SCORING \<and> cr_key c = ''STD.DUPLICATE_INVOICE'' \<and>
     cr_ast c = AstRequire ''duplicate_invoice'' (fact_is ''duplicate_invoice'' (LBool False))"
  using assms by (auto simp: standard_defs CONTRACT_RUBRIC_def)

lemma scored_finding:
  assumes "evaluate_invoice D rt iv rubric contract = Inr r" and "ar_outcome r = SCORED"
    and c: "c \<in> set (rub_criteria rubric)" "cr_kind c = SCORING"
  obtains facts ev f where "build_fact_bundle D rt iv contract = Inr facts" "evaluate D (cr_ast c) facts = Inr ev"
    "f \<in> set (ar_findings r)" "fi_criterion_key f = cr_key c" "fi_result f = result_of_verdict (verdict ev)"
  using assms(1)
proof (cases rule: evaluate_invoice_cases)
  case (scored facts s)
  have "c \<in> set (ordered_criteria rt rubric SCORING)" using c by simp
  then obtain k where k: "k < length (ordered_criteria rt rubric SCORING)" "ordered_criteria rt rubric SCORING ! k = c"
    by (meson in_set_conv_nth)
  obtain fs where fs: "ss_findings s = fs" "list_all2 (\<lambda>c f. fi_criterion_key f = cr_key c \<and>
        (\<exists>ev. evaluate D (cr_ast c) facts = Inr ev \<and> fi_evaluated_expr f = ev \<and> fi_result f = result_of_verdict (verdict ev)))
      (ordered_criteria rt rubric SCORING) fs"
    using score_fold_findings [OF scored(3)] by (auto simp: score_init_def)
  have f: "fs ! k \<in> set (ar_findings r)" using list_all2_lengthD [OF fs(2)] k(1) scored fs(1) by simp
  obtain ev where "evaluate D (cr_ast c) facts = Inr ev" "fi_criterion_key (fs ! k) = cr_key c" "fi_result (fs ! k) = result_of_verdict (verdict ev)"
    using list_all2_nthD [OF fs(2) k(1)] k(2) by blast
  with scored(1) f that show thesis by blast
qed (use assms in simp)

lemma duplicate_finding:
  assumes "evaluate_invoice D rt iv rubric (Some c) = Inr r" and "ar_outcome r = SCORED"
    and "rubric = STANDARD_RUBRIC \<or> rubric = CONTRACT_RUBRIC" and "cf_duplicate_invoice c = Some True"
  shows "\<exists>f \<in> set (ar_findings r). fi_criterion_key f = ''STD.DUPLICATE_INVOICE'' \<and> fi_result f = VARIANCE"
proof -
  obtain k where k: "k \<in> set (rub_criteria rubric)" "cr_kind k = SCORING" "cr_key k = ''STD.DUPLICATE_INVOICE''"
    "cr_ast k = AstRequire ''duplicate_invoice'' (fact_is ''duplicate_invoice'' (LBool False))"
    using duplicate_criterion [OF assms(3)] by blast
  obtain facts ev f where f: "build_fact_bundle D rt iv (Some c) = Inr facts" "evaluate D (cr_ast k) facts = Inr ev"
    "f \<in> set (ar_findings r)" "fi_criterion_key f = cr_key k" "fi_result f = result_of_verdict (verdict ev)"
    by (rule scored_finding [OF assms(1,2) k(1,2)])
  have "facts ''duplicate_invoice'' = Some (FBool True)" using fact_duplicate [OF f(1)] assms(4) by simp
  then obtain child where "evaluate D (fact_is ''duplicate_invoice'' (LBool False)) facts = Inr child" "en_value child = VBool False"
    and "\<not> fact_absent facts ''duplicate_invoice''"
    using evaluate_fact_is_bool [of facts "''duplicate_invoice''" True D False] by (auto simp: fact_absent_def)
  then have "en_value ev = VBool False" using f(2) unfolding k(4) by (subst (asm) evaluate.simps) auto
  then have "verdict ev = FAIL" by (simp add: verdict_def)
  then show ?thesis using f k(3) by (auto simp: result_of_verdict_def)
qed

end
