(* ===== verification/Replay_Theorems.thy ===== *)
theory Replay_Theorems
  imports Replay_Properties Duplicate_Detection
begin

text \<open>
  The properties of ingestion and replay. Their witnesses ingest one small 210 without charge lines,
  which the rubric rejects, priced against a contract version the tenant has or has not.
\<close>

section \<open>A sample ingestion\<close>

definition w_client :: uuid where "w_client = ''00000000-0000-4000-8000-00000000aa01''"
definition w_doc :: uuid where "w_doc = ''00000000-0000-4000-8000-00000000bb01''"
definition w_invoice :: uuid where "w_invoice = ''00000000-0000-4000-8000-00000000bb02''"
definition w_run :: uuid where "w_run = ''00000000-0000-4000-8000-00000000bb03''"
definition w_failure :: uuid where "w_failure = ''00000000-0000-4000-8000-00000000bb04''"
definition w_decision :: uuid where "w_decision = ''00000000-0000-4000-8000-00000000bb05''"
definition w_contract :: uuid where "w_contract = ''00000000-0000-4000-8000-00000000cc01''"
definition w_version :: uuid where "w_version = ''00000000-0000-4000-8000-00000000cc02''"

definition w_fresh :: fresh_ids where
  "w_fresh t k =
     (if t = ''source_document'' then w_doc else if t = ''invoice'' then w_invoice else if t = ''audit_run'' then w_run
      else if t = ''payment_gate_decision'' then w_decision else w_failure)"

text \<open>A digest that tells the texts of the two rubrics apart and reads the others from their end.\<close>

definition w_digest :: "string \<Rightarrow> string" where
  "w_digest s =
     (if s \<noteq> [] \<and> hd s = CHR ''{''
      then replicate 64 (if s = stable_stringify fraction_string (rubric_json STANDARD_RUBRIC) then CHR ''f'' else CHR ''e'')
      else take 64 (filter is_hex_digit (rev s) @ replicate 64 CHR ''0''))"

definition w_runtime :: runtime where
  "w_runtime = \<lparr>rt_locale_compare = unit_compare, rt_sha256_hex = w_digest, rt_number_string = fraction_string\<rparr>"

definition w_zod :: zod_lib where
  "w_zod = \<lparr>zod_uuid = isUuid, zod_int = (\<lambda>_. True), zod_date = (\<lambda>_. None), zod_datetime = (\<lambda>_. None)\<rparr>"

definition w_lib :: ingest_lib where
  "w_lib = \<lparr>il_put = (\<lambda>b. (replicate 64 CHR ''a'', ''file'', length b)), il_utf8 = (\<lambda>b. b), il_matches = (\<lambda>_ _. False)\<rparr>"

text \<open>The reference data, with or without the contract version the request names.\<close>

definition w_ref :: "bool \<Rightarrow> reference_db" where
  "w_ref known =
     \<lparr>rf_criteria = [(''STD.HAS_CHARGES'', w_failure)], rf_rules = [(w_failure, ''std-has_charges'')],
      rf_rule_versions = [\<lparr>rvr_id = w_version, rvr_rule_id = w_failure, rvr_clause_id = None, rvr_recorded_at = 0,
                           rvr_ast_hash = replicate 64 CHR ''b''\<rparr>],
      rf_clauses = [], rf_contract_versions = (if known then [(w_contract, None)] else []), rf_snapshots = [], rf_shipments = [], rf_rates = [], rf_carriers = [],
      rf_crosswalk = []\<rparr>"

definition w_edi :: string where
  "w_edi = concat (map (\<lambda>s. s @ ''~'')
     [''ISA*00*          *00*          *ZZ*SENDER         *ZZ*RECEIVER       *250101*1200*U*00401*000000001*0*P*>'',
      ''ST*210*0001'', ''B3**INV1*SHIP1****0****ABCD''])"

definition w_input :: ingest_input where
  "w_input = \<lparr>ig_client_id = w_client, ig_bytes = w_edi, ig_content_type = None, ig_contract_version_id = Some w_contract\<rparr>"

definition w_empty :: audit_db where
  "w_empty = \<lparr>ad_documents = [], ad_invoices = [], ad_charge_facts = [], ad_runs = [], ad_markers = [], ad_gate_failures = [],
     ad_charge_findings = [], ad_findings = [], ad_scorecards = [], ad_manifests = [], ad_decisions = [], ad_policies = [], ad_events = []\<rparr>"

definition w_inputs :: contract_facts where
  "w_inputs = \<lparr>cf_linehaul_rate = Some None, cf_duplicate_invoice = Some False, cf_shipment_reference_match = Some False,
     cf_external_resolutions = []\<rparr>"

lemma w_digest_hex: "hex_digest (rt_sha256_hex w_runtime s)"
proof -
  have "is_hex_digit CHR ''e''" "is_hex_digit CHR ''f''" "is_hex_digit CHR ''0''" by code_simp+
  then show ?thesis by (auto simp: w_runtime_def w_digest_def hex_digest_def list_all_iff dest!: in_set_takeD)
qed

lemma w_uuids [simp]: "isUuid w_client" "isUuid w_doc" "isUuid w_run" "isUuid w_decision" "isUuid w_contract" "isUuid w_version" "w_contract \<noteq> []"
  by code_simp+

definition w_event_ids :: "uuid list" where
  "w_event_ids = map (deterministic_audit_event_id w_runtime)
     [[w_client, w_doc, ''ingestion.source_stored''], [w_client, w_run, ''do-not-pay-decision''],
      [w_client, w_run, ''evaluation.completed''], [w_client, w_run, ''ingestion.audit_created'']]"

lemma w_new_ids:
  "deterministic_audit_event_id w_runtime [w_client, w_run, ''do-not-pay-decision''] \<notin> set (take 1 w_event_ids)"
  "deterministic_audit_event_id w_runtime [w_client, w_run, ''evaluation.completed''] \<notin> set (take 2 w_event_ids)"
  "deterministic_audit_event_id w_runtime [w_client, w_run, ''ingestion.audit_created''] \<notin> set (take 3 w_event_ids)"
  by code_simp+

definition w_parsed :: parsed_invoice where
  "w_parsed = \<lparr>inv_transaction_set = TS210, inv_parser_version = ''210-v1'', inv_invoice_number = Some ''INV1'',
     inv_shipment_references = Some [''SHIP1''], inv_carrier_code = Some ''ABCD'', inv_container_numbers = None,
     inv_vessel_voyage = None, inv_port_codes = None, inv_header_currency = Some ''USD'', inv_charges = [],
     inv_footing = Some \<lparr>declared_total = Some ''0.0000'', line_sum = ''0.0000''\<rparr>, inv_quarantined_codes = []\<rparr>"

lemma w_parse:
  "detect_transaction_set w_edi = Inr TS210" "parse210 exact_decimal w_edi cat = Inr w_parsed"
  "\<exists>cat'. resolve_categorizer w_lib ref w_edi TS210 = Inr cat'"
proof -
  show d: "detect_transaction_set w_edi = Inr TS210" by code_simp
  show "parse210 exact_decimal w_edi cat = Inr w_parsed" by code_simp
  show "\<exists>cat'. resolve_categorizer w_lib ref w_edi TS210 = Inr cat'"
    using d by (auto simp: detect_transaction_set_def resolve_categorizer_def Let_def split: sum.splits)
qed

lemma w_gate:
  obtains facts g where "build_fact_bundle exact_decimal w_runtime w_parsed (Some w_inputs) = Inr facts"
    "gate_phase exact_decimal facts (ordered_criteria w_runtime CONTRACT_RUBRIC GATING) = Inr [g]"
    "gf_criterion_key g = ''STD.HAS_CHARGES''" "finite_json (eval_json (gf_evaluated_expr g))"
proof -
  have "case build_fact_bundle exact_decimal w_runtime w_parsed (Some w_inputs) of Inl _ \<Rightarrow> False
    | Inr facts \<Rightarrow> (case gate_phase exact_decimal facts (ordered_criteria w_runtime CONTRACT_RUBRIC GATING) of
          Inr [g] \<Rightarrow> gf_criterion_key g = ''STD.HAS_CHARGES'' \<and> finite_json (eval_json (gf_evaluated_expr g))
        | _ \<Rightarrow> False)" by code_simp
  then show thesis using that by (auto split: sum.splits list.splits)
qed

definition w_result :: "gate_failure \<Rightarrow> audit_result" where
  "w_result g = \<lparr>ar_outcome = REJECTED_REWORK, ar_gate_failures = [g], ar_findings = [], ar_scorecard = None,
     ar_coverage_markers = find_coverage_markers w_parsed,
     ar_pins = \<lparr>pin_parser_version = ''210-v1'', pin_engine_spec_version = ENGINE_SPEC_VERSION,
               pin_rubric_content_hash = rubric_content_hash w_runtime CONTRACT_RUBRIC\<rparr>\<rparr>"

lemma w_evaluated:
  assumes "ad_invoices db = []"
  obtains g where "resolve_and_evaluate exact_decimal w_runtime (w_ref known) w_client w_parsed (Some w_contract) db = Inr (w_result g, inputs_json w_inputs)"
    "gf_criterion_key g = ''STD.HAS_CHARGES''" "finite_json (eval_json (gf_evaluated_expr g))"
proof -
  obtain facts g where g: "build_fact_bundle exact_decimal w_runtime w_parsed (Some w_inputs) = Inr facts"
    "gate_phase exact_decimal facts (ordered_criteria w_runtime CONTRACT_RUBRIC GATING) = Inr [g]"
    "gf_criterion_key g = ''STD.HAS_CHARGES''" "finite_json (eval_json (gf_evaluated_expr g))" by (rule w_gate)
  have d: "detect_duplicate_invoice w_client (Some ''INV1'') TS210 db = Some False"
    using assms by (simp add: detect_duplicate_invoice_def) code_simp
  have s: "resolve_shipment_reference_match (w_ref known) w_client (Some [''SHIP1'']) = Some False"
    by (simp add: resolve_shipment_reference_match_def w_ref_def) code_simp
  have "resolve_inputs (w_ref known) w_client w_parsed (Some w_contract) db = w_inputs"
    using d s by (simp add: resolve_inputs_def w_inputs_def w_parsed_def with_contract_def lookup_contract_rate_def w_ref_def)
  then show thesis using g that
    by (simp add: resolve_and_evaluate_def evaluate_invoice_def with_contract_def w_result_def w_parsed_def)
qed

lemma w_names:
  "plain_name ''source_document''" "plain_name ''ingestion.source_stored''" "plain_name ''payment_gate_decision''"
  "plain_name ''do_not_pay_generated''" "plain_name ''audit_run''" "plain_name ''evaluation.completed''" "plain_name ''ingestion.audit_created''"
  by code_simp+

lemma w_fresh_ids [simp]:
  "w_fresh ''source_document'' k = w_doc" "w_fresh ''invoice'' k = w_invoice" "w_fresh ''audit_run'' k = w_run"
  "w_fresh ''payment_gate_decision'' k = w_decision"
  by (simp_all add: w_fresh_def)

lemma w_event_id [simp]:
  "ae_id (system_event rt client entity i event parts detail) = deterministic_audit_event_id rt parts"
  "ae_id (ledger_row now e) = ae_id e"
  by (simp_all add: ledger_row_def system_event_def audit_event.defs)

text \<open>The first event of the run is in the ledger when the run is stored.\<close>

definition w_stored :: audit_db where
  "w_stored = w_empty\<lparr>
     ad_documents := [\<lparr>sd_id = w_doc, sd_account_id = Some w_client, sd_sha256 = replicate 64 CHR ''a'', sd_content_type = None,
                      sd_byte_size = length w_edi, sd_storage_uri = ''file''\<rparr>],
     ad_events := [ledger_row 7 (source_stored_event w_runtime w_client w_doc None (replicate 64 CHR ''a''))]\<rparr>"

definition w_persist :: "gate_failure \<Rightarrow> persist_input" where
  "w_persist g = ingest_persist_input w_input w_parsed (w_doc, replicate 64 CHR ''a'') (w_result g, inputs_json w_inputs)"

lemma w_refused:
  assumes "ad_runs db = []" "ad_gate_failures db = []" "ad_decisions db = []" "map ae_id (ad_events db) = take 1 w_event_ids"
  obtains db' where
    "gate_payment w_runtime w_zod w_decision 7 w_client w_run REJECTED_REWORK (store_run w_fresh (w_persist g) []
       [\<lparr>gfr_id = w_failure, gfr_account_id = w_client, gfr_audit_run_id = w_run, gfr_refs = refs, gfr_defect = gf_defect g,
         gfr_citation = gf_citation g, gfr_evaluated_expr = x\<rparr>] db) = Inr db'"
    "map ae_id (ad_events db') = take 2 w_event_ids" "ad_manifests db' = ad_manifests db"
proof -
  let ?db = "store_run w_fresh (w_persist g) [] [\<lparr>gfr_id = w_failure, gfr_account_id = w_client, gfr_audit_run_id = w_run, gfr_refs = refs,
     gfr_defect = gf_defect g, gfr_citation = gf_citation g, gfr_evaluated_expr = x\<rparr>] db"
  obtain r where r: "find_run w_client w_run (Some REJECTED_REWORK) ?db = Some r"
    using assms(1) by (simp add: find_run_def store_run_def Let_def w_persist_def ingest_persist_input_def w_input_def w_result_def)
  obtain c where c: "compose_do_not_pay_decision w_runtime (map gate_failure_view_of (gate_failures_of w_client w_run ?db)) = Inr c"
    using assms(2) by (simp add: compose_do_not_pay_decision_def gate_failures_of_def)
  let ?d = "system_decision w_decision 7 w_client (run_invoice_id r) w_run Do_Not_Pay (fst c)"
  have n: "deterministic_audit_event_id w_runtime [w_client, w_run, ''do-not-pay-decision''] \<notin> ae_id ` set (ad_events db)"
    using w_new_ids(1) by (simp only: set_map [symmetric] assms(4) not_False_eq_True)
  have w: "write_db_event 7 (do_not_pay_event w_runtime w_client w_run w_decision c) (?db\<lparr>ad_decisions := [?d]\<rparr>) =
      Inr (?db\<lparr>ad_decisions := [?d], ad_events := ad_events db @ [ledger_row 7 (do_not_pay_event w_runtime w_client w_run w_decision c)]\<rparr>, True)"
    unfolding do_not_pay_event_def using w_names n
    by (subst system_event_written [OF allI [OF w_digest_hex]]) (simp_all add: list_all_iff)
  have "gate_payment w_runtime w_zod w_decision 7 w_client w_run REJECTED_REWORK ?db =
      Inr (?db\<lparr>ad_decisions := [?d], ad_events := ad_events db @ [ledger_row 7 (do_not_pay_event w_runtime w_client w_run w_decision c)]\<rparr>)"
    using r c w assms(3)
    by (simp add: gate_payment_def lift_payment_def generate_do_not_pay_decision_def w_zod_def commit_others_def insert_row_def)
  from that [OF this] show thesis using assms(4) by (auto simp: do_not_pay_event_def w_event_ids_def)
qed

lemma w_manifest_ok:
  assumes "finite_json (eval_json (gf_evaluated_expr g))"
  shows "manifest_ok (manifest_of (w_ref known) db w_run [(k, cid, \<lparr>rvr_id = w_version, rvr_rule_id = w_failure, rvr_clause_id = None,
     rvr_recorded_at = 0, rvr_ast_hash = replicate 64 CHR ''b''\<rparr>, d)] (w_persist g))"
proof -
  have h: "is_sha256 (replicate 64 CHR ''a'')" "is_sha256 (replicate 64 CHR ''b'')" "ENGINE_SPEC_VERSION \<noteq> []" by code_simp+
  have iv: "finite_json (invoice_json w_parsed)" "finite_json (inputs_json w_inputs)" "set_name (inv_transaction_set w_parsed) \<noteq> []"
    "inv_parser_version w_parsed \<noteq> []" "find_coverage_markers w_parsed = []" by code_simp+
  have r: "finite_json (result_json (w_result g))"
    using assms iv(5) by (simp add: w_result_def result_json_def gate_failure_json_def pins_json_def opt_member_def null_or_def split: option.splits)
  have p: "list_all pin_ok (rule_pins (w_ref known) [w_version])" "list_all pin_ok (contract_pins (w_ref known) db ids)" for ids
    using h(2) by (simp_all add: rule_pins_def contract_pins_def contract_hash_def w_ref_def pin_ok_def)
  show ?thesis using h iv r p
    by (simp add: manifest_ok_def manifest_of_def) (simp add: w_persist_def ingest_persist_input_def w_input_def w_result_def)
qed

lemma w_evaluation_event:
  "evaluation_event w_runtime w_run (w_persist g) None h =
     system_event w_runtime w_client ''audit_run'' w_run ''evaluation.completed'' [w_client, w_run, ''evaluation.completed'']
       [(''outcome'', JString ''REJECTED_REWORK''), (''engineSpecVersion'', JString ENGINE_SPEC_VERSION), (''gateFailureCount'', count_json 1),
        (''findingCount'', count_json 0), (''scorecardId'', JNull), (''replayManifestHash'', JString h)]"
  by (simp add: evaluation_event_def system_event_def w_persist_def ingest_persist_input_def w_input_def w_result_def null_or_def)

lemma w_persisted:
  assumes g: "gf_criterion_key g = ''STD.HAS_CHARGES''" "finite_json (eval_json (gf_evaluated_expr g))"
  obtains db' s where "persist_audit_run exact_decimal w_runtime w_zod w_fresh 7 (w_ref known) (w_persist g) w_stored = Inr (db', s)"
    "map ae_id (ad_events db') = take 3 w_event_ids" "pr_audit_run_id s = w_run"
proof -
  let ?i = "w_persist g" and ?v = "\<lparr>rvr_id = w_version, rvr_rule_id = w_failure, rvr_clause_id = None, rvr_recorded_at = 0, rvr_ast_hash = replicate 64 CHR ''b''\<rparr>"
  let ?resolved = "[(''STD.HAS_CHARGES'', w_failure, ?v, None)]"
  let ?refs = "\<lparr>ct_criterion_id = w_failure, ct_rule_version_id = w_version, ct_clause_id = None, ct_source_document_id = None, ct_transport_document_id = None\<rparr>"
  let ?row = "\<lparr>gfr_id = w_failure, gfr_account_id = w_client, gfr_audit_run_id = w_run, gfr_refs = ?refs, gfr_defect = gf_defect g,
         gfr_citation = gf_citation g, gfr_evaluated_expr = eval_json (gf_evaluated_expr g)\<rparr>"
  have i: "pi_client_id ?i = w_client" "pi_invoice ?i = w_parsed" "pi_result ?i = w_result g" "pi_shipment_id ?i = None"
    by (simp_all add: w_persist_def ingest_persist_input_def w_input_def)
  have r: "ar_gate_failures (w_result g) = [g]" "ar_findings (w_result g) = []" "ar_outcome (w_result g) = REJECTED_REWORK"
    "ar_scorecard (w_result g) = None" by (simp_all add: w_result_def)
  have c: "check_currency (inv_header_currency w_parsed) = Inr ()" by code_simp
  have "result_keys (w_result g) = [''STD.HAS_CHARGES'']" by (simp add: result_keys_def r g js_unique_def)
  moreover have "resolve_keys (w_ref known) [''STD.HAS_CHARGES''] = Inr ?resolved" by code_simp
  ultimately have k: "resolve_keys (w_ref known) (result_keys (w_result g)) = Inr ?resolved" by simp
  have f: "rtraverse (gate_failure_row_of w_fresh w_client w_run (citation_of ?resolved None)) (enumerate 0 [g]) = Inr [?row]"
    by (simp add: gate_failure_row_of_def citation_of_def g w_fresh_def)
  have st: "ad_runs w_stored = []" "ad_gate_failures w_stored = []" "ad_decisions w_stored = []"
    "map ae_id (ad_events w_stored) = take 1 w_event_ids" "ad_manifests w_stored = []"
    by (simp_all add: w_stored_def w_empty_def source_stored_event_def w_event_ids_def)
  obtain db2 where d: "gate_payment w_runtime w_zod w_decision 7 w_client w_run REJECTED_REWORK (store_run w_fresh ?i [] [?row] w_stored) = Inr db2"
    and e2: "map ae_id (ad_events db2) = take 2 w_event_ids" and m2: "ad_manifests db2 = []"
    using w_refused [OF st(1-4), of g ?refs "eval_json (gf_evaluated_expr g)"] st(5) by metis
  let ?db3 = "store_findings [] [] [] db2"
  let ?m = "manifest_of (w_ref known) ?db3 w_run ?resolved ?i"
  have ok: "manifest_ok ?m" by (rule w_manifest_ok [OF g(2)])
  then obtain h db4 where im: "insert_manifest w_runtime ?m ?db3 = Inr (db4, h)" and e4: "ad_events db4 = ad_events db2"
    using m2 by (simp add: insert_manifest_def replay_manifest_hash_def)
  let ?e = "evaluation_event w_runtime w_run ?i None h"
  have n: "deterministic_audit_event_id w_runtime [w_client, w_run, ''evaluation.completed''] \<notin> ae_id ` set (ad_events db4)"
    using w_new_ids(2) by (simp only: e4 set_map [symmetric] e2 not_False_eq_True)
  have w: "write_db_event 7 ?e db4 = Inr (db4\<lparr>ad_events := ad_events db4 @ [ledger_row 7 ?e]\<rparr>, True)"
    unfolding w_evaluation_event using w_names n by (intro system_event_written [OF allI [OF w_digest_hex]]) (simp_all add: null_or_def)
  have "persist_audit_run exact_decimal w_runtime w_zod w_fresh 7 (w_ref known) ?i w_stored =
      Inr (db4\<lparr>ad_events := ad_events db4 @ [ledger_row 7 ?e]\<rparr>, run_summary w_fresh ?i [?row] [] [])"
    unfolding persist_audit_run_def Let_def i r
    using c k f d im w
    by (simp add: resolve_transport_evidence_def charge_rows_def r scorecard_row_of_def run_summary_def lift_payment_def)
  from that [OF this] show thesis
    using e2 by (auto simp: e4 run_summary_def evaluation_event_def w_event_ids_def i)
qed

lemma w_ingested:
  obtains db' invoice_id where
    "ingest_invoice exact_decimal w_runtime w_zod w_lib w_fresh 7 (w_ref known) w_input w_empty = Inr (db', w_run, invoice_id, REJECTED_REWORK)"
    "map ae_id (ad_events db') = w_event_ids"
proof -
  let ?sha = "replicate 64 CHR ''a''"
  have st: "ad_invoices w_stored = []" by (simp add: w_stored_def w_empty_def)
  obtain g where e: "resolve_and_evaluate exact_decimal w_runtime (w_ref known) w_client w_parsed (Some w_contract) w_stored = Inr (w_result g, inputs_json w_inputs)"
    and g: "gf_criterion_key g = ''STD.HAS_CHARGES''" "finite_json (eval_json (gf_evaluated_expr g))"
    by (rule w_evaluated [OF st])
  obtain db3 s where p: "persist_audit_run exact_decimal w_runtime w_zod w_fresh 7 (w_ref known) (w_persist g) w_stored = Inr (db3, s)"
    and e3: "map ae_id (ad_events db3) = take 3 w_event_ids" and s: "pr_audit_run_id s = w_run"
    by (rule w_persisted [OF g])
  obtain cat where cat: "resolve_categorizer w_lib (w_ref known) w_edi TS210 = Inr cat" using w_parse(3) by blast
  let ?db1 = "w_empty\<lparr>ad_documents := [\<lparr>sd_id = w_doc, sd_account_id = Some w_client, sd_sha256 = ?sha, sd_content_type = None,
                      sd_byte_size = length w_edi, sd_storage_uri = ''file''\<rparr>]\<rparr>"
  have iput: "ig_client_id w_input = w_client" "ig_bytes w_input = w_edi" "ig_content_type w_input = None" "ig_contract_version_id w_input = Some w_contract"
    and utf: "il_utf8 w_lib w_edi = w_edi" "ar_outcome (w_result g) = REJECTED_REWORK"
    by (simp_all add: w_input_def w_lib_def w_result_def)
  have d: "store_source_document w_lib w_doc w_client w_edi None w_empty = Inr (?db1, w_doc, ?sha)"
    by (simp add: store_source_document_def w_lib_def w_empty_def insert_row_def)
  have w1: "write_db_event 7 (source_stored_event w_runtime w_client w_doc None ?sha) ?db1 = Inr (w_stored, True)"
    unfolding source_stored_event_def using w_names
    by (subst system_event_written [OF allI [OF w_digest_hex]])
      (simp_all add: w_stored_def w_empty_def source_stored_event_def null_or_def)
  let ?e = "audit_created_event w_runtime w_client s REJECTED_REWORK TS210"
  have n: "deterministic_audit_event_id w_runtime [w_client, w_run, ''ingestion.audit_created''] \<notin> ae_id ` set (ad_events db3)"
    using w_new_ids(3) by (simp only: set_map [symmetric] e3 not_False_eq_True)
  have w2: "write_db_event 7 ?e db3 = Inr (db3\<lparr>ad_events := ad_events db3 @ [ledger_row 7 ?e]\<rparr>, True)"
    unfolding audit_created_event_def s using w_names n by (intro system_event_written [OF allI [OF w_digest_hex]]) simp_all
  have "ingest_invoice exact_decimal w_runtime w_zod w_lib w_fresh 7 (w_ref known) w_input w_empty =
      Inr (db3\<lparr>ad_events := ad_events db3 @ [ledger_row 7 ?e]\<rparr>, w_run, pr_invoice_id s, REJECTED_REWORK)"
    using d w1 w_parse(1,2) cat e p w2 s
    by (simp add: ingest_invoice_def iput utf parse_invoice_def lift_ingest_def lift_payment_def w_persist_def [symmetric])
  from that [OF this] show thesis using e3 by (auto simp: audit_created_event_def s w_event_ids_def)
qed

lemma w_new: "run_is_new (w_fresh ''audit_run'' 0) w_empty" "distinct (map sd_id (ad_documents w_empty))"
  "w_fresh ''source_document'' 0 \<notin> sd_id ` set (ad_documents w_empty)"
  by (simp_all add: run_is_new_def w_empty_def)

lemma w_rubrics_differ: "rubric_content_hash w_runtime STANDARD_RUBRIC \<noteq> rubric_content_hash w_runtime CONTRACT_RUBRIC"
proof
  let ?text = "\<lambda>r. stable_stringify fraction_string (rubric_json r)"
  assume "rubric_content_hash w_runtime STANDARD_RUBRIC = rubric_content_hash w_runtime CONTRACT_RUBRIC"
  moreover have "hd (?text r) = CHR ''{''" "?text r \<noteq> []" for r
    by (simp_all add: stable_stringify_def rubric_json_def)
  ultimately have "?text STANDARD_RUBRIC = ?text CONTRACT_RUBRIC"
    by (simp add: rubric_content_hash_def w_runtime_def w_digest_def split: if_splits)
  from rubric_text_inj [OF fraction.number_printer_axioms finite_rubrics this] show False using rubrics_differ by simp
qed

lemma w_replay_ids: "deterministic_audit_event_id w_runtime [w_client, w_run, h, ''replay.executed''] \<notin> set w_event_ids"
proof -
  have h: "is_hex_digit CHR ''d''" "is_hex_digit CHR ''e''" "is_hex_digit CHR ''c''" "\<not> is_hex_digit CHR ''t''" "\<not> is_hex_digit CHR ''u''" by code_simp+
  have hd: "hd (w_client @ x) = CHR ''0''" "w_client \<noteq> []" for x by (simp_all add: w_client_def)
  have e: "take 3 (filter is_hex_digit (rev (x @ ''replay.executed''))) = ''dec''" for x
    by (simp add: h)
  let ?s = "w_client @ CHR 0x00 # w_run @ CHR 0x00 # h @ [CHR 0x00] @ ''replay.executed''"
  have j: "js_join [CHR 0x00] [w_client, w_run, h, ''replay.executed''] = ?s" by simp
  have l: "length (w_digest ?s) = 64" using w_digest_hex [of ?s] by (simp add: hex_digest_def w_runtime_def)
  have "\<not> (?s \<noteq> [] \<and> hd ?s = CHR ''{'')" using hd(1) by simp
  then have d: "w_digest ?s = take 64 (filter is_hex_digit (rev ?s) @ replicate 64 CHR ''0'')"
    unfolding w_digest_def by (simp only: if_False)
  have "take 3 (take 64 (x @ y)) = take 3 x" if "take 3 x = ''dec''" for x y :: string
    using arg_cong [OF that, of length] by simp
  from this [OF e [of "w_client @ CHR 0x00 # w_run @ CHR 0x00 # h @ [CHR 0x00]"]]
  have t: "take 3 (w_digest ?s) = ''dec''"
    unfolding d by (simp only: append_assoc append_Cons e [of "w_client @ CHR 0x00 # w_run @ CHR 0x00 # h @ [CHR 0x00]", unfolded append_assoc append_Cons])
  have "take 3 (uuid_of_hex x) = take 3 x" if "length x = 64" for x
    using that by (simp add: uuid_of_hex_def Let_def)
  then have i: "take 3 (deterministic_audit_event_id w_runtime [w_client, w_run, h, ''replay.executed'']) = ''dec''"
    unfolding deterministic_audit_event_id_def j using l t by (simp add: w_runtime_def)
  have n: "''dec'' \<notin> set (map (take 3) w_event_ids)" by code_simp
  have "f a = y \<Longrightarrow> y \<notin> set (map f xs) \<Longrightarrow> a \<notin> set xs" for f :: "string \<Rightarrow> string" and a y xs by auto
  from this [OF i n] show ?thesis .
qed

section \<open>Properties\<close>

text \<open>
  C5: every ingested run replays. A request without a contract, or with a contract version of the
  reference data, is ingested under identifiers not yet used. From any later state in which documents,
  manifests, rule versions and contract versions have only been added to, replaying the run succeeds,
  whether or not it was replayed before: it recomputes the outcome of the original audit and the very
  result document the manifest stores, so the two hashes agree; it changes nothing but the ledger, and
  replaying it again gives the same answer and changes nothing at all. The one exception is spelled
  out: when the ledger holds another event under the identifier of this replay, the replay is refused
  with the ledger's conflict.
\<close>

theorem ingested_run_replays:
  assumes "ingest_invoice D rt Z L fresh now ref i db = Inr (db', run, invoice_id, outc)"
    and "run_is_new (fresh ''audit_run'' 0) db"
    and "distinct (map sd_id (ad_documents db))" and "fresh ''source_document'' 0 \<notin> sd_id ` set (ad_documents db)"
    and "reference_keys_ok ref" and "contract_known ref (ig_contract_version_id i)"
    and "prefix (ad_manifests db') (ad_manifests db'')" and "prefix (ad_documents db') (ad_documents db'')"
    and "reference_grows ref ref'" and "\<forall>x. hex_digest (rt_sha256_hex rt x)"
  shows "if replay_id_taken rt run db''
     then replay_audit_run D rt now' ref' run db'' = Inl (ReplayAuditError (PaymentAuditError AuditEventConflictError))
     else \<exists>db3 rr. replay_audit_run D rt now' ref' run db'' = Inr (db3, rr) \<and> rr_result_hash rr = rr_original_result_hash rr \<and>
       ar_outcome (rr_result rr) = outc \<and>
       (\<exists>row \<in> set (ad_manifests db'). mf_audit_run_id row = run \<and> mn_result (mf_manifest row) = result_json (rr_result rr)) \<and>
       appends [] db'' db3 \<and> (\<forall>again. replay_audit_run D rt again ref' run db3 = Inr (db3, rr))"
  by (rule replay_known_contract [OF assms])

text \<open>The witness replays twice, at times 9 and 10.\<close>

theorem ingested_run_replays_witness:
  "\<exists>db' invoice_id db3 rr.
     ingest_invoice exact_decimal w_runtime w_zod w_lib w_fresh 7 (w_ref True) w_input w_empty = Inr (db', w_run, invoice_id, REJECTED_REWORK) \<and>
     replay_audit_run exact_decimal w_runtime 9 (w_ref True) w_run db' = Inr (db3, rr) \<and>
     replay_audit_run exact_decimal w_runtime 10 (w_ref True) w_run db3 = Inr (db3, rr) \<and>
     rr_result_hash rr = rr_original_result_hash rr \<and> ar_outcome (rr_result rr) = REJECTED_REWORK"
proof -
  obtain db' invoice_id where
    i: "ingest_invoice exact_decimal w_runtime w_zod w_lib w_fresh 7 (w_ref True) w_input w_empty = Inr (db', w_run, invoice_id, REJECTED_REWORK)"
    and e: "map ae_id (ad_events db') = w_event_ids" by (rule w_ingested)
  have ref: "reference_keys_ok (w_ref True)" "contract_known (w_ref True) (ig_contract_version_id w_input)"
    by (simp_all add: reference_keys_ok_def contract_known_def w_ref_def w_input_def with_contract_def)
  have grow: "reference_grows (w_ref True) (w_ref True)" by (simp add: reference_grows_def)
  have "\<forall>h. deterministic_audit_event_id w_runtime [ig_client_id w_input, w_run, h, ''replay.executed''] \<notin> ae_id ` set (ad_events db')"
    unfolding set_map [symmetric] e by (simp add: w_input_def w_replay_ids)
  then have "\<not> replay_id_taken w_runtime w_run db'" using ingested_client [OF i w_new] by (intro replay_id_free) blast+
  then obtain db3 rr where r: "replay_audit_run exact_decimal w_runtime 9 (w_ref True) w_run db' = Inr (db3, rr)"
      "rr_result_hash rr = rr_original_result_hash rr" "ar_outcome (rr_result rr) = REJECTED_REWORK"
      "\<forall>again. replay_audit_run exact_decimal w_runtime again (w_ref True) w_run db3 = Inr (db3, rr)"
    using ingested_run_replays [OF i w_new ref prefix_order.refl prefix_order.refl grow allI [OF w_digest_hex], of 9] by auto
  from r(4) have "replay_audit_run exact_decimal w_runtime 10 (w_ref True) w_run db3 = Inr (db3, rr)" by blast
  with i r(1-3) show ?thesis by blast
qed

text \<open>
  A run against a contract version the tenant does not have can never be replayed. Ingestion
  accepts any identifier and prices the invoice with the contract rubric, but the manifest pins only
  versions that exist; the replay then takes the standard rubric, whose hash differs, and whatever
  happens later the replay of that run fails.
\<close>

theorem unknown_contract_never_replays:
  assumes "ingest_invoice D rt Z L fresh now ref i db = Inr (db', run, invoice_id, outc)"
    and "run_is_new (fresh ''audit_run'' 0) db"
    and "distinct (map sd_id (ad_documents db))" and "fresh ''source_document'' 0 \<notin> sd_id ` set (ad_documents db)"
    and "\<not> contract_known ref (ig_contract_version_id i)"
    and "prefix (ad_manifests db') (ad_manifests db'')"
    and "number_printer (rt_number_string rt)"
    and "rubric_content_hash rt STANDARD_RUBRIC \<noteq> rubric_content_hash rt CONTRACT_RUBRIC"
  shows "replay_audit_run D rt now' ref' run db'' \<noteq> Inr x"
  by (rule replay_unknown_contract [OF assms])

theorem unknown_contract_never_replays_witness:
  "\<exists>db' invoice_id.
     ingest_invoice exact_decimal w_runtime w_zod w_lib w_fresh 7 (w_ref False) w_input w_empty = Inr (db', w_run, invoice_id, REJECTED_REWORK) \<and>
     \<not> (\<exists>x. replay_audit_run exact_decimal w_runtime 9 (w_ref False) w_run db' = Inr x)"
proof -
  obtain db' invoice_id where
    i: "ingest_invoice exact_decimal w_runtime w_zod w_lib w_fresh 7 (w_ref False) w_input w_empty = Inr (db', w_run, invoice_id, REJECTED_REWORK)"
    by (rule w_ingested)
  have c: "\<not> contract_known (w_ref False) (ig_contract_version_id w_input)"
    by (simp add: contract_known_def w_ref_def w_input_def with_contract_def)
  have n: "number_printer (rt_number_string w_runtime)" using fraction.number_printer_axioms by (simp add: w_runtime_def)
  show ?thesis
    using i unknown_contract_never_replays [OF i w_new c prefix_order.refl n w_rubrics_differ] by blast
qed

text \<open>
  A resubmitted document is recognized. Once a document whose invoice number is not blank has been
  ingested, every later evaluation of the same bytes for the same client, whatever else has been
  stored since and under any reference data and contract, is told that the invoice is a duplicate; if
  it is scored, its findings contain a variance of the duplicate-invoice criterion.
\<close>

theorem resubmission_flagged:
  assumes "ingest_invoice D rt Z L fresh now ref i db = Inr (db', run, invoice_id, outc)"
    and "run_is_new (fresh ''audit_run'' 0) db"
    and "plain_number (document_number (il_utf8 L (ig_bytes i)))"
    and "prefix (ad_invoices db') (ad_invoices db'')"
    and "detect_transaction_set (il_utf8 L (ig_bytes i)) = Inr ts" and "parse_invoice D ts (il_utf8 L (ig_bytes i)) categorize = Inr iv"
    and "resolve_and_evaluate D rt ref' (ig_client_id i) iv version db'' = Inr (r, j)"
  shows "(\<exists>c. j = inputs_json c \<and> cf_duplicate_invoice c = Some True) \<and>
     (ar_outcome r = SCORED \<longrightarrow> (\<exists>f \<in> set (ar_findings r). fi_criterion_key f = ''STD.DUPLICATE_INVOICE'' \<and> fi_result f = VARIANCE))"
proof -
  let ?c = "resolve_inputs ref' (ig_client_id i) iv version db''"
  obtain row ts' where row: "row \<in> set (ad_invoices db')" "iv_account_id row = ig_client_id i"
      "iv_invoice_number row = document_number (il_utf8 L (ig_bytes i))"
      "detect_transaction_set (il_utf8 L (ig_bytes i)) = Inr ts'" "iv_transaction_set row = (if ts' = TS210 then TS210 else TS310)"
    by (rule ingested_invoice [OF assms(1,2)])
  have "row \<in> set (ad_invoices db'')" using row(1) set_mono_prefix [OF assms(4)] by blast
  moreover have "iv_transaction_set row = inv_transaction_set iv" using row(4,5) assms(5) parsed_number(2) [OF assms(6)] by simp
  ultimately have d: "cf_duplicate_invoice ?c = Some True"
    using stored_number_detected [OF assms(3), of row] row(2,3) parsed_number(1) [OF assms(6)] by (simp add: resolve_inputs_def)
  have e: "evaluate_invoice D rt iv (if with_contract version = None then STANDARD_RUBRIC else CONTRACT_RUBRIC) (Some ?c) = Inr r"
    and j: "j = inputs_json ?c" using assms(7) by (auto simp: resolve_and_evaluate_def Let_def split: sum.splits if_splits)
  have "\<exists>f \<in> set (ar_findings r). fi_criterion_key f = ''STD.DUPLICATE_INVOICE'' \<and> fi_result f = VARIANCE" if "ar_outcome r = SCORED"
    by (rule duplicate_finding [OF e that _ d]) simp
  with d j show ?thesis by blast
qed

theorem resubmission_flagged_witness:
  "\<exists>db' invoice_id r j.
     ingest_invoice exact_decimal w_runtime w_zod w_lib w_fresh 7 (w_ref True) w_input w_empty = Inr (db', w_run, invoice_id, REJECTED_REWORK) \<and>
     resolve_and_evaluate exact_decimal w_runtime (w_ref True) w_client w_parsed None db' = Inr (r, j) \<and>
     (\<exists>c. j = inputs_json c \<and> cf_duplicate_invoice c = Some True)"
proof -
  obtain db' invoice_id where
    i: "ingest_invoice exact_decimal w_runtime w_zod w_lib w_fresh 7 (w_ref True) w_input w_empty = Inr (db', w_run, invoice_id, REJECTED_REWORK)"
    by (rule w_ingested)
  have f: "ig_client_id w_input = w_client" "il_utf8 w_lib (ig_bytes w_input) = w_edi" by (simp_all add: w_input_def w_lib_def)
  have n: "plain_number (document_number (il_utf8 w_lib (ig_bytes w_input)))" unfolding f by code_simp
  have ts: "detect_transaction_set (il_utf8 w_lib (ig_bytes w_input)) = Inr TS210" unfolding f by (rule w_parse)
  have p: "parse_invoice exact_decimal TS210 (il_utf8 w_lib (ig_bytes w_input)) (\<lambda>_. None) = Inr w_parsed"
    unfolding f by (simp add: parse_invoice_def w_parse)
  have "\<exists>r. evaluate_invoice exact_decimal w_runtime w_parsed STANDARD_RUBRIC (Some (resolve_inputs (w_ref True) w_client w_parsed None db')) = Inr r"
    by (rule exact.evaluate_invoice_total [OF exact.parse210_parses [OF w_parse(2)] exact.standard_tolerances_parse])
  then obtain r j where e: "resolve_and_evaluate exact_decimal w_runtime (w_ref True) (ig_client_id w_input) w_parsed None db' = Inr (r, j)"
    by (auto simp: resolve_and_evaluate_def with_contract_def f)
  show ?thesis
    using i e resubmission_flagged [OF i w_new(1) n prefix_order.refl ts p e] unfolding f(1) by blast
qed

end
