(* ===== verification/Payment_Theorems.thy ===== *)
theory Payment_Theorems
  imports Replay_Theorems
begin

text \<open>
  The properties of the payment gate. The witnesses settle a scored run of 150 dollars with an accepted
  overcharge of 50.
\<close>

section \<open>A sample run\<close>

definition p_finding :: finding_row where
  "p_finding = \<lparr>fr_id = w_failure, fr_account_id = w_client, fr_audit_run_id = w_run,
     fr_refs = \<lparr>ct_criterion_id = w_failure, ct_rule_version_id = w_version, ct_clause_id = None, ct_source_document_id = None,
       ct_transport_document_id = None\<rparr>,
     fr_charge_fact_id = None, fr_direction = Some OVERCHARGE, fr_materiality = Some 500000, fr_variance_amount = Some 500000,
     fr_currency = Some ''USD'', fr_classification = ''variance'', fr_evaluated_expr = JNull, fr_status = ''accepted''\<rparr>"

definition p_charge :: charge_fact_row where
  "p_charge = \<lparr>cf_id = w_version, cf_account_id = w_client, cf_invoice_id = w_invoice, cf_code = None, cf_x12_element = None,
     cf_category = None, cf_amount = 1500000, cf_currency = ''USD'', cf_basis = None, cf_rate = None, cf_raw_description = None,
     cf_source_loop = None\<rparr>"

definition p_run :: audit_run_row where
  "p_run = \<lparr>run_id = w_run, run_account_id = w_client, run_invoice_id = w_invoice, run_rubric_snapshot_id = None,
     run_engine_spec_version = ''1'', run_outcome = SCORED\<rparr>"

definition p_db :: audit_db where
  "p_db = w_empty\<lparr>ad_runs := [p_run], ad_charge_facts := [p_charge], ad_findings := [p_finding]\<rparr>"

definition p_approval :: authorize_input where
  "p_approval = \<lparr>au_client_id = w_client, au_audit_run_id = w_run, au_action = ''approve'', au_rationale = None, au_actor_user_id = w_contract\<rparr>"

lemma p_approved:
  obtains db' where "authorize_payment w_runtime w_zod w_decision 9 [] p_approval p_db = Inr (db', w_decision, True)"
    "map pg_action (ad_decisions db') = [Approve]" "map pg_id (ad_decisions db') = [w_decision]"
proof -
  have "case authorize_payment w_runtime w_zod w_decision 9 [] p_approval p_db of Inl _ \<Rightarrow> False
    | Inr (db', j, created) \<Rightarrow> j = w_decision \<and> created \<and> map pg_action (ad_decisions db') = [Approve] \<and> map pg_id (ad_decisions db') = [w_decision]"
    by code_simp
  then show thesis using that by (auto split: sum.splits)
qed

lemma p_short_paid:
  obtains db' q where "generate_short_pay_decision exact_decimal w_runtime w_zod w_decision 9 [] w_client w_run (Some True) p_db = Inr (db', q)"
    "sq_created q"
proof -
  have "case generate_short_pay_decision exact_decimal w_runtime w_zod w_decision 9 [] w_client w_run (Some True) p_db of Inl _ \<Rightarrow> False
    | Inr (db', q) \<Rightarrow> sq_created q" by code_simp
  then show thesis using that by (auto split: sum.splits)
qed

lemma p_ok: "payments_ok p_db"
  by (simp add: payments_ok_def p_db_def w_empty_def)

lemma p_run_step:
  assumes "authorize_payment w_runtime w_zod w_decision 9 [] p_approval p_db = Inr (db', w_decision, True)"
  shows "(audit_step exact_decimal w_runtime w_zod w_lib isof)\<^sup>*\<^sup>* p_db db'"
  using assms by (auto intro!: audit_step.gated payment_step.authorized)

lemma map_filter_id_member: "Some x \<in> set xs \<Longrightarrow> x \<in> set (List.map_filter id xs)"
  by (force simp: map_filter_def)

section \<open>Properties\<close>

text \<open>
  C6: a short pay is exact. When the module creates a short-pay decision and the amounts involved stay
  below \<open>10\<^sup>1\<^sup>4\<close>, the stored amount is the sum of the invoice's charges less the sum of the accepted
  overcharges, to the last of its four decimals; it is positive, and every charge and every accepted
  overcharge is stated in the currency of the decision. Decimal arithmetic follows the laws of
  decimal.js, whose \<open>toFixed\<close> prints plain notation.
\<close>

theorem short_pay_exact:
  assumes "fixed_notation D dval"
    and "generate_short_pay_decision D rt Z i now others client run enabled db = Inr (db', q)" and "sq_created q"
    and "find_run client run (Some SCORED) db = Some r" and "amounts_bounded client (run_invoice_id r) run db"
  shows "\<exists>d. ad_decisions db' = ad_decisions db @ others @ [d] \<and> pg_action d = Short_Pay \<and> pg_audit_run_id d = run \<and>
     pg_amount d = Some (invoice_total client (run_invoice_id r) db - withheld_total client run db) \<and>
     0 < invoice_total client (run_invoice_id r) db - withheld_total client run db \<and>
     (\<exists>cur. pg_currency d = Some cur \<and> (\<forall>c \<in> set (charges_of client (run_invoice_id r) db). cf_currency c = cur) \<and>
        (\<forall>f \<in> set (accepted_overcharges client run db). fr_currency f = Some cur))"
proof -
  let ?cs = "charges_of client (run_invoice_id r) db" and ?fs = "accepted_overcharges client run db"
  have "\<exists>r' s n. find_run client run (Some SCORED) db = Some r' \<and>
     compose_short_pay_decision D rt (map charge_view_of (charges_of client (run_invoice_id r') db)) (map overcharge_view_of ?fs) = Inr s \<and>
     store_numeric (sp_amount_to_pay s) = Some n \<and>
     record_decision now others (short_pay_row i now client (run_invoice_id r') run n s) (short_pay_event rt client run i s) db = Inr db'"
    using generate_short_pay_Inr [OF assms(2)] assms(3) by blast
  then obtain s n where s: "compose_short_pay_decision D rt (map charge_view_of ?cs) (map overcharge_view_of ?fs) = Inr s"
    and n: "store_numeric (sp_amount_to_pay s) = Some n"
    and rec: "record_decision now others (short_pay_row i now client (run_invoice_id r) run n s) (short_pay_event rt client run i s) db = Inr db'"
    unfolding assms(4) option.inject by blast
  note fig = fixed_notation.short_pay_figures [OF assms(1) s assms(5) [unfolded amounts_bounded_def]]
  note app = appends_fields(1) [OF record_decision_Inr(1) [OF rec]]
  have cur: "set (List.map_filter id (map sv_currency (map charge_view_of ?cs) @ map ov_currency (map overcharge_view_of ?fs))) = {sp_currency s}"
    and all: "list_all (\<lambda>f. ov_currency f \<noteq> None \<and> ov_variance_amount f \<noteq> None) (map overcharge_view_of ?fs)"
    by (rule compose_short_pay_Inr [OF s], assumption)+
  have one: "x = sp_currency s" if "Some x \<in> sv_currency ` charge_view_of ` set ?cs \<union> ov_currency ` overcharge_view_of ` set ?fs" for x
    using map_filter_id_member [of x "map sv_currency (map charge_view_of ?cs) @ map ov_currency (map overcharge_view_of ?fs)"] that
    unfolding cur by (simp add: image_image)
  have c: "cf_currency c = sp_currency s" if "c \<in> set ?cs" for c
    by (rule one) (use that in \<open>force simp: charge_view_of_def\<close>)
  have f: "fr_currency f = Some (sp_currency s)" if mem: "f \<in> set ?fs" for f
  proof -
    obtain x where x: "fr_currency f = Some x" using all mem by (auto simp: list_all_iff overcharge_view_of_def)
    have "x = sp_currency s" by (rule one) (use mem x in \<open>force simp: overcharge_view_of_def\<close>)
    then show ?thesis using x by simp
  qed
  show ?thesis
    using app n fig c f by (intro exI [of _ "short_pay_row i now client (run_invoice_id r) run n s"])
      (auto simp: short_pay_row_def invoice_total_def withheld_total_def)
qed

theorem short_pay_exact_witness:
  "\<exists>db' q d. generate_short_pay_decision exact_decimal w_runtime w_zod w_decision 9 [] w_client w_run (Some True) p_db = Inr (db', q) \<and>
     ad_decisions db' = [d] \<and> pg_amount d = Some 1000000"
proof -
  obtain db' q where g: "generate_short_pay_decision exact_decimal w_runtime w_zod w_decision 9 [] w_client w_run (Some True) p_db = Inr (db', q)"
    "sq_created q" by (rule p_short_paid)
  have r: "find_run w_client w_run (Some SCORED) p_db = Some p_run" by (simp add: find_run_def p_db_def p_run_def)
  have f: "accepted_overcharges w_client w_run p_db = [p_finding]" "charges_of w_client w_invoice p_db = [p_charge]" "run_invoice_id p_run = w_invoice"
    by (simp_all add: accepted_overcharges_def charges_of_def p_db_def p_finding_def p_charge_def p_run_def)
  have b: "amounts_bounded w_client (run_invoice_id p_run) w_run p_db"
    by (simp add: amounts_bounded_def f stated_amounts_def map_filter_simps p_finding_def p_charge_def)
  have t: "invoice_total w_client w_invoice p_db - withheld_total w_client w_run p_db = 1000000"
    by (simp add: invoice_total_def withheld_total_def f stated_amounts_def map_filter_simps p_finding_def p_charge_def)
  have "ad_decisions p_db = []" by (simp add: p_db_def w_empty_def)
  then show ?thesis
    using g(1) short_pay_exact [OF exact_fixed.fixed_notation_axioms g r b] t by (auto simp: f(3))
qed

text \<open>
  C9: no payment is approved automatically. Through every sequence of ingestions, decisions,
  authorizations, escalations and policy changes, an approval in the decision table was made by an
  analyst, and the audit ledger holds the authorization event of that decision with the identity of
  the analyst.
\<close>

theorem no_automatic_approval:
  assumes "(audit_step D rt Z L isof)\<^sup>*\<^sup>* db db'" and "payments_ok db"
    and "d \<in> set (ad_decisions db')" and "pg_action d = Approve"
  shows "pg_actor_kind d = ''analyst'' \<and>
     (\<exists>e \<in> set (ad_events db'). ae_account_id e = Some (pg_account_id d) \<and> ae_entity_id e = Some (pg_id d) \<and>
        ae_event e = ''payment_authorized'' \<and> ae_actor_kind e = ''analyst'' \<and> ae_actor_user_id e \<noteq> None)"
  using audit_run_ok [OF assms(1,2)] assms(3,4) by (auto simp: payments_ok_def attributed_def dest!: bspec)

theorem no_automatic_approval_witness:
  "\<exists>db' d. authorize_payment w_runtime w_zod w_decision 9 [] p_approval p_db = Inr (db', w_decision, True) \<and>
     ad_decisions db' = [d] \<and> pg_action d = Approve \<and> pg_actor_kind d = ''analyst'' \<and> ad_events db' \<noteq> []"
proof -
  obtain db' where a: "authorize_payment w_runtime w_zod w_decision 9 [] p_approval p_db = Inr (db', w_decision, True)"
    and m: "map pg_action (ad_decisions db') = [Approve]" by (rule p_approved)
  then obtain d where d: "ad_decisions db' = [d]" "pg_action d = Approve" by auto
  then show ?thesis using a no_automatic_approval [OF p_run_step [OF a] p_ok, of d] by fastforce
qed

text \<open>
  C10: the decisions of the payment gate are consistent with the audits. After every sequence of
  transactions an account has at most one decision per run and action; a run is refused
  (\<open>do_not_pay\<close>) only if its audit was rejected, and short-paid, or held by the system, only if it was
  scored.
\<close>

theorem payment_decisions_consistent:
  assumes "(audit_step D rt Z L isof)\<^sup>*\<^sup>* db db'" and "payments_ok db" and "d \<in> set (ad_decisions db')"
  shows "distinct (map (\<lambda>x. (pg_account_id x, pg_audit_run_id x, pg_action x)) (ad_decisions db')) \<and>
     (pg_action d = Do_Not_Pay \<longrightarrow> run_with (ad_runs db') d REJECTED_REWORK \<and> \<not> run_with (ad_runs db') d SCORED) \<and>
     (pg_action d = Short_Pay \<or> pg_action d = Hold \<and> pg_actor_kind d = ''system'' \<longrightarrow> run_with (ad_runs db') d SCORED)"
proof -
  have ok: "payments_ok db'" by (rule audit_run_ok [OF assms(1,2)])
  then have "action_ok (pg_action d) (ad_runs db') (ad_events db') d" and "distinct (map run_id (ad_runs db'))"
    and "distinct (map decision_key (ad_decisions db'))" using assms(3) by (auto simp: payments_ok_def)
  moreover from this(2) have "\<not> (run_with (ad_runs db') d REJECTED_REWORK \<and> run_with (ad_runs db') d SCORED)"
    by (auto simp: run_with_def distinct_map inj_on_def)
  ultimately show ?thesis by (auto simp: decision_key_def [abs_def])
qed

theorem payment_decisions_consistent_witness:
  "\<exists>db'. ingest_invoice exact_decimal w_runtime w_zod w_lib w_fresh 7 (w_ref True) w_input w_empty = Inr db' \<and>
     distinct (map (\<lambda>x. (pg_account_id x, pg_audit_run_id x, pg_action x)) (ad_decisions (fst db')))"
proof -
  obtain db' invoice_id where
    i: "ingest_invoice exact_decimal w_runtime w_zod w_lib w_fresh 7 (w_ref True) w_input w_empty = Inr (db', w_run, invoice_id, REJECTED_REWORK)"
    by (rule w_ingested)
  have s: "(audit_step exact_decimal w_runtime w_zod w_lib (\<lambda>_. ''''))\<^sup>*\<^sup>* w_empty db'"
    using audit_step.ingested [OF i w_new(1)] by blast
  have ok: "payments_ok w_empty" by (simp add: payments_ok_def w_empty_def)
  have "distinct (map (\<lambda>x. (pg_account_id x, pg_audit_run_id x, pg_action x)) (ad_decisions db'))"
    using payment_decisions_consistent [OF s ok] by (cases "ad_decisions db'") auto
  then show ?thesis using i by auto
qed

text \<open>
  C11: the payment gate follows the audit. Ingesting an invoice adds to the decision table exactly the
  default decision of the new run: a system hold when the audit scored the invoice and the account's
  policy (or the default, without one) holds payments, nothing when the policy does not, and a refusal
  when the audit rejected the invoice.
\<close>

theorem payment_gate_follows_audit:
  assumes "ingest_invoice D rt Z L fresh now ref i db = Inr (db', run, invoice_id, outc)" and "run_is_new (fresh ''audit_run'' 0) db"
  shows "\<exists>ds. ad_decisions db' = ad_decisions db @ ds \<and>
     (outc = SCORED \<longrightarrow> ds = (if holds_by_default (ig_client_id i) db
        then [system_decision (fresh ''payment_gate_decision'' 0) now (ig_client_id i) (fresh ''invoice'' 0) run Hold hold_rationale] else [])) \<and>
     (outc = REJECTED_REWORK \<longrightarrow> (\<exists>rationale. ds =
        [system_decision (fresh ''payment_gate_decision'' 0) now (ig_client_id i) (fresh ''invoice'' 0) run Do_Not_Pay rationale]))"
proof -
  obtain db2 pin db3 p and rj :: "audit_result \<times> json" where pin: "pi_client_id pin = ig_client_id i" "pi_result pin = fst rj"
    and p: "persist_audit_run D rt Z fresh now ref pin db2 = Inr (db3, p)" "run_is_new (fresh ''audit_run'' 0) db2" and a: "appends [] db3 db'"
    and out: "run = fresh ''audit_run'' 0" "outc = ar_outcome (fst rj)"
    and f: "ad_decisions db2 = ad_decisions db" "ad_policies db2 = ad_policies db"
    by (rule ingest_persists [OF assms])
  have h: "holds_by_default client db2 = holds_by_default client db" for client by (simp add: holds_by_default_def f)
  show ?thesis
    using persist_effect(1) [OF p] appends_fields(1) [OF a] by (cases outc) (auto simp: pin out [symmetric] f h)
qed

theorem payment_gate_follows_audit_witness:
  "\<exists>db' invoice_id d. ingest_invoice exact_decimal w_runtime w_zod w_lib w_fresh 7 (w_ref True) w_input w_empty =
       Inr (db', w_run, invoice_id, REJECTED_REWORK) \<and> ad_decisions db' = [d] \<and> pg_action d = Do_Not_Pay"
proof -
  obtain db' invoice_id where
    i: "ingest_invoice exact_decimal w_runtime w_zod w_lib w_fresh 7 (w_ref True) w_input w_empty = Inr (db', w_run, invoice_id, REJECTED_REWORK)"
    by (rule w_ingested)
  have "ad_decisions w_empty = []" by (simp add: w_empty_def)
  then show ?thesis using i payment_gate_follows_audit [OF i w_new(1)] by (auto simp: system_decision_def)
qed

text \<open>
  The guard of the authorization route accepts the names every object inherits. A request whose
  action is such a name (\<open>toString\<close>, say) passes the guard and is then refused by the schema with an
  exception the route does not turn into a reply, where any other unknown action is refused with 400.
  In both cases nothing is stored.
\<close>

theorem inherited_key_passes_action_guard:
  assumes "isUuid (aq_run_id q)" and "aq_action q = Some (JString s)" and "s \<notin> {''approve'', ''hold''}"
    and "aq_rationale q = None" and "aq_actor_user_id q = Some actor" and "actor \<noteq> []" and "aq_client_ids q = client # rest" and "client \<noteq> []"
  shows "payment_authorization_route rt Z new_id now others q db =
     (db, if s \<in> set OBJECT_PROTOTYPE_KEYS then PaymentThrown PaymentZodError else PaymentRefused 400)"
  using assms
  by (simp add: payment_authorization_route_def PAYMENT_AUTHORIZATION_ACTIONS_def authorize_payment_def parse_authorization_def)

theorem inherited_key_passes_action_guard_witness:
  "payment_authorization_route w_runtime w_zod w_decision 9 []
     \<lparr>aq_run_id = w_run, aq_action = Some (JString ''toString''), aq_rationale = None, aq_actor_user_id = Some w_contract, aq_client_ids = [w_client]\<rparr> p_db =
   (p_db, PaymentThrown PaymentZodError)"
proof -
  have "''toString'' \<in> set OBJECT_PROTOTYPE_KEYS" by (simp add: OBJECT_PROTOTYPE_KEYS_def)
  then show ?thesis
    by (subst inherited_key_passes_action_guard [where s = "''toString''" and actor = w_contract and client = w_client and rest = "[]"])
      (simp_all add: w_client_def)
qed

end
