(* ===== verification/Job_Theorems.thy ===== *)
theory Job_Theorems
  imports Workflow_Jobs
begin

text \<open>
  The type discipline of the background jobs: what a payload schema accepts, as a typing of JSON
  values that does not mention the parser.
\<close>

fun has_type :: "zod_lib \<Rightarrow> field_type \<Rightarrow> json \<Rightarrow> bool" where
  "has_type Z Literal1 v \<longleftrightarrow> v = JNumber (JFin 1)"
| "has_type Z Nullable_Uuid JNull \<longleftrightarrow> True"
| "has_type Z Open_Record (JObject ms) \<longleftrightarrow> True"
| "has_type Z Uuid_Field (JString s) \<longleftrightarrow> zod_uuid Z s"
| "has_type Z Nullable_Uuid (JString s) \<longleftrightarrow> zod_uuid Z s"
| "has_type Z Trimmed_Text (JString s) \<longleftrightarrow> s \<noteq> [] \<and> length s \<le> 255 \<and> \<not> is_space (hd s) \<and> \<not> is_space (last s)"
| "has_type Z Offset_Datetime (JString s) \<longleftrightarrow> zod_datetime Z s \<noteq> None"
| "has_type Z Source_Enum (JString s) \<longleftrightarrow> s \<in> {''eia_diesel'', ''mileage'', ''ocean_tariff'', ''nmfc''}"
| "has_type Z Type_Name (JString s) \<longleftrightarrow> is_type_name s"
| "has_type Z _ _ \<longleftrightarrow> False"

lemma js_trim_ends:
  assumes n: "js_trim s \<noteq> []"
  shows "\<not> is_space (hd (js_trim s))" "\<not> is_space (last (js_trim s))"
proof -
  show "\<not> is_space (hd (js_trim s))" using n js_trim_hd by (metis list.exhaust_sel)
  show "\<not> is_space (last (js_trim s))"
    using n hd_dropWhile [of is_space "rev (dropWhile is_space s)"] by (simp add: js_trim_def last_rev)
qed

lemma js_trim_fixed:
  assumes "\<not> is_space (hd s)" and "\<not> is_space (last s)"
  shows "js_trim s = s"
proof -
  have "dropWhile is_space s = s" using assms(1) by (cases s) auto
  moreover have "dropWhile is_space (rev s) = rev s" using assms(2) by (cases "rev s") (auto simp: hd_rev [symmetric])
  ultimately show ?thesis by (simp add: js_trim_def)
qed

lemma parse_field_typed: "parse_field Z ty v = Some w \<Longrightarrow> has_type Z ty w"
  by (cases "(Z, ty, v)" rule: parse_field.cases) (auto simp: Let_def Suc_le_eq js_trim_ends split: if_splits)

lemma typed_field_parses: "has_type Z ty w \<Longrightarrow> parse_field Z ty (Some w) = Some w"
  by (cases "(Z, ty, w)" rule: has_type.cases) (auto simp: js_trim_fixed Suc_le_eq)

text \<open>A typed payload lists the fields of the schema in their order, each with a value of its type.\<close>

definition typed_payload :: "zod_lib \<Rightarrow> (string \<times> field_type) list \<Rightarrow> (string \<times> json) list \<Rightarrow> bool" where
  "typed_payload Z fds ms \<longleftrightarrow> list_all2 (\<lambda>(k, ty) (k', v). k' = k \<and> has_type Z ty v) fds ms"

lemma parse_strict_typed:
  assumes "parse_strict Z fds v = Some ms"
  shows "typed_payload Z fds ms"
  using assms
  by (auto simp: parse_strict_def typed_payload_def Let_def list_all2_conv_all_nth list_all_length case_prod_unfold
      split: json.splits if_splits intro!: parse_field_typed)

lemma typed_payload_keys: "typed_payload Z fds ms \<Longrightarrow> map fst ms = map fst fds"
  by (auto simp: typed_payload_def list_all2_conv_all_nth case_prod_unfold intro: nth_equalityI)

lemma typed_payload_parses:
  assumes t: "typed_payload Z fds ms" and d: "distinct (map fst fds)"
  shows "parse_strict Z fds (JObject ms) = Some ms"
proof -
  note keys = typed_payload_keys [OF t]
  have l: "length ms = length fds" using t by (simp add: typed_payload_def list_all2_lengthD)
  have "map (\<lambda>(k, ty). (k, parse_field Z ty (json_member k ms))) fds = map (\<lambda>(k, v). (k, Some v)) ms"
  proof (rule nth_equalityI)
    fix n assume "n < length (map (\<lambda>(k, ty). (k, parse_field Z ty (json_member k ms))) fds)"
    then have n: "n < length fds" by simp
    obtain k ty where f: "fds ! n = (k, ty)" by (cases "fds ! n")
    obtain v where v: "ms ! n = (k, v)" "has_type Z ty v"
      using t n f by (cases "ms ! n") (auto simp: typed_payload_def list_all2_conv_all_nth)
    have "json_member k ms = Some v"
      unfolding json_member_def using d keys v(1) n l by (metis map_of_is_SomeI nth_mem)
    then show "map (\<lambda>(k, ty). (k, parse_field Z ty (json_member k ms))) fds ! n = map (\<lambda>(k, v). (k, Some v)) ms ! n"
      using n l f v typed_field_parses [OF v(2)] by simp
  qed (simp add: l)
  moreover have "list_all (\<lambda>(k, _). k \<in> set (map fst fds)) ms"
    unfolding list_all_iff keys [symmetric] by force
  ultimately show ?thesis by (simp add: parse_strict_def Let_def list_all_iff case_prod_unfold comp_def)
qed

lemma schema_keys_distinct: "distinct (map fst (job_payload_schema name))"
  by (cases name) (simp_all add: envelope_def scan_envelope_def)

text \<open>Every queued job carries a payload of the schema of its name.\<close>

definition queue_typed :: "zod_lib \<Rightarrow> boss_job list \<Rightarrow> bool" where
  "queue_typed Z jobs \<longleftrightarrow> (\<forall>j \<in> set jobs. typed_payload Z (job_payload_schema (bj_name j)) (bj_payload j))"

lemma parse_job_payload_Inr: "parse_job_payload Z name v = Inr p \<longleftrightarrow> parse_strict Z (job_payload_schema name) v = Some p"
  by (auto simp: parse_job_payload_def split: option.splits)

section \<open>Property\<close>

text \<open>
  C21: the job queue is well typed. Enqueueing keeps every queued payload typed by the schema of its
  job (exactly its fields, in its order, each of its type), and typed payloads are accepted: the check
  the worker repeats before it runs a job gives back the stored payload, so a job that was enqueued is
  never rejected by it. pg-boss drops a job whose identifier is in the queue.
\<close>

theorem job_queue_typed:
  assumes "boss_dedupes B" and "enqueue_in_transaction rt Z B tenant name untrusted key jobs = Inr (jobs', i, inserted)" and "queue_typed Z jobs"
  shows "queue_typed Z jobs' \<and>
     (\<forall>j \<in> set jobs'. parse_job_payload Z (bj_name j) (JObject (bj_payload j)) = Inr (bj_payload j))"
proof -
  obtain p where p: "parse_job_payload Z name untrusted = Inr p"
    and jobs': "set jobs' \<subseteq> insert \<lparr>bj_id = i, bj_name = name, bj_payload = p\<rparr> (set jobs)"
    using assms(1,2) by (auto simp: enqueue_in_transaction_def rbind_eq_Inr Let_def boss_dedupes_def insert_row_def split: if_splits)
  have "typed_payload Z (job_payload_schema name) p"
    using p parse_strict_typed unfolding parse_job_payload_Inr by blast
  then have q: "queue_typed Z jobs'" using assms(3) jobs' by (auto simp: queue_typed_def)
  then show ?thesis
    using typed_payload_parses schema_keys_distinct unfolding parse_job_payload_Inr queue_typed_def by blast
qed

definition scan_request :: json where
  "scan_request = JObject [(''schemaVersion'', JNumber (JFin 1)), (''clientId'', JString ''acme''), (''idempotencyKey'', JString '' k1 ''),
     (''requestedAt'', JString ''now''), (''claimId'', JString ''c1'')]"

theorem job_queue_typed_witness:
  "\<exists>jobs' i. enqueue_in_transaction \<lparr>rt_locale_compare = unit_compare, rt_sha256_hex = sample_digest, rt_number_string = fraction_string\<rparr>
       \<lparr>zod_uuid = (\<lambda>_. True), zod_int = (\<lambda>_. True), zod_date = (\<lambda>_. None), zod_datetime = (\<lambda>_. Some 0)\<rparr>
       \<lparr>boss_send = insert_row (\<lambda>a b. bj_id a = bj_id b)\<rparr> ''acme'' ESCALATE_CLAIM_V1 scan_request None [] = Inr (jobs', i, True) \<and>
     length jobs' = 1 \<and> json_member ''idempotencyKey'' (bj_payload (hd jobs')) = Some (JString ''k1'') \<and>
     queue_typed \<lparr>zod_uuid = (\<lambda>_. True), zod_int = (\<lambda>_. True), zod_date = (\<lambda>_. None), zod_datetime = (\<lambda>_. Some 0)\<rparr> jobs'"
proof -
  let ?rt = "\<lparr>rt_locale_compare = unit_compare, rt_sha256_hex = sample_digest, rt_number_string = fraction_string\<rparr>"
  let ?Z = "\<lparr>zod_uuid = (\<lambda>_. True), zod_int = (\<lambda>_. True), zod_date = (\<lambda>_. None), zod_datetime = (\<lambda>_. Some 0)\<rparr>"
  let ?B = "\<lparr>boss_send = insert_row (\<lambda>a b. bj_id a = bj_id b)\<rparr>"
  have "case enqueue_in_transaction ?rt ?Z ?B ''acme'' ESCALATE_CLAIM_V1 scan_request None [] of Inl _ \<Rightarrow> False
    | Inr (jobs', i, ins) \<Rightarrow> ins \<and> length jobs' = 1 \<and> json_member ''idempotencyKey'' (bj_payload (hd jobs')) = Some (JString ''k1'')" by code_simp
  then obtain jobs' i where e: "enqueue_in_transaction ?rt ?Z ?B ''acme'' ESCALATE_CLAIM_V1 scan_request None [] = Inr (jobs', i, True)"
    and l: "length jobs' = 1" "json_member ''idempotencyKey'' (bj_payload (hd jobs')) = Some (JString ''k1'')" by (auto split: sum.splits)
  have b: "boss_dedupes ?B" by (simp add: boss_dedupes_def)
  have "queue_typed ?Z []" by (simp add: queue_typed_def)
  from job_queue_typed [OF b e this] e l show ?thesis by blast
qed

end
