(* ===== verification/Claims.thy ===== *)
theory Claims
  imports Money_Columns Job_Queue
begin

text \<open>
  Claims against carriers and their recovery (src/modules/claims): opening a claim from an accepted
  dispute, recording partial recoveries, resolving a claim to one of its three outcomes, and the
  follow-up and escalation of claims past their deadline. Amounts are columns of ten-thousandths,
  instants are milliseconds.
\<close>

section \<open>Tables\<close>

record claim =
  cl_id :: uuid
  cl_account_id :: uuid
  cl_dispute_id :: "uuid option"
  cl_amount_claimed :: int
  cl_currency :: "string option"
  cl_status :: string
  cl_opened_at :: instant
  cl_aging_deadline_at :: "instant option"

record recovery_event =
  re_id :: uuid
  re_account_id :: uuid
  re_claim_id :: "uuid option"
  re_variance_finding_id :: "uuid option"
  re_amount_recovered :: int
  re_currency :: "string option"

record dispute =
  di_id :: uuid
  di_account_id :: uuid
  di_status :: string
  di_amount_claimed :: "int option"
  di_currency :: "string option"
  di_carrier_id :: "uuid option"
  di_accepted_amount :: "int option"

record dispute_line =
  dl_id :: uuid
  dl_account_id :: uuid
  dl_dispute_id :: uuid
  dl_variance_finding_id :: "uuid option"
  dl_amount :: "int option"
  dl_currency :: "string option"

record variance_finding =
  vf_id :: uuid
  vf_account_id :: uuid
  vf_audit_run_id :: uuid
  vf_status :: string
  vf_direction :: "finding_direction option"
  vf_variance_amount :: "int option"
  vf_currency :: "string option"
  vf_assigned_to_user_id :: "uuid option"
  vf_clause_id :: "uuid option"
  vf_rate_cell_id :: "uuid option"

record finding_status_event =
  fs_id :: uuid
  fs_account_id :: uuid
  fs_variance_finding_id :: uuid
  fs_from_status :: string
  fs_to_status :: string
  fs_actor_kind :: string
  fs_note :: "string option"

record account =
  acc_id :: uuid
  acc_name :: string
  acc_is_active :: bool

record claims_db =
  cd_accounts :: "account list"
  cd_disputes :: "dispute list"
  cd_dispute_lines :: "dispute_line list"
  cd_findings :: "variance_finding list"
  cd_finding_events :: "finding_status_event list"
  cd_claims :: "claim list"
  cd_recoveries :: "recovery_event list"
  cd_audit :: "audit_event_row list"
  cd_jobs :: "boss_job list"

datatype claim_code =
    NON_POSITIVE_AMOUNT | MISSING_CURRENCY | MIXED_CURRENCY | EXCEEDS_CLAIMED_AMOUNT
  | ALREADY_TERMINAL | FULL_RECOVERY_AMOUNT_MISMATCH | WRITE_OFF_EXCEEDS_CLAIMED_AMOUNT | DENIAL_MUST_NOT_INCLUDE_AMOUNT
  | NOT_ACCEPTED | MISSING_AMOUNT
  | CLAIM_NOT_FOUND | CLAIM_TERMINAL | NO_DEADLINE_SET | DEADLINE_NOT_PASSED | NO_FOLLOW_UP_SENT | GRACE_PERIOD_NOT_ELAPSED
  | RECOVERY_EVENT_NOT_FOUND

text \<open>
  The errors of the module; \<open>ClaimDecimalError\<close> is thrown by the Decimal constructor,
  \<open>NumericOverflow\<close>, \<open>CurrencyCheckViolation\<close> and \<open>InvalidStatus\<close> by the database, \<open>UnreachableError\<close> stands for the two
  callbacks the code marks so.
\<close>

datatype claim_error =
    ClaimZodError
  | PartialRecoveryError claim_code
  | ClaimResolutionError claim_code
  | ClaimableDisputeError claim_code
  | DisputeNotFoundError
  | DuplicateClaimedFindingError "uuid list"
  | RecordPartialRecoveryError claim_code
  | ResolveClaimError claim_code
  | SetClaimAgingDeadlineError claim_code
  | GenerateClaimFollowUpError claim_code
  | GenerateClaimEscalationError claim_code
  | GetClaimError claim_code
  | ClaimInsertConflict
  | ClaimDecimalError
  | NumericOverflow
  | CurrencyCheckViolation
  | InvalidStatus
  | UnreachableError
  | ClaimAuditError audit_error
  | ClaimJobError job_error

section \<open>claim-status.ts\<close>

definition CLAIM_TERMINAL_EVENTS :: "(string \<times> string) list" where
  "CLAIM_TERMINAL_EVENTS =
     [(''recovered'', ''claim.recovered''), (''denied'', ''claim.denied''), (''written_off'', ''claim.written_off'')]"

definition CLAIM_TERMINAL_STATUSES :: "string list" where
  "CLAIM_TERMINAL_STATUSES = map fst CLAIM_TERMINAL_EVENTS"

definition CLAIM_TERMINAL_EVENT_NAMES :: "string list" where
  "CLAIM_TERMINAL_EVENT_NAMES = map snd CLAIM_TERMINAL_EVENTS"

definition CLAIM_FOLLOW_UP_EVENT :: string where
  "CLAIM_FOLLOW_UP_EVENT = ''claim.follow_up_sent''"

definition is_claim_terminal_status :: "string \<Rightarrow> bool" where
  "is_claim_terminal_status s \<longleftrightarrow> s \<in> set CLAIM_TERMINAL_STATUSES"

section \<open>validate-recovery-amount-and-currency.ts\<close>

text \<open>The three callbacks are the errors they throw.\<close>

record amount_errors =
  on_non_positive_amount :: claim_error
  on_missing_currency :: claim_error
  on_mixed_currency :: claim_error

definition validate_recovery_amount_and_currency ::
  "'d decimal_lib \<Rightarrow> string \<Rightarrow> string option \<Rightarrow> string option \<Rightarrow> amount_errors \<Rightarrow> (claim_error, string \<times> string) result" where
  "validate_recovery_amount_and_currency D amount currency existing errors =
     rbind (read_decimal ClaimDecimalError D amount) (\<lambda>d.
     rbind (ensure (\<not> dec_le D d (dec_zero D)) (on_non_positive_amount errors)) (\<lambda>_.
     case currency of
       None \<Rightarrow> Inl (on_missing_currency errors)
     | Some c \<Rightarrow>
         rbind (ensure (existing = None \<or> existing = Some c) (on_mixed_currency errors)) (\<lambda>_. Inr (amount, c))))"

section \<open>validate-partial-recovery.ts\<close>

text \<open>The columns a validator reads, as the driver returns them.\<close>

record claim_view =
  cv_id :: uuid
  cv_amount_claimed :: string
  cv_currency :: "string option"
  cv_status :: string

definition claim_view_of :: "claim \<Rightarrow> claim_view" where
  "claim_view_of c =
     \<lparr>cv_id = cl_id c, cv_amount_claimed = numeric_text (cl_amount_claimed c), cv_currency = cl_currency c, cv_status = cl_status c\<rparr>"

record validated_partial_recovery =
  vp_claim_id :: uuid
  vp_amount_recovered :: string
  vp_currency :: string
  vp_cumulative_recovered :: string
  vp_is_final :: bool

definition partial_errors :: amount_errors where
  "partial_errors =
     \<lparr>on_non_positive_amount = PartialRecoveryError NON_POSITIVE_AMOUNT,
      on_missing_currency = PartialRecoveryError MISSING_CURRENCY,
      on_mixed_currency = PartialRecoveryError MIXED_CURRENCY\<rparr>"

definition validate_partial_recovery ::
  "'d decimal_lib \<Rightarrow> claim_view \<Rightarrow> string \<Rightarrow> string option \<Rightarrow> string \<Rightarrow> (claim_error, validated_partial_recovery) result" where
  "validate_partial_recovery D claim amount currency prior_total =
     rbind (validate_recovery_amount_and_currency D amount currency (cv_currency claim) partial_errors) (\<lambda>(a, c).
     rbind (read_decimal ClaimDecimalError D prior_total) (\<lambda>prior.
     rbind (read_decimal ClaimDecimalError D a) (\<lambda>d.
     rbind (read_decimal ClaimDecimalError D (cv_amount_claimed claim)) (\<lambda>claimed.
       let cumulative = dec_plus D prior d
       in rbind (ensure (\<not> dec_lt D claimed cumulative) (PartialRecoveryError EXCEEDS_CLAIMED_AMOUNT)) (\<lambda>_.
          Inr \<lparr>vp_claim_id = cv_id claim, vp_amount_recovered = a, vp_currency = c,
               vp_cumulative_recovered = dec_to_fixed D 4 cumulative, vp_is_final = dec_eq D cumulative claimed\<rparr>)))))"

section \<open>validate-claim-resolution.ts\<close>

datatype resolution_kind = FULL_RECOVERY | DENIAL | WRITE_OFF

fun kind_text :: "resolution_kind \<Rightarrow> string" where
  "kind_text FULL_RECOVERY = ''FULL_RECOVERY''"
| "kind_text DENIAL = ''DENIAL''"
| "kind_text WRITE_OFF = ''WRITE_OFF''"

record validated_resolution =
  vr_claim_id :: uuid
  vr_kind :: resolution_kind
  vr_amount_recovered :: "string option"
  vr_currency :: "string option"
  vr_new_status :: string

definition resolution_errors :: amount_errors where
  "resolution_errors =
     \<lparr>on_non_positive_amount = ClaimResolutionError NON_POSITIVE_AMOUNT,
      on_missing_currency = ClaimResolutionError MISSING_CURRENCY,
      on_mixed_currency = ClaimResolutionError MIXED_CURRENCY\<rparr>"

definition validate_claim_resolution ::
  "'d decimal_lib \<Rightarrow> claim_view \<Rightarrow> resolution_kind \<Rightarrow> string \<Rightarrow> string option \<Rightarrow> string option
   \<Rightarrow> (claim_error, validated_resolution) result" where
  "validate_claim_resolution D claim kind prior_total amount currency =
     (let out = \<lambda>a c s. \<lparr>vr_claim_id = cv_id claim, vr_kind = kind, vr_amount_recovered = a, vr_currency = c, vr_new_status = s\<rparr>
      in if is_claim_terminal_status (cv_status claim) then Inl (ClaimResolutionError ALREADY_TERMINAL)
         else if kind = DENIAL then
           (if amount \<noteq> None then Inl (ClaimResolutionError DENIAL_MUST_NOT_INCLUDE_AMOUNT)
            else Inr (out None None ''denied''))
         else if kind = WRITE_OFF \<and> amount = None then Inr (out None None ''written_off'')
         else case amount of
           None \<Rightarrow> Inl (ClaimResolutionError NON_POSITIVE_AMOUNT)
         | Some amt \<Rightarrow>
             rbind (validate_recovery_amount_and_currency D amt currency (cv_currency claim) resolution_errors) (\<lambda>(a, c).
             rbind (read_decimal ClaimDecimalError D prior_total) (\<lambda>prior.
             rbind (read_decimal ClaimDecimalError D a) (\<lambda>d.
             rbind (read_decimal ClaimDecimalError D (cv_amount_claimed claim)) (\<lambda>claimed.
               let cumulative = dec_plus D prior d
               in if kind = FULL_RECOVERY then
                    (if \<not> dec_eq D cumulative claimed then Inl (ClaimResolutionError FULL_RECOVERY_AMOUNT_MISMATCH)
                     else Inr (out (Some a) (Some c) ''recovered''))
                  else if dec_le D claimed cumulative then Inl (ClaimResolutionError WRITE_OFF_EXCEEDS_CLAIMED_AMOUNT)
                  else Inr (out (Some a) (Some c) ''written_off''))))))"

section \<open>validate-claimable-dispute.ts, detect-duplicate-claimed-finding.ts\<close>

definition dispute_errors :: amount_errors where
  "dispute_errors =
     \<lparr>on_non_positive_amount = ClaimableDisputeError NON_POSITIVE_AMOUNT,
      on_missing_currency = UnreachableError, on_mixed_currency = UnreachableError\<rparr>"

text \<open>The dispute id, the amount and the currency.\<close>

definition validate_claimable_dispute :: "'d decimal_lib \<Rightarrow> dispute \<Rightarrow> (claim_error, uuid \<times> string \<times> string) result" where
  "validate_claimable_dispute D row =
     rbind (ensure (di_status row = ''accepted'') (ClaimableDisputeError NOT_ACCEPTED)) (\<lambda>_.
     case di_amount_claimed row of
       None \<Rightarrow> Inl (ClaimableDisputeError MISSING_AMOUNT)
     | Some n \<Rightarrow>
         (case di_currency row of
            None \<Rightarrow> Inl (ClaimableDisputeError MISSING_CURRENCY)
          | Some c \<Rightarrow>
              rbind (validate_recovery_amount_and_currency D (numeric_text n) (Some c) None dispute_errors)
                (\<lambda>(a, cur). Inr (di_id row, a, cur))))"

definition claimed_elsewhere :: "claims_db \<Rightarrow> dispute_line \<Rightarrow> bool" where
  "claimed_elsewhere db dl =
     list_ex (\<lambda>other. dl_account_id other = dl_account_id dl \<and>
                sql_eq (dl_variance_finding_id other) (dl_variance_finding_id dl) \<and>
                dl_dispute_id other \<noteq> dl_dispute_id dl \<and>
                list_ex (\<lambda>c. cl_account_id c = dl_account_id other \<and> cl_dispute_id c = Some (dl_dispute_id other)) (cd_claims db))
       (cd_dispute_lines db)"

definition detect_duplicate_claimed_finding :: "uuid \<Rightarrow> uuid \<Rightarrow> claims_db \<Rightarrow> (claim_error, unit) result" where
  "detect_duplicate_claimed_finding client dispute_id db =
     (let hits = remdups (List.map_filter dl_variance_finding_id
                   (filter (\<lambda>dl. dl_account_id dl = client \<and> dl_dispute_id dl = dispute_id \<and> claimed_elsewhere db dl)
                      (cd_dispute_lines db)))
      in ensure (hits = []) (DuplicateClaimedFindingError hits))"

section \<open>create-claim-from-dispute.ts\<close>

definition optional_zod_uuid :: "zod_lib \<Rightarrow> uuid option \<Rightarrow> bool" where
  "optional_zod_uuid Z u = (case u of None \<Rightarrow> True | Some s \<Rightarrow> zod_uuid Z s)"

definition write_claims_event :: "instant \<Rightarrow> audit_event \<Rightarrow> claims_db \<Rightarrow> (claim_error, claims_db \<times> bool) result" where
  "write_claims_event now e db =
     (case write_audit_event now e (cd_audit db) of
        Inl x \<Rightarrow> Inl (ClaimAuditError x)
      | Inr (rows, _, created) \<Rightarrow> Inr (db\<lparr>cd_audit := rows\<rparr>, created))"

record create_claim_input =
  cc_client_id :: uuid
  cc_dispute_id :: uuid
  cc_actor_user_id :: "uuid option"

record create_claim_result =
  cr_claim_id :: uuid
  cr_dispute_id :: uuid
  cr_amount_claimed :: string
  cr_currency :: string
  cr_created :: bool

definition claim_of_dispute :: "uuid \<Rightarrow> uuid \<Rightarrow> claim \<Rightarrow> bool" where
  "claim_of_dispute client dispute_id c = (cl_account_id c = client \<and> cl_dispute_id c = Some dispute_id)"

definition select_existing_claim :: "uuid \<Rightarrow> uuid \<Rightarrow> claims_db \<Rightarrow> create_claim_result option" where
  "select_existing_claim client dispute_id db =
     map_option (\<lambda>c. \<lparr>cr_claim_id = cl_id c, cr_dispute_id = dispute_id, cr_amount_claimed = numeric_text (cl_amount_claimed c),
                     cr_currency = (case cl_currency c of None \<Rightarrow> [] | Some x \<Rightarrow> x), cr_created = False\<rparr>)
       (find (claim_of_dispute client dispute_id) (cd_claims db))"

definition claim_created_event ::
  "runtime \<Rightarrow> uuid \<Rightarrow> uuid option \<Rightarrow> uuid \<Rightarrow> uuid \<Rightarrow> string \<Rightarrow> string \<Rightarrow> audit_event" where
  "claim_created_event rt client actor i dispute_id amount currency =
     analyst_event rt client ''claim'' i ''claim.created'' [client, i, ''claim.created''] actor
       [(''disputeId'', JString dispute_id), (''amountClaimed'', JString amount), (''currency'', JString currency)]"

definition opened_claim :: "uuid \<Rightarrow> instant \<Rightarrow> uuid \<Rightarrow> uuid \<Rightarrow> int \<Rightarrow> string \<Rightarrow> claim" where
  "opened_claim new_id now client dispute_id n currency =
     \<lparr>cl_id = new_id, cl_account_id = client, cl_dispute_id = Some dispute_id, cl_amount_claimed = n, cl_currency = Some currency,
      cl_status = ''open'', cl_opened_at = now, cl_aging_deadline_at = None\<rparr>"

text \<open>
  \<open>others\<close> are the claims other transactions commit between the checks and the insert, which sees
  them (the isolation level is READ COMMITTED).
\<close>

definition create_claim_from_dispute ::
  "'d decimal_lib \<Rightarrow> runtime \<Rightarrow> zod_lib \<Rightarrow> uuid \<Rightarrow> instant \<Rightarrow> claim list \<Rightarrow> create_claim_input \<Rightarrow> claims_db
   \<Rightarrow> (claim_error, claims_db \<times> create_claim_result) result" where
  "create_claim_from_dispute D rt Z new_id now others i db0 =
     rbind (ensure (zod_uuid Z (cc_client_id i) \<and> zod_uuid Z (cc_dispute_id i) \<and> optional_zod_uuid Z (cc_actor_user_id i)) ClaimZodError) (\<lambda>_.
     case find (\<lambda>d. di_account_id d = cc_client_id i \<and> di_id d = cc_dispute_id i) (cd_disputes db0) of
       None \<Rightarrow> Inl DisputeNotFoundError
     | Some row \<Rightarrow>
         (case select_existing_claim (cc_client_id i) (cc_dispute_id i) db0 of
            Some r \<Rightarrow> Inr (db0, r)
          | None \<Rightarrow>
              rbind (validate_claimable_dispute D row) (\<lambda>(dispute_id, amount, currency).
              rbind (detect_duplicate_claimed_finding (cc_client_id i) (cc_dispute_id i) db0) (\<lambda>_.
                let db = db0\<lparr>cd_claims := cd_claims db0 @ others\<rparr>
                in case store_numeric amount of
                     None \<Rightarrow> Inl NumericOverflow
                   | Some n \<Rightarrow>
                       rbind (ensure (currency_format currency) CurrencyCheckViolation) (\<lambda>_.
                       (let (claims, created) =
                              insert_row (\<lambda>a b. cl_account_id b = cl_account_id a \<and> sql_eq (cl_dispute_id b) (cl_dispute_id a))
                                (opened_claim new_id now (cc_client_id i) dispute_id n currency) (cd_claims db)
                        in if \<not> created then
                             (case select_existing_claim (cc_client_id i) (cc_dispute_id i) db of
                                None \<Rightarrow> Inl ClaimInsertConflict
                              | Some r \<Rightarrow> Inr (db, r))
                           else
                             rbind (write_claims_event now
                                      (claim_created_event rt (cc_client_id i) (cc_actor_user_id i) new_id dispute_id amount currency)
                                      (db\<lparr>cd_claims := claims\<rparr>)) (\<lambda>(db', _).
                             Inr (db', \<lparr>cr_claim_id = new_id, cr_dispute_id = dispute_id, cr_amount_claimed = amount,
                                       cr_currency = currency, cr_created = True\<rparr>))))))))"

section \<open>enqueue-reconciliation-export.ts\<close>

definition DEFAULT_RECONCILIATION_EXPORT_SYSTEM_CODE :: string where
  "DEFAULT_RECONCILIATION_EXPORT_SYSTEM_CODE = ''DEFAULT_AP_ERP''"

definition nullable_json :: "string option \<Rightarrow> json" where
  "nullable_json v = (case v of None \<Rightarrow> JNull | Some s \<Rightarrow> JString s)"

text \<open>The job of one recovery event; \<open>requested_at\<close> is the current time as the runtime prints it.\<close>

definition export_payload :: "uuid \<Rightarrow> uuid \<Rightarrow> uuid \<Rightarrow> string \<Rightarrow> string \<Rightarrow> uuid option \<Rightarrow> string \<Rightarrow> json" where
  "export_payload client claim_id recovery_id amount currency finding requested_at =
     JObject
       [(''schemaVersion'', JNumber (JFin 1)), (''clientId'', JString client),
        (''idempotencyKey'', JString (''recovery-export:'' @ recovery_id)), (''requestedAt'', JString requested_at),
        (''claimId'', JString claim_id), (''paymentGateDecisionId'', JNull),
        (''systemCode'', JString DEFAULT_RECONCILIATION_EXPORT_SYSTEM_CODE),
        (''payload'', JObject
           [(''recoveryEventId'', JString recovery_id), (''claimId'', JString claim_id), (''amountRecovered'', JString amount),
            (''currency'', JString currency), (''varianceFindingId'', nullable_json finding)])]"

definition enqueue_reconciliation_export ::
  "runtime \<Rightarrow> zod_lib \<Rightarrow> boss_lib \<Rightarrow> uuid \<Rightarrow> uuid \<Rightarrow> uuid \<Rightarrow> string \<Rightarrow> string \<Rightarrow> uuid option \<Rightarrow> string \<Rightarrow> boss_job list
   \<Rightarrow> (job_error, boss_job list \<times> uuid \<times> bool) result" where
  "enqueue_reconciliation_export rt Z B client claim_id recovery_id amount currency finding requested_at jobs =
     enqueue_in_transaction rt Z B client EXPORT_RECORD_V1
       (export_payload client claim_id recovery_id amount currency finding requested_at) None jobs"

section \<open>record-partial-recovery.ts\<close>

record recovery_input =
  ri_client_id :: uuid
  ri_claim_id :: uuid
  ri_amount_recovered :: string
  ri_currency :: string
  ri_variance_finding_id :: "uuid option"

definition recovery_input_ok :: "zod_lib \<Rightarrow> recovery_input \<Rightarrow> bool" where
  "recovery_input_ok Z i \<longleftrightarrow>
     zod_uuid Z (ri_client_id i) \<and> zod_uuid Z (ri_claim_id i) \<and> is_amount_literal (ri_amount_recovered i) \<and>
     length (ri_currency i) = 3 \<and> optional_zod_uuid Z (ri_variance_finding_id i)"

definition find_claim :: "uuid \<Rightarrow> uuid \<Rightarrow> claims_db \<Rightarrow> claim option" where
  "find_claim client claim_id db = find (\<lambda>c. cl_account_id c = client \<and> cl_id c = claim_id) (cd_claims db)"

definition recoveries_of :: "uuid \<Rightarrow> uuid \<Rightarrow> claims_db \<Rightarrow> recovery_event list" where
  "recoveries_of client claim_id db =
     filter (\<lambda>r. re_account_id r = client \<and> re_claim_id r = Some claim_id) (cd_recoveries db)"

definition prior_total :: "uuid \<Rightarrow> uuid \<Rightarrow> claims_db \<Rightarrow> string" where
  "prior_total client claim_id db = sum_text (map re_amount_recovered (recoveries_of client claim_id db))"

text \<open>\<open>INSERT INTO recovery_event\<close>, which fails when the amount or the currency does not fit its column.\<close>

definition insert_recovery ::
  "uuid \<Rightarrow> uuid \<Rightarrow> uuid \<Rightarrow> uuid option \<Rightarrow> string \<Rightarrow> string option \<Rightarrow> claims_db \<Rightarrow> (claim_error, claims_db) result" where
  "insert_recovery new_id client claim_id finding amount currency db =
     (case store_numeric amount of
        None \<Rightarrow> Inl NumericOverflow
      | Some n \<Rightarrow>
          rbind (ensure (case currency of None \<Rightarrow> True | Some c \<Rightarrow> currency_format c) CurrencyCheckViolation) (\<lambda>_.
          Inr (db\<lparr>cd_recoveries := cd_recoveries db @
            [\<lparr>re_id = new_id, re_account_id = client, re_claim_id = Some claim_id, re_variance_finding_id = finding,
              re_amount_recovered = n, re_currency = currency\<rparr>]\<rparr>)))"

definition recovery_recorded_event ::
  "runtime \<Rightarrow> uuid \<Rightarrow> uuid \<Rightarrow> uuid \<Rightarrow> validated_partial_recovery \<Rightarrow> audit_event" where
  "recovery_recorded_event rt client recovery_id claim_id v =
     analyst_event rt client ''recovery_event'' recovery_id ''recovery_event.recorded''
       [client, recovery_id, ''recovery-event.recorded''] None
       [(''claimId'', JString claim_id), (''amountRecovered'', JString (vp_amount_recovered v)),
        (''cumulativeRecovered'', JString (vp_cumulative_recovered v)), (''isFinal'', JBool (vp_is_final v))]"

text \<open>A failing enqueue rolls back to the savepoint: the job table stays as it was.\<close>

definition export_or_rollback ::
  "runtime \<Rightarrow> zod_lib \<Rightarrow> boss_lib \<Rightarrow> uuid \<Rightarrow> string \<Rightarrow> recovery_input \<Rightarrow> validated_partial_recovery \<Rightarrow> claims_db \<Rightarrow> claims_db" where
  "export_or_rollback rt Z B new_id requested_at i v db =
     (case enqueue_reconciliation_export rt Z B (ri_client_id i) (ri_claim_id i) new_id (vp_amount_recovered v) (vp_currency v)
             (ri_variance_finding_id i) requested_at (cd_jobs db) of
        Inl _ \<Rightarrow> db
      | Inr (jobs, _) \<Rightarrow> db\<lparr>cd_jobs := jobs\<rparr>)"

text \<open>\<open>others\<close> are the recoveries other transactions commit between the reads and the insert.\<close>

definition record_partial_recovery ::
  "'d decimal_lib \<Rightarrow> runtime \<Rightarrow> zod_lib \<Rightarrow> boss_lib \<Rightarrow> uuid \<Rightarrow> instant \<Rightarrow> string \<Rightarrow> recovery_event list \<Rightarrow> recovery_input \<Rightarrow> claims_db
   \<Rightarrow> (claim_error, claims_db \<times> uuid \<times> string \<times> bool) result" where
  "record_partial_recovery D rt Z B new_id now requested_at others i db =
     rbind (ensure (recovery_input_ok Z i) ClaimZodError) (\<lambda>_.
     case find_claim (ri_client_id i) (ri_claim_id i) db of
       None \<Rightarrow> Inl (RecordPartialRecoveryError CLAIM_NOT_FOUND)
     | Some c \<Rightarrow>
         rbind (validate_partial_recovery D (claim_view_of c) (ri_amount_recovered i) (Some (ri_currency i))
                  (prior_total (ri_client_id i) (ri_claim_id i) db)) (\<lambda>v.
         rbind (insert_recovery new_id (ri_client_id i) (ri_claim_id i) (ri_variance_finding_id i) (vp_amount_recovered v)
                  (Some (vp_currency v)) (db\<lparr>cd_recoveries := cd_recoveries db @ others\<rparr>)) (\<lambda>db1.
         rbind (write_claims_event now (recovery_recorded_event rt (ri_client_id i) new_id (ri_claim_id i) v) db1) (\<lambda>(db2, _).
         Inr (export_or_rollback rt Z B new_id requested_at i v db2, new_id, vp_cumulative_recovered v, vp_is_final v)))))"

section \<open>update-finding-status.ts\<close>

definition VARIANCE_STATUSES :: "string list" where
  "VARIANCE_STATUSES =
     [''open'', ''in_review'', ''accepted'', ''waived'', ''queued_for_dispute'', ''disputed'', ''recovered'', ''written_off'', ''closed'']"

definition finding_changed_event ::
  "runtime \<Rightarrow> uuid \<Rightarrow> uuid \<Rightarrow> uuid \<Rightarrow> string \<Rightarrow> string \<Rightarrow> string option \<Rightarrow> uuid option \<Rightarrow> audit_event" where
  "finding_changed_event rt account finding_id status_event_id from_status to_status note actor =
     analyst_event rt account ''variance_finding'' finding_id ''finding.status_changed''
       [account, status_event_id, ''finding.status_changed''] actor
       [(''fromStatus'', JString from_status), (''toStatus'', JString to_status), (''note'', nullable_json note),
        (''statusEventId'', JString status_event_id)]"

text \<open>\<open>visible\<close> are the accounts that row-level security shows to the transaction.\<close>

definition update_finding_status ::
  "runtime \<Rightarrow> uuid list \<Rightarrow> uuid \<Rightarrow> instant \<Rightarrow> uuid \<Rightarrow> string \<Rightarrow> string option \<Rightarrow> uuid option \<Rightarrow> claims_db
   \<Rightarrow> (claim_error, claims_db \<times> bool) result" where
  "update_finding_status rt visible new_id now finding_id to_status note actor db =
     rbind (ensure (to_status \<in> set VARIANCE_STATUSES) InvalidStatus) (\<lambda>_.
     case find (\<lambda>f. vf_id f = finding_id \<and> vf_account_id f \<in> set visible) (cd_findings db) of
       None \<Rightarrow> Inr (db, False)
     | Some f \<Rightarrow>
         rbind (write_claims_event now
                  (finding_changed_event rt (vf_account_id f) finding_id new_id (vf_status f) to_status note actor)
                  (db\<lparr>cd_findings := map (\<lambda>g. if vf_id g = finding_id \<and> vf_account_id g \<in> set visible
                                               then g\<lparr>vf_status := to_status\<rparr> else g) (cd_findings db),
                      cd_finding_events := cd_finding_events db @
                        [\<lparr>fs_id = new_id, fs_account_id = vf_account_id f, fs_variance_finding_id = finding_id,
                          fs_from_status = vf_status f, fs_to_status = to_status, fs_actor_kind = ''analyst'', fs_note = note\<rparr>]\<rparr>))
           (\<lambda>(db', _). Inr (db', True)))"

section \<open>resolve-claim.ts\<close>

record resolve_input =
  rs_client_id :: uuid
  rs_claim_id :: uuid
  rs_kind :: resolution_kind
  rs_amount_recovered :: "string option"
  rs_currency :: "string option"
  rs_variance_finding_id :: "uuid option"

definition resolve_input_ok :: "zod_lib \<Rightarrow> resolve_input \<Rightarrow> bool" where
  "resolve_input_ok Z i \<longleftrightarrow>
     zod_uuid Z (rs_client_id i) \<and> zod_uuid Z (rs_claim_id i) \<and>
     (case rs_amount_recovered i of None \<Rightarrow> True | Some a \<Rightarrow> is_amount_literal a) \<and>
     (case rs_currency i of None \<Rightarrow> True | Some c \<Rightarrow> length c = 3) \<and> optional_zod_uuid Z (rs_variance_finding_id i)"

definition set_claim_status :: "uuid \<Rightarrow> uuid \<Rightarrow> string \<Rightarrow> claims_db \<Rightarrow> claims_db" where
  "set_claim_status client claim_id s db =
     db\<lparr>cd_claims := map (\<lambda>c. if cl_account_id c = client \<and> cl_id c = claim_id then c\<lparr>cl_status := s\<rparr> else c) (cd_claims db)\<rparr>"

definition claim_resolved_event :: "runtime \<Rightarrow> uuid \<Rightarrow> uuid \<Rightarrow> validated_resolution \<Rightarrow> uuid option \<Rightarrow> audit_event" where
  "claim_resolved_event rt client claim_id v recovery_id =
     analyst_event rt client ''claim'' claim_id (''claim.'' @ vr_new_status v) [client, claim_id, ''claim.'' @ vr_new_status v] None
       [(''kind'', JString (kind_text (vr_kind v))), (''amountRecovered'', nullable_json (vr_amount_recovered v)),
        (''currency'', nullable_json (vr_currency v)), (''recoveryEventId'', nullable_json recovery_id)]"

text \<open>The finding named in the request follows a claim that is recovered or written off.\<close>

definition mirror_finding ::
  "runtime \<Rightarrow> uuid \<Rightarrow> instant \<Rightarrow> resolve_input \<Rightarrow> validated_resolution \<Rightarrow> claims_db \<Rightarrow> (claim_error, claims_db) result" where
  "mirror_finding rt new_id now i v db =
     (case rs_variance_finding_id i of
        None \<Rightarrow> Inr db
      | Some f \<Rightarrow>
          if vr_new_status v = ''recovered'' \<or> vr_new_status v = ''written_off''
          then rbind (update_finding_status rt [rs_client_id i] new_id now f (vr_new_status v)
                        (Some (''Claim resolved: '' @ kind_text (vr_kind v))) None db) (\<lambda>(db', _). Inr db')
          else Inr db)"

definition resolve_claim ::
  "'d decimal_lib \<Rightarrow> runtime \<Rightarrow> zod_lib \<Rightarrow> uuid \<Rightarrow> uuid \<Rightarrow> instant \<Rightarrow> resolve_input \<Rightarrow> claims_db
   \<Rightarrow> (claim_error, claims_db \<times> string \<times> uuid option) result" where
  "resolve_claim D rt Z new_id event_id now i db =
     rbind (ensure (resolve_input_ok Z i) ClaimZodError) (\<lambda>_.
     case find_claim (rs_client_id i) (rs_claim_id i) db of
       None \<Rightarrow> Inl (ResolveClaimError CLAIM_NOT_FOUND)
     | Some c \<Rightarrow>
         rbind (validate_claim_resolution D (claim_view_of c) (rs_kind i) (prior_total (rs_client_id i) (rs_claim_id i) db)
                  (rs_amount_recovered i) (rs_currency i)) (\<lambda>v.
         rbind (case vr_amount_recovered v of
                  None \<Rightarrow> Inr (db, None)
                | Some a \<Rightarrow>
                    rbind (insert_recovery new_id (rs_client_id i) (rs_claim_id i) (rs_variance_finding_id i) a (vr_currency v) db)
                      (\<lambda>db'. Inr (db', Some new_id))) (\<lambda>(db1, recovery_id).
         rbind (mirror_finding rt event_id now i v (set_claim_status (rs_client_id i) (rs_claim_id i) (vr_new_status v) db1)) (\<lambda>db2.
         rbind (write_claims_event now (claim_resolved_event rt (rs_client_id i) (rs_claim_id i) v recovery_id) db2) (\<lambda>(db3, _).
         Inr (db3, vr_new_status v, recovery_id))))))"

end
