(* ===== verification/Disputes.thy ===== *)
theory Disputes
  imports Claims Audit_Tables Workflow_Jobs
begin

text \<open>
  Disputes with carriers (src/modules/disputes, the mutating operations of src/modules/findings): the
  analyst's verdict on a finding, a dispute drafted from accepted findings, its approval and delivery
  through the workflow runtime, the carrier's answer and the communications log. Findings, disputes
  and their lines are the tables of the claims module; the audit ledger is the one of these tables,
  and the workflow operations run on it. \<open>visible\<close> are the accounts row-level security shows to the
  transaction; identifiers the database generates are given by table and position (\<open>fresh\<close>).
\<close>

section \<open>Tables\<close>

record dispute_comm =
  dm_id :: uuid
  dm_account_id :: uuid
  dm_dispute_id :: uuid
  dm_direction :: string
  dm_body :: string
  dm_dedupe_key :: string
  dm_recorded_at :: instant

record finding_assignment_event =
  fa_id :: uuid
  fa_account_id :: uuid
  fa_variance_finding_id :: uuid
  fa_assigned_to_user_id :: "uuid option"
  fa_actor_user_id :: "uuid option"

record dispute_db =
  dp_invoices :: "invoice_row list"
  dp_runs :: "audit_run_row list"
  dp_claims :: claims_db
  dp_assignments :: "finding_assignment_event list"
  dp_comms :: "dispute_comm list"
  dp_workflow :: workflow_db

datatype disputable_code =
    EMPTY_SET | FINDING_NOT_ACCEPTED | MIXED_CARRIER | MIXED_FINDING_CURRENCY | MISSING_CARRIER | MISSING_FINDING_AMOUNT

text \<open>
  \<open>AcceptedAmountExceedsClaimed\<close> and \<open>CommDisputeNotFound\<close> are the only codes of their error classes;
  \<open>MissingDisputeId\<close> is thrown by the delivery handler.
\<close>

datatype dispute_error =
    DisputeZodError
  | DisputableFindingsError disputable_code
  | AcceptedAmountExceedsClaimed
  | CommDisputeNotFound
  | MissingDisputeId
  | DisputeDecimalError
  | DisputeNumericOverflow
  | DisputeCurrencyViolation
  | DisputeClaimsError claim_error
  | DisputeWorkflowError workflow_error

type_synonym fresh_rows = "string \<Rightarrow> nat \<Rightarrow> uuid"

text \<open>An operation of the claims module, and one of the workflow runtime on the shared ledger.\<close>

definition on_claims :: "(claims_db \<Rightarrow> (claim_error, claims_db \<times> 'a) result) \<Rightarrow> dispute_db \<Rightarrow> (dispute_error, dispute_db \<times> 'a) result" where
  "on_claims f db =
     (case f (dp_claims db) of
        Inl e \<Rightarrow> Inl (DisputeClaimsError e)
      | Inr (c, x) \<Rightarrow> Inr (db\<lparr>dp_claims := c\<rparr>, x))"

definition on_workflow :: "(workflow_db \<Rightarrow> (workflow_error, workflow_db \<times> 'a) result) \<Rightarrow> dispute_db \<Rightarrow> (dispute_error, dispute_db \<times> 'a) result" where
  "on_workflow f db =
     (case f ((dp_workflow db)\<lparr>wd_audit := cd_audit (dp_claims db)\<rparr>) of
        Inl e \<Rightarrow> Inl (DisputeWorkflowError e)
      | Inr (w, x) \<Rightarrow> Inr (db\<lparr>dp_workflow := w, dp_claims := (dp_claims db)\<lparr>cd_audit := wd_audit w\<rparr>\<rparr>, x))"

definition put_disputes :: "dispute list \<Rightarrow> dispute_db \<Rightarrow> dispute_db" where
  "put_disputes ds db = db\<lparr>dp_claims := (dp_claims db)\<lparr>cd_disputes := ds\<rparr>\<rparr>"

definition write_dispute_event :: "instant \<Rightarrow> audit_event \<Rightarrow> dispute_db \<Rightarrow> (dispute_error, dispute_db) result" where
  "write_dispute_event now e db = rbind (on_claims (write_claims_event now e) db) (\<lambda>(db', _). Inr db')"

section \<open>apply-finding-action.ts, assign-finding.ts\<close>

definition FINDING_ACTION_STATUS :: "(string \<times> string) list" where
  "FINDING_ACTION_STATUS = [(''accept'', ''accepted''), (''waive'', ''waived''), (''escalate'', ''in_review'')]"

text \<open>
  The status of an action that is a member of the object itself; what the object yields for any other
  name is no status, and the query fails. The answer is whether the finding was found, and its status.
\<close>

definition apply_finding_action ::
  "runtime \<Rightarrow> uuid list \<Rightarrow> uuid \<Rightarrow> instant \<Rightarrow> uuid \<Rightarrow> string \<Rightarrow> string option \<Rightarrow> uuid option \<Rightarrow> dispute_db
   \<Rightarrow> (dispute_error, dispute_db \<times> bool \<times> string) result" where
  "apply_finding_action rt visible new_id now finding_id action remark actor db =
     (case map_of FINDING_ACTION_STATUS action of
        None \<Rightarrow> Inl (DisputeClaimsError InvalidStatus)
      | Some status \<Rightarrow>
          rbind (on_claims (update_finding_status rt visible new_id now finding_id status
                   (Some (case remark of None \<Rightarrow> ''Analyst action: '' @ action | Some t \<Rightarrow> t)) actor) db)
            (\<lambda>(db', found). Inr (db', found, status)))"

definition assign_event :: "runtime \<Rightarrow> uuid \<Rightarrow> uuid \<Rightarrow> uuid \<Rightarrow> uuid option \<Rightarrow> uuid option \<Rightarrow> audit_event" where
  "assign_event rt account finding_id event_id assignee actor =
     (let event = (if truthy assignee then ''finding.assigned'' else ''finding.unassigned'')
      in analyst_event rt account ''variance_finding'' finding_id event [account, event_id, event] actor
           [(''assignedToUserId'', nullable_json assignee)])"

definition assign_finding ::
  "runtime \<Rightarrow> uuid list \<Rightarrow> uuid \<Rightarrow> instant \<Rightarrow> uuid \<Rightarrow> uuid option \<Rightarrow> uuid option \<Rightarrow> dispute_db
   \<Rightarrow> (dispute_error, dispute_db \<times> bool) result" where
  "assign_finding rt visible new_id now finding_id assignee actor db =
     (case find (\<lambda>f. vf_id f = finding_id \<and> vf_account_id f \<in> set visible) (cd_findings (dp_claims db)) of
        None \<Rightarrow> Inr (db, False)
      | Some f \<Rightarrow>
          rbind (write_dispute_event now (assign_event rt (vf_account_id f) finding_id new_id assignee actor)
                   (db\<lparr>dp_claims := (dp_claims db)\<lparr>cd_findings :=
                          map (\<lambda>g. if vf_id g = finding_id \<and> vf_account_id g \<in> set visible
                                   then g\<lparr>vf_assigned_to_user_id := assignee\<rparr> else g) (cd_findings (dp_claims db))\<rparr>,
                       dp_assignments := dp_assignments db @
                         [\<lparr>fa_id = new_id, fa_account_id = vf_account_id f, fa_variance_finding_id = finding_id,
                           fa_assigned_to_user_id = assignee, fa_actor_user_id = actor\<rparr>]\<rparr>))
            (\<lambda>db'. Inr (db', True)))"

section \<open>validate-disputable-findings.ts\<close>

text \<open>A row as the query returns it; amounts are the text of their column.\<close>

record disputable_finding_row =
  dr_id :: uuid
  dr_status :: string
  dr_carrier_id :: "uuid option"
  dr_currency :: "string option"
  dr_variance_amount :: "string option"
  dr_direction :: "finding_direction option"

record validated_dispute =
  vd_finding_ids :: "uuid list"
  vd_carrier_id :: uuid
  vd_currency :: string
  vd_amount_claimed :: string

definition claimable_findings :: "disputable_finding_row list \<Rightarrow> disputable_finding_row list" where
  "claimable_findings rows = filter (\<lambda>r. dr_direction r \<noteq> Some UNDERCHARGE) rows"

definition check_disputable :: "disputable_finding_row \<Rightarrow> (dispute_error, unit) result" where
  "check_disputable r =
     rbind (ensure (dr_status r = ''accepted'') (DisputableFindingsError FINDING_NOT_ACCEPTED)) (\<lambda>_.
     rbind (ensure (truthy (dr_carrier_id r)) (DisputableFindingsError MISSING_CARRIER)) (\<lambda>_.
     ensure (dr_variance_amount r \<noteq> None \<and> dr_currency r \<noteq> None) (DisputableFindingsError MISSING_FINDING_AMOUNT)))"

definition add_amount :: "'d decimal_lib \<Rightarrow> 'd \<Rightarrow> string option \<Rightarrow> (dispute_error, 'd) result" where
  "add_amount D so_far amount =
     rbind (read_decimal DisputeDecimalError D (case amount of None \<Rightarrow> ''null'' | Some s \<Rightarrow> s)) (\<lambda>d. Inr (dec_plus D so_far d))"

definition validate_disputable_findings ::
  "'d decimal_lib \<Rightarrow> disputable_finding_row list \<Rightarrow> (dispute_error, validated_dispute) result" where
  "validate_disputable_findings D rows =
     (let claimable = claimable_findings rows;
          carriers = remdups (map dr_carrier_id claimable);
          currencies = remdups (map dr_currency claimable)
      in rbind (ensure (claimable \<noteq> []) (DisputableFindingsError EMPTY_SET)) (\<lambda>_.
         rbind (rfold (\<lambda>_ r. check_disputable r) () claimable) (\<lambda>_.
         rbind (ensure (length carriers \<le> 1) (DisputableFindingsError MIXED_CARRIER)) (\<lambda>_.
         rbind (ensure (length currencies \<le> 1) (DisputableFindingsError MIXED_FINDING_CURRENCY)) (\<lambda>_.
         rbind (rfold (add_amount D) (dec_zero D) (map dr_variance_amount claimable)) (\<lambda>total.
           Inr \<lparr>vd_finding_ids = map dr_id claimable, vd_carrier_id = the (hd carriers), vd_currency = the (hd currencies),
                vd_amount_claimed = dec_to_fixed D 4 total\<rparr>))))))"

section \<open>create-dispute-from-findings.ts\<close>

record create_dispute_input =
  cdi_client_id :: uuid
  cdi_finding_ids :: "uuid list"
  cdi_actor_user_id :: "uuid option"

record create_dispute_result =
  cdr_dispute_id :: uuid
  cdr_finding_ids :: "uuid list"
  cdr_amount_claimed :: string
  cdr_currency :: string

definition create_dispute_input_ok :: "zod_lib \<Rightarrow> create_dispute_input \<Rightarrow> bool" where
  "create_dispute_input_ok Z i \<longleftrightarrow>
     zod_uuid Z (cdi_client_id i) \<and> list_all (zod_uuid Z) (cdi_finding_ids i) \<and>
     1 \<le> length (cdi_finding_ids i) \<and> length (cdi_finding_ids i) \<le> 500 \<and> optional_zod_uuid Z (cdi_actor_user_id i)"

text \<open>The invoice of a finding, through its audit run.\<close>

definition finding_invoice :: "dispute_db \<Rightarrow> variance_finding \<Rightarrow> invoice_row option" where
  "finding_invoice db f =
     (case find (\<lambda>r. run_id r = vf_audit_run_id f \<and> run_account_id r = vf_account_id f) (dp_runs db) of
        None \<Rightarrow> None
      | Some r \<Rightarrow> find (\<lambda>v. iv_id v = run_invoice_id r \<and> iv_account_id v = vf_account_id f) (dp_invoices db))"

definition disputable_row :: "dispute_db \<Rightarrow> variance_finding \<Rightarrow> disputable_finding_row option" where
  "disputable_row db f =
     map_option (\<lambda>v. \<lparr>dr_id = vf_id f, dr_status = vf_status f, dr_carrier_id = iv_carrier_id v, dr_currency = vf_currency f,
                     dr_variance_amount = map_option numeric_text (vf_variance_amount f), dr_direction = vf_direction f\<rparr>)
       (finding_invoice db f)"

definition select_findings :: "uuid list \<Rightarrow> uuid \<Rightarrow> uuid list \<Rightarrow> dispute_db \<Rightarrow> disputable_finding_row list" where
  "select_findings visible client ids db =
     List.map_filter (disputable_row db)
       (js_sort (by_text vf_id)
          (filter (\<lambda>f. vf_account_id f = client \<and> client \<in> set visible \<and> vf_id f \<in> set ids) (cd_findings (dp_claims db))))"

definition store_column :: "string option \<Rightarrow> (dispute_error, int option) result" where
  "store_column s =
     (case s of
        None \<Rightarrow> Inr None
      | Some t \<Rightarrow> (case store_numeric t of None \<Rightarrow> Inl DisputeNumericOverflow | Some n \<Rightarrow> Inr (Some n)))"

definition check_column_currency :: "string option \<Rightarrow> (dispute_error, unit) result" where
  "check_column_currency c = ensure (case c of None \<Rightarrow> True | Some x \<Rightarrow> currency_format x) DisputeCurrencyViolation"

definition insert_dispute :: "uuid \<Rightarrow> uuid \<Rightarrow> validated_dispute \<Rightarrow> dispute_db \<Rightarrow> (dispute_error, dispute_db) result" where
  "insert_dispute new_id client v db =
     rbind (store_column (Some (vd_amount_claimed v))) (\<lambda>n.
     rbind (check_column_currency (Some (vd_currency v))) (\<lambda>_.
       Inr (put_disputes (cd_disputes (dp_claims db) @
         [\<lparr>di_id = new_id, di_account_id = client, di_status = ''draft'', di_amount_claimed = n, di_currency = Some (vd_currency v),
           di_carrier_id = Some (vd_carrier_id v), di_accepted_amount = None\<rparr>]) db)))"

definition insert_dispute_line ::
  "uuid \<Rightarrow> uuid \<Rightarrow> uuid \<Rightarrow> disputable_finding_row \<Rightarrow> dispute_db \<Rightarrow> (dispute_error, dispute_db) result" where
  "insert_dispute_line new_id client dispute_id r db =
     rbind (store_column (dr_variance_amount r)) (\<lambda>n.
     rbind (check_column_currency (dr_currency r)) (\<lambda>_.
       Inr (db\<lparr>dp_claims := (dp_claims db)\<lparr>cd_dispute_lines := cd_dispute_lines (dp_claims db) @
         [\<lparr>dl_id = new_id, dl_account_id = client, dl_dispute_id = dispute_id, dl_variance_finding_id = Some (dr_id r),
           dl_amount = n, dl_currency = dr_currency r\<rparr>]\<rparr>\<rparr>)))"

definition dispute_created_event :: "runtime \<Rightarrow> uuid \<Rightarrow> uuid option \<Rightarrow> uuid \<Rightarrow> validated_dispute \<Rightarrow> audit_event" where
  "dispute_created_event rt client actor i v =
     analyst_event rt client ''dispute'' i ''dispute.created'' [client, i, ''dispute.created''] actor
       [(''findingIds'', JArray (map JString (vd_finding_ids v))), (''amountClaimed'', JString (vd_amount_claimed v)),
        (''currency'', JString (vd_currency v))]"

text \<open>One line of the new dispute, and the finding's new status.\<close>

definition include_finding ::
  "runtime \<Rightarrow> uuid list \<Rightarrow> fresh_rows \<Rightarrow> instant \<Rightarrow> create_dispute_input \<Rightarrow> uuid \<Rightarrow> dispute_db \<Rightarrow> nat \<times> disputable_finding_row
   \<Rightarrow> (dispute_error, dispute_db) result" where
  "include_finding rt visible fresh now i dispute_id db kr =
     rbind (insert_dispute_line (fresh ''dispute_line'' (fst kr)) (cdi_client_id i) dispute_id (snd kr) db) (\<lambda>db1.
     rbind (on_claims (update_finding_status rt visible (fresh ''finding_status_event'' (fst kr)) now (dr_id (snd kr)) ''queued_for_dispute''
              (Some ''Included in dispute creation'') (cdi_actor_user_id i)) db1) (\<lambda>(db2, _). Inr db2))"

definition create_dispute_from_findings ::
  "'d decimal_lib \<Rightarrow> runtime \<Rightarrow> zod_lib \<Rightarrow> uuid list \<Rightarrow> fresh_rows \<Rightarrow> instant \<Rightarrow> create_dispute_input \<Rightarrow> dispute_db
   \<Rightarrow> (dispute_error, dispute_db \<times> create_dispute_result) result" where
  "create_dispute_from_findings D rt Z visible fresh now i db =
     rbind (ensure (create_dispute_input_ok Z i) DisputeZodError) (\<lambda>_.
       let rows = select_findings visible (cdi_client_id i) (cdi_finding_ids i) db;
           dispute_id = fresh ''dispute'' 0
       in rbind (validate_disputable_findings D rows) (\<lambda>v.
          rbind (insert_dispute dispute_id (cdi_client_id i) v db) (\<lambda>db1.
          rbind (rfold (include_finding rt visible fresh now i dispute_id) db1
                   (enumerate 0 (filter (\<lambda>r. dr_id r \<in> set (vd_finding_ids v)) rows))) (\<lambda>db2.
          rbind (write_dispute_event now (dispute_created_event rt (cdi_client_id i) (cdi_actor_user_id i) dispute_id v) db2) (\<lambda>db3.
            Inr (db3, \<lparr>cdr_dispute_id = dispute_id, cdr_finding_ids = vd_finding_ids v, cdr_amount_claimed = vd_amount_claimed v,
                      cdr_currency = vd_currency v\<rparr>))))))"

section \<open>approve-dispute.ts\<close>

definition visible_dispute :: "uuid list \<Rightarrow> uuid \<Rightarrow> dispute \<Rightarrow> bool" where
  "visible_dispute visible i d \<longleftrightarrow> di_id d = i \<and> di_account_id d \<in> set visible"

definition DELIVER_DISPUTE_COMMAND_TYPE :: string where
  "DELIVER_DISPUTE_COMMAND_TYPE = ''deliver_dispute''"

definition dispute_moved_event ::
  "runtime \<Rightarrow> uuid \<Rightarrow> uuid \<Rightarrow> string \<Rightarrow> string \<Rightarrow> string \<Rightarrow> uuid \<Rightarrow> (string \<times> json) list \<Rightarrow> audit_event" where
  "dispute_moved_event rt account i from_status to_status event actor extra =
     analyst_event rt account ''dispute'' i event [account, i, event] (Some actor)
       ([(''fromStatus'', JString from_status), (''toStatus'', JString to_status)] @ extra)"

text \<open>\<open>UPDATE dispute SET ... WHERE id = $1 AND status = ANY(...) RETURNING ...\<close>\<close>

definition update_dispute ::
  "uuid list \<Rightarrow> string list \<Rightarrow> (dispute \<Rightarrow> dispute) \<Rightarrow> uuid \<Rightarrow> dispute_db \<Rightarrow> (dispute_db \<times> dispute) option" where
  "update_dispute visible from_statuses f i db =
     (let hit = (\<lambda>d. visible_dispute visible i d \<and> di_status d \<in> set from_statuses)
      in case find hit (cd_disputes (dp_claims db)) of
           None \<Rightarrow> None
         | Some d \<Rightarrow> Some (put_disputes (map (\<lambda>x. if hit x then f x else x) (cd_disputes (dp_claims db))) db, d))"

definition delivery_instance :: "dispute \<Rightarrow> create_instance_input" where
  "delivery_instance d =
     \<lparr>ci_client_id = di_account_id d, ci_workflow_type = ''dispute_delivery'', ci_subject_entity = ''dispute'',
      ci_subject_entity_id = di_id d, ci_initial_state = ''pending_delivery''\<rparr>"

definition delivery_command :: "dispute \<Rightarrow> uuid \<Rightarrow> instant \<Rightarrow> schedule_input" where
  "delivery_command d workflow_id now =
     \<lparr>sc_client_id = di_account_id d, sc_workflow_instance_id = workflow_id, sc_command_type = DELIVER_DISPUTE_COMMAND_TYPE,
      sc_payload = [(''disputeId'', JString (di_id d))], sc_run_after = now\<rparr>"

text \<open>The clock of the transaction is \<open>now\<close>, the default argument of the function \<open>run_after\<close>.\<close>

definition approve_dispute ::
  "runtime \<Rightarrow> zod_lib \<Rightarrow> (instant \<Rightarrow> string) \<Rightarrow> uuid list \<Rightarrow> fresh_rows \<Rightarrow> instant \<Rightarrow> instant \<Rightarrow> uuid \<Rightarrow> uuid \<Rightarrow> dispute_db
   \<Rightarrow> (dispute_error, dispute_db \<times> bool) result" where
  "approve_dispute rt Z isof visible fresh now run_after i actor db =
     (case update_dispute visible [''draft''] (\<lambda>d. d\<lparr>di_status := ''sent''\<rparr>) i db of
        None \<Rightarrow> Inr (db, False)
      | Some (db1, d) \<Rightarrow>
          rbind (write_dispute_event now (dispute_moved_event rt (di_account_id d) (di_id d) ''draft'' ''sent'' ''dispute.approved'' actor []) db1) (\<lambda>db2.
          rbind (on_workflow (create_workflow_instance rt (fresh ''workflow_instance'' 0) now (delivery_instance d)) db2) (\<lambda>(db3, w).
          rbind (on_workflow (schedule_workflow_command rt Z isof (fresh ''workflow_command'' 0, now) (delivery_command d (wi_id w) run_after)) db3)
            (\<lambda>(db4, _). Inr (db4, True)))))"

section \<open>resolve-dispute.ts\<close>

definition RESPONDABLE_STATUSES :: "string list" where
  "RESPONDABLE_STATUSES = [''sent'', ''in_progress'']"

definition RESOLVED_STATUSES :: "string list" where
  "RESOLVED_STATUSES = [''accepted'', ''rejected'', ''partial'']"

definition select_respondable_dispute :: "uuid list \<Rightarrow> uuid \<Rightarrow> string list \<Rightarrow> dispute_db \<Rightarrow> dispute option" where
  "select_respondable_dispute visible i from_statuses db =
     (case find (visible_dispute visible i) (cd_disputes (dp_claims db)) of
        None \<Rightarrow> None
      | Some d \<Rightarrow> if di_status d \<in> set from_statuses then Some d else None)"

text \<open>
  The guarded update after the read, and its event. \<open>between\<close> is what other transactions do to the
  table of disputes between the two statements.
\<close>

definition move_dispute ::
  "runtime \<Rightarrow> uuid list \<Rightarrow> (dispute list \<Rightarrow> dispute list) \<Rightarrow> instant \<Rightarrow> string list \<Rightarrow> (dispute \<Rightarrow> dispute) \<Rightarrow> string \<Rightarrow> string
   \<Rightarrow> uuid \<Rightarrow> (string \<times> json) list \<Rightarrow> dispute \<Rightarrow> dispute_db \<Rightarrow> (dispute_error, dispute_db \<times> bool) result" where
  "move_dispute rt visible between now from_statuses f to_status event actor extra seen db0 =
     (let db = put_disputes (between (cd_disputes (dp_claims db0))) db0
      in case update_dispute visible from_statuses f (di_id seen) db of
           None \<Rightarrow> Inr (db, False)
         | Some (db1, d) \<Rightarrow>
             rbind (write_dispute_event now
                      (dispute_moved_event rt (di_account_id d) (di_id d) (di_status seen) to_status event actor extra) db1)
               (\<lambda>db2. Inr (db2, True)))"

definition accept_dispute ::
  "runtime \<Rightarrow> uuid list \<Rightarrow> (dispute list \<Rightarrow> dispute list) \<Rightarrow> instant \<Rightarrow> uuid \<Rightarrow> uuid \<Rightarrow> dispute_db
   \<Rightarrow> (dispute_error, dispute_db \<times> bool) result" where
  "accept_dispute rt visible between now i actor db =
     (case select_respondable_dispute visible i RESPONDABLE_STATUSES db of
        None \<Rightarrow> Inr (db, False)
      | Some d \<Rightarrow> move_dispute rt visible between now RESPONDABLE_STATUSES (\<lambda>x. x\<lparr>di_status := ''accepted''\<rparr>)
                    ''accepted'' ''dispute.accepted'' actor [] d db)"

definition reject_dispute ::
  "runtime \<Rightarrow> uuid list \<Rightarrow> (dispute list \<Rightarrow> dispute list) \<Rightarrow> instant \<Rightarrow> uuid \<Rightarrow> uuid \<Rightarrow> dispute_db
   \<Rightarrow> (dispute_error, dispute_db \<times> bool) result" where
  "reject_dispute rt visible between now i actor db =
     (case select_respondable_dispute visible i RESPONDABLE_STATUSES db of
        None \<Rightarrow> Inr (db, False)
      | Some d \<Rightarrow> move_dispute rt visible between now RESPONDABLE_STATUSES (\<lambda>x. x\<lparr>di_status := ''rejected''\<rparr>)
                    ''rejected'' ''dispute.rejected'' actor [] d db)"

definition exceeds_claimed :: "'d decimal_lib \<Rightarrow> string \<Rightarrow> int option \<Rightarrow> (dispute_error, bool) result" where
  "exceeds_claimed D amount claimed =
     (case claimed of
        None \<Rightarrow> Inr False
      | Some n \<Rightarrow>
          rbind (read_decimal DisputeDecimalError D amount) (\<lambda>a.
          rbind (read_decimal DisputeDecimalError D (numeric_text n)) (\<lambda>c. Inr (dec_lt D c a))))"

definition partially_accept_dispute ::
  "'d decimal_lib \<Rightarrow> runtime \<Rightarrow> uuid list \<Rightarrow> (dispute list \<Rightarrow> dispute list) \<Rightarrow> instant \<Rightarrow> uuid \<Rightarrow> uuid \<Rightarrow> string \<Rightarrow> dispute_db
   \<Rightarrow> (dispute_error, dispute_db \<times> bool) result" where
  "partially_accept_dispute D rt visible between now i actor accepted db =
     (case select_respondable_dispute visible i RESPONDABLE_STATUSES db of
        None \<Rightarrow> Inr (db, False)
      | Some d \<Rightarrow>
          rbind (exceeds_claimed D accepted (di_amount_claimed d)) (\<lambda>b.
          rbind (ensure (\<not> b) AcceptedAmountExceedsClaimed) (\<lambda>_.
          rbind (store_column (Some accepted)) (\<lambda>n.
            move_dispute rt visible between now RESPONDABLE_STATUSES (\<lambda>x. x\<lparr>di_status := ''partial'', di_accepted_amount := n\<rparr>)
              ''partial'' ''dispute.partially_accepted'' actor [(''acceptedAmount'', JString accepted)] d db))))"

definition close_dispute ::
  "runtime \<Rightarrow> uuid list \<Rightarrow> (dispute list \<Rightarrow> dispute list) \<Rightarrow> instant \<Rightarrow> uuid \<Rightarrow> uuid \<Rightarrow> dispute_db
   \<Rightarrow> (dispute_error, dispute_db \<times> bool) result" where
  "close_dispute rt visible between now i actor db =
     (case select_respondable_dispute visible i RESOLVED_STATUSES db of
        None \<Rightarrow> Inr (db, False)
      | Some d \<Rightarrow> move_dispute rt visible between now RESOLVED_STATUSES (\<lambda>x. x\<lparr>di_status := ''closed''\<rparr>)
                    ''closed'' ''dispute.closed'' actor [] d db)"

section \<open>record-dispute-communication.ts\<close>

definition COMM_DIRECTIONS :: "string list" where
  "COMM_DIRECTIONS = [''inbound'', ''outbound'']"

record comm_input =
  ki_dispute_id :: uuid
  ki_direction :: string
  ki_body :: string
  ki_dedupe_key :: string

definition parse_comm_input :: "zod_lib \<Rightarrow> comm_input \<Rightarrow> comm_input option" where
  "parse_comm_input Z i =
     (let b = js_trim (ki_body i); k = js_trim (ki_dedupe_key i)
      in if zod_uuid Z (ki_dispute_id i) \<and> ki_direction i \<in> set COMM_DIRECTIONS \<and> 1 \<le> length b \<and> length b \<le> 10000 \<and>
            1 \<le> length k \<and> length k \<le> 255
         then Some (i\<lparr>ki_body := b, ki_dedupe_key := k\<rparr>) else None)"

definition same_comm :: "dispute_comm \<Rightarrow> dispute_comm \<Rightarrow> bool" where
  "same_comm a b \<longleftrightarrow> dm_account_id b = dm_account_id a \<and> dm_dedupe_key b = dm_dedupe_key a"

definition comm_row :: "uuid \<Rightarrow> instant \<Rightarrow> uuid \<Rightarrow> comm_input \<Rightarrow> dispute_comm" where
  "comm_row new_id now account i =
     \<lparr>dm_id = new_id, dm_account_id = account, dm_dispute_id = ki_dispute_id i, dm_direction = ki_direction i,
      dm_body = ki_body i, dm_dedupe_key = ki_dedupe_key i, dm_recorded_at = now\<rparr>"

text \<open>The call's moment is the generated id and the clock; the answer is the row's id and whether it is new.\<close>

definition record_dispute_communication ::
  "zod_lib \<Rightarrow> uuid list \<Rightarrow> uuid \<times> instant \<Rightarrow> comm_input \<Rightarrow> dispute_db \<Rightarrow> (dispute_error, dispute_db \<times> uuid \<times> bool) result" where
  "record_dispute_communication Z visible g untrusted db =
     (case parse_comm_input Z untrusted of
        None \<Rightarrow> Inl DisputeZodError
      | Some i \<Rightarrow>
          (case find (visible_dispute visible (ki_dispute_id i)) (cd_disputes (dp_claims db)) of
             None \<Rightarrow> Inl CommDisputeNotFound
           | Some d \<Rightarrow>
               (let row = comm_row (fst g) (snd g) (di_account_id d) i
                in case find (same_comm row) (dp_comms db) of
                     Some m \<Rightarrow> Inr (db, dm_id m, False)
                   | None \<Rightarrow> Inr (db\<lparr>dp_comms := dp_comms db @ [row]\<rparr>, fst g, True))))"

section \<open>deliver-dispute-command-handler.ts\<close>

definition DISPUTE_DELIVERY_MESSAGE_TYPE :: string where
  "DISPUTE_DELIVERY_MESSAGE_TYPE = ''dispute_delivery''"

definition dispute_delivery_dedupe_key :: "uuid \<Rightarrow> string" where
  "dispute_delivery_dedupe_key i = ''dispute-delivery:'' @ i"

definition dispute_comm_outbound_dedupe_key :: "uuid \<Rightarrow> string" where
  "dispute_comm_outbound_dedupe_key i = ''dispute-comm-outbound:'' @ i"

record command_context =
  cx_client_id :: uuid
  cx_workflow_instance_id :: uuid
  cx_command_id :: uuid
  cx_payload :: "(string \<times> json) list"

definition delivery_message :: "command_context \<Rightarrow> uuid \<Rightarrow> outbox_input" where
  "delivery_message ctx i =
     \<lparr>oi_client_id = cx_client_id ctx, oi_workflow_instance_id = cx_workflow_instance_id ctx, oi_command_id = cx_command_id ctx,
      oi_dedupe_key = dispute_delivery_dedupe_key i, oi_payload = [(''disputeId'', JString i)],
      oi_message_type = Some DISPUTE_DELIVERY_MESSAGE_TYPE\<rparr>"

definition delivery_comm :: "uuid \<Rightarrow> comm_input" where
  "delivery_comm i =
     \<lparr>ki_dispute_id = i, ki_direction = ''outbound'', ki_body = ''Delivery to carrier initiated for dispute '' @ i @ ''.'',
      ki_dedupe_key = dispute_comm_outbound_dedupe_key i\<rparr>"

definition handle_deliver_dispute_command ::
  "runtime \<Rightarrow> zod_lib \<Rightarrow> uuid list \<Rightarrow> fresh_rows \<Rightarrow> instant \<Rightarrow> command_context \<Rightarrow> dispute_db \<Rightarrow> (dispute_error, dispute_db) result" where
  "handle_deliver_dispute_command rt Z visible fresh now ctx db =
     (case map_of (cx_payload ctx) ''disputeId'' of
        Some (JString i) \<Rightarrow>
          if i = [] then Inl MissingDisputeId
          else rbind (on_workflow (record_outbox_message rt Z (fresh ''workflow_outbox_message'' 0, now) (delivery_message ctx i)) db) (\<lambda>(db1, _).
               rbind (record_dispute_communication Z visible (fresh ''dispute_comm'' 0, now) (delivery_comm i) db1) (\<lambda>(db2, _). Inr db2))
      | _ \<Rightarrow> Inl MissingDisputeId)"

section \<open>list-dispute-response-queue.ts, list-dispute-communications.ts, get-dispute-detail.ts\<close>

definition RESPONSE_PENDING_STATUSES :: "string list" where
  "RESPONSE_PENDING_STATUSES = [''sent'', ''in_progress'']"

definition DEFAULT_THRESHOLD_DAYS :: int where
  "DEFAULT_THRESHOLD_DAYS = 5"

definition latest_comm :: "dispute \<Rightarrow> dispute_db \<Rightarrow> dispute_comm option" where
  "latest_comm d db =
     first_row (descending (by_int dm_recorded_at)) (\<lambda>m. dm_account_id m = di_account_id d \<and> dm_dispute_id m = di_id d) (dp_comms db)"

definition due_entry :: "uuid \<Rightarrow> instant \<Rightarrow> int \<Rightarrow> dispute_db \<Rightarrow> dispute \<Rightarrow> (uuid \<times> instant) option" where
  "due_entry client now days db d =
     (if di_account_id d = client \<and> di_status d \<in> set RESPONSE_PENDING_STATUSES then
        (case latest_comm d db of
           None \<Rightarrow> None
         | Some m \<Rightarrow> if dm_direction m = ''outbound'' \<and> dm_recorded_at m \<le> now - days * 86400000
                     then Some (di_id d, dm_recorded_at m) else None)
      else None)"

text \<open>The second component is \<open>lastOutboundAt\<close> before it is printed; intervals of days are counted in UTC.\<close>

definition list_disputes_due_for_response :: "uuid list \<Rightarrow> uuid \<Rightarrow> instant \<Rightarrow> int \<Rightarrow> dispute_db \<Rightarrow> (uuid \<times> instant) list" where
  "list_disputes_due_for_response visible client now days db =
     js_sort (by_int snd)
       (List.map_filter (due_entry client now days db)
          (filter (\<lambda>d. di_account_id d \<in> set visible) (cd_disputes (dp_claims db))))"

definition list_dispute_communications :: "uuid list \<Rightarrow> uuid \<Rightarrow> dispute_db \<Rightarrow> dispute_comm list" where
  "list_dispute_communications visible i db =
     js_sort (descending (by_int dm_recorded_at))
       (filter (\<lambda>m. dm_dispute_id m = i \<and> dm_account_id m \<in> set visible) (dp_comms db))"

record dispute_detail =
  dt_dispute :: dispute
  dt_lines :: "(uuid \<times> uuid option \<times> string option \<times> string option) list"

definition get_dispute_detail :: "uuid list \<Rightarrow> uuid \<Rightarrow> dispute_db \<Rightarrow> dispute_detail option" where
  "get_dispute_detail visible i db =
     map_option (\<lambda>d. \<lparr>dt_dispute = d,
        dt_lines = map (\<lambda>l. (dl_id l, dl_variance_finding_id l, map_option numeric_text (dl_amount l), dl_currency l))
          (js_sort (by_text dl_id)
             (filter (\<lambda>l. dl_dispute_id l = i \<and> dl_account_id l \<in> set visible) (cd_dispute_lines (dp_claims db))))\<rparr>)
       (find (visible_dispute visible i) (cd_disputes (dp_claims db)))"

end
