(* ===== verification/Claim_Reports.thy ===== *)
theory Claim_Reports
  imports Claims
begin

text \<open>
  What is read from the claim tables (src/modules/claims): the status derived from the event
  history, the currency and traceability checks, and the reconciliation of claimed against
  recovered amounts per currency, per carrier and per account.
\<close>

section \<open>derive-claim-status.ts\<close>

definition status_of_event :: "string \<Rightarrow> string option" where
  "status_of_event e = map_option fst (find (\<lambda>(s, n). n = e) CLAIM_TERMINAL_EVENTS)"

record derived_status =
  ds_derived_status :: string
  ds_cumulative_recovered :: string
  ds_matches :: bool

text \<open>A terminal event is its name and the instant it was recorded; the first of the latest ones wins.\<close>

definition latest_terminal :: "(string \<times> instant) list \<Rightarrow> (string \<times> instant) option" where
  "latest_terminal events =
     foldl (\<lambda>latest e. case latest of None \<Rightarrow> Some e | Some l \<Rightarrow> if snd l < snd e then Some e else Some l) None
       (filter (\<lambda>(n, _). status_of_event n \<noteq> None) events)"

definition derive_claim_status ::
  "'d decimal_lib \<Rightarrow> string \<Rightarrow> (string \<times> instant) list \<Rightarrow> string list \<Rightarrow> (claim_error, derived_status) result" where
  "derive_claim_status D stored terminal_events amounts =
     rbind (rfold (\<lambda>sum a. rbind (read_decimal ClaimDecimalError D a) (\<lambda>d. Inr (dec_plus D sum d))) (dec_zero D) amounts) (\<lambda>total.
       let derived = (case latest_terminal terminal_events of None \<Rightarrow> ''open'' | Some (n, _) \<Rightarrow> the (status_of_event n))
       in Inr \<lparr>ds_derived_status = derived, ds_cumulative_recovered = dec_to_fixed D 4 total, ds_matches = (derived = stored)\<rparr>)"

text \<open>get-derived-claim-status.ts: the rows the derivation is applied to.\<close>

definition claim_events :: "uuid \<Rightarrow> uuid \<Rightarrow> string list \<Rightarrow> claims_db \<Rightarrow> audit_event_row list" where
  "claim_events client claim_id names db =
     filter (\<lambda>r. ae_account_id r = Some client \<and> ae_entity r = ''claim'' \<and> ae_entity_id r = Some claim_id \<and> ae_event r \<in> set names)
       (cd_audit db)"

definition get_derived_claim_status :: "'d decimal_lib \<Rightarrow> uuid \<Rightarrow> uuid \<Rightarrow> claims_db \<Rightarrow> (claim_error, derived_status) result" where
  "get_derived_claim_status D client claim_id db =
     (case find_claim client claim_id db of
        None \<Rightarrow> Inl (GetClaimError CLAIM_NOT_FOUND)
      | Some c \<Rightarrow>
          derive_claim_status D (cl_status c)
            (map (\<lambda>r. (ae_event r, ae_recorded_at r)) (claim_events client claim_id CLAIM_TERMINAL_EVENT_NAMES db))
            (map (\<lambda>r. numeric_text (re_amount_recovered r)) (recoveries_of client claim_id db)))"

section \<open>check-currency-consistency.ts\<close>

record currency_consistency =
  kc_claim_id :: uuid
  kc_claim_currency :: "string option"
  kc_consistent :: bool
  kc_currencies :: "string list"
  kc_null_currency_event_ids :: "uuid list"
  kc_mismatched_event_ids :: "uuid list"

definition check_currency_consistency :: "uuid \<Rightarrow> string option \<Rightarrow> (uuid \<times> string option) list \<Rightarrow> currency_consistency" where
  "check_currency_consistency claim_id claim_currency events =
     (let null_ids = map fst (filter (\<lambda>(_, c). c = None) events);
          currencies = js_sort unit_compare (remdups (List.map_filter snd events));
          mismatched = (case claim_currency of
                          None \<Rightarrow> []
                        | Some cur \<Rightarrow> map fst (filter (\<lambda>(_, c). c \<noteq> None \<and> c \<noteq> Some cur) events))
      in \<lparr>kc_claim_id = claim_id, kc_claim_currency = claim_currency,
          kc_consistent = (null_ids = [] \<and> length currencies \<le> 1 \<and> mismatched = []),
          kc_currencies = currencies, kc_null_currency_event_ids = null_ids, kc_mismatched_event_ids = mismatched\<rparr>)"

definition get_claim_currency_consistency :: "uuid \<Rightarrow> uuid \<Rightarrow> claims_db \<Rightarrow> (claim_error, currency_consistency) result" where
  "get_claim_currency_consistency client claim_id db =
     (case find_claim client claim_id db of
        None \<Rightarrow> Inl (GetClaimError CLAIM_NOT_FOUND)
      | Some c \<Rightarrow>
          Inr (check_currency_consistency claim_id (cl_currency c)
                 (map (\<lambda>r. (re_id r, re_currency r)) (recoveries_of client claim_id db))))"

section \<open>check-recovery-traceability.ts\<close>

datatype trace_path = DIRECT | INDIRECT | UNTRACEABLE

record traceability =
  tb_recovery_event_id :: uuid
  tb_traceable :: bool
  tb_path :: trace_path
  tb_cited_variance_finding_ids :: "uuid list"

definition check_recovery_traceability ::
  "uuid \<Rightarrow> uuid option \<Rightarrow> bool option \<Rightarrow> (uuid \<times> bool) list \<Rightarrow> traceability" where
  "check_recovery_traceability i direct direct_cited findings =
     (case direct of
        Some f \<Rightarrow>
          \<lparr>tb_recovery_event_id = i, tb_traceable = (direct_cited = Some True), tb_path = DIRECT,
           tb_cited_variance_finding_ids = (if direct_cited = Some True then [f] else [])\<rparr>
      | None \<Rightarrow>
          (let cited = filter snd findings
           in if cited \<noteq> []
              then \<lparr>tb_recovery_event_id = i, tb_traceable = True, tb_path = INDIRECT,
                    tb_cited_variance_finding_ids = map fst cited\<rparr>
              else \<lparr>tb_recovery_event_id = i, tb_traceable = False, tb_path = UNTRACEABLE,
                    tb_cited_variance_finding_ids = []\<rparr>))"

definition has_citation :: "variance_finding \<Rightarrow> bool" where
  "has_citation f \<longleftrightarrow> vf_clause_id f \<noteq> None \<or> vf_rate_cell_id f \<noteq> None"

text \<open>The findings of the lines of the dispute of a claim: a join of three tables.\<close>

definition dispute_line_findings :: "uuid \<Rightarrow> uuid \<Rightarrow> claims_db \<Rightarrow> (uuid \<times> bool) list" where
  "dispute_line_findings client claim_id db =
     concat (map (\<lambda>c. concat (map (\<lambda>dl.
         map (\<lambda>f. (vf_id f, has_citation f))
           (filter (\<lambda>f. dl_variance_finding_id dl = Some (vf_id f) \<and> vf_account_id f = cl_account_id c) (cd_findings db)))
         (filter (\<lambda>dl. cl_dispute_id c = Some (dl_dispute_id dl) \<and> dl_account_id dl = cl_account_id c) (cd_dispute_lines db))))
       (filter (\<lambda>c. cl_account_id c = client \<and> cl_id c = claim_id) (cd_claims db)))"

definition get_recovery_traceability :: "uuid \<Rightarrow> uuid \<Rightarrow> claims_db \<Rightarrow> (claim_error, traceability) result" where
  "get_recovery_traceability client i db =
     (case find (\<lambda>r. re_account_id r = client \<and> re_id r = i) (cd_recoveries db) of
        None \<Rightarrow> Inl (GetClaimError RECOVERY_EVENT_NOT_FOUND)
      | Some r \<Rightarrow>
          (case re_variance_finding_id r of
             Some f \<Rightarrow>
               Inr (check_recovery_traceability i (Some f)
                 (Some (case find (\<lambda>v. vf_account_id v = client \<and> vf_id v = f) (cd_findings db) of
                          None \<Rightarrow> False | Some v \<Rightarrow> has_citation v)) [])
           | None \<Rightarrow>
               (case re_claim_id r of
                  None \<Rightarrow> Inr (check_recovery_traceability i None None [])
                | Some c \<Rightarrow> Inr (check_recovery_traceability i None None (dispute_line_findings client c db)))))"

section \<open>reconcile-claim-buckets.ts\<close>

record reconcilable_claim =
  rq_claim_id :: uuid
  rq_amount_claimed :: string
  rq_currency :: "string option"
  rq_status :: string

record reconcilable_event =
  rv_claim_id :: uuid
  rv_amount_recovered :: string
  rv_currency :: "string option"

record 'd accumulator =
  ac_claimed :: 'd
  ac_recovered :: 'd
  ac_outstanding :: 'd
  ac_written_off :: 'd
  ac_denied :: 'd
  ac_null_currency_recovered :: 'd
  ac_mismatched_currency_recovered :: 'd

record reconciliation_totals =
  rt_claimed :: string
  rt_recovered :: string
  rt_outstanding :: string
  rt_written_off :: string
  rt_denied :: string
  rt_null_currency_recovered :: string
  rt_mismatched_currency_recovered :: string

definition empty_accumulator :: "'d decimal_lib \<Rightarrow> 'd accumulator" where
  "empty_accumulator D =
     \<lparr>ac_claimed = dec_zero D, ac_recovered = dec_zero D, ac_outstanding = dec_zero D, ac_written_off = dec_zero D,
      ac_denied = dec_zero D, ac_null_currency_recovered = dec_zero D, ac_mismatched_currency_recovered = dec_zero D\<rparr>"

text \<open>One recovery event of a claim with the given currency: the bucket and the same-currency sum.\<close>

definition accumulate_event ::
  "'d decimal_lib \<Rightarrow> string option \<Rightarrow> 'd accumulator \<times> 'd \<Rightarrow> reconcilable_event \<Rightarrow> (claim_error, 'd accumulator \<times> 'd) result" where
  "accumulate_event D claim_currency st e =
     rbind (read_decimal ClaimDecimalError D (rv_amount_recovered e)) (\<lambda>amount.
       let (b, same) = st
       in if rv_currency e = None
          then Inr (b\<lparr>ac_null_currency_recovered := dec_plus D (ac_null_currency_recovered b) amount\<rparr>, same)
          else if claim_currency \<noteq> None \<and> rv_currency e \<noteq> claim_currency
          then Inr (b\<lparr>ac_mismatched_currency_recovered := dec_plus D (ac_mismatched_currency_recovered b) amount\<rparr>, same)
          else Inr (b, dec_plus D same amount))"

definition accumulate_claim_reconciliation ::
  "'d decimal_lib \<Rightarrow> 'd accumulator \<Rightarrow> 'a reconcilable_claim_scheme \<Rightarrow> reconcilable_event list \<Rightarrow> (claim_error, 'd accumulator) result" where
  "accumulate_claim_reconciliation D bucket claim events =
     rbind (read_decimal ClaimDecimalError D (rq_amount_claimed claim)) (\<lambda>claimed.
     rbind (rfold (accumulate_event D (rq_currency claim)) (bucket\<lparr>ac_claimed := dec_plus D (ac_claimed bucket) claimed\<rparr>, dec_zero D) events) (\<lambda>(b, same).
       let b1 = b\<lparr>ac_recovered := dec_plus D (ac_recovered b) same\<rparr>;
           rest = \<lambda>x. dec_minus D (dec_plus D x claimed) same
       in if is_claim_terminal_status (rq_status claim)
          then Inr (if rq_status claim = ''recovered'' then b1
                    else if rq_status claim = ''denied'' then b1\<lparr>ac_denied := rest (ac_denied b1)\<rparr>
                    else if rq_status claim = ''written_off'' then b1\<lparr>ac_written_off := rest (ac_written_off b1)\<rparr>
                    else b1)
          else Inr (b1\<lparr>ac_outstanding := rest (ac_outstanding b1)\<rparr>)))"

definition finalize_claim_reconciliation_totals :: "'d decimal_lib \<Rightarrow> 'd accumulator \<Rightarrow> reconciliation_totals" where
  "finalize_claim_reconciliation_totals D b =
     \<lparr>rt_claimed = dec_to_fixed D 4 (ac_claimed b), rt_recovered = dec_to_fixed D 4 (ac_recovered b),
      rt_outstanding = dec_to_fixed D 4 (ac_outstanding b), rt_written_off = dec_to_fixed D 4 (ac_written_off b),
      rt_denied = dec_to_fixed D 4 (ac_denied b), rt_null_currency_recovered = dec_to_fixed D 4 (ac_null_currency_recovered b),
      rt_mismatched_currency_recovered = dec_to_fixed D 4 (ac_mismatched_currency_recovered b)\<rparr>"

definition claim_reconciliation_reconciles :: "'d decimal_lib \<Rightarrow> 'd accumulator \<Rightarrow> bool" where
  "claim_reconciliation_reconciles D b =
     dec_eq D (ac_claimed b) (dec_plus D (dec_plus D (dec_plus D (ac_recovered b) (ac_outstanding b)) (ac_written_off b)) (ac_denied b))"

section \<open>Grouping by a key\<close>

text \<open>
  The \<open>Map\<close> of buckets in insertion order: \<open>bucketFor\<close> creates a bucket on the first use of its key,
  with the columns \<open>m\<close> of the claim that opens it.
\<close>

fun with_bucket ::
  "'d decimal_lib \<Rightarrow> string \<Rightarrow> 'm \<Rightarrow> ('d accumulator \<Rightarrow> (claim_error, 'd accumulator) result) \<Rightarrow> (string \<times> 'm \<times> 'd accumulator) list
   \<Rightarrow> (claim_error, (string \<times> 'm \<times> 'd accumulator) list) result" where
  "with_bucket D k m f [] = rbind (f (empty_accumulator D)) (\<lambda>b. Inr [(k, m, b)])"
| "with_bucket D k m f ((k', m', b) # bs) =
     (if k' = k then rbind (f b) (\<lambda>b'. Inr ((k', m', b') # bs))
      else rbind (with_bucket D k m f bs) (\<lambda>bs'. Inr ((k', m', b) # bs')))"

definition events_of_claim :: "uuid \<Rightarrow> reconcilable_event list \<Rightarrow> reconcilable_event list" where
  "events_of_claim i events = filter (\<lambda>e. rv_claim_id e = i) events"

definition bucket_claims ::
  "'d decimal_lib \<Rightarrow> ('a reconcilable_claim_scheme \<Rightarrow> string) \<Rightarrow> ('a reconcilable_claim_scheme \<Rightarrow> 'm)
   \<Rightarrow> 'a reconcilable_claim_scheme list \<Rightarrow> reconcilable_event list \<Rightarrow> (claim_error, (string \<times> 'm \<times> 'd accumulator) list) result" where
  "bucket_claims D key meta claims events =
     rfold (\<lambda>bs c. with_bucket D (key c) (meta c)
                      (\<lambda>b. accumulate_claim_reconciliation D b c (events_of_claim (rq_claim_id c) events)) bs) [] claims"

definition or_blank :: "string option \<Rightarrow> string" where
  "or_blank s = (case s of None \<Rightarrow> '' '' | Some t \<Rightarrow> t)"

text \<open>reconcile-portfolio-totals.ts: the currency, the totals and whether they reconcile.\<close>

definition reconcile_portfolio_totals ::
  "'d decimal_lib \<Rightarrow> 'a reconcilable_claim_scheme list \<Rightarrow> reconcilable_event list
   \<Rightarrow> (claim_error, (string option \<times> reconciliation_totals \<times> bool) list) result" where
  "reconcile_portfolio_totals D claims events =
     rbind (bucket_claims D (\<lambda>c. or_blank (rq_currency c)) rq_currency claims events) (\<lambda>bs.
       Inr (map (\<lambda>(_, cur, b). (cur, finalize_claim_reconciliation_totals D b, claim_reconciliation_reconciles D b)) bs))"

text \<open>aggregate-carrier-recovery.ts\<close>

record carrier_claim = reconcilable_claim +
  rq_carrier_id :: "uuid option"

definition carrier_key :: "carrier_claim \<Rightarrow> string" where
  "carrier_key c = or_blank (rq_carrier_id c) @ ''::'' @ or_blank (rq_currency c)"

definition aggregate_carrier_recovery ::
  "'d decimal_lib \<Rightarrow> carrier_claim list \<Rightarrow> reconcilable_event list
   \<Rightarrow> (claim_error, (uuid option \<times> string option \<times> reconciliation_totals) list) result" where
  "aggregate_carrier_recovery D claims events =
     rbind (bucket_claims D carrier_key (\<lambda>c. (rq_carrier_id c, rq_currency c)) claims events) (\<lambda>bs.
       Inr (map (\<lambda>(_, (carrier, cur), b). (carrier, cur, finalize_claim_reconciliation_totals D b)) bs))"

text \<open>aggregate-cross-account-portfolio.ts\<close>

record portfolio_claim = reconcilable_claim +
  rq_client_id :: uuid
  rq_client_name :: "string option"

definition portfolio_key :: "portfolio_claim \<Rightarrow> string" where
  "portfolio_key c = rq_client_id c @ ''::'' @ or_blank (rq_currency c)"

definition aggregate_cross_account_portfolio ::
  "'d decimal_lib \<Rightarrow> portfolio_claim list \<Rightarrow> reconcilable_event list
   \<Rightarrow> (claim_error, (uuid \<times> string option \<times> string option \<times> reconciliation_totals \<times> bool) list) result" where
  "aggregate_cross_account_portfolio D claims events =
     rbind (bucket_claims D portfolio_key (\<lambda>c. (rq_client_id c, rq_client_name c, rq_currency c)) claims events) (\<lambda>bs.
       Inr (map (\<lambda>(_, (client, name, cur), b).
              (client, name, cur, finalize_claim_reconciliation_totals D b, claim_reconciliation_reconciles D b)) bs))"

section \<open>The reports over the tables\<close>

definition event_rows :: "(recovery_event \<Rightarrow> bool) \<Rightarrow> uuid list \<Rightarrow> claims_db \<Rightarrow> reconcilable_event list" where
  "event_rows p claim_ids db =
     List.map_filter (\<lambda>r. case re_claim_id r of
         None \<Rightarrow> None
       | Some i \<Rightarrow> if p r \<and> i \<in> set claim_ids
                   then Some \<lparr>rv_claim_id = i, rv_amount_recovered = numeric_text (re_amount_recovered r), rv_currency = re_currency r\<rparr>
                   else None) (cd_recoveries db)"

definition portfolio_row :: "claim \<Rightarrow> reconcilable_claim" where
  "portfolio_row c =
     \<lparr>rq_claim_id = cl_id c, rq_amount_claimed = numeric_text (cl_amount_claimed c), rq_currency = cl_currency c, rq_status = cl_status c\<rparr>"

text \<open>get-portfolio-reconciliation.ts\<close>

definition get_portfolio_reconciliation ::
  "'d decimal_lib \<Rightarrow> zod_lib \<Rightarrow> uuid \<Rightarrow> claims_db \<Rightarrow> (claim_error, (string option \<times> reconciliation_totals \<times> bool) list) result" where
  "get_portfolio_reconciliation D Z client db =
     rbind (ensure (zod_uuid Z client) ClaimZodError) (\<lambda>_.
       let rows = filter (\<lambda>c. cl_account_id c = client) (cd_claims db)
       in if rows = [] then Inr []
          else reconcile_portfolio_totals D (map portfolio_row rows)
                 (event_rows (\<lambda>r. re_account_id r = client) (map cl_id rows) db))"

text \<open>get-carrier-recovery-report.ts: a left join with the disputes, whose ids are a primary key.\<close>

definition carrier_of :: "claim \<Rightarrow> claims_db \<Rightarrow> uuid option" where
  "carrier_of c db =
     (case find (\<lambda>d. cl_dispute_id c = Some (di_id d)) (cd_disputes db) of None \<Rightarrow> None | Some d \<Rightarrow> di_carrier_id d)"

definition get_carrier_recovery_report ::
  "'d decimal_lib \<Rightarrow> zod_lib \<Rightarrow> uuid \<Rightarrow> uuid option \<Rightarrow> claims_db
   \<Rightarrow> (claim_error, (uuid option \<times> string option \<times> reconciliation_totals) list) result" where
  "get_carrier_recovery_report D Z client carrier db =
     rbind (ensure (zod_uuid Z client \<and> optional_zod_uuid Z carrier) ClaimZodError) (\<lambda>_.
       let rows = filter (\<lambda>c. cl_account_id c = client \<and> (carrier = None \<or> sql_eq (carrier_of c db) carrier)) (cd_claims db)
       in if rows = [] then Inr []
          else aggregate_carrier_recovery D
                 (map (\<lambda>c. reconcilable_claim.extend (portfolio_row c) \<lparr>rq_carrier_id = carrier_of c db\<rparr>) rows)
                 (event_rows (\<lambda>r. re_account_id r = client) (map cl_id rows) db))"

text \<open>get-cross-account-portfolio.ts: an inner join with the accounts.\<close>

definition get_cross_account_portfolio ::
  "'d decimal_lib \<Rightarrow> claims_db
   \<Rightarrow> (claim_error, (uuid \<times> string option \<times> string option \<times> reconciliation_totals \<times> bool) list) result" where
  "get_cross_account_portfolio D db =
     (let rows = concat (map (\<lambda>c. map (\<lambda>a. reconcilable_claim.extend (portfolio_row c)
                                            \<lparr>rq_client_id = cl_account_id c, rq_client_name = Some (acc_name a)\<rparr>)
                                    (filter (\<lambda>a. acc_id a = cl_account_id c) (cd_accounts db))) (cd_claims db))
      in if rows = [] then Inr []
         else aggregate_cross_account_portfolio D rows (event_rows (\<lambda>_. True) (map rq_claim_id rows) db))"

end
