(* ===== verification/Claim_Aging.thy ===== *)
theory Claim_Aging
  imports Claim_Reports
begin

text \<open>
  Deadlines, follow-ups and escalations of claims (src/modules/claims, src/jobs): the per-claim
  operations, the queries that list the claims due, the scan that enqueues a job for each, and the
  job handlers. A day is 86400000 milliseconds, as \<open>setUTCDate\<close> counts; \<open>isof\<close> is \<open>toISOString\<close>.
\<close>

section \<open>compute-claim-aging-deadline.ts, set-claim-aging-deadline.ts\<close>

definition add_utc_days :: "instant \<Rightarrow> int \<Rightarrow> instant" where
  "add_utc_days t n = t + n * 86400000"

datatype opened_at = Opened_Date instant | Opened_Text string

definition aging_days_ok :: "zod_lib \<Rightarrow> int \<Rightarrow> bool" where
  "aging_days_ok Z n \<longleftrightarrow> zod_int Z n \<and> 0 < n \<and> n \<le> 3650"

definition compute_claim_aging_deadline :: "zod_lib \<Rightarrow> opened_at \<Rightarrow> int \<Rightarrow> (claim_error, instant) result" where
  "compute_claim_aging_deadline Z opened days =
     rbind (case opened of
              Opened_Date t \<Rightarrow> Inr t
            | Opened_Text s \<Rightarrow> (case zod_datetime Z s of None \<Rightarrow> Inl ClaimZodError | Some t \<Rightarrow> Inr t)) (\<lambda>t.
     rbind (ensure (aging_days_ok Z days) ClaimZodError) (\<lambda>_. Inr (add_utc_days t days)))"

definition set_claim_aging_deadline ::
  "zod_lib \<Rightarrow> (instant \<Rightarrow> string) \<Rightarrow> uuid \<Rightarrow> uuid \<Rightarrow> int \<Rightarrow> claims_db \<Rightarrow> (claim_error, claims_db \<times> string) result" where
  "set_claim_aging_deadline Z isof client claim_id days db =
     rbind (ensure (zod_uuid Z client \<and> zod_uuid Z claim_id \<and> aging_days_ok Z days) ClaimZodError) (\<lambda>_.
     case find_claim client claim_id db of
       None \<Rightarrow> Inl (SetClaimAgingDeadlineError CLAIM_NOT_FOUND)
     | Some c \<Rightarrow>
         rbind (compute_claim_aging_deadline Z (Opened_Date (cl_opened_at c)) days) (\<lambda>deadline.
         Inr (db\<lparr>cd_claims := map (\<lambda>x. if cl_account_id x = client \<and> cl_id x = claim_id
                                         then x\<lparr>cl_aging_deadline_at := Some deadline\<rparr> else x) (cd_claims db)\<rparr>,
              isof deadline)))"

section \<open>generate-claim-follow-up.ts, generate-claim-escalation.ts\<close>

text \<open>\<open>clock\<close> is the time of the database, \<open>now\<close> the instant the caller passes.\<close>

definition follow_up_event :: "runtime \<Rightarrow> (instant \<Rightarrow> string) \<Rightarrow> claim \<Rightarrow> instant \<Rightarrow> audit_event" where
  "follow_up_event rt isof c deadline =
     system_event rt (cl_account_id c) ''claim'' (cl_id c) CLAIM_FOLLOW_UP_EVENT
       [cl_account_id c, cl_id c, CLAIM_FOLLOW_UP_EVENT] [(''agingDeadlineAt'', JString (isof deadline))]"

definition generate_claim_follow_up ::
  "runtime \<Rightarrow> (instant \<Rightarrow> string) \<Rightarrow> instant \<Rightarrow> instant \<Rightarrow> uuid \<Rightarrow> uuid \<Rightarrow> claims_db \<Rightarrow> (claim_error, claims_db \<times> uuid \<times> bool) result" where
  "generate_claim_follow_up rt isof clock now client claim_id db =
     (case find_claim client claim_id db of
        None \<Rightarrow> Inl (GenerateClaimFollowUpError CLAIM_NOT_FOUND)
      | Some c \<Rightarrow>
          rbind (ensure (\<not> is_claim_terminal_status (cl_status c)) (GenerateClaimFollowUpError CLAIM_TERMINAL)) (\<lambda>_.
          case cl_aging_deadline_at c of
            None \<Rightarrow> Inl (GenerateClaimFollowUpError NO_DEADLINE_SET)
          | Some deadline \<Rightarrow>
              rbind (ensure (\<not> now < deadline) (GenerateClaimFollowUpError DEADLINE_NOT_PASSED)) (\<lambda>_.
              let e = follow_up_event rt isof c deadline
              in rbind (write_claims_event clock e db) (\<lambda>(db', created). Inr (db', ae_id e, created)))))"

definition DEFAULT_GRACE_PERIOD_DAYS :: int where
  "DEFAULT_GRACE_PERIOD_DAYS = 7"

text \<open>\<open>ORDER BY recorded_at DESC LIMIT 1\<close> over the follow-ups of a claim.\<close>

definition latest_follow_up :: "uuid \<Rightarrow> uuid \<Rightarrow> claims_db \<Rightarrow> instant option" where
  "latest_follow_up client claim_id db =
     map_option ae_recorded_at
       (first_row (descending (by_int ae_recorded_at)) (\<lambda>_. True) (claim_events client claim_id [CLAIM_FOLLOW_UP_EVENT] db))"

definition escalation_event :: "runtime \<Rightarrow> (instant \<Rightarrow> string) \<Rightarrow> claim \<Rightarrow> instant \<Rightarrow> int \<Rightarrow> audit_event" where
  "escalation_event rt isof c sent days =
     system_event rt (cl_account_id c) ''claim'' (cl_id c) ''claim.escalated''
       [cl_account_id c, cl_id c, ''claim.escalated'']
       [(''followUpRecordedAt'', JString (isof sent)), (''gracePeriodDays'', JNumber (JFin (of_int days)))]"

definition generate_claim_escalation ::
  "runtime \<Rightarrow> (instant \<Rightarrow> string) \<Rightarrow> instant \<Rightarrow> instant \<Rightarrow> int \<Rightarrow> uuid \<Rightarrow> uuid \<Rightarrow> claims_db
   \<Rightarrow> (claim_error, claims_db \<times> uuid \<times> bool) result" where
  "generate_claim_escalation rt isof clock now days client claim_id db =
     (case find_claim client claim_id db of
        None \<Rightarrow> Inl (GenerateClaimEscalationError CLAIM_NOT_FOUND)
      | Some c \<Rightarrow>
          rbind (ensure (\<not> is_claim_terminal_status (cl_status c)) (GenerateClaimEscalationError CLAIM_TERMINAL)) (\<lambda>_.
          case latest_follow_up client claim_id db of
            None \<Rightarrow> Inl (GenerateClaimEscalationError NO_FOLLOW_UP_SENT)
          | Some sent \<Rightarrow>
              rbind (ensure (\<not> now < add_utc_days sent days) (GenerateClaimEscalationError GRACE_PERIOD_NOT_ELAPSED)) (\<lambda>_.
              let e = escalation_event rt isof c sent days
              in rbind (write_claims_event clock e db) (\<lambda>(db', created). Inr (db', ae_id e, created)))))"

section \<open>list-claim-aging-queues.ts\<close>

text \<open>Rows with equal keys come in table order.\<close>

definition list_claims_due_for_follow_up ::
  "zod_lib \<Rightarrow> uuid \<Rightarrow> instant \<Rightarrow> claims_db \<Rightarrow> (claim_error, (uuid \<times> instant) list) result" where
  "list_claims_due_for_follow_up Z client now db =
     rbind (ensure (zod_uuid Z client) ClaimZodError) (\<lambda>_.
     Inr (map (\<lambda>c. (cl_id c, the (cl_aging_deadline_at c)))
       (js_sort (by_int (\<lambda>c. the (cl_aging_deadline_at c)))
         (filter (\<lambda>c. cl_account_id c = client \<and>
             (case cl_aging_deadline_at c of None \<Rightarrow> False | Some t \<Rightarrow> t \<le> now) \<and>
             claim_events (cl_account_id c) (cl_id c) (CLAIM_TERMINAL_EVENT_NAMES @ [CLAIM_FOLLOW_UP_EVENT]) db = [])
           (cd_claims db)))))"

definition list_claims_due_for_escalation ::
  "zod_lib \<Rightarrow> uuid \<Rightarrow> instant \<Rightarrow> int \<Rightarrow> claims_db \<Rightarrow> (claim_error, (uuid \<times> instant) list) result" where
  "list_claims_due_for_escalation Z client now days db =
     rbind (ensure (zod_uuid Z client) ClaimZodError) (\<lambda>_.
     Inr (js_sort (by_int snd)
       (List.map_filter (\<lambda>c.
           case latest_follow_up (cl_account_id c) (cl_id c) db of
             None \<Rightarrow> None
           | Some sent \<Rightarrow>
               if cl_account_id c = client \<and> sent \<le> add_utc_days now (- days) \<and>
                  claim_events (cl_account_id c) (cl_id c) CLAIM_TERMINAL_EVENT_NAMES db = []
               then Some (cl_id c, sent) else None)
         (cd_claims db))))"

section \<open>schedule-claim-aging-jobs.ts\<close>

definition claim_job_payload :: "uuid \<Rightarrow> string \<Rightarrow> string \<Rightarrow> uuid \<Rightarrow> json" where
  "claim_job_payload client job_prefix requested_at claim_id =
     JObject [(''schemaVersion'', JNumber (JFin 1)), (''clientId'', JString client), (''idempotencyKey'', JString (job_prefix @ claim_id)),
              (''requestedAt'', JString requested_at), (''claimId'', JString claim_id)]"

text \<open>One job per listed claim.\<close>

definition enqueue_claims ::
  "runtime \<Rightarrow> zod_lib \<Rightarrow> boss_lib \<Rightarrow> job_name \<Rightarrow> uuid \<Rightarrow> string \<Rightarrow> string \<Rightarrow> (uuid \<times> instant) list \<Rightarrow> claims_db
   \<Rightarrow> (claim_error, claims_db) result" where
  "enqueue_claims rt Z B name client job_prefix requested_at entries db =
     rfold (\<lambda>d (claim_id, _).
        case enqueue_in_transaction rt Z B client name (claim_job_payload client job_prefix requested_at claim_id) None (cd_jobs d) of
          Inl e \<Rightarrow> Inl (ClaimJobError e)
        | Inr (jobs, _) \<Rightarrow> Inr (d\<lparr>cd_jobs := jobs\<rparr>)) db entries"

text \<open>The answer counts the follow-ups and the escalations.\<close>

definition schedule_claim_aging_jobs ::
  "runtime \<Rightarrow> zod_lib \<Rightarrow> boss_lib \<Rightarrow> (instant \<Rightarrow> string) \<Rightarrow> instant \<Rightarrow> claims_db \<Rightarrow> (claim_error, claims_db \<times> nat \<times> nat) result" where
  "schedule_claim_aging_jobs rt Z B isof now db =
     rfold (\<lambda>(d, f, e) client.
        rbind (list_claims_due_for_follow_up Z client now d) (\<lambda>due.
        rbind (enqueue_claims rt Z B FOLLOW_UP_CLAIM_V1 client ''claim-follow-up:'' (isof now) due d) (\<lambda>d1.
        rbind (list_claims_due_for_escalation Z client now DEFAULT_GRACE_PERIOD_DAYS d1) (\<lambda>late.
        rbind (enqueue_claims rt Z B ESCALATE_CLAIM_V1 client ''claim-escalation:'' (isof now) late d1) (\<lambda>d2.
        Inr (d2, f + length due, e + length late))))))
       (db, 0, 0) (map acc_id (filter acc_is_active (cd_accounts db)))"

section \<open>The job handlers\<close>

definition handle_claim_follow_up_job ::
  "runtime \<Rightarrow> zod_lib \<Rightarrow> (instant \<Rightarrow> string) \<Rightarrow> instant \<Rightarrow> instant \<Rightarrow> json \<Rightarrow> claims_db \<Rightarrow> (claim_error, claims_db \<times> uuid \<times> bool) result" where
  "handle_claim_follow_up_job rt Z isof clock now untrusted db =
     (case parse_job_payload Z FOLLOW_UP_CLAIM_V1 untrusted of
        Inl e \<Rightarrow> Inl (ClaimJobError e)
      | Inr p \<Rightarrow> generate_claim_follow_up rt isof clock now (text_member ''clientId'' p) (text_member ''claimId'' p) db)"

definition handle_claim_escalation_job ::
  "runtime \<Rightarrow> zod_lib \<Rightarrow> (instant \<Rightarrow> string) \<Rightarrow> instant \<Rightarrow> instant \<Rightarrow> json \<Rightarrow> claims_db \<Rightarrow> (claim_error, claims_db \<times> uuid \<times> bool) result" where
  "handle_claim_escalation_job rt Z isof clock now untrusted db =
     (case parse_job_payload Z ESCALATE_CLAIM_V1 untrusted of
        Inl e \<Rightarrow> Inl (ClaimJobError e)
      | Inr p \<Rightarrow>
          generate_claim_escalation rt isof clock now DEFAULT_GRACE_PERIOD_DAYS (text_member ''clientId'' p) (text_member ''claimId'' p) db)"

definition handle_claim_aging_scan_job ::
  "runtime \<Rightarrow> zod_lib \<Rightarrow> boss_lib \<Rightarrow> (instant \<Rightarrow> string) \<Rightarrow> json \<Rightarrow> claims_db \<Rightarrow> (claim_error, claims_db \<times> nat \<times> nat) result" where
  "handle_claim_aging_scan_job rt Z B isof untrusted db =
     (case parse_job_payload Z SCAN_CLAIM_AGING_V1 untrusted of
        Inl e \<Rightarrow> Inl (ClaimJobError e)
      | Inr p \<Rightarrow> schedule_claim_aging_jobs rt Z B isof (the (zod_datetime Z (text_member ''requestedAt'' p))) db)"

end
