(* ===== verification/Claim_Properties.thy ===== *)
theory Claim_Properties
  imports Claim_Aging
begin

text \<open>
  The accounting invariant of the claim tables and its preservation by every operation of the
  module: what the validators accept in terms of column amounts, the frame of the audit ledger,
  and the step relation of whole transactions.
\<close>

section \<open>What the validators accept\<close>

context decimal_laws
begin

lemma validate_amount_Inr:
  assumes "validate_recovery_amount_and_currency D amount currency existing errors = Inr (a, c)"
    and "is_amount_literal amount" and "store_numeric amount = Some n"
  shows "0 < n" "a = amount" "currency = Some c" "existing = None \<or> existing = Some c"
proof -
  obtain d where d: "read_decimal ClaimDecimalError D amount = Inr d" "holds d n"
    using read_amount [OF assms(2,3), where e = ClaimDecimalError] by blast
  have le: "dec_le D d (dec_zero D) \<longleftrightarrow> n \<le> 0" using holds_compare(1) [OF d(2) holds_zero] .
  show "0 < n" "a = amount" "currency = Some c" "existing = None \<or> existing = Some c"
    using assms(1)
    by (simp_all add: validate_recovery_amount_and_currency_def result_simps d(1) le split: option.splits)
qed

lemma validate_partial_Inr:
  assumes v: "validate_partial_recovery D (claim_view_of c) amount (Some cur) (sum_text ns) = Inr v"
    and amt: "is_amount_literal amount" "store_numeric amount = Some n"
    and prior: "0 \<le> sum_list ns" "sum_list ns < 10 ^ 18"
  shows "0 < n" "sum_list ns + n \<le> cl_amount_claimed c" "vp_amount_recovered v = amount" "vp_currency v = cur"
    "cl_currency c = None \<or> cl_currency c = Some cur" "vp_is_final v \<longleftrightarrow> sum_list ns + n = cl_amount_claimed c"
proof -
  obtain d p m where d: "read_decimal ClaimDecimalError D amount = Inr d" "holds d n"
    and p: "read_decimal ClaimDecimalError D (sum_text ns) = Inr p" "holds p (sum_list ns)"
    and m: "read_decimal ClaimDecimalError D (numeric_text (cl_amount_claimed c)) = Inr m" "holds m (cl_amount_claimed c)"
    using read_amount [OF amt, where e = ClaimDecimalError] read_sum [where e = ClaimDecimalError]
      read_numeric [where e = ClaimDecimalError] by blast
  obtain a cur' where w: "validate_recovery_amount_and_currency D amount (Some cur) (cl_currency c) partial_errors = Inr (a, cur')"
    using v by (auto simp: validate_partial_recovery_def claim_view_of_def result_simps)
  note w' = validate_amount_Inr [OF w amt]
  have "\<bar>n\<bar> < 10 ^ 18" using amt(2) by (rule store_numeric_bound)
  then have "holds (dec_plus D p d) (sum_list ns + n)"
    using prior d(2) p(2) w'(1) by (intro holds_plus) auto
  note cmp = holds_compare [OF m(2) this] holds_compare [OF this m(2)]
  show "0 < n" "sum_list ns + n \<le> cl_amount_claimed c" "vp_amount_recovered v = amount" "vp_currency v = cur"
    "cl_currency c = None \<or> cl_currency c = Some cur" "vp_is_final v \<longleftrightarrow> sum_list ns + n = cl_amount_claimed c"
    using v w w' d p m by (auto simp: validate_partial_recovery_def claim_view_of_def result_simps cmp Let_def)
qed

text \<open>The outcome of a resolution: the amount that is added, and how the total relates to the claim.\<close>

lemma validate_resolution_Inr:
  assumes v: "validate_claim_resolution D (claim_view_of c) kind (sum_text ns) amount currency = Inr v"
    and amt: "\<And>a. amount = Some a \<Longrightarrow> is_amount_literal a \<and> store_numeric a = Some (n a)"
    and prior: "0 \<le> sum_list ns" "sum_list ns < 10 ^ 18"
  shows "\<not> is_claim_terminal_status (cl_status c) \<and> vr_amount_recovered v = amount \<and>
     (case amount of
        None \<Rightarrow> (vr_new_status v = ''denied'' \<or> vr_new_status v = ''written_off'')
      | Some a \<Rightarrow> 0 < n a \<and> vr_currency v \<noteq> None \<and> (cl_currency c = None \<or> cl_currency c = vr_currency v) \<and>
          (if kind = FULL_RECOVERY then vr_new_status v = ''recovered'' \<and> sum_list ns + n a = cl_amount_claimed c
           else vr_new_status v = ''written_off'' \<and> sum_list ns + n a < cl_amount_claimed c))"
proof -
  have open_status: "\<not> is_claim_terminal_status (cl_status c)"
    using v by (auto simp: validate_claim_resolution_def claim_view_of_def Let_def split: if_splits)
  show ?thesis
  proof (cases amount)
    case None
    then show ?thesis using v open_status
      by (cases kind) (auto simp: validate_claim_resolution_def claim_view_of_def Let_def split: if_splits)
  next
    case (Some a)
    then have kind: "kind \<noteq> DENIAL" and lit: "is_amount_literal a" "store_numeric a = Some (n a)"
      using v open_status amt by (auto simp: validate_claim_resolution_def claim_view_of_def Let_def split: if_splits)
    obtain d p m where d: "read_decimal ClaimDecimalError D a = Inr d" "holds d (n a)"
      and p: "read_decimal ClaimDecimalError D (sum_text ns) = Inr p" "holds p (sum_list ns)"
      and m: "read_decimal ClaimDecimalError D (numeric_text (cl_amount_claimed c)) = Inr m" "holds m (cl_amount_claimed c)"
      using read_amount [OF lit, where e = ClaimDecimalError] read_sum [where e = ClaimDecimalError]
        read_numeric [where e = ClaimDecimalError] by blast
    obtain a' cur where w: "validate_recovery_amount_and_currency D a currency (cl_currency c) resolution_errors = Inr (a', cur)"
      using v open_status kind Some by (auto simp: validate_claim_resolution_def claim_view_of_def Let_def result_simps split: if_splits)
    note w' = validate_amount_Inr [OF w lit]
    have "\<bar>n a\<bar> < 10 ^ 18" using lit(2) by (rule store_numeric_bound)
    then have "holds (dec_plus D p d) (sum_list ns + n a)"
      using prior d(2) p(2) w'(1) by (intro holds_plus) auto
    note cmp = holds_compare [OF m(2) this] holds_compare [OF this m(2)]
    show ?thesis
      using v open_status kind Some w w' d p m
      by (auto simp: validate_claim_resolution_def claim_view_of_def Let_def cmp split: if_splits)
  qed
qed

end

section \<open>The invariant\<close>

definition total_recovered :: "claims_db \<Rightarrow> claim \<Rightarrow> int" where
  "total_recovered db c = sum_list (map re_amount_recovered (recoveries_of (cl_account_id c) (cl_id c) db))"

definition is_terminal_row :: "audit_event_row \<Rightarrow> bool" where
  "is_terminal_row r \<longleftrightarrow> ae_entity r = ''claim'' \<and> ae_event r \<in> set CLAIM_TERMINAL_EVENT_NAMES"

definition terminal_log :: "claims_db \<Rightarrow> audit_event_row list" where
  "terminal_log db = filter is_terminal_row (cd_audit db)"

definition outcome_of :: "claims_db \<Rightarrow> claim \<Rightarrow> string list" where
  "outcome_of db c =
     map ae_event (filter (\<lambda>r. ae_account_id r = Some (cl_account_id c) \<and> ae_entity_id r = Some (cl_id c)) (terminal_log db))"

definition claim_ok :: "claims_db \<Rightarrow> claim \<Rightarrow> bool" where
  "claim_ok db c \<longleftrightarrow>
     0 < cl_amount_claimed c \<and> cl_amount_claimed c < 10 ^ 18 \<and> cl_currency c \<noteq> None \<and>
     (\<forall>r \<in> set (recoveries_of (cl_account_id c) (cl_id c) db). 0 < re_amount_recovered r \<and> re_currency r = cl_currency c) \<and>
     total_recovered db c \<le> cl_amount_claimed c \<and>
     (cl_status c = ''recovered'' \<longrightarrow> total_recovered db c = cl_amount_claimed c) \<and>
     (if is_claim_terminal_status (cl_status c) then outcome_of db c = [''claim.'' @ cl_status c]
      else cl_status c = ''open'' \<and> outcome_of db c = [])"

text \<open>Foreign keys: recoveries and terminal events belong to claims of the table.\<close>

definition references_ok :: "claims_db \<Rightarrow> bool" where
  "references_ok db \<longleftrightarrow>
     (\<forall>r \<in> set (cd_recoveries db). \<forall>i. re_claim_id r = Some i \<longrightarrow> i \<in> cl_id ` set (cd_claims db)) \<and>
     (\<forall>r \<in> set (terminal_log db). \<exists>i \<in> cl_id ` set (cd_claims db). ae_entity_id r = Some i)"

definition claims_ok :: "claims_db \<Rightarrow> bool" where
  "claims_ok db \<longleftrightarrow> distinct (map cl_id (cd_claims db)) \<and> (\<forall>c \<in> set (cd_claims db). claim_ok db c) \<and> references_ok db"

lemma claim_ok_total: "claim_ok db c \<Longrightarrow> 0 \<le> total_recovered db c \<and> total_recovered db c < 10 ^ 18"
  unfolding claim_ok_def total_recovered_def by (force intro!: sum_list_nonneg)

lemma claims_ok_cong:
  "cd_claims db' = cd_claims db \<Longrightarrow> cd_recoveries db' = cd_recoveries db \<Longrightarrow> terminal_log db' = terminal_log db \<Longrightarrow>
   claims_ok db' \<longleftrightarrow> claims_ok db"
  by (simp add: claims_ok_def claim_ok_def references_ok_def outcome_of_def total_recovered_def recoveries_of_def)

lemma terminal_status_cases:
  "is_claim_terminal_status s \<longleftrightarrow> s = ''recovered'' \<or> s = ''denied'' \<or> s = ''written_off''"
  by (auto simp: is_claim_terminal_status_def CLAIM_TERMINAL_STATUSES_def CLAIM_TERMINAL_EVENTS_def)

lemma find_claim_in: "find_claim client i db = Some c \<Longrightarrow> c \<in> set (cd_claims db) \<and> cl_account_id c = client \<and> cl_id c = i"
  unfolding find_claim_def by (auto dest: find_Some_in)

lemma same_claim: "distinct (map cl_id cs) \<Longrightarrow> c \<in> set cs \<Longrightarrow> x \<in> set cs \<Longrightarrow> cl_id x = cl_id c \<Longrightarrow> x = c"
  by (metis distinct_map inj_onD)

section \<open>The ledger\<close>

text \<open>Does an event, once trimmed, say that a claim has reached an outcome?\<close>

definition terminal_marker :: "audit_event \<Rightarrow> bool" where
  "terminal_marker e \<longleftrightarrow> js_trim (ae_entity e) = ''claim'' \<and> js_trim (ae_event e) \<in> set CLAIM_TERMINAL_EVENT_NAMES"

lemma write_claims_event_Inr:
  assumes "write_claims_event now e db = Inr (db', created)"
  shows "\<exists>v rows. parse_audit_event e = Some v \<and> db' = db\<lparr>cd_audit := rows\<rparr> \<and>
     (rows = cd_audit db @ [ledger_row now v] \<or> rows = cd_audit db \<and> list_ex (same_evidence v) (cd_audit db))"
proof -
  obtain rows r where w: "write_audit_event now e (cd_audit db) = Inr (rows, r, created)" and db': "db' = db\<lparr>cd_audit := rows\<rparr>"
    using assms by (auto simp: write_claims_event_def split: sum.splits)
  then show ?thesis by (auto simp: write_audit_event_Inr split: if_splits)
qed

lemma parse_audit_event_fields:
  "parse_audit_event e = Some v \<Longrightarrow>
   ae_account_id v = ae_account_id e \<and> ae_entity v = js_trim (ae_entity e) \<and> ae_entity_id v = ae_entity_id e \<and>
   ae_event v = js_trim (ae_event e)"
  by (auto simp: parse_audit_event_def Let_def split: if_splits)

lemma ledger_row_fields [simp]:
  "ae_account_id (ledger_row now v) = ae_account_id v" "ae_entity (ledger_row now v) = ae_entity v"
  "ae_entity_id (ledger_row now v) = ae_entity_id v" "ae_event (ledger_row now v) = ae_event v"
  by (simp_all add: ledger_row_def audit_event.defs)

lemma write_other_event:
  assumes "write_claims_event now e db = Inr (db', created)" and "\<not> terminal_marker e"
  shows "terminal_log db' = terminal_log db \<and> (\<exists>rows. db' = db\<lparr>cd_audit := rows\<rparr>)"
proof -
  obtain v rows where v: "parse_audit_event e = Some v" and db': "db' = db\<lparr>cd_audit := rows\<rparr>"
    and rows: "rows = cd_audit db @ [ledger_row now v] \<or> rows = cd_audit db"
    using write_claims_event_Inr [OF assms(1)] by blast
  have "\<not> is_terminal_row (ledger_row now v)"
    using assms(2) parse_audit_event_fields [OF v] by (simp add: is_terminal_row_def terminal_marker_def)
  then show ?thesis using db' rows by (auto simp: terminal_log_def)
qed

lemma event_names_trimmed [simp]:
  "js_trim ''claim.created'' = ''claim.created''" "js_trim ''recovery_event'' = ''recovery_event''"
  "js_trim ''variance_finding'' = ''variance_finding''" "js_trim ''claim.follow_up_sent'' = ''claim.follow_up_sent''"
  "js_trim ''claim.escalated'' = ''claim.escalated''" "js_trim ''claim'' = ''claim''"
  "js_trim ''claim.recovered'' = ''claim.recovered''" "js_trim ''claim.denied'' = ''claim.denied''"
  "js_trim ''claim.written_off'' = ''claim.written_off''"
  by code_simp+

lemmas claim_event_defs = claim_created_event_def recovery_recorded_event_def finding_changed_event_def follow_up_event_def
  escalation_event_def analyst_event_def system_event_def

lemma other_events [simp]:
  "\<not> terminal_marker (claim_created_event rt client actor i d a cur)"
  "\<not> terminal_marker (recovery_recorded_event rt client i cid pv)"
  "\<not> terminal_marker (finding_changed_event rt account f ev s1 s2 note actor)"
  "\<not> terminal_marker (follow_up_event rt isof c t)"
  "\<not> terminal_marker (escalation_event rt isof c t days)"
  by (simp_all add: terminal_marker_def claim_event_defs CLAIM_FOLLOW_UP_EVENT_def CLAIM_TERMINAL_EVENT_NAMES_def CLAIM_TERMINAL_EVENTS_def)

section \<open>Preservation\<close>

lemma recoveries_of_append:
  "recoveries_of a i (db\<lparr>cd_recoveries := rs @ [row]\<rparr>) =
   recoveries_of a i (db\<lparr>cd_recoveries := rs\<rparr>) @ (if re_account_id row = a \<and> re_claim_id row = Some i then [row] else [])"
  by (simp add: recoveries_of_def)

text \<open>A recovery that keeps the total within the claim.\<close>

lemma add_recovery_ok:
  assumes ok: "claims_ok db" and c: "c \<in> set (cd_claims db)"
    and row: "re_account_id row = cl_account_id c" "re_claim_id row = Some (cl_id c)" "re_currency row = cl_currency c"
      "0 < re_amount_recovered row" "total_recovered db c + re_amount_recovered row \<le> cl_amount_claimed c"
  shows "claims_ok (db\<lparr>cd_recoveries := cd_recoveries db @ [row]\<rparr>)"
proof -
  let ?db = "db\<lparr>cd_recoveries := cd_recoveries db @ [row]\<rparr>"
  have log: "terminal_log ?db = terminal_log db" by (simp add: terminal_log_def)
  have "claim_ok ?db x" if x: "x \<in> set (cd_claims db)" for x
  proof (cases "x = c")
    case True
    have "claim_ok db c" using ok c by (simp add: claims_ok_def)
    moreover have "recoveries_of (cl_account_id c) (cl_id c) ?db = recoveries_of (cl_account_id c) (cl_id c) db @ [row]"
      using row by (simp add: recoveries_of_append)
    ultimately show ?thesis
      using row True unfolding claim_ok_def total_recovered_def outcome_of_def log by auto
  next
    case False
    then have "cl_id x \<noteq> cl_id c" using same_claim ok c x unfolding claims_ok_def by blast
    then have "recoveries_of (cl_account_id x) (cl_id x) ?db = recoveries_of (cl_account_id x) (cl_id x) db"
      using row by (simp add: recoveries_of_append)
    then show ?thesis
      using ok x unfolding claims_ok_def claim_ok_def total_recovered_def outcome_of_def log by simp
  qed
  then show ?thesis using ok c row(2) unfolding claims_ok_def references_ok_def log by auto
qed

text \<open>Closing an open claim, with its event in the ledger.\<close>

lemma close_claim_ok:
  assumes ok: "claims_ok db" and c: "c \<in> set (cd_claims db)" and s: "is_claim_terminal_status s"
    and opn: "\<not> is_claim_terminal_status (cl_status c)"
    and full: "s = ''recovered'' \<longrightarrow> total_recovered db c = cl_amount_claimed c"
    and db': "cd_claims db' = cd_claims (set_claim_status (cl_account_id c) (cl_id c) s db)" "cd_recoveries db' = cd_recoveries db"
      "terminal_log db' = terminal_log db @ [row]"
    and row: "ae_account_id row = Some (cl_account_id c)" "ae_entity_id row = Some (cl_id c)" "ae_event row = ''claim.'' @ s"
  shows "claims_ok db'"
proof -
  let ?f = "\<lambda>x. if cl_account_id x = cl_account_id c \<and> cl_id x = cl_id c then x\<lparr>cl_status := s\<rparr> else x"
  have claims: "cd_claims db' = map ?f (cd_claims db)" using db'(1) by (simp add: set_claim_status_def)
  have f: "cl_id (?f x) = cl_id x" "cl_account_id (?f x) = cl_account_id x" for x by simp_all
  have ids: "map cl_id (cd_claims db') = map cl_id (cd_claims db)" unfolding claims by (simp add: comp_def f)
  have rec: "recoveries_of a i db' = recoveries_of a i db" for a i by (simp add: recoveries_of_def db')
  have "claim_ok db' (?f x)" if x: "x \<in> set (cd_claims db)" for x
  proof (cases "x = c")
    case True
    have "claim_ok db c" using ok c by (simp add: claims_ok_def)
    then show ?thesis
      using opn s full row True unfolding claim_ok_def total_recovered_def outcome_of_def rec db'(3) by simp
  next
    case False
    then have ne: "cl_id x \<noteq> cl_id c" using same_claim ok c x unfolding claims_ok_def by blast
    then have "outcome_of db' x = outcome_of db x" using row(2) by (simp add: outcome_of_def db'(3))
    moreover have "claim_ok db x" using ok x by (simp add: claims_ok_def)
    ultimately show ?thesis using ne unfolding claim_ok_def total_recovered_def rec by simp
  qed
  then have "\<forall>x \<in> ?f ` set (cd_claims db). claim_ok db' x" by blast
  then have "\<forall>x \<in> set (cd_claims db'). claim_ok db' x" unfolding claims set_map .
  moreover have img: "cl_id ` set (cd_claims db') = cl_id ` set (cd_claims db)" using ids by (metis set_map)
  ultimately show ?thesis
    using ok c row(2) unfolding claims_ok_def references_ok_def ids img db'(2,3) by auto
qed

lemma insert_recovery_Inr:
  "insert_recovery new_id client i finding amount currency db = Inr db' \<Longrightarrow>
   \<exists>n. store_numeric amount = Some n \<and> db' = db\<lparr>cd_recoveries := cd_recoveries db @
     [\<lparr>re_id = new_id, re_account_id = client, re_claim_id = Some i, re_variance_finding_id = finding,
       re_amount_recovered = n, re_currency = currency\<rparr>]\<rparr>"
  by (simp add: insert_recovery_def result_simps split: option.splits)

lemma export_frame:
  "\<exists>jobs. export_or_rollback rt Z B new_id requested_at i v db = db\<lparr>cd_jobs := jobs\<rparr>"
proof (cases "enqueue_reconciliation_export rt Z B (ri_client_id i) (ri_claim_id i) new_id (vp_amount_recovered v) (vp_currency v)
     (ri_variance_finding_id i) requested_at (cd_jobs db)")
  case (Inl e)
  have "db = db\<lparr>cd_jobs := cd_jobs db\<rparr>" by simp
  then show ?thesis using Inl unfolding export_or_rollback_def by (metis sum.case(1))
qed (auto simp: export_or_rollback_def)

lemma mirror_finding_frame:
  assumes "mirror_finding rt event_id now i v db = Inr db'"
  shows "cd_claims db' = cd_claims db \<and> cd_recoveries db' = cd_recoveries db \<and> terminal_log db' = terminal_log db"
proof -
  have frame: "cd_claims d' = cd_claims d \<and> cd_recoveries d' = cd_recoveries d \<and> terminal_log d' = terminal_log d"
    if u: "update_finding_status rt vis event_id now f st msg actor d = Inr (d', b)" for f st msg actor vis d d' b
  proof (cases "find (\<lambda>g. vf_id g = f \<and> vf_account_id g \<in> set vis) (cd_findings d)")
    case None
    then show ?thesis using u by (simp add: update_finding_status_def result_simps)
  next
    case (Some g)
    then obtain d1 k where w: "write_claims_event now (finding_changed_event rt (vf_account_id g) f event_id (vf_status g) st msg actor) d1
        = Inr (d', k)" and d1: "cd_claims d1 = cd_claims d" "cd_recoveries d1 = cd_recoveries d" "cd_audit d1 = cd_audit d"
      using u by (auto simp: update_finding_status_def result_simps)
    then show ?thesis using write_other_event [OF w] by (auto simp: terminal_log_def)
  qed
  show ?thesis
    using assms frame by (auto simp: mirror_finding_def result_simps split: option.splits if_splits)
qed

context decimal_laws
begin

lemma record_partial_Inr:
  assumes ok: "claims_ok db" and r: "record_partial_recovery D rt Z B new_id now at_text [] i db = Inr (db', res)"
  shows "\<exists>c n. c \<in> set (cd_claims db) \<and> cl_account_id c = ri_client_id i \<and> cl_id c = ri_claim_id i \<and>
     store_numeric (ri_amount_recovered i) = Some n \<and> 0 < n \<and> total_recovered db c + n \<le> cl_amount_claimed c \<and>
     cd_claims db' = cd_claims db \<and> terminal_log db' = terminal_log db \<and> cl_currency c = Some (ri_currency i) \<and>
     cd_recoveries db' = cd_recoveries db @
       [\<lparr>re_id = new_id, re_account_id = ri_client_id i, re_claim_id = Some (ri_claim_id i),
         re_variance_finding_id = ri_variance_finding_id i, re_amount_recovered = n, re_currency = Some (ri_currency i)\<rparr>] \<and>
     snd (snd res) = (total_recovered db c + n = cl_amount_claimed c)"
proof -
  obtain c v db1 db2 b where lit: "is_amount_literal (ri_amount_recovered i)"
    and c: "find_claim (ri_client_id i) (ri_claim_id i) db = Some c"
    and v: "validate_partial_recovery D (claim_view_of c) (ri_amount_recovered i) (Some (ri_currency i))
      (sum_text (map re_amount_recovered (recoveries_of (ri_client_id i) (ri_claim_id i) db))) = Inr v"
    and ins: "insert_recovery new_id (ri_client_id i) (ri_claim_id i) (ri_variance_finding_id i) (vp_amount_recovered v)
      (Some (vp_currency v)) db = Inr db1"
    and w: "write_claims_event now (recovery_recorded_event rt (ri_client_id i) new_id (ri_claim_id i) v) db1 = Inr (db2, b)"
    and res: "db' = export_or_rollback rt Z B new_id at_text i v db2" "snd (snd res) = vp_is_final v"
    using r by (auto simp: record_partial_recovery_def recovery_input_ok_def prior_total_def result_simps split: option.splits)
  note c = find_claim_in [OF c]
  have cok: "claim_ok db c" using ok c by (simp add: claims_ok_def)
  have t: "sum_list (map re_amount_recovered (recoveries_of (ri_client_id i) (ri_claim_id i) db)) = total_recovered db c"
    using c by (simp add: total_recovered_def)
  have amt: "vp_amount_recovered v = ri_amount_recovered i"
    using v by (auto simp: validate_partial_recovery_def validate_recovery_amount_and_currency_def result_simps Let_def split: option.splits)
  obtain n where n: "store_numeric (ri_amount_recovered i) = Some n"
    and db1: "db1 = db\<lparr>cd_recoveries := cd_recoveries db @
       [\<lparr>re_id = new_id, re_account_id = ri_client_id i, re_claim_id = Some (ri_claim_id i),
         re_variance_finding_id = ri_variance_finding_id i, re_amount_recovered = n, re_currency = Some (vp_currency v)\<rparr>]\<rparr>"
    using insert_recovery_Inr [OF ins] amt by auto
  note vp = validate_partial_Inr [OF v lit n, unfolded t]
  have vp': "0 < n" "total_recovered db c + n \<le> cl_amount_claimed c" "vp_currency v = ri_currency i" "cl_currency c = Some (ri_currency i)"
    "vp_is_final v \<longleftrightarrow> total_recovered db c + n = cl_amount_claimed c"
    using vp claim_ok_total [OF cok] cok by (auto simp: claim_ok_def)
  have frame: "cd_claims db' = cd_claims db2" "cd_recoveries db' = cd_recoveries db2" "terminal_log db' = terminal_log db2"
    using export_frame [of rt Z B new_id at_text i v db2] res(1) by (auto simp: terminal_log_def)
  have "terminal_log db1 = terminal_log db" by (simp add: db1 terminal_log_def)
  then show ?thesis
    using c n vp' frame res(2) write_other_event [OF w] by (intro exI [of _ c] exI [of _ n]) (auto simp: db1)
qed

lemma record_partial_ok:
  assumes ok: "claims_ok db" and r: "record_partial_recovery D rt Z B new_id now at_text [] i db = Inr (db', res)"
  shows "claims_ok db'"
proof -
  let ?row = "\<lambda>n. \<lparr>re_id = new_id, re_account_id = ri_client_id i, re_claim_id = Some (ri_claim_id i),
       re_variance_finding_id = ri_variance_finding_id i, re_amount_recovered = n, re_currency = Some (ri_currency i)\<rparr>"
  obtain c n where c: "c \<in> set (cd_claims db)" "cl_account_id c = ri_client_id i" "cl_id c = ri_claim_id i" "cl_currency c = Some (ri_currency i)"
      "0 < n" "total_recovered db c + n \<le> cl_amount_claimed c"
    and db': "cd_claims db' = cd_claims db" "terminal_log db' = terminal_log db" "cd_recoveries db' = cd_recoveries db @ [?row n]"
    using record_partial_Inr [OF assms] by blast
  have "claims_ok (db\<lparr>cd_recoveries := cd_recoveries db @ [?row n]\<rparr>)"
    using c by (intro add_recovery_ok [OF ok c(1)]) simp_all
  moreover have "terminal_log (db\<lparr>cd_recoveries := rs\<rparr>) = terminal_log db" for rs by (simp add: terminal_log_def)
  ultimately show ?thesis using db' claims_ok_cong [of db' "db\<lparr>cd_recoveries := cd_recoveries db @ [?row n]\<rparr>"] by simp
qed

end

end
