(* ===== verification/Claim_Runs.thy ===== *)
theory Claim_Runs
  imports Claim_Properties
begin

text \<open>
  Runs of the claims module: the remaining operations keep the accounting invariant, and with them
  every sequence of transactions; what the reports show of a state that satisfies it.
\<close>

section \<open>Resolution\<close>

lemma write_terminal_event:
  assumes w: "write_claims_event now e db = Inr (db', created)" and e: "terminal_marker e"
    and new: "\<forall>r \<in> set (terminal_log db). ae_account_id r \<noteq> ae_account_id e \<or> ae_entity_id r \<noteq> ae_entity_id e"
  shows "\<exists>row rows. db' = db\<lparr>cd_audit := rows\<rparr> \<and> terminal_log db' = terminal_log db @ [row] \<and>
     ae_account_id row = ae_account_id e \<and> ae_entity_id row = ae_entity_id e \<and> ae_event row = js_trim (ae_event e)"
proof -
  obtain v rows where v: "parse_audit_event e = Some v" and db': "db' = db\<lparr>cd_audit := rows\<rparr>"
    and rows: "rows = cd_audit db @ [ledger_row now v] \<or> rows = cd_audit db \<and> list_ex (same_evidence v) (cd_audit db)"
    using write_claims_event_Inr [OF w] by blast
  note f = parse_audit_event_fields [OF v]
  have "\<not> list_ex (same_evidence v) (cd_audit db)"
    using new e f by (auto simp: list_ex_iff same_evidence_def terminal_log_def is_terminal_row_def terminal_marker_def)
  moreover have "is_terminal_row (ledger_row now v)"
    using e f by (simp add: is_terminal_row_def terminal_marker_def)
  ultimately show ?thesis
    using rows f by (intro exI [of _ "ledger_row now v"] exI [of _ rows]) (auto simp: db' terminal_log_def)
qed

lemma resolved_event_fields:
  "is_claim_terminal_status (vr_new_status v) \<Longrightarrow>
   terminal_marker (claim_resolved_event rt client i v r) \<and>
   js_trim (ae_event (claim_resolved_event rt client i v r)) = ''claim.'' @ vr_new_status v \<and>
   ae_account_id (claim_resolved_event rt client i v r) = Some client \<and>
   ae_entity_id (claim_resolved_event rt client i v r) = Some i"
  by (auto simp: terminal_status_cases terminal_marker_def claim_resolved_event_def analyst_event_def
      CLAIM_TERMINAL_EVENT_NAMES_def CLAIM_TERMINAL_EVENTS_def)

lemma open_claim_no_events:
  assumes "claims_ok db" and "c \<in> set (cd_claims db)" and "\<not> is_claim_terminal_status (cl_status c)"
  shows "\<forall>r \<in> set (terminal_log db). ae_account_id r \<noteq> Some (cl_account_id c) \<or> ae_entity_id r \<noteq> Some (cl_id c)"
  using assms by (auto simp: claims_ok_def claim_ok_def outcome_of_def filter_empty_conv)

text \<open>Writing the outcome of an open claim of a consistent database.\<close>

lemma finish_resolution_ok:
  assumes ok: "claims_ok db1" and c: "c \<in> set (cd_claims db1)" and opn: "\<not> is_claim_terminal_status (cl_status c)"
    and st: "is_claim_terminal_status (vr_new_status v)"
    and full: "vr_new_status v = ''recovered'' \<longrightarrow> total_recovered db1 c = cl_amount_claimed c"
    and mir: "mirror_finding rt ev now i v (set_claim_status (cl_account_id c) (cl_id c) (vr_new_status v) db1) = Inr db2"
    and w: "write_claims_event now (claim_resolved_event rt (cl_account_id c) (cl_id c) v rid) db2 = Inr (db3, b)"
  shows "claims_ok db3"
proof -
  note e = resolved_event_fields [OF st, of rt "cl_account_id c" "cl_id c" rid]
  note m = mirror_finding_frame [OF mir]
  have log1: "terminal_log db2 = terminal_log db1"
    using m by (simp add: set_claim_status_def terminal_log_def)
  have new: "\<forall>r \<in> set (terminal_log db2). ae_account_id r \<noteq> ae_account_id (claim_resolved_event rt (cl_account_id c) (cl_id c) v rid) \<or>
      ae_entity_id r \<noteq> ae_entity_id (claim_resolved_event rt (cl_account_id c) (cl_id c) v rid)"
    using open_claim_no_events [OF ok c opn] e unfolding log1 by simp
  obtain row rows where r: "db3 = db2\<lparr>cd_audit := rows\<rparr>" "terminal_log db3 = terminal_log db1 @ [row]"
      "ae_account_id row = Some (cl_account_id c)" "ae_entity_id row = Some (cl_id c)" "ae_event row = ''claim.'' @ vr_new_status v"
    using write_terminal_event [OF w _ new] e log1 by auto
  show ?thesis
    by (rule close_claim_ok [OF ok c st opn full _ _ r(2-5)]) (use r(1) m in \<open>simp_all add: set_claim_status_def\<close>)
qed

text \<open>The stages of a successful resolution.\<close>

lemma resolve_claim_stages:
  assumes "resolve_claim D rt Z new_id ev now i db = Inr (db', res)"
  obtains c v db1 rid db2 b where "resolve_input_ok Z i"
    and "find_claim (rs_client_id i) (rs_claim_id i) db = Some c"
    and "validate_claim_resolution D (claim_view_of c) (rs_kind i)
      (sum_text (map re_amount_recovered (recoveries_of (rs_client_id i) (rs_claim_id i) db))) (rs_amount_recovered i) (rs_currency i) = Inr v"
    and "(case vr_amount_recovered v of None \<Rightarrow> Inr (db, None)
        | Some a \<Rightarrow> rbind (insert_recovery new_id (rs_client_id i) (rs_claim_id i) (rs_variance_finding_id i) a (vr_currency v) db)
            (\<lambda>db'. Inr (db', Some new_id))) = Inr (db1, rid)"
    and "mirror_finding rt ev now i v (set_claim_status (rs_client_id i) (rs_claim_id i) (vr_new_status v) db1) = Inr db2"
    and "write_claims_event now (claim_resolved_event rt (rs_client_id i) (rs_claim_id i) v rid) db2 = Inr (db', b)"
  using assms by (auto simp: resolve_claim_def prior_total_def result_simps split: option.split_asm)

context decimal_laws
begin

lemma resolve_claim_ok:
  assumes ok: "claims_ok db" and r: "resolve_claim D rt Z new_id ev now i db = Inr (db', res)"
  shows "claims_ok db'"
proof -
  obtain c v db1 rid db2 b where lit: "resolve_input_ok Z i"
    and c: "find_claim (rs_client_id i) (rs_claim_id i) db = Some c"
    and v: "validate_claim_resolution D (claim_view_of c) (rs_kind i)
      (sum_text (map re_amount_recovered (recoveries_of (rs_client_id i) (rs_claim_id i) db))) (rs_amount_recovered i) (rs_currency i) = Inr v"
    and ins: "(case vr_amount_recovered v of None \<Rightarrow> Inr (db, None)
        | Some a \<Rightarrow> rbind (insert_recovery new_id (rs_client_id i) (rs_claim_id i) (rs_variance_finding_id i) a (vr_currency v) db)
            (\<lambda>db'. Inr (db', Some new_id))) = Inr (db1, rid)"
    and mir: "mirror_finding rt ev now i v (set_claim_status (rs_client_id i) (rs_claim_id i) (vr_new_status v) db1) = Inr db2"
    and w: "write_claims_event now (claim_resolved_event rt (rs_client_id i) (rs_claim_id i) v rid) db2 = Inr (db', b)"
    by (rule resolve_claim_stages [OF r])
  note c' = find_claim_in [OF c]
  have cok: "claim_ok db c" using ok c' by (simp add: claims_ok_def)
  have t: "sum_list (map re_amount_recovered (recoveries_of (rs_client_id i) (rs_claim_id i) db)) = total_recovered db c"
    using c' by (simp add: total_recovered_def)
  define n where "n a = the (store_numeric a)" for a
  have va: "vr_amount_recovered v = rs_amount_recovered i"
    using v by (auto simp: validate_claim_resolution_def validate_recovery_amount_and_currency_def result_simps Let_def
        split: option.splits if_splits)
  have amt: "is_amount_literal a \<and> store_numeric a = Some (n a)" if "rs_amount_recovered i = Some a" for a
    using that lit ins va by (auto simp: resolve_input_ok_def n_def result_simps dest: insert_recovery_Inr)
  note vr = validate_resolution_Inr [OF v amt, unfolded t]
  have vr: "\<not> is_claim_terminal_status (cl_status c)"
    "case rs_amount_recovered i of None \<Rightarrow> vr_new_status v = ''denied'' \<or> vr_new_status v = ''written_off''
      | Some a \<Rightarrow> 0 < n a \<and> vr_currency v \<noteq> None \<and> (cl_currency c = None \<or> cl_currency c = vr_currency v) \<and>
          (if rs_kind i = FULL_RECOVERY then vr_new_status v = ''recovered'' \<and> total_recovered db c + n a = cl_amount_claimed c
           else vr_new_status v = ''written_off'' \<and> total_recovered db c + n a < cl_amount_claimed c)"
    using vr claim_ok_total [OF cok] by simp_all
  have "claims_ok db1 \<and> c \<in> set (cd_claims db1) \<and> is_claim_terminal_status (vr_new_status v) \<and>
      (vr_new_status v = ''recovered'' \<longrightarrow> total_recovered db1 c = cl_amount_claimed c)"
  proof (cases "rs_amount_recovered i")
    case None
    then show ?thesis using ins va vr(2) ok c' by (auto simp: terminal_status_cases)
  next
    case (Some a)
    let ?row = "\<lparr>re_id = new_id, re_account_id = rs_client_id i, re_claim_id = Some (rs_claim_id i),
        re_variance_finding_id = rs_variance_finding_id i, re_amount_recovered = n a, re_currency = vr_currency v\<rparr>"
    have db1: "db1 = db\<lparr>cd_recoveries := cd_recoveries db @ [?row]\<rparr>"
      using ins va Some amt [OF Some] by (auto simp: result_simps dest!: insert_recovery_Inr)
    have "claims_ok db1"
      unfolding db1 using vr(2) Some c' cok
      by (intro add_recovery_ok [OF ok, of c]) (auto simp: claim_ok_def split: if_splits)
    moreover have "total_recovered db1 c = total_recovered db c + n a"
      using c' unfolding db1 total_recovered_def by (simp add: recoveries_of_append)
    ultimately show ?thesis using vr(2) Some c' by (auto simp: db1 terminal_status_cases split: if_splits)
  qed
  then show ?thesis
    using finish_resolution_ok [of db1 c v rt ev now i db2 rid db' b] vr(1) mir w c' by simp
qed

end

section \<open>Opening a claim\<close>

lemma add_claim_ok:
  assumes ok: "claims_ok db" and fresh: "cl_id c \<notin> cl_id ` set (cd_claims db)"
    and c: "cl_status c = ''open''" "0 < cl_amount_claimed c" "cl_amount_claimed c < 10 ^ 18" "cl_currency c \<noteq> None"
  shows "claims_ok (db\<lparr>cd_claims := cd_claims db @ [c]\<rparr>)"
proof -
  let ?db = "db\<lparr>cd_claims := cd_claims db @ [c]\<rparr>"
  have same: "recoveries_of a i ?db = recoveries_of a i db" "terminal_log ?db = terminal_log db" for a i
    by (simp_all add: recoveries_of_def terminal_log_def)
  have old: "claim_ok ?db x \<longleftrightarrow> claim_ok db x" for x
    by (simp add: claim_ok_def total_recovered_def outcome_of_def same)
  have "recoveries_of (cl_account_id c) (cl_id c) db = []"
    using ok fresh by (auto simp: claims_ok_def references_ok_def recoveries_of_def filter_empty_conv)
  moreover have "outcome_of db c = []"
  proof -
    have "\<forall>r \<in> set (terminal_log db). \<exists>i \<in> cl_id ` set (cd_claims db). ae_entity_id r = Some i"
      using ok by (simp add: claims_ok_def references_ok_def)
    then have "ae_entity_id r \<noteq> Some (cl_id c)" if "r \<in> set (terminal_log db)" for r
      using fresh that by (metis option.inject)
    then show ?thesis by (simp add: outcome_of_def filter_empty_conv)
  qed
  moreover have "\<not> is_claim_terminal_status ''open''" by (simp add: terminal_status_cases)
  ultimately have "claim_ok db c" using c by (simp add: claim_ok_def total_recovered_def)
  then show ?thesis using ok fresh unfolding claims_ok_def references_ok_def old same by (auto simp: image_iff)
qed

lemma store_numeric_of_text: "store_numeric (numeric_text n) = Some m \<Longrightarrow> m = n"
  by (simp add: store_numeric_def sdec_round_4 Let_def split: if_splits)

context decimal_laws
begin

lemma validate_claimable_Inr:
  assumes "validate_claimable_dispute D row = Inr (i, a, cur)"
  shows "\<exists>n. i = di_id row \<and> di_status row = ''accepted'' \<and> di_amount_claimed row = Some n \<and> a = numeric_text n \<and> 0 < n \<and>
     di_currency row = Some cur"
proof -
  obtain n c where n: "di_status row = ''accepted''" "di_amount_claimed row = Some n" "di_currency row = Some c" "i = di_id row"
      "validate_recovery_amount_and_currency D (numeric_text n) (Some c) None dispute_errors = Inr (a, cur)"
    using assms by (auto simp: validate_claimable_dispute_def result_simps split: option.splits)
  obtain d where d: "read_decimal ClaimDecimalError D (numeric_text n) = Inr d" "holds d n"
    using read_numeric [where e = ClaimDecimalError] by blast
  have "dec_le D d (dec_zero D) \<longleftrightarrow> n \<le> 0" using holds_compare(1) [OF d(2) holds_zero] .
  then show ?thesis using n d(1) by (auto simp: validate_recovery_amount_and_currency_def result_simps)
qed

text \<open>A successful call without a concurrent insert: the claim was there, or it is opened.\<close>

lemma create_claim_Inr:
  assumes "create_claim_from_dispute D rt Z new_id now [] i db = Inr (db', r)"
  shows "db' = db \<or>
     (\<exists>n cur. 0 < n \<and> n < 10 ^ 18 \<and> detect_duplicate_claimed_finding (cc_client_id i) (cc_dispute_id i) db = Inr () \<and>
        (\<forall>c \<in> set (cd_claims db). \<not> claim_of_dispute (cc_client_id i) (cc_dispute_id i) c) \<and>
        (\<exists>rows. db' = db\<lparr>cd_claims := cd_claims db @ [opened_claim new_id now (cc_client_id i) (cc_dispute_id i) n cur], cd_audit := rows\<rparr>) \<and>
        terminal_log db' = terminal_log db)"
proof (cases "select_existing_claim (cc_client_id i) (cc_dispute_id i) db")
  case (Some e)
  then show ?thesis using assms by (auto simp: create_claim_from_dispute_def result_simps split: option.splits)
next
  case None
  then have none: "\<forall>c \<in> set (cd_claims db). \<not> claim_of_dispute (cc_client_id i) (cc_dispute_id i) c"
    by (simp add: select_existing_claim_def find_None_all)
  obtain row did a cur n where row: "find (\<lambda>d. di_account_id d = cc_client_id i \<and> di_id d = cc_dispute_id i) (cd_disputes db) = Some row"
    and v: "validate_claimable_dispute D row = Inr (did, a, cur)"
    and dup: "detect_duplicate_claimed_finding (cc_client_id i) (cc_dispute_id i) db = Inr ()"
    and n: "store_numeric a = Some n"
    using assms None
    by (auto simp: create_claim_from_dispute_def result_simps Let_def split: option.splits)
  obtain m where m: "did = di_id row" "a = numeric_text m" "0 < m" using validate_claimable_Inr [OF v] by blast
  have did: "did = cc_dispute_id i" using find_Some_in [OF row] m(1) by simp
  have nm: "n = m" using n m(2) store_numeric_of_text by simp
  have "n < 10 ^ 18" using store_numeric_bound [OF n] by simp
  let ?c = "opened_claim new_id now (cc_client_id i) (cc_dispute_id i) n cur"
  have ins: "insert_row (\<lambda>a b. cl_account_id b = cl_account_id a \<and> sql_eq (cl_dispute_id b) (cl_dispute_id a)) ?c (cd_claims db) =
      (cd_claims db @ [?c], True)"
    using none by (auto simp: insert_row_def list_ex_iff opened_claim_def claim_of_dispute_def sql_eq_def)
  obtain b where w: "write_claims_event now (claim_created_event rt (cc_client_id i) (cc_actor_user_id i) new_id did a cur)
      (db\<lparr>cd_claims := cd_claims db @ [?c]\<rparr>) = Inr (db', b)"
    using assms None row v dup n
    by (auto simp: create_claim_from_dispute_def result_simps Let_def ins did)
  have "terminal_log (db\<lparr>cd_claims := cs\<rparr>) = terminal_log db" for cs by (simp add: terminal_log_def)
  then show ?thesis
    using write_other_event [OF w] m(3) nm dup none \<open>n < 10 ^ 18\<close> by (intro disjI2 exI [of _ n] exI [of _ cur]) auto
qed

lemma create_claim_ok:
  assumes ok: "claims_ok db" and fresh: "new_id \<notin> cl_id ` set (cd_claims db)"
    and r: "create_claim_from_dispute D rt Z new_id now [] i db = Inr (db', r)"
  shows "claims_ok db'"
  using create_claim_Inr [OF r]
proof (elim disjE exE conjE)
  fix n cur rows
  let ?c = "opened_claim new_id now (cc_client_id i) (cc_dispute_id i) n cur"
  assume n: "0 < n" "n < 10 ^ 18" and db': "db' = db\<lparr>cd_claims := cd_claims db @ [?c], cd_audit := rows\<rparr>"
    and log: "terminal_log db' = terminal_log db"
  have "claims_ok (db\<lparr>cd_claims := cd_claims db @ [?c]\<rparr>)"
    using n fresh by (intro add_claim_ok [OF ok]) (simp_all add: opened_claim_def)
  moreover have "terminal_log (db\<lparr>cd_claims := cs\<rparr>) = terminal_log db" for cs by (simp add: terminal_log_def)
  ultimately show ?thesis
    using log claims_ok_cong [of db' "db\<lparr>cd_claims := cd_claims db @ [?c]\<rparr>"] by (simp add: db')
qed (use ok in simp)

end

section \<open>Deadlines, follow-ups and scans\<close>

lemma set_deadline_ok:
  assumes "claims_ok db" and "set_claim_aging_deadline Z isof client i days db = Inr (db', t)"
  shows "claims_ok db'"
proof -
  obtain d where db': "db' = db\<lparr>cd_claims := map (\<lambda>x. if cl_account_id x = client \<and> cl_id x = i
      then x\<lparr>cl_aging_deadline_at := Some d\<rparr> else x) (cd_claims db)\<rparr>"
    using assms(2) by (auto simp: set_claim_aging_deadline_def result_simps split: option.splits)
  let ?f = "\<lambda>x. if cl_account_id x = client \<and> cl_id x = i then x\<lparr>cl_aging_deadline_at := Some d\<rparr> else x"
  have ids: "map cl_id (cd_claims db') = map cl_id (cd_claims db)" unfolding db' by (simp add: comp_def)
  then have img: "cl_id ` set (cd_claims db') = cl_id ` set (cd_claims db)" by (metis set_map)
  have rest: "recoveries_of a j db' = recoveries_of a j db" "terminal_log db' = terminal_log db" "cd_recoveries db' = cd_recoveries db" for a j
    by (simp_all add: db' recoveries_of_def terminal_log_def)
  have f: "claim_ok db' (?f x) \<longleftrightarrow> claim_ok db x" for x
    by (simp add: claim_ok_def total_recovered_def outcome_of_def rest)
  have "\<forall>x \<in> ?f ` set (cd_claims db). claim_ok db' x" using assms(1) f by (auto simp only: claims_ok_def ball_simps)
  moreover have "set (cd_claims db') = ?f ` set (cd_claims db)" by (simp add: db')
  ultimately have "\<forall>x \<in> set (cd_claims db'). claim_ok db' x" by metis
  then show ?thesis using assms(1) unfolding claims_ok_def references_ok_def ids img rest by blast
qed

lemma write_other_event_ok:
  "write_claims_event now e db = Inr (db', b) \<Longrightarrow> \<not> terminal_marker e \<Longrightarrow> claims_ok db' \<longleftrightarrow> claims_ok db"
  using write_other_event [of now e db db' b] claims_ok_cong [of db' db] by auto

lemma follow_up_ok: "generate_claim_follow_up rt isof clock now client i db = Inr (db', r) \<Longrightarrow> claims_ok db' \<longleftrightarrow> claims_ok db"
  by (auto simp: generate_claim_follow_up_def result_simps Let_def dest: write_other_event_ok split: option.splits)

lemma escalation_ok:
  "generate_claim_escalation rt isof clock now days client i db = Inr (db', r) \<Longrightarrow> claims_ok db' \<longleftrightarrow> claims_ok db"
  by (auto simp: generate_claim_escalation_def result_simps Let_def dest: write_other_event_ok split: option.splits)

text \<open>A scan only touches the job table.\<close>

definition same_but_jobs :: "claims_db \<Rightarrow> claims_db \<Rightarrow> bool" where
  "same_but_jobs db db' \<longleftrightarrow> db'\<lparr>cd_jobs := []\<rparr> = db\<lparr>cd_jobs := []\<rparr>"

lemma enqueue_claims_frame:
  "enqueue_claims rt Z B name client pre at_text entries db = Inr db' \<Longrightarrow> same_but_jobs db db'"
proof -
  assume e: "enqueue_claims rt Z B name client pre at_text entries db = Inr db'"
  show ?thesis
    by (rule rfold_invariant [where P = "same_but_jobs db", OF e [unfolded enqueue_claims_def]])
      (auto simp: same_but_jobs_def split: sum.splits)
qed

lemma same_but_jobs_fields:
  "same_but_jobs db db' \<Longrightarrow> cd_claims db' = cd_claims db \<and> cd_recoveries db' = cd_recoveries db \<and> cd_audit db' = cd_audit db \<and>
     cd_dispute_lines db' = cd_dispute_lines db"
  unfolding same_but_jobs_def by (drule arg_cong [where f = "\<lambda>x. (cd_claims x, cd_recoveries x, cd_audit x, cd_dispute_lines x)"]) simp

lemma schedule_frame: "schedule_claim_aging_jobs rt Z B isof now db = Inr (db', r) \<Longrightarrow> same_but_jobs db db'"
proof -
  assume s: "schedule_claim_aging_jobs rt Z B isof now db = Inr (db', r)"
  have "same_but_jobs db (fst (db', r))"
  proof (rule rfold_invariant [where P = "\<lambda>t. same_but_jobs db (fst t)", OF s [unfolded schedule_claim_aging_jobs_def]])
    show "same_but_jobs db (fst (db, 0, 0))" by (simp add: same_but_jobs_def)
  qed (auto simp: result_simps same_but_jobs_def dest!: enqueue_claims_frame)
  then show ?thesis by simp
qed

lemma scan_ok: "schedule_claim_aging_jobs rt Z B isof now db = Inr (db', r) \<Longrightarrow> claims_ok db' \<longleftrightarrow> claims_ok db"
  by (drule schedule_frame, drule same_but_jobs_fields, rule claims_ok_cong) (simp_all add: terminal_log_def)

section \<open>Runs\<close>

text \<open>
  One transaction after another. Ids the database generates are fresh; outside this module, disputes
  change freely and lines are added to disputes that have no claim yet.
\<close>

inductive claims_step ::
  "'d decimal_lib \<Rightarrow> runtime \<Rightarrow> zod_lib \<Rightarrow> boss_lib \<Rightarrow> (instant \<Rightarrow> string) \<Rightarrow> claims_db \<Rightarrow> claims_db \<Rightarrow> bool"
  for D :: "'d decimal_lib" and rt Z B isof where
  opened: "new_id \<notin> cl_id ` set (cd_claims db) \<Longrightarrow> create_claim_from_dispute D rt Z new_id now [] ci db = Inr (db', r1)
     \<Longrightarrow> claims_step D rt Z B isof db db'"
| recovered: "record_partial_recovery D rt Z B new_id now at_text [] ri db = Inr (db', r2) \<Longrightarrow> claims_step D rt Z B isof db db'"
| resolved: "resolve_claim D rt Z new_id ev now si db = Inr (db', r3) \<Longrightarrow> claims_step D rt Z B isof db db'"
| deadline: "set_claim_aging_deadline Z isof client i days db = Inr (db', t) \<Longrightarrow> claims_step D rt Z B isof db db'"
| followed_up: "generate_claim_follow_up rt isof clock now client i db = Inr (db', r4) \<Longrightarrow> claims_step D rt Z B isof db db'"
| escalated: "generate_claim_escalation rt isof clock now days client i db = Inr (db', r5) \<Longrightarrow> claims_step D rt Z B isof db db'"
| scanned: "schedule_claim_aging_jobs rt Z B isof now db = Inr (db', r6) \<Longrightarrow> claims_step D rt Z B isof db db'"
| disputed: "\<forall>l \<in> set ls. \<forall>c \<in> set (cd_claims db). cl_dispute_id c \<noteq> Some (dl_dispute_id l) \<Longrightarrow>
     claims_step D rt Z B isof db (db\<lparr>cd_disputes := ds, cd_dispute_lines := cd_dispute_lines db @ ls\<rparr>)"

context decimal_laws
begin

lemma claims_step_ok: "claims_step D rt Z B isof db db' \<Longrightarrow> claims_ok db \<Longrightarrow> claims_ok db'"
proof (induction rule: claims_step.induct)
  case (disputed ls db ds)
  then show ?case using claims_ok_cong [of "db\<lparr>cd_disputes := ds, cd_dispute_lines := cd_dispute_lines db @ ls\<rparr>" db]
    by (simp add: terminal_log_def)
qed (auto intro: create_claim_ok record_partial_ok resolve_claim_ok set_deadline_ok simp: follow_up_ok escalation_ok scan_ok)

lemma claims_run_ok: "(claims_step D rt Z B isof)\<^sup>*\<^sup>* db db' \<Longrightarrow> claims_ok db \<Longrightarrow> claims_ok db'"
  by (induction rule: rtranclp_induct) (auto intro: claims_step_ok)

end

section \<open>No finding is claimed twice\<close>

definition claim_keys :: "claims_db \<Rightarrow> (uuid \<times> uuid \<times> uuid option) set" where
  "claim_keys db = (\<lambda>c. (cl_id c, cl_account_id c, cl_dispute_id c)) ` set (cd_claims db)"

text \<open>The finding \<open>f\<close> is on a line of the dispute \<open>d\<close> of the account.\<close>

definition on_dispute :: "dispute_line list \<Rightarrow> uuid \<Rightarrow> uuid option \<Rightarrow> uuid \<Rightarrow> bool" where
  "on_dispute lines account d f \<longleftrightarrow>
     (\<exists>l \<in> set lines. dl_account_id l = account \<and> d = Some (dl_dispute_id l) \<and> dl_variance_finding_id l = Some f)"

definition claimed_once :: "claims_db \<Rightarrow> bool" where
  "claimed_once db \<longleftrightarrow>
     (\<forall>i a d i' d' f. (i, a, d) \<in> claim_keys db \<longrightarrow> (i', a, d') \<in> claim_keys db \<longrightarrow>
        on_dispute (cd_dispute_lines db) a d f \<longrightarrow> on_dispute (cd_dispute_lines db) a d' f \<longrightarrow> i' = i) \<and>
     (\<forall>i a d i'. (i, a, Some d) \<in> claim_keys db \<longrightarrow> (i', a, Some d) \<in> claim_keys db \<longrightarrow> i' = i)"

lemma claimed_onceI:
  assumes "\<And>i a d i' d' f. (i, a, d) \<in> claim_keys db \<Longrightarrow> (i', a, d') \<in> claim_keys db \<Longrightarrow>
      on_dispute (cd_dispute_lines db) a d f \<Longrightarrow> on_dispute (cd_dispute_lines db) a d' f \<Longrightarrow> i' = i"
    and "\<And>i a d i'. (i, a, Some d) \<in> claim_keys db \<Longrightarrow> (i', a, Some d) \<in> claim_keys db \<Longrightarrow> i' = i"
  shows "claimed_once db"
  unfolding claimed_once_def
  by (intro conjI allI impI) (erule assms(1), assumption+, erule assms(2), assumption)

lemma claimed_onceD:
  assumes "claimed_once db"
  shows "(i, a, d) \<in> claim_keys db \<Longrightarrow> (i', a, d') \<in> claim_keys db \<Longrightarrow>
      on_dispute (cd_dispute_lines db) a d f \<Longrightarrow> on_dispute (cd_dispute_lines db) a d' f \<Longrightarrow> i' = i"
    and "(i, a, Some e) \<in> claim_keys db \<Longrightarrow> (i', a, Some e) \<in> claim_keys db \<Longrightarrow> i' = i"
  using assms unfolding claimed_once_def by blast+

lemma claimed_once_cong:
  "claim_keys db' = claim_keys db \<Longrightarrow> cd_dispute_lines db' = cd_dispute_lines db \<Longrightarrow> claimed_once db' \<longleftrightarrow> claimed_once db"
  by (simp add: claimed_once_def)

lemma no_duplicate_finding:
  assumes "detect_duplicate_claimed_finding a d db = Inr ()" and "on_dispute (cd_dispute_lines db) a (Some d) f"
    and "(i, a, Some d') \<in> claim_keys db" and "on_dispute (cd_dispute_lines db) a (Some d') f"
  shows "d' = d"
proof (rule ccontr)
  assume ne: "d' \<noteq> d"
  obtain l m c where l: "l \<in> set (cd_dispute_lines db)" "dl_account_id l = a" "dl_dispute_id l = d" "dl_variance_finding_id l = Some f"
    and m: "m \<in> set (cd_dispute_lines db)" "dl_account_id m = a" "dl_dispute_id m = d'" "dl_variance_finding_id m = Some f"
    and c: "c \<in> set (cd_claims db)" "cl_account_id c = a" "cl_dispute_id c = Some d'"
    using assms(2-4) by (auto simp: on_dispute_def claim_keys_def)
  have "claimed_elsewhere db l"
    using l m c ne unfolding claimed_elsewhere_def list_ex_iff sql_eq_def by (intro bexI [of _ m]) auto
  then have "f \<in> set (List.map_filter dl_variance_finding_id
      (filter (\<lambda>dl. dl_account_id dl = a \<and> dl_dispute_id dl = d \<and> claimed_elsewhere db dl) (cd_dispute_lines db)))"
    using l by (force simp: List.map_filter_def)
  then show False using assms(1) by (auto simp: detect_duplicate_claimed_finding_def result_simps Let_def)
qed

lemma claim_keys_map:
  "(\<And>c. cl_id (f c) = cl_id c \<and> cl_account_id (f c) = cl_account_id c \<and> cl_dispute_id (f c) = cl_dispute_id c) \<Longrightarrow>
   cd_claims db' = map f (cd_claims db) \<Longrightarrow> claim_keys db' = claim_keys db"
  by (simp add: claim_keys_def image_image)

lemma write_event_frame:
  "write_claims_event now e db = Inr (db', b) \<Longrightarrow> cd_claims db' = cd_claims db \<and> cd_dispute_lines db' = cd_dispute_lines db"
  using write_claims_event_Inr [of now e db db' b] by auto

lemma mirror_finding_lines: "mirror_finding rt ev now i v db = Inr db' \<Longrightarrow> cd_dispute_lines db' = cd_dispute_lines db"
  by (auto simp: mirror_finding_def update_finding_status_def result_simps split: option.splits if_splits dest!: write_event_frame)

lemma insert_recovery_frame:
  "insert_recovery n a i f amt cur db = Inr db' \<Longrightarrow> cd_claims db' = cd_claims db \<and> cd_dispute_lines db' = cd_dispute_lines db"
  by (drule insert_recovery_Inr) auto

lemma record_partial_frame:
  assumes "record_partial_recovery D rt Z B new_id now at_text others i db = Inr (db', r)"
  shows "cd_claims db' = cd_claims db \<and> cd_dispute_lines db' = cd_dispute_lines db"
proof -
  obtain v db1 db2 b where ins: "insert_recovery new_id (ri_client_id i) (ri_claim_id i) (ri_variance_finding_id i) (vp_amount_recovered v)
      (Some (vp_currency v)) (db\<lparr>cd_recoveries := cd_recoveries db @ others\<rparr>) = Inr db1"
    and w: "write_claims_event now (recovery_recorded_event rt (ri_client_id i) new_id (ri_claim_id i) v) db1 = Inr (db2, b)"
    and x: "db' = export_or_rollback rt Z B new_id at_text i v db2"
    using assms by (auto simp: record_partial_recovery_def result_simps split: option.splits)
  show ?thesis
    using insert_recovery_frame [OF ins] write_event_frame [OF w] export_frame [of rt Z B new_id at_text i v db2] x by auto
qed

lemma resolve_claim_frame:
  assumes "resolve_claim D rt Z new_id ev now i db = Inr (db', r)"
  shows "claim_keys db' = claim_keys db \<and> cd_dispute_lines db' = cd_dispute_lines db"
proof -
  obtain v db1 rid db2 b where ins: "(case vr_amount_recovered v of None \<Rightarrow> Inr (db, None)
        | Some a \<Rightarrow> rbind (insert_recovery new_id (rs_client_id i) (rs_claim_id i) (rs_variance_finding_id i) a (vr_currency v) db)
            (\<lambda>db'. Inr (db', Some new_id))) = Inr (db1, rid)"
    and mir: "mirror_finding rt ev now i v (set_claim_status (rs_client_id i) (rs_claim_id i) (vr_new_status v) db1) = Inr db2"
    and w: "write_claims_event now (claim_resolved_event rt (rs_client_id i) (rs_claim_id i) v rid) db2 = Inr (db', b)"
    by (rule resolve_claim_stages [OF assms])
  have 1: "cd_claims db1 = cd_claims db" "cd_dispute_lines db1 = cd_dispute_lines db"
    using ins by (auto simp: result_simps split: option.splits dest!: insert_recovery_frame)
  let ?f = "\<lambda>c. if cl_account_id c = rs_client_id i \<and> cl_id c = rs_claim_id i then c\<lparr>cl_status := vr_new_status v\<rparr> else c"
  have "cd_claims db' = map ?f (cd_claims db)"
    using write_event_frame [OF w] mirror_finding_frame [OF mir] 1 by (simp add: set_claim_status_def)
  then have "claim_keys db' = claim_keys db" by (rule claim_keys_map [rotated]) simp
  then show ?thesis
    using write_event_frame [OF w] mirror_finding_lines [OF mir] 1 by (simp add: set_claim_status_def)
qed

lemma set_deadline_frame:
  assumes "set_claim_aging_deadline Z isof client i days db = Inr (db', t)"
  shows "claim_keys db' = claim_keys db \<and> cd_dispute_lines db' = cd_dispute_lines db"
proof -
  obtain d where db': "db' = db\<lparr>cd_claims := map (\<lambda>x. if cl_account_id x = client \<and> cl_id x = i
      then x\<lparr>cl_aging_deadline_at := Some d\<rparr> else x) (cd_claims db)\<rparr>"
    using assms by (auto simp: set_claim_aging_deadline_def result_simps split: option.splits)
  have "claim_keys db' = claim_keys db"
    by (rule claim_keys_map [of "\<lambda>x. if cl_account_id x = client \<and> cl_id x = i then x\<lparr>cl_aging_deadline_at := Some d\<rparr> else x"])
      (simp_all add: db')
  then show ?thesis by (simp add: db')
qed

lemma add_lines_claimed_once:
  assumes "claimed_once db" and "\<forall>l \<in> set ls. \<forall>c \<in> set (cd_claims db). cl_dispute_id c \<noteq> Some (dl_dispute_id l)"
  shows "claimed_once (db\<lparr>cd_disputes := ds, cd_dispute_lines := cd_dispute_lines db @ ls\<rparr>)"
proof -
  let ?db = "db\<lparr>cd_disputes := ds, cd_dispute_lines := cd_dispute_lines db @ ls\<rparr>"
  have keys: "claim_keys ?db = claim_keys db" by (simp add: claim_keys_def)
  have old: "on_dispute (cd_dispute_lines db) a d f"
    if k: "(i, a', d) \<in> claim_keys db" and o: "on_dispute (cd_dispute_lines ?db) a d f" for i a a' d f
    using k o assms(2) by (auto simp: on_dispute_def claim_keys_def)
  show ?thesis
  proof (rule claimed_onceI, unfold keys)
    fix i a d i' d' f
    assume k: "(i, a, d) \<in> claim_keys db" "(i', a, d') \<in> claim_keys db"
      and o: "on_dispute (cd_dispute_lines ?db) a d f" "on_dispute (cd_dispute_lines ?db) a d' f"
    show "i' = i" using claimed_onceD(1) [OF assms(1) k old [OF k(1) o(1)] old [OF k(2) o(2)]] .
  next
    fix i a d i'
    assume "(i, a, Some d) \<in> claim_keys db" "(i', a, Some d) \<in> claim_keys db"
    then show "i' = i" by (rule claimed_onceD(2) [OF assms(1)])
  qed
qed

lemma add_claim_claimed_once:
  assumes ok: "claimed_once db" and dup: "detect_duplicate_claimed_finding a d db = Inr ()"
    and new: "\<forall>c \<in> set (cd_claims db). \<not> claim_of_dispute a d c"
    and db': "claim_keys db' = insert (i, a, Some d) (claim_keys db)" "cd_dispute_lines db' = cd_dispute_lines db"
  shows "claimed_once db'"
proof -
  have fresh: "d' \<noteq> Some d" if "(i', a, d') \<in> claim_keys db" for i' d'
    using that new by (auto simp: claim_keys_def claim_of_dispute_def)
  have clash: False
    if k: "(i', a, d') \<in> claim_keys db" and o: "on_dispute (cd_dispute_lines db) a (Some d) f" "on_dispute (cd_dispute_lines db) a d' f" for i' d' f
  proof -
    obtain e where e: "d' = Some e" using o(2) by (auto simp: on_dispute_def)
    show False using no_duplicate_finding [OF dup o(1), of i' e] k o(2) e fresh [OF k] by auto
  qed
  show ?thesis
  proof (rule claimed_onceI, unfold db')
    fix j b e j' e' f
    assume "(j, b, e) \<in> insert (i, a, Some d) (claim_keys db)" "(j', b, e') \<in> insert (i, a, Some d) (claim_keys db)"
      "on_dispute (cd_dispute_lines db) b e f" "on_dispute (cd_dispute_lines db) b e' f"
    then show "j' = j" using clash claimed_onceD(1) [OF ok] by blast
  next
    fix j b e j'
    assume "(j, b, Some e) \<in> insert (i, a, Some d) (claim_keys db)" "(j', b, Some e) \<in> insert (i, a, Some d) (claim_keys db)"
    then show "j' = j" using fresh claimed_onceD(2) [OF ok] by blast
  qed
qed

context decimal_laws
begin

lemma claims_step_claimed_once: "claims_step D rt Z B isof db db' \<Longrightarrow> claimed_once db \<Longrightarrow> claimed_once db'"
proof (induction rule: claims_step.induct)
  case (opened new_id db now ci db' r1)
  from create_claim_Inr [OF opened(2)] show ?case
  proof (elim disjE exE conjE)
    fix n cur rows
    assume "detect_duplicate_claimed_finding (cc_client_id ci) (cc_dispute_id ci) db = Inr ()"
      "\<forall>c \<in> set (cd_claims db). \<not> claim_of_dispute (cc_client_id ci) (cc_dispute_id ci) c"
      "db' = db\<lparr>cd_claims := cd_claims db @ [opened_claim new_id now (cc_client_id ci) (cc_dispute_id ci) n cur], cd_audit := rows\<rparr>"
    then show ?thesis
      by (intro add_claim_claimed_once [OF opened.prems, where i = new_id]) (simp_all add: claim_keys_def opened_claim_def)
  qed (use opened.prems in simp)
next
  case (recovered new_id now at_text ri db db' r2)
  then show ?case using record_partial_frame [OF recovered(1)] claimed_once_cong [of db' db] by (simp add: claim_keys_def)
next
  case (resolved new_id ev now si db db' r3)
  then show ?case using resolve_claim_frame [OF resolved(1)] claimed_once_cong [of db' db] by simp
next
  case (deadline client i days db db' t)
  then show ?case using set_deadline_frame [OF deadline(1)] claimed_once_cong [of db' db] by simp
next
  case (followed_up clock now client i db db' r4)
  have "cd_claims db' = cd_claims db \<and> cd_dispute_lines db' = cd_dispute_lines db"
    using followed_up(1) by (auto simp: generate_claim_follow_up_def result_simps Let_def split: option.splits dest!: write_event_frame)
  then show ?case using followed_up(2) claimed_once_cong [of db' db] by (simp add: claim_keys_def)
next
  case (escalated clock now days client i db db' r5)
  have "cd_claims db' = cd_claims db \<and> cd_dispute_lines db' = cd_dispute_lines db"
    using escalated(1) by (auto simp: generate_claim_escalation_def result_simps Let_def split: option.splits dest!: write_event_frame)
  then show ?case using escalated(2) claimed_once_cong [of db' db] by (simp add: claim_keys_def)
next
  case (scanned now db db' r6)
  then show ?case
    using same_but_jobs_fields [OF schedule_frame] claimed_once_cong [of db' db] by (simp add: claim_keys_def)
next
  case (disputed ls db ds)
  then show ?case using add_lines_claimed_once by blast
qed

lemma claims_run_claimed_once: "(claims_step D rt Z B isof)\<^sup>*\<^sup>* db db' \<Longrightarrow> claimed_once db \<Longrightarrow> claimed_once db'"
  by (induction rule: rtranclp_induct) (auto intro: claims_step_claimed_once)

end

end
