(* ===== verification/Dispute_Properties.thy ===== *)
theory Dispute_Properties
  imports Disputes Claim_Runs
begin

text \<open>
  What disputes guarantee: the life cycle recorded in the ledger, the money of a dispute as the sum
  of its findings' variances, and the frames of the operations that other modules run on the shared
  tables.
\<close>

section \<open>The life cycle\<close>

text \<open>The events of a dispute in the order of the ledger, and the status they lead to.\<close>

inductive lifecycle :: "string list \<Rightarrow> string \<Rightarrow> bool" where
  drafted: "lifecycle [''dispute.created''] ''draft''"
| sent: "lifecycle l ''draft'' \<Longrightarrow> lifecycle (l @ [''dispute.approved'']) ''sent''"
| accepted: "lifecycle l ''sent'' \<Longrightarrow> lifecycle (l @ [''dispute.accepted'']) ''accepted''"
| rejected: "lifecycle l ''sent'' \<Longrightarrow> lifecycle (l @ [''dispute.rejected'']) ''rejected''"
| partly: "lifecycle l ''sent'' \<Longrightarrow> lifecycle (l @ [''dispute.partially_accepted'']) ''partial''"
| closed: "lifecycle l s \<Longrightarrow> s \<in> set RESOLVED_STATUSES \<Longrightarrow> lifecycle (l @ [''dispute.closed'']) ''closed''"

inductive_simps lifecycle_draft: "lifecycle l ''draft''"
inductive_simps lifecycle_sent: "lifecycle l ''sent''"
inductive_simps lifecycle_accepted: "lifecycle l ''accepted''"
inductive_simps lifecycle_rejected: "lifecycle l ''rejected''"
inductive_simps lifecycle_partial: "lifecycle l ''partial''"

lemmas lifecycle_simps = lifecycle_draft lifecycle_sent lifecycle_accepted lifecycle_rejected lifecycle_partial

lemma lifecycle_status: "lifecycle l s \<Longrightarrow> s \<in> {''draft'', ''sent'', ''accepted'', ''rejected'', ''partial'', ''closed''}"
  by (induction rule: lifecycle.induct) auto

text \<open>A carrier answers once.\<close>

lemma lifecycle_respondable: "lifecycle l s \<Longrightarrow> s \<in> set RESPONDABLE_STATUSES \<Longrightarrow> s = ''sent''"
  by (auto simp: RESPONDABLE_STATUSES_def dest: lifecycle_status)

lemma lifecycle_resolved_fresh: "lifecycle l s \<Longrightarrow> s \<in> set RESOLVED_STATUSES \<Longrightarrow> ''dispute.closed'' \<notin> set l"
  by (auto simp: RESOLVED_STATUSES_def lifecycle_simps)

section \<open>The ledger of disputes\<close>

definition dispute_rows :: "audit_event_row list \<Rightarrow> audit_event_row list" where
  "dispute_rows rows = filter (\<lambda>r. ae_entity r = ''dispute'') rows"

definition dispute_log :: "audit_event_row list \<Rightarrow> uuid \<Rightarrow> uuid \<Rightarrow> string list" where
  "dispute_log rows a i = map ae_event (filter (\<lambda>r. ae_account_id r = Some a \<and> ae_entity_id r = Some i) (dispute_rows rows))"

lemma dispute_log_cong: "dispute_rows rows' = dispute_rows rows \<Longrightarrow> dispute_log rows' a i = dispute_log rows a i"
  by (simp add: dispute_log_def)

lemma write_other_rows:
  assumes "write_claims_event now e c = Inr (c', b)" and "js_trim (ae_entity e) \<noteq> ''dispute''"
  shows "dispute_rows (cd_audit c') = dispute_rows (cd_audit c)"
proof -
  obtain v rows where v: "parse_audit_event e = Some v" and c': "c' = c\<lparr>cd_audit := rows\<rparr>"
    and rows: "rows = cd_audit c @ [ledger_row now v] \<or> rows = cd_audit c"
    using write_claims_event_Inr [OF assms(1)] by blast
  then show ?thesis using assms(2) parse_audit_event_fields [OF v] by (auto simp: dispute_rows_def)
qed

lemma write_dispute_row:
  assumes "write_claims_event now e c = Inr (c', b)" and "js_trim (ae_entity e) = ''dispute''"
    and "ae_account_id e = Some a" and "ae_entity_id e = Some i" and "js_trim (ae_event e) = ev"
    and "ev \<notin> set (dispute_log (cd_audit c) a i)"
  shows "\<exists>rows. c' = c\<lparr>cd_audit := rows\<rparr> \<and> dispute_log rows a i = dispute_log (cd_audit c) a i @ [ev] \<and>
     (\<forall>a' i'. (a', i') \<noteq> (a, i) \<longrightarrow> dispute_log rows a' i' = dispute_log (cd_audit c) a' i') \<and>
     (\<forall>r \<in> set (dispute_rows rows). r \<in> set (dispute_rows (cd_audit c)) \<or> ae_entity_id r = Some i)"
proof -
  obtain v rows where v: "parse_audit_event e = Some v" and c': "c' = c\<lparr>cd_audit := rows\<rparr>"
    and rows: "rows = cd_audit c @ [ledger_row now v] \<or> rows = cd_audit c \<and> list_ex (same_evidence v) (cd_audit c)"
    using write_claims_event_Inr [OF assms(1)] by blast
  note f = parse_audit_event_fields [OF v]
  have "\<not> list_ex (same_evidence v) (cd_audit c)"
    using assms(2-6) f by (force simp: list_ex_iff same_evidence_def dispute_log_def dispute_rows_def)
  then have "rows = cd_audit c @ [ledger_row now v]" using rows by simp
  then show ?thesis using c' f assms(2-5) by (intro exI [of _ rows]) (auto simp: dispute_log_def dispute_rows_def)
qed

section \<open>What the other operations keep\<close>

definition finding_core :: "variance_finding \<Rightarrow> uuid \<times> uuid \<times> int option \<times> string option" where
  "finding_core f = (vf_id f, vf_account_id f, vf_variance_amount f, vf_currency f)"

text \<open>The rows that the status of a finding has no influence on.\<close>

definition claims_frame :: "claims_db \<Rightarrow> claim list \<times> recovery_event list \<times> audit_event_row list" where
  "claims_frame c = (cd_claims c, cd_recoveries c, terminal_log c)"

definition dispute_frame :: "claims_db \<Rightarrow> dispute list \<times> dispute_line list \<times> audit_event_row list \<times> (uuid \<times> uuid \<times> int option \<times> string option) list" where
  "dispute_frame c = (cd_disputes c, cd_dispute_lines c, dispute_rows (cd_audit c), map finding_core (cd_findings c))"

lemmas frame_defs = claims_frame_def dispute_frame_def

lemma write_claims_event_frames:
  assumes "write_claims_event now e c = Inr (c', b)"
  shows "js_trim (ae_entity e) \<noteq> ''dispute'' \<Longrightarrow> dispute_frame c' = dispute_frame c"
    and "\<not> terminal_marker e \<Longrightarrow> claims_frame c' = claims_frame c"
  using write_other_rows [OF assms] write_other_event [OF assms] write_claims_event_Inr [OF assms]
  by (auto simp: frame_defs terminal_log_def)

lemma finding_events_trimmed [simp]:
  "js_trim ''dispute'' = ''dispute''" "js_trim ''finding.assigned'' = ''finding.assigned''"
  "js_trim ''finding.unassigned'' = ''finding.unassigned''" "js_trim ''dispute.created'' = ''dispute.created''"
  "js_trim ''dispute.approved'' = ''dispute.approved''" "js_trim ''dispute.accepted'' = ''dispute.accepted''"
  "js_trim ''dispute.rejected'' = ''dispute.rejected''" "js_trim ''dispute.partially_accepted'' = ''dispute.partially_accepted''"
  "js_trim ''dispute.closed'' = ''dispute.closed''"
  by code_simp+

lemma update_finding_frames:
  assumes "update_finding_status rt visible new_id now i st remark actor c = Inr (c', b)"
  shows "dispute_frame c' = dispute_frame c \<and> claims_frame c' = claims_frame c"
proof (cases "find (\<lambda>f. vf_id f = i \<and> vf_account_id f \<in> set visible) (cd_findings c)")
  case None
  then show ?thesis using assms by (auto simp: update_finding_status_def result_simps)
next
  case (Some f)
  let ?c = "c\<lparr>cd_findings := map (\<lambda>g. if vf_id g = i \<and> vf_account_id g \<in> set visible then g\<lparr>vf_status := st\<rparr> else g) (cd_findings c),
     cd_finding_events := cd_finding_events c @ [\<lparr>fs_id = new_id, fs_account_id = vf_account_id f, fs_variance_finding_id = i,
       fs_from_status = vf_status f, fs_to_status = st, fs_actor_kind = ''analyst'', fs_note = remark\<rparr>]\<rparr>"
  obtain b' where w: "write_claims_event now (finding_changed_event rt (vf_account_id f) i new_id (vf_status f) st remark actor) ?c = Inr (c', b')"
    using assms Some by (auto simp: update_finding_status_def result_simps)
  have "dispute_frame ?c = dispute_frame c" "claims_frame ?c = claims_frame c"
    by (simp_all add: frame_defs finding_core_def terminal_log_def)
  then show ?thesis
    using write_claims_event_frames [OF w] by (simp add: finding_changed_event_def analyst_event_def terminal_marker_def)
qed

lemma assign_finding_frames:
  assumes "assign_finding rt visible new_id now i assignee actor db = Inr (db', b)"
  shows "dispute_frame (dp_claims db') = dispute_frame (dp_claims db) \<and> claims_frame (dp_claims db') = claims_frame (dp_claims db) \<and>
     dp_workflow db' = dp_workflow db"
proof (cases "find (\<lambda>f. vf_id f = i \<and> vf_account_id f \<in> set visible) (cd_findings (dp_claims db))")
  case None
  then show ?thesis using assms by (auto simp: assign_finding_def)
next
  case (Some f)
  let ?c = "(dp_claims db)\<lparr>cd_findings := map (\<lambda>g. if vf_id g = i \<and> vf_account_id g \<in> set visible
     then g\<lparr>vf_assigned_to_user_id := assignee\<rparr> else g) (cd_findings (dp_claims db))\<rparr>"
  obtain c' b' where w: "write_claims_event now (assign_event rt (vf_account_id f) i new_id assignee actor) ?c = Inr (c', b')"
    and db': "dp_claims db' = c'" "dp_workflow db' = dp_workflow db"
    using assms Some by (auto simp: assign_finding_def write_dispute_event_def on_claims_def result_simps split: sum.splits)
  have "dispute_frame ?c = dispute_frame (dp_claims db)" "claims_frame ?c = claims_frame (dp_claims db)"
    by (simp_all add: frame_defs finding_core_def terminal_log_def)
  then show ?thesis
    using write_claims_event_frames [OF w] db' by (simp add: assign_event_def analyst_event_def terminal_marker_def Let_def)
qed

section \<open>The claims module beside disputes\<close>

lemma dispute_frame_simps [simp]:
  "dispute_frame (c\<lparr>cd_claims := x\<rparr>) = dispute_frame c" "dispute_frame (c\<lparr>cd_recoveries := y\<rparr>) = dispute_frame c"
  "dispute_frame (c\<lparr>cd_jobs := z\<rparr>) = dispute_frame c"
  by (simp_all add: dispute_frame_def)

lemma claim_events_entity [simp]:
  "js_trim (ae_entity (claim_created_event rt client actor i d a cur)) \<noteq> ''dispute''"
  "js_trim (ae_entity (recovery_recorded_event rt client i cid pv)) \<noteq> ''dispute''"
  "js_trim (ae_entity (claim_resolved_event rt client i rv rid)) \<noteq> ''dispute''"
  "js_trim (ae_entity (follow_up_event rt isof c t)) \<noteq> ''dispute''"
  "js_trim (ae_entity (escalation_event rt isof c t days)) \<noteq> ''dispute''"
  by (simp_all add: claim_event_defs claim_resolved_event_def)

lemmas write_dispute_frame = write_claims_event_frames(1)

lemma insert_recovery_dispute_frame: "insert_recovery n a i f amt cur c = Inr c' \<Longrightarrow> dispute_frame c' = dispute_frame c"
  by (drule insert_recovery_Inr) auto

lemma export_dispute_frame [simp]: "dispute_frame (export_or_rollback rt Z B new_id at_text i v c) = dispute_frame c"
  by (simp add: export_or_rollback_def split: sum.split)

lemma record_partial_dispute_frame:
  "record_partial_recovery D rt Z B new_id now at_text [] i c = Inr (c', r) \<Longrightarrow> dispute_frame c' = dispute_frame c"
  by (auto simp: record_partial_recovery_def result_simps split: option.splits
      dest!: insert_recovery_dispute_frame write_dispute_frame)

lemma mirror_dispute_frame: "mirror_finding rt ev now i v c = Inr c' \<Longrightarrow> dispute_frame c' = dispute_frame c"
  by (auto simp: mirror_finding_def result_simps split: option.splits if_splits dest!: update_finding_frames)

lemma resolve_claim_dispute_frame:
  assumes "resolve_claim D rt Z new_id ev now i c = Inr (c', r)"
  shows "dispute_frame c' = dispute_frame c"
proof -
  obtain x v c1 rid c2 b where ins: "(case vr_amount_recovered v of None \<Rightarrow> Inr (c, None)
        | Some a \<Rightarrow> rbind (insert_recovery new_id (rs_client_id i) (rs_claim_id i) (rs_variance_finding_id i) a (vr_currency v) c)
            (\<lambda>db'. Inr (db', Some new_id))) = Inr (c1, rid)"
    and mir: "mirror_finding rt ev now i v (set_claim_status (rs_client_id i) (rs_claim_id i) (vr_new_status v) c1) = Inr c2"
    and w: "write_claims_event now (claim_resolved_event rt (rs_client_id i) (rs_claim_id i) v rid) c2 = Inr (c', b)"
    by (rule resolve_claim_stages [OF assms])
  have "dispute_frame c1 = dispute_frame c"
    using ins by (auto simp: result_simps split: option.splits dest!: insert_recovery_dispute_frame)
  then show ?thesis
    using mirror_dispute_frame [OF mir] write_dispute_frame [OF w] by (simp add: set_claim_status_def)
qed

text \<open>A claim takes its amount and its currency from an accepted dispute.\<close>

lemma create_claim_row:
  assumes "create_claim_from_dispute D rt Z new_id now [] i c = Inr (c', r)"
  shows "dispute_frame c' = dispute_frame c \<and>
     (cd_claims c' = cd_claims c \<or>
      (\<exists>d \<in> set (cd_disputes c). \<exists>n cur. di_status d = ''accepted'' \<and> di_account_id d = cc_client_id i \<and> di_id d = cc_dispute_id i \<and>
        di_amount_claimed d = Some n \<and> di_currency d = Some cur \<and>
        cd_claims c' = cd_claims c @ [opened_claim new_id now (cc_client_id i) (cc_dispute_id i) n cur]))"
proof (cases "select_existing_claim (cc_client_id i) (cc_dispute_id i) c")
  case (Some e)
  then show ?thesis using assms by (auto simp: create_claim_from_dispute_def result_simps split: option.splits)
next
  case None
  then have none: "\<forall>x \<in> set (cd_claims c). \<not> claim_of_dispute (cc_client_id i) (cc_dispute_id i) x"
    by (simp add: select_existing_claim_def find_None_all)
  obtain d did a cur n where row: "find (\<lambda>d. di_account_id d = cc_client_id i \<and> di_id d = cc_dispute_id i) (cd_disputes c) = Some d"
    and v: "validate_claimable_dispute D d = Inr (did, a, cur)"
    and dup: "detect_duplicate_claimed_finding (cc_client_id i) (cc_dispute_id i) c = Inr ()"
    and n: "store_numeric a = Some n"
    using assms None
    by (auto simp: create_claim_from_dispute_def result_simps Let_def split: option.splits)
  have d: "did = di_id d" "di_status d = ''accepted''" "di_currency d = Some cur" "di_amount_claimed d = Some n"
    using v n by (auto simp: validate_claimable_dispute_def validate_recovery_amount_and_currency_def result_simps
        dest: store_numeric_of_text split: option.splits)
  let ?c = "opened_claim new_id now (cc_client_id i) (cc_dispute_id i) n cur"
  have ins: "insert_row (\<lambda>a b. cl_account_id b = cl_account_id a \<and> sql_eq (cl_dispute_id b) (cl_dispute_id a)) ?c (cd_claims c) =
      (cd_claims c @ [?c], True)"
    using none by (auto simp: insert_row_def list_ex_iff opened_claim_def claim_of_dispute_def sql_eq_def)
  have did: "did = cc_dispute_id i" using find_Some_in [OF row] d(1) by simp
  obtain b where w: "write_claims_event now (claim_created_event rt (cc_client_id i) (cc_actor_user_id i) new_id did a cur)
      (c\<lparr>cd_claims := cd_claims c @ [?c]\<rparr>) = Inr (c', b)"
    using assms None row v dup n by (auto simp: create_claim_from_dispute_def result_simps Let_def ins did)
  have "cd_claims c' = cd_claims c @ [?c]" using write_event_frame [OF w] by simp
  then show ?thesis using write_dispute_frame [OF w] find_Some_in [OF row] d by auto
qed

lemma claims_step_frame:
  assumes "claims_step D rt Z B isof c c'" and "cd_disputes c' = cd_disputes c" and "cd_dispute_lines c' = cd_dispute_lines c"
  shows "dispute_frame c' = dispute_frame c"
  using assms
proof (cases rule: claims_step.cases)
  case (scanned now r6)
  from schedule_frame [OF scanned] have "c'\<lparr>cd_jobs := []\<rparr> = c\<lparr>cd_jobs := []\<rparr>" by (simp add: same_but_jobs_def)
  then have "dispute_frame (c'\<lparr>cd_jobs := []\<rparr>) = dispute_frame (c\<lparr>cd_jobs := []\<rparr>)" by simp
  then show ?thesis by simp
next
  case (deadline client i days t)
  then show ?thesis by (auto simp: set_claim_aging_deadline_def result_simps split: option.splits)
next
  case (followed_up clock now client i r4)
  then show ?thesis by (auto simp: generate_claim_follow_up_def result_simps Let_def split: option.splits dest!: write_dispute_frame)
next
  case (escalated clock now days client i r5)
  then show ?thesis by (auto simp: generate_claim_escalation_def result_simps Let_def split: option.splits dest!: write_dispute_frame)
qed (auto dest: create_claim_row record_partial_dispute_frame resolve_claim_dispute_frame simp: dispute_frame_def)

end
