(* ===== verification/Dispute_Runs.thy ===== *)
theory Dispute_Runs
  imports Dispute_Properties
begin

text \<open>
  Runs of disputes and claims together: the amount of a dispute, the invariant of the tables under
  every operation, and the delivery command of an approved dispute.
\<close>

section \<open>The amount of a dispute\<close>

text \<open>The column a row's amount was read from.\<close>

definition row_amount :: "disputable_finding_row \<Rightarrow> int" where
  "row_amount r = (case dr_variance_amount r of None \<Rightarrow> 0 | Some s \<Rightarrow> fst (the (sdec_parse s)))"

definition from_column :: "disputable_finding_row \<Rightarrow> bool" where
  "from_column r \<longleftrightarrow> (dr_variance_amount r = None \<or> dr_variance_amount r = Some (numeric_text (row_amount r)))"

lemma rfold_unit: "rfold (\<lambda>_ x. f x) () xs = Inr u \<longleftrightarrow> (\<forall>x \<in> set xs. f x = Inr ())"
  by (induction xs) (auto simp: result_simps)

lemma remdups_only: "length (remdups xs) \<le> 1 \<Longrightarrow> x \<in> set xs \<Longrightarrow> hd (remdups xs) = x"
proof -
  assume "length (remdups xs) \<le> 1" and "x \<in> set xs"
  moreover from \<open>x \<in> set xs\<close> have "x \<in> set (remdups xs)" by simp
  ultimately show ?thesis by (cases "remdups xs") (auto simp del: set_remdups)
qed

lemma filter_by_ids:
  "distinct (map k rows) \<Longrightarrow> filter (\<lambda>r. k r \<in> k ` set (filter p rows)) rows = filter p rows"
  by (rule filter_cong [OF refl]) (auto simp: distinct_map dest: inj_onD)

context fixed_notation
begin

lemma add_amounts:
  assumes "holds acc a" and "\<bar>a\<bar> + sum_list (map abs ns) < 10 ^ 20"
  shows "\<exists>t. rfold (add_amount D) acc (map (Some \<circ> numeric_text) ns) = Inr t \<and> holds t (a + sum_list ns)"
  using assms
proof (induction ns arbitrary: acc a)
  case (Cons n ns)
  obtain d where d: "read_decimal DisputeDecimalError D (numeric_text n) = Inr d" "holds d n"
    using read_numeric [where e = DisputeDecimalError] by blast
  have s: "0 \<le> sum_list (map abs ns)" by (intro sum_list_nonneg) auto
  have "holds (dec_plus D acc d) (a + n)" using Cons.prems d s by (intro holds_plus) auto
  moreover have "\<bar>a + n\<bar> + sum_list (map abs ns) < 10 ^ 20" using Cons.prems by auto
  ultimately show ?case using Cons.IH [of "dec_plus D acc d" "a + n"] d by (auto simp: add_amount_def add.assoc)
qed simp

lemma validate_disputable_Inr:
  assumes v: "validate_disputable_findings D rows = Inr v" and cols: "\<forall>r \<in> set rows. from_column r"
    and bound: "sum_list (map (\<lambda>r. \<bar>row_amount r\<bar>) (claimable_findings rows)) < 10 ^ 20"
  shows "claimable_findings rows \<noteq> [] \<and> vd_finding_ids v = map dr_id (claimable_findings rows) \<and>
     (\<forall>r \<in> set (claimable_findings rows). dr_status r = ''accepted'' \<and> dr_carrier_id r = Some (vd_carrier_id v) \<and>
        dr_currency r = Some (vd_currency v) \<and> dr_variance_amount r = Some (numeric_text (row_amount r))) \<and>
     (\<forall>m. store_numeric (vd_amount_claimed v) = Some m \<longrightarrow> m = sum_list (map row_amount (claimable_findings rows)))"
proof -
  define cs where "cs = claimable_findings rows"
  obtain t where ne: "cs \<noteq> []" and chk: "\<forall>r \<in> set cs. check_disputable r = Inr ()"
    and one: "length (remdups (map dr_carrier_id cs)) \<le> 1" "length (remdups (map dr_currency cs)) \<le> 1"
    and t: "rfold (add_amount D) (dec_zero D) (map dr_variance_amount cs) = Inr t"
    and v': "v = \<lparr>vd_finding_ids = map dr_id cs, vd_carrier_id = the (hd (remdups (map dr_carrier_id cs))),
                  vd_currency = the (hd (remdups (map dr_currency cs))), vd_amount_claimed = dec_to_fixed D 4 t\<rparr>"
    using v by (auto simp: validate_disputable_findings_def Let_def rfold_unit result_simps simp flip: cs_def)
  have row: "dr_status r = ''accepted'' \<and> dr_carrier_id r = Some (vd_carrier_id v) \<and> dr_currency r = Some (vd_currency v) \<and>
      dr_variance_amount r = Some (numeric_text (row_amount r))" if r: "r \<in> set cs" for r
  proof -
    have "check_disputable r = Inr ()" "from_column r" using chk cols r by (auto simp: cs_def claimable_findings_def)
    moreover have "hd (remdups (map dr_carrier_id cs)) = dr_carrier_id r" "hd (remdups (map dr_currency cs)) = dr_currency r"
      using one r by (auto intro: remdups_only)
    ultimately show ?thesis by (auto simp: check_disputable_def from_column_def v' result_simps truthy_def split: option.splits)
  qed
  then have "map dr_variance_amount cs = map (Some \<circ> numeric_text) (map row_amount cs)" by simp
  moreover have "\<bar>0\<bar> + sum_list (map abs (map row_amount cs)) < 10 ^ 20" using bound by (simp add: comp_def cs_def)
  ultimately obtain t' where "rfold (add_amount D) (dec_zero D) (map dr_variance_amount cs) = Inr t'"
    and "holds t' (0 + sum_list (map row_amount cs))"
    using add_amounts [OF holds_zero, of "map row_amount cs"] by (auto simp only:)
  then have "holds t (0 + sum_list (map row_amount cs))" using t by simp
  then have "\<forall>m. store_numeric (vd_amount_claimed v) = Some m \<longrightarrow> m = sum_list (map row_amount cs)"
    using store_fixed_value by (auto simp: v' split: if_splits)
  then show ?thesis using ne row by (simp add: v' flip: cs_def)
qed

end

section \<open>The lines\<close>

definition lines_of :: "claims_db \<Rightarrow> uuid \<Rightarrow> uuid \<Rightarrow> dispute_line list" where
  "lines_of c a i = filter (\<lambda>l. dl_account_id l = a \<and> dl_dispute_id l = i) (cd_dispute_lines c)"

definition new_line :: "fresh_rows \<Rightarrow> uuid \<Rightarrow> uuid \<Rightarrow> nat \<times> disputable_finding_row \<Rightarrow> dispute_line" where
  "new_line fresh client dispute_id kr =
     \<lparr>dl_id = fresh ''dispute_line'' (fst kr), dl_account_id = client, dl_dispute_id = dispute_id,
      dl_variance_finding_id = Some (dr_id (snd kr)), dl_amount = Some (row_amount (snd kr)), dl_currency = dr_currency (snd kr)\<rparr>"

text \<open>The state a step of the loop keeps, apart from the lines.\<close>

definition but_lines :: "dispute_db \<Rightarrow> _" where
  "but_lines db =
     (claims_frame (dp_claims db), cd_disputes (dp_claims db), dispute_rows (cd_audit (dp_claims db)),
      map finding_core (cd_findings (dp_claims db)), dp_workflow db, dp_comms db)"

lemma include_finding_Inr:
  assumes "include_finding rt visible fresh now i did db kr = Inr db'"
    and "dr_variance_amount (snd kr) = Some (numeric_text (row_amount (snd kr)))"
  shows "cd_dispute_lines (dp_claims db') = cd_dispute_lines (dp_claims db) @ [new_line fresh (cdi_client_id i) did kr] \<and>
     but_lines db' = but_lines db"
proof -
  let ?c = "(dp_claims db)\<lparr>cd_dispute_lines := cd_dispute_lines (dp_claims db) @ [new_line fresh (cdi_client_id i) did kr]\<rparr>"
  obtain n where n: "store_numeric (numeric_text (row_amount (snd kr))) = Some n"
    using assms by (auto simp: include_finding_def insert_dispute_line_def store_column_def result_simps split: option.splits)
  then have "n = row_amount (snd kr)" by (rule store_numeric_of_text)
  then obtain b where u: "update_finding_status rt visible (fresh ''finding_status_event'' (fst kr)) now (dr_id (snd kr)) ''queued_for_dispute''
      (Some ''Included in dispute creation'') (cdi_actor_user_id i) ?c = Inr (dp_claims db', b)"
    and rest: "dp_workflow db' = dp_workflow db" "dp_comms db' = dp_comms db"
    using assms n by (auto simp: include_finding_def insert_dispute_line_def store_column_def new_line_def on_claims_def result_simps split: sum.splits)
  show ?thesis using update_finding_frames [OF u] rest by (simp add: but_lines_def frame_defs terminal_log_def)
qed

lemma include_findings_Inr:
  assumes "rfold (include_finding rt visible fresh now i did) db krs = Inr db'"
    and "\<forall>kr \<in> set krs. dr_variance_amount (snd kr) = Some (numeric_text (row_amount (snd kr)))"
  shows "cd_dispute_lines (dp_claims db') = cd_dispute_lines (dp_claims db) @ map (new_line fresh (cdi_client_id i) did) krs \<and>
     but_lines db' = but_lines db"
  using assms
proof (induction krs arbitrary: db)
  case (Cons kr krs)
  then obtain db1 where "include_finding rt visible fresh now i did db kr = Inr db1"
    and "rfold (include_finding rt visible fresh now i did) db1 krs = Inr db'"
    by (auto simp: rbind_eq_Inr)
  then show ?case using include_finding_Inr [of rt visible fresh now i did db kr db1] Cons by simp
qed simp

section \<open>The invariant\<close>

definition line_backed :: "claims_db \<Rightarrow> dispute_line \<Rightarrow> bool" where
  "line_backed c l \<longleftrightarrow>
     (\<exists>f n. dl_variance_finding_id l = Some f \<and> dl_amount l = Some n \<and>
        (f, dl_account_id l, Some n, dl_currency l) \<in> set (map finding_core (cd_findings c)))"

text \<open>The amount claimed is the sum of the variances of distinct findings, in one currency.\<close>

definition dispute_money :: "claims_db \<Rightarrow> dispute \<Rightarrow> bool" where
  "dispute_money c d \<longleftrightarrow>
     lines_of c (di_account_id d) (di_id d) \<noteq> [] \<and> di_currency d \<noteq> None \<and>
     distinct (map dl_variance_finding_id (lines_of c (di_account_id d) (di_id d))) \<and>
     (\<forall>l \<in> set (lines_of c (di_account_id d) (di_id d)). dl_currency l = di_currency d \<and> line_backed c l) \<and>
     di_amount_claimed d = Some (sum_list (map (the \<circ> dl_amount) (lines_of c (di_account_id d) (di_id d))))"

definition accepted_ok :: "dispute \<Rightarrow> bool" where
  "accepted_ok d \<longleftrightarrow>
     (\<forall>n. di_accepted_amount d = Some n \<longrightarrow> 0 \<le> n \<and> (\<forall>m. di_amount_claimed d = Some m \<longrightarrow> n \<le> m)) \<and>
     (di_status d = ''partial'' \<longrightarrow> di_accepted_amount d \<noteq> None)"

definition dispute_ok :: "claims_db \<Rightarrow> dispute \<Rightarrow> bool" where
  "dispute_ok c d \<longleftrightarrow>
     dispute_money c d \<and> accepted_ok d \<and> lifecycle (dispute_log (cd_audit c) (di_account_id d) (di_id d)) (di_status d)"

text \<open>
  Findings are unique and their amounts have at most seventeen digits, so that the sum of 500 of them
  is exact in twenty digits; events and lines belong to disputes of the table.
\<close>

definition findings_ok :: "claims_db \<Rightarrow> bool" where
  "findings_ok c \<longleftrightarrow>
     distinct (map fst (map finding_core (cd_findings c))) \<and>
     (\<forall>(f, a, n, cur) \<in> set (map finding_core (cd_findings c)). \<forall>m. n = Some m \<longrightarrow> \<bar>m\<bar> < 2 * 10 ^ 17)"

definition disputes_ok :: "claims_db \<Rightarrow> bool" where
  "disputes_ok c \<longleftrightarrow>
     findings_ok c \<and> distinct (map di_id (cd_disputes c)) \<and> (\<forall>d \<in> set (cd_disputes c). dispute_ok c d) \<and>
     (\<forall>r \<in> set (dispute_rows (cd_audit c)). \<exists>i \<in> di_id ` set (cd_disputes c). ae_entity_id r = Some i) \<and>
     (\<forall>l \<in> set (cd_dispute_lines c). dl_dispute_id l \<in> di_id ` set (cd_disputes c))"

lemma dispute_ok_cong:
  "cd_dispute_lines c' = cd_dispute_lines c \<Longrightarrow> map finding_core (cd_findings c') = map finding_core (cd_findings c) \<Longrightarrow>
   dispute_log (cd_audit c') (di_account_id d) (di_id d) = dispute_log (cd_audit c) (di_account_id d) (di_id d) \<Longrightarrow>
   dispute_ok c' d \<longleftrightarrow> dispute_ok c d"
  unfolding dispute_ok_def dispute_money_def line_backed_def lines_of_def by (simp only:)

lemma disputes_ok_cong: "dispute_frame c' = dispute_frame c \<Longrightarrow> disputes_ok c' \<longleftrightarrow> disputes_ok c"
proof -
  assume f: "dispute_frame c' = dispute_frame c"
  then have e: "cd_disputes c' = cd_disputes c" "cd_dispute_lines c' = cd_dispute_lines c"
    "dispute_rows (cd_audit c') = dispute_rows (cd_audit c)" "map finding_core (cd_findings c') = map finding_core (cd_findings c)"
    unfolding dispute_frame_def by blast+
  then have "dispute_ok c' d \<longleftrightarrow> dispute_ok c d" for d by (intro dispute_ok_cong dispute_log_cong)
  then show ?thesis unfolding disputes_ok_def findings_ok_def e by simp
qed

text \<open>A dispute moves along its life cycle.\<close>

lemma move_dispute_ok:
  assumes ok: "disputes_ok c" and d: "d \<in> set (cd_disputes c)"
    and keeps: "di_id (f d) = di_id d" "di_account_id (f d) = di_account_id d" "di_currency (f d) = di_currency d"
      "di_amount_claimed (f d) = di_amount_claimed d"
    and acc: "accepted_ok (f d)"
    and life: "lifecycle (dispute_log (cd_audit c) (di_account_id d) (di_id d) @ [ev]) (di_status (f d))"
    and c': "cd_disputes c' = map (\<lambda>x. if x = d then f x else x) (cd_disputes c)" "cd_dispute_lines c' = cd_dispute_lines c"
      "map finding_core (cd_findings c') = map finding_core (cd_findings c)"
      "dispute_log (cd_audit c') (di_account_id d) (di_id d) = dispute_log (cd_audit c) (di_account_id d) (di_id d) @ [ev]"
      "\<forall>a i. (a, i) \<noteq> (di_account_id d, di_id d) \<longrightarrow> dispute_log (cd_audit c') a i = dispute_log (cd_audit c) a i"
      "\<forall>r \<in> set (dispute_rows (cd_audit c')). r \<in> set (dispute_rows (cd_audit c)) \<or> ae_entity_id r = Some (di_id d)"
  shows "disputes_ok c'"
proof -
  note o = ok [unfolded disputes_ok_def]
  have ids: "map di_id (cd_disputes c') = map di_id (cd_disputes c)" unfolding c' using keeps(1) by (simp add: comp_def)
  then have img: "di_id ` set (cd_disputes c') = di_id ` set (cd_disputes c)" by (metis set_map)
  have other: "dispute_ok c' x" if x: "x \<in> set (cd_disputes c)" and ne: "x \<noteq> d" for x
  proof -
    have "di_id x \<noteq> di_id d" using o x ne d by (metis distinct_map inj_onD)
    then have "dispute_log (cd_audit c') (di_account_id x) (di_id x) = dispute_log (cd_audit c) (di_account_id x) (di_id x)"
      using c'(5) by blast
    then show ?thesis using o x dispute_ok_cong [OF c'(2,3)] by blast
  qed
  have "dispute_money c' (f d) \<longleftrightarrow> dispute_money c d"
    unfolding dispute_money_def line_backed_def lines_of_def keeps c'(2,3) ..
  then have "dispute_ok c' (f d)" using o d acc life by (simp add: dispute_ok_def keeps c'(4))
  then have "\<forall>x \<in> set (cd_disputes c'). dispute_ok c' x" using other by (auto simp: c'(1))
  moreover have "findings_ok c'" using o unfolding findings_ok_def c'(3) by blast
  moreover have "\<forall>r \<in> set (dispute_rows (cd_audit c')). \<exists>i \<in> di_id ` set (cd_disputes c'). ae_entity_id r = Some i"
    unfolding img using o c'(6) d by blast
  ultimately show ?thesis using o unfolding disputes_ok_def ids img c'(2) by blast
qed

text \<open>The guarded update hits the one visible row.\<close>

lemma update_dispute_Some:
  assumes "update_dispute visible from_statuses f i db = Some (db', d)" and "distinct (map di_id (cd_disputes (dp_claims db)))"
  shows "d \<in> set (cd_disputes (dp_claims db)) \<and> di_id d = i \<and> di_account_id d \<in> set visible \<and> di_status d \<in> set from_statuses \<and>
     db' = put_disputes (map (\<lambda>x. if x = d then f x else x) (cd_disputes (dp_claims db))) db"
proof -
  let ?hit = "\<lambda>x. visible_dispute visible i x \<and> di_status x \<in> set from_statuses"
  have f: "find ?hit (cd_disputes (dp_claims db)) = Some d"
    and db': "db' = put_disputes (map (\<lambda>x. if ?hit x then f x else x) (cd_disputes (dp_claims db))) db"
    using assms(1) by (auto simp: update_dispute_def Let_def split: option.splits)
  note d = find_Some_in [OF f]
  have "?hit x \<longleftrightarrow> x = d" if "x \<in> set (cd_disputes (dp_claims db))" for x
    using d that assms(2) by (auto simp: visible_dispute_def distinct_map dest: inj_onD)
  then have "map (\<lambda>x. if ?hit x then f x else x) (cd_disputes (dp_claims db)) =
      map (\<lambda>x. if x = d then f x else x) (cd_disputes (dp_claims db))" by (intro map_cong refl) simp
  then have "db' = put_disputes (map (\<lambda>x. if x = d then f x else x) (cd_disputes (dp_claims db))) db" using db' by (simp only:)
  then show ?thesis using d by (simp add: visible_dispute_def)
qed

lemma write_dispute_event_Inr:
  "write_dispute_event now e db = Inr db' \<Longrightarrow>
   \<exists>c' b. write_claims_event now e (dp_claims db) = Inr (c', b) \<and> db' = db\<lparr>dp_claims := c'\<rparr>"
  by (auto simp: write_dispute_event_def on_claims_def result_simps split: sum.splits)

lemma claims_frame_disputes [simp]: "claims_frame (c\<lparr>cd_disputes := ds\<rparr>) = claims_frame c"
  by (simp add: claims_frame_def terminal_log_def)

lemma dispute_event_other [simp]:
  "\<not> terminal_marker (dispute_moved_event rt a i st st' ev actor extra)" "\<not> terminal_marker (dispute_created_event rt a actor' i v)"
  by (simp_all add: dispute_moved_event_def dispute_created_event_def analyst_event_def terminal_marker_def)

text \<open>An update with its event, for a dispute whose log does not have the event yet.\<close>

lemma moved_ok:
  assumes ok: "disputes_ok (dp_claims db)" and u: "update_dispute visible from_statuses f i db = Some (db1, d)"
    and w: "write_dispute_event now (dispute_moved_event rt (di_account_id d) (di_id d) st st' ev actor extra) db1 = Inr db2"
    and keeps: "di_id (f d) = di_id d" "di_account_id (f d) = di_account_id d" "di_currency (f d) = di_currency d"
      "di_amount_claimed (f d) = di_amount_claimed d"
    and acc: "accepted_ok (f d)" and ev: "js_trim ev = ev" "ev \<notin> set (dispute_log (cd_audit (dp_claims db)) (di_account_id d) (di_id d))"
    and life: "lifecycle (dispute_log (cd_audit (dp_claims db)) (di_account_id d) (di_id d) @ [ev]) (di_status (f d))"
  shows "disputes_ok (dp_claims db2) \<and> claims_frame (dp_claims db2) = claims_frame (dp_claims db) \<and>
     cd_dispute_lines (dp_claims db2) = cd_dispute_lines (dp_claims db) \<and>
     cd_disputes (dp_claims db2) = map (\<lambda>x. if x = d then f x else x) (cd_disputes (dp_claims db)) \<and> dp_workflow db2 = dp_workflow db"
proof -
  have "distinct (map di_id (cd_disputes (dp_claims db)))" using ok by (simp add: disputes_ok_def)
  note d = update_dispute_Some [OF u this]
  obtain c' b where c': "write_claims_event now (dispute_moved_event rt (di_account_id d) (di_id d) st st' ev actor extra) (dp_claims db1) = Inr (c', b)"
    and db2: "db2 = db1\<lparr>dp_claims := c'\<rparr>"
    using write_dispute_event_Inr [OF w] by blast
  have a: "cd_audit (dp_claims db1) = cd_audit (dp_claims db)" using d by (simp add: put_disputes_def)
  obtain rows where rows: "c' = (dp_claims db1)\<lparr>cd_audit := rows\<rparr>"
    "dispute_log rows (di_account_id d) (di_id d) = dispute_log (cd_audit (dp_claims db)) (di_account_id d) (di_id d) @ [ev]"
    "\<forall>a i. (a, i) \<noteq> (di_account_id d, di_id d) \<longrightarrow> dispute_log rows a i = dispute_log (cd_audit (dp_claims db)) a i"
    "\<forall>r \<in> set (dispute_rows rows). r \<in> set (dispute_rows (cd_audit (dp_claims db))) \<or> ae_entity_id r = Some (di_id d)"
    using write_dispute_row [OF c', of "di_account_id d" "di_id d" ev] ev
    unfolding a by (auto simp: dispute_moved_event_def analyst_event_def)
  have fr: "claims_frame c' = claims_frame (dp_claims db1)" using write_claims_event_frames(2) [OF c'] by simp
  have "disputes_ok c'"
    by (rule move_dispute_ok [where f = f and d = d and ev = ev and c = "dp_claims db"])
      (use ok keeps acc life d rows in \<open>simp_all add: put_disputes_def\<close>)
  then show ?thesis using d fr rows(1) by (simp add: db2 put_disputes_def)
qed

text \<open>The carrier's answers and the closing: at most one event, or nothing at all.\<close>

lemma move_dispute_steps:
  assumes ok: "disputes_ok (dp_claims db)"
    and r: "move_dispute rt visible (\<lambda>ds. ds) now from_statuses f st ev actor extra seen db = Inr (db', b)"
    and keeps: "\<And>d. di_id (f d) = di_id d \<and> di_account_id (f d) = di_account_id d \<and> di_currency (f d) = di_currency d \<and>
      di_amount_claimed (f d) = di_amount_claimed d \<and> di_status (f d) = st"
    and acc: "\<And>d. d \<in> set (cd_disputes (dp_claims db)) \<Longrightarrow> di_id d = di_id seen \<Longrightarrow> accepted_ok d \<Longrightarrow> accepted_ok (f d)"
    and life: "\<And>l s. lifecycle l s \<Longrightarrow> s \<in> set from_statuses \<Longrightarrow> ev \<notin> set l \<and> lifecycle (l @ [ev]) st"
    and ev: "js_trim ev = ev"
  shows "disputes_ok (dp_claims db') \<and> claims_frame (dp_claims db') = claims_frame (dp_claims db) \<and>
     cd_dispute_lines (dp_claims db') = cd_dispute_lines (dp_claims db) \<and> dp_workflow db' = dp_workflow db \<and>
     list_all2 (\<lambda>x y. y = x \<or> y = f x \<and> di_status x \<in> set from_statuses) (cd_disputes (dp_claims db)) (cd_disputes (dp_claims db'))"
proof -
  have put: "put_disputes (cd_disputes (dp_claims db)) db = db" by (simp add: put_disputes_def)
  show ?thesis
  proof (cases "update_dispute visible from_statuses f (di_id seen) db")
    case None
    then show ?thesis using r ok by (auto simp: move_dispute_def put list_all2_same)
  next
    case (Some p)
    obtain db1 d where p: "p = (db1, d)" by (cases p)
    note u = Some [unfolded p]
    have w: "write_dispute_event now (dispute_moved_event rt (di_account_id d) (di_id d) (di_status seen) st ev actor extra) db1 = Inr db'"
      using r u by (auto simp: move_dispute_def put result_simps)
    have "distinct (map di_id (cd_disputes (dp_claims db)))" using ok by (simp add: disputes_ok_def)
    note d = update_dispute_Some [OF u this]
    have dok: "dispute_ok (dp_claims db) d" using ok d by (simp add: disputes_ok_def)
    note l = life [OF _ conjunct1 [OF conjunct2 [OF conjunct2 [OF conjunct2 [OF d]]]]]
    have "lifecycle (dispute_log (cd_audit (dp_claims db)) (di_account_id d) (di_id d)) (di_status d)" using dok by (simp add: dispute_ok_def)
    note l' = l [OF this]
    have "disputes_ok (dp_claims db') \<and> claims_frame (dp_claims db') = claims_frame (dp_claims db) \<and>
       cd_dispute_lines (dp_claims db') = cd_dispute_lines (dp_claims db) \<and>
       cd_disputes (dp_claims db') = map (\<lambda>x. if x = d then f x else x) (cd_disputes (dp_claims db)) \<and> dp_workflow db' = dp_workflow db"
      by (rule moved_ok [OF ok u w]) (use keeps acc ev l' dok d in \<open>auto simp: dispute_ok_def\<close>)
    then show ?thesis using d by (auto simp: list_all2_map2 list_all2_same)
  qed
qed

section \<open>The carrier's answer\<close>

text \<open>What a transition leaves: the amounts of every dispute, and which disputes are drafts.\<close>

definition dispute_core :: "dispute \<Rightarrow> uuid \<times> uuid \<times> int option \<times> string option \<times> bool" where
  "dispute_core d = (di_id d, di_account_id d, di_amount_claimed d, di_currency d, di_status d = ''draft'')"

definition answered :: "dispute_db \<Rightarrow> dispute_db \<Rightarrow> bool" where
  "answered db db' \<longleftrightarrow>
     disputes_ok (dp_claims db') \<and> claims_frame (dp_claims db') = claims_frame (dp_claims db) \<and>
     cd_dispute_lines (dp_claims db') = cd_dispute_lines (dp_claims db) \<and> dp_workflow db' = dp_workflow db \<and>
     map dispute_core (cd_disputes (dp_claims db')) = map dispute_core (cd_disputes (dp_claims db))"

lemma answered_refl: "disputes_ok (dp_claims db) \<Longrightarrow> answered db db"
  by (simp add: answered_def)

lemma move_dispute_answered:
  assumes "disputes_ok (dp_claims db)"
    and "move_dispute rt visible (\<lambda>ds. ds) now from_statuses f st ev actor extra seen db = Inr (db', b)"
    and keeps: "\<And>d. di_id (f d) = di_id d \<and> di_account_id (f d) = di_account_id d \<and> di_currency (f d) = di_currency d \<and>
      di_amount_claimed (f d) = di_amount_claimed d \<and> di_status (f d) = st"
    and "\<And>d. d \<in> set (cd_disputes (dp_claims db)) \<Longrightarrow> di_id d = di_id seen \<Longrightarrow> accepted_ok d \<Longrightarrow> accepted_ok (f d)"
    and "\<And>l s. lifecycle l s \<Longrightarrow> s \<in> set from_statuses \<Longrightarrow> ev \<notin> set l \<and> lifecycle (l @ [ev]) st"
    and "js_trim ev = ev" and draft: "''draft'' \<notin> set from_statuses" "st \<noteq> ''draft''"
  shows "answered db db'"
proof -
  have m: "disputes_ok (dp_claims db') \<and> claims_frame (dp_claims db') = claims_frame (dp_claims db) \<and>
     cd_dispute_lines (dp_claims db') = cd_dispute_lines (dp_claims db) \<and> dp_workflow db' = dp_workflow db \<and>
     list_all2 (\<lambda>x y. y = x \<or> y = f x \<and> di_status x \<in> set from_statuses) (cd_disputes (dp_claims db)) (cd_disputes (dp_claims db'))"
    by (rule move_dispute_steps [OF assms(1-6)])
  have "dispute_core y = dispute_core x" if "y = x \<or> y = f x \<and> di_status x \<in> set from_statuses" for x y
    using that keeps [of x] draft by (auto simp: dispute_core_def)
  with m have "list_all2 (\<lambda>x y. dispute_core y = dispute_core x) (cd_disputes (dp_claims db)) (cd_disputes (dp_claims db'))"
    by (auto elim: list_all2_mono)
  then have "map dispute_core (cd_disputes (dp_claims db')) = map dispute_core (cd_disputes (dp_claims db))"
    by (induction rule: list_all2_induct) auto
  then show ?thesis using m by (simp add: answered_def)
qed

lemma respond_life:
  assumes "lifecycle l s" and "s \<in> set RESPONDABLE_STATUSES"
  shows "''dispute.accepted'' \<notin> set l \<and> lifecycle (l @ [''dispute.accepted'']) ''accepted''"
    and "''dispute.rejected'' \<notin> set l \<and> lifecycle (l @ [''dispute.rejected'']) ''rejected''"
    and "''dispute.partially_accepted'' \<notin> set l \<and> lifecycle (l @ [''dispute.partially_accepted'']) ''partial''"
proof -
  have sent: "lifecycle l ''sent''" using assms lifecycle_respondable by metis
  then have "l = [''dispute.created'', ''dispute.approved'']" by (simp add: lifecycle_simps)
  then have new: "''dispute.accepted'' \<notin> set l" "''dispute.rejected'' \<notin> set l" "''dispute.partially_accepted'' \<notin> set l" by simp_all
  show "''dispute.accepted'' \<notin> set l \<and> lifecycle (l @ [''dispute.accepted'']) ''accepted''"
    using lifecycle.accepted [OF sent] new by simp
  show "''dispute.rejected'' \<notin> set l \<and> lifecycle (l @ [''dispute.rejected'']) ''rejected''"
    using lifecycle.rejected [OF sent] new by simp
  show "''dispute.partially_accepted'' \<notin> set l \<and> lifecycle (l @ [''dispute.partially_accepted'']) ''partial''"
    using lifecycle.partly [OF sent] new by simp
qed

lemma no_drafts [simp]: "''draft'' \<notin> set RESPONDABLE_STATUSES" "''draft'' \<notin> set RESOLVED_STATUSES"
  by (simp_all add: RESPONDABLE_STATUSES_def RESOLVED_STATUSES_def)

lemma accept_dispute_answered:
  assumes "disputes_ok (dp_claims db)" and "accept_dispute rt visible (\<lambda>ds. ds) now i actor db = Inr (db', b)"
  shows "answered db db'"
proof (cases "select_respondable_dispute visible i RESPONDABLE_STATUSES db")
  case (Some d)
  note r = assms(2) [unfolded accept_dispute_def Some option.case]
  show ?thesis
    by (rule move_dispute_answered [OF assms(1) r]) (auto simp: accepted_ok_def dest: respond_life)
qed (use assms answered_refl in \<open>auto simp: accept_dispute_def\<close>)

lemma reject_dispute_answered:
  assumes "disputes_ok (dp_claims db)" and "reject_dispute rt visible (\<lambda>ds. ds) now i actor db = Inr (db', b)"
  shows "answered db db'"
proof (cases "select_respondable_dispute visible i RESPONDABLE_STATUSES db")
  case (Some d)
  note r = assms(2) [unfolded reject_dispute_def Some option.case]
  show ?thesis
    by (rule move_dispute_answered [OF assms(1) r]) (auto simp: accepted_ok_def dest: respond_life)
qed (use assms answered_refl in \<open>auto simp: reject_dispute_def\<close>)

lemma close_dispute_answered:
  assumes "disputes_ok (dp_claims db)" and "close_dispute rt visible (\<lambda>ds. ds) now i actor db = Inr (db', b)"
  shows "answered db db'"
proof (cases "select_respondable_dispute visible i RESOLVED_STATUSES db")
  case (Some d)
  note r = assms(2) [unfolded close_dispute_def Some option.case]
  show ?thesis
    by (rule move_dispute_answered [OF assms(1) r])
      (auto simp: accepted_ok_def dest: lifecycle_resolved_fresh intro: lifecycle.closed)
qed (use assms answered_refl in \<open>auto simp: close_dispute_def\<close>)

lemma amount_literal_nonneg:
  assumes "is_amount_literal s" and "store_numeric s = Some n"
  shows "0 \<le> n"
proof -
  obtain m k where p: "sdec_parse s = Some (m, k)" "0 \<le> m" using amount_literal_parse [OF assms(1)] by blast
  have "sdec_val (m, k) = column_value n" using amount_literal_store [OF assms] p by auto
  moreover have "0 \<le> sdec_val (m, k)" using p(2) by (simp add: sdec_val_def)
  ultimately show ?thesis using money_simps(6) [of 0 n] by simp
qed

context decimal_laws
begin

lemma partially_accept_dispute_answered:
  assumes ok: "disputes_ok (dp_claims db)" and lit: "is_amount_literal accepted"
    and r: "partially_accept_dispute D rt visible (\<lambda>ds. ds) now i actor accepted db = Inr (db', b)"
  shows "answered db db'"
proof (cases "select_respondable_dispute visible i RESPONDABLE_STATUSES db")
  case (Some d)
  have d: "d \<in> set (cd_disputes (dp_claims db))"
    using Some by (auto simp: select_respondable_dispute_def dest: find_Some_in split: option.splits if_splits)
  obtain n where x: "exceeds_claimed D accepted (di_amount_claimed d) = Inr False" and n: "store_numeric accepted = Some n"
    and m: "move_dispute rt visible (\<lambda>ds. ds) now RESPONDABLE_STATUSES (\<lambda>x. x\<lparr>di_status := ''partial'', di_accepted_amount := Some n\<rparr>)
              ''partial'' ''dispute.partially_accepted'' actor [(''acceptedAmount'', JString accepted)] d db = Inr (db', b)"
    using r Some by (auto simp: partially_accept_dispute_def store_column_def result_simps split: option.splits)
  have le: "n \<le> k" if k: "di_amount_claimed d = Some k" for k
  proof -
    obtain a where a: "read_decimal DisputeDecimalError D accepted = Inr a" "holds a n"
      using read_amount [OF lit n, of DisputeDecimalError] by blast
    obtain c where c: "read_decimal DisputeDecimalError D (numeric_text k) = Inr c" "holds c k"
      using read_numeric [where e = DisputeDecimalError] by blast
    show ?thesis using x holds_compare(2) [OF c(2) a(2)] by (simp add: exceeds_claimed_def k a(1) c(1))
  qed
  have same: "x = d" if "x \<in> set (cd_disputes (dp_claims db))" "di_id x = di_id d" for x
    using ok d that by (auto simp: disputes_ok_def distinct_map dest: inj_onD)
  have acc: "accepted_ok (x\<lparr>di_status := ''partial'', di_accepted_amount := Some n\<rparr>)"
    if "x \<in> set (cd_disputes (dp_claims db))" "di_id x = di_id d" for x
    using same [OF that] le amount_literal_nonneg [OF lit n] by (simp add: accepted_ok_def)
  show ?thesis by (rule move_dispute_answered [OF ok m]) (auto simp: acc dest: respond_life)
qed (use r answered_refl [OF ok] in \<open>auto simp: partially_accept_dispute_def\<close>)

end

end
