(* ===== verification/Dispute_System.thy ===== *)
theory Dispute_System
  imports Dispute_Runs
begin

text \<open>
  The dispute and claim modules as one system: the creation and the approval of a dispute, the step
  relation of all transactions, and the invariants of its runs.
\<close>

section \<open>Creating a dispute\<close>

lemma select_findings_in:
  assumes "r \<in> set (select_findings visible client ids db)"
  shows "\<exists>f \<in> set (cd_findings (dp_claims db)). vf_account_id f = client \<and> dr_id r = vf_id f \<and> vf_id f \<in> set ids \<and>
     dr_status r = vf_status f \<and> dr_currency r = vf_currency f \<and> dr_variance_amount r = map_option numeric_text (vf_variance_amount f)"
  using assms by (auto simp: select_findings_def List.map_filter_def disputable_row_def)

lemma map_filter_ids:
  assumes "\<And>x y. f x = Some y \<Longrightarrow> k y = g x" and "distinct (map g xs)"
  shows "distinct (map k (List.map_filter f xs))"
  using assms(2)
proof (induction xs)
  case (Cons x xs)
  have "k ` set (List.map_filter f xs) \<subseteq> g ` set xs" by (auto simp: List.map_filter_def assms(1))
  then show ?case using Cons assms(1) by (fastforce simp: map_filter_simps split: option.splits)
qed (simp add: map_filter_simps)

lemma select_findings_distinct:
  "distinct (map vf_id (cd_findings (dp_claims db))) \<Longrightarrow> distinct (map dr_id (select_findings visible client ids db))"
  unfolding select_findings_def
  by (rule map_filter_ids [where g = vf_id]) (auto simp: disputable_row_def intro: distinct_map_filter)

lemma select_findings_length:
  assumes "distinct (map vf_id (cd_findings (dp_claims db)))"
  shows "length (select_findings visible client ids db) \<le> length ids"
proof -
  let ?rows = "select_findings visible client ids db"
  have "length ?rows = card (set (map dr_id ?rows))"
    using distinct_card [OF select_findings_distinct [OF assms]] by simp
  also have "\<dots> \<le> card (set ids)" by (rule card_mono) (auto dest!: select_findings_in)
  finally show ?thesis using card_length [of ids] by simp
qed

lemma select_findings_column: "r \<in> set (select_findings visible client ids db) \<Longrightarrow> from_column r"
  by (drule select_findings_in) (auto simp: from_column_def row_amount_def)

lemma sum_abs_bound: "(\<And>x. x \<in> set xs \<Longrightarrow> \<bar>g x\<bar> \<le> (b :: int)) \<Longrightarrow> sum_list (map (\<lambda>x. \<bar>g x\<bar>) xs) \<le> int (length xs) * b"
  by (induction xs) (auto simp: algebra_simps intro: add_mono)

lemma core_distinct: "distinct (map fst (map finding_core fs)) \<longleftrightarrow> distinct (map vf_id fs)"
  by (simp add: comp_def finding_core_def)

lemma select_findings_bound:
  assumes ok: "findings_ok (dp_claims db)" and "length ids \<le> 500"
  shows "sum_list (map (\<lambda>r. \<bar>row_amount r\<bar>) (claimable_findings (select_findings visible client ids db))) < 10 ^ 20"
proof -
  let ?rows = "claimable_findings (select_findings visible client ids db)"
  have small: "\<bar>row_amount r\<bar> \<le> 2 * 10 ^ 17 - 1" if "r \<in> set ?rows" for r
  proof -
    have "r \<in> set (select_findings visible client ids db)" using that by (simp add: claimable_findings_def)
    then obtain f where f: "f \<in> set (cd_findings (dp_claims db))" "dr_variance_amount r = map_option numeric_text (vf_variance_amount f)"
      using select_findings_in by blast
    then have "\<forall>m. vf_variance_amount f = Some m \<longrightarrow> \<bar>m\<bar> < 2 * 10 ^ 17" using ok by (auto simp: findings_ok_def finding_core_def)
    then show ?thesis using f(2) by (auto simp: row_amount_def split: option.splits)
  qed
  have "distinct (map vf_id (cd_findings (dp_claims db)))" using ok core_distinct by (auto simp: findings_ok_def)
  note select_findings_length [OF this, of visible client ids]
  moreover have "length ?rows \<le> length (select_findings visible client ids db)" by (simp add: claimable_findings_def)
  ultimately have n: "int (length ?rows) \<le> 500" using assms(2) by simp
  have "sum_list (map (\<lambda>r. \<bar>row_amount r\<bar>) ?rows) \<le> int (length ?rows) * (2 * 10 ^ 17 - 1)" using small by (rule sum_abs_bound)
  also have "\<dots> \<le> 500 * (2 * 10 ^ 17 - 1)" using n by (intro mult_right_mono) auto
  finally show ?thesis by simp
qed

lemma unknown_log:
  assumes "disputes_ok c" and "i \<notin> di_id ` set (cd_disputes c)"
  shows "dispute_log (cd_audit c) a i = []"
proof -
  have "\<forall>r \<in> set (dispute_rows (cd_audit c)). ae_entity_id r \<noteq> Some i" using assms unfolding disputes_ok_def by (metis option.inject)
  then show ?thesis by (simp add: dispute_log_def filter_empty_conv)
qed

lemma numeric_text_eq [simp]: "numeric_text m = numeric_text n \<longleftrightarrow> m = n"
  by (metis numeric_text_parse option.inject prod.inject)

text \<open>The lines of a new dispute are backed by the findings they were read from.\<close>

lemma new_line_backed:
  assumes "r \<in> set (select_findings visible client ids db)" and "dr_variance_amount r = Some (numeric_text (row_amount r))"
  shows "line_backed (dp_claims db) (new_line fresh client did (k, r))"
proof -
  obtain f where f: "f \<in> set (cd_findings (dp_claims db))" "vf_account_id f = client" "dr_id r = vf_id f" "dr_currency r = vf_currency f"
    "dr_variance_amount r = map_option numeric_text (vf_variance_amount f)"
    using select_findings_in [OF assms(1)] by blast
  then have "vf_variance_amount f = Some (row_amount r)" using assms(2) by (cases "vf_variance_amount f") auto
  then show ?thesis using f by (auto simp: line_backed_def new_line_def finding_core_def image_iff intro!: bexI [of _ f])
qed

lemma enumerate_mem: "kr \<in> set (enumerate n xs) \<Longrightarrow> snd kr \<in> set xs"
  by (metis imageI list.set_map map_snd_enumerate)

lemma new_lines:
  assumes "\<forall>r \<in> set cs. r \<in> set (select_findings visible client ids db) \<and> dr_currency r = cur \<and>
      dr_variance_amount r = Some (numeric_text (row_amount r))"
    and "ls = map (new_line fresh client did) (enumerate 0 cs)"
  shows "\<forall>l \<in> set ls. dl_account_id l = client \<and> dl_dispute_id l = did \<and> dl_currency l = cur \<and> line_backed (dp_claims db) l"
    and "map (the \<circ> dl_amount) ls = map row_amount cs" and "map dl_variance_finding_id ls = map Some (map dr_id cs)"
proof -
  show "\<forall>l \<in> set ls. dl_account_id l = client \<and> dl_dispute_id l = did \<and> dl_currency l = cur \<and> line_backed (dp_claims db) l"
  proof
    fix l
    assume "l \<in> set ls"
    then obtain k r where l: "l = new_line fresh client did (k, r)" "(k, r) \<in> set (enumerate 0 cs)" using assms(2) by auto
    then have r: "r \<in> set (select_findings visible client ids db)" "dr_currency r = cur" "dr_variance_amount r = Some (numeric_text (row_amount r))"
      using assms(1) enumerate_mem by fastforce+
    show "dl_account_id l = client \<and> dl_dispute_id l = did \<and> dl_currency l = cur \<and> line_backed (dp_claims db) l"
      using new_line_backed [OF r(1,3), of fresh did k] r(2) l(1) by (simp add: new_line_def)
  qed
  have "map (the \<circ> dl_amount) ls = map row_amount (map snd (enumerate 0 cs))"
    "map dl_variance_finding_id ls = map Some (map dr_id (map snd (enumerate 0 cs)))"
    by (simp_all only: assms(2) map_map) (simp_all add: new_line_def)
  then show "map (the \<circ> dl_amount) ls = map row_amount cs" "map dl_variance_finding_id ls = map Some (map dr_id cs)"
    by (simp_all only: map_snd_enumerate)
qed

text \<open>A new dispute with its lines and its first event.\<close>

lemma add_dispute_ok:
  assumes ok: "disputes_ok c" and new: "di_id d \<notin> di_id ` set (cd_disputes c)"
    and d: "di_status d = ''draft''" "di_accepted_amount d = None" "di_currency d \<noteq> None"
    and ls: "ls \<noteq> []" "distinct (map dl_variance_finding_id ls)"
      "\<forall>l \<in> set ls. dl_account_id l = di_account_id d \<and> dl_dispute_id l = di_id d \<and> dl_currency l = di_currency d \<and> line_backed c l"
      "di_amount_claimed d = Some (sum_list (map (the \<circ> dl_amount) ls))"
    and c': "cd_disputes c' = cd_disputes c @ [d]" "cd_dispute_lines c' = cd_dispute_lines c @ ls"
      "map finding_core (cd_findings c') = map finding_core (cd_findings c)"
      "dispute_log (cd_audit c') (di_account_id d) (di_id d) = dispute_log (cd_audit c) (di_account_id d) (di_id d) @ [''dispute.created'']"
      "\<forall>a i. (a, i) \<noteq> (di_account_id d, di_id d) \<longrightarrow> dispute_log (cd_audit c') a i = dispute_log (cd_audit c) a i"
      "\<forall>r \<in> set (dispute_rows (cd_audit c')). r \<in> set (dispute_rows (cd_audit c)) \<or> ae_entity_id r = Some (di_id d)"
  shows "disputes_ok c'"
proof -
  note o = ok [unfolded disputes_ok_def]
  have old: "dispute_ok c' x" if x: "x \<in> set (cd_disputes c)" for x
  proof -
    have ne: "di_id x \<noteq> di_id d" using new imageI [OF x, of di_id] by metis
    then have "filter (\<lambda>l. dl_account_id l = di_account_id x \<and> dl_dispute_id l = di_id x) ls = []"
      using ls(3) by (auto simp: filter_empty_conv)
    then have l: "lines_of c' (di_account_id x) (di_id x) = lines_of c (di_account_id x) (di_id x)" by (simp add: lines_of_def c'(2))
    have "dispute_ok c x" using o x by blast
    then show ?thesis using c'(5) ne unfolding dispute_ok_def dispute_money_def line_backed_def l c'(3) by auto
  qed
  have "\<forall>l \<in> set (cd_dispute_lines c). dl_dispute_id l \<noteq> di_id d" using o new by (metis (no_types, lifting))
  then have l: "lines_of c' (di_account_id d) (di_id d) = ls" using ls(3) by (simp add: lines_of_def c'(2) filter_empty_conv)
  have "dispute_log (cd_audit c) (di_account_id d) (di_id d) = []" by (rule unknown_log [OF ok new])
  moreover have "line_backed c' x = line_backed c x" for x unfolding line_backed_def c'(3) ..
  then have "dispute_money c' d" using d ls unfolding dispute_money_def l by simp
  ultimately have "dispute_ok c' d" using d c'(4) by (simp add: dispute_ok_def accepted_ok_def lifecycle.drafted)
  moreover have "findings_ok c'" using o unfolding findings_ok_def c'(3) by blast
  moreover have "distinct (map di_id (cd_disputes c'))" using o new by (auto simp: c'(1))
  moreover have "\<forall>r \<in> set (dispute_rows (cd_audit c')). \<exists>i \<in> di_id ` set (cd_disputes c'). ae_entity_id r = Some i"
    using o c'(6) unfolding c'(1) set_append image_Un by (metis UnCI image_eqI list.set_intros(1))
  moreover have "\<forall>l \<in> set (cd_dispute_lines c'). dl_dispute_id l \<in> di_id ` set (cd_disputes c')"
    using o ls(3) by (auto simp: c'(1,2))
  ultimately show ?thesis using old unfolding disputes_ok_def by (simp add: c'(1))
qed

context fixed_notation
begin

lemma create_dispute_stages:
  assumes "create_dispute_from_findings D rt Z visible fresh now i db = Inr (db', r)"
  obtains v db1 db2 where "create_dispute_input_ok Z i"
    and "validate_disputable_findings D (select_findings visible (cdi_client_id i) (cdi_finding_ids i) db) = Inr v"
    and "insert_dispute (fresh ''dispute'' 0) (cdi_client_id i) v db = Inr db1"
    and "rfold (include_finding rt visible fresh now i (fresh ''dispute'' 0)) db1
           (enumerate 0 (filter (\<lambda>r. dr_id r \<in> set (vd_finding_ids v)) (select_findings visible (cdi_client_id i) (cdi_finding_ids i) db))) = Inr db2"
    and "write_dispute_event now (dispute_created_event rt (cdi_client_id i) (cdi_actor_user_id i) (fresh ''dispute'' 0) v) db2 = Inr db'"
  using assms by (auto simp: create_dispute_from_findings_def Let_def result_simps)

lemma create_dispute_ok:
  assumes ok: "disputes_ok (dp_claims db)" and new: "fresh ''dispute'' 0 \<notin> di_id ` set (cd_disputes (dp_claims db))"
    and r: "create_dispute_from_findings D rt Z visible fresh now i db = Inr (db', r)"
  shows "disputes_ok (dp_claims db') \<and> claims_frame (dp_claims db') = claims_frame (dp_claims db) \<and> dp_workflow db' = dp_workflow db \<and>
     (\<exists>d ls. cd_disputes (dp_claims db') = cd_disputes (dp_claims db) @ [d] \<and> di_id d = fresh ''dispute'' 0 \<and> di_status d = ''draft'' \<and>
        cd_dispute_lines (dp_claims db') = cd_dispute_lines (dp_claims db) @ ls \<and> (\<forall>l \<in> set ls. dl_dispute_id l = di_id d))"
proof -
  define rows where "rows = select_findings visible (cdi_client_id i) (cdi_finding_ids i) db"
  let ?cs = "claimable_findings rows" and ?did = "fresh ''dispute'' 0" and ?cl = "cdi_client_id i"
  obtain v db1 db2 where z: "create_dispute_input_ok Z i" and v: "validate_disputable_findings D rows = Inr v"
    and ins: "insert_dispute ?did ?cl v db = Inr db1"
    and fold: "rfold (include_finding rt visible fresh now i ?did) db1 (enumerate 0 (filter (\<lambda>r. dr_id r \<in> set (vd_finding_ids v)) rows)) = Inr db2"
    and w: "write_dispute_event now (dispute_created_event rt ?cl (cdi_actor_user_id i) ?did v) db2 = Inr db'"
    unfolding rows_def by (rule create_dispute_stages [OF r])
  have fok: "findings_ok (dp_claims db)" using ok by (simp add: disputes_ok_def)
  then have dist: "distinct (map dr_id rows)" using core_distinct by (auto simp: rows_def findings_ok_def intro: select_findings_distinct)
  have "length (cdi_finding_ids i) \<le> 500" using z by (simp add: create_dispute_input_ok_def)
  note vr = validate_disputable_Inr [OF v _ select_findings_bound [OF fok this, of visible ?cl, folded rows_def]]
  have vr: "?cs \<noteq> []" "vd_finding_ids v = map dr_id ?cs"
    "\<forall>r \<in> set ?cs. dr_status r = ''accepted'' \<and> dr_carrier_id r = Some (vd_carrier_id v) \<and>
        dr_currency r = Some (vd_currency v) \<and> dr_variance_amount r = Some (numeric_text (row_amount r))"
    "\<forall>m. store_numeric (vd_amount_claimed v) = Some m \<longrightarrow> m = sum_list (map row_amount ?cs)"
    using vr by (auto simp: rows_def intro: select_findings_column)
  have rs: "filter (\<lambda>r. dr_id r \<in> set (vd_finding_ids v)) rows = ?cs"
    using filter_by_ids [OF dist, of "\<lambda>r. dr_direction r \<noteq> Some UNDERCHARGE"] by (simp add: vr(2) claimable_findings_def)
  define ls where "ls = map (new_line fresh ?cl ?did) (enumerate 0 ?cs)"
  have amt: "\<forall>kr \<in> set (enumerate 0 ?cs). dr_variance_amount (snd kr) = Some (numeric_text (row_amount (snd kr)))"
    using vr(3) by (auto simp: in_set_enumerate_eq)
  note inc = include_findings_Inr [OF fold [unfolded rs] amt, folded ls_def]
  define d where "d = \<lparr>di_id = ?did, di_account_id = ?cl, di_status = ''draft'', di_amount_claimed = Some (sum_list (map row_amount ?cs)),
     di_currency = Some (vd_currency v), di_carrier_id = Some (vd_carrier_id v), di_accepted_amount = None\<rparr>"
  have db1: "db1 = put_disputes (cd_disputes (dp_claims db) @ [d]) db"
    using ins vr(4) by (auto simp: insert_dispute_def store_column_def d_def result_simps split: option.splits)
  obtain c' b where c': "write_claims_event now (dispute_created_event rt ?cl (cdi_actor_user_id i) ?did v) (dp_claims db2) = Inr (c', b)"
    and db': "db' = db2\<lparr>dp_claims := c'\<rparr>"
    using write_dispute_event_Inr [OF w] by blast
  have rows_eq: "dispute_rows (cd_audit (dp_claims db2)) = dispute_rows (cd_audit (dp_claims db))"
    using inc by (simp add: but_lines_def db1 put_disputes_def)
  have fresh_log: "dispute_log (cd_audit (dp_claims db2)) ?cl ?did = []"
    using unknown_log [OF ok new] dispute_log_cong [OF rows_eq] by simp
  obtain au where au: "c' = (dp_claims db2)\<lparr>cd_audit := au\<rparr>" "dispute_log au ?cl ?did = dispute_log (cd_audit (dp_claims db2)) ?cl ?did @ [''dispute.created'']"
    "\<forall>a j. (a, j) \<noteq> (?cl, ?did) \<longrightarrow> dispute_log au a j = dispute_log (cd_audit (dp_claims db2)) a j"
    "\<forall>r \<in> set (dispute_rows au). r \<in> set (dispute_rows (cd_audit (dp_claims db2))) \<or> ae_entity_id r = Some ?did"
    using write_dispute_row [OF c', of ?cl ?did "''dispute.created''"] fresh_log
    by (auto simp: dispute_created_event_def analyst_event_def)
  note logs = dispute_log_cong [OF rows_eq]
  have fr: "claims_frame c' = claims_frame (dp_claims db2)" using write_claims_event_frames(2) [OF c'] by simp
  have "\<forall>r \<in> set ?cs. r \<in> set (select_findings visible ?cl (cdi_finding_ids i) db) \<and> dr_currency r = Some (vd_currency v) \<and>
      dr_variance_amount r = Some (numeric_text (row_amount r))"
    using vr(3) by (simp add: claimable_findings_def rows_def)
  note lines = new_lines [OF this ls_def]
  have dist': "distinct (map dl_variance_finding_id ls)"
    unfolding lines(3) using dist by (simp add: distinct_map claimable_findings_def inj_on_def)
  have c2: "cd_disputes (dp_claims db2) = cd_disputes (dp_claims db) @ [d]" "cd_dispute_lines (dp_claims db2) = cd_dispute_lines (dp_claims db) @ ls"
    "map finding_core (cd_findings (dp_claims db2)) = map finding_core (cd_findings (dp_claims db))"
    "claims_frame (dp_claims db2) = claims_frame (dp_claims db)" "dp_workflow db2 = dp_workflow db"
    using inc by (simp_all add: but_lines_def db1 put_disputes_def)
  have ne: "ls \<noteq> []" using vr(1) lines(3) by auto
  have "disputes_ok c'"
    by (rule add_dispute_ok [where d = d and ls = ls and c = "dp_claims db"])
      (use ok new ne lines dist' c2 au logs rows_eq in \<open>simp_all add: d_def\<close>)
  then show ?thesis using c2 fr au(1) lines(1) by (intro conjI exI [of _ d] exI [of _ ls]) (simp_all add: db' d_def)
qed

end

section \<open>The delivery command\<close>

definition instance_core :: "workflow_instance \<Rightarrow> uuid \<times> uuid \<times> string \<times> string \<times> uuid" where
  "instance_core w = (wi_id w, wi_account_id w, wi_workflow_type w, wi_subject_entity w, wi_subject_entity_id w)"

definition delivery_core :: "workflow_command list \<Rightarrow> (uuid \<times> uuid \<times> uuid \<times> (string \<times> json) list) list" where
  "delivery_core cs =
     map (\<lambda>c. (cr_id c, cr_account_id c, cr_workflow_instance_id c, wc_payload c))
       (filter (\<lambda>c. wc_command_type c = DELIVER_DISPUTE_COMMAND_TYPE) cs)"

text \<open>What the claim cycle of the workflow runtime keeps of the tables.\<close>

definition workflow_frame :: "workflow_db \<Rightarrow> (uuid \<times> uuid \<times> string \<times> string \<times> uuid) list \<times> (uuid \<times> uuid \<times> uuid \<times> (string \<times> json) list) list" where
  "workflow_frame w = (map instance_core (wd_instances w), delivery_core (wd_commands w))"

definition deliveries :: "workflow_db \<Rightarrow> uuid \<Rightarrow> uuid \<Rightarrow> (uuid \<times> uuid \<times> uuid \<times> (string \<times> json) list) list" where
  "deliveries w a i = filter (\<lambda>(x, a', j, p). a' = a \<and> p = [(''disputeId'', JString i)]) (delivery_core (wd_commands w))"

text \<open>
  Every dispute has one delivery command when it has left the draft status and none before; a command
  names the dispute its workflow instance is about.
\<close>

definition delivery_ok :: "dispute list \<Rightarrow> workflow_db \<Rightarrow> bool" where
  "delivery_ok ds w \<longleftrightarrow>
     distinct (map fst (map instance_core (wd_instances w))) \<and>
     (\<forall>(i, a, amount, cur, draft) \<in> set (map dispute_core ds). length (deliveries w a i) = (if draft then 0 else 1)) \<and>
     (\<forall>(x, a, j, p) \<in> set (delivery_core (wd_commands w)). \<exists>t e s. (j, a, t, e, s) \<in> set (map instance_core (wd_instances w)) \<and>
        p = [(''disputeId'', JString s)] \<and> s \<in> fst ` set (map dispute_core ds))"

lemma delivery_okD:
  "delivery_ok ds w \<Longrightarrow> (x, a, j, p) \<in> set (delivery_core (wd_commands w)) \<Longrightarrow>
   \<exists>t e s. (j, a, t, e, s) \<in> set (map instance_core (wd_instances w)) \<and> p = [(''disputeId'', JString s)] \<and> s \<in> fst ` set (map dispute_core ds)"
  unfolding delivery_ok_def by blast

lemma delivery_ok_cong:
  "map dispute_core ds' = map dispute_core ds \<Longrightarrow> workflow_frame w' = workflow_frame w \<Longrightarrow> delivery_ok ds' w' \<longleftrightarrow> delivery_ok ds w"
proof -
  assume d: "map dispute_core ds' = map dispute_core ds" and w: "workflow_frame w' = workflow_frame w"
  have "map instance_core (wd_instances w') = map instance_core (wd_instances w)" "delivery_core (wd_commands w') = delivery_core (wd_commands w)"
    using w unfolding workflow_frame_def by blast+
  then show ?thesis unfolding delivery_ok_def deliveries_def d by (simp only:)
qed

lemma write_workflow_event_frame:
  assumes "write_workflow_event now e w = Inr w'" and "js_trim (ae_entity e) \<noteq> ''dispute''" "js_trim (ae_entity e) \<noteq> ''claim''"
  shows "\<exists>rows. w' = w\<lparr>wd_audit := rows\<rparr> \<and> dispute_rows rows = dispute_rows (wd_audit w) \<and>
     filter is_terminal_row rows = filter is_terminal_row (wd_audit w)"
proof -
  obtain rows x where w: "write_audit_event now e (wd_audit w) = Inr (rows, x)" "w' = w\<lparr>wd_audit := rows\<rparr>"
    using assms(1) by (auto simp: write_workflow_event_def split: sum.splits)
  moreover obtain r b where "x = (r, b)" by (cases x)
  ultimately obtain v where v: "parse_audit_event e = Some v" "rows = wd_audit w \<or> rows = wd_audit w @ [ledger_row now v]"
    by (auto simp: write_audit_event_Inr split: if_splits)
  then show ?thesis using w(2) parse_audit_event_fields [OF v(1)] assms(2,3) by (auto simp: dispute_rows_def is_terminal_row_def)
qed

lemma workflow_entities_trimmed [simp]:
  "js_trim ''workflow_instance'' = ''workflow_instance''" "js_trim ''workflow_command'' = ''workflow_command''"
  "js_trim ''workflow_outbox_message'' = ''workflow_outbox_message''"
  by code_simp+

lemma on_workflow_frames:
  assumes "on_workflow f db = Inr (db', x)"
    and f: "\<And>w w'. f w = Inr (w', x) \<Longrightarrow> dispute_rows (wd_audit w') = dispute_rows (wd_audit w) \<and>
      filter is_terminal_row (wd_audit w') = filter is_terminal_row (wd_audit w)"
  shows "dispute_frame (dp_claims db') = dispute_frame (dp_claims db) \<and> claims_frame (dp_claims db') = claims_frame (dp_claims db) \<and>
     f ((dp_workflow db)\<lparr>wd_audit := cd_audit (dp_claims db)\<rparr>) = Inr (dp_workflow db', x)"
proof -
  obtain w where w: "f ((dp_workflow db)\<lparr>wd_audit := cd_audit (dp_claims db)\<rparr>) = Inr (w, x)"
    and db': "db' = db\<lparr>dp_workflow := w, dp_claims := (dp_claims db)\<lparr>cd_audit := wd_audit w\<rparr>\<rparr>"
    using assms(1) by (auto simp: on_workflow_def split: sum.splits)
  show ?thesis using f [OF w] w by (simp add: db' frame_defs terminal_log_def)
qed

lemma create_instance_Inr:
  assumes "create_workflow_instance rt new_id now i w = Inr (w', x)"
  shows "dispute_rows (wd_audit w') = dispute_rows (wd_audit w) \<and> filter is_terminal_row (wd_audit w') = filter is_terminal_row (wd_audit w) \<and>
     wd_commands w' = wd_commands w \<and> instance_core x = (wi_id x, ci_client_id i, ci_workflow_type i, ci_subject_entity i, ci_subject_entity_id i) \<and>
     (x \<in> set (wd_instances w) \<and> wd_instances w' = wd_instances w \<or> wi_id x = new_id \<and> wd_instances w' = wd_instances w @ [x])"
proof (cases "find (instance_of_subject i) (wd_instances w)")
  case (Some y)
  then show ?thesis using assms find_Some_in [OF Some] by (auto simp: create_workflow_instance_def instance_core_def instance_of_subject_def)
next
  case None
  define y where "y = \<lparr>wi_id = new_id, wi_account_id = ci_client_id i, wi_workflow_type = ci_workflow_type i,
     wi_subject_entity = ci_subject_entity i, wi_subject_entity_id = ci_subject_entity_id i,
     wi_current_state = ci_initial_state i, wi_created_at = now, wi_updated_at = now\<rparr>"
  let ?e = "system_event rt (wi_account_id y) ''workflow_instance'' (wi_id y) ''workflow.created''
     [wi_account_id y, wi_id y, ''workflow.created'']
     [(''workflowType'', JString (wi_workflow_type y)), (''subjectEntity'', JString (wi_subject_entity y)),
      (''subjectEntityId'', JString (wi_subject_entity_id y)), (''initialState'', JString (wi_current_state y))]"
  have x: "x = y" and e: "write_workflow_event now ?e (w\<lparr>wd_instances := wd_instances w @ [y]\<rparr>) = Inr w'"
    using assms None unfolding create_workflow_instance_def y_def by (auto simp: Let_def result_simps)
  have "\<exists>rows. w' = w\<lparr>wd_instances := wd_instances w @ [y], wd_audit := rows\<rparr> \<and> dispute_rows rows = dispute_rows (wd_audit w) \<and>
      filter is_terminal_row rows = filter is_terminal_row (wd_audit w)"
    using write_workflow_event_frame [OF e] by (simp add: system_event_def)
  then show ?thesis by (auto simp: x y_def instance_core_def)
qed

lemma schedule_command_Inr:
  assumes "schedule_workflow_command rt Z isof g i w = Inr (w', x)"
  shows "dispute_rows (wd_audit w') = dispute_rows (wd_audit w) \<and> filter is_terminal_row (wd_audit w') = filter is_terminal_row (wd_audit w) \<and>
     wd_instances w' = wd_instances w \<and>
     (wd_commands w' = wd_commands w \<and> list_ex (same_command (new_command (fst g) i)) (wd_commands w) \<or>
      wd_commands w' = wd_commands w @ [new_command (fst g) i])"
proof (cases "find (same_command (new_command (fst g) i)) (wd_commands w)")
  case (Some y)
  then show ?thesis using assms find_Some_in [OF Some] by (auto simp: schedule_workflow_command_def result_simps list_ex_iff)
next
  case None
  then have e: "write_workflow_event (snd g) (command_scheduled_event rt isof (fst g) i)
      (w\<lparr>wd_commands := wd_commands w @ [new_command (fst g) i]\<rparr>) = Inr w'"
    using assms by (auto simp: schedule_workflow_command_def result_simps)
  then show ?thesis using write_workflow_event_frame [OF e] by (auto simp: command_scheduled_event_def system_event_def)
qed

lemma delivery_core_append: "delivery_core (cs @ ds) = delivery_core cs @ delivery_core ds"
  by (simp add: delivery_core_def)

lemma delivery_core_new:
  "delivery_core [new_command n (delivery_command d j t)] = [(n, di_account_id d, j, [(''disputeId'', JString (di_id d))])]"
  by (simp add: delivery_core_def new_command_def delivery_command_def)

lemma draft_has_no_command:
  assumes ok: "delivery_ok ds w" and d: "d \<in> set ds" "di_status d = ''draft''"
    and x: "x \<in> set (wd_instances w) \<or> wi_id x \<notin> wi_id ` set (wd_instances w)"
    and core: "instance_core x = (wi_id x, di_account_id d, t, e, di_id d)"
  shows "\<not> list_ex (same_command (new_command n (delivery_command d (wi_id x) run_after))) (wd_commands w)"
proof
  assume "list_ex (same_command (new_command n (delivery_command d (wi_id x) run_after))) (wd_commands w)"
  then obtain c where c: "c \<in> set (wd_commands w)" "cr_account_id c = di_account_id d" "cr_workflow_instance_id c = wi_id x"
    "wc_command_type c = DELIVER_DISPUTE_COMMAND_TYPE"
    by (auto simp: list_ex_iff same_command_def new_command_def delivery_command_def)
  then have m: "(cr_id c, di_account_id d, wi_id x, wc_payload c) \<in> set (delivery_core (wd_commands w))"
    by (force simp: delivery_core_def)
  then obtain t' e' s where s: "(wi_id x, di_account_id d, t', e', s) \<in> set (map instance_core (wd_instances w))"
    "wc_payload c = [(''disputeId'', JString s)]"
    using delivery_okD [OF ok m] by blast
  then have "wi_id x \<in> wi_id ` set (wd_instances w)" by (auto simp: instance_core_def)
  then have "x \<in> set (wd_instances w)" using x by blast
  then have "instance_core x \<in> set (map instance_core (wd_instances w))" by simp
  moreover have "distinct (map fst (map instance_core (wd_instances w)))" using ok by (simp only: delivery_ok_def)
  ultimately have "(di_account_id d, t, e, di_id d) = (di_account_id d, t', e', s)"
    using s(1) core by (metis distinct_map inj_onD fst_conv prod.inject)
  then have "(cr_id c, di_account_id d, wi_id x, wc_payload c) \<in> set (deliveries w (di_account_id d) (di_id d))"
    using m s(2) by (simp add: deliveries_def)
  moreover have "dispute_core d \<in> set (map dispute_core ds)" using d(1) by simp
  then have "length (deliveries w (di_account_id d) (di_id d)) = 0"
    using ok d(2) unfolding delivery_ok_def dispute_core_def by fastforce
  ultimately show False by simp
qed

lemma approved_delivery_ok:
  assumes ok: "delivery_ok ds w" and d: "d \<in> set ds" "di_status d = ''draft''" and dist: "distinct (map di_id ds)"
    and inst: "x \<in> set (wd_instances w) \<and> wd_instances w' = wd_instances w \<or>
      wi_id x \<notin> wi_id ` set (wd_instances w) \<and> wd_instances w' = wd_instances w @ [x]"
    and core: "instance_core x = (wi_id x, di_account_id d, t, e, di_id d)"
    and cmd: "wd_commands w' = wd_commands w @ [new_command n (delivery_command d (wi_id x) run_after)]"
  shows "delivery_ok (map (\<lambda>y. if y = d then y\<lparr>di_status := ''sent''\<rparr> else y) ds) w'"
proof -
  let ?ds = "map (\<lambda>y. if y = d then y\<lparr>di_status := ''sent''\<rparr> else y) ds"
  note o = ok [unfolded delivery_ok_def]
  have x': "instance_core x \<in> set (map instance_core (wd_instances w'))" using inst by auto
  have sub: "set (map instance_core (wd_instances w)) \<subseteq> set (map instance_core (wd_instances w'))" using inst by auto
  have fsts: "fst ` set (map dispute_core ?ds) = fst ` set (map dispute_core ds)" by (auto simp: dispute_core_def image_image)
  have del: "deliveries w' a i = deliveries w a i @ (if a = di_account_id d \<and> i = di_id d
      then [(n, di_account_id d, wi_id x, [(''disputeId'', JString (di_id d))])] else [])" for a i
    by (simp add: deliveries_def cmd delivery_core_append delivery_core_new)
  have 1: "distinct (map fst (map instance_core (wd_instances w')))"
    using inst o by (auto simp: instance_core_def comp_def)
  have 2: "length (deliveries w' a i) = (if draft then 0 else 1)"
    if "(i, a, amount, cur, draft) \<in> set (map dispute_core ?ds)" for i a amount cur draft
  proof -
    obtain y where y: "y \<in> set ds" and c: "(i, a, amount, cur, draft) = dispute_core (if y = d then y\<lparr>di_status := ''sent''\<rparr> else y)"
      using \<open>(i, a, amount, cur, draft) \<in> set (map dispute_core ?ds)\<close> by auto
    have old: "length (deliveries w (di_account_id y) (di_id y)) = (if di_status y = ''draft'' then 0 else 1)"
      using o y by (fastforce simp: dispute_core_def)
    show ?thesis
    proof (cases "y = d")
      case True
      then show ?thesis using c old d(2) by (simp add: dispute_core_def del)
    next
      case False
      then have "di_id y \<noteq> di_id d" using y d(1) dist by (metis distinct_map inj_onD)
      then show ?thesis using c old False by (simp add: dispute_core_def del)
    qed
  qed
  have 3: "\<exists>t e s. (j, a, t, e, s) \<in> set (map instance_core (wd_instances w')) \<and> p = [(''disputeId'', JString s)] \<and>
      s \<in> fst ` set (map dispute_core ?ds)" if "(y, a, j, p) \<in> set (delivery_core (wd_commands w'))" for y a j p
  proof (cases "(y, a, j, p) \<in> set (delivery_core (wd_commands w))")
    case True
    then show ?thesis using delivery_okD [OF ok True] sub unfolding fsts by blast
  next
    case False
    then have "y = n \<and> a = di_account_id d \<and> j = wi_id x \<and> p = [(''disputeId'', JString (di_id d))]"
      using \<open>(y, a, j, p) \<in> set (delivery_core (wd_commands w'))\<close> by (simp add: cmd delivery_core_append delivery_core_new)
    moreover have "di_id d \<in> fst ` set (map dispute_core ds)" using d(1) by (force simp: dispute_core_def)
    ultimately show ?thesis using x' core unfolding fsts by auto
  qed
  show ?thesis unfolding delivery_ok_def
  proof (intro conjI ballI)
    fix k
    assume k: "k \<in> set (map dispute_core ?ds)"
    obtain i a amount cur draft where "k = (i, a, amount, cur, draft)" by (metis surj_pair)
    then show "case k of (i, a, amount, cur, draft) \<Rightarrow> length (deliveries w' a i) = (if draft then 0 else 1)" using k 2 by simp
  next
    fix k
    assume k: "k \<in> set (delivery_core (wd_commands w'))"
    obtain y a j p where "k = (y, a, j, p)" by (metis surj_pair)
    then show "case k of (y, a, j, p) \<Rightarrow> \<exists>t e s. (j, a, t, e, s) \<in> set (map instance_core (wd_instances w')) \<and>
        p = [(''disputeId'', JString s)] \<and> s \<in> fst ` set (map dispute_core ?ds)" using k 3 by (simp only: prod.case)
  qed (rule 1)
qed

text \<open>The two workflow operations of an approval, on the shared ledger.\<close>

lemma on_create_instance:
  assumes "on_workflow (create_workflow_instance rt new_id now i) db = Inr (db', x)"
  shows "dispute_frame (dp_claims db') = dispute_frame (dp_claims db) \<and> claims_frame (dp_claims db') = claims_frame (dp_claims db) \<and>
     wd_commands (dp_workflow db') = wd_commands (dp_workflow db) \<and>
     instance_core x = (wi_id x, ci_client_id i, ci_workflow_type i, ci_subject_entity i, ci_subject_entity_id i) \<and>
     (x \<in> set (wd_instances (dp_workflow db)) \<and> wd_instances (dp_workflow db') = wd_instances (dp_workflow db) \<or>
      wi_id x = new_id \<and> wd_instances (dp_workflow db') = wd_instances (dp_workflow db) @ [x])"
proof -
  have "dispute_frame (dp_claims db') = dispute_frame (dp_claims db) \<and> claims_frame (dp_claims db') = claims_frame (dp_claims db) \<and>
     create_workflow_instance rt new_id now i ((dp_workflow db)\<lparr>wd_audit := cd_audit (dp_claims db)\<rparr>) = Inr (dp_workflow db', x)"
    by (rule on_workflow_frames [OF assms]) (use create_instance_Inr in blast)
  then show ?thesis using create_instance_Inr [of rt new_id now i _ "dp_workflow db'" x] by fastforce
qed

lemma on_schedule_command:
  assumes "on_workflow (schedule_workflow_command rt Z isof g i) db = Inr (db', x)"
    and "\<not> list_ex (same_command (new_command (fst g) i)) (wd_commands (dp_workflow db))"
  shows "dispute_frame (dp_claims db') = dispute_frame (dp_claims db) \<and> claims_frame (dp_claims db') = claims_frame (dp_claims db) \<and>
     wd_instances (dp_workflow db') = wd_instances (dp_workflow db) \<and>
     wd_commands (dp_workflow db') = wd_commands (dp_workflow db) @ [new_command (fst g) i]"
proof -
  have "dispute_frame (dp_claims db') = dispute_frame (dp_claims db) \<and> claims_frame (dp_claims db') = claims_frame (dp_claims db) \<and>
     schedule_workflow_command rt Z isof g i ((dp_workflow db)\<lparr>wd_audit := cd_audit (dp_claims db)\<rparr>) = Inr (dp_workflow db', x)"
    by (rule on_workflow_frames [OF assms(1)]) (use schedule_command_Inr in blast)
  then show ?thesis using schedule_command_Inr [of rt Z isof g i _ "dp_workflow db'" x] assms(2) by fastforce
qed

definition money_core :: "dispute \<Rightarrow> uuid \<times> uuid \<times> int option \<times> string option" where
  "money_core d = (di_id d, di_account_id d, di_amount_claimed d, di_currency d)"

lemma approve_dispute_ok:
  assumes ok: "disputes_ok (dp_claims db)" and del: "delivery_ok (cd_disputes (dp_claims db)) (dp_workflow db)"
    and new: "fresh ''workflow_instance'' 0 \<notin> wi_id ` set (wd_instances (dp_workflow db))"
    and r: "approve_dispute rt Z isof visible fresh now run_after i actor db = Inr (db', b)"
  shows "disputes_ok (dp_claims db') \<and> claims_frame (dp_claims db') = claims_frame (dp_claims db) \<and>
     cd_dispute_lines (dp_claims db') = cd_dispute_lines (dp_claims db) \<and> delivery_ok (cd_disputes (dp_claims db')) (dp_workflow db') \<and>
     map money_core (cd_disputes (dp_claims db')) = map money_core (cd_disputes (dp_claims db))"
proof (cases "update_dispute visible [''draft''] (\<lambda>d. d\<lparr>di_status := ''sent''\<rparr>) i db")
  case None
  then show ?thesis using r ok del by (auto simp: approve_dispute_def)
next
  case (Some p)
  obtain db1 d where p: "p = (db1, d)" by (cases p)
  note u = Some [unfolded p]
  obtain db2 db3 x db4 y where w: "write_dispute_event now (dispute_moved_event rt (di_account_id d) (di_id d) ''draft'' ''sent'' ''dispute.approved'' actor []) db1 = Inr db2"
    and ci: "on_workflow (create_workflow_instance rt (fresh ''workflow_instance'' 0) now (delivery_instance d)) db2 = Inr (db3, x)"
    and sc: "on_workflow (schedule_workflow_command rt Z isof (fresh ''workflow_command'' 0, now) (delivery_command d (wi_id x) run_after)) db3 = Inr (db4, y)"
    and db': "db' = db4"
    using r u by (auto simp: approve_dispute_def result_simps)
  have dist: "distinct (map di_id (cd_disputes (dp_claims db)))" using ok by (simp add: disputes_ok_def)
  note d = update_dispute_Some [OF u this]
  have dok: "dispute_ok (dp_claims db) d" using ok d by (simp add: disputes_ok_def)
  then have l: "lifecycle (dispute_log (cd_audit (dp_claims db)) (di_account_id d) (di_id d)) ''draft''" using d by (simp add: dispute_ok_def)
  note m = moved_ok [OF ok u w]
  have m: "disputes_ok (dp_claims db2)" "claims_frame (dp_claims db2) = claims_frame (dp_claims db)"
     "cd_dispute_lines (dp_claims db2) = cd_dispute_lines (dp_claims db)"
     "cd_disputes (dp_claims db2) = map (\<lambda>x. if x = d then x\<lparr>di_status := ''sent''\<rparr> else x) (cd_disputes (dp_claims db))"
     "dp_workflow db2 = dp_workflow db"
    using m lifecycle.sent [OF l] l dok by (simp_all add: dispute_ok_def accepted_ok_def lifecycle_simps)
  have c3: "dispute_frame (dp_claims db3) = dispute_frame (dp_claims db2)" "claims_frame (dp_claims db3) = claims_frame (dp_claims db2)"
    and x: "wd_commands (dp_workflow db3) = wd_commands (dp_workflow db)" "instance_core x = (wi_id x, di_account_id d, ''dispute_delivery'', ''dispute'', di_id d)"
      "x \<in> set (wd_instances (dp_workflow db)) \<and> wd_instances (dp_workflow db3) = wd_instances (dp_workflow db) \<or>
       wi_id x \<notin> wi_id ` set (wd_instances (dp_workflow db)) \<and> wd_instances (dp_workflow db3) = wd_instances (dp_workflow db) @ [x]"
    using on_create_instance [OF ci] new m(5) by (simp_all add: delivery_instance_def) metis
  have x': "x \<in> set (wd_instances (dp_workflow db)) \<or> wi_id x \<notin> wi_id ` set (wd_instances (dp_workflow db))" using x(3) by blast
  have dr: "d \<in> set (cd_disputes (dp_claims db))" "di_status d = ''draft''" using d by auto
  have none: "\<not> list_ex (same_command (new_command (fst (fresh ''workflow_command'' 0, now)) (delivery_command d (wi_id x) run_after)))
      (wd_commands (dp_workflow db3))"
    using draft_has_no_command [OF del dr x' x(2), of "fresh ''workflow_command'' 0" run_after] by (simp only: x(1) fst_conv not_False_eq_True)
  have c4: "dispute_frame (dp_claims db4) = dispute_frame (dp_claims db2)" "claims_frame (dp_claims db4) = claims_frame (dp_claims db2)"
    and y: "wd_instances (dp_workflow db4) = wd_instances (dp_workflow db3)"
      "wd_commands (dp_workflow db4) = wd_commands (dp_workflow db) @ [new_command (fresh ''workflow_command'' 0) (delivery_command d (wi_id x) run_after)]"
    using on_schedule_command [OF sc none] c3 x(1) by simp_all
  have "delivery_ok (map (\<lambda>x. if x = d then x\<lparr>di_status := ''sent''\<rparr> else x) (cd_disputes (dp_claims db))) (dp_workflow db4)"
    by (rule approved_delivery_ok [OF del dr dist _ x(2) y(2)]) (use x(3) y(1) in simp)
  moreover have "disputes_ok (dp_claims db4)" using disputes_ok_cong [OF c4(1)] m(1) by blast
  ultimately show ?thesis
    using c4 m by (auto simp: db' dispute_frame_def money_core_def)
qed

section \<open>Messages and communications\<close>

lemma record_outbox_frame:
  assumes "record_outbox_message rt Z g i w = Inr (w', x)"
  shows "dispute_rows (wd_audit w') = dispute_rows (wd_audit w) \<and> filter is_terminal_row (wd_audit w') = filter is_terminal_row (wd_audit w) \<and>
     workflow_frame w' = workflow_frame w"
proof -
  have ev: "dispute_rows (wd_audit w') = dispute_rows (wd_audit w) \<and> filter is_terminal_row (wd_audit w') = filter is_terminal_row (wd_audit w) \<and>
      workflow_frame w' = workflow_frame w"
    if "write_workflow_event now (system_event rt a ''workflow_outbox_message'' b c d e) (w\<lparr>wd_outbox := ms\<rparr>) = Inr w'" for now a b c d e ms
    using write_workflow_event_frame [OF that] by (auto simp: system_event_def workflow_frame_def)
  show ?thesis using assms ev by (auto simp: record_outbox_message_def result_simps split: option.splits)
qed

lemma record_comm_frame:
  "record_dispute_communication Z visible g i db = Inr (db', x) \<Longrightarrow> \<exists>ms. db' = db\<lparr>dp_comms := ms\<rparr>"
  by (auto simp: record_dispute_communication_def Let_def split: option.splits intro!: exI [of _ "dp_comms db'"])

lemma deliver_frame:
  assumes "handle_deliver_dispute_command rt Z visible fresh now ctx db = Inr db'"
  shows "dispute_frame (dp_claims db') = dispute_frame (dp_claims db) \<and> claims_frame (dp_claims db') = claims_frame (dp_claims db) \<and>
     workflow_frame (dp_workflow db') = workflow_frame (dp_workflow db)"
proof -
  obtain i db1 x y where o: "on_workflow (record_outbox_message rt Z (fresh ''workflow_outbox_message'' 0, now) (delivery_message ctx i)) db = Inr (db1, x)"
    and c: "record_dispute_communication Z visible (fresh ''dispute_comm'' 0, now) (delivery_comm i) db1 = Inr (db', y)"
    using assms by (auto simp: handle_deliver_dispute_command_def result_simps split: option.splits json.splits if_splits)
  have "dispute_frame (dp_claims db1) = dispute_frame (dp_claims db) \<and> claims_frame (dp_claims db1) = claims_frame (dp_claims db) \<and>
     record_outbox_message rt Z (fresh ''workflow_outbox_message'' 0, now) (delivery_message ctx i)
       ((dp_workflow db)\<lparr>wd_audit := cd_audit (dp_claims db)\<rparr>) = Inr (dp_workflow db1, x)"
    by (rule on_workflow_frames [OF o]) (use record_outbox_frame in blast)
  then have "dispute_frame (dp_claims db1) = dispute_frame (dp_claims db)" "claims_frame (dp_claims db1) = claims_frame (dp_claims db)"
    "workflow_frame (dp_workflow db1) = workflow_frame (dp_workflow db)"
    using record_outbox_frame [of rt Z _ _ _ "dp_workflow db1" x] by (auto simp: workflow_frame_def)
  then show ?thesis using record_comm_frame [OF c] by auto
qed

text \<open>The claim cycle of the workflow runtime keeps the commands it works on.\<close>

lemma delivery_core_map:
  "(\<And>c. cr_id (f c) = cr_id c \<and> cr_account_id (f c) = cr_account_id c \<and> cr_workflow_instance_id (f c) = cr_workflow_instance_id c \<and>
     wc_command_type (f c) = wc_command_type c \<and> wc_payload (f c) = wc_payload c) \<Longrightarrow> delivery_core (map f cs) = delivery_core cs"
  unfolding delivery_core_def by (induction cs) auto

lemma workflow_frame_map:
  assumes "w' = w\<lparr>wd_commands := map (\<lambda>r. if p r then f r else r) (wd_commands w)\<rparr>"
    and "\<And>c. cr_id (f c) = cr_id c \<and> cr_account_id (f c) = cr_account_id c \<and> cr_workflow_instance_id (f c) = cr_workflow_instance_id c \<and>
       wc_command_type (f c) = wc_command_type c \<and> wc_payload (f c) = wc_payload c"
  shows "workflow_frame w' = workflow_frame w"
proof -
  have "delivery_core (map (\<lambda>r. if p r then f r else r) (wd_commands w)) = delivery_core (wd_commands w)"
    by (rule delivery_core_map) (use assms(2) in simp)
  then show ?thesis by (simp add: workflow_frame_def assms(1))
qed

lemma claim_due_frame:
  assumes "claim_due_workflow_commands Z locked q w = Inr (w', due)"
  shows "workflow_frame w' = workflow_frame w"
proof -
  have "w' = w\<lparr>wd_commands := map (\<lambda>r. if cr_id r \<in> set (map cr_id (select_rows locked (is_due q) cr_due (cq_limit q) (wd_commands w)))
      then mark_claimed (cq_now q) r else r) (wd_commands w)\<rparr>"
    using assms by (auto simp: claim_due_workflow_commands_def claim_due_def update_rows_def result_simps)
  then show ?thesis by (rule workflow_frame_map) (simp add: mark_claimed_def)
qed

lemma complete_command_frame:
  assumes "complete_workflow_command Z client i w = Inr (w', b)"
  shows "workflow_frame w' = workflow_frame w"
proof -
  have "w' = w\<lparr>wd_commands := map (\<lambda>r. if cr_account_id r = client \<and> cr_id r = i \<and> (cr_status r = Claimed \<or> cr_status r = Finished)
      then r\<lparr>cr_status := Finished\<rparr> else r) (wd_commands w)\<rparr>"
    using assms by (auto simp: complete_workflow_command_def complete_claim_def Let_def result_simps)
  then show ?thesis by (rule workflow_frame_map) simp
qed

section \<open>Claims backed by disputes\<close>

definition claim_core :: "claim \<Rightarrow> uuid \<times> uuid option \<times> int \<times> string option" where
  "claim_core x = (cl_account_id x, cl_dispute_id x, cl_amount_claimed x, cl_currency x)"

definition backed :: "(uuid \<times> uuid \<times> int option \<times> string option) list \<Rightarrow> claim \<Rightarrow> bool" where
  "backed ms x \<longleftrightarrow> (\<forall>i. cl_dispute_id x = Some i \<longrightarrow> (i, cl_account_id x, Some (cl_amount_claimed x), cl_currency x) \<in> set ms)"

definition claims_backed :: "claims_db \<Rightarrow> bool" where
  "claims_backed c \<longleftrightarrow> (\<forall>x \<in> set (cd_claims c). backed (map money_core (cd_disputes c)) x)"

lemma backed_core: "claim_core x = claim_core y \<Longrightarrow> backed ms x \<longleftrightarrow> backed ms y"
  by (simp add: claim_core_def backed_def)

lemma backed_mono: "backed ms x \<Longrightarrow> set ms \<subseteq> set ms' \<Longrightarrow> backed ms' x"
  by (auto simp: backed_def)

lemma claims_backed_map:
  assumes "claims_backed c" and "cd_claims c' = map f (cd_claims c)" and "\<And>x. claim_core (f x) = claim_core x"
    and "cd_disputes c' = cd_disputes c"
  shows "claims_backed c'"
  using assms(1) backed_core [OF assms(3)] unfolding claims_backed_def assms(2,4) by auto

lemma resolve_claim_claims:
  assumes "resolve_claim D rt Z new_id ev now i c = Inr (c', r)"
  shows "\<exists>f. cd_claims c' = map f (cd_claims c) \<and> (\<forall>x. claim_core (f x) = claim_core x)"
proof -
  obtain x v c1 rid c2 b where ins: "(case vr_amount_recovered v of None \<Rightarrow> Inr (c, None)
        | Some a \<Rightarrow> rbind (insert_recovery new_id (rs_client_id i) (rs_claim_id i) (rs_variance_finding_id i) a (vr_currency v) c)
            (\<lambda>db'. Inr (db', Some new_id))) = Inr (c1, rid)"
    and mir: "mirror_finding rt ev now i v (set_claim_status (rs_client_id i) (rs_claim_id i) (vr_new_status v) c1) = Inr c2"
    and w: "write_claims_event now (claim_resolved_event rt (rs_client_id i) (rs_claim_id i) v rid) c2 = Inr (c', b)"
    by (rule resolve_claim_stages [OF assms])
  have "cd_claims c1 = cd_claims c" using ins by (auto simp: result_simps split: option.splits dest!: insert_recovery_frame)
  then show ?thesis
    using write_event_frame [OF w] mirror_finding_frame [OF mir]
    by (intro exI [of _ "\<lambda>c. if cl_account_id c = rs_client_id i \<and> cl_id c = rs_claim_id i then c\<lparr>cl_status := vr_new_status v\<rparr> else c"])
      (simp add: set_claim_status_def claim_core_def)
qed

lemma claims_step_backed:
  assumes "claims_step D rt Z B isof c c'" and ds: "cd_disputes c' = cd_disputes c" and ok: "claims_backed c"
  shows "claims_backed c'"
  using assms(1)
proof (cases rule: claims_step.cases)
  case (opened new_id now ci r1)
  have "backed (map money_core (cd_disputes c)) (opened_claim new_id now a i n cur)"
    if "d \<in> set (cd_disputes c)" "di_amount_claimed d = Some n" "di_currency d = Some cur" "di_account_id d = a" "di_id d = i" for d n cur a i
    using that by (force simp: backed_def opened_claim_def money_core_def)
  then show ?thesis using create_claim_row [OF opened(2)] ok ds by (auto simp: claims_backed_def)
next
  case (recovered new_id now at_text ri r2)
  then show ?thesis using claims_backed_map [OF ok, of c' id] record_partial_frame [OF recovered] ds by simp
next
  case (resolved new_id ev now si r3)
  obtain f where "cd_claims c' = map f (cd_claims c)" "\<And>x. claim_core (f x) = claim_core x"
    using resolve_claim_claims [OF resolved] by blast
  then show ?thesis using claims_backed_map [OF ok _ _ ds] by blast
next
  case (deadline client i days t)
  then obtain d where "c' = c\<lparr>cd_claims := map (\<lambda>x. if cl_account_id x = client \<and> cl_id x = i
      then x\<lparr>cl_aging_deadline_at := Some d\<rparr> else x) (cd_claims c)\<rparr>"
    by (auto simp: set_claim_aging_deadline_def result_simps split: option.splits)
  then show ?thesis by (intro claims_backed_map [OF ok _ _ ds, of "\<lambda>x. if cl_account_id x = client \<and> cl_id x = i
      then x\<lparr>cl_aging_deadline_at := Some d\<rparr> else x"]) (simp_all add: claim_core_def)
next
  case (followed_up clock now client i r4)
  then have "cd_claims c' = cd_claims c"
    by (auto simp: generate_claim_follow_up_def result_simps Let_def split: option.splits dest!: write_event_frame)
  then show ?thesis using claims_backed_map [OF ok, of c' id] ds by simp
next
  case (escalated clock now days client i r5)
  then have "cd_claims c' = cd_claims c"
    by (auto simp: generate_claim_escalation_def result_simps Let_def split: option.splits dest!: write_event_frame)
  then show ?thesis using claims_backed_map [OF ok, of c' id] ds by simp
next
  case (scanned now r6)
  then show ?thesis using claims_backed_map [OF ok, of c' id] same_but_jobs_fields [OF schedule_frame [OF scanned]] ds by simp
next
  case (disputed ls ds')
  then show ?thesis using ok ds by (simp add: claims_backed_def)
qed

section \<open>The system\<close>

text \<open>
  One transaction after another: audits add findings, analysts review and assign them, disputes are
  created, approved, delivered, answered and closed, communications are logged, the workflow runtime
  works on its rows, and the claims module runs. Generated ids are fresh; an accepted amount has
  passed the pattern of its route.
\<close>

inductive system_step ::
  "'d decimal_lib \<Rightarrow> runtime \<Rightarrow> zod_lib \<Rightarrow> boss_lib \<Rightarrow> (instant \<Rightarrow> string) \<Rightarrow> dispute_db \<Rightarrow> dispute_db \<Rightarrow> bool"
  for D :: "'d decimal_lib" and rt Z B isof where
  audited: "db' = db\<lparr>dp_invoices := ivs, dp_runs := rs, dp_claims := (dp_claims db)\<lparr>cd_findings := cd_findings (dp_claims db) @ fs\<rparr>\<rparr> \<Longrightarrow>
     findings_ok (dp_claims db') \<Longrightarrow> system_step D rt Z B isof db db'"
| reviewed: "on_claims (update_finding_status rt visible new_id now i st remark actor) db = Inr (db', b) \<Longrightarrow> system_step D rt Z B isof db db'"
| assigned: "assign_finding rt visible new_id now i assignee actor db = Inr (db', b) \<Longrightarrow> system_step D rt Z B isof db db'"
| created: "fresh ''dispute'' 0 \<notin> di_id ` set (cd_disputes (dp_claims db)) \<Longrightarrow>
     create_dispute_from_findings D rt Z visible fresh now ci db = Inr (db', r) \<Longrightarrow> system_step D rt Z B isof db db'"
| approved: "fresh ''workflow_instance'' 0 \<notin> wi_id ` set (wd_instances (dp_workflow db)) \<Longrightarrow>
     approve_dispute rt Z isof visible fresh now run_after i actor' db = Inr (db', b) \<Longrightarrow> system_step D rt Z B isof db db'"
| accepted: "accept_dispute rt visible (\<lambda>ds. ds) now i actor' db = Inr (db', b) \<Longrightarrow> system_step D rt Z B isof db db'"
| rejected: "reject_dispute rt visible (\<lambda>ds. ds) now i actor' db = Inr (db', b) \<Longrightarrow> system_step D rt Z B isof db db'"
| partly: "is_amount_literal amount \<Longrightarrow> partially_accept_dispute D rt visible (\<lambda>ds. ds) now i actor' amount db = Inr (db', b) \<Longrightarrow>
     system_step D rt Z B isof db db'"
| closed: "close_dispute rt visible (\<lambda>ds. ds) now i actor' db = Inr (db', b) \<Longrightarrow> system_step D rt Z B isof db db'"
| logged: "record_dispute_communication Z visible g ki db = Inr (db', x) \<Longrightarrow> system_step D rt Z B isof db db'"
| delivered: "handle_deliver_dispute_command rt Z visible fresh now ctx db = Inr db' \<Longrightarrow> system_step D rt Z B isof db db'"
| worked: "workflow_frame w = workflow_frame (dp_workflow db) \<Longrightarrow> system_step D rt Z B isof db (db\<lparr>dp_workflow := w\<rparr>)"
| claimed: "claims_step D rt Z B isof (dp_claims db) c \<Longrightarrow> cd_disputes c = cd_disputes (dp_claims db) \<Longrightarrow>
     cd_dispute_lines c = cd_dispute_lines (dp_claims db) \<Longrightarrow> system_step D rt Z B isof db (db\<lparr>dp_claims := c\<rparr>)"

definition system_ok :: "dispute_db \<Rightarrow> bool" where
  "system_ok db \<longleftrightarrow>
     disputes_ok (dp_claims db) \<and> delivery_ok (cd_disputes (dp_claims db)) (dp_workflow db) \<and>
     claims_ok (dp_claims db) \<and> claimed_once (dp_claims db) \<and> claims_backed (dp_claims db)"

lemma system_disputes: "system_ok db \<Longrightarrow> disputes_ok (dp_claims db)"
  by (simp add: system_ok_def)

text \<open>A step that leaves the disputes as they are, or only moves them.\<close>

lemma claims_frame_ok:
  assumes "claims_frame c' = claims_frame c"
  shows "claims_ok c' \<longleftrightarrow> claims_ok c" and "claim_keys c' = claim_keys c" and "cd_claims c' = cd_claims c"
  using assms claims_ok_cong [of c' c] by (simp_all add: claims_frame_def claim_keys_def)

lemma quiet_step_ok:
  assumes ok: "system_ok db" and d: "disputes_ok (dp_claims db')" and f: "claims_frame (dp_claims db') = claims_frame (dp_claims db)"
    and l: "cd_dispute_lines (dp_claims db') = cd_dispute_lines (dp_claims db)"
    and m: "map money_core (cd_disputes (dp_claims db')) = map money_core (cd_disputes (dp_claims db))"
    and w: "delivery_ok (cd_disputes (dp_claims db')) (dp_workflow db')"
  shows "system_ok db'"
  using ok d w claims_frame_ok [OF f] claimed_once_cong [OF claims_frame_ok(2) [OF f] l]
  unfolding system_ok_def claims_backed_def m by simp

lemma framed_step_ok:
  assumes ok: "system_ok db" and d: "dispute_frame (dp_claims db') = dispute_frame (dp_claims db)"
    and f: "claims_frame (dp_claims db') = claims_frame (dp_claims db)"
    and w: "workflow_frame (dp_workflow db') = workflow_frame (dp_workflow db)"
  shows "system_ok db'"
proof -
  have e: "cd_disputes (dp_claims db') = cd_disputes (dp_claims db)" "cd_dispute_lines (dp_claims db') = cd_dispute_lines (dp_claims db)"
    using d by (simp_all add: dispute_frame_def)
  show ?thesis
    by (rule quiet_step_ok [OF ok _ f e(2)]) (use ok e(1) disputes_ok_cong [OF d] delivery_ok_cong [OF _ w] in \<open>simp_all add: system_ok_def\<close>)
qed

lemma answered_step_ok:
  assumes ok: "system_ok db" and a: "answered db db'"
  shows "system_ok db'"
proof (rule quiet_step_ok [OF ok])
  have c: "map dispute_core (cd_disputes (dp_claims db')) = map dispute_core (cd_disputes (dp_claims db))" using a by (simp add: answered_def)
  have drop: "map money_core ds = map (\<lambda>(i, a, n, cur, b). (i, a, n, cur)) (map dispute_core ds)" for ds
    by (simp add: comp_def money_core_def dispute_core_def)
  show "map money_core (cd_disputes (dp_claims db')) = map money_core (cd_disputes (dp_claims db))" by (simp only: drop c)
  show "delivery_ok (cd_disputes (dp_claims db')) (dp_workflow db')"
    using ok a delivery_ok_cong [OF c refl] by (simp add: system_ok_def answered_def)
qed (use a in \<open>simp_all add: answered_def\<close>)

lemma audited_ok:
  assumes ok: "system_ok db" and f: "findings_ok (dp_claims db')"
    and db': "db' = db\<lparr>dp_invoices := ivs, dp_runs := rs, dp_claims := (dp_claims db)\<lparr>cd_findings := cd_findings (dp_claims db) @ fs\<rparr>\<rparr>"
  shows "system_ok db'"
proof (rule quiet_step_ok [OF ok])
  have "line_backed (dp_claims db') l" if "line_backed (dp_claims db) l" for l
    using that by (auto simp: line_backed_def db')
  then have "dispute_ok (dp_claims db') d" if "dispute_ok (dp_claims db) d" for d
    using that by (simp add: dispute_ok_def dispute_money_def lines_of_def db')
  then show "disputes_ok (dp_claims db')" using ok f unfolding system_ok_def disputes_ok_def by (simp add: db')
qed (use ok in \<open>simp_all add: db' claims_frame_def terminal_log_def system_ok_def\<close>)

lemma claimed_ok:
  assumes ok: "system_ok db" and c: "claims_ok c" "claimed_once c" and b: "claims_backed c"
    and f: "dispute_frame c = dispute_frame (dp_claims db)"
  shows "system_ok (db\<lparr>dp_claims := c\<rparr>)"
  using ok c b disputes_ok_cong [OF f] f unfolding system_ok_def by (simp add: dispute_frame_def)

lemma draft_added:
  assumes "delivery_ok ds w" and "di_status d = ''draft''" and "di_id d \<notin> di_id ` set ds"
  shows "delivery_ok (ds @ [d]) w"
proof -
  have "deliveries w (di_account_id d) (di_id d) = []"
    using assms(1,3) unfolding delivery_ok_def deliveries_def by (fastforce simp: filter_empty_conv dispute_core_def)
  then have "\<forall>(i, a, amount, cur, draft) \<in> set (map dispute_core (ds @ [d])). length (deliveries w a i) = (if draft then 0 else 1)"
    using assms(1,2) by (auto simp: delivery_ok_def dispute_core_def)
  moreover have "fst ` set (map dispute_core ds) \<subseteq> fst ` set (map dispute_core (ds @ [d]))" by auto
  ultimately show ?thesis using assms(1) unfolding delivery_ok_def by fast
qed

context fixed_notation
begin

lemma created_ok:
  assumes ok: "system_ok db" and new: "fresh ''dispute'' 0 \<notin> di_id ` set (cd_disputes (dp_claims db))"
    and r: "create_dispute_from_findings D rt Z visible fresh now ci db = Inr (db', r)"
  shows "system_ok db'"
proof -
  note o = ok [unfolded system_ok_def]
  obtain d ls where d: "cd_disputes (dp_claims db') = cd_disputes (dp_claims db) @ [d]" "di_id d = fresh ''dispute'' 0" "di_status d = ''draft''"
    and ls: "cd_dispute_lines (dp_claims db') = cd_dispute_lines (dp_claims db) @ ls" "\<forall>l \<in> set ls. dl_dispute_id l = di_id d"
    and rest: "disputes_ok (dp_claims db')" "claims_frame (dp_claims db') = claims_frame (dp_claims db)" "dp_workflow db' = dp_workflow db"
    using create_dispute_ok [OF _ new r] o by blast
  note fr = claims_frame_ok [OF rest(2)]
  have carried: "claims_backed (dp_claims db')"
    using o backed_mono [of "map money_core (cd_disputes (dp_claims db))" _ "map money_core (cd_disputes (dp_claims db'))"]
    by (auto simp: claims_backed_def fr(3) d(1))
  have unclaimed: "\<forall>l \<in> set ls. \<forall>x \<in> set (cd_claims (dp_claims db)). cl_dispute_id x \<noteq> Some (dl_dispute_id l)"
    using o ls(2) d(2) new by (fastforce simp: claims_backed_def backed_def money_core_def)
  have "claim_keys (dp_claims db') = claim_keys ((dp_claims db)\<lparr>cd_disputes := [], cd_dispute_lines := cd_dispute_lines (dp_claims db) @ ls\<rparr>)"
    using fr(3) by (simp add: claim_keys_def)
  then have "claimed_once (dp_claims db') \<longleftrightarrow>
      claimed_once ((dp_claims db)\<lparr>cd_disputes := [], cd_dispute_lines := cd_dispute_lines (dp_claims db) @ ls\<rparr>)"
    by (rule claimed_once_cong) (simp add: ls(1))
  then have "claimed_once (dp_claims db')" using add_lines_claimed_once [OF _ unclaimed, of "[]"] o by simp
  moreover have "delivery_ok (cd_disputes (dp_claims db')) (dp_workflow db')"
    unfolding d(1) rest(3) using draft_added [OF _ d(3)] o new d(2) by metis
  ultimately show ?thesis using rest(1) carried o fr(1) by (simp add: system_ok_def)
qed

lemma system_step_ok: "system_step D rt Z B isof db db' \<Longrightarrow> system_ok db \<Longrightarrow> system_ok db'"
proof (induction rule: system_step.induct)
  case (audited db' db ivs rs fs)
  then show ?case by (auto intro: audited_ok)
next
  case (reviewed visible new_id now i st remark actor db db' b)
  then obtain c where "update_finding_status rt visible new_id now i st remark actor (dp_claims db) = Inr (c, b)" "db' = db\<lparr>dp_claims := c\<rparr>"
    by (auto simp: on_claims_def split: sum.splits)
  then show ?case using framed_step_ok [OF reviewed(2), of db'] update_finding_frames by auto
next
  case (assigned visible new_id now i assignee actor db db' b)
  then show ?case using framed_step_ok [OF assigned(2), of db'] assign_finding_frames [OF assigned(1)] by simp
next
  case (approved fresh db visible now run_after i actor' db' b)
  have "disputes_ok (dp_claims db)" "delivery_ok (cd_disputes (dp_claims db)) (dp_workflow db)" using approved(3) by (simp_all add: system_ok_def)
  note a = approve_dispute_ok [OF this approved(1,2)]
  then show ?case by (intro quiet_step_ok [OF approved(3)]) simp_all
next
  case (logged visible g ki db db' x)
  then show ?case using framed_step_ok [OF logged(2), of db'] record_comm_frame [OF logged(1)] by auto
next
  case (delivered visible fresh now ctx db db')
  then show ?case using framed_step_ok [OF delivered(2), of db'] deliver_frame [OF delivered(1)] by simp
next
  case (worked w db)
  then show ?case using framed_step_ok [OF worked(2), of "db\<lparr>dp_workflow := w\<rparr>"] by simp
next
  case (claimed db c)
  have o: "claims_ok (dp_claims db)" "claimed_once (dp_claims db)" "claims_backed (dp_claims db)" using claimed(4) by (simp_all add: system_ok_def)
  show ?case
    by (rule claimed_ok [OF claimed(4) claims_step_ok [OF claimed(1) o(1)] claims_step_claimed_once [OF claimed(1) o(2)]
          claims_step_backed [OF claimed(1,2) o(3)] claims_step_frame [OF claimed(1-3)]])
qed (blast intro: created_ok answered_step_ok accept_dispute_answered reject_dispute_answered
    partially_accept_dispute_answered close_dispute_answered dest: system_disputes)+

lemma system_run_ok: "(system_step D rt Z B isof)\<^sup>*\<^sup>* db db' \<Longrightarrow> system_ok db \<Longrightarrow> system_ok db'"
  by (induction rule: rtranclp_induct) (auto intro: system_step_ok)

end

end
