(* ===== verification/Dispute_Messages.thy ===== *)
theory Dispute_Messages
  imports Dispute_System
begin

text \<open>
  Retried requests: recording a communication and delivering a dispute are idempotent, creating a
  dispute again from the same findings is refused, and a logged reply takes a dispute off the queue.
\<close>

section \<open>Communications\<close>

definition dispute_key :: "dispute \<Rightarrow> uuid \<times> uuid" where
  "dispute_key d = (di_id d, di_account_id d)"

text \<open>Communications and disputes are only added.\<close>

definition comms_extend :: "dispute_db \<Rightarrow> dispute_db \<Rightarrow> bool" where
  "comms_extend s s' \<longleftrightarrow>
     prefix (dp_comms s) (dp_comms s') \<and>
     prefix (map dispute_key (cd_disputes (dp_claims s))) (map dispute_key (cd_disputes (dp_claims s')))"

lemma find_dispute_account:
  assumes "find (visible_dispute visible i) ds = Some d" and "prefix (map dispute_key ds) (map dispute_key ds')"
  shows "\<exists>d'. find (visible_dispute visible i) ds' = Some d' \<and> di_account_id d' = di_account_id d"
proof -
  have k: "map_option dispute_key (find (visible_dispute visible i) xs) = find (\<lambda>(j, a). j = i \<and> a \<in> set visible) (map dispute_key xs)" for xs
    by (induction xs) (auto simp: visible_dispute_def dispute_key_def)
  have "find (\<lambda>(j, a). j = i \<and> a \<in> set visible) (map dispute_key ds) = Some (dispute_key d)" using assms(1) k [of ds] by simp
  from find_prefix [OF assms(2) this] have "map_option dispute_key (find (visible_dispute visible i) ds') = Some (dispute_key d)"
    using k [of ds'] by simp
  then show ?thesis by (auto simp: dispute_key_def)
qed

lemma record_comm_Inr:
  "record_dispute_communication Z visible g u db = Inr (db', x, b) \<longleftrightarrow>
     (\<exists>i d. parse_comm_input Z u = Some i \<and> find (visible_dispute visible (ki_dispute_id i)) (cd_disputes (dp_claims db)) = Some d \<and>
        (case find (same_comm (comm_row (fst g) (snd g) (di_account_id d) i)) (dp_comms db) of
           Some m \<Rightarrow> db' = db \<and> x = dm_id m \<and> \<not> b
         | None \<Rightarrow> db' = db\<lparr>dp_comms := dp_comms db @ [comm_row (fst g) (snd g) (di_account_id d) i]\<rparr> \<and> x = fst g \<and> b))"
  by (auto simp: record_dispute_communication_def Let_def split: option.splits)

lemma same_comm_row: "same_comm (comm_row n t a i) = same_comm (comm_row n' t' a i)"
  by (simp add: fun_eq_iff same_comm_def comm_row_def)

interpretation comms: idempotent_write "record_dispute_communication Z visible" comms_extend
proof
  show "comms_extend s s'" if "record_dispute_communication Z visible n i s = Inr (s', r, c)" for n i s s' r c
    using that by (auto simp: record_comm_Inr comms_extend_def split: option.splits)
  show "record_dispute_communication Z visible n' u s'' = Inr (s'', r, False)"
    if w: "record_dispute_communication Z visible n u s = Inr (s', r, c)" and e: "comms_extend s' s''" for n n' u s s' s'' r c
  proof -
    obtain i d where p: "parse_comm_input Z u = Some i" and d: "find (visible_dispute visible (ki_dispute_id i)) (cd_disputes (dp_claims s)) = Some d"
      and w': "case find (same_comm (comm_row (fst n) (snd n) (di_account_id d) i)) (dp_comms s) of
           Some m \<Rightarrow> s' = s \<and> r = dm_id m \<and> \<not> c
         | None \<Rightarrow> s' = s\<lparr>dp_comms := dp_comms s @ [comm_row (fst n) (snd n) (di_account_id d) i]\<rparr> \<and> r = fst n \<and> c"
      using w unfolding record_comm_Inr by blast
    have s': "cd_disputes (dp_claims s') = cd_disputes (dp_claims s)" using w' by (auto split: option.splits)
    obtain d' where d': "find (visible_dispute visible (ki_dispute_id i)) (cd_disputes (dp_claims s'')) = Some d'" "di_account_id d' = di_account_id d"
      using find_dispute_account [OF d] e unfolding comms_extend_def s' by blast
    obtain m where "find (same_comm (comm_row (fst n) (snd n) (di_account_id d) i)) (dp_comms s') = Some m" "dm_id m = r"
      using w' by (auto simp: find_append_None same_comm_def comm_row_def split: option.splits)
    moreover have "prefix (dp_comms s') (dp_comms s'')" using e by (simp add: comms_extend_def)
    ultimately have "find (same_comm (comm_row (fst n') (snd n') (di_account_id d) i)) (dp_comms s'') = Some m"
      using find_prefix same_comm_row by metis
    then show ?thesis using p d' \<open>dm_id m = r\<close> by (auto simp: record_comm_Inr)
  qed
qed (auto simp: comms_extend_def)

section \<open>Delivery\<close>

lemma record_outbox_settled:
  assumes "record_outbox_message rt Z g u w = Inr (w', x, b)"
  shows "record_outbox_message rt Z g' u w' = Inr (w', x, False)"
proof -
  obtain i ty where p: "parse_outbox_input Z u = Some (i, ty)"
    and c: "list_ex (\<lambda>c. cr_account_id c = oi_client_id i \<and> cr_id c = oi_command_id i) (wd_commands w)"
    using assms by (auto simp: record_outbox_message_def result_simps split: option.splits)
  show ?thesis
  proof (cases "find (same_message i) (wd_outbox w)")
    case (Some m)
    then show ?thesis using assms p c by (auto simp: record_outbox_message_def)
  next
    case None
    define m where "m = new_message (fst g) (snd g) ty i"
    have x: "x = fst g" and e: "write_workflow_event (snd g)
        (system_event rt (oi_client_id i) ''workflow_outbox_message'' (fst g) ''workflow.outbox_message_recorded''
           [oi_client_id i, fst g, ''workflow.outbox_message_recorded'']
           [(''workflowInstanceId'', JString (oi_workflow_instance_id i)), (''commandId'', JString (oi_command_id i)),
            (''dedupeKey'', JString (oi_dedupe_key i))]) (w\<lparr>wd_outbox := wd_outbox w @ [m]\<rparr>) = Inr w'"
      using assms p c None by (auto simp: record_outbox_message_def m_def result_simps)
    obtain rows where w': "w' = w\<lparr>wd_outbox := wd_outbox w @ [m], wd_audit := rows\<rparr>"
      using e by (auto simp: write_workflow_event_def split: sum.splits)
    have "same_message i m" "cr_id m = fst g" by (simp_all add: m_def new_message_def same_message_def)
    then have "find (same_message i) (wd_outbox w') = Some m" using None by (simp add: w' find_append_None)
    then show ?thesis using p c by (simp add: record_outbox_message_def w' x \<open>cr_id m = fst g\<close>)
  qed
qed

lemma deliver_settled:
  assumes "handle_deliver_dispute_command rt Z visible fresh now ctx db = Inr db'"
  shows "handle_deliver_dispute_command rt Z visible fresh' now' ctx db' = Inr db'"
proof -
  obtain i db1 x b y b' where i: "map_of (cx_payload ctx) ''disputeId'' = Some (JString i)" "i \<noteq> []"
    and o: "on_workflow (record_outbox_message rt Z (fresh ''workflow_outbox_message'' 0, now) (delivery_message ctx i)) db = Inr (db1, x, b)"
    and c: "record_dispute_communication Z visible (fresh ''dispute_comm'' 0, now) (delivery_comm i) db1 = Inr (db', y, b')"
    using assms by (auto simp: handle_deliver_dispute_command_def result_simps split: option.splits json.splits if_splits)
  obtain w where w: "record_outbox_message rt Z (fresh ''workflow_outbox_message'' 0, now) (delivery_message ctx i)
      ((dp_workflow db)\<lparr>wd_audit := cd_audit (dp_claims db)\<rparr>) = Inr (w, x, b)"
    and db1: "db1 = db\<lparr>dp_workflow := w, dp_claims := (dp_claims db)\<lparr>cd_audit := wd_audit w\<rparr>\<rparr>"
    using o by (auto simp: on_workflow_def split: sum.splits)
  obtain ms where db': "db' = db1\<lparr>dp_comms := ms\<rparr>" using record_comm_frame [OF c] by blast
  have s: "(dp_workflow db')\<lparr>wd_audit := cd_audit (dp_claims db')\<rparr> = w" by (simp add: db' db1)
  have "on_workflow (record_outbox_message rt Z (fresh' ''workflow_outbox_message'' 0, now') (delivery_message ctx i)) db' = Inr (db', x, False)"
    unfolding on_workflow_def s record_outbox_settled [OF w] by (simp add: db' db1)
  then show ?thesis
    using i comms.settled [OF c comms.extends_refl, of "(fresh' ''dispute_comm'' 0, now')"] by (simp add: handle_deliver_dispute_command_def)
qed

section \<open>The response queue\<close>

lemma latest_comm_new:
  assumes "\<forall>m \<in> set (dp_comms db). dm_dispute_id m = di_id d \<longrightarrow> dm_recorded_at m < dm_recorded_at row"
    and "dm_dispute_id row = di_id d" "dm_account_id row = di_account_id d"
  shows "latest_comm d (db\<lparr>dp_comms := dp_comms db @ [row]\<rparr>) = Some row"
proof -
  let ?p = "\<lambda>m. dm_account_id m = di_account_id d \<and> dm_dispute_id m = di_id d" and ?cmp = "descending (by_int dm_recorded_at)"
  note cmp = ordering_by.axioms(1) [OF ordering_descending [OF ordering_by_int [of dm_recorded_at]]]
  have "first_row ?cmp ?p (dp_comms db @ [row]) \<noteq> None" using assms(2,3) by (simp add: first_row_None)
  then obtain r where r: "first_row ?cmp ?p (dp_comms db @ [row]) = Some r" by blast
  have "row = r \<or> ?cmp r row \<le> 0" using comparator.first_row_least [OF cmp r, of row] assms(2,3) by simp
  moreover have "r \<in> set (dp_comms db @ [row])" "dm_dispute_id r = di_id d" using first_row_in [OF r] by auto
  then have "r = row \<or> dm_recorded_at r < dm_recorded_at row" using assms(1) by auto
  moreover have "?cmp r row \<le> 0 \<Longrightarrow> dm_recorded_at row \<le> dm_recorded_at r" by (simp add: descending_def by_int_def split: if_splits)
  ultimately have "r = row" by fastforce
  then show ?thesis using r by (simp add: latest_comm_def)
qed

lemma inbound_not_due:
  assumes dist: "distinct (map di_id (cd_disputes (dp_claims db)))"
    and r: "record_dispute_communication Z visible (n, t) u db = Inr (db', x, True)" and dir: "ki_direction u = ''inbound''"
    and late: "\<forall>m \<in> set (dp_comms db). dm_dispute_id m = ki_dispute_id u \<longrightarrow> dm_recorded_at m < t"
  shows "ki_dispute_id u \<notin> fst ` set (list_disputes_due_for_response visible' client now days db')"
proof
  assume "ki_dispute_id u \<in> fst ` set (list_disputes_due_for_response visible' client now days db')"
  then obtain at_t d where d: "d \<in> set (cd_disputes (dp_claims db'))" "due_entry client now days db' d = Some (ki_dispute_id u, at_t)"
    by (auto simp: list_disputes_due_for_response_def List.map_filter_def)
  obtain i e where p: "parse_comm_input Z u = Some i" and e: "find (visible_dispute visible (ki_dispute_id i)) (cd_disputes (dp_claims db)) = Some e"
    and db': "db' = db\<lparr>dp_comms := dp_comms db @ [comm_row n t (di_account_id e) i]\<rparr>"
    using r by (auto simp: record_comm_Inr split: option.splits)
  have i: "ki_dispute_id i = ki_dispute_id u" "ki_direction i = ''inbound''" using p dir by (auto simp: parse_comm_input_def Let_def split: if_splits)
  have id: "di_id d = ki_dispute_id u" using d(2) by (auto simp: due_entry_def split: if_splits option.splits)
  have "e \<in> set (cd_disputes (dp_claims db))" "di_id e = di_id d" "d \<in> set (cd_disputes (dp_claims db))"
    using d(1) find_Some_in [OF e] id i(1) by (auto simp: db' visible_dispute_def)
  then have "d = e" using dist by (metis distinct_map inj_onD)
  then have "latest_comm d db' = Some (comm_row n t (di_account_id e) i)"
    unfolding db' using late id i(1) by (intro latest_comm_new) (simp_all add: comm_row_def)
  then show False using d(2) i(2) by (auto simp: due_entry_def comm_row_def split: if_splits)
qed

section \<open>Creating a dispute twice\<close>

definition queue_findings :: "uuid list \<Rightarrow> uuid set \<Rightarrow> variance_finding list \<Rightarrow> variance_finding list" where
  "queue_findings visible ids fs =
     map (\<lambda>g. if vf_id g \<in> ids \<and> vf_account_id g \<in> set visible then g\<lparr>vf_status := ''queued_for_dispute''\<rparr> else g) fs"

lemma write_claims_event_findings: "write_claims_event now e c = Inr (c', b) \<Longrightarrow> cd_findings c' = cd_findings c"
  using write_claims_event_Inr [of now e c c' b] by auto

lemma update_finding_rows:
  assumes "update_finding_status rt visible n now i st remark actor c = Inr (c', b)"
  shows "cd_findings c' = map (\<lambda>g. if vf_id g = i \<and> vf_account_id g \<in> set visible then g\<lparr>vf_status := st\<rparr> else g) (cd_findings c)"
proof (cases "find (\<lambda>f. vf_id f = i \<and> vf_account_id f \<in> set visible) (cd_findings c)")
  case None
  then have "\<forall>g \<in> set (cd_findings c). \<not> (vf_id g = i \<and> vf_account_id g \<in> set visible)" by (simp only: find_None_all)
  then have "map (\<lambda>g. if vf_id g = i \<and> vf_account_id g \<in> set visible then g\<lparr>vf_status := st\<rparr> else g) (cd_findings c) = cd_findings c"
    by (intro map_idI) auto
  then show ?thesis using assms None by (auto simp: update_finding_status_def result_simps)
next
  case (Some f)
  then show ?thesis using assms by (auto simp: update_finding_status_def result_simps dest: write_claims_event_findings)
qed

definition invoice_view :: "dispute_db \<Rightarrow> invoice_row list \<times> audit_run_row list" where
  "invoice_view db = (dp_invoices db, dp_runs db)"

lemma include_finding_rows:
  assumes "include_finding rt visible fresh now i did db kr = Inr db'"
  shows "cd_findings (dp_claims db') = queue_findings visible {dr_id (snd kr)} (cd_findings (dp_claims db)) \<and> invoice_view db' = invoice_view db"
proof -
  obtain db1 b where l: "insert_dispute_line (fresh ''dispute_line'' (fst kr)) (cdi_client_id i) did (snd kr) db = Inr db1"
    and u: "on_claims (update_finding_status rt visible (fresh ''finding_status_event'' (fst kr)) now (dr_id (snd kr)) ''queued_for_dispute''
              (Some ''Included in dispute creation'') (cdi_actor_user_id i)) db1 = Inr (db', b)"
    using assms by (auto simp: include_finding_def result_simps)
  have "cd_findings (dp_claims db1) = cd_findings (dp_claims db)" "invoice_view db1 = invoice_view db"
    using l by (auto simp: insert_dispute_line_def invoice_view_def result_simps)
  moreover obtain c where "update_finding_status rt visible (fresh ''finding_status_event'' (fst kr)) now (dr_id (snd kr)) ''queued_for_dispute''
      (Some ''Included in dispute creation'') (cdi_actor_user_id i) (dp_claims db1) = Inr (c, b)" "db' = db1\<lparr>dp_claims := c\<rparr>"
    using u by (auto simp: on_claims_def split: sum.splits)
  ultimately show ?thesis using update_finding_rows by (simp add: queue_findings_def invoice_view_def)
qed

lemma queue_findings_twice: "queue_findings visible (insert i ids) fs = queue_findings visible ids (queue_findings visible {i} fs)"
  by (auto simp: queue_findings_def)

lemma include_findings_rows:
  assumes "rfold (include_finding rt visible fresh now i did) db krs = Inr db'"
  shows "cd_findings (dp_claims db') = queue_findings visible (dr_id ` snd ` set krs) (cd_findings (dp_claims db)) \<and> invoice_view db' = invoice_view db"
  using assms
proof (induction krs arbitrary: db)
  case Nil
  then show ?case by (simp add: queue_findings_def)
next
  case (Cons kr krs)
  then obtain db1 where one: "include_finding rt visible fresh now i did db kr = Inr db1"
    and rest: "rfold (include_finding rt visible fresh now i did) db1 krs = Inr db'"
    by (auto simp: rbind_eq_Inr)
  have "dr_id ` snd ` set (kr # krs) = insert (dr_id (snd kr)) (dr_id ` snd ` set krs)" by simp
  moreover have "queue_findings visible (insert (dr_id (snd kr)) (dr_id ` snd ` set krs)) (cd_findings (dp_claims db)) =
      queue_findings visible (dr_id ` snd ` set krs) (queue_findings visible {dr_id (snd kr)} (cd_findings (dp_claims db)))"
    by (rule queue_findings_twice)
  ultimately show ?case using include_finding_rows [OF one] Cons.IH [OF rest] by presburger
qed

lemma created_rows:
  assumes "create_dispute_from_findings D rt Z visible fresh now i db = Inr (db', r)"
  shows "\<exists>v. validate_disputable_findings D (select_findings visible (cdi_client_id i) (cdi_finding_ids i) db) = Inr v \<and>
     create_dispute_input_ok Z i \<and>
     cd_findings (dp_claims db') = queue_findings visible
       (dr_id ` set (filter (\<lambda>r. dr_id r \<in> set (vd_finding_ids v)) (select_findings visible (cdi_client_id i) (cdi_finding_ids i) db)))
       (cd_findings (dp_claims db)) \<and> invoice_view db' = invoice_view db"
proof -
  let ?rows = "select_findings visible (cdi_client_id i) (cdi_finding_ids i) db"
  obtain v db1 db2 where z: "create_dispute_input_ok Z i" and v: "validate_disputable_findings D ?rows = Inr v"
    and ins: "insert_dispute (fresh ''dispute'' 0) (cdi_client_id i) v db = Inr db1"
    and fold: "rfold (include_finding rt visible fresh now i (fresh ''dispute'' 0)) db1
       (enumerate 0 (filter (\<lambda>r. dr_id r \<in> set (vd_finding_ids v)) ?rows)) = Inr db2"
    and w: "write_dispute_event now (dispute_created_event rt (cdi_client_id i) (cdi_actor_user_id i) (fresh ''dispute'' 0) v) db2 = Inr db'"
    using assms by (auto simp: create_dispute_from_findings_def Let_def result_simps)
  have 1: "cd_findings (dp_claims db1) = cd_findings (dp_claims db)" "invoice_view db1 = invoice_view db"
    using ins by (auto simp: insert_dispute_def put_disputes_def invoice_view_def result_simps)
  have 2: "cd_findings (dp_claims db') = cd_findings (dp_claims db2)" "invoice_view db' = invoice_view db2"
    using write_dispute_event_Inr [OF w] write_claims_event_findings by (auto simp: invoice_view_def)
  have "snd ` set (enumerate 0 xs) = set xs" for xs :: "disputable_finding_row list" by (metis list.set_map map_snd_enumerate)
  then show ?thesis using z v include_findings_rows [OF fold] 1 2 by auto
qed

lemma set_select_findings:
  "r \<in> set (select_findings visible client ids db) \<longleftrightarrow>
     (\<exists>f \<in> set (cd_findings (dp_claims db)). vf_account_id f = client \<and> client \<in> set visible \<and> vf_id f \<in> set ids \<and> disputable_row db f = Some r)"
  by (force simp: select_findings_def List.map_filter_def)

lemma disputable_row_view:
  assumes "invoice_view db' = invoice_view db"
  shows "disputable_row db' (f\<lparr>vf_status := st\<rparr>) = map_option (\<lambda>r. r\<lparr>dr_status := st\<rparr>) (disputable_row db f)"
    and "disputable_row db' f = disputable_row db f"
  using assms by (auto simp: disputable_row_def finding_invoice_def invoice_view_def option.map_comp comp_def split: option.splits
      intro!: arg_cong [where f = "\<lambda>x. map_option x _"])

lemma check_all_refused:
  "rows \<noteq> [] \<Longrightarrow> \<forall>r \<in> set rows. dr_status r \<noteq> ''accepted'' \<Longrightarrow>
   rfold (\<lambda>_ r. check_disputable r) () rows = Inl (DisputableFindingsError FINDING_NOT_ACCEPTED)"
  by (cases rows) (auto simp: check_disputable_def)

lemma create_again_refused:
  assumes "create_dispute_from_findings D rt Z visible fresh now i db = Inr (db', r)"
  shows "create_dispute_from_findings D rt Z visible fresh' now' i db' = Inl (DisputableFindingsError FINDING_NOT_ACCEPTED)"
proof -
  let ?sel = "select_findings visible (cdi_client_id i) (cdi_finding_ids i)"
  let ?ids = "\<lambda>v. dr_id ` set (filter (\<lambda>r. dr_id r \<in> set (vd_finding_ids v)) (?sel db))"
  obtain v where v: "validate_disputable_findings D (?sel db) = Inr v" and z: "create_dispute_input_ok Z i"
    and fs: "cd_findings (dp_claims db') = queue_findings visible (?ids v) (cd_findings (dp_claims db))" and iv: "invoice_view db' = invoice_view db"
    using created_rows [OF assms] by blast
  have ne: "claimable_findings (?sel db) \<noteq> []" and vd: "vd_finding_ids v = map dr_id (claimable_findings (?sel db))"
    using v by (auto simp: validate_disputable_findings_def Let_def result_simps)
  let ?q = "\<lambda>f. if vf_id f \<in> ?ids v \<and> vf_account_id f \<in> set visible then f\<lparr>vf_status := ''queued_for_dispute''\<rparr> else f"
  note row = disputable_row_view [OF iv]
  have refused: "dr_status r \<noteq> ''accepted''" if "r \<in> set (claimable_findings (?sel db'))" for r
  proof -
    have r': "r \<in> set (?sel db')" "dr_direction r \<noteq> Some UNDERCHARGE" using that by (simp_all add: claimable_findings_def)
    then obtain f where f: "f \<in> set (cd_findings (dp_claims db))" "vf_account_id f = cdi_client_id i" "cdi_client_id i \<in> set visible"
      "vf_id f \<in> set (cdi_finding_ids i)" "disputable_row db' (?q f) = Some r"
      unfolding set_select_findings fs queue_findings_def by (auto split: if_splits)
    have "vf_id f \<in> ?ids v"
    proof (rule ccontr)
      assume n: "vf_id f \<notin> ?ids v"
      then have "disputable_row db f = Some r" using f(5) row(2) by simp
      then have "r \<in> set (?sel db)" and "dr_id r = vf_id f" using f by (auto simp: set_select_findings disputable_row_def)
      moreover have "dr_id r \<in> set (vd_finding_ids v)" using \<open>r \<in> set (?sel db)\<close> r'(2) by (simp add: vd claimable_findings_def)
      ultimately have "vf_id f \<in> ?ids v" by (intro image_eqI [of _ _ r]) simp_all
      then show False using n by blast
    qed
    then show ?thesis using f(2,3,5) row(1) by auto
  qed
  obtain r0 where r0: "r0 \<in> set (?sel db)" "dr_direction r0 \<noteq> Some UNDERCHARGE"
    using ne by (auto simp: claimable_findings_def filter_empty_conv)
  then obtain f where f: "f \<in> set (cd_findings (dp_claims db))" "vf_account_id f = cdi_client_id i" "cdi_client_id i \<in> set visible"
    "vf_id f \<in> set (cdi_finding_ids i)" "disputable_row db f = Some r0"
    unfolding set_select_findings by blast
  have "?q f \<in> set (cd_findings (dp_claims db'))" using f(1) by (simp add: fs queue_findings_def)
  moreover have "\<exists>st. disputable_row db' (?q f) = Some (r0\<lparr>dr_status := st\<rparr>)"
  proof (cases "vf_id f \<in> ?ids v \<and> vf_account_id f \<in> set visible")
    case True
    then show ?thesis using f(5) row(1) [where f = f] by auto
  next
    case False
    then have "disputable_row db' (?q f) = Some (r0\<lparr>dr_status := dr_status r0\<rparr>)"
      unfolding if_not_P [OF False] using f(5) row(2) [where f = f] by simp
    then show ?thesis by blast
  qed
  then obtain st where "disputable_row db' (?q f) = Some (r0\<lparr>dr_status := st\<rparr>)" by blast
  ultimately have "r0\<lparr>dr_status := st\<rparr> \<in> set (?sel db')"
    using f(2-4) unfolding set_select_findings by (intro bexI [of _ "?q f"]) simp_all
  then have "r0\<lparr>dr_status := st\<rparr> \<in> set (claimable_findings (?sel db'))" using r0(2) by (simp add: claimable_findings_def)
  then have "claimable_findings (?sel db') \<noteq> []" by (metis empty_iff empty_set)
  then have "validate_disputable_findings D (?sel db') = Inl (DisputableFindingsError FINDING_NOT_ACCEPTED)"
    using check_all_refused refused by (simp add: validate_disputable_findings_def Let_def)
  then show ?thesis using z by (simp add: create_dispute_from_findings_def Let_def)
qed

end
