(* ===== verification/Dispute_Routes.thy ===== *)
theory Dispute_Routes
  imports Disputes
begin

text \<open>
  The HTTP routes of disputes and of the verdicts on findings (src/server/dispute-review-routes.ts, the
  mutating routes of src/server/findings-routes.ts). A request carries what the authentication hook
  resolved: the accounts of the tenant context, the acting user and the role of the membership. A body
  is the list of its members. A transaction that throws is rolled back, and the error is answered.
\<close>

record route_request =
  rq_id :: string
  rq_actor_user_id :: "uuid option"
  rq_actor_role :: "string option"
  rq_client_ids :: "uuid list"
  rq_body :: "(string \<times> json) list"

datatype route_reply =
    Refused nat
  | Moved string string
  | CommRecorded nat uuid
  | FindingUpdated string string
  | FindingActed string string string
  | FindingAssigned string "uuid option"
  | RouteThrown dispute_error

definition ANALYST_MEMBERSHIP_ROLES :: "string list" where
  "ANALYST_MEMBERSHIP_ROLES = [''analyst'', ''lead'']"

definition analyst_only :: "route_request \<Rightarrow> bool" where
  "analyst_only q \<longleftrightarrow> (case rq_actor_role q of None \<Rightarrow> [] | Some r \<Rightarrow> r) \<in> set ANALYST_MEMBERSHIP_ROLES"

definition body_text :: "string \<Rightarrow> route_request \<Rightarrow> string option" where
  "body_text k q = (case map_of (rq_body q) k of Some (JString s) \<Rightarrow> Some s | _ \<Rightarrow> None)"

text \<open>\<open>body.k !== undefined && typeof body.k !== 'string'\<close>\<close>

definition not_a_text :: "string \<Rightarrow> route_request \<Rightarrow> bool" where
  "not_a_text k q \<longleftrightarrow> map_of (rq_body q) k \<noteq> None \<and> body_text k q = None"

section \<open>dispute-review-routes.ts\<close>

text \<open>\<open>/^\d+(\.\d{1,4})?$/\<close>, the pattern of the claims schemas.\<close>

definition MONEY_PATTERN :: "string \<Rightarrow> bool" where
  "MONEY_PATTERN = is_amount_literal"

text \<open>
  The guards the five transition routes share, as the code a failing one answers, and the run of an
  operation with the status answered.
\<close>

definition transition_guard :: "route_request \<Rightarrow> nat option" where
  "transition_guard q =
     (if \<not> analyst_only q then Some 403
      else if \<not> isUuid (rq_id q) then Some 400
      else if \<not> truthy (rq_actor_user_id q) then Some 401
      else None)"

definition run_transition ::
  "(dispute_error, dispute_db \<times> bool) result \<Rightarrow> string \<Rightarrow> route_request \<Rightarrow> dispute_db \<Rightarrow> dispute_db \<times> route_reply" where
  "run_transition r status q db =
     (case r of
        Inl e \<Rightarrow> (db, if e = AcceptedAmountExceedsClaimed then Refused 422 else RouteThrown e)
      | Inr (db', found) \<Rightarrow> (db', if found then Moved (rq_id q) status else Refused 409))"

definition dispute_transition_route ::
  "(uuid \<Rightarrow> dispute_db \<Rightarrow> (dispute_error, dispute_db \<times> bool) result) \<Rightarrow> string \<Rightarrow> route_request \<Rightarrow> dispute_db
   \<Rightarrow> dispute_db \<times> route_reply" where
  "dispute_transition_route operation status q db =
     (case transition_guard q of
        Some code \<Rightarrow> (db, Refused code)
      | None \<Rightarrow> run_transition (operation (the (rq_actor_user_id q)) db) status q db)"

definition approve_route ::
  "runtime \<Rightarrow> zod_lib \<Rightarrow> (instant \<Rightarrow> string) \<Rightarrow> fresh_rows \<Rightarrow> instant \<Rightarrow> instant \<Rightarrow> route_request \<Rightarrow> dispute_db \<Rightarrow> dispute_db \<times> route_reply" where
  "approve_route rt Z isof fresh now run_after q =
     dispute_transition_route (approve_dispute rt Z isof (rq_client_ids q) fresh now run_after (rq_id q)) ''sent'' q"

definition accept_route ::
  "runtime \<Rightarrow> (dispute list \<Rightarrow> dispute list) \<Rightarrow> instant \<Rightarrow> route_request \<Rightarrow> dispute_db \<Rightarrow> dispute_db \<times> route_reply" where
  "accept_route rt between now q =
     dispute_transition_route (accept_dispute rt (rq_client_ids q) between now (rq_id q)) ''accepted'' q"

definition reject_route ::
  "runtime \<Rightarrow> (dispute list \<Rightarrow> dispute list) \<Rightarrow> instant \<Rightarrow> route_request \<Rightarrow> dispute_db \<Rightarrow> dispute_db \<times> route_reply" where
  "reject_route rt between now q =
     dispute_transition_route (reject_dispute rt (rq_client_ids q) between now (rq_id q)) ''rejected'' q"

definition close_route ::
  "runtime \<Rightarrow> (dispute list \<Rightarrow> dispute list) \<Rightarrow> instant \<Rightarrow> route_request \<Rightarrow> dispute_db \<Rightarrow> dispute_db \<times> route_reply" where
  "close_route rt between now q =
     dispute_transition_route (close_dispute rt (rq_client_ids q) between now (rq_id q)) ''closed'' q"

definition partial_accept_route ::
  "'d decimal_lib \<Rightarrow> runtime \<Rightarrow> (dispute list \<Rightarrow> dispute list) \<Rightarrow> instant \<Rightarrow> route_request \<Rightarrow> dispute_db \<Rightarrow> dispute_db \<times> route_reply" where
  "partial_accept_route D rt between now q db =
     (case (transition_guard q, body_text ''acceptedAmount'' q) of
        (Some code, _) \<Rightarrow> (db, Refused code)
      | (None, None) \<Rightarrow> (db, Refused 400)
      | (None, Some amount) \<Rightarrow>
          if \<not> MONEY_PATTERN amount then (db, Refused 400)
          else run_transition (partially_accept_dispute D rt (rq_client_ids q) between now (rq_id q) (the (rq_actor_user_id q)) amount db)
                 ''partial'' q db)"

definition dispute_queue_route :: "instant \<Rightarrow> route_request \<Rightarrow> dispute_db \<Rightarrow> (uuid \<times> instant) list option" where
  "dispute_queue_route now q db =
     (case rq_client_ids q of
        [client] \<Rightarrow> if client = [] then None
                    else Some (list_disputes_due_for_response (rq_client_ids q) client now DEFAULT_THRESHOLD_DAYS db)
      | _ \<Rightarrow> None)"

text \<open>The reading routes: the code refused, or the answer. Each runs in transactions of its own.\<close>

definition dispute_detail_route :: "route_request \<Rightarrow> dispute_db \<Rightarrow> (nat, dispute_detail) result" where
  "dispute_detail_route q db =
     (if \<not> isUuid (rq_id q) then Inl 400
      else case get_dispute_detail (rq_client_ids q) (rq_id q) db of None \<Rightarrow> Inl 404 | Some d \<Rightarrow> Inr d)"

definition dispute_comms_route :: "route_request \<Rightarrow> dispute_db \<Rightarrow> (nat, dispute_comm list) result" where
  "dispute_comms_route q db =
     rbind (dispute_detail_route q db) (\<lambda>_. Inr (list_dispute_communications (rq_client_ids q) (rq_id q) db))"

text \<open>\<open>random\<close> is the result of \<open>randomUUID()\<close>.\<close>

definition inbound_key :: "uuid \<Rightarrow> route_request \<Rightarrow> string" where
  "inbound_key random q =
     ''dispute-comm-inbound:'' @ rq_id q @ '':'' @ (case body_text ''idempotencyKey'' q of None \<Rightarrow> random | Some k \<Rightarrow> k)"

definition record_comm_route ::
  "zod_lib \<Rightarrow> uuid \<Rightarrow> uuid \<times> instant \<Rightarrow> route_request \<Rightarrow> dispute_db \<Rightarrow> dispute_db \<times> route_reply" where
  "record_comm_route Z random g q db =
     (if \<not> isUuid (rq_id q) then (db, Refused 400)
      else if \<not> truthy (rq_actor_user_id q) then (db, Refused 401)
      else case body_text ''body'' q of
        None \<Rightarrow> (db, Refused 400)
      | Some text \<Rightarrow>
          if js_trim text = [] then (db, Refused 400)
          else if not_a_text ''idempotencyKey'' q then (db, Refused 400)
          else if (case body_text ''idempotencyKey'' q of None \<Rightarrow> False | Some k \<Rightarrow> js_trim k = []) then (db, Refused 400)
          else (case record_dispute_communication Z (rq_client_ids q) g
                  \<lparr>ki_dispute_id = rq_id q, ki_direction = ''inbound'', ki_body = text, ki_dedupe_key = inbound_key random q\<rparr> db of
                  Inl CommDisputeNotFound \<Rightarrow> (db, Refused 404)
                | Inl e \<Rightarrow> (db, RouteThrown e)
                | Inr (db', i, created) \<Rightarrow> (db', CommRecorded (if created then 201 else 200) i)))"

section \<open>findings-routes.ts\<close>

definition WRITABLE_VARIANCE_STATUSES :: "string list" where
  "WRITABLE_VARIANCE_STATUSES = [''open'', ''in_review'', ''queued_for_dispute'', ''disputed'', ''closed'']"

definition finding_status_route ::
  "runtime \<Rightarrow> uuid \<Rightarrow> instant \<Rightarrow> route_request \<Rightarrow> dispute_db \<Rightarrow> dispute_db \<times> route_reply" where
  "finding_status_route rt new_id now q db =
     (if \<not> isUuid (rq_id q) then (db, Refused 400)
      else case body_text ''status'' q of
        None \<Rightarrow> (db, Refused 400)
      | Some status \<Rightarrow>
          if status \<notin> set WRITABLE_VARIANCE_STATUSES then (db, Refused 400)
          else if not_a_text ''note'' q then (db, Refused 400)
          else (case on_claims (update_finding_status rt (rq_client_ids q) new_id now (rq_id q) status (body_text ''note'' q) (rq_actor_user_id q)) db of
                  Inl e \<Rightarrow> (db, RouteThrown e)
                | Inr (db', found) \<Rightarrow> if found then (db', FindingUpdated (rq_id q) status) else (db', Refused 404)))"

text \<open>
  \<open>body.action in FINDING_ACTION_STATUS\<close> also holds for the names every object inherits.
\<close>

definition inherited_names :: "string list" where
  "inherited_names = [''constructor'', ''toString'', ''toLocaleString'', ''valueOf'', ''hasOwnProperty'', ''isPrototypeOf'',
     ''propertyIsEnumerable'', ''__proto__'', ''__defineGetter__'', ''__defineSetter__'', ''__lookupGetter__'', ''__lookupSetter__'']"

definition finding_action_route ::
  "runtime \<Rightarrow> uuid \<Rightarrow> instant \<Rightarrow> route_request \<Rightarrow> dispute_db \<Rightarrow> dispute_db \<times> route_reply" where
  "finding_action_route rt new_id now q db =
     (if \<not> isUuid (rq_id q) then (db, Refused 400)
      else case body_text ''action'' q of
        None \<Rightarrow> (db, Refused 400)
      | Some action \<Rightarrow>
          if action \<notin> set (map fst FINDING_ACTION_STATUS @ inherited_names) then (db, Refused 400)
          else if not_a_text ''note'' q then (db, Refused 400)
          else (case apply_finding_action rt (rq_client_ids q) new_id now (rq_id q) action (body_text ''note'' q) (rq_actor_user_id q) db of
                  Inl e \<Rightarrow> (db, RouteThrown e)
                | Inr (db', found, status) \<Rightarrow> if found then (db', FindingActed (rq_id q) action status) else (db', Refused 404)))"

definition finding_assign_route ::
  "runtime \<Rightarrow> uuid \<Rightarrow> instant \<Rightarrow> route_request \<Rightarrow> dispute_db \<Rightarrow> dispute_db \<times> route_reply" where
  "finding_assign_route rt new_id now q db =
     (if \<not> analyst_only q then (db, Refused 403)
      else if \<not> isUuid (rq_id q) then (db, Refused 400)
      else let user = map_of (rq_body q) ''userId''
           in if user \<noteq> Some JNull \<and> body_text ''userId'' q = None then (db, Refused 400)
              else let assignee = (if user = Some JNull then None else rq_actor_user_id q)
                   in (case assign_finding rt (rq_client_ids q) new_id now (rq_id q) assignee (rq_actor_user_id q) db of
                         Inl e \<Rightarrow> (db, RouteThrown e)
                       | Inr (db', found) \<Rightarrow> if found then (db', FindingAssigned (rq_id q) assignee) else (db', Refused 404)))"

end
