(* ===== verification/Claim_Consistency.thy ===== *)
theory Claim_Consistency
  imports Claim_Runs
begin

text \<open>
  What the reports show of consistent claim tables: the derived status is the stored one, the
  currencies agree, and the portfolio totals balance. The reports add Decimals; the specification
  adds the integers the columns hold.
\<close>

section \<open>The derived status\<close>

lemma claim_events_terminal:
  "claim_events client i CLAIM_TERMINAL_EVENT_NAMES db =
   filter (\<lambda>r. ae_account_id r = Some client \<and> ae_entity_id r = Some i) (terminal_log db)"
  unfolding claim_events_def terminal_log_def is_terminal_row_def filter_filter by (rule filter_cong) auto

lemma find_claim_unique:
  "claims_ok db \<Longrightarrow> c \<in> set (cd_claims db) \<Longrightarrow> find_claim (cl_account_id c) (cl_id c) db = Some c"
proof -
  assume ok: "claims_ok db" and c: "c \<in> set (cd_claims db)"
  then obtain x where x: "find_claim (cl_account_id c) (cl_id c) db = Some x"
    unfolding find_claim_def using find_None_all [of _ "cd_claims db"] by (metis (mono_tags, lifting) not_None_eq)
  then have "x = c" using find_claim_in [OF x] same_claim ok c unfolding claims_ok_def by blast
  with x show ?thesis by simp
qed

lemma status_of_event_simps [simp]:
  "status_of_event ''claim.recovered'' = Some ''recovered''" "status_of_event ''claim.denied'' = Some ''denied''"
  "status_of_event ''claim.written_off'' = Some ''written_off''"
  by code_simp+

lemma terminal_status_event: "is_claim_terminal_status s \<Longrightarrow> status_of_event (''claim.'' @ s) = Some s"
  unfolding terminal_status_cases by (elim disjE) simp_all

context decimal_laws
begin

lemma sum_texts:
  assumes "\<forall>n \<in> set ns. 0 \<le> n" and "0 \<le> a" and "a + sum_list ns < 10 ^ 20" and "holds acc a"
  shows "\<exists>t. rfold (\<lambda>sum s. rbind (read_decimal ClaimDecimalError D s) (\<lambda>d. Inr (dec_plus D sum d))) acc (map numeric_text ns) = Inr t \<and>
     holds t (a + sum_list ns)"
  using assms
proof (induction ns arbitrary: acc a)
  case (Cons n ns)
  obtain d where d: "read_decimal ClaimDecimalError D (numeric_text n) = Inr d" "holds d n"
    using read_numeric [where e = ClaimDecimalError] by blast
  have "0 \<le> sum_list ns" using Cons.prems(1) by (intro sum_list_nonneg) auto
  then have "holds (dec_plus D acc d) (a + n)" using Cons.prems d by (intro holds_plus) auto
  then show ?case using Cons.IH [of "a + n" "dec_plus D acc d"] Cons.prems d by (auto simp: add.assoc)
qed simp

lemma derived_status_matches:
  assumes ok: "claims_ok db" and c: "c \<in> set (cd_claims db)"
  shows "\<exists>s. get_derived_claim_status D (cl_account_id c) (cl_id c) db = Inr s \<and> ds_derived_status s = cl_status c \<and> ds_matches s \<and>
     (\<exists>d. dec_of_string D (ds_cumulative_recovered s) = Some d \<and> holds d (total_recovered db c))"
proof -
  have cok: "claim_ok db c" using ok c by (simp add: claims_ok_def)
  define amounts where "amounts = map re_amount_recovered (recoveries_of (cl_account_id c) (cl_id c) db)"
  have sum: "sum_list amounts = total_recovered db c" by (simp add: amounts_def total_recovered_def)
  have "\<forall>n \<in> set amounts. 0 \<le> n" using cok by (auto simp: amounts_def claim_ok_def)
  then obtain t where t: "rfold (\<lambda>sum s. rbind (read_decimal ClaimDecimalError D s) (\<lambda>d. Inr (dec_plus D sum d))) (dec_zero D)
      (map numeric_text amounts) = Inr t" "holds t (total_recovered db c)"
    using sum_texts [of amounts 0 "dec_zero D"] claim_ok_total [OF cok] has_value_zero by (auto simp: sum)
  define evs where "evs = map (\<lambda>r. (ae_event r, ae_recorded_at r)) (claim_events (cl_account_id c) (cl_id c) CLAIM_TERMINAL_EVENT_NAMES db)"
  have fst_evs: "map fst evs = outcome_of db c"
    by (simp add: evs_def outcome_of_def claim_events_terminal comp_def)
  have latest: "(case latest_terminal evs of None \<Rightarrow> ''open'' | Some (n, _) \<Rightarrow> the (status_of_event n)) = cl_status c"
  proof (cases "is_claim_terminal_status (cl_status c)")
    case True
    then obtain w where "evs = [(''claim.'' @ cl_status c, w)]"
      using cok fst_evs by (auto simp: claim_ok_def map_eq_Cons_conv)
    then show ?thesis using terminal_status_event [OF True] by (simp add: latest_terminal_def)
  next
    case False
    then have "evs = []" "cl_status c = ''open''" using cok fst_evs by (auto simp: claim_ok_def)
    then show ?thesis by (simp add: latest_terminal_def)
  qed
  obtain d where d: "dec_of_string D (dec_to_fixed D 4 t) = Some d" "holds d (total_recovered db c)"
    using to_fixed4_roundtrip [OF t(2)] by auto
  have "derive_claim_status D (cl_status c) evs (map numeric_text amounts) =
      Inr \<lparr>ds_derived_status = cl_status c, ds_cumulative_recovered = dec_to_fixed D 4 t, ds_matches = True\<rparr>"
    using t(1) latest by (simp add: derive_claim_status_def Let_def)
  then show ?thesis
    using d find_claim_unique [OF ok c] by (auto simp: get_derived_claim_status_def evs_def amounts_def comp_def)
qed

end

section \<open>Currencies\<close>

lemma currencies_consistent:
  assumes ok: "claims_ok db" and c: "c \<in> set (cd_claims db)"
  shows "\<exists>k. get_claim_currency_consistency (cl_account_id c) (cl_id c) db = Inr k \<and> kc_consistent k"
proof -
  have cok: "claim_ok db c" using ok c by (simp add: claims_ok_def)
  then obtain cur where cur: "cl_currency c = Some cur" by (auto simp: claim_ok_def)
  define evs where "evs = map (\<lambda>r. (re_id r, re_currency r)) (recoveries_of (cl_account_id c) (cl_id c) db)"
  have all: "snd e = Some cur" if "e \<in> set evs" for e using that cok cur by (auto simp: evs_def claim_ok_def)
  then have "set (List.map_filter snd evs) \<subseteq> {cur}" by (auto simp: List.map_filter_def)
  then have "length (remdups (List.map_filter snd evs)) \<le> 1"
    using card_mono [of "{cur}" "set (List.map_filter snd evs)"] by (simp add: length_remdups_card_conv)
  moreover have "filter (\<lambda>(_, x). x = None) evs = []" "filter (\<lambda>(_, x). x \<noteq> None \<and> x \<noteq> Some cur) evs = []"
    using all by (force simp: filter_empty_conv)+
  ultimately have "kc_consistent (check_currency_consistency (cl_id c) (Some cur) evs)"
    by (simp add: check_currency_consistency_def Let_def)
  then show ?thesis
    using find_claim_unique [OF ok c] cur by (simp add: get_claim_currency_consistency_def evs_def)
qed

section \<open>Reconciliation\<close>

lemma claim_ok_pos: "claim_ok db c \<Longrightarrow> 0 \<le> cl_amount_claimed c"
  by (simp add: claim_ok_def)

subsection \<open>Buckets of integers\<close>

text \<open>The accumulator of the code at the integers: the claim \<open>c\<close>, of which \<open>r\<close> has been recovered, is added.\<close>

definition add_claim :: "claim \<Rightarrow> int \<Rightarrow> int accumulator \<Rightarrow> int accumulator" where
  "add_claim c r A =
     (let B = A\<lparr>ac_claimed := ac_claimed A + cl_amount_claimed c, ac_recovered := ac_recovered A + r\<rparr>; rest = cl_amount_claimed c - r
      in if cl_status c = ''recovered'' then B
         else if cl_status c = ''denied'' then B\<lparr>ac_denied := ac_denied A + rest\<rparr>
         else if cl_status c = ''written_off'' then B\<lparr>ac_written_off := ac_written_off A + rest\<rparr>
         else B\<lparr>ac_outstanding := ac_outstanding A + rest\<rparr>)"

text \<open>No component is negative, nothing is in a wrong currency, and the components add up to what was claimed.\<close>

definition balanced :: "int accumulator \<Rightarrow> bool" where
  "balanced A \<longleftrightarrow>
     0 \<le> ac_recovered A \<and> 0 \<le> ac_outstanding A \<and> 0 \<le> ac_written_off A \<and> 0 \<le> ac_denied A \<and>
     ac_null_currency_recovered A = 0 \<and> ac_mismatched_currency_recovered A = 0 \<and>
     ac_claimed A = ac_recovered A + ac_outstanding A + ac_written_off A + ac_denied A"

definition no_claims :: "int accumulator" where
  "no_claims = \<lparr>ac_claimed = 0, ac_recovered = 0, ac_outstanding = 0, ac_written_off = 0, ac_denied = 0,
     ac_null_currency_recovered = 0, ac_mismatched_currency_recovered = 0\<rparr>"

lemma no_claims_balanced [simp]: "balanced no_claims"
  by (simp add: balanced_def no_claims_def)

lemma add_claim_balanced:
  assumes "balanced A" and "claim_ok db c"
  shows "balanced (add_claim c (total_recovered db c) A)"
  using assms claim_ok_total [OF assms(2)] by (auto simp: balanced_def add_claim_def claim_ok_def Let_def)

lemma add_claim_sums [simp]:
  "ac_claimed (add_claim c r A) = ac_claimed A + cl_amount_claimed c" "ac_recovered (add_claim c r A) = ac_recovered A + r"
  by (simp_all add: add_claim_def Let_def)

subsection \<open>Decimals follow the integers\<close>

context decimal_laws
begin

definition tracks :: "'d accumulator \<Rightarrow> int accumulator \<Rightarrow> bool" where
  "tracks b A \<longleftrightarrow>
     holds (ac_claimed b) (ac_claimed A) \<and> holds (ac_recovered b) (ac_recovered A) \<and> holds (ac_outstanding b) (ac_outstanding A) \<and>
     holds (ac_written_off b) (ac_written_off A) \<and> holds (ac_denied b) (ac_denied A) \<and>
     holds (ac_null_currency_recovered b) (ac_null_currency_recovered A) \<and>
     holds (ac_mismatched_currency_recovered b) (ac_mismatched_currency_recovered A)"

lemma same_currency_events:
  assumes "\<forall>e \<in> set es. rv_currency e = Some cur"
    and "list_all2 (\<lambda>e n. rv_amount_recovered e = numeric_text n) es ns" and "\<forall>n \<in> set ns. 0 \<le> n"
    and "0 \<le> a" and "a + sum_list ns < 10 ^ 20" and "holds acc a"
  shows "\<exists>t. rfold (accumulate_event D (Some cur)) (b, acc) es = Inr (b, t) \<and> holds t (a + sum_list ns)"
  using assms(2,1,3-)
proof (induction es ns arbitrary: acc a rule: list_all2_induct)
  case (Cons e es n ns)
  obtain d where d: "read_decimal ClaimDecimalError D (numeric_text n) = Inr d" "holds d n"
    using read_numeric [where e = ClaimDecimalError] by blast
  have "0 \<le> sum_list ns" using Cons.prems(2) by (intro sum_list_nonneg) auto
  then have h: "holds (dec_plus D acc d) (a + n)" using Cons.prems d by (intro holds_plus) auto
  obtain t where t: "rfold (accumulate_event D (Some cur)) (b, dec_plus D acc d) es = Inr (b, t)" "holds t ((a + n) + sum_list ns)"
    using Cons.IH [OF _ _ _ _ h] Cons.prems by auto
  moreover have "accumulate_event D (Some cur) (b, acc) e = Inr (b, dec_plus D acc d)"
    using Cons.hyps(1) Cons.prems(1) d(1) by (simp add: accumulate_event_def)
  ultimately show ?case by (auto simp: add.assoc)
qed simp

text \<open>One claim of a consistent database.\<close>

lemma accumulate_tracks:
  assumes A: "tracks b A" "balanced A" and cok: "claim_ok db c" and bound: "ac_claimed A + cl_amount_claimed c < 10 ^ 20"
    and es: "es = map (\<lambda>r. \<lparr>rv_claim_id = cl_id c, rv_amount_recovered = numeric_text (re_amount_recovered r), rv_currency = re_currency r\<rparr>)
      (recoveries_of (cl_account_id c) (cl_id c) db)"
  shows "\<exists>b'. accumulate_claim_reconciliation D b (portfolio_row c) es = Inr b' \<and> tracks b' (add_claim c (total_recovered db c) A)"
proof -
  obtain cur where cur: "cl_currency c = Some cur" using cok by (auto simp: claim_ok_def)
  obtain m where m: "read_decimal ClaimDecimalError D (numeric_text (cl_amount_claimed c)) = Inr m" "holds m (cl_amount_claimed c)"
    using read_numeric [where e = ClaimDecimalError] by blast
  note t = claim_ok_total [OF cok]
  have le: "0 < cl_amount_claimed c" "total_recovered db c \<le> cl_amount_claimed c" "cl_status c = ''open'' \<or> is_claim_terminal_status (cl_status c)"
    using cok by (auto simp: claim_ok_def split: if_splits)
  define b0 where "b0 = b\<lparr>ac_claimed := dec_plus D (ac_claimed b) m\<rparr>"
  let ?ns = "map re_amount_recovered (recoveries_of (cl_account_id c) (cl_id c) db)"
  have "\<exists>s. rfold (accumulate_event D (Some cur)) (b0, dec_zero D) es = Inr (b0, s) \<and> holds s (0 + sum_list ?ns)"
  proof (rule same_currency_events)
    show "\<forall>e \<in> set es. rv_currency e = Some cur"
      using cok cur by (simp add: es claim_ok_def)
    show "list_all2 (\<lambda>e n. rv_amount_recovered e = numeric_text n) es ?ns" by (simp add: es list_all2_conv_all_nth)
    show "\<forall>n \<in> set ?ns. 0 \<le> n" using cok by (auto simp: claim_ok_def)
    show "0 + sum_list ?ns < 10 ^ 20" using t by (simp add: total_recovered_def)
  qed (use has_value_zero in simp_all)
  then obtain s where s: "rfold (accumulate_event D (Some cur)) (b0, dec_zero D) es = Inr (b0, s)" "holds s (total_recovered db c)"
    by (auto simp: total_recovered_def)
  have small: "ac_recovered A \<le> ac_claimed A" "ac_outstanding A \<le> ac_claimed A" "ac_written_off A \<le> ac_claimed A" "ac_denied A \<le> ac_claimed A"
      "0 \<le> ac_recovered A" "0 \<le> ac_outstanding A" "0 \<le> ac_written_off A" "0 \<le> ac_denied A"
    using A(2) by (auto simp: balanced_def)
  have rest: "holds (dec_minus D (dec_plus D x m) s) (n + (cl_amount_claimed c - total_recovered db c))"
    if "holds x n" "0 \<le> n" "n \<le> ac_claimed A" for x n
    using holds_minus [OF holds_plus [OF that(1) m(2)] s(2)] that(2,3) bound le t by (simp add: algebra_simps)
  have 1: "holds (dec_plus D (ac_claimed b) m) (ac_claimed A + cl_amount_claimed c)"
    using A(1) m(2) bound small le by (intro holds_plus) (auto simp: tracks_def)
  have 2: "holds (dec_plus D (ac_recovered b) s) (ac_recovered A + total_recovered db c)"
    using A(1) s(2) bound small le t by (intro holds_plus) (auto simp: tracks_def)
  define b1 where "b1 = b0\<lparr>ac_recovered := dec_plus D (ac_recovered b0) s\<rparr>"
  define r where "r = (\<lambda>x. dec_minus D (dec_plus D x m) s)"
  define b2 where "b2 = (if cl_status c = ''recovered'' then b1
      else if cl_status c = ''denied'' then b1\<lparr>ac_denied := r (ac_denied b1)\<rparr>
      else if cl_status c = ''written_off'' then b1\<lparr>ac_written_off := r (ac_written_off b1)\<rparr>
      else b1\<lparr>ac_outstanding := r (ac_outstanding b1)\<rparr>)"
  have "accumulate_claim_reconciliation D b (portfolio_row c) es = Inr b2"
    using s(1) m(1) by (simp add: accumulate_claim_reconciliation_def portfolio_row_def cur flip: b0_def)
      (simp add: Let_def terminal_status_cases b2_def r_def b1_def)
  moreover have "tracks b2 (add_claim c (total_recovered db c) A)"
    using A(1) 1 2 small rest
    by (simp add: tracks_def b2_def b1_def b0_def r_def add_claim_def Let_def)
  ultimately show ?thesis by blast
qed

lemma tracks_empty: "tracks (empty_accumulator D) no_claims"
  using has_value_zero by (simp add: tracks_def empty_accumulator_def no_claims_def)

end

subsection \<open>Grouping\<close>

text \<open>What a column of a report means: its text is the amount \<open>n\<close>.\<close>

definition reads_as :: "'d decimal_lib \<Rightarrow> ('d \<Rightarrow> rat) \<Rightarrow> string \<Rightarrow> int \<Rightarrow> bool" where
  "reads_as D dval s n \<longleftrightarrow> (\<exists>d. dec_of_string D s = Some d \<and> dec_is_finite D d \<and> dval d = column_value n)"

definition current_bucket :: "'d decimal_lib \<Rightarrow> string \<Rightarrow> (string \<times> 'm \<times> 'd accumulator) list \<Rightarrow> 'd accumulator" where
  "current_bucket D k bs = (case map_of bs k of None \<Rightarrow> empty_accumulator D | Some (_, b) \<Rightarrow> b)"

fun put_bucket :: "string \<Rightarrow> 'm \<Rightarrow> 'b \<Rightarrow> (string \<times> 'm \<times> 'b) list \<Rightarrow> (string \<times> 'm \<times> 'b) list" where
  "put_bucket k m b [] = [(k, m, b)]"
| "put_bucket k m b ((k', m', b') # bs) = (if k' = k then (k', m', b) # bs else (k', m', b') # put_bucket k m b bs)"

lemma with_bucket_put:
  "with_bucket D k m f bs = rbind (f (current_bucket D k bs)) (\<lambda>b. Inr (put_bucket k m b bs))"
proof (induction bs)
  case (Cons x bs)
  obtain k' m' b' where x: "x = (k', m', b')" by (cases x)
  have "current_bucket D k (x # bs) = (if k' = k then b' else current_bucket D k bs)"
    by (simp add: x current_bucket_def)
  then show ?case using Cons by (cases "f (current_bucket D k bs)") (auto simp: x)
qed (simp add: current_bucket_def)

lemma put_bucket_lookup:
  "map_of (put_bucket k m b bs) j =
   (if j = k then Some (case map_of bs k of None \<Rightarrow> (m, b) | Some (m', _) \<Rightarrow> (m', b)) else map_of bs j)"
  by (induction bs) (auto split: option.splits)

lemma put_bucket_keys: "fst ` set (put_bucket k m b bs) = insert k (fst ` set bs)"
proof (induction bs)
  case (Cons x bs)
  then show ?case by (cases x) (simp add: insert_commute)
qed simp

lemma put_bucket_distinct: "distinct (map fst bs) \<Longrightarrow> distinct (map fst (put_bucket k m b bs))"
proof (induction bs)
  case (Cons x bs)
  then show ?case using put_bucket_keys [of k m b bs] by (cases x) auto
qed simp

definition of_currency :: "string \<Rightarrow> claim list \<Rightarrow> claim list" where
  "of_currency k cs = filter (\<lambda>c. or_blank (cl_currency c) = k) cs"

lemma events_of_claim_rows:
  assumes "i \<in> set ids"
  shows "events_of_claim i (event_rows (\<lambda>r. re_account_id r = client) ids db) =
     map (\<lambda>r. \<lparr>rv_claim_id = i, rv_amount_recovered = numeric_text (re_amount_recovered r), rv_currency = re_currency r\<rparr>)
       (recoveries_of client i db)"
proof -
  have "filter (\<lambda>e. rv_claim_id e = i) (List.map_filter (\<lambda>r. case re_claim_id r of None \<Rightarrow> None
         | Some j \<Rightarrow> if re_account_id r = client \<and> j \<in> set ids
             then Some \<lparr>rv_claim_id = j, rv_amount_recovered = numeric_text (re_amount_recovered r), rv_currency = re_currency r\<rparr> else None) rs) =
       map (\<lambda>r. \<lparr>rv_claim_id = i, rv_amount_recovered = numeric_text (re_amount_recovered r), rv_currency = re_currency r\<rparr>)
         (filter (\<lambda>r. re_account_id r = client \<and> re_claim_id r = Some i) rs)" for rs
    using assms by (induction rs) (auto simp: List.map_filter_simps split: option.splits)
  then show ?thesis by (simp add: events_of_claim_def event_rows_def recoveries_of_def)
qed

lemma filter_sum_le:
  fixes f :: "'a \<Rightarrow> int"
  shows "(\<forall>x \<in> set xs. 0 \<le> f x) \<Longrightarrow> sum_list (map f (filter p xs)) \<le> sum_list (map f xs)"
  by (induction xs) auto

context decimal_laws
begin

text \<open>After the claims \<open>cs\<close> have been added: one bucket per currency, balanced, with the sums of its claims.\<close>

definition buckets_ok :: "claims_db \<Rightarrow> claim list \<Rightarrow> (string \<times> string option \<times> 'd accumulator) list \<Rightarrow> bool" where
  "buckets_ok db cs bs \<longleftrightarrow>
     distinct (map fst bs) \<and> (\<forall>k. map_of bs k = None \<longrightarrow> of_currency k cs = []) \<and>
     (\<forall>k m b. map_of bs k = Some (m, b) \<longrightarrow> k = or_blank m \<and> m \<in> cl_currency ` set cs \<and>
        (\<exists>A. tracks b A \<and> balanced A \<and> ac_claimed A = sum_list (map cl_amount_claimed (of_currency k cs)) \<and>
           ac_recovered A = sum_list (map (total_recovered db) (of_currency k cs))))"

lemma current_bucket_ok:
  assumes "buckets_ok db cs bs"
  shows "\<exists>A. tracks (current_bucket D k bs) A \<and> balanced A \<and> ac_claimed A = sum_list (map cl_amount_claimed (of_currency k cs)) \<and>
     ac_recovered A = sum_list (map (total_recovered db) (of_currency k cs))"
proof (cases "map_of bs k")
  case None
  then have "of_currency k cs = []" using assms by (simp add: buckets_ok_def)
  then show ?thesis using None tracks_empty
    by (intro exI [of _ no_claims]) (simp add: current_bucket_def, simp add: no_claims_def)
next
  case (Some mb)
  then show ?thesis using assms by (cases mb) (auto simp: buckets_ok_def current_bucket_def)
qed

lemma add_to_bucket_ok:
  assumes ok: "buckets_ok db cs bs" and cok: "claim_ok db c" and bound: "sum_list (map cl_amount_claimed (cs @ [c])) < 10 ^ 20"
    and pos: "\<forall>x \<in> set cs. 0 \<le> cl_amount_claimed x"
    and es: "es = map (\<lambda>r. \<lparr>rv_claim_id = cl_id c, rv_amount_recovered = numeric_text (re_amount_recovered r), rv_currency = re_currency r\<rparr>)
      (recoveries_of (cl_account_id c) (cl_id c) db)"
  shows "\<exists>bs'. with_bucket D (or_blank (cl_currency c)) (cl_currency c)
      (\<lambda>b. accumulate_claim_reconciliation D b (portfolio_row c) es) bs = Inr bs' \<and> buckets_ok db (cs @ [c]) bs'"
proof -
  let ?k = "or_blank (cl_currency c)"
  obtain A where A: "tracks (current_bucket D ?k bs) A" "balanced A" "ac_claimed A = sum_list (map cl_amount_claimed (of_currency ?k cs))"
      "ac_recovered A = sum_list (map (total_recovered db) (of_currency ?k cs))"
    using current_bucket_ok [OF ok] by blast
  have "ac_claimed A \<le> sum_list (map cl_amount_claimed cs)"
    unfolding A(3) of_currency_def by (rule filter_sum_le [OF pos])
  then have "ac_claimed A + cl_amount_claimed c < 10 ^ 20" using bound by simp
  then obtain b' where b': "accumulate_claim_reconciliation D (current_bucket D ?k bs) (portfolio_row c) es = Inr b'"
      "tracks b' (add_claim c (total_recovered db c) A)"
    using accumulate_tracks [OF A(1,2) cok _ es] by blast
  have oc: "of_currency j (cs @ [c]) = of_currency j cs @ (if j = ?k then [c] else [])" for j
    by (simp add: of_currency_def)
  have new: "\<exists>B. tracks b' B \<and> balanced B \<and> ac_claimed B = sum_list (map cl_amount_claimed (of_currency ?k (cs @ [c]))) \<and>
      ac_recovered B = sum_list (map (total_recovered db) (of_currency ?k (cs @ [c])))"
    using b'(2) add_claim_balanced [OF A(2) cok] A(3,4) by (intro exI [of _ "add_claim c (total_recovered db c) A"]) (simp add: oc)
  have "buckets_ok db (cs @ [c]) (put_bucket ?k (cl_currency c) b' bs)"
    unfolding buckets_ok_def
  proof (intro conjI allI impI)
    show "distinct (map fst (put_bucket ?k (cl_currency c) b' bs))"
      using ok put_bucket_distinct by (auto simp: buckets_ok_def)
  next
    fix j assume "map_of (put_bucket ?k (cl_currency c) b' bs) j = None"
    then show "of_currency j (cs @ [c]) = []"
      using ok unfolding buckets_ok_def oc put_bucket_lookup by (simp split: if_splits)
  next
    fix j m b assume j: "map_of (put_bucket ?k (cl_currency c) b' bs) j = Some (m, b)"
    show "j = or_blank m"
      using j ok unfolding buckets_ok_def put_bucket_lookup by (fastforce split: if_splits option.splits)
    show "m \<in> cl_currency ` set (cs @ [c])"
      using j ok unfolding buckets_ok_def put_bucket_lookup by (fastforce split: if_splits option.splits)
    show "\<exists>B. tracks b B \<and> balanced B \<and> ac_claimed B = sum_list (map cl_amount_claimed (of_currency j (cs @ [c]))) \<and>
        ac_recovered B = sum_list (map (total_recovered db) (of_currency j (cs @ [c])))"
    proof (cases "j = ?k")
      case True
      then have "b = b'" using j unfolding put_bucket_lookup by (auto split: option.splits)
      then show ?thesis using new True by simp
    next
      case False
      then show ?thesis using j ok unfolding buckets_ok_def put_bucket_lookup by (simp add: oc)
    qed
  qed
  then show ?thesis by (simp add: with_bucket_put b'(1))
qed

lemma bucket_claims_ok:
  assumes "buckets_ok db cs bs" and "\<forall>c \<in> set (cs @ rest). claim_ok db c"
    and "sum_list (map cl_amount_claimed (cs @ rest)) < 10 ^ 20"
    and "\<forall>c \<in> set rest. events_of_claim (cl_id c) events =
      map (\<lambda>r. \<lparr>rv_claim_id = cl_id c, rv_amount_recovered = numeric_text (re_amount_recovered r), rv_currency = re_currency r\<rparr>)
        (recoveries_of (cl_account_id c) (cl_id c) db)"
  shows "\<exists>bs'. rfold (\<lambda>bs c. with_bucket D (or_blank (rq_currency c)) (rq_currency c)
        (\<lambda>b. accumulate_claim_reconciliation D b c (events_of_claim (rq_claim_id c) events)) bs) bs (map portfolio_row rest) = Inr bs' \<and>
      buckets_ok db (cs @ rest) bs'"
  using assms
proof (induction rest arbitrary: cs bs)
  case (Cons c rest)
  have pos: "\<forall>x \<in> set (cs @ c # rest). 0 \<le> cl_amount_claimed x" using Cons.prems(2) claim_ok_pos by blast
  then have "0 \<le> sum_list (map cl_amount_claimed rest)" by (intro sum_list_nonneg) auto
  then have b: "sum_list (map cl_amount_claimed (cs @ [c])) < 10 ^ 20" using Cons.prems(3) by simp
  obtain bs1 where bs1: "with_bucket D (or_blank (cl_currency c)) (cl_currency c)
      (\<lambda>b. accumulate_claim_reconciliation D b (portfolio_row c) (events_of_claim (cl_id c) events)) bs = Inr bs1"
      "buckets_ok db (cs @ [c]) bs1"
    using add_to_bucket_ok [OF Cons.prems(1) _ b, of "events_of_claim (cl_id c) events"] Cons.prems(2,4) pos by auto
  have row: "rq_currency (portfolio_row c) = cl_currency c" "rq_claim_id (portfolio_row c) = cl_id c"
    by (simp_all add: portfolio_row_def)
  show ?case using Cons.IH [OF bs1(2)] Cons.prems(2-4) bs1(1) by (simp add: row)
qed simp

lemma tracks_reconciles: "tracks b A \<Longrightarrow> balanced A \<Longrightarrow> ac_claimed A < 10 ^ 20 \<Longrightarrow> claim_reconciliation_reconciles D b"
proof -
  assume t: "tracks b A" and A: "balanced A" and b: "ac_claimed A < 10 ^ 20"
  have "holds (dec_plus D (dec_plus D (dec_plus D (ac_recovered b) (ac_outstanding b)) (ac_written_off b)) (ac_denied b))
      (ac_recovered A + ac_outstanding A + ac_written_off A + ac_denied A)"
    using t A b by (intro holds_plus) (auto simp: tracks_def balanced_def)
  moreover have "holds (ac_claimed b) (ac_claimed A)" using t by (simp add: tracks_def)
  ultimately show ?thesis
    using holds_compare(3) A unfolding claim_reconciliation_reconciles_def balanced_def by blast
qed

lemma portfolio_balanced:
  assumes ok: "claims_ok db" and z: "zod_uuid Z client"
    and total: "sum_list (map cl_amount_claimed (filter (\<lambda>c. cl_account_id c = client) (cd_claims db))) < 10 ^ 20"
  shows "\<exists>report. get_portfolio_reconciliation D Z client db = Inr report \<and> distinct (map fst report) \<and>
     set (map fst report) = cl_currency ` set (filter (\<lambda>c. cl_account_id c = client) (cd_claims db)) \<and>
     (\<forall>(cur, totals, reconciles) \<in> set report. reconciles \<and>
        reads_as D dval (rt_claimed totals) (sum_list (map cl_amount_claimed
          (of_currency (or_blank cur) (filter (\<lambda>c. cl_account_id c = client) (cd_claims db))))) \<and>
        reads_as D dval (rt_recovered totals) (sum_list (map (total_recovered db)
          (of_currency (or_blank cur) (filter (\<lambda>c. cl_account_id c = client) (cd_claims db))))) \<and>
        reads_as D dval (rt_null_currency_recovered totals) 0 \<and> reads_as D dval (rt_mismatched_currency_recovered totals) 0)"
proof (cases "filter (\<lambda>c. cl_account_id c = client) (cd_claims db) = []")
  case True
  then show ?thesis using z by (simp only: get_portfolio_reconciliation_def) simp
next
  case False
  define rows where "rows = filter (\<lambda>c. cl_account_id c = client) (cd_claims db)"
  define events where "events = event_rows (\<lambda>r. re_account_id r = client) (map cl_id rows) db"
  have cok: "\<forall>c \<in> set rows. claim_ok db c" using ok by (simp add: rows_def claims_ok_def)
  have "buckets_ok db [] []" by (simp add: buckets_ok_def of_currency_def)
  moreover have "\<forall>c \<in> set rows. events_of_claim (cl_id c) events =
      map (\<lambda>r. \<lparr>rv_claim_id = cl_id c, rv_amount_recovered = numeric_text (re_amount_recovered r), rv_currency = re_currency r\<rparr>)
        (recoveries_of (cl_account_id c) (cl_id c) db)"
    using events_of_claim_rows by (auto simp: events_def rows_def)
  ultimately obtain bs where bs: "bucket_claims D (\<lambda>c. or_blank (rq_currency c)) rq_currency (map portfolio_row rows) events = Inr bs"
      "buckets_ok db rows bs"
    using bucket_claims_ok [of db "[]" "[]" rows events] cok total unfolding bucket_claims_def rows_def by auto
  let ?out = "\<lambda>(_, cur, b). (cur, finalize_claim_reconciliation_totals D b, claim_reconciliation_reconciles D b)"
  have report: "get_portfolio_reconciliation D Z client db = Inr (map ?out bs)"
    using z bs(1) False by (simp add: get_portfolio_reconciliation_def reconcile_portfolio_totals_def rows_def events_def Let_def)
  have d: "distinct (map fst bs)" using bs(2) by (simp add: buckets_ok_def)
  have lookup: "map_of bs k = Some (m, b)" if "(k, m, b) \<in> set bs" for k m b using that d by simp
  have key: "map fst bs = map (\<lambda>x. or_blank (fst (snd x))) bs"
    using lookup bs(2) by (auto simp: buckets_ok_def)
  have "distinct (map (\<lambda>x. or_blank (fst (snd x))) bs)" using d key by simp
  then have curs: "distinct (map (\<lambda>x. fst (snd x)) bs)" by (auto simp: distinct_map inj_on_def)
  have stated: "cl_currency c \<noteq> None" if "c \<in> set rows" for c using cok that by (simp add: claim_ok_def)
  have opened: "cl_currency c \<in> set (map (\<lambda>x. fst (snd x)) bs)" if c: "c \<in> set rows" for c
  proof -
    have "c \<in> set (of_currency (or_blank (cl_currency c)) rows)" using c by (simp add: of_currency_def)
    then obtain m b where mb: "map_of bs (or_blank (cl_currency c)) = Some (m, b)"
      using bs(2) unfolding buckets_ok_def by (metis empty_iff list.set(1) not_None_eq surj_pair)
    then have "or_blank m = or_blank (cl_currency c)" "m \<in> cl_currency ` set rows" using bs(2) by (auto simp: buckets_ok_def)
    moreover from this have "m \<noteq> None" using stated by (metis imageE)
    ultimately have "m = cl_currency c" using stated [OF c] by (auto simp: or_blank_def)
    then show ?thesis using map_of_SomeD [OF mb] by force
  qed
  have "m \<in> cl_currency ` set rows" if "(k, m, b) \<in> set bs" for k m b
    using lookup [OF that] bs(2) unfolding buckets_ok_def by blast
  then have "set (map (\<lambda>x. fst (snd x)) bs) \<subseteq> cl_currency ` set rows" by fastforce
  moreover have "cl_currency ` set rows \<subseteq> set (map (\<lambda>x. fst (snd x)) bs)" using opened by blast
  ultimately have all: "set (map (\<lambda>x. fst (snd x)) bs) = cl_currency ` set rows" by (rule subset_antisym)
  have each: "case ?out x of (cur, totals, reconciles) \<Rightarrow> reconciles \<and>
        reads_as D dval (rt_claimed totals) (sum_list (map cl_amount_claimed (of_currency (or_blank cur) rows))) \<and>
        reads_as D dval (rt_recovered totals) (sum_list (map (total_recovered db) (of_currency (or_blank cur) rows))) \<and>
        reads_as D dval (rt_null_currency_recovered totals) 0 \<and> reads_as D dval (rt_mismatched_currency_recovered totals) 0" if x: "x \<in> set bs" for x
  proof -
    obtain k m b where kmb: "x = (k, m, b)" by (cases x)
    obtain A where A: "tracks b A" "balanced A" "ac_claimed A = sum_list (map cl_amount_claimed (of_currency k rows))"
        "ac_recovered A = sum_list (map (total_recovered db) (of_currency k rows))" and k: "k = or_blank m"
      using bs(2) lookup x unfolding buckets_ok_def kmb by blast
    have "\<forall>x \<in> set rows. 0 \<le> cl_amount_claimed x" using cok claim_ok_pos by blast
    then have "ac_claimed A \<le> sum_list (map cl_amount_claimed rows)"
      unfolding A(3) of_currency_def by (rule filter_sum_le)
    then have "claim_reconciliation_reconciles D b"
      using tracks_reconciles [OF A(1,2)] total by (simp add: rows_def)
    moreover have "reads_as D dval (dec_to_fixed D 4 d) n" if "holds d n" for d n
      using to_fixed4_roundtrip [OF that] by (simp add: reads_as_def has_value_def)
    ultimately show ?thesis
      using A k unfolding kmb by (auto simp: finalize_claim_reconciliation_totals_def tracks_def balanced_def)
  qed
  show ?thesis
    unfolding report rows_def [symmetric]
  proof (intro exI [of _ "map ?out bs"] conjI refl)
    have m: "map fst (map ?out bs) = map (\<lambda>x. fst (snd x)) bs" by (simp add: case_prod_beta)
    show "distinct (map fst (map ?out bs))" "set (map fst (map ?out bs)) = cl_currency ` set rows"
      unfolding m using curs all by this+
  qed (use each in \<open>simp add: list_all_iff\<close>)
qed

end

end
