(* ===== verification/Claim_Theorems.thy ===== *)
theory Claim_Theorems
  imports Claim_Consistency
begin

text \<open>
  The properties of the claims module, with concrete runs as their witnesses: a dispute of 100
  dollars is claimed, 40 dollars come in, and the claim is closed with the remaining 60.
\<close>

section \<open>A sample run\<close>

definition claims_zod :: zod_lib where
  "claims_zod = \<lparr>zod_uuid = isUuid, zod_int = (\<lambda>_. True), zod_date = (\<lambda>_. Some 0), zod_datetime = (\<lambda>s. Some (int (length s)))\<rparr>"

definition claims_boss :: boss_lib where
  "claims_boss = \<lparr>boss_send = insert_row (\<lambda>a b. bj_id a = bj_id b)\<rparr>"

definition v_account :: uuid where "v_account = ''00000000-0000-4000-8000-00000000aa01''"
definition v_dispute :: uuid where "v_dispute = ''00000000-0000-4000-8000-00000000dd01''"
definition v_finding :: uuid where "v_finding = ''00000000-0000-4000-8000-00000000ff01''"
definition v_claim :: uuid where "v_claim = ''00000000-0000-4000-8000-00000000cc01''"
definition v_first :: uuid where "v_first = ''00000000-0000-4000-8000-00000000ee01''"
definition v_second :: uuid where "v_second = ''00000000-0000-4000-8000-00000000ee02''"

definition disputed_db :: claims_db where
  "disputed_db =
     \<lparr>cd_accounts = [\<lparr>acc_id = v_account, acc_name = ''Acme'', acc_is_active = True\<rparr>],
      cd_disputes = [\<lparr>di_id = v_dispute, di_account_id = v_account, di_status = ''accepted'', di_amount_claimed = Some 1000000,
                     di_currency = Some ''USD'', di_carrier_id = None, di_accepted_amount = None\<rparr>],
      cd_dispute_lines = [\<lparr>dl_id = v_second, dl_account_id = v_account, dl_dispute_id = v_dispute, dl_variance_finding_id = Some v_finding,
                          dl_amount = Some 1000000, dl_currency = Some ''USD''\<rparr>],
      cd_findings = [], cd_finding_events = [], cd_claims = [], cd_recoveries = [], cd_audit = [], cd_jobs = []\<rparr>"

definition sample_create :: create_claim_input where
  "sample_create = \<lparr>cc_client_id = v_account, cc_dispute_id = v_dispute, cc_actor_user_id = None\<rparr>"

definition sample_claim :: claim where
  "sample_claim = opened_claim v_claim 5 v_account v_dispute 1000000 ''USD''"

definition opened_event :: audit_event where
  "opened_event = claim_created_event ledger_runtime v_account None v_claim v_dispute ''100.0000'' ''USD''"

definition opened_db :: claims_db where
  "opened_db = disputed_db\<lparr>cd_claims := [sample_claim], cd_audit := [ledger_row 5 opened_event]\<rparr>"

definition first_payment :: recovery_input where
  "first_payment = \<lparr>ri_client_id = v_account, ri_claim_id = v_claim, ri_amount_recovered = ''40'', ri_currency = ''USD'', ri_variance_finding_id = None\<rparr>"

definition first_validated :: validated_partial_recovery where
  "first_validated = \<lparr>vp_claim_id = v_claim, vp_amount_recovered = ''40'', vp_currency = ''USD'', vp_cumulative_recovered = ''40.0000'', vp_is_final = False\<rparr>"

definition first_event :: audit_event where
  "first_event = recovery_recorded_event ledger_runtime v_account v_first v_claim first_validated"

definition first_row_stored :: recovery_event where
  "first_row_stored = \<lparr>re_id = v_first, re_account_id = v_account, re_claim_id = Some v_claim, re_variance_finding_id = None,
     re_amount_recovered = 400000, re_currency = Some ''USD''\<rparr>"

definition paid_db :: claims_db where
  "paid_db = export_or_rollback ledger_runtime claims_zod claims_boss v_first ''now'' first_payment first_validated
     (opened_db\<lparr>cd_recoveries := [first_row_stored], cd_audit := [ledger_row 5 opened_event, ledger_row 6 first_event]\<rparr>)"

lemma sample_distinct [simp]: "isUuid v_account" "isUuid v_dispute" "isUuid v_claim" "v_claim \<noteq> v_first"
  by code_simp+

lemma claim_opened:
  "create_claim_from_dispute exact_decimal ledger_runtime claims_zod v_claim 5 [] sample_create disputed_db =
     Inr (opened_db, \<lparr>cr_claim_id = v_claim, cr_dispute_id = v_dispute, cr_amount_claimed = ''100.0000'', cr_currency = ''USD'', cr_created = True\<rparr>)"
proof -
  have w: "write_audit_event 5 opened_event [] = Inr ([ledger_row 5 opened_event], ae_id opened_event, True)" by code_simp
  have v: "validate_claimable_dispute exact_decimal (hd (cd_disputes disputed_db)) = Inr (v_dispute, ''100.0000'', ''USD'')" by code_simp
  have n: "store_numeric ''100.0000'' = Some 1000000" "currency_format ''USD''" by code_simp+
  have dup: "detect_duplicate_claimed_finding v_account v_dispute disputed_db = Inr ()" by code_simp
  have row: "find (\<lambda>d. di_account_id d = v_account \<and> di_id d = v_dispute) (cd_disputes disputed_db) = Some (hd (cd_disputes disputed_db))"
    by (simp add: disputed_db_def)
  have none: "select_existing_claim v_account v_dispute disputed_db = None" by (simp add: select_existing_claim_def disputed_db_def)
  have e: "write_claims_event 5 opened_event (disputed_db\<lparr>cd_claims := [sample_claim]\<rparr>) = Inr (opened_db, True)"
    using w by (simp add: write_claims_event_def opened_db_def disputed_db_def)
  show ?thesis
    using row none v dup n e
    by (simp add: create_claim_from_dispute_def sample_create_def claims_zod_def optional_zod_uuid_def insert_row_def
        sample_claim_def opened_event_def disputed_db_def)
qed

lemma claim_paid:
  "record_partial_recovery exact_decimal ledger_runtime claims_zod claims_boss v_first 6 ''now'' [] first_payment opened_db =
     Inr (paid_db, v_first, ''40.0000'', False)"
proof -
  have w: "write_audit_event 6 first_event [ledger_row 5 opened_event] =
      Inr ([ledger_row 5 opened_event, ledger_row 6 first_event], ae_id first_event, True)" by code_simp
  have z: "recovery_input_ok claims_zod first_payment" by code_simp
  have f: "find_claim v_account v_claim opened_db = Some sample_claim"
    by (simp add: find_claim_def opened_db_def sample_claim_def opened_claim_def)
  have p: "prior_total v_account v_claim opened_db = ''0''"
    by (simp add: prior_total_def recoveries_of_def opened_db_def disputed_db_def sum_text_def)
  have v: "validate_partial_recovery exact_decimal (claim_view_of sample_claim) ''40'' (Some ''USD'') ''0'' = Inr first_validated" by code_simp
  have n: "store_numeric ''40'' = Some 400000" "currency_format ''USD''" by code_simp+
  have i: "insert_recovery v_first v_account v_claim None ''40'' (Some ''USD'') opened_db = Inr (opened_db\<lparr>cd_recoveries := [first_row_stored]\<rparr>)"
    using n by (simp add: insert_recovery_def first_row_stored_def opened_db_def disputed_db_def)
  have e: "write_claims_event 6 first_event (opened_db\<lparr>cd_recoveries := [first_row_stored]\<rparr>) =
      Inr (opened_db\<lparr>cd_recoveries := [first_row_stored], cd_audit := [ledger_row 5 opened_event, ledger_row 6 first_event]\<rparr>, True)"
    using w by (simp add: write_claims_event_def opened_db_def)
  have fp: "ri_client_id first_payment = v_account" "ri_claim_id first_payment = v_claim" "ri_amount_recovered first_payment = ''40''"
    "ri_currency first_payment = ''USD''" "ri_variance_finding_id first_payment = None" by (simp_all add: first_payment_def)
  have fv: "vp_amount_recovered first_validated = ''40''" "vp_currency first_validated = ''USD''" "vp_is_final first_validated = False"
    "vp_cumulative_recovered first_validated = ''40.0000''" by (simp_all add: first_validated_def)
  have db: "opened_db\<lparr>cd_recoveries := cd_recoveries opened_db @ []\<rparr> = opened_db" by simp
  show ?thesis unfolding record_partial_recovery_def fp db using z f p v i e
    by (simp add: fv first_event_def paid_db_def)
qed

lemma disputed_ok: "claims_ok disputed_db" "claimed_once disputed_db"
  by (simp_all add: claims_ok_def references_ok_def terminal_log_def claimed_once_def claim_keys_def disputed_db_def)

lemma paid_run: "(claims_step exact_decimal ledger_runtime claims_zod claims_boss isof)\<^sup>*\<^sup>* disputed_db paid_db"
proof -
  have "claims_step exact_decimal ledger_runtime claims_zod claims_boss isof disputed_db opened_db"
    by (rule claims_step.opened [OF _ claim_opened]) (simp add: disputed_db_def)
  moreover have "claims_step exact_decimal ledger_runtime claims_zod claims_boss isof opened_db paid_db"
    by (rule claims_step.recovered [OF claim_paid])
  ultimately show ?thesis by simp
qed

lemma paid_tables: "cd_claims paid_db = [sample_claim]" "cd_recoveries paid_db = [first_row_stored]"
  using export_frame [of ledger_runtime claims_zod claims_boss v_first "''now''" first_payment first_validated]
  by (metis (no_types, lifting) claims_db.select_convs claims_db.update_convs claims_db.surjective paid_db_def opened_db_def)+

section \<open>Properties\<close>

text \<open>
  C28: no claim recovers more than it claims. Through every sequence of the module's transactions the
  recoveries of a claim are positive, in its currency, and add up to at most the claimed amount; a
  claim marked as recovered has been recovered to the cent; the consistency sweep reports the claim
  as consistent. Decimal arithmetic follows the laws of decimal.js.
\<close>

theorem recovery_within_claim:
  assumes "decimal_laws D dval" and "(claims_step D rt Z B isof)\<^sup>*\<^sup>* db db'" and "claims_ok db" and "c \<in> set (cd_claims db')"
  shows "0 \<le> total_recovered db' c \<and> total_recovered db' c \<le> cl_amount_claimed c \<and>
     (\<forall>r \<in> set (recoveries_of (cl_account_id c) (cl_id c) db'). 0 < re_amount_recovered r \<and> re_currency r = cl_currency c) \<and>
     (cl_status c = ''recovered'' \<longrightarrow> total_recovered db' c = cl_amount_claimed c) \<and>
     (\<exists>k. get_claim_currency_consistency (cl_account_id c) (cl_id c) db' = Inr k \<and> kc_consistent k)"
proof -
  have ok: "claims_ok db'" by (rule decimal_laws.claims_run_ok [OF assms(1-3)])
  then have "claim_ok db' c" using assms(4) by (simp add: claims_ok_def)
  then show ?thesis using claim_ok_total [of db' c] currencies_consistent [OF ok assms(4)] by (simp add: claim_ok_def)
qed

theorem recovery_within_claim_witness:
  "sample_claim \<in> set (cd_claims paid_db) \<and> total_recovered paid_db sample_claim = 400000 \<and>
   total_recovered paid_db sample_claim \<le> cl_amount_claimed sample_claim"
proof -
  have "sample_claim \<in> set (cd_claims paid_db)" by (simp add: paid_tables)
  moreover from recovery_within_claim [OF exact.decimal_laws_axioms paid_run disputed_ok(1) this]
  have "total_recovered paid_db sample_claim \<le> cl_amount_claimed sample_claim" by simp
  moreover have "total_recovered paid_db sample_claim = 400000"
    by (simp add: total_recovered_def recoveries_of_def paid_tables first_row_stored_def sample_claim_def opened_claim_def)
  ultimately show ?thesis by simp
qed

text \<open>
  C30: the stored status of a claim refines its append-only history. After every sequence of
  transactions the status recomputed from the terminal events in the audit ledger is the stored one,
  the derivation reports a match, and the cumulative amount it prints is the exact sum of the
  recovery events.
\<close>

theorem stored_status_matches_history:
  assumes "decimal_laws D dval" and "(claims_step D rt Z B isof)\<^sup>*\<^sup>* db db'" and "claims_ok db" and "c \<in> set (cd_claims db')"
  shows "\<exists>s. get_derived_claim_status D (cl_account_id c) (cl_id c) db' = Inr s \<and> ds_derived_status s = cl_status c \<and> ds_matches s \<and>
     reads_as D dval (ds_cumulative_recovered s) (total_recovered db' c)"
  using decimal_laws.derived_status_matches [OF assms(1) decimal_laws.claims_run_ok [OF assms(1-3)] assms(4)]
  unfolding reads_as_def decimal_laws.has_value_def [OF assms(1)] .

theorem stored_status_matches_history_witness:
  "\<exists>s. get_derived_claim_status exact_decimal v_account v_claim paid_db = Inr s \<and> ds_derived_status s = ''open'' \<and> ds_matches s"
proof -
  have c: "sample_claim \<in> set (cd_claims paid_db)" by (simp add: paid_tables)
  have "cl_status sample_claim = ''open''" "cl_account_id sample_claim = v_account" "cl_id sample_claim = v_claim"
    by (simp_all add: sample_claim_def opened_claim_def)
  then show ?thesis
    using stored_status_matches_history [OF exact.decimal_laws_axioms paid_run disputed_ok(1) c] by auto
qed

text \<open>
  C29: the portfolio report balances. After every sequence of transactions, for an account that
  claims less than \<open>10\<^sup>1\<^sup>6\<close> in all, the report exists and has exactly one bucket for each currency of the
  account's claims and no other. In each bucket claimed equals recovered plus outstanding plus written
  off plus denied; the claimed and recovered columns are the exact sums over the account's claims in
  that currency, and nothing is in a wrong currency. (Amounts are stored in units of \<open>10\<^sup>-\<^sup>4\<close>.)
\<close>

theorem portfolio_report_balances:
  assumes "decimal_laws D dval" and "(claims_step D rt Z B isof)\<^sup>*\<^sup>* db db'" and "claims_ok db" and "zod_uuid Z client"
    and "sum_list (map cl_amount_claimed (filter (\<lambda>c. cl_account_id c = client) (cd_claims db'))) < 10 ^ 20"
  shows "\<exists>report. get_portfolio_reconciliation D Z client db' = Inr report \<and> distinct (map fst report) \<and>
     set (map fst report) = cl_currency ` set (filter (\<lambda>c. cl_account_id c = client) (cd_claims db')) \<and>
     (\<forall>(cur, totals, reconciles) \<in> set report. reconciles \<and>
        reads_as D dval (rt_claimed totals) (sum_list (map cl_amount_claimed
          (of_currency (or_blank cur) (filter (\<lambda>c. cl_account_id c = client) (cd_claims db'))))) \<and>
        reads_as D dval (rt_recovered totals) (sum_list (map (total_recovered db')
          (of_currency (or_blank cur) (filter (\<lambda>c. cl_account_id c = client) (cd_claims db'))))) \<and>
        reads_as D dval (rt_null_currency_recovered totals) 0 \<and> reads_as D dval (rt_mismatched_currency_recovered totals) 0)"
  by (rule decimal_laws.portfolio_balanced [OF assms(1) decimal_laws.claims_run_ok [OF assms(1-3)] assms(4,5)])

theorem portfolio_report_balances_witness:
  "\<exists>report. get_portfolio_reconciliation exact_decimal claims_zod v_account paid_db = Inr report \<and>
     map fst report = [Some ''USD'']"
proof -
  have z: "zod_uuid claims_zod v_account" by (simp add: claims_zod_def)
  have "sum_list (map cl_amount_claimed (filter (\<lambda>c. cl_account_id c = v_account) (cd_claims paid_db))) < 10 ^ 20"
    by (simp add: paid_tables sample_claim_def opened_claim_def)
  then obtain report where r: "get_portfolio_reconciliation exact_decimal claims_zod v_account paid_db = Inr report" "distinct (map fst report)"
    "set (map fst report) = cl_currency ` set (filter (\<lambda>c. cl_account_id c = v_account) (cd_claims paid_db))"
    by (rule portfolio_report_balances [OF exact.decimal_laws_axioms paid_run disputed_ok(1) z, THEN exE]) (elim conjE, rule that)
  have "cl_currency ` set (filter (\<lambda>c. cl_account_id c = v_account) (cd_claims paid_db)) = {Some ''USD''}"
    by (simp add: paid_tables sample_claim_def opened_claim_def)
  then have "set (map fst report) = {Some ''USD''}" "length (map fst report) = 1"
    using r(3) distinct_card [OF r(2)] by simp_all
  moreover have "set xs = {a} \<Longrightarrow> length xs = 1 \<Longrightarrow> xs = [a]" for xs :: "string option list" and a by (cases xs) auto
  ultimately have "map fst report = [Some ''USD'']" by blast
  with r(1) show ?thesis by (intro exI conjI)
qed

text \<open>
  C31: no finding is claimed twice. When transactions run one after another, two claims of an account
  whose disputes share a variance finding are the same claim.
\<close>

theorem no_finding_claimed_twice:
  assumes "decimal_laws D dval" and "(claims_step D rt Z B isof)\<^sup>*\<^sup>* db db'" and "claimed_once db"
    and "c \<in> set (cd_claims db')" and "d \<in> set (cd_claims db')" and "cl_account_id d = cl_account_id c"
    and "on_dispute (cd_dispute_lines db') (cl_account_id c) (cl_dispute_id c) f"
    and "on_dispute (cd_dispute_lines db') (cl_account_id c) (cl_dispute_id d) f"
  shows "cl_id d = cl_id c"
proof -
  have once: "claimed_once db'" by (rule decimal_laws.claims_run_claimed_once [OF assms(1-3)])
  have k: "(cl_id c, cl_account_id c, cl_dispute_id c) \<in> claim_keys db'" "(cl_id d, cl_account_id c, cl_dispute_id d) \<in> claim_keys db'"
    using assms(4-6) by (force simp: claim_keys_def)+
  show ?thesis by (rule claimed_onceD(1) [OF once k assms(7,8)])
qed

theorem no_finding_claimed_twice_witness:
  "cl_id ` {d \<in> set (cd_claims paid_db). cl_account_id d = v_account \<and>
              on_dispute (cd_dispute_lines paid_db) v_account (cl_dispute_id d) v_finding} = {v_claim}"
proof -
  have c: "sample_claim \<in> set (cd_claims paid_db)" by (simp add: paid_tables)
  have f: "cl_account_id sample_claim = v_account" "cl_id sample_claim = v_claim" "cl_dispute_id sample_claim = Some v_dispute"
    by (simp_all add: sample_claim_def opened_claim_def)
  have "cd_dispute_lines paid_db = cd_dispute_lines disputed_db"
    using record_partial_frame [OF claim_paid] by (simp add: opened_db_def)
  then have on: "on_dispute (cd_dispute_lines paid_db) v_account (cl_dispute_id sample_claim) v_finding"
    by (simp add: on_dispute_def f disputed_db_def)
  have "cl_id d = v_claim" if "d \<in> set (cd_claims paid_db)" "cl_account_id d = v_account"
      "on_dispute (cd_dispute_lines paid_db) v_account (cl_dispute_id d) v_finding" for d
    using no_finding_claimed_twice [OF exact.decimal_laws_axioms paid_run disputed_ok(2) c that(1), where f = v_finding] that(2,3) on f
    by simp
  with c on f show ?thesis by force
qed

text \<open>
  C32: a claim paid in full by partial recoveries can never be closed as recovered. Once the
  recoveries of a claim add up to the claimed amount, every request to resolve it by full recovery
  fails: the request must carry a positive amount, which the total then exceeds, and the partial
  recoveries left the status untouched.
\<close>

theorem fully_paid_claim_cannot_close:
  assumes "decimal_laws D dval" and "claims_ok db" and "c \<in> set (cd_claims db)" and "total_recovered db c = cl_amount_claimed c"
    and "rs_client_id i = cl_account_id c" and "rs_claim_id i = cl_id c" and "rs_kind i = FULL_RECOVERY"
  shows "\<exists>e. resolve_claim D rt Z new_id ev now i db = Inl e"
proof (cases "resolve_claim D rt Z new_id ev now i db")
  case (Inr r)
  then obtain db' res where r: "resolve_claim D rt Z new_id ev now i db = Inr (db', res)" by (cases r) auto
  obtain x v db1 rid where z: "resolve_input_ok Z i" and x: "find_claim (rs_client_id i) (rs_claim_id i) db = Some x"
    and v: "validate_claim_resolution D (claim_view_of x) (rs_kind i)
      (sum_text (map re_amount_recovered (recoveries_of (rs_client_id i) (rs_claim_id i) db))) (rs_amount_recovered i) (rs_currency i) = Inr v"
    and ins: "(case vr_amount_recovered v of None \<Rightarrow> Inr (db, None)
        | Some a \<Rightarrow> rbind (insert_recovery new_id (rs_client_id i) (rs_claim_id i) (rs_variance_finding_id i) a (vr_currency v) db)
            (\<lambda>db'. Inr (db', Some new_id))) = Inr (db1, rid)"
    by (rule resolve_claim_stages [OF r])
  have xc: "x = c" using find_claim_unique [OF assms(2,3)] x assms(5,6) by simp
  have t: "sum_list (map re_amount_recovered (recoveries_of (rs_client_id i) (rs_claim_id i) db)) = total_recovered db c"
    using assms(5,6) by (simp add: total_recovered_def)
  have cok: "claim_ok db c" using assms(2,3) by (simp add: claims_ok_def)
  obtain a where a: "rs_amount_recovered i = Some a" "vr_amount_recovered v = Some a"
    using v assms(7) by (auto simp: validate_claim_resolution_def validate_recovery_amount_and_currency_def result_simps Let_def
        split: if_splits option.splits)
  have amt: "is_amount_literal b \<and> store_numeric b = Some (the (store_numeric b))" if "rs_amount_recovered i = Some b" for b
    using that z ins a by (auto simp: resolve_input_ok_def result_simps dest: insert_recovery_Inr)
  have "0 < the (store_numeric a) \<and> total_recovered db c + the (store_numeric a) = cl_amount_claimed c"
    using decimal_laws.validate_resolution_Inr [OF assms(1) v amt] a(1) assms(7) claim_ok_total [OF cok] by (simp add: xc t)
  then show ?thesis using assms(4) by auto
qed blast

definition paid_up_db :: claims_db where
  "paid_up_db = disputed_db\<lparr>cd_claims := [sample_claim\<lparr>cl_amount_claimed := 400000\<rparr>], cd_recoveries := [first_row_stored]\<rparr>"

definition sample_resolve :: resolve_input where
  "sample_resolve = \<lparr>rs_client_id = v_account, rs_claim_id = v_claim, rs_kind = FULL_RECOVERY, rs_amount_recovered = Some ''40'',
     rs_currency = Some ''USD'', rs_variance_finding_id = None\<rparr>"

lemma paid_up_total: "total_recovered paid_up_db (sample_claim\<lparr>cl_amount_claimed := 400000\<rparr>) = 400000"
  by (simp add: total_recovered_def recoveries_of_def paid_up_db_def first_row_stored_def sample_claim_def opened_claim_def)

lemma paid_up_ok: "claims_ok paid_up_db"
proof -
  have "recoveries_of v_account v_claim paid_up_db = [first_row_stored]"
    by (simp add: recoveries_of_def paid_up_db_def first_row_stored_def)
  then have "claim_ok paid_up_db (sample_claim\<lparr>cl_amount_claimed := 400000\<rparr>)"
    using paid_up_total
    by (simp add: claim_ok_def outcome_of_def terminal_log_def terminal_status_cases sample_claim_def opened_claim_def)
      (simp add: paid_up_db_def disputed_db_def first_row_stored_def)
  then show ?thesis
    by (simp add: claims_ok_def references_ok_def)
      (simp add: paid_up_db_def terminal_log_def disputed_db_def first_row_stored_def sample_claim_def opened_claim_def)
qed

theorem fully_paid_claim_cannot_close_witness:
  "total_recovered paid_up_db (sample_claim\<lparr>cl_amount_claimed := 400000\<rparr>) = 400000 \<and>
   (\<exists>e. resolve_claim exact_decimal ledger_runtime claims_zod v_second v_second 9 sample_resolve paid_up_db = Inl e)"
  using fully_paid_claim_cannot_close [OF exact.decimal_laws_axioms paid_up_ok, of "sample_claim\<lparr>cl_amount_claimed := 400000\<rparr>" sample_resolve]
    paid_up_total by (simp add: paid_up_db_def sample_resolve_def sample_claim_def opened_claim_def)

text \<open>
  C33: the bound on recoveries is not protected against concurrency. When a partial recovery succeeds,
  it also succeeds with the same answer whatever recoveries other transactions commit between its
  read of the prior total and its insert: both rows are stored and the total is not checked again.
\<close>

theorem concurrent_recovery_unchecked:
  assumes "record_partial_recovery D rt Z B new_id now at_text [] i db = Inr (db', r)"
  shows "\<exists>db''. record_partial_recovery D rt Z B new_id now at_text others i db = Inr (db'', r) \<and>
     cd_recoveries db'' = cd_recoveries db @ others @ [last (cd_recoveries db')]"
proof -
  obtain c v db1 db2 b where z: "recovery_input_ok Z i" and c: "find_claim (ri_client_id i) (ri_claim_id i) db = Some c"
    and v: "validate_partial_recovery D (claim_view_of c) (ri_amount_recovered i) (Some (ri_currency i))
      (prior_total (ri_client_id i) (ri_claim_id i) db) = Inr v"
    and ins: "insert_recovery new_id (ri_client_id i) (ri_claim_id i) (ri_variance_finding_id i) (vp_amount_recovered v)
      (Some (vp_currency v)) db = Inr db1"
    and w: "write_claims_event now (recovery_recorded_event rt (ri_client_id i) new_id (ri_claim_id i) v) db1 = Inr (db2, b)"
    and res: "db' = export_or_rollback rt Z B new_id at_text i v db2" "r = (new_id, vp_cumulative_recovered v, vp_is_final v)"
    using assms by (auto simp: record_partial_recovery_def result_simps split: option.splits)
  obtain n where n: "store_numeric (vp_amount_recovered v) = Some n" "currency_format (vp_currency v)"
    and db1: "db1 = db\<lparr>cd_recoveries := cd_recoveries db @ [\<lparr>re_id = new_id, re_account_id = ri_client_id i, re_claim_id = Some (ri_claim_id i),
       re_variance_finding_id = ri_variance_finding_id i, re_amount_recovered = n, re_currency = Some (vp_currency v)\<rparr>]\<rparr>"
    using ins by (auto simp: insert_recovery_def result_simps split: option.splits)
  let ?row = "\<lparr>re_id = new_id, re_account_id = ri_client_id i, re_claim_id = Some (ri_claim_id i),
       re_variance_finding_id = ri_variance_finding_id i, re_amount_recovered = n, re_currency = Some (vp_currency v)\<rparr>"
  obtain rows where db2: "db2 = db1\<lparr>cd_audit := rows\<rparr>"
    and wr: "write_audit_event now (recovery_recorded_event rt (ri_client_id i) new_id (ri_claim_id i) v) (cd_audit db) = Inr (rows, snd (projr
      (write_audit_event now (recovery_recorded_event rt (ri_client_id i) new_id (ri_claim_id i) v) (cd_audit db))))"
    using w by (auto simp: write_claims_event_def db1 split: sum.splits)
  define d1 where "d1 = db\<lparr>cd_recoveries := cd_recoveries db @ others @ [?row]\<rparr>"
  have "insert_recovery new_id (ri_client_id i) (ri_claim_id i) (ri_variance_finding_id i) (vp_amount_recovered v)
      (Some (vp_currency v)) (db\<lparr>cd_recoveries := cd_recoveries db @ others\<rparr>) = Inr d1"
    using n by (simp add: insert_recovery_def d1_def)
  moreover have "\<exists>b'. write_claims_event now (recovery_recorded_event rt (ri_client_id i) new_id (ri_claim_id i) v) d1 =
      Inr (d1\<lparr>cd_audit := rows\<rparr>, b')"
    using wr by (cases "snd (projr (write_audit_event now (recovery_recorded_event rt (ri_client_id i) new_id (ri_claim_id i) v) (cd_audit db)))")
      (simp add: write_claims_event_def d1_def)
  ultimately have "record_partial_recovery D rt Z B new_id now at_text others i db =
      Inr (export_or_rollback rt Z B new_id at_text i v (d1\<lparr>cd_audit := rows\<rparr>), r)"
    using z c v res(2) by (auto simp: record_partial_recovery_def)
  moreover have "cd_recoveries (export_or_rollback rt Z B new_id at_text i v d) = cd_recoveries d" for d
    using export_frame [of rt Z B new_id at_text i v d] by auto
  ultimately show ?thesis by (auto simp: res(1) db2 db1 d1_def)
qed

theorem concurrent_recovery_unchecked_witness:
  "\<exists>db'. record_partial_recovery exact_decimal ledger_runtime claims_zod claims_boss v_first 6 ''now''
       [first_row_stored\<lparr>re_id := v_second, re_amount_recovered := 900000\<rparr>] first_payment opened_db = Inr (db', v_first, ''40.0000'', False) \<and>
     cl_amount_claimed sample_claim < sum_list (map re_amount_recovered (cd_recoveries db'))"
  using concurrent_recovery_unchecked [OF claim_paid, of "[first_row_stored\<lparr>re_id := v_second, re_amount_recovered := 900000\<rparr>]"]
  by (auto simp: paid_tables) (simp add: opened_db_def disputed_db_def first_row_stored_def sample_claim_def opened_claim_def)

end
