(* ===== verification/Dispute_Theorems.thy ===== *)
theory Dispute_Theorems
  imports Dispute_Messages Dispute_Routes Claim_Theorems
begin

text \<open>
  The properties of disputes, with a run as their witness: an audit finds an overcharge of 100 dollars,
  an analyst accepts it, a dispute is drafted and approved, the carrier accepts, and it is claimed.
\<close>

section \<open>A sample run\<close>

definition v_carrier :: uuid where "v_carrier = ''00000000-0000-4000-8000-00000000ca01''"
definition v_invoice :: uuid where "v_invoice = ''00000000-0000-4000-8000-000000001101''"
definition v_run :: uuid where "v_run = ''00000000-0000-4000-8000-000000002201''"
definition v_row :: uuid where "v_row = ''00000000-0000-4000-8000-000000003301''"
definition v_actor :: uuid where "v_actor = ''00000000-0000-4000-8000-00000000ac01''"

definition dispute_runtime :: runtime where
  "dispute_runtime = ledger_runtime\<lparr>rt_sha256_hex := (\<lambda>s. take 64 (filter is_hex_digit (take 26 (rev s)) @ replicate 64 CHR ''0''))\<rparr>"

definition fresh_ids :: fresh_rows where
  "fresh_ids t k = (if t = ''dispute'' then v_dispute else if t = ''finding_status_event'' then v_second else v_row)"

definition no_rows :: "account list \<Rightarrow> (uuid \<times> bool) list \<Rightarrow> dispute_db" where
  "no_rows accounts active =
     \<lparr>dp_invoices = [], dp_runs = [],
      dp_claims = \<lparr>cd_accounts = accounts, cd_disputes = [], cd_dispute_lines = [], cd_findings = [], cd_finding_events = [],
                   cd_claims = [], cd_recoveries = [], cd_audit = [], cd_jobs = []\<rparr>,
      dp_assignments = [], dp_comms = [],
      dp_workflow = \<lparr>wd_accounts = active, wd_instances = [], wd_transitions = [], wd_commands = [], wd_outbox = [],
                     wd_audit = [], wd_jobs = []\<rparr>\<rparr>"

definition found_finding :: variance_finding where
  "found_finding = \<lparr>vf_id = v_finding, vf_account_id = v_account, vf_audit_run_id = v_run, vf_status = ''open'',
     vf_direction = Some OVERCHARGE, vf_variance_amount = Some 1000000, vf_currency = Some ''USD'',
     vf_assigned_to_user_id = None, vf_clause_id = None, vf_rate_cell_id = None\<rparr>"

definition found_db :: dispute_db where
  "found_db = (no_rows [] [(v_account, True)])
     \<lparr>dp_invoices := [\<lparr>iv_id = v_invoice, iv_account_id = v_account, iv_shipment_id = None, iv_carrier_id = Some v_carrier,
        iv_transaction_set = TS210, iv_invoice_number = None, iv_currency = Some ''USD'', iv_parser_version = ''1''\<rparr>],
      dp_runs := [\<lparr>run_id = v_run, run_account_id = v_account, run_invoice_id = v_invoice, run_rubric_snapshot_id = None,
        run_engine_spec_version = ''1'', run_outcome = SCORED\<rparr>],
      dp_claims := (dp_claims (no_rows [] [(v_account, True)]))\<lparr>cd_findings := [found_finding]\<rparr>\<rparr>"

definition reviewed_db :: dispute_db where
  "reviewed_db = found_db\<lparr>dp_claims := (dp_claims found_db)
     \<lparr>cd_findings := [found_finding\<lparr>vf_status := ''accepted''\<rparr>],
      cd_finding_events := [\<lparr>fs_id = v_row, fs_account_id = v_account, fs_variance_finding_id = v_finding, fs_from_status = ''open'',
        fs_to_status = ''accepted'', fs_actor_kind = ''analyst'', fs_note = Some ''Analyst action: accept''\<rparr>],
      cd_audit := [ledger_row 1 (finding_changed_event dispute_runtime v_account v_finding v_row ''open'' ''accepted''
        (Some ''Analyst action: accept'') (Some v_actor))]\<rparr>\<rparr>"

definition sample_dispute_input :: create_dispute_input where
  "sample_dispute_input = \<lparr>cdi_client_id = v_account, cdi_finding_ids = [v_finding], cdi_actor_user_id = Some v_actor\<rparr>"

definition sample_result :: create_dispute_result where
  "sample_result = \<lparr>cdr_dispute_id = v_dispute, cdr_finding_ids = [v_finding], cdr_amount_claimed = ''100.0000'', cdr_currency = ''USD''\<rparr>"

definition draft_dispute :: dispute where
  "draft_dispute = \<lparr>di_id = v_dispute, di_account_id = v_account, di_status = ''draft'', di_amount_claimed = Some 1000000,
     di_currency = Some ''USD'', di_carrier_id = Some v_carrier, di_accepted_amount = None\<rparr>"

definition sample_line :: dispute_line where
  "sample_line = \<lparr>dl_id = v_row, dl_account_id = v_account, dl_dispute_id = v_dispute, dl_variance_finding_id = Some v_finding,
     dl_amount = Some 1000000, dl_currency = Some ''USD''\<rparr>"

definition created_db :: dispute_db where
  "created_db = reviewed_db\<lparr>dp_claims := (dp_claims reviewed_db)
     \<lparr>cd_disputes := [draft_dispute], cd_dispute_lines := [sample_line],
      cd_findings := [found_finding\<lparr>vf_status := ''queued_for_dispute''\<rparr>],
      cd_finding_events := cd_finding_events (dp_claims reviewed_db) @
        [\<lparr>fs_id = v_second, fs_account_id = v_account, fs_variance_finding_id = v_finding, fs_from_status = ''accepted'',
          fs_to_status = ''queued_for_dispute'', fs_actor_kind = ''analyst'', fs_note = Some ''Included in dispute creation''\<rparr>],
      cd_audit := cd_audit (dp_claims reviewed_db) @
        [ledger_row 2 (finding_changed_event dispute_runtime v_account v_finding v_second ''accepted'' ''queued_for_dispute''
           (Some ''Included in dispute creation'') (Some v_actor)),
         ledger_row 2 (dispute_created_event dispute_runtime v_account (Some v_actor) v_dispute
           \<lparr>vd_finding_ids = [v_finding], vd_carrier_id = v_carrier, vd_currency = ''USD'', vd_amount_claimed = ''100.0000''\<rparr>)]\<rparr>\<rparr>"

definition sample_instance :: workflow_instance where
  "sample_instance = \<lparr>wi_id = v_row, wi_account_id = v_account, wi_workflow_type = ''dispute_delivery'', wi_subject_entity = ''dispute'',
     wi_subject_entity_id = v_dispute, wi_current_state = ''pending_delivery'', wi_created_at = 3, wi_updated_at = 3\<rparr>"

definition approved_event :: audit_event where
  "approved_event = dispute_moved_event dispute_runtime v_account v_dispute ''draft'' ''sent'' ''dispute.approved'' v_actor []"

definition instance_event :: audit_event where
  "instance_event = system_event dispute_runtime v_account ''workflow_instance'' v_row ''workflow.created''
     [v_account, v_row, ''workflow.created'']
     [(''workflowType'', JString ''dispute_delivery''), (''subjectEntity'', JString ''dispute''),
      (''subjectEntityId'', JString v_dispute), (''initialState'', JString ''pending_delivery'')]"

definition scheduled_event :: audit_event where
  "scheduled_event = command_scheduled_event dispute_runtime (\<lambda>_. ''now'') v_row (delivery_command draft_dispute v_row 3)"

definition answered_event :: audit_event where
  "answered_event = dispute_moved_event dispute_runtime v_account v_dispute ''sent'' ''accepted'' ''dispute.accepted'' v_actor []"

definition claimed_event :: audit_event where
  "claimed_event = claim_created_event dispute_runtime v_account None v_claim v_dispute ''100.0000'' ''USD''"

definition approved_rows :: "audit_event_row list" where
  "approved_rows = cd_audit (dp_claims created_db) @ map (ledger_row 3) [approved_event, instance_event, scheduled_event]"

definition approved_db :: dispute_db where
  "approved_db = created_db
     \<lparr>dp_claims := (dp_claims created_db)\<lparr>cd_disputes := [draft_dispute\<lparr>di_status := ''sent''\<rparr>], cd_audit := approved_rows\<rparr>,
      dp_workflow := (dp_workflow created_db)\<lparr>wd_instances := [sample_instance],
        wd_commands := [new_command v_row (delivery_command draft_dispute v_row 3)], wd_audit := approved_rows\<rparr>\<rparr>"

definition accepted_db :: dispute_db where
  "accepted_db = approved_db
     \<lparr>dp_claims := (dp_claims approved_db)\<lparr>cd_disputes := [draft_dispute\<lparr>di_status := ''accepted''\<rparr>],
        cd_audit := approved_rows @ [ledger_row 4 answered_event]\<rparr>\<rparr>"

definition claimed_claims :: claims_db where
  "claimed_claims = (dp_claims accepted_db)\<lparr>cd_claims := [sample_claim], cd_audit := cd_audit (dp_claims accepted_db) @ [ledger_row 5 claimed_event]\<rparr>"

lemma sample_events:
  "parse_audit_event approved_event = Some approved_event" "parse_audit_event instance_event = Some instance_event"
  "parse_audit_event scheduled_event = Some scheduled_event" "parse_audit_event answered_event = Some answered_event"
  "parse_audit_event claimed_event = Some claimed_event"
  by code_simp+

lemma dispute_event_ids:
  "distinct (map ae_id (cd_audit (dp_claims created_db)) @ map ae_id [approved_event, instance_event, scheduled_event, answered_event, claimed_event])"
  by code_simp

lemma append_event:
  "parse_audit_event e = Some e \<Longrightarrow> ae_id e \<notin> ae_id ` set rows \<Longrightarrow>
   write_audit_event t e rows = Inr (rows @ [ledger_row t e], ae_id e, True)"
  by (force simp: write_audit_event_Inr list_ex_iff)

lemma finding_accepted:
  "apply_finding_action dispute_runtime [v_account] v_row 1 v_finding ''accept'' None (Some v_actor) found_db = Inr (reviewed_db, True, ''accepted'')"
  by code_simp

lemma dispute_created:
  "create_dispute_from_findings exact_decimal dispute_runtime claims_zod [v_account] fresh_ids 2 sample_dispute_input reviewed_db =
     Inr (created_db, sample_result)"
  by code_simp

lemma dispute_approved:
  "approve_dispute dispute_runtime claims_zod (\<lambda>_. ''now'') [v_account] fresh_ids 3 3 v_dispute v_actor created_db = Inr (approved_db, True)"
proof -
  let ?a = "cd_audit (dp_claims created_db)"
  have ids: "ae_id approved_event \<notin> ae_id ` set ?a" "ae_id instance_event \<notin> ae_id ` set (?a @ [ledger_row 3 approved_event])"
    "ae_id scheduled_event \<notin> ae_id ` set (?a @ [ledger_row 3 approved_event, ledger_row 3 instance_event])"
    using dispute_event_ids by auto
  note w = append_event [OF sample_events(1) ids(1), of 3] append_event [OF sample_events(2) ids(2), of 3] append_event [OF sample_events(3) ids(3), of 3]
  have z: "is_type_name ''dispute_delivery''" "is_type_name ''dispute''" "is_type_name ''pending_delivery''" "is_type_name DELIVER_DISPUTE_COMMAND_TYPE"
    "isUuid v_row" by code_simp+
  have d: "di_id draft_dispute = v_dispute" "di_account_id draft_dispute = v_account" "di_status draft_dispute = ''draft''"
    "cd_disputes (dp_claims created_db) = [draft_dispute]" "wd_instances (dp_workflow created_db) = []" "wd_commands (dp_workflow created_db) = []"
    by (simp_all add: draft_dispute_def created_db_def reviewed_db_def found_db_def no_rows_def)
  let ?db1 = "put_disputes [draft_dispute\<lparr>di_status := ''sent''\<rparr>] created_db"
  let ?db2 = "?db1\<lparr>dp_claims := (dp_claims ?db1)\<lparr>cd_audit := ?a @ [ledger_row 3 approved_event]\<rparr>\<rparr>"
  let ?rows3 = "?a @ [ledger_row 3 approved_event, ledger_row 3 instance_event]"
  let ?db3 = "?db2\<lparr>dp_workflow := (dp_workflow created_db)\<lparr>wd_instances := [sample_instance], wd_audit := ?rows3\<rparr>,
    dp_claims := (dp_claims ?db2)\<lparr>cd_audit := ?rows3\<rparr>\<rparr>"
  have "update_dispute [v_account] [''draft''] (\<lambda>d. d\<lparr>di_status := ''sent''\<rparr>) v_dispute created_db = Some (?db1, draft_dispute)"
    by (simp add: update_dispute_def visible_dispute_def d)
  moreover have "write_dispute_event 3 approved_event ?db1 = Inr ?db2"
    using w(1) by (simp add: write_dispute_event_def on_claims_def write_claims_event_def put_disputes_def)
  moreover have "on_workflow (create_workflow_instance dispute_runtime v_row 3 (delivery_instance draft_dispute)) ?db2 = Inr (?db3, sample_instance)"
    using w(2) z(1-3) by (simp add: on_workflow_def create_workflow_instance_def delivery_instance_def d put_disputes_def write_workflow_event_def
        instance_event_def sample_instance_def Let_def)
  moreover have "on_workflow (schedule_workflow_command dispute_runtime claims_zod (\<lambda>_. ''now'') (v_row, 3) (delivery_command draft_dispute v_row 3)) ?db3
      = Inr (approved_db, v_row, True)"
    using w(3) z(4,5) by (simp add: on_workflow_def schedule_workflow_command_def scheduled_event_def delivery_command_def d put_disputes_def
        write_workflow_event_def claims_zod_def sample_instance_def approved_db_def approved_rows_def)
  ultimately show ?thesis
    by (simp add: approve_dispute_def d fresh_ids_def sample_instance_def approved_event_def)
qed

lemma dispute_accepted:
  "accept_dispute dispute_runtime [v_account] (\<lambda>ds. ds) 4 v_dispute v_actor approved_db = Inr (accepted_db, True)"
proof -
  let ?sent = "draft_dispute\<lparr>di_status := ''sent''\<rparr>"
  have d: "di_id draft_dispute = v_dispute" "di_account_id draft_dispute = v_account" "cd_disputes (dp_claims approved_db) = [?sent]"
    "cd_audit (dp_claims approved_db) = approved_rows"
    by (simp_all add: draft_dispute_def approved_db_def)
  have "ae_id answered_event \<notin> ae_id ` set approved_rows" using dispute_event_ids by (auto simp: approved_rows_def)
  then have w: "write_audit_event 4 answered_event approved_rows = Inr (approved_rows @ [ledger_row 4 answered_event], ae_id answered_event, True)"
    by (rule append_event [OF sample_events(4)])
  have "find (visible_dispute [v_account] v_dispute) (cd_disputes (dp_claims approved_db)) = Some ?sent"
    by (simp add: d visible_dispute_def)
  then show ?thesis using w
    by (simp add: accept_dispute_def select_respondable_dispute_def RESPONDABLE_STATUSES_def move_dispute_def update_dispute_def visible_dispute_def d
        put_disputes_def write_dispute_event_def on_claims_def write_claims_event_def answered_event_def accepted_db_def)
qed

lemma dispute_claimed:
  "create_claim_from_dispute exact_decimal dispute_runtime claims_zod v_claim 5 [] sample_create (dp_claims accepted_db) =
     Inr (claimed_claims, \<lparr>cr_claim_id = v_claim, cr_dispute_id = v_dispute, cr_amount_claimed = ''100.0000'', cr_currency = ''USD'', cr_created = True\<rparr>)"
proof -
  let ?accepted = "draft_dispute\<lparr>di_status := ''accepted''\<rparr>"
  have d: "di_id draft_dispute = v_dispute" "di_account_id draft_dispute = v_account" "cd_disputes (dp_claims accepted_db) = [?accepted]"
    "cd_claims (dp_claims accepted_db) = []" "cd_audit (dp_claims accepted_db) = approved_rows @ [ledger_row 4 answered_event]"
    by (simp_all add: draft_dispute_def accepted_db_def approved_db_def created_db_def reviewed_db_def found_db_def no_rows_def)
  have v: "validate_claimable_dispute exact_decimal ?accepted = Inr (v_dispute, ''100.0000'', ''USD'')" by code_simp
  have n: "store_numeric ''100.0000'' = Some 1000000" "currency_format ''USD''" by code_simp+
  have dup: "detect_duplicate_claimed_finding v_account v_dispute (dp_claims accepted_db) = Inr ()"
    by (simp add: detect_duplicate_claimed_finding_def claimed_elsewhere_def d List.map_filter_def list_ex_iff)
  have row: "find (\<lambda>d. di_account_id d = v_account \<and> di_id d = v_dispute) (cd_disputes (dp_claims accepted_db)) = Some ?accepted"
    by (simp add: d)
  have none: "select_existing_claim v_account v_dispute (dp_claims accepted_db) = None" by (simp add: select_existing_claim_def d)
  have "ae_id claimed_event \<notin> ae_id ` set (cd_audit (dp_claims accepted_db))" using dispute_event_ids by (auto simp: d approved_rows_def)
  then have w: "write_audit_event 5 claimed_event (cd_audit (dp_claims accepted_db)) =
      Inr (cd_audit (dp_claims accepted_db) @ [ledger_row 5 claimed_event], ae_id claimed_event, True)"
    by (rule append_event [OF sample_events(5)])
  have e: "write_claims_event 5 claimed_event ((dp_claims accepted_db)\<lparr>cd_claims := [sample_claim]\<rparr>) = Inr (claimed_claims, True)"
    using w by (simp add: write_claims_event_def claimed_claims_def)
  show ?thesis
    using row none v dup n e
    by (simp add: create_claim_from_dispute_def sample_create_def claims_zod_def optional_zod_uuid_def insert_row_def
        sample_claim_def claimed_event_def d(4))
qed

section \<open>The run as steps of the system\<close>

lemma no_rows_ok: "system_ok (no_rows accounts active)"
  by (simp add: system_ok_def no_rows_def disputes_ok_def findings_ok_def dispute_rows_def delivery_ok_def claims_ok_def references_ok_def
      terminal_log_def claimed_once_def claim_keys_def claims_backed_def delivery_core_def)

abbreviation sample_step :: "dispute_db \<Rightarrow> dispute_db \<Rightarrow> bool" where
  "sample_step \<equiv> system_step exact_decimal dispute_runtime claims_zod claims_boss (\<lambda>_. ''now'')"

definition sample_start :: dispute_db where
  "sample_start = no_rows [] [(v_account, True)]"

lemma created_run: "sample_step\<^sup>*\<^sup>* sample_start reviewed_db" "sample_step reviewed_db created_db"
proof -
  have "sample_step sample_start found_db"
  proof (rule system_step.audited)
    show "found_db = sample_start
       \<lparr>dp_invoices := dp_invoices found_db, dp_runs := dp_runs found_db,
        dp_claims := (dp_claims sample_start)\<lparr>cd_findings := cd_findings (dp_claims sample_start) @ [found_finding]\<rparr>\<rparr>"
      by (simp add: found_db_def sample_start_def) (simp add: no_rows_def)
    show "findings_ok (dp_claims found_db)" by (simp add: findings_ok_def found_db_def finding_core_def found_finding_def)
  qed
  moreover have "sample_step found_db reviewed_db"
    using finding_accepted
    by (intro system_step.reviewed [where b = True and visible = "[v_account]" and new_id = v_row and now = 1 and i = v_finding and st = "''accepted''"
          and remark = "Some ''Analyst action: accept''" and actor = "Some v_actor"])
      (auto simp: apply_finding_action_def FINDING_ACTION_STATUS_def rbind_eq_Inr)
  ultimately show "sample_step\<^sup>*\<^sup>* sample_start reviewed_db" by simp
  show "sample_step reviewed_db created_db"
    by (rule system_step.created [OF _ dispute_created]) (simp add: reviewed_db_def found_db_def no_rows_def)
qed

lemma approved_run: "sample_step\<^sup>*\<^sup>* sample_start approved_db"
proof -
  have "sample_step created_db approved_db"
    by (rule system_step.approved [OF _ dispute_approved]) (simp add: created_db_def reviewed_db_def found_db_def no_rows_def)
  then show ?thesis using created_run by (meson rtranclp.rtrancl_into_rtrancl)
qed

lemma claimed_run: "sample_step\<^sup>*\<^sup>* sample_start (accepted_db\<lparr>dp_claims := claimed_claims\<rparr>)"
proof -
  have "sample_step approved_db accepted_db" by (rule system_step.accepted [OF dispute_accepted])
  moreover have "sample_step accepted_db (accepted_db\<lparr>dp_claims := claimed_claims\<rparr>)"
  proof (rule system_step.claimed)
    show "claims_step exact_decimal dispute_runtime claims_zod claims_boss (\<lambda>_. ''now'') (dp_claims accepted_db) claimed_claims"
      by (rule claims_step.opened [OF _ dispute_claimed])
        (simp add: accepted_db_def approved_db_def created_db_def reviewed_db_def found_db_def no_rows_def)
  qed (simp_all add: claimed_claims_def)
  ultimately show ?thesis using approved_run by (meson rtranclp.rtrancl_into_rtrancl)
qed

lemma sample_run_ok: "system_ok (accepted_db\<lparr>dp_claims := claimed_claims\<rparr>)" "system_ok created_db"
  using fixed_notation.system_run_ok [OF exact_fixed.fixed_notation_axioms] claimed_run created_run no_rows_ok
  unfolding sample_start_def by (blast, meson rtranclp.rtrancl_into_rtrancl)

section \<open>Properties\<close>

text \<open>
  C7: every claimed cent is an audited cent. Through every sequence of transactions of audits, analysts,
  disputes, the workflow runtime and the claims module from empty tables, the amount of a claim is the
  exact sum of the variances of distinct findings, one for each line of its dispute, of the claim's
  account and currency; what is recovered on the claim never exceeds it.
\<close>

theorem claims_backed_by_findings:
  assumes "fixed_notation D val" and "(system_step D rt Z B isof)\<^sup>*\<^sup>* (no_rows accounts active) db"
    and "c \<in> set (cd_claims (dp_claims db))" and "cl_dispute_id c = Some i"
  shows "distinct (map dl_variance_finding_id (lines_of (dp_claims db) (cl_account_id c) i)) \<and>
     (\<forall>l \<in> set (lines_of (dp_claims db) (cl_account_id c) i). \<exists>f \<in> set (cd_findings (dp_claims db)).
        dl_variance_finding_id l = Some (vf_id f) \<and> vf_account_id f = cl_account_id c \<and> vf_currency f = cl_currency c \<and>
        vf_variance_amount f = Some (the (dl_amount l))) \<and>
     cl_amount_claimed c = sum_list (map (the \<circ> dl_amount) (lines_of (dp_claims db) (cl_account_id c) i)) \<and>
     total_recovered (dp_claims db) c \<le> cl_amount_claimed c"
proof -
  have ok: "system_ok db" by (rule fixed_notation.system_run_ok [OF assms(1,2) no_rows_ok])
  then have "(i, cl_account_id c, Some (cl_amount_claimed c), cl_currency c) \<in> set (map money_core (cd_disputes (dp_claims db)))"
    using assms(3,4) by (auto simp: system_ok_def claims_backed_def backed_def)
  then obtain d where d: "d \<in> set (cd_disputes (dp_claims db))" "i = di_id d" "cl_account_id c = di_account_id d"
    "di_amount_claimed d = Some (cl_amount_claimed c)" "cl_currency c = di_currency d"
    by (auto simp: money_core_def)
  let ?ls = "lines_of (dp_claims db) (cl_account_id c) i"
  have "dispute_money (dp_claims db) d" using ok d(1) by (simp add: system_ok_def disputes_ok_def dispute_ok_def)
  then have m: "distinct (map dl_variance_finding_id ?ls)" "\<forall>l \<in> set ?ls. dl_currency l = cl_currency c \<and> line_backed (dp_claims db) l"
    "Some (cl_amount_claimed c) = Some (sum_list (map (the \<circ> dl_amount) ?ls))"
    unfolding dispute_money_def d(2,3,5) d(4) [symmetric] by blast+
  have "claim_ok (dp_claims db) c" using ok assms(3) by (simp add: system_ok_def claims_ok_def)
  then have t: "total_recovered (dp_claims db) c \<le> cl_amount_claimed c" by (simp add: claim_ok_def)
  have "\<exists>f \<in> set (cd_findings (dp_claims db)). dl_variance_finding_id l = Some (vf_id f) \<and> vf_account_id f = cl_account_id c \<and>
      vf_currency f = cl_currency c \<and> vf_variance_amount f = Some (the (dl_amount l))" if l: "l \<in> set ?ls" for l
  proof -
    have b: "line_backed (dp_claims db) l" "dl_currency l = cl_currency c" "dl_account_id l = cl_account_id c"
      using m(2) l by (auto simp: lines_of_def)
    then obtain g n where g: "dl_variance_finding_id l = Some g" "dl_amount l = Some n"
      "(g, dl_account_id l, Some n, dl_currency l) \<in> finding_core ` set (cd_findings (dp_claims db))"
      unfolding line_backed_def set_map by blast
    then obtain f where "f \<in> set (cd_findings (dp_claims db))" "finding_core f = (g, dl_account_id l, Some n, dl_currency l)" by (metis imageE)
    then show ?thesis using g(1,2) b(2,3) by (intro bexI [of _ f]) (simp_all add: finding_core_def)
  qed
  then show ?thesis using m(1,3) t by blast
qed

theorem claims_backed_by_findings_witness:
  "cd_claims claimed_claims = [sample_claim] \<and> cl_amount_claimed sample_claim = 1000000 \<and>
   lines_of claimed_claims v_account v_dispute = [sample_line] \<and> cl_amount_claimed sample_claim = sum_list (map (the \<circ> dl_amount) [sample_line])"
proof -
  have f: "cd_claims claimed_claims = [sample_claim]" "cl_amount_claimed sample_claim = 1000000" "cl_account_id sample_claim = v_account"
    "cl_dispute_id sample_claim = Some v_dispute" "lines_of claimed_claims v_account v_dispute = [sample_line]"
    by (simp_all add: claimed_claims_def sample_claim_def opened_claim_def lines_of_def accepted_db_def approved_db_def created_db_def sample_line_def)
  show ?thesis
    using claims_backed_by_findings [OF exact_fixed.fixed_notation_axioms claimed_run [unfolded sample_start_def], of sample_claim v_dispute]
    by (simp add: f)
qed

text \<open>
  C8: a dispute follows its life cycle, and its events tell it. After every run the events of a
  dispute in the audit ledger are a path of the life cycle - created, approved, answered once, closed -
  that ends in the stored status; an accepted amount is at most the amount claimed.
\<close>

theorem dispute_lifecycle_refined:
  assumes "fixed_notation D val" and "(system_step D rt Z B isof)\<^sup>*\<^sup>* (no_rows accounts active) db"
    and "d \<in> set (cd_disputes (dp_claims db))"
  shows "lifecycle (dispute_log (cd_audit (dp_claims db)) (di_account_id d) (di_id d)) (di_status d) \<and>
     (\<exists>n. di_amount_claimed d = Some n \<and> (\<forall>m. di_accepted_amount d = Some m \<longrightarrow> 0 \<le> m \<and> m \<le> n))"
proof -
  have "system_ok db" by (rule fixed_notation.system_run_ok [OF assms(1,2) no_rows_ok])
  then have "dispute_ok (dp_claims db) d" using assms(3) by (simp add: system_ok_def disputes_ok_def)
  then show ?thesis unfolding dispute_ok_def dispute_money_def accepted_ok_def by fastforce
qed

theorem dispute_lifecycle_refined_witness:
  "cd_disputes (dp_claims approved_db) = [draft_dispute\<lparr>di_status := ''sent''\<rparr>] \<and>
   lifecycle (dispute_log (cd_audit (dp_claims approved_db)) v_account v_dispute) ''sent''"
proof -
  have f: "cd_disputes (dp_claims approved_db) = [draft_dispute\<lparr>di_status := ''sent''\<rparr>]" "di_id draft_dispute = v_dispute" "di_account_id draft_dispute = v_account"
    by (simp_all add: approved_db_def draft_dispute_def)
  show ?thesis
    using dispute_lifecycle_refined [OF exact_fixed.fixed_notation_axioms approved_run [unfolded sample_start_def], of "draft_dispute\<lparr>di_status := ''sent''\<rparr>"]
    by (simp add: f)
qed

text \<open>
  C12: a dispute is delivered once. After every run exactly one delivery command names a dispute that
  has left the draft status and none a draft, and the commands name disputes of the tables.
\<close>

theorem one_delivery_per_dispute:
  assumes "fixed_notation D val" and "(system_step D rt Z B isof)\<^sup>*\<^sup>* (no_rows accounts active) db"
  shows "(\<forall>d \<in> set (cd_disputes (dp_claims db)).
       length (filter (\<lambda>c. wc_command_type c = DELIVER_DISPUTE_COMMAND_TYPE \<and> cr_account_id c = di_account_id d \<and>
                        wc_payload c = [(''disputeId'', JString (di_id d))]) (wd_commands (dp_workflow db))) =
         (if di_status d = ''draft'' then 0 else 1)) \<and>
     (\<forall>c \<in> set (wd_commands (dp_workflow db)). wc_command_type c = DELIVER_DISPUTE_COMMAND_TYPE \<longrightarrow>
       (\<exists>d \<in> set (cd_disputes (dp_claims db)). wc_payload c = [(''disputeId'', JString (di_id d))]))"
proof -
  have "system_ok db" by (rule fixed_notation.system_run_ok [OF assms no_rows_ok])
  then have del: "delivery_ok (cd_disputes (dp_claims db)) (dp_workflow db)" by (simp add: system_ok_def)
  have count: "length (filter (\<lambda>c. wc_command_type c = DELIVER_DISPUTE_COMMAND_TYPE \<and> cr_account_id c = a \<and> wc_payload c = [(''disputeId'', JString i)]) cs) =
      length (filter (\<lambda>(x, a', j, p). a' = a \<and> p = [(''disputeId'', JString i)]) (delivery_core cs))" for a i cs
    by (induction cs) (auto simp: delivery_core_def)
  have "\<exists>d \<in> set (cd_disputes (dp_claims db)). wc_payload c = [(''disputeId'', JString (di_id d))]"
    if "c \<in> set (wd_commands (dp_workflow db))" "wc_command_type c = DELIVER_DISPUTE_COMMAND_TYPE" for c
  proof -
    have "(cr_id c, cr_account_id c, cr_workflow_instance_id c, wc_payload c) \<in> set (delivery_core (wd_commands (dp_workflow db)))"
      using that by (force simp: delivery_core_def)
    from delivery_okD [OF del this] show ?thesis by (auto simp: dispute_core_def)
  qed
  then show ?thesis using del unfolding count by (auto simp: delivery_ok_def deliveries_def dispute_core_def)
qed

theorem one_delivery_per_dispute_witness:
  "length (filter (\<lambda>c. wc_command_type c = DELIVER_DISPUTE_COMMAND_TYPE \<and> cr_account_id c = v_account \<and>
        wc_payload c = [(''disputeId'', JString v_dispute)]) (wd_commands (dp_workflow approved_db))) = 1"
proof -
  have f: "cd_disputes (dp_claims approved_db) = [draft_dispute\<lparr>di_status := ''sent''\<rparr>]" "di_id draft_dispute = v_dispute" "di_account_id draft_dispute = v_account"
    by (simp_all add: approved_db_def draft_dispute_def)
  show ?thesis
    using one_delivery_per_dispute [OF exact_fixed.fixed_notation_axioms approved_run [unfolded sample_start_def]] by (simp add: f)
qed

text \<open>
  C13: a dispute is not created twice. After a dispute was created from a set of findings, the same
  request, at any later moment with other ids, is refused because its findings are queued and no
  longer accepted, and nothing is written.
\<close>

theorem retried_dispute_refused:
  assumes "create_dispute_from_findings D rt Z visible fresh now i db = Inr (db', r)"
  shows "create_dispute_from_findings D rt Z visible fresh' now' i db' = Inl (DisputableFindingsError FINDING_NOT_ACCEPTED)"
  by (rule create_again_refused [OF assms])

theorem retried_dispute_refused_witness:
  "create_dispute_from_findings exact_decimal dispute_runtime claims_zod [v_account] (\<lambda>_ _. v_claim) 9 sample_dispute_input created_db =
     Inl (DisputableFindingsError FINDING_NOT_ACCEPTED)"
  by (rule retried_dispute_refused [OF dispute_created])

text \<open>
  Delivering is idempotent. The delivery handler records one message and one outbound
  communication; when the runtime runs the command again, at any later moment with other generated
  ids, it succeeds and changes nothing.
\<close>

theorem delivery_handler_idempotent:
  assumes "handle_deliver_dispute_command rt Z visible fresh now ctx db = Inr db'"
  shows "handle_deliver_dispute_command rt Z visible fresh' now' ctx db' = Inr db'"
  by (rule deliver_settled [OF assms])

definition sample_context :: command_context where
  "sample_context = \<lparr>cx_client_id = v_account, cx_workflow_instance_id = v_row, cx_command_id = v_row, cx_payload = [(''disputeId'', JString v_dispute)]\<rparr>"

definition quiet_db :: dispute_db where
  "quiet_db = (no_rows [] [(v_account, True)])
     \<lparr>dp_claims := (dp_claims (no_rows [] []))\<lparr>cd_disputes := [draft_dispute\<lparr>di_status := ''sent''\<rparr>]\<rparr>,
      dp_workflow := (dp_workflow (no_rows [] [(v_account, True)]))\<lparr>wd_instances := [sample_instance],
        wd_commands := [new_command v_row (delivery_command draft_dispute v_row 3)]\<rparr>\<rparr>"

definition delivered_db :: dispute_db where
  "delivered_db = projr (handle_deliver_dispute_command dispute_runtime claims_zod [v_account] fresh_ids 4 sample_context quiet_db)"

lemma sample_delivered:
  "handle_deliver_dispute_command dispute_runtime claims_zod [v_account] fresh_ids 4 sample_context quiet_db = Inr delivered_db"
proof -
  have "\<not> isl (handle_deliver_dispute_command dispute_runtime claims_zod [v_account] fresh_ids 4 sample_context quiet_db)" by code_simp
  then show ?thesis by (auto simp: delivered_db_def isl_def split: sum.splits)
qed

theorem delivery_handler_idempotent_witness:
  "handle_deliver_dispute_command dispute_runtime claims_zod [v_account] (\<lambda>_ _. v_second) 9 sample_context delivered_db = Inr delivered_db"
  by (rule delivery_handler_idempotent [OF sample_delivered])

text \<open>
  C20: a carrier's reply takes its dispute off the response queue. Once a newly logged inbound
  communication is the latest of a dispute, no queue of any tenant, threshold or time lists the dispute.
\<close>

theorem reply_clears_response_queue:
  assumes "distinct (map di_id (cd_disputes (dp_claims db)))"
    and "record_dispute_communication Z visible (n, t) u db = Inr (db', x, True)" and "ki_direction u = ''inbound''"
    and "\<forall>m \<in> set (dp_comms db). dm_dispute_id m = ki_dispute_id u \<longrightarrow> dm_recorded_at m < t"
  shows "ki_dispute_id u \<notin> fst ` set (list_disputes_due_for_response visible' client now days db')"
  by (rule inbound_not_due [OF assms])

definition sample_reply :: comm_input where
  "sample_reply = \<lparr>ki_dispute_id = v_dispute, ki_direction = ''inbound'', ki_body = ''We agree.'', ki_dedupe_key = ''reply-1''\<rparr>"

definition waiting_db :: dispute_db where
  "waiting_db = quiet_db\<lparr>dp_comms := [comm_row v_row 4 v_account (delivery_comm v_dispute)]\<rparr>"

theorem reply_clears_response_queue_witness:
  "list_disputes_due_for_response [v_account] v_account 900000000 5 waiting_db = [(v_dispute, 4)] \<and>
   (\<exists>db' x. record_dispute_communication claims_zod [v_account] (v_second, 7) sample_reply waiting_db = Inr (db', x, True) \<and>
      v_dispute \<notin> fst ` set (list_disputes_due_for_response [v_account] v_account 900000000 5 db'))"
proof -
  have a: "list_disputes_due_for_response [v_account] v_account 900000000 5 waiting_db = [(v_dispute, 4)]" by code_simp
  have "case record_dispute_communication claims_zod [v_account] (v_second, 7) sample_reply waiting_db of Inr (d, x, b) \<Rightarrow> b | _ \<Rightarrow> False" by code_simp
  then obtain db' x where r: "record_dispute_communication claims_zod [v_account] (v_second, 7) sample_reply waiting_db = Inr (db', x, True)"
    by (auto split: sum.splits)
  have f: "distinct (map di_id (cd_disputes (dp_claims waiting_db)))" "ki_direction sample_reply = ''inbound''" "ki_dispute_id sample_reply = v_dispute"
    "\<forall>m \<in> set (dp_comms waiting_db). dm_dispute_id m = ki_dispute_id sample_reply \<longrightarrow> dm_recorded_at m < 7"
    by (simp_all add: waiting_db_def quiet_db_def sample_reply_def comm_row_def)
  show ?thesis using a r reply_clears_response_queue [OF f(1) r f(2,4), of "[v_account]" v_account 900000000 5] f(3) by auto
qed

text \<open>
  The action route lets names every object inherits through. A well-formed request whose action
  is such a name passes the membership test of the route, reaches the operation and ends in a thrown
  error instead of the refusal that other unknown actions get.
\<close>

lemma inherited_action_thrown:
  assumes "isUuid (rq_id q)" and "body_text ''action'' q = Some a" and "\<not> not_a_text ''note'' q"
    and "a \<notin> fst ` set FINDING_ACTION_STATUS"
  shows "finding_action_route rt new_id now q db =
     (db, if a \<in> set inherited_names then RouteThrown (DisputeClaimsError InvalidStatus) else Refused 400)"
proof -
  have "map_of FINDING_ACTION_STATUS a = None" using assms(4) by (simp add: map_of_eq_None_iff)
  then show ?thesis using assms by (auto simp: finding_action_route_def apply_finding_action_def)
qed

end
