(* ===== verification/Identity.thy ===== *)
theory Identity
  imports Audit_Ledger
begin

text \<open>
  Tenancy and access (src/modules/identity, src/modules/findings/tenant-auth.ts and
  internal-analyst-auth.ts): accounts with their clients and vendors, users, the memberships that give
  a user a role at one of the three levels, and the resolution of a request's identity and tenant
  scope. The unique indexes and foreign keys of the tables are the checks of the inserts. Operations
  take the identifiers and the clock of the database as arguments; their \<open>account\<close> is what the source
  calls \<open>clientId\<close> since the account table was renamed.
\<close>

section \<open>Tables\<close>

record tenant_account =
  ta_id :: uuid
  ta_name :: string
  ta_slug :: string
  ta_is_active :: bool
  ta_created_at :: instant

record app_user =
  au_id :: uuid
  au_email :: string
  au_full_name :: "string option"
  au_is_internal :: bool
  au_is_active :: bool

record tenant_membership =
  mb_id :: uuid
  mb_user_id :: uuid
  mb_account_id :: uuid
  mb_client_id :: "uuid option"
  mb_vendor_id :: "uuid option"
  mb_role :: string
  mb_is_active :: bool
  mb_created_at :: instant

record tenant_client =
  tc_id :: uuid
  tc_account_id :: uuid
  tc_name :: string
  tc_is_active :: bool
  tc_created_at :: instant

record tenant_vendor =
  tv_id :: uuid
  tv_account_id :: uuid
  tv_client_id :: uuid
  tv_name :: string
  tv_contact_info :: "string option"
  tv_is_active :: bool
  tv_created_at :: instant

record identity_db =
  id_accounts :: "tenant_account list"
  id_users :: "app_user list"
  id_members :: "tenant_membership list"
  id_clients :: "tenant_client list"
  id_vendors :: "tenant_vendor list"
  id_audit :: "audit_event_row list"

datatype identity_error =
    IdentityUniqueViolation
  | IdentityForeignKeyViolation
  | IdentityEnumViolation
  | TenantVendorParentNotFoundError
  | IdentityAuditError audit_error

definition membership_role_enum :: "string list" where
  "membership_role_enum =
     [''analyst'', ''lead'', ''account_viewer'', ''account_admin'', ''client_scope_viewer'', ''client_scope_admin'',
      ''vendor_scope_viewer'', ''vendor_scope_admin'']"

text \<open>\<open>COALESCE(vendor_id, client_id, account_id)\<close>, the scope of the unique index.\<close>

definition coalesced_scope :: "uuid option \<Rightarrow> uuid option \<Rightarrow> uuid \<Rightarrow> uuid" where
  "coalesced_scope vendor client account =
     (case vendor of Some v \<Rightarrow> v | None \<Rightarrow> (case client of Some c \<Rightarrow> c | None \<Rightarrow> account))"

definition membership_scope :: "tenant_membership \<Rightarrow> uuid" where
  "membership_scope m = coalesced_scope (mb_vendor_id m) (mb_client_id m) (mb_account_id m)"

text \<open>A column of an \<open>UPDATE\<close> whose SET clause lists the fields given.\<close>

definition given :: "'a option \<Rightarrow> 'a \<Rightarrow> 'a" where
  "given new old = (case new of None \<Rightarrow> old | Some x \<Rightarrow> x)"

text \<open>\<open>UPDATE ... WHERE\<close> on the rows that satisfy \<open>p\<close>.\<close>

definition update_where :: "('a \<Rightarrow> bool) \<Rightarrow> ('a \<Rightarrow> 'a) \<Rightarrow> 'a list \<Rightarrow> 'a list" where
  "update_where p f rows = map (\<lambda>r. if p r then f r else r) rows"

definition write_identity_event :: "instant \<Rightarrow> audit_event \<Rightarrow> identity_db \<Rightarrow> (identity_error, identity_db) result" where
  "write_identity_event now e db =
     (case write_audit_event now e (id_audit db) of
        Inl x \<Rightarrow> Inl (IdentityAuditError x)
      | Inr (rows, _) \<Rightarrow> Inr (db\<lparr>id_audit := rows\<rparr>))"

section \<open>onboarding.ts, update-account.ts\<close>

definition create_client :: "uuid \<times> instant \<Rightarrow> string \<Rightarrow> string \<Rightarrow> identity_db \<Rightarrow> (identity_error, identity_db \<times> uuid) result" where
  "create_client g name slug db =
     rbind (ensure (list_all (\<lambda>a. ta_slug a \<noteq> slug) (id_accounts db)) IdentityUniqueViolation) (\<lambda>_.
       Inr (db\<lparr>id_accounts := id_accounts db @
              [\<lparr>ta_id = fst g, ta_name = name, ta_slug = slug, ta_is_active = True, ta_created_at = snd g\<rparr>]\<rparr>, fst g))"

definition update_client :: "uuid \<Rightarrow> string option \<Rightarrow> bool option \<Rightarrow> identity_db \<Rightarrow> identity_db \<times> tenant_account option" where
  "update_client i name active db =
     (let rows = update_where (\<lambda>a. ta_id a = i) (\<lambda>a. a\<lparr>ta_name := given name (ta_name a), ta_is_active := given active (ta_is_active a)\<rparr>)
                   (id_accounts db)
      in (db\<lparr>id_accounts := rows\<rparr>, find (\<lambda>a. ta_id a = i) rows))"

section \<open>tenant-client.ts, tenant-vendor.ts\<close>

definition client_belongs_to_account :: "uuid \<Rightarrow> uuid \<Rightarrow> identity_db \<Rightarrow> bool" where
  "client_belongs_to_account account client db =
     list_ex (\<lambda>c. tc_id c = client \<and> tc_account_id c = account) (id_clients db)"

definition vendor_belongs_to_client :: "uuid \<Rightarrow> uuid \<Rightarrow> identity_db \<Rightarrow> bool" where
  "vendor_belongs_to_client client vendor db =
     list_ex (\<lambda>v. tv_id v = vendor \<and> tv_client_id v = client) (id_vendors db)"

definition account_exists :: "uuid \<Rightarrow> identity_db \<Rightarrow> bool" where
  "account_exists account db = list_ex (\<lambda>a. ta_id a = account) (id_accounts db)"

definition create_tenant_client :: "uuid \<times> instant \<Rightarrow> uuid \<Rightarrow> string \<Rightarrow> identity_db \<Rightarrow> (identity_error, identity_db \<times> uuid) result" where
  "create_tenant_client g account name db =
     rbind (ensure (list_all (\<lambda>c. \<not> (tc_account_id c = account \<and> tc_name c = name)) (id_clients db)) IdentityUniqueViolation) (\<lambda>_.
     rbind (ensure (account_exists account db) IdentityForeignKeyViolation) (\<lambda>_.
       Inr (db\<lparr>id_clients := id_clients db @
              [\<lparr>tc_id = fst g, tc_account_id = account, tc_name = name, tc_is_active = True, tc_created_at = snd g\<rparr>]\<rparr>, fst g)))"

definition list_tenant_clients :: "uuid \<Rightarrow> identity_db \<Rightarrow> tenant_client list" where
  "list_tenant_clients account db =
     js_sort (lex (descending (by_int tc_created_at)) (by_text tc_id)) (filter (\<lambda>c. tc_account_id c = account) (id_clients db))"

definition update_tenant_client ::
  "uuid \<Rightarrow> uuid \<Rightarrow> string option \<Rightarrow> bool option \<Rightarrow> identity_db \<Rightarrow> (identity_error, identity_db \<times> tenant_client option) result" where
  "update_tenant_client account client name active db =
     (let hit = (\<lambda>c. tc_id c = client \<and> tc_account_id c = account);
          rows = update_where hit (\<lambda>c. c\<lparr>tc_name := given name (tc_name c), tc_is_active := given active (tc_is_active c)\<rparr>) (id_clients db)
      in rbind (ensure (\<not> (list_ex hit (id_clients db) \<and> name \<noteq> None \<and>
                  list_ex (\<lambda>c. tc_id c \<noteq> client \<and> tc_account_id c = account \<and> Some (tc_name c) = name) (id_clients db))) IdentityUniqueViolation)
           (\<lambda>_. Inr (db\<lparr>id_clients := rows\<rparr>, find hit rows)))"

definition create_tenant_vendor ::
  "uuid \<times> instant \<Rightarrow> uuid \<Rightarrow> uuid \<Rightarrow> string \<Rightarrow> string option \<Rightarrow> identity_db \<Rightarrow> (identity_error, identity_db \<times> uuid) result" where
  "create_tenant_vendor g account client name contact db =
     rbind (ensure (client_belongs_to_account account client db) TenantVendorParentNotFoundError) (\<lambda>_.
     rbind (ensure (list_all (\<lambda>v. \<not> (tv_client_id v = client \<and> tv_name v = name)) (id_vendors db)) IdentityUniqueViolation) (\<lambda>_.
     rbind (ensure (account_exists account db) IdentityForeignKeyViolation) (\<lambda>_.
       Inr (db\<lparr>id_vendors := id_vendors db @
              [\<lparr>tv_id = fst g, tv_account_id = account, tv_client_id = client, tv_name = name, tv_contact_info = contact,
                tv_is_active = True, tv_created_at = snd g\<rparr>]\<rparr>, fst g))))"

definition list_tenant_vendors :: "uuid \<Rightarrow> uuid \<Rightarrow> identity_db \<Rightarrow> tenant_vendor list" where
  "list_tenant_vendors account client db =
     js_sort (lex (descending (by_int tv_created_at)) (by_text tv_id))
       (filter (\<lambda>v. tv_account_id v = account \<and> tv_client_id v = client) (id_vendors db))"

text \<open>\<open>contact\<close> is nothing when the field is not given, and may be given as NULL.\<close>

definition update_tenant_vendor ::
  "uuid \<Rightarrow> uuid \<Rightarrow> uuid \<Rightarrow> string option \<Rightarrow> string option option \<Rightarrow> bool option \<Rightarrow> identity_db
   \<Rightarrow> (identity_error, identity_db \<times> tenant_vendor option) result" where
  "update_tenant_vendor account client vendor name contact active db =
     (let hit = (\<lambda>v. tv_id v = vendor \<and> tv_account_id v = account \<and> tv_client_id v = client);
          rows = update_where hit
            (\<lambda>v. v\<lparr>tv_name := given name (tv_name v), tv_contact_info := given contact (tv_contact_info v),
                   tv_is_active := given active (tv_is_active v)\<rparr>) (id_vendors db)
      in rbind (ensure (\<not> (list_ex hit (id_vendors db) \<and> name \<noteq> None \<and>
                  list_ex (\<lambda>v. tv_id v \<noteq> vendor \<and> tv_client_id v = client \<and> Some (tv_name v) = name) (id_vendors db))) IdentityUniqueViolation)
           (\<lambda>_. Inr (db\<lparr>id_vendors := rows\<rparr>, find hit rows)))"

section \<open>create-membership.ts, remove-membership.ts\<close>

record create_membership_input =
  cm_account_id :: uuid
  cm_email :: string
  cm_full_name :: "string option"
  cm_role :: string
  cm_scope_client_id :: "uuid option"
  cm_scope_vendor_id :: "uuid option"

text \<open>The generated identifiers: of the user, should one be created, and of the membership.\<close>

record membership_moment =
  mm_user_id :: uuid
  mm_member_id :: uuid
  mm_now :: instant

definition find_or_create_user :: "uuid \<Rightarrow> string \<Rightarrow> string option \<Rightarrow> identity_db \<Rightarrow> identity_db \<times> uuid \<times> bool" where
  "find_or_create_user new_id email full_name db =
     (case find (\<lambda>u. au_email u = email) (id_users db) of
        Some u \<Rightarrow> (db, au_id u, False)
      | None \<Rightarrow> (db\<lparr>id_users := id_users db @
                   [\<lparr>au_id = new_id, au_email = email, au_full_name = full_name, au_is_internal = False, au_is_active = True\<rparr>]\<rparr>, new_id, True))"

definition references_exist :: "uuid \<Rightarrow> uuid option \<Rightarrow> uuid option \<Rightarrow> identity_db \<Rightarrow> bool" where
  "references_exist account client vendor db \<longleftrightarrow>
     account_exists account db \<and>
     (case client of None \<Rightarrow> True | Some c \<Rightarrow> list_ex (\<lambda>x. tc_id x = c) (id_clients db)) \<and>
     (case vendor of None \<Rightarrow> True | Some v \<Rightarrow> list_ex (\<lambda>x. tv_id x = v) (id_vendors db))"

definition membership_row :: "membership_moment \<Rightarrow> create_membership_input \<Rightarrow> uuid \<Rightarrow> tenant_membership" where
  "membership_row g i user =
     \<lparr>mb_id = mm_member_id g, mb_user_id = user, mb_account_id = cm_account_id i, mb_client_id = cm_scope_client_id i,
      mb_vendor_id = cm_scope_vendor_id i, mb_role = cm_role i, mb_is_active = True, mb_created_at = mm_now g\<rparr>"

definition same_membership :: "tenant_membership \<Rightarrow> tenant_membership \<Rightarrow> bool" where
  "same_membership a b \<longleftrightarrow> mb_user_id b = mb_user_id a \<and> membership_scope b = membership_scope a"

text \<open>The answer is nothing for \<open>already_member\<close>; else the membership, the user and whether the user is new.\<close>

definition create_membership ::
  "membership_moment \<Rightarrow> create_membership_input \<Rightarrow> identity_db \<Rightarrow> (identity_error, identity_db \<times> (uuid \<times> uuid \<times> bool) option) result" where
  "create_membership g i db =
     (let (db1, user, is_new) = find_or_create_user (mm_user_id g) (cm_email i) (cm_full_name i) db;
          (rows, created) = insert_row same_membership (membership_row g i user) (id_members db1)
      in rbind (ensure (cm_role i \<in> set membership_role_enum) IdentityEnumViolation) (\<lambda>_.
         if \<not> created then Inr (db1, None)
         else rbind (ensure (references_exist (cm_account_id i) (cm_scope_client_id i) (cm_scope_vendor_id i) db1) IdentityForeignKeyViolation) (\<lambda>_.
           Inr (db1\<lparr>id_members := rows\<rparr>, Some (mm_member_id g, user, is_new)))))"

definition remove_membership :: "uuid \<Rightarrow> uuid \<Rightarrow> identity_db \<Rightarrow> identity_db \<times> bool" where
  "remove_membership account i db =
     (let hit = (\<lambda>m. mb_id m = i \<and> mb_account_id m = account)
      in (db\<lparr>id_members := filter (\<lambda>m. \<not> hit m) (id_members db)\<rparr>, list_ex hit (id_members db)))"

section \<open>update-tenant-membership.ts, update-portal-member-role.ts\<close>

definition role_changed_event :: "runtime \<Rightarrow> string \<Rightarrow> uuid \<Rightarrow> uuid \<Rightarrow> string \<Rightarrow> string \<Rightarrow> uuid option \<Rightarrow> audit_event" where
  "role_changed_event rt actor_kind account i from_role to_role actor =
     (let event = ''membership.role_changed_to_'' @ to_role
      in (analyst_event rt account ''membership'' i event [account, i, event] actor
            [(''fromRole'', JString from_role), (''toRole'', JString to_role)])\<lparr>ae_actor_kind := actor_kind\<rparr>)"

definition set_role :: "uuid \<Rightarrow> string \<Rightarrow> identity_db \<Rightarrow> identity_db" where
  "set_role i role db = db\<lparr>id_members := update_where (\<lambda>m. mb_id m = i) (\<lambda>m. m\<lparr>mb_role := role\<rparr>) (id_members db)\<rparr>"

text \<open>The row after the update, when there is one.\<close>

definition update_tenant_membership ::
  "runtime \<Rightarrow> instant \<Rightarrow> uuid \<Rightarrow> uuid \<Rightarrow> string option \<Rightarrow> bool option \<Rightarrow> uuid option \<Rightarrow> identity_db
   \<Rightarrow> (identity_error, identity_db \<times> tenant_membership option) result" where
  "update_tenant_membership rt now account i role active actor db =
     rbind (ensure (case role of None \<Rightarrow> True | Some r \<Rightarrow> r \<in> set membership_role_enum) IdentityEnumViolation) (\<lambda>_.
     case find (\<lambda>m. mb_id m = i \<and> mb_account_id m = account) (id_members db) of
       None \<Rightarrow> Inr (db, None)
     | Some m \<Rightarrow>
         (let f = (\<lambda>x. x\<lparr>mb_role := given role (mb_role x), mb_is_active := given active (mb_is_active x)\<rparr>);
              db1 = db\<lparr>id_members := update_where (\<lambda>x. mb_id x = i) f (id_members db)\<rparr>
          in if given role (mb_role m) = mb_role m then Inr (db1, Some (f m))
             else rbind (write_identity_event now
                    (role_changed_event rt ''analyst'' (mb_account_id m) i (mb_role m) (given role (mb_role m)) actor) db1)
                    (\<lambda>db2. Inr (db2, Some (f m)))))"

definition PORTAL_ROLES :: "string list" where
  "PORTAL_ROLES = [''account_viewer'', ''account_admin'']"

definition update_portal_member_role ::
  "runtime \<Rightarrow> instant \<Rightarrow> uuid list \<Rightarrow> uuid \<Rightarrow> uuid \<Rightarrow> string \<Rightarrow> uuid option \<Rightarrow> identity_db \<Rightarrow> (identity_error, identity_db \<times> bool) result" where
  "update_portal_member_role rt now visible account i role actor db =
     (case find (\<lambda>m. mb_id m = i \<and> mb_account_id m = account \<and> mb_role m \<in> set PORTAL_ROLES \<and> mb_account_id m \<in> set visible) (id_members db) of
        None \<Rightarrow> Inr (db, False)
      | Some m \<Rightarrow>
          rbind (write_identity_event now (role_changed_event rt ''client'' (mb_account_id m) i (mb_role m) role actor) (set_role i role db))
            (\<lambda>db1. Inr (db1, True)))"

end
