(* ===== verification/Access.thy ===== *)
theory Access
  imports Identity
begin

text \<open>
  Who a request is and what it may see (src/modules/findings/tenant-auth.ts, internal-analyst-auth.ts,
  src/modules/identity/account-viewer-auth.ts, account-admin-auth.ts, tenant-admin-auth.ts). A session
  is verified by the authentication library, whose answer is the argument \<open>S\<close>; \<open>dev\<close> is whether
  the environment trusts the development headers. A query with \<open>LIMIT 1\<close> and no order answers some row:
  \<open>pick\<close>.
\<close>

section \<open>Requests\<close>

text \<open>The values of a header, in the order they were sent.\<close>

record http_request =
  hq_account_header :: "string list"
  hq_user_header :: "string list"
  hq_cookie :: "string option"
  hq_method :: string

type_synonym session_lib = "http_request \<Rightarrow> uuid option"
type_synonym pick_row = "tenant_membership list \<Rightarrow> tenant_membership option"

record tenant_context =
  tx_client_ids :: "uuid list"
  tx_internal :: bool

definition read_header :: "string list \<Rightarrow> string option" where
  "read_header vs = (case vs of [] \<Rightarrow> None | v # _ \<Rightarrow> Some v)"

section \<open>tenant-auth.ts: lookups\<close>

definition active_account :: "uuid \<Rightarrow> identity_db \<Rightarrow> bool" where
  "active_account account db = list_ex (\<lambda>a. ta_id a = account \<and> ta_is_active a) (id_accounts db)"

definition lookup_membership :: "pick_row \<Rightarrow> identity_db \<Rightarrow> uuid \<Rightarrow> uuid \<Rightarrow> string option" where
  "lookup_membership pick db user account =
     map_option mb_role
       (pick (filter (\<lambda>m. mb_user_id m = user \<and> mb_account_id m = account \<and> active_account (mb_account_id m) db \<and> mb_is_active m) (id_members db)))"

definition list_membership_account_ids :: "uuid \<Rightarrow> identity_db \<Rightarrow> uuid list" where
  "list_membership_account_ids user db = map mb_account_id (filter (\<lambda>m. mb_user_id m = user) (id_members db))"

definition lookup_account_name :: "pick_row \<Rightarrow> identity_db \<Rightarrow> uuid \<Rightarrow> string option" where
  "lookup_account_name pick db user =
     (case pick (filter (\<lambda>m. mb_user_id m = user \<and> account_exists (mb_account_id m) db) (id_members db)) of
        None \<Rightarrow> None
      | Some m \<Rightarrow> map_option ta_name (find (\<lambda>a. ta_id a = mb_account_id m) (id_accounts db)))"

definition lookup_is_internal :: "identity_db \<Rightarrow> uuid \<Rightarrow> bool" where
  "lookup_is_internal db user =
     (case find (\<lambda>u. au_id u = user \<and> au_is_active u) (id_users db) of None \<Rightarrow> False | Some u \<Rightarrow> au_is_internal u)"

text \<open>Whether the user is internal, and else the role of some membership.\<close>

definition lookup_actor_type :: "pick_row \<Rightarrow> identity_db \<Rightarrow> uuid \<Rightarrow> bool \<times> string option" where
  "lookup_actor_type pick db user =
     (if lookup_is_internal db user then (True, None)
      else (False, map_option mb_role (pick (filter (\<lambda>m. mb_user_id m = user) (id_members db)))))"

section \<open>tenant-auth.ts: the tenant scope\<close>

text \<open>The user a request proves: the development header, or the session of a request with a cookie.\<close>

definition request_identity :: "bool \<Rightarrow> session_lib \<Rightarrow> http_request \<Rightarrow> uuid option" where
  "request_identity dev S q =
     (if dev then (if truthy (read_header (hq_user_header q)) then read_header (hq_user_header q) else None)
      else if truthy (hq_cookie q) then S q else None)"

definition request_account :: "http_request \<Rightarrow> uuid option" where
  "request_account q = (if truthy (read_header (hq_account_header q)) then read_header (hq_account_header q) else None)"

definition single_account :: "uuid \<Rightarrow> tenant_context" where
  "single_account account = \<lparr>tx_client_ids = [account], tx_internal = False\<rparr>"

definition internal_scope :: tenant_context where
  "internal_scope = \<lparr>tx_client_ids = [], tx_internal = True\<rparr>"

text \<open>The context, the acting user and the role.\<close>

definition resolve_authorized_tenant_context ::
  "bool \<Rightarrow> session_lib \<Rightarrow> pick_row \<Rightarrow> identity_db \<Rightarrow> http_request \<Rightarrow> (tenant_context \<times> uuid \<times> string) option" where
  "resolve_authorized_tenant_context dev S pick db q =
     (case (request_identity dev S q, request_account q) of
        (Some user, Some account) \<Rightarrow>
          (case lookup_membership pick db user account of
             None \<Rightarrow> None
           | Some role \<Rightarrow> if role = [] then None else Some (single_account account, user, role))
      | _ \<Rightarrow> None)"

definition tenant_guard :: "bool \<Rightarrow> session_lib \<Rightarrow> pick_row \<Rightarrow> identity_db \<Rightarrow> http_request \<Rightarrow> (nat, tenant_context \<times> uuid \<times> string) result" where
  "tenant_guard dev S pick db q =
     (case resolve_authorized_tenant_context dev S pick db q of None \<Rightarrow> Inl 401 | Some r \<Rightarrow> Inr r)"

definition internal_analyst_roles :: "string list" where
  "internal_analyst_roles = [''analyst'', ''lead'']"

text \<open>The nested guard of the routes for analysts, after \<open>tenant_guard\<close>.\<close>

definition analyst_guard :: "bool \<Rightarrow> session_lib \<Rightarrow> pick_row \<Rightarrow> identity_db \<Rightarrow> http_request \<Rightarrow> (nat, tenant_context \<times> uuid \<times> string) result" where
  "analyst_guard dev S pick db q =
     rbind (tenant_guard dev S pick db q) (\<lambda>(ctx, user, role).
     rbind (ensure (role \<in> set internal_analyst_roles) 403) (\<lambda>_. Inr (ctx, user, role)))"

section \<open>account-viewer-auth.ts, account-admin-auth.ts\<close>

definition lookup_membership_role :: "pick_row \<Rightarrow> identity_db \<Rightarrow> uuid \<Rightarrow> uuid \<Rightarrow> string option" where
  "lookup_membership_role pick db user account =
     map_option mb_role
       (pick (filter (\<lambda>m. mb_user_id m = user \<and> mb_account_id m = account \<and> active_account (mb_account_id m) db) (id_members db)))"

definition resolve_portal_context ::
  "string \<Rightarrow> bool \<Rightarrow> session_lib \<Rightarrow> pick_row \<Rightarrow> identity_db \<Rightarrow> http_request \<Rightarrow> (tenant_context \<times> uuid) option" where
  "resolve_portal_context role dev S pick db q =
     (case (request_identity dev S q, request_account q) of
        (Some user, Some account) \<Rightarrow>
          if lookup_membership_role pick db user account = Some role then Some (single_account account, user) else None
      | _ \<Rightarrow> None)"

definition resolve_account_viewer_context ::
  "bool \<Rightarrow> session_lib \<Rightarrow> pick_row \<Rightarrow> identity_db \<Rightarrow> http_request \<Rightarrow> (tenant_context \<times> uuid) option" where
  "resolve_account_viewer_context = resolve_portal_context ''account_viewer''"

definition resolve_account_admin_context ::
  "bool \<Rightarrow> session_lib \<Rightarrow> pick_row \<Rightarrow> identity_db \<Rightarrow> http_request \<Rightarrow> (tenant_context \<times> uuid) option" where
  "resolve_account_admin_context = resolve_portal_context ''account_admin''"

definition SAFE_METHODS :: "string list" where
  "SAFE_METHODS = [''GET'', ''HEAD'']"

definition account_viewer_guard :: "bool \<Rightarrow> session_lib \<Rightarrow> pick_row \<Rightarrow> identity_db \<Rightarrow> http_request \<Rightarrow> (nat, tenant_context \<times> uuid) result" where
  "account_viewer_guard dev S pick db q =
     (case resolve_account_viewer_context dev S pick db q of
        None \<Rightarrow> Inl 401
      | Some r \<Rightarrow> if hq_method q \<in> set SAFE_METHODS then Inr r else Inl 403)"

definition account_admin_guard :: "bool \<Rightarrow> session_lib \<Rightarrow> pick_row \<Rightarrow> identity_db \<Rightarrow> http_request \<Rightarrow> (nat, tenant_context \<times> uuid) result" where
  "account_admin_guard dev S pick db q =
     (case resolve_account_admin_context dev S pick db q of None \<Rightarrow> Inl 401 | Some r \<Rightarrow> Inr r)"

section \<open>internal-analyst-auth.ts, tenant-admin-auth.ts\<close>

definition resolve_internal_analyst_context :: "bool \<Rightarrow> session_lib \<Rightarrow> identity_db \<Rightarrow> http_request \<Rightarrow> (tenant_context \<times> uuid) option" where
  "resolve_internal_analyst_context dev S db q =
     (case request_identity dev S q of
        None \<Rightarrow> None
      | Some user \<Rightarrow> if lookup_is_internal db user then Some (internal_scope, user) else None)"

definition internal_analyst_guard :: "bool \<Rightarrow> session_lib \<Rightarrow> identity_db \<Rightarrow> http_request \<Rightarrow> (nat, tenant_context \<times> uuid) result" where
  "internal_analyst_guard dev S db q =
     (case resolve_internal_analyst_context dev S db q of None \<Rightarrow> Inl 401 | Some r \<Rightarrow> Inr r)"

definition tenant_admin_guard :: "bool \<Rightarrow> session_lib \<Rightarrow> identity_db \<Rightarrow> http_request \<Rightarrow> (nat, tenant_context \<times> uuid) result" where
  "tenant_admin_guard dev S db q =
     (case request_identity dev S q of
        None \<Rightarrow> Inl 401
      | Some user \<Rightarrow> if lookup_is_internal db user then Inr (internal_scope, user) else Inl 403)"

section \<open>list-tenant-members.ts, list-portal-members.ts, list-all-tenant-members.ts, list-accounts.ts\<close>

definition member_position :: "tenant_membership \<Rightarrow> keyset_row" where
  "member_position m = \<lparr>kr_ts = mb_created_at m, kr_id = mb_id m\<rparr>"

definition account_position :: "tenant_account \<Rightarrow> keyset_row" where
  "account_position a = \<lparr>kr_ts = ta_created_at a, kr_id = ta_id a\<rparr>"

text \<open>
  A list in the order of its positions: the rows after the anchor a cursor names, among \<open>anchors\<close>, or
  the page of an offset.
\<close>

definition list_page :: "('a \<Rightarrow> keyset_row) \<Rightarrow> 'a list \<Rightarrow> 'a list \<Rightarrow> nat option \<Rightarrow> nat option \<Rightarrow> uuid option \<Rightarrow> 'a list" where
  "list_page position anchors rows limit offset cursor =
     (let n = given limit 50; sorted = js_sort (\<lambda>a b. keyset_order (position a) (position b))
      in case cursor of
           None \<Rightarrow> take n (drop (given offset 0) (sorted rows))
         | Some i \<Rightarrow>
             (case find (\<lambda>r. kr_id (position r) = i) anchors of
                None \<Rightarrow> []
              | Some a \<Rightarrow> take n (sorted (filter (\<lambda>r. keyset_tie_break (position a) (position r)) rows))))"

definition user_of :: "identity_db \<Rightarrow> tenant_membership \<Rightarrow> app_user option" where
  "user_of db m = find (\<lambda>u. au_id u = mb_user_id m) (id_users db)"

definition list_tenant_members :: "uuid \<Rightarrow> identity_db \<Rightarrow> tenant_membership list" where
  "list_tenant_members account db =
     js_sort (\<lambda>a b. keyset_order (member_position a) (member_position b))
       (filter (\<lambda>m. mb_account_id m = account \<and> user_of db m \<noteq> None) (id_members db))"

definition list_portal_members :: "uuid \<Rightarrow> nat option \<Rightarrow> nat option \<Rightarrow> uuid option \<Rightarrow> identity_db \<Rightarrow> tenant_membership list" where
  "list_portal_members account limit offset cursor db =
     list_page member_position (filter (\<lambda>m. mb_account_id m = account) (id_members db))
       (filter (\<lambda>m. mb_account_id m = account \<and> mb_role m \<in> set PORTAL_ROLES \<and> user_of db m \<noteq> None) (id_members db)) limit offset cursor"

definition list_all_tenant_members :: "nat option \<Rightarrow> nat option \<Rightarrow> uuid option \<Rightarrow> identity_db \<Rightarrow> tenant_membership list" where
  "list_all_tenant_members limit offset cursor db =
     list_page member_position (id_members db)
       (filter (\<lambda>m. user_of db m \<noteq> None \<and> account_exists (mb_account_id m) db) (id_members db)) limit offset cursor"

definition list_clients :: "nat option \<Rightarrow> nat option \<Rightarrow> uuid option \<Rightarrow> identity_db \<Rightarrow> tenant_account list" where
  "list_clients limit offset cursor db = list_page account_position (id_accounts db) (id_accounts db) limit offset cursor"

end
