(* ===== verification/Identity_Routes.thy ===== *)
theory Identity_Routes
  imports Access
begin

text \<open>
  The routes that change tenancy (the tenant, client, vendor and member routes of
  src/server/tenant-admin-routes.ts, the role route of src/server/portal-admin-routes.ts). A body is
  the list of its members; a transaction that throws is rolled back and its error answered.
\<close>

type_synonym request_body = "(string \<times> json) list"

datatype identity_reply =
    IdentityRefused nat
  | TenantCreated uuid
  | TenantUpdated tenant_account
  | ClientCreated uuid
  | ClientUpdated tenant_client
  | VendorCreated uuid
  | VendorUpdated tenant_vendor
  | MemberCreated uuid uuid bool string
  | MemberUpdated uuid string bool
  | RoleSet uuid string
  | NoContent
  | IdentityThrown identity_error

section \<open>Bodies\<close>

definition text_of :: "string \<Rightarrow> request_body \<Rightarrow> string option" where
  "text_of k body = (case map_of body k of Some (JString s) \<Rightarrow> Some s | _ \<Rightarrow> None)"

definition flag_of :: "string \<Rightarrow> request_body \<Rightarrow> bool option" where
  "flag_of k body = (case map_of body k of Some (JBool b) \<Rightarrow> Some b | _ \<Rightarrow> None)"

definition blank_field :: "string \<Rightarrow> request_body \<Rightarrow> bool" where
  "blank_field k body = (case text_of k body of None \<Rightarrow> True | Some s \<Rightarrow> js_trim s = [])"

definition bad_optional_text :: "string \<Rightarrow> request_body \<Rightarrow> bool" where
  "bad_optional_text k body \<longleftrightarrow> map_of body k \<noteq> None \<and> blank_field k body"

definition bad_nullable_text :: "string \<Rightarrow> request_body \<Rightarrow> bool" where
  "bad_nullable_text k body \<longleftrightarrow> map_of body k \<noteq> None \<and> map_of body k \<noteq> Some JNull \<and> text_of k body = None"

definition bad_flag :: "string \<Rightarrow> request_body \<Rightarrow> bool" where
  "bad_flag k body \<longleftrightarrow> map_of body k \<noteq> None \<and> flag_of k body = None"

section \<open>tenant-admin-routes.ts\<close>

definition CLIENT_SCOPE_MEMBERSHIP_ROLES :: "string list" where
  "CLIENT_SCOPE_MEMBERSHIP_ROLES = [''analyst'', ''lead'', ''client_scope_viewer'', ''client_scope_admin'']"

definition VENDOR_SCOPE_MEMBERSHIP_ROLES :: "string list" where
  "VENDOR_SCOPE_MEMBERSHIP_ROLES = [''analyst'', ''lead'', ''vendor_scope_viewer'', ''vendor_scope_admin'']"

definition MEMBERSHIP_ROLES :: "string list" where
  "MEMBERSHIP_ROLES =
     [''analyst'', ''lead'', ''account_viewer'', ''account_admin'', ''client_scope_viewer'', ''client_scope_admin'',
      ''vendor_scope_viewer'', ''vendor_scope_admin'']"

text \<open>The handlers, run by the acting user; a unique violation is answered with 409 by those that create.\<close>

definition committed :: "identity_db \<Rightarrow> (identity_error, identity_db \<times> 'a) result \<Rightarrow> ('a \<Rightarrow> identity_reply) \<Rightarrow> identity_db \<times> identity_reply" where
  "committed db r reply = (case r of Inl e \<Rightarrow> (db, IdentityThrown e) | Inr (db', x) \<Rightarrow> (db', reply x))"

definition conflict_as_409 :: "identity_db \<times> identity_reply \<Rightarrow> identity_db \<times> identity_reply" where
  "conflict_as_409 r = (case r of (db, IdentityThrown IdentityUniqueViolation) \<Rightarrow> (db, IdentityRefused 409) | _ \<Rightarrow> r)"

definition create_tenant_route :: "uuid \<times> instant \<Rightarrow> request_body \<Rightarrow> identity_db \<Rightarrow> identity_db \<times> identity_reply" where
  "create_tenant_route g body db =
     (if blank_field ''name'' body \<or> blank_field ''slug'' body then (db, IdentityRefused 400)
      else conflict_as_409 (committed db (create_client g (the (text_of ''name'' body)) (the (text_of ''slug'' body)) db) TenantCreated))"

definition update_tenant_route :: "uuid \<Rightarrow> request_body \<Rightarrow> identity_db \<Rightarrow> identity_db \<times> identity_reply" where
  "update_tenant_route i body db =
     (if \<not> isUuid i \<or> bad_optional_text ''name'' body \<or> bad_flag ''isActive'' body then (db, IdentityRefused 400)
      else (case update_client i (text_of ''name'' body) (flag_of ''isActive'' body) db of
              (db', None) \<Rightarrow> (db', IdentityRefused 404)
            | (db', Some a) \<Rightarrow> (db', TenantUpdated a)))"

definition create_client_route :: "uuid \<times> instant \<Rightarrow> uuid \<Rightarrow> request_body \<Rightarrow> identity_db \<Rightarrow> identity_db \<times> identity_reply" where
  "create_client_route g account body db =
     (if \<not> isUuid account \<or> blank_field ''name'' body then (db, IdentityRefused 400)
      else conflict_as_409 (committed db (create_tenant_client g account (the (text_of ''name'' body)) db) ClientCreated))"

definition update_client_route :: "uuid \<Rightarrow> uuid \<Rightarrow> request_body \<Rightarrow> identity_db \<Rightarrow> identity_db \<times> identity_reply" where
  "update_client_route account client body db =
     (if \<not> isUuid account \<or> \<not> isUuid client \<or> bad_optional_text ''name'' body \<or> bad_flag ''isActive'' body then (db, IdentityRefused 400)
      else committed db (update_tenant_client account client (text_of ''name'' body) (flag_of ''isActive'' body) db)
             (\<lambda>x. case x of None \<Rightarrow> IdentityRefused 404 | Some c \<Rightarrow> ClientUpdated c))"

definition create_vendor_route :: "uuid \<times> instant \<Rightarrow> uuid \<Rightarrow> uuid \<Rightarrow> request_body \<Rightarrow> identity_db \<Rightarrow> identity_db \<times> identity_reply" where
  "create_vendor_route g account client body db =
     (if \<not> isUuid account \<or> \<not> isUuid client \<or> blank_field ''name'' body \<or> bad_nullable_text ''contactInfo'' body then (db, IdentityRefused 400)
      else (case conflict_as_409 (committed db
                   (create_tenant_vendor g account client (the (text_of ''name'' body)) (text_of ''contactInfo'' body) db) VendorCreated) of
              (db', IdentityThrown TenantVendorParentNotFoundError) \<Rightarrow> (db', IdentityRefused 404)
            | r \<Rightarrow> r))"

definition update_vendor_route :: "uuid \<Rightarrow> uuid \<Rightarrow> uuid \<Rightarrow> request_body \<Rightarrow> identity_db \<Rightarrow> identity_db \<times> identity_reply" where
  "update_vendor_route account client vendor body db =
     (if \<not> isUuid account \<or> \<not> isUuid client \<or> \<not> isUuid vendor \<or> bad_optional_text ''name'' body \<or>
         bad_nullable_text ''contactInfo'' body \<or> bad_flag ''isActive'' body then (db, IdentityRefused 400)
      else committed db (update_tenant_vendor account client vendor (text_of ''name'' body)
             (if map_of body ''contactInfo'' = None then None else Some (text_of ''contactInfo'' body)) (flag_of ''isActive'' body) db)
             (\<lambda>x. case x of None \<Rightarrow> IdentityRefused 404 | Some v \<Rightarrow> VendorUpdated v))"

definition member_body_ok :: "string list \<Rightarrow> request_body \<Rightarrow> bool" where
  "member_body_ok roles body \<longleftrightarrow>
     \<not> blank_field ''email'' body \<and> (case text_of ''role'' body of None \<Rightarrow> False | Some r \<Rightarrow> r \<in> set roles) \<and>
     \<not> bad_nullable_text ''fullName'' body"

definition membership_request :: "uuid \<Rightarrow> uuid option \<Rightarrow> uuid option \<Rightarrow> request_body \<Rightarrow> create_membership_input" where
  "membership_request account client vendor body =
     \<lparr>cm_account_id = account, cm_email = the (text_of ''email'' body), cm_full_name = text_of ''fullName'' body,
      cm_role = the (text_of ''role'' body), cm_scope_client_id = client, cm_scope_vendor_id = vendor\<rparr>"

definition member_reply :: "request_body \<Rightarrow> (uuid \<times> uuid \<times> bool) option \<Rightarrow> identity_reply" where
  "member_reply body x =
     (case x of None \<Rightarrow> IdentityRefused 409 | Some (i, user, is_new) \<Rightarrow> MemberCreated i user is_new (the (text_of ''role'' body)))"

definition create_member_route :: "membership_moment \<Rightarrow> uuid \<Rightarrow> request_body \<Rightarrow> identity_db \<Rightarrow> identity_db \<times> identity_reply" where
  "create_member_route g account body db =
     (if \<not> isUuid account \<or> \<not> member_body_ok MEMBERSHIP_ROLES body then (db, IdentityRefused 400)
      else committed db (create_membership g (membership_request account None None body) db) (member_reply body))"

definition create_client_member_route :: "membership_moment \<Rightarrow> uuid \<Rightarrow> uuid \<Rightarrow> request_body \<Rightarrow> identity_db \<Rightarrow> identity_db \<times> identity_reply" where
  "create_client_member_route g account client body db =
     (if \<not> isUuid account \<or> \<not> isUuid client \<or> \<not> member_body_ok CLIENT_SCOPE_MEMBERSHIP_ROLES body then (db, IdentityRefused 400)
      else if \<not> client_belongs_to_account account client db then (db, IdentityRefused 404)
      else committed db (create_membership g (membership_request account (Some client) None body) db) (member_reply body))"

definition create_vendor_member_route ::
  "membership_moment \<Rightarrow> uuid \<Rightarrow> uuid \<Rightarrow> uuid \<Rightarrow> request_body \<Rightarrow> identity_db \<Rightarrow> identity_db \<times> identity_reply" where
  "create_vendor_member_route g account client vendor body db =
     (if \<not> isUuid account \<or> \<not> isUuid client \<or> \<not> isUuid vendor \<or> \<not> member_body_ok VENDOR_SCOPE_MEMBERSHIP_ROLES body
      then (db, IdentityRefused 400)
      else if \<not> client_belongs_to_account account client db \<or> \<not> vendor_belongs_to_client client vendor db then (db, IdentityRefused 404)
      else committed db (create_membership g (membership_request account (Some client) (Some vendor) body) db) (member_reply body))"

definition update_member_route ::
  "runtime \<Rightarrow> instant \<Rightarrow> uuid \<Rightarrow> uuid \<Rightarrow> request_body \<Rightarrow> uuid \<Rightarrow> identity_db \<Rightarrow> identity_db \<times> identity_reply" where
  "update_member_route rt now account i body actor db =
     (let role = text_of ''role'' body; active = flag_of ''isActive'' body
      in if \<not> isUuid account \<or> \<not> isUuid i then (db, IdentityRefused 400)
         else if map_of body ''role'' \<noteq> None \<and> (case role of None \<Rightarrow> True | Some r \<Rightarrow> r \<notin> set MEMBERSHIP_ROLES) then (db, IdentityRefused 400)
         else if bad_flag ''isActive'' body then (db, IdentityRefused 400)
         else if map_of body ''role'' = None \<and> map_of body ''isActive'' = None then (db, IdentityRefused 400)
         else committed db (update_tenant_membership rt now account i role active (Some actor) db)
                (\<lambda>x. case x of None \<Rightarrow> IdentityRefused 404 | Some m \<Rightarrow> MemberUpdated (mb_id m) (mb_role m) (mb_is_active m)))"

definition remove_member_route :: "uuid \<Rightarrow> uuid \<Rightarrow> identity_db \<Rightarrow> identity_db \<times> identity_reply" where
  "remove_member_route account i db =
     (if \<not> isUuid account \<or> \<not> isUuid i then (db, IdentityRefused 400)
      else (case remove_membership account i db of (db', found) \<Rightarrow> (db', if found then NoContent else IdentityRefused 404)))"

definition tenant_members_route :: "uuid \<Rightarrow> identity_db \<Rightarrow> (nat, tenant_membership list) result" where
  "tenant_members_route account db = rbind (ensure (isUuid account) 400) (\<lambda>_. Inr (list_tenant_members account db))"

definition tenant_clients_route :: "uuid \<Rightarrow> identity_db \<Rightarrow> (nat, tenant_client list) result" where
  "tenant_clients_route account db = rbind (ensure (isUuid account) 400) (\<lambda>_. Inr (list_tenant_clients account db))"

definition tenant_vendors_route :: "uuid \<Rightarrow> uuid \<Rightarrow> identity_db \<Rightarrow> (nat, tenant_vendor list) result" where
  "tenant_vendors_route account client db =
     rbind (ensure (isUuid account \<and> isUuid client) 400) (\<lambda>_. Inr (list_tenant_vendors account client db))"

text \<open>\<open>paginateKeyset\<close> on the rows of a page and one more.\<close>

definition paged :: "('a \<Rightarrow> keyset_row) \<Rightarrow> nat \<Rightarrow> 'a list \<Rightarrow> 'a list \<times> uuid option" where
  "paged position n rows = (if n < length rows then (take n rows, Some (kr_id (position (last (take n rows))))) else (rows, None))"

text \<open>The limit, the offset and the cursor after their parsing.\<close>

definition tenants_route :: "nat option \<Rightarrow> nat option \<Rightarrow> uuid option \<Rightarrow> identity_db \<Rightarrow> (nat, tenant_account list \<times> uuid option) result" where
  "tenants_route limit offset cursor db =
     rbind (ensure (\<not> (cursor \<noteq> None \<and> offset \<noteq> None)) 400) (\<lambda>_.
       let n = given limit 50 in Inr (paged account_position n (list_clients (Some (n + 1)) offset cursor db)))"

text \<open>Every handler above runs behind the guard of the tenant administration.\<close>

definition as_tenant_admin ::
  "bool \<Rightarrow> session_lib \<Rightarrow> http_request \<Rightarrow> (uuid \<Rightarrow> identity_db \<Rightarrow> identity_db \<times> identity_reply) \<Rightarrow> identity_db \<Rightarrow> identity_db \<times> identity_reply" where
  "as_tenant_admin dev S q handler db =
     (case tenant_admin_guard dev S db q of Inl code \<Rightarrow> (db, IdentityRefused code) | Inr (ctx, user) \<Rightarrow> handler user db)"

section \<open>portal-admin-routes.ts\<close>

definition portal_role_route ::
  "bool \<Rightarrow> session_lib \<Rightarrow> pick_row \<Rightarrow> runtime \<Rightarrow> instant \<Rightarrow> http_request \<Rightarrow> uuid \<Rightarrow> request_body \<Rightarrow> identity_db \<Rightarrow> identity_db \<times> identity_reply" where
  "portal_role_route dev S pick rt now q i body db =
     (case account_admin_guard dev S pick db q of
        Inl code \<Rightarrow> (db, IdentityRefused code)
      | Inr (ctx, user) \<Rightarrow>
          (case tx_client_ids ctx of
             [account] \<Rightarrow>
               if account = [] then (db, IdentityRefused 401)
               else if \<not> isUuid i then (db, IdentityRefused 400)
               else (case text_of ''role'' body of
                       None \<Rightarrow> (db, IdentityRefused 400)
                     | Some role \<Rightarrow>
                         if role \<notin> set PORTAL_ROLES then (db, IdentityRefused 400)
                         else committed db (update_portal_member_role rt now (tx_client_ids ctx) account i role (Some user) db)
                                (\<lambda>found. if found then RoleSet i role else IdentityRefused 404))
           | _ \<Rightarrow> (db, IdentityRefused 401)))"

text \<open>The roster: an administrator's context, or else a viewer's. The page and the cursor of the next one.\<close>

definition portal_members_route ::
  "bool \<Rightarrow> session_lib \<Rightarrow> pick_row \<Rightarrow> identity_db \<Rightarrow> http_request \<Rightarrow> nat option \<Rightarrow> nat option \<Rightarrow> uuid option
   \<Rightarrow> (nat, tenant_membership list \<times> uuid option) result" where
  "portal_members_route dev S pick db q limit offset cursor =
     (case (case resolve_account_admin_context dev S pick db q of Some r \<Rightarrow> Some r | None \<Rightarrow> resolve_account_viewer_context dev S pick db q) of
        None \<Rightarrow> Inl 401
      | Some (ctx, user) \<Rightarrow>
          (case tx_client_ids ctx of
             [account] \<Rightarrow>
               rbind (ensure (account \<noteq> []) 401) (\<lambda>_.
               rbind (ensure (\<not> (cursor \<noteq> None \<and> offset \<noteq> None)) 400) (\<lambda>_.
                 let n = given limit 50 in Inr (paged member_position n (list_portal_members account (Some (n + 1)) offset cursor db))))
           | _ \<Rightarrow> Inl 401))"

end
