(* ===== verification/Identity_Properties.thy ===== *)
theory Identity_Properties
  imports Identity_Routes
begin

text \<open>
  The invariant of the tenancy tables, kept by every operation: identifiers and scopes are unique, and
  the ancestors of every client, vendor and membership belong together.
\<close>

section \<open>Keys\<close>

text \<open>The columns that identify rows and link the tables; no update changes them.\<close>

definition account_keys :: "identity_db \<Rightarrow> (uuid \<times> string) list" where
  "account_keys db = map (\<lambda>a. (ta_id a, ta_slug a)) (id_accounts db)"

definition user_keys :: "identity_db \<Rightarrow> (uuid \<times> string) list" where
  "user_keys db = map (\<lambda>u. (au_id u, au_email u)) (id_users db)"

definition client_keys :: "identity_db \<Rightarrow> (uuid \<times> uuid) list" where
  "client_keys db = map (\<lambda>c. (tc_id c, tc_account_id c)) (id_clients db)"

definition vendor_keys :: "identity_db \<Rightarrow> (uuid \<times> uuid \<times> uuid) list" where
  "vendor_keys db = map (\<lambda>v. (tv_id v, tv_client_id v, tv_account_id v)) (id_vendors db)"

definition member_key :: "tenant_membership \<Rightarrow> uuid \<times> uuid \<times> uuid \<times> uuid option \<times> uuid option" where
  "member_key m = (mb_id m, mb_user_id m, mb_account_id m, mb_client_id m, mb_vendor_id m)"

definition tenancy_frame :: "identity_db \<Rightarrow> (uuid \<times> string) list \<times> (uuid \<times> string) list \<times> (uuid \<times> uuid) list \<times> (uuid \<times> uuid \<times> uuid) list" where
  "tenancy_frame db = (account_keys db, user_keys db, client_keys db, vendor_keys db)"

lemmas key_defs = account_keys_def user_keys_def client_keys_def vendor_keys_def tenancy_frame_def

definition chain_ok :: "identity_db \<Rightarrow> uuid \<times> uuid \<times> uuid \<times> uuid option \<times> uuid option \<Rightarrow> bool" where
  "chain_ok db k \<longleftrightarrow> (case k of (i, user, account, client, vendor) \<Rightarrow>
     account \<in> fst ` set (account_keys db) \<and> user \<in> fst ` set (user_keys db) \<and>
     (\<forall>c. client = Some c \<longrightarrow> (c, account) \<in> set (client_keys db)) \<and>
     (\<forall>v. vendor = Some v \<longrightarrow> (\<exists>c a. client = Some c \<and> (v, c, a) \<in> set (vendor_keys db))))"

definition tables_ok :: "identity_db \<Rightarrow> bool" where
  "tables_ok db \<longleftrightarrow>
     distinct (map fst (account_keys db)) \<and> distinct (map snd (account_keys db)) \<and>
     distinct (map fst (user_keys db)) \<and> distinct (map snd (user_keys db)) \<and>
     distinct (map fst (client_keys db)) \<and> distinct (map fst (vendor_keys db)) \<and>
     (\<forall>(c, a) \<in> set (client_keys db). a \<in> fst ` set (account_keys db)) \<and>
     (\<forall>(v, c, a) \<in> set (vendor_keys db). (c, a) \<in> set (client_keys db))"

definition members_ok :: "identity_db \<Rightarrow> bool" where
  "members_ok db \<longleftrightarrow>
     distinct (map mb_id (id_members db)) \<and> distinct (map (\<lambda>m. (mb_user_id m, membership_scope m)) (id_members db)) \<and>
     (\<forall>m \<in> set (id_members db). chain_ok db (member_key m) \<and> mb_role m \<in> set membership_role_enum)"

definition tenancy_ok :: "identity_db \<Rightarrow> bool" where
  "tenancy_ok db \<longleftrightarrow> tables_ok db \<and> members_ok db"

lemma tables_ok_cong: "tenancy_frame db' = tenancy_frame db \<Longrightarrow> tables_ok db' \<longleftrightarrow> tables_ok db"
  by (simp add: tables_ok_def tenancy_frame_def)

lemma chain_ok_cong: "tenancy_frame db' = tenancy_frame db \<Longrightarrow> chain_ok db' = chain_ok db"
  by (simp add: fun_eq_iff chain_ok_def tenancy_frame_def)

lemma account_exists_key: "account_exists a db \<longleftrightarrow> a \<in> fst ` set (account_keys db)"
  by (force simp: account_exists_def account_keys_def list_ex_iff)

lemma client_belongs_key: "client_belongs_to_account a c db \<longleftrightarrow> (c, a) \<in> set (client_keys db)"
  by (auto simp: client_belongs_to_account_def client_keys_def list_ex_iff)

lemma vendor_belongs_key: "vendor_belongs_to_client c v db \<longleftrightarrow> (\<exists>a. (v, c, a) \<in> set (vendor_keys db))"
  by (auto simp: vendor_belongs_to_client_def vendor_keys_def list_ex_iff)

lemmas belongs_keys = account_exists_key client_belongs_key vendor_belongs_key

text \<open>Rows added to a table leave the links of the others.\<close>

lemma chain_ok_mono:
  assumes "set (account_keys db) \<subseteq> set (account_keys db')" "set (user_keys db) \<subseteq> set (user_keys db')"
    "set (client_keys db) \<subseteq> set (client_keys db')" "set (vendor_keys db) \<subseteq> set (vendor_keys db')" and "chain_ok db k"
  shows "chain_ok db' k"
  using assms unfolding chain_ok_def by (auto split: prod.splits) blast

lemma update_where_keys: "(\<And>r. key (f r) = key r) \<Longrightarrow> map key (update_where p f rows) = map key rows"
  by (simp add: update_where_def)

lemma update_where_in: "x \<in> set (update_where p f rows) \<longleftrightarrow> (\<exists>r \<in> set rows. x = (if p r then f r else r))"
  by (auto simp: update_where_def)

lemma tenancy_frame_members [simp]: "tenancy_frame (db\<lparr>id_members := ms\<rparr>) = tenancy_frame db" "tenancy_frame (db\<lparr>id_audit := rows\<rparr>) = tenancy_frame db"
  by (simp_all add: key_defs)

lemma tenancy_ok_audit [simp]: "tenancy_ok (db\<lparr>id_audit := rows\<rparr>) \<longleftrightarrow> tenancy_ok db"
  using tables_ok_cong [of "db\<lparr>id_audit := rows\<rparr>" db] chain_ok_cong [of "db\<lparr>id_audit := rows\<rparr>" db] by (simp add: tenancy_ok_def members_ok_def)

section \<open>The operations keep the invariant\<close>

lemma grown_tables_ok:
  assumes "tenancy_ok db" and "tables_ok db'" and "id_members db' = id_members db"
    and "set (account_keys db) \<subseteq> set (account_keys db')" "set (user_keys db) \<subseteq> set (user_keys db')"
    "set (client_keys db) \<subseteq> set (client_keys db')" "set (vendor_keys db) \<subseteq> set (vendor_keys db')"
  shows "tenancy_ok db'"
  using assms(1-3) chain_ok_mono [OF assms(4-7)] by (simp add: tenancy_ok_def members_ok_def)

lemma same_keys_ok:
  assumes "tenancy_ok db" and "tenancy_frame db' = tenancy_frame db" and "id_members db' = id_members db"
  shows "tenancy_ok db'"
  using assms(1) tables_ok_cong [OF assms(2)] chain_ok_cong [OF assms(2)] by (simp add: tenancy_ok_def members_ok_def assms(3))

lemma create_client_ok:
  assumes "create_client g name slug db = Inr (db', i)" and "fst g \<notin> fst ` set (account_keys db)" and "tenancy_ok db"
  shows "tenancy_ok db'"
proof -
  have db': "db' = db\<lparr>id_accounts := id_accounts db @ [\<lparr>ta_id = fst g, ta_name = name, ta_slug = slug, ta_is_active = True, ta_created_at = snd g\<rparr>]\<rparr>"
    and slug: "slug \<notin> snd ` set (account_keys db)"
    using assms(1) by (auto simp: create_client_def result_simps account_keys_def list_all_iff)
  have k: "account_keys db' = account_keys db @ [(fst g, slug)]" "user_keys db' = user_keys db" "client_keys db' = client_keys db"
    "vendor_keys db' = vendor_keys db" "id_members db' = id_members db" by (simp_all add: db' key_defs)
  have "tables_ok db" using assms(3) by (simp add: tenancy_ok_def)
  then have "tables_ok db'" using assms(2) slug unfolding tables_ok_def k by auto
  then show ?thesis by (rule grown_tables_ok [OF assms(3) _ k(5)]) (auto simp: k)
qed

lemma create_tenant_client_ok:
  assumes "create_tenant_client g account name db = Inr (db', i)" and "fst g \<notin> fst ` set (client_keys db)" and "tenancy_ok db"
  shows "tenancy_ok db'"
proof -
  have db': "db' = db\<lparr>id_clients := id_clients db @
      [\<lparr>tc_id = fst g, tc_account_id = account, tc_name = name, tc_is_active = True, tc_created_at = snd g\<rparr>]\<rparr>"
    and a: "account \<in> fst ` set (account_keys db)"
    using assms(1) by (auto simp: create_tenant_client_def result_simps account_exists_key)
  have k: "account_keys db' = account_keys db" "user_keys db' = user_keys db" "client_keys db' = client_keys db @ [(fst g, account)]"
    "vendor_keys db' = vendor_keys db" "id_members db' = id_members db" by (simp_all add: db' key_defs)
  have "tables_ok db" using assms(3) by (simp add: tenancy_ok_def)
  then have "tables_ok db'" using assms(2) a unfolding tables_ok_def k by auto
  then show ?thesis by (rule grown_tables_ok [OF assms(3) _ k(5)]) (auto simp: k)
qed

lemma create_tenant_vendor_ok:
  assumes "create_tenant_vendor g account client name contact db = Inr (db', i)" and "fst g \<notin> fst ` set (vendor_keys db)" and "tenancy_ok db"
  shows "tenancy_ok db'"
proof -
  have db': "db' = db\<lparr>id_vendors := id_vendors db @
      [\<lparr>tv_id = fst g, tv_account_id = account, tv_client_id = client, tv_name = name, tv_contact_info = contact,
        tv_is_active = True, tv_created_at = snd g\<rparr>]\<rparr>" and c: "(client, account) \<in> set (client_keys db)"
    using assms(1) by (auto simp: create_tenant_vendor_def result_simps client_belongs_key)
  have k: "account_keys db' = account_keys db" "user_keys db' = user_keys db" "client_keys db' = client_keys db"
    "vendor_keys db' = vendor_keys db @ [(fst g, client, account)]" "id_members db' = id_members db" by (simp_all add: db' key_defs)
  have "tables_ok db" using assms(3) by (simp add: tenancy_ok_def)
  then have "tables_ok db'" using assms(2) c unfolding tables_ok_def k by auto
  then show ?thesis by (rule grown_tables_ok [OF assms(3) _ k(5)]) (auto simp: k)
qed

text \<open>The updates of the tables.\<close>

lemma update_client_ok: "tenancy_ok db \<Longrightarrow> tenancy_ok (fst (update_client i name active db))"
  by (rule same_keys_ok) (simp_all add: update_client_def Let_def key_defs update_where_def)

lemma update_tenant_client_ok: "update_tenant_client account client name active db = Inr (db', x) \<Longrightarrow> tenancy_ok db \<Longrightarrow> tenancy_ok db'"
  by (rule same_keys_ok [of db]) (auto simp: update_tenant_client_def Let_def result_simps key_defs update_where_def)

lemma update_tenant_vendor_ok: "update_tenant_vendor account client vendor name contact active db = Inr (db', x) \<Longrightarrow> tenancy_ok db \<Longrightarrow> tenancy_ok db'"
  by (rule same_keys_ok [of db]) (auto simp: update_tenant_vendor_def Let_def result_simps key_defs update_where_def)

section \<open>Memberships\<close>

text \<open>An update of memberships that changes no key and leaves known roles.\<close>

lemma update_members_ok:
  assumes "tenancy_ok db" and "\<And>m. member_key (f m) = member_key m" and "\<And>m. p m \<Longrightarrow> mb_role m \<in> set membership_role_enum \<Longrightarrow> mb_role (f m) \<in> set membership_role_enum"
  shows "tenancy_ok (db\<lparr>id_members := update_where p f (id_members db)\<rparr>)"
proof -
  let ?db' = "db\<lparr>id_members := update_where p f (id_members db)\<rparr>"
  have k: "map g (update_where p f (id_members db)) = map g (id_members db)" if "\<And>m m'. member_key m = member_key m' \<Longrightarrow> g m = g m'" for g :: "tenant_membership \<Rightarrow> 'z"
    using that assms(2) by (intro update_where_keys) blast
  have "map mb_id (id_members ?db') = map mb_id (id_members db)"
    "map (\<lambda>m. (mb_user_id m, membership_scope m)) (id_members ?db') = map (\<lambda>m. (mb_user_id m, membership_scope m)) (id_members db)"
    using k [of mb_id] k [of "\<lambda>m. (mb_user_id m, membership_scope m)"] by (simp_all add: member_key_def membership_scope_def)
  moreover have "\<forall>m \<in> set (id_members ?db'). chain_ok ?db' (member_key m) \<and> mb_role m \<in> set membership_role_enum"
    using assms chain_ok_cong [of ?db' db] by (auto simp: update_where_in tenancy_ok_def members_ok_def)
  ultimately show ?thesis using assms(1) tables_ok_cong [of ?db' db] by (simp add: tenancy_ok_def members_ok_def)
qed

lemma remove_membership_ok: "tenancy_ok db \<Longrightarrow> tenancy_ok (fst (remove_membership account i db))"
proof -
  let ?db' = "fst (remove_membership account i db)"
  assume ok: "tenancy_ok db"
  have f: "tenancy_frame ?db' = tenancy_frame db" by (simp add: remove_membership_def)
  have "members_ok ?db'" using ok chain_ok_cong [OF f]
    by (auto simp: tenancy_ok_def members_ok_def remove_membership_def intro: distinct_map_filter)
  then show ?thesis using ok tables_ok_cong [OF f] by (simp add: tenancy_ok_def)
qed

lemma find_or_create_user_ok:
  assumes "find_or_create_user new_id email full_name db = (db', user, is_new)" and "new_id \<notin> fst ` set (user_keys db)" and "tenancy_ok db"
  shows "tenancy_ok db' \<and> user \<in> fst ` set (user_keys db') \<and> id_members db' = id_members db \<and>
     account_keys db' = account_keys db \<and> client_keys db' = client_keys db \<and> vendor_keys db' = vendor_keys db \<and>
     (is_new \<longrightarrow> user = new_id) \<and> id_accounts db' = id_accounts db"
proof (cases "find (\<lambda>u. au_email u = email) (id_users db)")
  case (Some u)
  then have "u \<in> set (id_users db)" using find_Some_in by fast
  then show ?thesis using Some assms by (auto simp: find_or_create_user_def user_keys_def image_image)
next
  case None
  then have db': "db' = db\<lparr>id_users := id_users db @ [\<lparr>au_id = new_id, au_email = email, au_full_name = full_name, au_is_internal = False, au_is_active = True\<rparr>]\<rparr>"
    and r: "user = new_id" and e: "email \<notin> snd ` set (user_keys db)"
    using assms(1) None None [unfolded find_None_iff] by (auto simp: find_or_create_user_def user_keys_def)
  have k: "account_keys db' = account_keys db" "user_keys db' = user_keys db @ [(new_id, email)]" "client_keys db' = client_keys db"
    "vendor_keys db' = vendor_keys db" "id_members db' = id_members db" by (simp_all add: db' key_defs)
  have "tables_ok db" using assms(3) by (simp add: tenancy_ok_def)
  then have "tables_ok db'" using assms(2) e unfolding tables_ok_def k by auto
  then have "tenancy_ok db'" by (rule grown_tables_ok [OF assms(3) _ k(5)]) (auto simp: k)
  then show ?thesis using r by (simp add: k) (simp add: db')
qed

lemma create_membership_Inr:
  assumes "create_membership g i db = Inr (db', x)" and "find_or_create_user (mm_user_id g) (cm_email i) (cm_full_name i) db = (db1, user, is_new)"
  shows "cm_role i \<in> set membership_role_enum \<and>
     (if list_ex (same_membership (membership_row g i user)) (id_members db1) then db' = db1 \<and> x = None
      else references_exist (cm_account_id i) (cm_scope_client_id i) (cm_scope_vendor_id i) db1 \<and>
        db' = db1\<lparr>id_members := id_members db1 @ [membership_row g i user]\<rparr> \<and> x = Some (mm_member_id g, user, is_new))"
proof (cases "list_ex (same_membership (membership_row g i user)) (id_members db1)")
  case True
  then have w: "insert_row same_membership (membership_row g i user) (id_members db1) = (id_members db1, False)" by (rule insert_row_hit)
  from assms(1) have "cm_role i \<in> set membership_role_enum" "db1 = db'" "x = None"
    unfolding create_membership_def assms(2) Let_def prod.case w by (auto simp: result_simps)
  then show ?thesis using True by simp
next
  case False
  then have w: "insert_row same_membership (membership_row g i user) (id_members db1) = (id_members db1 @ [membership_row g i user], True)"
    by (rule insert_row_miss)
  from assms(1) have "cm_role i \<in> set membership_role_enum"
    "references_exist (cm_account_id i) (cm_scope_client_id i) (cm_scope_vendor_id i) db1"
    "db1\<lparr>id_members := id_members db1 @ [membership_row g i user]\<rparr> = db'" "x = Some (mm_member_id g, user, is_new)"
    unfolding create_membership_def assms(2) Let_def prod.case w by (auto simp: result_simps)
  then show ?thesis using False by simp
qed

text \<open>A membership whose ancestors the caller has checked.\<close>

definition scope_checked :: "create_membership_input \<Rightarrow> identity_db \<Rightarrow> bool" where
  "scope_checked i db \<longleftrightarrow>
     (\<forall>c. cm_scope_client_id i = Some c \<longrightarrow> client_belongs_to_account (cm_account_id i) c db) \<and>
     (\<forall>v. cm_scope_vendor_id i = Some v \<longrightarrow> (\<exists>c. cm_scope_client_id i = Some c \<and> vendor_belongs_to_client c v db))"

lemma create_membership_ok:
  assumes r: "create_membership g i db = Inr (db', x)" and s: "scope_checked i db" and ok: "tenancy_ok db"
    and new: "mm_user_id g \<notin> fst ` set (user_keys db)" "mm_member_id g \<notin> mb_id ` set (id_members db)"
  shows "tenancy_ok db'"
proof -
  obtain db1 user is_new where u: "find_or_create_user (mm_user_id g) (cm_email i) (cm_full_name i) db = (db1, user, is_new)"
    using prod_cases3 by blast
  note f = find_or_create_user_ok [OF u new(1) ok] and c = create_membership_Inr [OF r u]
  let ?row = "membership_row g i user"
  show ?thesis
  proof (cases "list_ex (same_membership ?row) (id_members db1)")
    case True
    then show ?thesis using c f by simp
  next
    case False
    have db': "db' = db1\<lparr>id_members := id_members db1 @ [?row]\<rparr>" and refs: "references_exist (cm_account_id i) (cm_scope_client_id i) (cm_scope_vendor_id i) db1"
      and role: "cm_role i \<in> set membership_role_enum" using c False by simp_all
    have row: "mb_id ?row = mm_member_id g" "mb_user_id ?row = user" "mb_role ?row = cm_role i"
      "member_key ?row = (mm_member_id g, user, cm_account_id i, cm_scope_client_id i, cm_scope_vendor_id i)"
      by (simp_all add: membership_row_def member_key_def)
    have "chain_ok db1 (member_key ?row)"
      using refs s f unfolding row chain_ok_def scope_checked_def belongs_keys references_exist_def by auto
    moreover have "(user, membership_scope ?row) \<notin> (\<lambda>m. (mb_user_id m, membership_scope m)) ` set (id_members db1)"
      using False by (auto simp: list_ex_iff same_membership_def row)
    moreover have "mm_member_id g \<notin> mb_id ` set (id_members db1)" using new(2) f by simp
    ultimately have "members_ok db'" using f role chain_ok_cong [of db' db1] unfolding db'
      by (auto simp: tenancy_ok_def members_ok_def row)
    then show ?thesis using f tables_ok_cong [of db' db1] by (simp add: tenancy_ok_def db')
  qed
qed

end
