(* ===== verification/Identity_Runs.thy ===== *)
theory Identity_Runs
  imports Identity_Properties
begin

text \<open>
  Runs of the routes that change tenancy: every step keeps the invariant of the tables. What the
  lookups of the guards find, and what an update of a membership leaves.
\<close>

section \<open>Runs\<close>

text \<open>
  A route by any request, with new identifiers, or a change of the users and the ledger by another
  part of the program.
\<close>

inductive tenancy_step :: "bool \<Rightarrow> session_lib \<Rightarrow> pick_row \<Rightarrow> runtime \<Rightarrow> identity_db \<Rightarrow> identity_db \<Rightarrow> bool"
  for dev S pick rt where
  tenant_created: "fst g \<notin> fst ` set (account_keys db) \<Longrightarrow>
    tenancy_step dev S pick rt db (fst (as_tenant_admin dev S q (\<lambda>_. create_tenant_route g body) db))"
| tenant_updated: "tenancy_step dev S pick rt db (fst (as_tenant_admin dev S q (\<lambda>_. update_tenant_route i body) db))"
| client_created: "fst g \<notin> fst ` set (client_keys db) \<Longrightarrow>
    tenancy_step dev S pick rt db (fst (as_tenant_admin dev S q (\<lambda>_. create_client_route g account body) db))"
| client_updated: "tenancy_step dev S pick rt db (fst (as_tenant_admin dev S q (\<lambda>_. update_client_route account client body) db))"
| vendor_created: "fst g \<notin> fst ` set (vendor_keys db) \<Longrightarrow>
    tenancy_step dev S pick rt db (fst (as_tenant_admin dev S q (\<lambda>_. create_vendor_route g account client body) db))"
| vendor_updated: "tenancy_step dev S pick rt db (fst (as_tenant_admin dev S q (\<lambda>_. update_vendor_route account client vendor body) db))"
| member_created: "mm_user_id m \<notin> fst ` set (user_keys db) \<Longrightarrow> mm_member_id m \<notin> mb_id ` set (id_members db) \<Longrightarrow>
    tenancy_step dev S pick rt db (fst (as_tenant_admin dev S q (\<lambda>_. create_member_route m account body) db))"
| client_member_created: "mm_user_id m \<notin> fst ` set (user_keys db) \<Longrightarrow> mm_member_id m \<notin> mb_id ` set (id_members db) \<Longrightarrow>
    tenancy_step dev S pick rt db (fst (as_tenant_admin dev S q (\<lambda>_. create_client_member_route m account client body) db))"
| vendor_member_created: "mm_user_id m \<notin> fst ` set (user_keys db) \<Longrightarrow> mm_member_id m \<notin> mb_id ` set (id_members db) \<Longrightarrow>
    tenancy_step dev S pick rt db (fst (as_tenant_admin dev S q (\<lambda>_. create_vendor_member_route m account client vendor body) db))"
| member_updated: "tenancy_step dev S pick rt db (fst (as_tenant_admin dev S q (update_member_route rt now account i body) db))"
| member_removed: "tenancy_step dev S pick rt db (fst (as_tenant_admin dev S q (\<lambda>_. remove_member_route account i) db))"
| role_changed: "tenancy_step dev S pick rt db (fst (portal_role_route dev S pick rt now q i body db))"
| others: "set (user_keys db) \<subseteq> set (map (\<lambda>u. (au_id u, au_email u)) us) \<Longrightarrow> distinct (map au_id us) \<Longrightarrow> distinct (map au_email us) \<Longrightarrow>
    tenancy_step dev S pick rt db (db\<lparr>id_users := us, id_audit := rows\<rparr>)"

lemma committed_ok: "tenancy_ok db \<Longrightarrow> (\<And>db' x. r = Inr (db', x) \<Longrightarrow> tenancy_ok db') \<Longrightarrow> tenancy_ok (fst (committed db r reply))"
  by (auto simp: committed_def split: sum.splits)

lemma conflict_as_409_state [simp]: "fst (conflict_as_409 r) = fst r"
  by (auto simp: conflict_as_409_def split: prod.splits identity_reply.splits identity_error.splits)

lemma as_admin_ok: "tenancy_ok db \<Longrightarrow> (\<And>user. tenancy_ok (fst (h user db))) \<Longrightarrow> tenancy_ok (fst (as_tenant_admin dev S q h db))"
  by (auto simp: as_tenant_admin_def split: sum.splits)

lemma write_identity_event_Inr:
  "write_identity_event now e db = Inr db' \<Longrightarrow> \<exists>rows. db' = db\<lparr>id_audit := rows\<rparr>"
  by (auto simp: write_identity_event_def split: sum.splits)

lemma member_roles: "set MEMBERSHIP_ROLES \<subseteq> set membership_role_enum" "set PORTAL_ROLES \<subseteq> set membership_role_enum"
  by (simp_all add: MEMBERSHIP_ROLES_def PORTAL_ROLES_def membership_role_enum_def)

lemma update_tenant_membership_ok:
  assumes "update_tenant_membership rt now account i role active actor db = Inr (db', x)" and "tenancy_ok db"
  shows "tenancy_ok db'"
proof -
  let ?f = "\<lambda>x. x\<lparr>mb_role := given role (mb_role x), mb_is_active := given active (mb_is_active x)\<rparr>"
  have r: "case role of None \<Rightarrow> True | Some r \<Rightarrow> r \<in> set membership_role_enum"
    using assms(1) by (auto simp: update_tenant_membership_def result_simps)
  have "tenancy_ok (db\<lparr>id_members := update_where (\<lambda>x. mb_id x = i) ?f (id_members db)\<rparr>)"
    using r by (intro update_members_ok [OF assms(2)]) (auto simp: member_key_def given_def split: option.splits)
  then show ?thesis using assms
    by (auto simp: update_tenant_membership_def Let_def result_simps split: option.splits if_splits dest!: write_identity_event_Inr)
qed

lemma update_portal_role_ok:
  assumes "update_portal_member_role rt now visible account i role actor db = Inr (db', x)" and "role \<in> set PORTAL_ROLES" and "tenancy_ok db"
  shows "tenancy_ok db'"
proof -
  have "tenancy_ok (set_role i role db)" using assms(2) member_roles(2) unfolding set_role_def
    by (intro update_members_ok [OF assms(3)]) (auto simp: member_key_def)
  then show ?thesis using assms
    by (auto simp: update_portal_member_role_def result_simps split: option.splits dest!: write_identity_event_Inr)
qed

lemma others_ok:
  assumes "tenancy_ok db" and "set (user_keys db) \<subseteq> set (map (\<lambda>u. (au_id u, au_email u)) us)" and "distinct (map au_id us)" "distinct (map au_email us)"
  shows "tenancy_ok (db\<lparr>id_users := us, id_audit := rows\<rparr>)"
proof (rule grown_tables_ok [OF assms(1)])
  show "tables_ok (db\<lparr>id_users := us, id_audit := rows\<rparr>)"
    using assms by (simp add: tenancy_ok_def tables_ok_def key_defs comp_def)
qed (use assms(2) in \<open>simp_all add: key_defs\<close>)

lemma scope_checked_request:
  "scope_checked (membership_request account client vendor body) db \<longleftrightarrow>
     (\<forall>c. client = Some c \<longrightarrow> client_belongs_to_account account c db) \<and>
     (\<forall>v. vendor = Some v \<longrightarrow> (\<exists>c. client = Some c \<and> vendor_belongs_to_client c v db))"
  by (simp add: scope_checked_def membership_request_def)

lemma create_vendor_route_state:
  "fst (create_vendor_route g account client body db) =
     (if \<not> isUuid account \<or> \<not> isUuid client \<or> blank_field ''name'' body \<or> bad_nullable_text ''contactInfo'' body then db
      else fst (committed db (create_tenant_vendor g account client (the (text_of ''name'' body)) (text_of ''contactInfo'' body) db) VendorCreated))"
  by (auto simp: create_vendor_route_def conflict_as_409_def committed_def split: sum.splits identity_error.splits)

lemma tenancy_step_ok:
  assumes "tenancy_step dev S pick rt db db'" and "tenancy_ok db"
  shows "tenancy_ok db'"
  using assms
proof cases
  case (tenant_created g q body)
  show ?thesis unfolding tenant_created(1) create_tenant_route_def
    by (intro as_admin_ok assms(2)) (simp add: assms(2), intro impI committed_ok assms(2), erule create_client_ok [OF _ tenant_created(2) assms(2)])
next
  case (tenant_updated q i body)
  have "tenancy_ok (fst (update_tenant_route i body db))"
    using update_client_ok [OF assms(2), of i "text_of ''name'' body" "flag_of ''isActive'' body"] assms(2)
    by (cases "update_client i (text_of ''name'' body) (flag_of ''isActive'' body) db") (simp add: update_tenant_route_def split: option.splits)
  then show ?thesis unfolding tenant_updated by (intro as_admin_ok assms(2))
next
  case (client_created g q account body)
  show ?thesis unfolding client_created(1) create_client_route_def
    by (intro as_admin_ok assms(2)) (simp add: assms(2), intro impI committed_ok assms(2), erule create_tenant_client_ok [OF _ client_created(2) assms(2)])
next
  case (client_updated q account client body)
  show ?thesis unfolding client_updated update_client_route_def
    by (intro as_admin_ok assms(2)) (simp add: assms(2), intro impI committed_ok assms(2), erule update_tenant_client_ok [OF _ assms(2)])
next
  case (vendor_created g q account client body)
  show ?thesis unfolding vendor_created(1)
    by (intro as_admin_ok assms(2)) (simp add: create_vendor_route_state assms(2), intro impI committed_ok assms(2), erule create_tenant_vendor_ok [OF _ vendor_created(2) assms(2)])
next
  case (vendor_updated q account client vendor body)
  have "tenancy_ok (fst (committed db (update_tenant_vendor account client vendor name contact active db) reply))" for name contact active and reply
    using update_tenant_vendor_ok [OF _ assms(2)] by (intro committed_ok assms(2)) blast
  then show ?thesis unfolding vendor_updated update_vendor_route_def by (intro as_admin_ok assms(2)) (simp add: assms(2))
next
  case (member_created m q account body)
  show ?thesis unfolding member_created(1) create_member_route_def
    by (intro as_admin_ok assms(2))
      (simp add: assms(2), intro impI committed_ok assms(2), erule create_membership_ok [OF _ _ assms(2) member_created(2,3)], simp add: scope_checked_request)
next
  case (client_member_created m q account client body)
  show ?thesis unfolding client_member_created(1) create_client_member_route_def
    by (intro as_admin_ok assms(2))
      (simp add: assms(2), intro impI committed_ok assms(2), erule create_membership_ok [OF _ _ assms(2) client_member_created(2,3)], simp add: scope_checked_request)
next
  case (vendor_member_created m q account client vendor body)
  show ?thesis unfolding vendor_member_created(1) create_vendor_member_route_def
    by (intro as_admin_ok assms(2))
      (simp add: assms(2), intro impI committed_ok assms(2), erule create_membership_ok [OF _ _ assms(2) vendor_member_created(2,3)], simp add: scope_checked_request)
next
  case (member_updated q now account i body)
  have "tenancy_ok (fst (committed db (update_tenant_membership rt now account i role active actor db) reply))" for role active actor and reply
    using update_tenant_membership_ok [OF _ assms(2)] by (intro committed_ok assms(2)) blast
  then show ?thesis unfolding member_updated update_member_route_def Let_def by (intro as_admin_ok assms(2)) (simp add: assms(2))
next
  case (member_removed q account i)
  have "tenancy_ok (fst (remove_member_route account i db))"
    using remove_membership_ok [OF assms(2), of account i] assms(2)
    by (cases "remove_membership account i db") (simp add: remove_member_route_def)
  then show ?thesis unfolding member_removed by (intro as_admin_ok assms(2))
next
  case (role_changed now q i body)
  have "tenancy_ok (fst (committed db (update_portal_member_role rt now visible account i role actor db) reply))" if "role \<in> set PORTAL_ROLES"
    for visible account role actor and reply
    using update_portal_role_ok [OF _ that assms(2)] by (intro committed_ok assms(2)) blast
  then show ?thesis unfolding role_changed portal_role_route_def
    using assms(2) by (simp split: sum.splits list.splits option.splits prod.splits)
next
  case (others us rows)
  then show ?thesis using others_ok [OF assms(2)] by blast
qed

lemma tenancy_run_ok: "(tenancy_step dev S pick rt)\<^sup>*\<^sup>* db db' \<Longrightarrow> tenancy_ok db \<Longrightarrow> tenancy_ok db'"
  by (induction rule: rtranclp_induct) (blast intro: tenancy_step_ok)+

section \<open>Guards\<close>

text \<open>What the database promises of a query with \<open>LIMIT 1\<close>.\<close>

definition picks :: "pick_row \<Rightarrow> bool" where
  "picks pick \<longleftrightarrow> pick [] = None \<and> (\<forall>rows. rows \<noteq> [] \<longrightarrow> (\<exists>m \<in> set rows. pick rows = Some m))"

lemma picks_Some: "picks pick \<Longrightarrow> pick rows = Some m \<Longrightarrow> m \<in> set rows"
  unfolding picks_def by (metis option.distinct(1) option.inject)

lemma picks_None: "picks pick \<Longrightarrow> pick rows = None \<longleftrightarrow> rows = []"
  unfolding picks_def by (metis option.distinct(1))

lemma lookup_membership_Some:
  "picks pick \<Longrightarrow> lookup_membership pick db user account = Some role \<Longrightarrow>
     active_account account db \<and> (\<exists>m \<in> set (id_members db). mb_user_id m = user \<and> mb_account_id m = account \<and> mb_is_active m \<and> mb_role m = role)"
  by (auto simp: lookup_membership_def dest!: picks_Some)

lemma lookup_membership_found:
  assumes "picks pick" and "active_account account db" and "m \<in> set (id_members db)" "mb_user_id m = user" "mb_account_id m = account" "mb_is_active m"
  shows "\<exists>role. lookup_membership pick db user account = Some role"
proof -
  have "filter (\<lambda>m. mb_user_id m = user \<and> mb_account_id m = account \<and> active_account (mb_account_id m) db \<and> mb_is_active m) (id_members db) \<noteq> []"
    using assms(2-6) by (auto simp: filter_empty_conv)
  then show ?thesis using picks_None [OF assms(1)] by (auto simp: lookup_membership_def simp flip: not_None_eq)
qed

lemma tenant_guard_Inr:
  "tenant_guard dev S pick db q = Inr (ctx, user, role) \<longleftrightarrow>
     request_identity dev S q = Some user \<and> (\<exists>account. request_account q = Some account \<and>
       lookup_membership pick db user account = Some role \<and> role \<noteq> [] \<and> ctx = single_account account)"
  by (auto simp: tenant_guard_def resolve_authorized_tenant_context_def split: option.splits if_splits)

lemma account_admin_guard_Inr:
  "account_admin_guard dev S pick db q = Inr (ctx, user) \<longleftrightarrow>
     request_identity dev S q = Some user \<and> (\<exists>account. request_account q = Some account \<and>
       lookup_membership_role pick db user account = Some ''account_admin'' \<and> ctx = single_account account)"
  by (auto simp: account_admin_guard_def resolve_account_admin_context_def resolve_portal_context_def split: option.splits if_splits)

lemma request_account_named: "request_account q = Some account \<Longrightarrow> account \<noteq> []"
  by (auto simp: request_account_def truthy_def split: if_splits option.splits)

text \<open>A member of an active account is let in, with the role of one of the memberships.\<close>

lemma member_enters:
  assumes "picks pick" and "tenancy_ok db" and "active_account account db"
    and "m \<in> set (id_members db)" "mb_user_id m = user" "mb_account_id m = account" "mb_is_active m"
    and "request_identity dev S q = Some user" "request_account q = Some account"
  shows "\<exists>role. tenant_guard dev S pick db q = Inr (single_account account, user, role)"
proof -
  obtain role where role: "lookup_membership pick db user account = Some role" using lookup_membership_found [OF assms(1,3-7)] by blast
  then have "role \<in> set membership_role_enum"
    using lookup_membership_Some [OF assms(1) role] assms(2) by (auto simp: tenancy_ok_def members_ok_def)
  then have "role \<noteq> []" by (auto simp: membership_role_enum_def)
  then show ?thesis using role assms(8,9) by (auto simp: tenant_guard_Inr)
qed

section \<open>Updates of memberships\<close>

lemma update_tenant_membership_Inr:
  assumes "update_tenant_membership rt now account i role active actor db = Inr (db', Some m')"
  shows "\<exists>m. find (\<lambda>m. mb_id m = i \<and> mb_account_id m = account) (id_members db) = Some m \<and>
     m' = m\<lparr>mb_role := given role (mb_role m), mb_is_active := given active (mb_is_active m)\<rparr> \<and>
     id_members db' = update_where (\<lambda>x. mb_id x = i)
       (\<lambda>x. x\<lparr>mb_role := given role (mb_role x), mb_is_active := given active (mb_is_active x)\<rparr>) (id_members db) \<and>
     id_accounts db' = id_accounts db"
  using assms by (auto simp: update_tenant_membership_def Let_def result_simps split: option.splits if_splits dest!: write_identity_event_Inr)

lemma update_portal_role_False: "update_portal_member_role rt now visible account i role actor db = Inr (db', False) \<Longrightarrow> db' = db"
  by (auto simp: update_portal_member_role_def result_simps split: option.splits)

lemma update_portal_role_True:
  assumes "update_portal_member_role rt now visible account i role actor db = Inr (db', True)"
  shows "\<exists>m \<in> set (id_members db). mb_id m = i \<and> mb_account_id m = account \<and> mb_role m \<in> set PORTAL_ROLES \<and>
     write_identity_event now (role_changed_event rt ''client'' account i (mb_role m) role actor) (set_role i role db) = Inr db'"
proof -
  let ?p = "\<lambda>m. mb_id m = i \<and> mb_account_id m = account \<and> mb_role m \<in> set PORTAL_ROLES \<and> mb_account_id m \<in> set visible"
  obtain m where f: "find ?p (id_members db) = Some m"
    and w: "write_identity_event now (role_changed_event rt ''client'' (mb_account_id m) i (mb_role m) role actor) (set_role i role db) = Inr db'"
    using assms by (cases "find ?p (id_members db)") (auto simp: update_portal_member_role_def result_simps)
  have "m \<in> set (id_members db) \<and> ?p m" using f by (rule find_Some_in)
  then show ?thesis using w by auto
qed

lemma unique_member: "tenancy_ok db \<Longrightarrow> x \<in> set (id_members db) \<Longrightarrow> y \<in> set (id_members db) \<Longrightarrow> mb_id x = mb_id y \<Longrightarrow> x = y"
  by (auto simp: tenancy_ok_def members_ok_def distinct_map dest: inj_onD)

section \<open>The events of a change of role\<close>

text \<open>The identifier depends on the account, the membership and the new role alone.\<close>

definition role_event_id :: "runtime \<Rightarrow> uuid \<Rightarrow> uuid \<Rightarrow> string \<Rightarrow> uuid" where
  "role_event_id rt account i role = deterministic_audit_event_id rt [account, i, ''membership.role_changed_to_'' @ role]"

lemma role_event_parsed:
  "parse_audit_event (role_changed_event rt kind account i f role actor) = Some v \<Longrightarrow>
     ae_id v = role_event_id rt account i role \<and> ae_actor_user_id v = actor \<and> ae_detail v = Some [(''fromRole'', JString f), (''toRole'', JString role)]"
  by (auto simp: parse_audit_event_def role_changed_event_def analyst_event_def role_event_id_def Let_def split: if_splits)

lemma role_event_reparsed:
  "parse_audit_event (role_changed_event rt kind account i f role actor) = Some v \<Longrightarrow> optional_uuid actor' \<Longrightarrow>
     \<exists>v'. parse_audit_event (role_changed_event rt kind account i f' role actor') = Some v'"
  by (auto simp: parse_audit_event_def role_changed_event_def analyst_event_def Let_def split: if_splits)

lemma write_identity_event_row:
  assumes "write_identity_event now e db = Inr db'"
  shows "\<exists>v. parse_audit_event e = Some v \<and> (\<exists>r \<in> set (id_audit db'). same_evidence v r)"
proof -
  obtain rows u c where w: "write_audit_event now e (id_audit db) = Inr (rows, u, c)" and db': "db' = db\<lparr>id_audit := rows\<rparr>"
    using assms by (auto simp: write_identity_event_def split: sum.splits)
  then obtain v where v: "parse_audit_event e = Some v" and "list_ex (same_evidence v) rows"
    by (auto simp: write_audit_event_Inr split: if_splits)
  then show ?thesis using db' by (auto simp: list_ex_iff)
qed

lemma write_identity_event_conflict:
  assumes "parse_audit_event e = Some v" and "r \<in> set (id_audit db)" "ae_id r = ae_id v" "\<not> same_evidence v r" and "distinct (map ae_id (id_audit db))"
  shows "write_identity_event now e db = Inl (IdentityAuditError AuditEventConflictError)"
proof -
  have "x = r" if "x \<in> set (id_audit db)" "same_evidence v x" for x
    using assms(2,3,5) that by (intro inj_onD [of ae_id "set (id_audit db)"]) (simp_all add: distinct_map same_evidence_def)
  then have "\<not> list_ex (same_evidence v) (id_audit db)" using assms(4) by (auto simp: list_ex_iff)
  moreover have "list_ex (\<lambda>b. ae_id b = ae_id (ledger_row now v)) (id_audit db)" using assms by (auto simp: list_ex_iff)
  ultimately show ?thesis using assms(1) by (simp add: write_identity_event_def write_audit_event_def insert_row_def)
qed

end
