(* ===== verification/Identity_Theorems.thy ===== *)
theory Identity_Theorems
  imports Identity_Runs
begin

text \<open>
  The properties of tenancy and access, on a sample account with a client, a vendor, two administrators
  of the account and an internal user.
\<close>

section \<open>A sample account\<close>

definition i_account :: uuid where "i_account = ''00000000-0000-4000-8000-00000000aa01''"
definition i_client :: uuid where "i_client = ''00000000-0000-4000-8000-00000000cc01''"
definition i_vendor :: uuid where "i_vendor = ''00000000-0000-4000-8000-00000000bb01''"
definition i_staff :: uuid where "i_staff = ''00000000-0000-4000-8000-00000000dd01''"
definition i_first :: uuid where "i_first = ''00000000-0000-4000-8000-00000000dd02''"
definition i_second :: uuid where "i_second = ''00000000-0000-4000-8000-00000000dd03''"
definition i_third :: uuid where "i_third = ''00000000-0000-4000-8000-00000000dd04''"
definition m_first :: uuid where "m_first = ''00000000-0000-4000-8000-00000000ee02''"
definition m_second :: uuid where "m_second = ''00000000-0000-4000-8000-00000000ee03''"
definition m_third :: uuid where "m_third = ''00000000-0000-4000-8000-00000000ee04''"

lemmas sample_ids = i_account_def i_client_def i_vendor_def i_staff_def i_first_def i_second_def i_third_def m_first_def m_second_def m_third_def

definition take_first :: pick_row where
  "take_first rows = (case rows of [] \<Rightarrow> None | m # _ \<Rightarrow> Some m)"

definition no_session :: session_lib where
  "no_session q = None"

definition as_user :: "uuid \<Rightarrow> http_request" where
  "as_user user = \<lparr>hq_account_header = [i_account], hq_user_header = [user], hq_cookie = None, hq_method = ''PATCH''\<rparr>"

definition sample_user :: "uuid \<Rightarrow> string \<Rightarrow> bool \<Rightarrow> app_user" where
  "sample_user i email staff = \<lparr>au_id = i, au_email = email, au_full_name = None, au_is_internal = staff, au_is_active = True\<rparr>"

definition sample_member :: "uuid \<Rightarrow> uuid \<Rightarrow> string \<Rightarrow> tenant_membership" where
  "sample_member i user role = \<lparr>mb_id = i, mb_user_id = user, mb_account_id = i_account, mb_client_id = None, mb_vendor_id = None,
     mb_role = role, mb_is_active = True, mb_created_at = 1\<rparr>"

definition no_tenants :: "app_user list \<Rightarrow> identity_db" where
  "no_tenants us = \<lparr>id_accounts = [], id_users = us, id_members = [], id_clients = [], id_vendors = [], id_audit = []\<rparr>"

definition sample_account :: tenant_account where
  "sample_account = \<lparr>ta_id = i_account, ta_name = ''Acme'', ta_slug = ''acme'', ta_is_active = True, ta_created_at = 1\<rparr>"

definition sample_tenancy :: identity_db where
  "sample_tenancy =
     \<lparr>id_accounts = [sample_account],
      id_users = [sample_user i_staff ''staff'' True, sample_user i_first ''first'' False, sample_user i_second ''second'' False, sample_user i_third ''third'' False],
      id_members = [sample_member m_first i_first ''account_admin'', sample_member m_second i_second ''account_admin'',
        sample_member m_third i_third ''account_viewer''],
      id_clients = [\<lparr>tc_id = i_client, tc_account_id = i_account, tc_name = ''East'', tc_is_active = True, tc_created_at = 1\<rparr>],
      id_vendors = [\<lparr>tv_id = i_vendor, tv_account_id = i_account, tv_client_id = i_client, tv_name = ''Hauler'', tv_contact_info = None,
        tv_is_active = True, tv_created_at = 1\<rparr>],
      id_audit = []\<rparr>"

lemma picks_take_first: "picks take_first"
  by (auto simp: picks_def take_first_def split: list.splits)

lemma sample_tenancy_ok: "tenancy_ok sample_tenancy"
  by (simp add: tenancy_ok_def tables_ok_def members_ok_def key_defs sample_tenancy_def sample_account_def sample_user_def sample_member_def
    member_key_def membership_scope_def coalesced_scope_def chain_ok_def membership_role_enum_def sample_ids)

lemma no_tenants_ok: "distinct (map au_id us) \<Longrightarrow> distinct (map au_email us) \<Longrightarrow> tenancy_ok (no_tenants us)"
  by (simp add: tenancy_ok_def tables_ok_def members_ok_def key_defs no_tenants_def comp_def)

section \<open>The tables\<close>

text \<open>
  C14: From tables without tenants, and with unique users, every run of the tenant administration's routes,
  of the portal's role route and of the rest of the program keeps one membership for each user and scope,
  and memberships whose account, client and vendor belong together.
\<close>

theorem tenancy_stays_consistent:
  assumes "(tenancy_step dev S pick rt)\<^sup>*\<^sup>* (no_tenants us) db" and "distinct (map au_id us)" "distinct (map au_email us)"
  shows "distinct (map (\<lambda>m. (mb_user_id m, membership_scope m)) (id_members db)) \<and>
     (\<forall>m \<in> set (id_members db). account_exists (mb_account_id m) db \<and>
        (\<forall>c. mb_client_id m = Some c \<longrightarrow> client_belongs_to_account (mb_account_id m) c db) \<and>
        (\<forall>v. mb_vendor_id m = Some v \<longrightarrow> (\<exists>c. mb_client_id m = Some c \<and> vendor_belongs_to_client c v db)))"
proof -
  have "tenancy_ok db" using tenancy_run_ok [OF assms(1)] no_tenants_ok [OF assms(2,3)] by blast
  then have "distinct (map (\<lambda>m. (mb_user_id m, membership_scope m)) (id_members db))" and k: "\<forall>m \<in> set (id_members db). chain_ok db (member_key m)"
    by (simp_all add: tenancy_ok_def members_ok_def)
  then show ?thesis by (auto simp: chain_ok_def member_key_def belongs_keys dest!: bspec)
qed

definition opened_tenancy :: identity_db where
  "opened_tenancy = (no_tenants [sample_user i_staff ''staff'' True])\<lparr>id_accounts := [sample_account]\<rparr>"

definition staffed_tenancy :: identity_db where
  "staffed_tenancy = opened_tenancy
     \<lparr>id_users := [sample_user i_staff ''staff'' True, sample_user i_first ''first'' False],
      id_members := [sample_member m_first i_first ''account_admin'']\<rparr>"

definition tenant_body :: request_body where
  "tenant_body = [(''name'', JString ''Acme''), (''slug'', JString ''acme'')]"

definition member_body :: "string \<Rightarrow> string \<Rightarrow> request_body" where
  "member_body email role = [(''email'', JString email), (''role'', JString role)]"

definition first_moment :: membership_moment where
  "first_moment = \<lparr>mm_user_id = i_first, mm_member_id = m_first, mm_now = 1\<rparr>"

lemma tenant_opens:
  "fst (as_tenant_admin True no_session (as_user i_staff) (\<lambda>_. create_tenant_route (i_account, 1) tenant_body) (no_tenants [sample_user i_staff ''staff'' True]))
     = opened_tenancy"
  by code_simp

lemma member_joins:
  "fst (as_tenant_admin True no_session (as_user i_staff) (\<lambda>_. create_member_route first_moment i_account (member_body ''first'' ''account_admin'')) opened_tenancy)
     = staffed_tenancy"
  by code_simp

lemma staffed_run: "(tenancy_step True no_session take_first rt)\<^sup>*\<^sup>* (no_tenants [sample_user i_staff ''staff'' True]) staffed_tenancy"
proof -
  have "tenancy_step True no_session take_first rt (no_tenants [sample_user i_staff ''staff'' True]) opened_tenancy"
    using tenant_created [where g = "(i_account, 1)" and body = tenant_body and q = "as_user i_staff" and db = "no_tenants [sample_user i_staff ''staff'' True]"
      and dev = True and S = no_session and pick = take_first and rt = rt]
    unfolding tenant_opens by (simp add: account_keys_def no_tenants_def)
  moreover have "tenancy_step True no_session take_first rt opened_tenancy staffed_tenancy"
    using member_created [where m = first_moment and body = "member_body ''first'' ''account_admin''" and account = i_account and q = "as_user i_staff"
      and db = opened_tenancy and dev = True and S = no_session and pick = take_first and rt = rt]
    unfolding member_joins by (simp add: user_keys_def opened_tenancy_def no_tenants_def first_moment_def sample_user_def i_staff_def i_first_def)
  ultimately show ?thesis by (meson converse_rtranclp_into_rtranclp rtranclp.rtrancl_refl)
qed

theorem tenancy_stays_consistent_witness:
  "(tenancy_step True no_session take_first ledger_runtime)\<^sup>*\<^sup>* (no_tenants [sample_user i_staff ''staff'' True]) staffed_tenancy \<and>
   account_exists i_account staffed_tenancy \<and> length (id_members staffed_tenancy) = 1"
  using tenancy_stays_consistent [OF staffed_run] staffed_run by (simp add: staffed_tenancy_def sample_user_def sample_member_def)

section \<open>The scope of a request\<close>

text \<open>
  C15: A request gets a tenant scope exactly when it proves a user and names an active account of which
  the user has an active membership, and the scope is that one account.
\<close>

theorem tenant_scope_of_active_members:
  assumes "picks pick" and "tenancy_ok db"
  shows "(\<exists>role. tenant_guard dev S pick db q = Inr (ctx, user, role)) \<longleftrightarrow>
     request_identity dev S q = Some user \<and>
     (\<exists>account. request_account q = Some account \<and> ctx = single_account account \<and> active_account account db \<and>
        (\<exists>m \<in> set (id_members db). mb_user_id m = user \<and> mb_account_id m = account \<and> mb_is_active m))"
proof (intro iffI; elim exE conjE bexE)
  fix role
  assume "tenant_guard dev S pick db q = Inr (ctx, user, role)"
  then obtain account where "request_identity dev S q = Some user" "request_account q = Some account" "ctx = single_account account"
    and l: "lookup_membership pick db user account = Some role" by (auto simp: tenant_guard_Inr)
  then show "request_identity dev S q = Some user \<and>
     (\<exists>account. request_account q = Some account \<and> ctx = single_account account \<and> active_account account db \<and>
        (\<exists>m \<in> set (id_members db). mb_user_id m = user \<and> mb_account_id m = account \<and> mb_is_active m))"
    using lookup_membership_Some [OF assms(1) l] by blast
next
  fix account m
  assume "request_identity dev S q = Some user" "request_account q = Some account" "ctx = single_account account" "active_account account db"
    "m \<in> set (id_members db)" "mb_user_id m = user" "mb_account_id m = account" "mb_is_active m"
  then show "\<exists>role. tenant_guard dev S pick db q = Inr (ctx, user, role)" using member_enters [OF assms] by blast
qed

theorem tenant_scope_of_active_members_witness:
  "(\<exists>role. tenant_guard True no_session take_first sample_tenancy (as_user i_third) = Inr (single_account i_account, i_third, role)) \<and>
   \<not> (\<exists>role. tenant_guard True no_session take_first sample_tenancy (as_user i_staff) = Inr (single_account i_account, i_staff, role))"
  unfolding tenant_scope_of_active_members [OF picks_take_first sample_tenancy_ok]
  by (simp add: request_identity_def request_account_def read_header_def truthy_def as_user_def active_account_def sample_tenancy_def
    sample_account_def sample_member_def sample_ids)

text \<open>
  C19: A member made for one vendor enters the whole account. When the route for a vendor's members has
  answered that the membership is created, the member's requests that name the account pass the guard with
  the scope of the account, as those of a member of the account do.
\<close>

theorem vendor_member_enters_account:
  assumes "picks pick" and "tenancy_ok db" and "active_account account db"
    and "mm_user_id g \<notin> au_id ` set (id_users db)" "mm_member_id g \<notin> mb_id ` set (id_members db)"
    and "create_vendor_member_route g account client vendor body db = (db', MemberCreated i user is_new role)"
    and "request_identity dev S q = Some user" "request_account q = Some account"
  shows "\<exists>r. tenant_guard dev S pick db' q = Inr (single_account account, user, r)"
proof -
  let ?i = "membership_request account (Some client) (Some vendor) body"
  have ok: "client_belongs_to_account account client db" "vendor_belongs_to_client client vendor db"
    and c: "create_membership g ?i db = Inr (db', Some (i, user, is_new))"
    using assms(6) by (auto simp: create_vendor_member_route_def committed_def member_reply_def split: if_splits sum.splits option.splits)
  obtain db1 user1 new1 where f: "find_or_create_user (mm_user_id g) (cm_email ?i) (cm_full_name ?i) db = (db1, user1, new1)" using prod_cases3 by blast
  have new: "mm_user_id g \<notin> fst ` set (user_keys db)" using assms(4) by (auto simp: user_keys_def)
  have s: "scope_checked ?i db" using ok by (simp add: scope_checked_request)
  have db': "db' = db1\<lparr>id_members := id_members db1 @ [membership_row g ?i user]\<rparr>" "user = user1"
    using create_membership_Inr [OF c f] by (auto split: if_splits)
  have "tenancy_ok db'" using create_membership_ok [OF c s assms(2) new assms(5)] .
  moreover have "active_account account db'"
    using assms(3) find_or_create_user_ok [OF f new assms(2)] by (simp add: active_account_def db')
  moreover have "membership_row g ?i user \<in> set (id_members db')" by (simp add: db')
  ultimately show ?thesis by (rule member_enters [OF assms(1) _ _ _ _ _ _ assms(7,8)]) (simp_all add: membership_row_def membership_request_def)
qed

definition vendor_moment :: membership_moment where
  "vendor_moment = \<lparr>mm_user_id = ''00000000-0000-4000-8000-00000000dd09'', mm_member_id = ''00000000-0000-4000-8000-00000000ee09'', mm_now = 2\<rparr>"

definition vendor_tenancy :: identity_db where
  "vendor_tenancy = sample_tenancy
     \<lparr>id_users := id_users sample_tenancy @ [sample_user ''00000000-0000-4000-8000-00000000dd09'' ''hauler'' False],
      id_members := id_members sample_tenancy @
        [(sample_member ''00000000-0000-4000-8000-00000000ee09'' ''00000000-0000-4000-8000-00000000dd09'' ''vendor_scope_viewer'')
           \<lparr>mb_client_id := Some i_client, mb_vendor_id := Some i_vendor, mb_created_at := 2\<rparr>]\<rparr>"

lemma vendor_joins:
  "create_vendor_member_route vendor_moment i_account i_client i_vendor (member_body ''hauler'' ''vendor_scope_viewer'') sample_tenancy
     = (vendor_tenancy, MemberCreated ''00000000-0000-4000-8000-00000000ee09'' ''00000000-0000-4000-8000-00000000dd09'' True ''vendor_scope_viewer'')"
  by code_simp

lemma sample_active: "active_account i_account sample_tenancy"
  by (simp add: active_account_def sample_tenancy_def sample_account_def)

lemma as_user_identity [simp]: "user \<noteq> [] \<Longrightarrow> request_identity True S (as_user user) = Some user" "request_account (as_user user) = Some i_account"
  by (simp_all add: request_identity_def request_account_def read_header_def truthy_def as_user_def i_account_def)

theorem vendor_member_enters_account_witness:
  "\<exists>r. tenant_guard True no_session take_first vendor_tenancy (as_user ''00000000-0000-4000-8000-00000000dd09'')
     = Inr (single_account i_account, ''00000000-0000-4000-8000-00000000dd09'', r)"
  by (rule vendor_member_enters_account [OF picks_take_first sample_tenancy_ok sample_active _ _ vendor_joins])
    (simp_all add: vendor_moment_def sample_tenancy_def sample_user_def sample_member_def sample_ids)

text \<open>
  C18: A disabled membership still administers the account in the portal. When the members' route has
  disabled the only membership of a user in an active account, an administrator's one, the guard of the
  tenant routes refuses the user and the guard of the portal's administration lets the user in.
\<close>

theorem disabled_admin_keeps_portal:
  assumes "picks pick" and "tenancy_ok db" and "active_account account db" and "m \<in> set (id_members db)" "mb_id m = i"
    and "\<forall>x \<in> set (id_members db). mb_user_id x = mb_user_id m \<and> mb_account_id x = account \<longrightarrow> x = m"
    and "update_member_route rt now account i body actor db = (db', MemberUpdated i ''account_admin'' False)"
    and "request_identity dev S q = Some (mb_user_id m)" "request_account q = Some account"
  shows "tenant_guard dev S pick db' q = Inl 401 \<and> account_admin_guard dev S pick db' q = Inr (single_account account, mb_user_id m)"
proof -
  let ?r = "text_of ''role'' body" and ?a = "flag_of ''isActive'' body"
  let ?f = "\<lambda>x. x\<lparr>mb_role := given ?r (mb_role x), mb_is_active := given ?a (mb_is_active x)\<rparr>"
  obtain m' where u: "update_tenant_membership rt now account i ?r ?a (Some actor) db = Inr (db', Some m')"
    and m': "mb_role m' = ''account_admin''" "\<not> mb_is_active m'"
    using assms(7) by (auto simp: update_member_route_def Let_def committed_def split: if_splits sum.splits option.splits)
  obtain m0 where m0: "find (\<lambda>m. mb_id m = i \<and> mb_account_id m = account) (id_members db) = Some m0" "m' = ?f m0"
    and rows: "id_members db' = update_where (\<lambda>x. mb_id x = i) ?f (id_members db)" and accounts: "id_accounts db' = id_accounts db"
    using update_tenant_membership_Inr [OF u] by blast
  have "m0 = m" using find_Some_in [OF m0(1)] unique_member [OF assms(2) _ assms(4)] assms(5) by simp
  then have acc: "mb_account_id m = account" and fm: "mb_role (?f m) = ''account_admin''" "\<not> mb_is_active (?f m)"
    using find_Some_in [OF m0(1)] m' m0(2) by simp_all
  have mine: "x = ?f m" if "x \<in> set (id_members db')" "mb_user_id x = mb_user_id m" "mb_account_id x = account" for x
    using that assms(5,6) by (auto simp: rows update_where_in split: if_splits)
  have there: "?f m \<in> set (id_members db')" using assms(4,5) by (auto simp: rows update_where_in)
  have act: "active_account account db'" using assms(3) by (simp add: active_account_def accounts)
  have "\<not> (\<exists>ctx user role. tenant_guard dev S pick db' q = Inr (ctx, user, role))"
    using lookup_membership_Some [OF assms(1)] mine fm(2) assms(8,9) by (fastforce simp: tenant_guard_Inr)
  then have "tenant_guard dev S pick db' q = Inl 401" by (auto simp: tenant_guard_def split: option.splits)
  moreover have "lookup_membership_role pick db' (mb_user_id m) account = Some ''account_admin''"
  proof -
    let ?rows = "filter (\<lambda>x. mb_user_id x = mb_user_id m \<and> mb_account_id x = account \<and> active_account (mb_account_id x) db') (id_members db')"
    have "?f m \<in> set ?rows" using there acc act by simp
    then have "?rows \<noteq> []" by fastforce
    then obtain x where "pick ?rows = Some x" using picks_None [OF assms(1), of ?rows] by blast
    moreover then have "x = ?f m" using picks_Some [OF assms(1)] mine by fastforce
    ultimately show ?thesis using fm(1) by (simp add: lookup_membership_role_def)
  qed
  ultimately show ?thesis using assms(8,9) by (simp add: account_admin_guard_Inr)
qed

definition disabled_tenancy :: identity_db where
  "disabled_tenancy = sample_tenancy
     \<lparr>id_members := [(sample_member m_first i_first ''account_admin'')\<lparr>mb_is_active := False\<rparr>, sample_member m_second i_second ''account_admin'',
        sample_member m_third i_third ''account_viewer'']\<rparr>"

lemma sample_uuids: "isUuid i_account" "isUuid m_first" "isUuid m_second" "isUuid i_second" "isUuid m_third"
  by code_simp+

lemma first_disabled:
  "update_member_route ledger_runtime 2 i_account m_first [(''isActive'', JBool False)] i_staff sample_tenancy
     = (disabled_tenancy, MemberUpdated m_first ''account_admin'' False)"
  by (simp add: update_member_route_def sample_uuids sample_uuids [unfolded sample_ids] text_of_def flag_of_def bad_flag_def committed_def update_tenant_membership_def
    update_where_def given_def disabled_tenancy_def sample_tenancy_def sample_member_def m_first_def m_second_def m_third_def)

theorem disabled_admin_keeps_portal_witness:
  "tenant_guard True no_session take_first disabled_tenancy (as_user i_first) = Inl 401 \<and>
   account_admin_guard True no_session take_first disabled_tenancy (as_user i_first) = Inr (single_account i_account, i_first)"
proof -
  let ?m = "sample_member m_first i_first ''account_admin''"
  have m: "?m \<in> set (id_members sample_tenancy)" "mb_id ?m = m_first" "mb_user_id ?m = i_first"
    by (simp_all add: sample_tenancy_def sample_member_def)
  have only: "\<forall>x \<in> set (id_members sample_tenancy). mb_user_id x = mb_user_id ?m \<and> mb_account_id x = i_account \<longrightarrow> x = ?m"
    by (simp add: sample_tenancy_def sample_member_def sample_ids)
  have q: "request_identity True no_session (as_user i_first) = Some (mb_user_id ?m)" unfolding m(3) by (simp add: i_first_def)
  show ?thesis
    using disabled_admin_keeps_portal [OF picks_take_first sample_tenancy_ok sample_active m(1,2) only first_disabled q as_user_identity(2)]
    unfolding m(3) .
qed

section \<open>Changes of role in the portal\<close>

lemma portal_role_route_set:
  assumes "portal_role_route dev S pick rt now q i body db = (db', reply)"
  shows "(db' = db \<and> (\<forall>r. reply \<noteq> RoleSet i r)) \<or>
     (\<exists>account user r. account_admin_guard dev S pick db q = Inr (single_account account, user) \<and> request_account q = Some account \<and>
        r \<in> set PORTAL_ROLES \<and> text_of ''role'' body = Some r \<and> isUuid i \<and> reply = RoleSet i r \<and>
        update_portal_member_role rt now [account] account i r (Some user) db = Inr (db', True))"
proof (cases "account_admin_guard dev S pick db q")
  case (Inl code)
  then show ?thesis using assms by (auto simp: portal_role_route_def)
next
  case (Inr r)
  obtain ctx user where r: "r = (ctx, user)" by (cases r)
  then obtain account where a: "request_account q = Some account" "ctx = single_account account"
    using Inr by (auto simp: account_admin_guard_Inr)
  show ?thesis
  proof (cases "isUuid i \<and> (\<exists>role. text_of ''role'' body = Some role \<and> role \<in> set PORTAL_ROLES)")
    case True
    then obtain role where role: "isUuid i" "text_of ''role'' body = Some role" "role \<in> set PORTAL_ROLES" by blast
    have "(db', reply) = committed db (update_portal_member_role rt now [account] account i role (Some user) db)
        (\<lambda>found. if found then RoleSet i role else IdentityRefused 404)"
      using assms Inr r a role request_account_named [OF a(1)] by (simp add: portal_role_route_def single_account_def)
    then show ?thesis using Inr r a role
      by (cases "update_portal_member_role rt now [account] account i role (Some user) db")
        (auto simp: committed_def dest: update_portal_role_False split: prod.splits if_splits)
  next
    case False
    then show ?thesis using assms Inr r a request_account_named [OF a(1)]
      by (auto simp: portal_role_route_def single_account_def split: option.splits if_splits)
  qed
qed

text \<open>
  C16: The portal's role route changes at most one membership: of the account of the request, in which the
  acting user is an administrator, from one portal role to another. It changes nothing else of the tenancy,
  and nothing at all unless it answers that the role is set.
\<close>

theorem portal_role_route_scope:
  assumes "picks pick" and "tenancy_ok db" and "portal_role_route dev S pick rt now q i body db = (db', reply)"
  shows "tenancy_frame db' = tenancy_frame db \<and>
     ((db' = db \<and> (\<forall>r. reply \<noteq> RoleSet i r)) \<or>
      (\<exists>user account admin m r. request_identity dev S q = Some user \<and> request_account q = Some account \<and> active_account account db \<and>
         admin \<in> set (id_members db) \<and> mb_user_id admin = user \<and> mb_account_id admin = account \<and> mb_role admin = ''account_admin'' \<and>
         m \<in> set (id_members db) \<and> mb_id m = i \<and> mb_account_id m = account \<and> mb_role m \<in> set PORTAL_ROLES \<and>
         r \<in> set PORTAL_ROLES \<and> reply = RoleSet i r \<and> id_members db' = update_where (\<lambda>x. x = m) (\<lambda>x. x\<lparr>mb_role := r\<rparr>) (id_members db)))"
  using portal_role_route_set [OF assms(3)]
proof (elim disjE exE conjE)
  fix account user r
  assume g: "account_admin_guard dev S pick db q = Inr (single_account account, user)" and a: "request_account q = Some account"
    and r: "r \<in> set PORTAL_ROLES" "reply = RoleSet i r" and u: "update_portal_member_role rt now [account] account i r (Some user) db = Inr (db', True)"
  have l: "request_identity dev S q = Some user" "lookup_membership_role pick db user account = Some ''account_admin''"
    using g a by (auto simp: account_admin_guard_Inr)
  obtain admin where admin: "admin \<in> set (id_members db)" "mb_user_id admin = user" "mb_account_id admin = account"
    "mb_role admin = ''account_admin''" "active_account account db"
    using l(2) by (auto simp: lookup_membership_role_def dest!: picks_Some [OF assms(1)])
  obtain m where m: "m \<in> set (id_members db)" "mb_id m = i" "mb_account_id m = account" "mb_role m \<in> set PORTAL_ROLES"
    and w: "write_identity_event now (role_changed_event rt ''client'' account i (mb_role m) r (Some user)) (set_role i r db) = Inr db'"
    using update_portal_role_True [OF u] by blast
  obtain rows where db': "db' = (set_role i r db)\<lparr>id_audit := rows\<rparr>" using write_identity_event_Inr [OF w] by blast
  have "update_where (\<lambda>x. mb_id x = i) (\<lambda>x. x\<lparr>mb_role := r\<rparr>) (id_members db) = update_where (\<lambda>x. x = m) (\<lambda>x. x\<lparr>mb_role := r\<rparr>) (id_members db)"
  proof -
    have "mb_id x = i \<longleftrightarrow> x = m" if "x \<in> set (id_members db)" for x using unique_member [OF assms(2) that m(1)] m(2) by auto
    then show ?thesis unfolding update_where_def by (simp cong: map_cong)
  qed
  then have "id_members db' = update_where (\<lambda>x. x = m) (\<lambda>x. x\<lparr>mb_role := r\<rparr>) (id_members db)" by (simp add: db' set_role_def)
  moreover have "tenancy_frame db' = tenancy_frame db" by (simp add: db' set_role_def)
  ultimately show ?thesis using l(1) a admin m r by blast
qed simp

definition promote_body :: request_body where
  "promote_body = [(''role'', JString ''account_admin'')]"

definition promoted_event :: audit_event where
  "promoted_event = role_changed_event ledger_runtime ''client'' i_account m_third ''account_viewer'' ''account_admin'' (Some i_first)"

definition promoted_tenancy :: identity_db where
  "promoted_tenancy = sample_tenancy
     \<lparr>id_members := [sample_member m_first i_first ''account_admin'', sample_member m_second i_second ''account_admin'',
        sample_member m_third i_third ''account_admin''],
      id_audit := [ledger_row 5 promoted_event]\<rparr>"

lemma promoted_parses: "parse_audit_event promoted_event = Some promoted_event"
  unfolding promoted_event_def by code_simp

lemma sample_admins:
  "account_admin_guard True no_session take_first sample_tenancy (as_user i_first) = Inr (single_account i_account, i_first)"
  "account_admin_guard True no_session take_first (promoted_tenancy\<lparr>id_members := ms\<rparr>) (as_user i_second) = Inr (single_account i_account, i_second)"
  if "ms = id_members sample_tenancy" for ms
  using that by (simp_all add: account_admin_guard_Inr lookup_membership_role_def sample_tenancy_def promoted_tenancy_def sample_member_def
    take_first_def active_account_def sample_account_def i_account_def i_first_def i_second_def i_third_def)

lemma third_promoted:
  "portal_role_route True no_session take_first ledger_runtime 5 (as_user i_first) m_third promote_body sample_tenancy
     = (promoted_tenancy, RoleSet m_third ''account_admin'')"
proof -
  let ?m = "sample_member m_third i_third ''account_viewer''"
  have "find (\<lambda>m. mb_id m = m_third \<and> mb_account_id m = i_account \<and> mb_role m \<in> set PORTAL_ROLES \<and> mb_account_id m \<in> set [i_account])
      (id_members sample_tenancy) = Some ?m"
    by (simp add: sample_tenancy_def sample_member_def m_first_def m_second_def m_third_def PORTAL_ROLES_def)
  moreover have "write_identity_event 5 promoted_event (set_role m_third ''account_admin'' sample_tenancy) = Inr promoted_tenancy"
    using promoted_parses
    by (simp add: write_identity_event_def write_audit_event_def insert_row_def set_role_def update_where_def sample_tenancy_def promoted_tenancy_def
      sample_member_def m_first_def m_second_def m_third_def)
  ultimately have "update_portal_member_role ledger_runtime 5 [i_account] i_account m_third ''account_admin'' (Some i_first) sample_tenancy = Inr (promoted_tenancy, True)"
    by (simp add: update_portal_member_role_def promoted_event_def sample_member_def)
  then show ?thesis using sample_admins(1) [OF refl] sample_uuids
    by (simp add: portal_role_route_def single_account_def promote_body_def text_of_def PORTAL_ROLES_def committed_def) (simp add: i_account_def)
qed

theorem portal_role_route_scope_witness:
  "tenancy_frame promoted_tenancy = tenancy_frame sample_tenancy \<and> id_members promoted_tenancy \<noteq> id_members sample_tenancy"
  using portal_role_route_scope [OF picks_take_first sample_tenancy_ok third_promoted]
  by (simp add: promoted_tenancy_def sample_tenancy_def sample_member_def)

text \<open>
  C17: Once an administrator has given a member a portal role through the role route, no other
  administrator of the account can give the member that role: as long as the ledger keeps its rows, the
  route throws the ledger's conflict and the role stays as it is.
\<close>

theorem role_change_by_other_admin_fails:
  assumes "portal_role_route dev S pick rt now q i body db = (db1, RoleSet i r)"
    and "set (id_audit db1) \<subseteq> set (id_audit db2)" and "distinct (map ae_id (id_audit db2))" and "tenancy_ok db2"
    and "account_admin_guard dev S pick db2 q' = Inr (ctx, user')" "request_account q' = request_account q"
    and "isUuid user'" "request_identity dev S q \<noteq> Some user'"
    and "m \<in> set (id_members db2)" "mb_id m = i" "request_account q = Some (mb_account_id m)" "mb_role m \<in> set PORTAL_ROLES"
    and "text_of ''role'' body' = Some r"
  shows "portal_role_route dev S pick rt now' q' i body' db2 = (db2, IdentityThrown (IdentityAuditError AuditEventConflictError))"
proof -
  let ?a = "mb_account_id m"
  obtain user where g: "account_admin_guard dev S pick db q = Inr (single_account ?a, user)" and r: "r \<in> set PORTAL_ROLES" "isUuid i"
    and u: "update_portal_member_role rt now [?a] ?a i r (Some user) db = Inr (db1, True)"
    using portal_role_route_set [OF assms(1)] assms(11) by auto
  have user: "user \<noteq> user'" using g assms(8) by (auto simp: account_admin_guard_Inr)
  obtain m1 :: tenant_membership where w: "write_identity_event now (role_changed_event rt ''client'' ?a i (mb_role m1) r (Some user)) (set_role i r db) = Inr db1"
    using update_portal_role_True [OF u] by blast
  obtain v row where v: "parse_audit_event (role_changed_event rt ''client'' ?a i (mb_role m1) r (Some user)) = Some v"
    and row: "row \<in> set (id_audit db1)" "same_evidence v row" using write_identity_event_row [OF w] by blast
  obtain v' where v': "parse_audit_event (role_changed_event rt ''client'' ?a i (mb_role m) r (Some user')) = Some v'"
    using role_event_reparsed [OF v, of "Some user'" "mb_role m"] assms(7) by (auto simp: optional_uuid_def)
  have "ae_id row = ae_id v'" "ae_actor_user_id row \<noteq> ae_actor_user_id v'"
    using role_event_parsed [OF v] role_event_parsed [OF v'] row(2) user by (auto simp: same_evidence_def)
  then have c: "write_identity_event now' (role_changed_event rt ''client'' ?a i (mb_role m) r (Some user')) (set_role i r db2)
      = Inl (IdentityAuditError AuditEventConflictError)"
    using row(1) assms(2,3) by (intro write_identity_event_conflict [OF v', of row]) (auto simp: same_evidence_def set_role_def)
  have "find (\<lambda>x. mb_id x = i \<and> mb_account_id x = ?a \<and> mb_role x \<in> set PORTAL_ROLES \<and> mb_account_id x \<in> set [?a]) (id_members db2) = Some m"
  proof (cases "find (\<lambda>x. mb_id x = i \<and> mb_account_id x = ?a \<and> mb_role x \<in> set PORTAL_ROLES \<and> mb_account_id x \<in> set [?a]) (id_members db2)")
    case None
    then show ?thesis using assms(9,10,12) by (auto simp: find_None_all)
  next
    case (Some x)
    then show ?thesis using find_Some_in [OF Some] unique_member [OF assms(4) _ assms(9), of x] assms(10) by simp
  qed
  then have "update_portal_member_role rt now' [?a] ?a i r (Some user') db2 = Inl (IdentityAuditError AuditEventConflictError)"
    by (simp add: update_portal_member_role_def c)
  moreover have "ctx = single_account ?a" using assms(5,6,11) by (auto simp: account_admin_guard_Inr)
  ultimately show ?thesis using assms(5,13) r request_account_named [OF assms(11)]
    by (simp add: portal_role_route_def single_account_def committed_def)
qed

theorem role_change_by_other_admin_fails_witness:
  "portal_role_route True no_session take_first ledger_runtime 9 (as_user i_second) m_third promote_body
     (promoted_tenancy\<lparr>id_members := id_members sample_tenancy\<rparr>)
   = (promoted_tenancy\<lparr>id_members := id_members sample_tenancy\<rparr>, IdentityThrown (IdentityAuditError AuditEventConflictError))"
proof -
  let ?db = "promoted_tenancy\<lparr>id_members := id_members sample_tenancy\<rparr>"
  have "?db = sample_tenancy\<lparr>id_audit := id_audit promoted_tenancy\<rparr>" by (simp add: promoted_tenancy_def sample_tenancy_def)
  then have ok: "tenancy_ok ?db" using sample_tenancy_ok by simp
  show ?thesis
    by (rule role_change_by_other_admin_fails [OF third_promoted _ _ ok sample_admins(2) [OF refl], of "sample_member m_third i_third ''account_viewer''"])
      (simp_all add: promoted_tenancy_def sample_tenancy_def sample_member_def sample_uuids sample_uuids [unfolded sample_ids] promote_body_def text_of_def PORTAL_ROLES_def
        request_identity_def request_account_def read_header_def truthy_def as_user_def i_account_def i_first_def i_second_def)
qed

end
