(* ===== verification/Spec2Isabelle.thy ===== *)
theory Spec2Isabelle
  imports Audit_Properties Rubric_Properties Shared Workflow_Theorems Payment_Theorems Job_Theorems Replay_Theorems Rule_Theorems Dispute_Theorems Identity_Theorems
begin

text \<open>
  A verification development of the freight auditor (four13co/freight-auditor, TypeScript).

  THE PROGRAM. The service audits freight invoices. An EDI 210 or 310 document is parsed into an
  invoice with charge facts (src/modules/ingestion); the evaluator (src/modules/evaluator) builds a
  bundle of facts from it, runs the gating criteria of a rubric, rejects the invoice when one of them
  does not pass, and else scores it into findings and a scorecard. Rubrics are resolved from layered,
  versioned tables (src/modules/rubric-resolver), rules are expressions of a small predicate language
  with a governed life cycle (src/modules/rule-engine). A run is stored with the pins that make it
  replayable (src/modules/audit-ledger) and passes the payment gate (src/modules/payments). Analysts
  accept findings and dispute them with the carrier (src/modules/disputes, src/modules/findings),
  accepted disputes become claims whose recoveries are tracked to the cent (src/modules/claims).
  Deferred work runs through workflow commands, an outbox and a job queue (src/modules/workflow,
  src/jobs). Every module writes its events to one append-only ledger. Users reach an account's data
  through memberships (src/modules/identity).

  HOW IT IS MODELLED. Every operation is an executable function on a record of the tables it uses:
  a table is a list of rows in insertion order, a row a record, a nullable column an option. A function
  that may throw answers a sum, the error on the left; a transaction that throws leaves the tables as
  they were. The identifiers the database generates and the clock are arguments, and so is what other
  transactions do between two statements where the source leaves a gap (between, others).
  Money columns numeric(18,4) are integers of ten-thousandths below 10^18 in absolute value; instants
  are milliseconds; strings are lists of Latin-1 code units; row-level security is the list of visible
  accounts.

  PARAMETERS. Code that is not in the repository is an argument, and what the proofs use of it a
  locale: decimal.js (Decimal_Lib, locales decimal_laws and fixed_notation, interpreted on an exact
  decimal type), the locale comparison, SHA-256 and number printing (record runtime), the validators
  of zod (record zod_lib), pg-boss (record boss_lib), toISOString, the object store, UTF-8 decoding
  and the regular expressions of PostgreSQL, the session check of better-auth, and the row an
  unordered LIMIT 1 answers.

  THEORIES, in the order they build on one another.
    Prelude, Decimal_Lib, Sql_Tables, Money_Columns, Idempotent_Writes - results and their automation,
      JavaScript strings and sorting, the decimal interface, tables and ORDER BY, amounts of columns,
      and the contract that the append-only writers share (locale idempotent_write, interpreted by the
      audit ledger, the rule transitions, the workflow commands and the dispute communications).
    Rule_Interpreter - ast.ts and interpreter.ts: evaluation is total and three-valued.
    Edi_Parser - x12.ts, parse-210.ts, parse-310.ts, edi-envelope.ts, charge-fact.ts: round trip with a
      printer, exact footing sums.
    Canonical_Json, Audit_Json - canonicalJson, snapshot.ts and the stored documents: decoding inverts
      encoding.
    Audit_Evaluator, Audit_Correctness, Audit_Properties - fact-bundle.ts, evaluate-invoice.ts and the
      two rubrics: rejection exactly on failing gates, exact totals, no throw on parsed documents.
    Rubric_Resolver, Rubric_Correctness, Rubric_Properties - the cascade, its verbs, the prover for
      tightenings, the bitemporal selectors.
    Shared - identifiers and keyset pagination. Audit_Ledger - write-audit-event.ts.
    Rule_Lifecycle, Rule_Governance, Rule_Properties, Rule_Evidence, Rule_Theorems - versions of rules,
      promotion under dual control, quarantine, backtests, the governance routes, and what every run of
      them keeps: faithful version chains, and a stored passing backtest or a second analyst behind each
      activation.
    Job_Queue, Job_Theorems, Workflow, Workflow_Jobs, Workflow_Properties, Workflow_Theorems - job
      contracts and typed payloads, the claim cycle of commands and messages, the scans.
    Audit_Tables, Audit_Persistence, Invoice_Ingestion, Ingestion_Properties, Replay_Properties,
      Duplicate_Detection, Replay_Theorems - storing a run, ingesting a document, replaying a run. That
      documents, manifests, rule versions and contract versions are only added to (migration 0010 and
      0019 grant no UPDATE or DELETE) is what a later replay rests on.
    Payments, Payment_Properties, Payment_Theorems - the payment gate.
    Claims, Claim_Reports, Claim_Aging, Claim_Properties, Claim_Runs, Claim_Consistency, Claim_Theorems -
      claims, recoveries, reports and deadlines, with the accounting invariant of every run.
    Disputes, Dispute_Routes, Dispute_Properties, Dispute_Runs, Dispute_System, Dispute_Messages,
      Dispute_Theorems - disputes and their delivery on the tables of the claims and workflow modules;
      the step relation of the whole system, from audited findings to recovered money.
    Identity, Access, Identity_Routes, Identity_Properties, Identity_Runs, Identity_Theorems - accounts, clients,
      vendors and memberships, the guards of the routes, and the routes that administer them.

  BOUNDS. Decimal arithmetic is exact up to twenty significant digits, the precision of decimal.js:
  a claim is below 10^18 ten-thousandths and at most 500 findings of less than 2 * 10^17 each are
  added for a dispute, so every sum the proofs speak of is exact (findings_ok). Fuel occurs only in
  walk_pages, which follows cursors; one request per row suffices, and walk_pages_complete says so.
  Workflow rows are attempted at most five times (MAX_WORKFLOW_COMMAND_ATTEMPTS); stale_claims_drain
  bounds the ticks that empty the stale rows.

  NOT MODELLED. The web client (src/web), the wiring of HTTP routes other than those named above,
  logging, metrics and the connection pool, which have no state of their own; the extraction of
  contracts by language models and document services (src/modules/contracts, src/modules/discovery),
  whose content is the answer of an outside service; the resolvers of reference data from object
  stores and public feeds; the drafts of invoices typed by hand, the reading of PDF and spreadsheet
  files, SFTP intake; exports; the expected-charge tables of src/modules/rate-engine, which no module
  calls; branding; the prose of the evidence packets.
\<close>

end
